(* ===== verification/Oraja_Prelude.thy ===== *)
theory Oraja_Prelude
  imports Complex_Main
    "HOL-Library.Word" "HOL-Library.Char_ord" "HOL-Library.List_Lexorder"
    "HOL-Library.Product_Lexorder" "HOL-Library.AList"
begin

text \<open>
  Prelude of the development: the Python values, exceptions and control flow every
  component is written in, and the generic lemmas their proofs share.

  A Python \<open>str\<close> is the \<open>string\<close> of its UTF-8 bytes: encoding it is the identity,
  the order of byte strings is the order of code points, and the only strings whose
  length or characters the code inspects are ASCII. A Python \<open>float\<close> is a real
  number or one of the three non-finite values: rounding is not modelled. An exception is the left
  of a sum, so every \<open>raise\<close> of the source is a branch of the model.
\<close>

named_theorems py_simps
named_theorems table_simps
named_theorems errs

subsection \<open>Exceptions and results\<close>

datatype py_exn =
    TypeError
  | ValueError string
  | OverflowError string
  | KeyError string
  | IndexError
  | RuntimeError string
  | FileNotFoundError
  | OSError string
  | SqliteError string
  | DomainValidationError string
  | MenuBuildError string
  | RevisionConflictError string
  | SourceChangedDuringRead
  | SourceChangedDuringBackfill
  | SnapshotPairMismatch string
  | ReaderSchemaError string
  | ReplayReadError string
  | ReplayChangedDuringRead
  | SongInfoDecodeError string
  | ClassificationError string
  | ManifestError string string
  | AttributeError string
  | TableFetchError string
  | ContainerError string bool int

type_synonym 'a py = "py_exn + 'a"

definition py_bind :: "'a py \<Rightarrow> ('a \<Rightarrow> 'b py) \<Rightarrow> 'b py" where
  "py_bind r f = (case r of Inl e \<Rightarrow> Inl e | Inr x \<Rightarrow> f x)"

text \<open>\<open>if bad: raise e\<close>, a statement without a value.\<close>

definition raise_if :: "bool \<Rightarrow> py_exn \<Rightarrow> unit py" where
  "raise_if b e = (if b then Inl e else Inr ())"

text \<open>A list comprehension whose element expression may raise, left to right.\<close>

fun py_mapM :: "('a \<Rightarrow> 'b py) \<Rightarrow> 'a list \<Rightarrow> 'b list py" where
  "py_mapM f [] = Inr []"
| "py_mapM f (x # xs) = py_bind (f x) (\<lambda>y. py_bind (py_mapM f xs) (\<lambda>ys. Inr (y # ys)))"

text \<open>A \<open>for\<close> loop that threads a state and may raise.\<close>

fun py_for :: "('s \<Rightarrow> 'a \<Rightarrow> 's py) \<Rightarrow> 's \<Rightarrow> 'a list \<Rightarrow> 's py" where
  "py_for f s [] = Inr s"
| "py_for f s (x # xs) = py_bind (f s x) (\<lambda>s'. py_for f s' xs)"

lemma py_bind_simps [simp]:
  "py_bind (Inl e) f = Inl e" "py_bind (Inr x) f = f x"
  by (simp_all add: py_bind_def)

lemma py_bind_Inr_iff [py_simps]:
  "py_bind r f = Inr y \<longleftrightarrow> (\<exists>x. r = Inr x \<and> f x = Inr y)"
  by (cases r) simp_all

lemma py_bind_Inl_iff:
  "py_bind r f = Inl e \<longleftrightarrow> r = Inl e \<or> (\<exists>x. r = Inr x \<and> f x = Inl e)"
  by (cases r) simp_all

lemma raise_if_Inr [py_simps]: "raise_if b e = Inr u \<longleftrightarrow> \<not> b"
  by (simp add: raise_if_def)

lemma raise_if_Inl: "raise_if b e = Inl e' \<longleftrightarrow> b \<and> e' = e"
  by (auto simp: raise_if_def)

lemma raise_if_simps [simp]: "raise_if True e = Inl e" "raise_if False e = Inr ()"
  by (simp_all add: raise_if_def)

lemma py_mapM_Inr_iff: "py_mapM f xs = Inr ys \<longleftrightarrow> map f xs = map Inr ys"
proof (induction xs arbitrary: ys)
  case Nil
  then show ?case by auto
next
  case (Cons x xs)
  then show ?case by (cases ys) (auto simp: py_bind_Inr_iff)
qed

lemma py_mapM_length: "py_mapM f xs = Inr ys \<Longrightarrow> length ys = length xs"
  by (metis length_map py_mapM_Inr_iff)

lemma py_mapM_nth:
  "py_mapM f xs = Inr ys \<Longrightarrow> i < length xs \<Longrightarrow> f (xs ! i) = Inr (ys ! i)"
  by (metis length_map nth_map py_mapM_Inr_iff)

lemma py_mapM_set:
  "py_mapM f xs = Inr ys \<Longrightarrow> y \<in> set ys \<longleftrightarrow> (\<exists>x\<in>set xs. f x = Inr y)"
proof (induction xs arbitrary: ys)
  case Nil
  then show ?case by simp
next
  case (Cons x xs)
  then show ?case by (auto simp: py_bind_Inr_iff)
qed

lemma py_for_append [py_simps]:
  "py_for f s (xs @ ys) = py_bind (py_for f s xs) (\<lambda>s'. py_for f s' ys)"
proof (induction xs arbitrary: s)
  case Nil
  then show ?case by simp
next
  case (Cons x xs)
  show ?case by (cases "f s x") (simp_all add: Cons.IH)
qed

text \<open>The loop rule: an invariant of the body holds when the loop ends.\<close>

lemma py_for_invariant:
  assumes "py_for f s xs = Inr t" and "P s"
    and "\<And>s x s'. x \<in> set xs \<Longrightarrow> P s \<Longrightarrow> f s x = Inr s' \<Longrightarrow> P s'"
  shows "P t"
  using assms
proof (induction xs arbitrary: s)
  case Nil
  then show ?case by simp
next
  case (Cons x xs)
  from Cons.prems(1) obtain s' where s': "f s x = Inr s'" "py_for f s' xs = Inr t"
    by (auto simp: py_bind_Inr_iff)
  have "P s'" using Cons.prems(2,3) s'(1) by auto
  then show ?case
    by (rule Cons.IH[OF s'(2)]) (use Cons.prems(3) in auto)
qed

text \<open>A loop whose body never raises is a plain fold.\<close>

lemma py_for_total: "py_for (\<lambda>s x. Inr (g s x)) s xs = Inr (foldl g s xs)"
  by (induction xs arbitrary: s) simp_all

subsection \<open>The exceptions a computation can raise\<close>

definition errs_in :: "(py_exn \<Rightarrow> bool) \<Rightarrow> 'a py \<Rightarrow> bool" where
  "errs_in Q r \<longleftrightarrow> (\<forall>e. r = Inl e \<longrightarrow> Q e)"

lemma errs_in_Inr [errs]: "errs_in Q (Inr x)"
  by (simp add: errs_in_def)

lemma errs_in_Inl [errs]: "Q e \<Longrightarrow> errs_in Q (Inl e)"
  by (simp add: errs_in_def)

lemma errs_in_raise_if [errs]: "(b \<Longrightarrow> Q e) \<Longrightarrow> errs_in Q (raise_if b e)"
  by (simp add: errs_in_def raise_if_def)

lemma errs_in_bind [errs]:
  "errs_in Q m \<Longrightarrow> (\<And>x. m = Inr x \<Longrightarrow> errs_in Q (f x)) \<Longrightarrow> errs_in Q (py_bind m f)"
  by (auto simp: errs_in_def py_bind_Inl_iff)

lemma errs_in_prod [errs]: "(\<And>a b. x = (a, b) \<Longrightarrow> errs_in Q (f a b)) \<Longrightarrow> errs_in Q (case x of (a, b) \<Rightarrow> f a b)"
  by (cases x) simp

lemma errs_in_if [errs]:
  "(b \<Longrightarrow> errs_in Q x) \<Longrightarrow> (\<not> b \<Longrightarrow> errs_in Q y) \<Longrightarrow> errs_in Q (if b then x else y)"
  by simp

lemma errs_in_option [errs]:
  "(x = None \<Longrightarrow> errs_in Q n) \<Longrightarrow> (\<And>y. x = Some y \<Longrightarrow> errs_in Q (s y)) \<Longrightarrow>
     errs_in Q (case x of None \<Rightarrow> n | Some y \<Rightarrow> s y)"
  by (cases x) simp_all

lemma errs_in_let [errs]: "errs_in Q (f x) \<Longrightarrow> errs_in Q (Let x f)"
  by simp

lemma errs_in_mapM [errs]: "(\<And>x. x \<in> set xs \<Longrightarrow> errs_in Q (f x)) \<Longrightarrow> errs_in Q (py_mapM f xs)"
  by (induction xs) (auto intro!: errs)

end
