(* ===== verification/Py_Values.thy ===== *)
theory Py_Values
  imports Oraja_Prelude
begin

text \<open>
  The dynamic values the source computes with: a row of a table and a decoded JSON
  document are \<open>pyval\<close>s, a dict is a list of pairs in insertion order. The
  built-in conversions \<open>int\<close>, \<open>str\<close> and \<open>bool\<close> are modelled with the exceptions
  they raise; \<open>repr\<close> and \<open>float.hex\<close> of values the code never looks into are
  fields of the runtime record \<open>runtime\<close>, as are the digests of \<open>hashlib\<close>.
\<close>

datatype pyfloat = Fin real | PosInf | NegInf | NotANumber

datatype pyval =
    PNone
  | PBool bool
  | PInt int
  | PFloat pyfloat
  | PBytes string
  | PStr string
  | PList "pyval list"
  | PDict "(string \<times> pyval) list"

type_synonym row = "(string \<times> pyval) list"

text \<open>Library functions the code treats as black boxes.\<close>

record runtime =
  sha256_hex :: "string \<Rightarrow> string"
  blake2b_fsid :: "8 word list \<Rightarrow> 8 word list"
  repr :: "pyval \<Rightarrow> string"
  float_hex :: "real \<Rightarrow> string"
  parse_float :: "string \<Rightarrow> pyfloat option"

text \<open>A runtime with concrete functions in every field, for the witnesses.\<close>

definition sample_runtime :: runtime where
  "sample_runtime = \<lparr>sha256_hex = (\<lambda>s. s), blake2b_fsid = (\<lambda>_. replicate 16 255),
     repr = (\<lambda>_. ''?''), float_hex = (\<lambda>_. ''0x1p+0''),
     parse_float = (\<lambda>_. None)\<rparr>"

subsection \<open>Characters and digits\<close>

definition is_digit :: "char \<Rightarrow> bool" where
  "is_digit c \<longleftrightarrow> CHR ''0'' \<le> c \<and> c \<le> CHR ''9''"

definition digit_of :: "char \<Rightarrow> int" where
  "digit_of c = int (of_char c) - 48"

definition digit_char :: "nat \<Rightarrow> char" where
  "digit_char d = char_of (48 + d)"

definition is_space :: "char \<Rightarrow> bool" where
  "is_space c \<longleftrightarrow> c \<in> set [CHR '' '', CHR 0x09, CHR 0x0A, CHR 0x0B, CHR 0x0C, CHR 0x0D,
     CHR 0x1C, CHR 0x1D, CHR 0x1E, CHR 0x1F]"

text \<open>\<open>str.strip()\<close> and \<open>str.lower()\<close> on ASCII.\<close>

definition py_strip :: "string \<Rightarrow> string" where
  "py_strip s = rev (dropWhile is_space (rev (dropWhile is_space s)))"

definition lower_char :: "char \<Rightarrow> char" where
  "lower_char c = (if CHR ''A'' \<le> c \<and> c \<le> CHR ''Z'' then char_of ((of_char c :: nat) + 32) else c)"

definition py_lower :: "string \<Rightarrow> string" where
  "py_lower s = map lower_char s"

definition is_hex_lower :: "char \<Rightarrow> bool" where
  "is_hex_lower c \<longleftrightarrow> is_digit c \<or> (CHR ''a'' \<le> c \<and> c \<le> CHR ''f'')"

subsection \<open>Decimal rendering and parsing\<close>

fun show_nat :: "nat \<Rightarrow> string" where
  "show_nat n = (if n < 10 then [digit_char n] else show_nat (n div 10) @ [digit_char (n mod 10)])"

declare show_nat.simps [simp del]

definition show_int :: "int \<Rightarrow> string" where
  "show_int i = (if i < 0 then CHR ''-'' # show_nat (nat (- i)) else show_nat (nat i))"

text \<open>Digits with single underscores between them; the flag says that the character
  before was a digit.\<close>

fun scan_digits :: "bool \<Rightarrow> int \<Rightarrow> string \<Rightarrow> int option" where
  "scan_digits after acc [] = (if after then Some acc else None)"
| "scan_digits after acc (c # cs) =
     (if is_digit c then scan_digits True (10 * acc + digit_of c) cs
      else if c = CHR ''_'' \<and> after then scan_digits False acc cs
      else None)"

definition parse_int :: "string \<Rightarrow> int option" where
  "parse_int s =
     (let t = py_strip s in
      case t of
        [] \<Rightarrow> None
      | c # cs \<Rightarrow>
          if c = CHR ''-'' then map_option uminus (scan_digits False 0 cs)
          else if c = CHR ''+'' then scan_digits False 0 cs
          else scan_digits False 0 t)"

subsection \<open>Conversions\<close>

definition truncate_real :: "real \<Rightarrow> int" where
  "truncate_real x = (if 0 \<le> x then \<lfloor>x\<rfloor> else \<lceil>x\<rceil>)"

fun py_int :: "pyval \<Rightarrow> int py" where
  "py_int (PInt i) = Inr i"
| "py_int (PBool b) = Inr (of_bool b)"
| "py_int (PFloat (Fin x)) = Inr (truncate_real x)"
| "py_int (PFloat NotANumber) = Inl (ValueError ''cannot convert float NaN to integer'')"
| "py_int (PFloat _) = Inl (OverflowError ''cannot convert float infinity to integer'')"
| "py_int (PStr s) = (case parse_int s of Some i \<Rightarrow> Inr i | None \<Rightarrow> Inl (ValueError ''int''))"
| "py_int (PBytes s) = (case parse_int s of Some i \<Rightarrow> Inr i | None \<Rightarrow> Inl (ValueError ''int''))"
| "py_int _ = Inl TypeError"

fun py_str :: "runtime \<Rightarrow> pyval \<Rightarrow> string" where
  "py_str rt (PStr s) = s"
| "py_str rt (PInt i) = show_int i"
| "py_str rt (PBool b) = (if b then ''True'' else ''False'')"
| "py_str rt PNone = ''None''"
| "py_str rt v = repr rt v"

text \<open>\<open>float(v)\<close>.\<close>

fun py_float :: "runtime \<Rightarrow> pyval \<Rightarrow> pyfloat py" where
  "py_float rt (PBool b) = Inr (Fin (of_bool b))"
| "py_float rt (PInt i) = Inr (Fin (real_of_int i))"
| "py_float rt (PFloat f) = Inr f"
| "py_float rt (PStr s) =
     (case parse_float rt s of
        Some f \<Rightarrow> Inr f | None \<Rightarrow> Inl (ValueError ''could not convert string to float''))"
| "py_float rt _ = Inl TypeError"

text \<open>Truth value, as in \<open>x or 0\<close>.\<close>

fun truthy :: "pyval \<Rightarrow> bool" where
  "truthy PNone = False"
| "truthy (PBool b) = b"
| "truthy (PInt i) = (i \<noteq> 0)"
| "truthy (PFloat f) = (f \<noteq> Fin 0)"
| "truthy (PBytes s) = (s \<noteq> [])"
| "truthy (PStr s) = (s \<noteq> [])"
| "truthy (PList xs) = (xs \<noteq> [])"
| "truthy (PDict xs) = (xs \<noteq> [])"

text \<open>\<open>row[k]\<close> and \<open>row.get(k)\<close>.\<close>

definition item :: "row \<Rightarrow> string \<Rightarrow> pyval py" where
  "item r k = (case map_of r k of Some v \<Rightarrow> Inr v | None \<Rightarrow> Inl (KeyError k))"

definition get_item :: "row \<Rightarrow> string \<Rightarrow> pyval" where
  "get_item r k = (case map_of r k of Some v \<Rightarrow> v | None \<Rightarrow> PNone)"

definition int_item :: "row \<Rightarrow> string \<Rightarrow> int py" where
  "int_item r k = py_bind (item r k) py_int"

definition str_item :: "runtime \<Rightarrow> row \<Rightarrow> string \<Rightarrow> string py" where
  "str_item rt r k = py_bind (item r k) (\<lambda>v. Inr (py_str rt v))"

text \<open>\<open>int(row.get(k) or 0)\<close>.\<close>

definition int_or_zero :: "row \<Rightarrow> string \<Rightarrow> int py" where
  "int_or_zero r k = (let v = get_item r k in if truthy v then py_int v else Inr 0)"

subsection \<open>Facts about decimal numbers\<close>

lemma of_char_digit [simp]: "d < 10 \<Longrightarrow> (of_char (digit_char d) :: nat) = 48 + d"
  by (simp add: digit_char_def)

lemma digit_of_digit_char [simp]: "d < 10 \<Longrightarrow> digit_of (digit_char d) = int d"
  by (simp add: digit_of_def)

lemma is_digit_digit_char [simp]: "d < 10 \<Longrightarrow> is_digit (digit_char d)"
  by (simp add: is_digit_def less_eq_char_def)

lemma is_digit_not_space: "is_digit c \<Longrightarrow> \<not> is_space c"
  by (auto simp: is_digit_def is_space_def less_eq_char_def)

lemma show_nat_digits: "c \<in> set (show_nat n) \<Longrightarrow> is_digit c"
proof (induction n rule: show_nat.induct)
  case (1 n)
  show ?case
  proof (cases "n < 10")
    case True
    then show ?thesis using "1.prems" by (simp add: show_nat.simps[of n])
  next
    case False
    then have "c \<in> set (show_nat (n div 10)) \<or> c = digit_char (n mod 10)"
      using "1.prems" by (auto simp: show_nat.simps[of n])
    then show ?thesis using "1.IH" False by auto
  qed
qed

lemma show_nat_nonempty [simp]: "show_nat n \<noteq> []"
  by (subst show_nat.simps) simp

lemma scan_digits_append:
  "(\<And>c. c \<in> set xs \<Longrightarrow> is_digit c) \<Longrightarrow> xs \<noteq> [] \<Longrightarrow> scan_digits b acc (xs @ ys) =
     scan_digits True (foldl (\<lambda>a c. 10 * a + digit_of c) acc xs) ys"
proof (induction xs arbitrary: b acc)
  case Nil
  then show ?case by simp
next
  case (Cons x xs)
  then show ?case by (cases "xs = []") auto
qed

lemma show_nat_value: "foldl (\<lambda>a c. 10 * a + digit_of c) 0 (show_nat n) = int n"
proof (induction n rule: show_nat.induct)
  case (1 n)
  show ?case
  proof (cases "n < 10")
    case True
    then show ?thesis by (simp add: show_nat.simps[of n])
  next
    case False
    then have "foldl (\<lambda>a c. 10 * a + digit_of c) 0 (show_nat n) = 10 * int (n div 10) + int (n mod 10)"
      using 1 by (simp add: show_nat.simps[of n])
    also have "\<dots> = int n" by presburger
    finally show ?thesis .
  qed
qed

lemma scan_digits_show_nat [simp]: "scan_digits b 0 (show_nat n) = Some (int n)"
  using scan_digits_append[of "show_nat n" b 0 "[]"]
  by (simp add: show_nat_digits show_nat_value)

lemma py_strip_id:
  assumes "s \<noteq> []" and "\<not> is_space (hd s)" and "\<not> is_space (last s)"
  shows "py_strip s = s"
proof -
  have "dropWhile is_space s = s"
    using assms by (cases s) auto
  moreover have "dropWhile is_space (rev s) = rev s"
    using assms by (cases "rev s") (auto simp: last_rev[symmetric] hd_rev)
  ultimately show ?thesis by (simp add: py_strip_def)
qed

lemma show_nat_ends:
  "is_digit (hd (show_nat n))" "is_digit (last (show_nat n))"
  using show_nat_digits[of "hd (show_nat n)" n] show_nat_digits[of "last (show_nat n)" n]
  by simp_all

lemma parse_show_int [simp]: "parse_int (show_int i) = Some i"
proof (cases "i < 0")
  case True
  have "py_strip (show_int i) = show_int i"
    using True is_digit_not_space[OF show_nat_ends(2)[of "nat (- i)"]]
    by (intro py_strip_id) (auto simp: show_int_def is_space_def)
  then show ?thesis using True by (simp add: parse_int_def show_int_def)
next
  case False
  have strip: "py_strip (show_int i) = show_int i"
    using False is_digit_not_space[OF show_nat_ends(1)] is_digit_not_space[OF show_nat_ends(2)]
    by (intro py_strip_id) (auto simp: show_int_def)
  obtain c cs where c: "show_nat (nat i) = c # cs"
    by (cases "show_nat (nat i)") auto
  have "is_digit c" using show_nat_ends(1)[of "nat i"] c by simp
  then have "c \<noteq> CHR ''-''" "c \<noteq> CHR ''+''"
    by (auto simp: is_digit_def less_eq_char_def)
  moreover have "scan_digits False 0 (c # cs) = Some i"
    using scan_digits_show_nat[of False "nat i"] False c by simp
  ultimately show ?thesis using False strip
    by (simp add: parse_int_def show_int_def c del: scan_digits.simps)
qed

lemma show_int_inject [simp]: "show_int i = show_int j \<longleftrightarrow> i = j"
  by (metis option.inject parse_show_int)

lemma int_item_Inr [py_simps]:
  "int_item r k = Inr i \<longleftrightarrow> (\<exists>v. map_of r k = Some v \<and> py_int v = Inr i)"
  by (auto simp: int_item_def item_def py_bind_Inr_iff split: option.splits)

lemma str_item_Inr [py_simps]:
  "str_item rt r k = Inr s \<longleftrightarrow> (\<exists>v. map_of r k = Some v \<and> s = py_str rt v)"
  by (auto simp: str_item_def item_def py_bind_Inr_iff split: option.splits)

end
