(* ===== verification/Canonical.thy ===== *)
theory Canonical
  imports Py_Values
begin

text \<open>
  The canonical payload of \<open>collect/normalize.py\<close>: a row rendered as compact JSON, one
  \<open>[column, [type, text]]\<close> entry per column in sorted order. The rendering of JSON strings
  is written out; the theory proves that it loses nothing, so two rows share a payload
  only if they hold the same values (or SHA-256 collides).
\<close>

subsection \<open>Hexadecimal and JSON strings\<close>

definition hex_digit :: "nat \<Rightarrow> char" where
  "hex_digit n = (if n < 10 then digit_char n else char_of (87 + n))"

definition hex_byte :: "char \<Rightarrow> string" where
  "hex_byte c = [hex_digit (of_char c div 16), hex_digit (of_char c mod 16)]"

definition bytes_hex :: "string \<Rightarrow> string" where
  "bytes_hex s = concat (map hex_byte s)"

text \<open>One character inside a JSON string, with \<open>ensure_ascii=False\<close>.\<close>

definition json_escape :: "char \<Rightarrow> string" where
  "json_escape c =
     (if c = CHR 0x22 then [CHR 0x5C, CHR 0x22]
      else if c = CHR 0x5C then [CHR 0x5C, CHR 0x5C]
      else if c = CHR 0x0A then [CHR 0x5C, CHR ''n'']
      else if c = CHR 0x0D then [CHR 0x5C, CHR ''r'']
      else if c = CHR 0x09 then [CHR 0x5C, CHR ''t'']
      else if c = CHR 0x0C then [CHR 0x5C, CHR ''f'']
      else if c = CHR 0x08 then [CHR 0x5C, CHR ''b'']
      else if of_char c < (32 :: nat) then [CHR 0x5C, CHR ''u'', CHR ''0'', CHR ''0''] @ hex_byte c
      else [c])"

definition json_string :: "string \<Rightarrow> string" where
  "json_string s = CHR 0x22 # concat (map json_escape s) @ [CHR 0x22]"

subsection \<open>Canonical values\<close>

datatype atom = ANull | ABool bool | AText string

fun float_text :: "runtime \<Rightarrow> pyfloat \<Rightarrow> string" where
  "float_text rt NotANumber = ''nan''"
| "float_text rt PosInf = ''inf''"
| "float_text rt NegInf = ''-inf''"
| "float_text rt (Fin x) = (if x = 0 then ''0'' else float_hex rt x)"

fun canonical_value :: "runtime \<Rightarrow> pyval \<Rightarrow> string \<times> atom" where
  "canonical_value rt PNone = (''null'', ANull)"
| "canonical_value rt (PBool b) = (''bool'', ABool b)"
| "canonical_value rt (PInt i) = (''int'', AText (show_int i))"
| "canonical_value rt (PFloat f) = (''float'', AText (float_text rt f))"
| "canonical_value rt (PBytes s) = (''bytes'', AText (bytes_hex s))"
| "canonical_value rt (PStr s) = (''text'', AText s)"
| "canonical_value rt (PList xs) = (''list'', AText (repr rt (PList xs)))"
| "canonical_value rt (PDict d) = (''dict'', AText (repr rt (PDict d)))"

fun json_atom :: "atom \<Rightarrow> string" where
  "json_atom ANull = ''null''"
| "json_atom (ABool b) = (if b then ''true'' else ''false'')"
| "json_atom (AText s) = json_string s"

definition json_entry :: "runtime \<Rightarrow> string \<Rightarrow> pyval \<Rightarrow> string" where
  "json_entry rt k v =
     (case canonical_value rt v of (tag, a) \<Rightarrow>
        CHR ''['' # json_string k @ CHR '','' # CHR ''['' # json_string tag @ CHR '','' #
        json_atom a @ [CHR '']'', CHR '']''])"

fun join_commas :: "string list \<Rightarrow> string" where
  "join_commas [] = []"
| "join_commas [x] = x"
| "join_commas (x # y # ys) = x @ CHR '','' # join_commas (y # ys)"

definition canonical_payload :: "runtime \<Rightarrow> row \<Rightarrow> string" where
  "canonical_payload rt r =
     CHR ''['' # join_commas (map (\<lambda>k. json_entry rt k (get_item r k)) (sort (map fst r))) @ [CHR '']'']"

definition payload_hash :: "runtime \<Rightarrow> row \<Rightarrow> string" where
  "payload_hash rt r = sha256_hex rt (canonical_payload rt r)"

subsection \<open>The rendering of strings is prefix-free\<close>

lemma of_char_hex_digit:
  "n < 16 \<Longrightarrow> (of_char (hex_digit n) :: nat) = (if n < 10 then 48 + n else 87 + n)"
  by (simp add: hex_digit_def)

lemma hex_digit_inject: "m < 16 \<Longrightarrow> n < 16 \<Longrightarrow> hex_digit m = hex_digit n \<Longrightarrow> m = n"
proof -
  assume "m < 16" "n < 16" "hex_digit m = hex_digit n"
  then have "(of_char (hex_digit m) :: nat) = of_char (hex_digit n)" by simp
  then show "m = n" using \<open>m < 16\<close> \<open>n < 16\<close>
    by (simp add: of_char_hex_digit split: if_splits)
qed

lemma hex_nibbles_inject:
  assumes "hex_digit (of_char c div 16) = hex_digit (of_char d div 16)"
    and "hex_digit (of_char c mod 16) = hex_digit (of_char d mod 16)"
  shows "c = d"
proof -
  have lt: "(of_char x :: nat) div 16 < 16" for x
    using nat_of_char_less_256[of x] by (simp add: div_less_iff_less_mult)
  have "(of_char c :: nat) div 16 = of_char d div 16"
    by (rule hex_digit_inject[OF lt lt assms(1)])
  moreover have "(of_char c :: nat) mod 16 = of_char d mod 16"
    by (rule hex_digit_inject[OF _ _ assms(2)]) simp_all
  ultimately have "(of_char c :: nat) = of_char d" by (metis div_mult_mod_eq)
  then show ?thesis by simp
qed

lemma hex_byte_inject [simp]: "hex_byte c = hex_byte d \<longleftrightarrow> c = d"
  by (auto simp: hex_byte_def intro: hex_nibbles_inject)

lemma length_hex_byte [simp]: "length (hex_byte c) = 2"
  by (simp add: hex_byte_def)

lemma bytes_hex_inject: "bytes_hex s = bytes_hex t \<Longrightarrow> s = t"
proof (induction s arbitrary: t)
  case Nil
  then show ?case by (cases t) (auto simp: bytes_hex_def hex_byte_def)
next
  case (Cons c s)
  then obtain d t' where t: "t = d # t'"
    by (cases t) (auto simp: bytes_hex_def hex_byte_def)
  have "hex_byte c @ bytes_hex s = hex_byte d @ bytes_hex t'"
    using Cons.prems by (simp add: t bytes_hex_def)
  then have "hex_byte c = hex_byte d \<and> bytes_hex s = bytes_hex t'"
    by (simp only: append_eq_append_conv length_hex_byte disjI1)
  then show ?case using Cons.IH by (simp add: t)
qed

lemma json_escape_prefix_free: "json_escape c @ r = json_escape d @ u \<Longrightarrow> c = d \<and> r = u"
  unfolding json_escape_def
  by (auto split: if_splits simp: hex_byte_def intro: hex_nibbles_inject)

lemma json_escape_not_quote:
  "json_escape c @ r \<noteq> CHR 0x22 # u" "CHR 0x22 # u \<noteq> json_escape c @ r"
  by (auto simp: json_escape_def)

lemma json_chars_prefix_free:
  "concat (map json_escape s) @ CHR 0x22 # r = concat (map json_escape t) @ CHR 0x22 # u \<Longrightarrow>
     s = t \<and> r = u"
proof (induction s arbitrary: t)
  case Nil
  then show ?case by (cases t) (auto simp: json_escape_not_quote)
next
  case (Cons c s)
  then obtain d t' where t: "t = d # t'"
    by (cases t) (auto simp: json_escape_not_quote)
  from Cons.prems have "json_escape c @ concat (map json_escape s) @ CHR 0x22 # r =
      json_escape d @ concat (map json_escape t') @ CHR 0x22 # u"
    by (simp add: t)
  from json_escape_prefix_free[OF this] Cons.IH show ?case by (auto simp: t)
qed

lemma json_string_prefix_free [simp]:
  "json_string s @ r = json_string t @ u \<longleftrightarrow> s = t \<and> r = u"
  by (auto simp: json_string_def dest: json_chars_prefix_free)

lemma json_atom_prefix_free:
  "json_atom a @ CHR '']'' # r = json_atom b @ CHR '']'' # u \<Longrightarrow> a = b \<and> r = u"
proof (cases a; cases b)
  fix s t
  assume "json_atom a @ CHR '']'' # r = json_atom b @ CHR '']'' # u" "a = AText s" "b = AText t"
  then show "a = b \<and> r = u" by simp
qed (auto simp: json_string_def split: if_splits)

subsection \<open>Values of the SQLite storage classes\<close>

text \<open>What a cell of a SQLite row can hold; the floats are drawn from a set on which
  \<open>float.hex\<close> is known to be injective.\<close>

fun storable :: "real set \<Rightarrow> pyval \<Rightarrow> bool" where
  "storable F (PFloat (Fin x)) = (x = 0 \<or> x \<in> F)"
| "storable F (PList xs) = False"
| "storable F (PDict d) = False"
| "storable F v = True"

text \<open>\<open>float.hex\<close> on the non-zero floats \<open>F\<close>: injective, and never one of the four
  special renderings.\<close>

definition hex_faithful :: "runtime \<Rightarrow> real set \<Rightarrow> bool" where
  "hex_faithful rt F \<longleftrightarrow> inj_on (float_hex rt) F \<and>
     (\<forall>x\<in>F. float_hex rt x \<notin> {''0'', ''nan'', ''inf'', ''-inf''})"

lemma float_text_inject:
  assumes "hex_faithful rt F" "storable F (PFloat f)" "storable F (PFloat g)"
    and "float_text rt f = float_text rt g"
  shows "f = g"
  using assms by (cases f; cases g) (auto simp: hex_faithful_def inj_on_def split: if_splits)

lemma canonical_value_inject:
  assumes "hex_faithful rt F" "storable F v" "storable F w"
    and "canonical_value rt v = canonical_value rt w"
  shows "v = w"
  using assms
  by (cases v; cases w) (auto dest: bytes_hex_inject float_text_inject[of rt F])

lemma json_entry_prefix_free:
  assumes "hex_faithful rt F" "storable F v" "storable F w"
    and "json_entry rt k v @ r = json_entry rt l w @ u"
  shows "k = l \<and> v = w \<and> r = u"
proof -
  obtain tag a where a: "canonical_value rt v = (tag, a)" by fastforce
  obtain tag' b where b: "canonical_value rt w = (tag', b)" by fastforce
  from assms(4) have "k = l" "tag = tag'"
    "json_atom a @ CHR '']'' # CHR '']'' # r = json_atom b @ CHR '']'' # CHR '']'' # u"
    by (simp_all add: json_entry_def a b)
  moreover from json_atom_prefix_free[OF this(3)] have "a = b \<and> r = u" by simp
  ultimately show ?thesis using canonical_value_inject[OF assms(1-3)] by (simp add: a b)
qed

text \<open>A comma-separated list of entries inside brackets determines its entries.\<close>

lemma join_entries_inject:
  assumes "hex_faithful rt F"
    and "\<And>e. e \<in> set es \<Longrightarrow> storable F (snd e)" and "\<And>e. e \<in> set fs \<Longrightarrow> storable F (snd e)"
    and "join_commas (map (\<lambda>e. json_entry rt (fst e) (snd e)) es) @ [CHR '']''] =
         join_commas (map (\<lambda>e. json_entry rt (fst e) (snd e)) fs) @ [CHR '']'']"
  shows "es = fs"
  using assms(2-4)
proof (induction es arbitrary: fs)
  case Nil
  then show ?case
    by (cases fs; cases "tl fs") (auto simp: json_entry_def split: prod.splits)
next
  case (Cons e es)
  note prems = Cons.prems and IH = Cons.IH
  obtain f fs' where fs: "fs = f # fs'"
    using prems(3) by (cases fs; cases es) (auto simp: json_entry_def split: prod.splits)
  define tl where "tl xs = (case xs of [] \<Rightarrow> [CHR '']'']
      | _ \<Rightarrow> CHR '','' # join_commas (map (\<lambda>e. json_entry rt (fst e) (snd e)) xs) @ [CHR '']''])"
    for xs
  have split: "join_commas (map (\<lambda>e. json_entry rt (fst e) (snd e)) (x # xs)) @ [CHR '']''] =
      json_entry rt (fst x) (snd x) @ tl xs" for x xs
    by (cases xs) (simp_all add: tl_def)
  have "json_entry rt (fst e) (snd e) @ tl es = json_entry rt (fst f) (snd f) @ tl fs'"
    using prems(3) unfolding fs by (simp only: split)
  from json_entry_prefix_free[OF assms(1) _ _ this] have "e = f" and tls: "tl es = tl fs'"
    using prems(1,2) by (auto simp: fs prod_eq_iff)
  have "es = fs'"
    using tls IH[of fs'] prems(1,2) by (cases es; cases fs') (auto simp: tl_def fs)
  then show ?case using \<open>e = f\<close> by (simp add: fs)
qed

text \<open>C19: the canonical payload is type-preserving and complete: two rows with storable
  values have the same payload exactly if every column holds the same value in both. A changed
  column of any storage class therefore always changes the payload the collector compares.\<close>

theorem canonical_payload_faithful:
  assumes "hex_faithful rt F"
    and "\<forall>v\<in>snd ` set r. storable F v" and "\<forall>v\<in>snd ` set s. storable F v"
    and "distinct (map fst r)" and "distinct (map fst s)"
  shows "canonical_payload rt r = canonical_payload rt s \<longleftrightarrow> map_of r = map_of s"
proof
  define ent where "ent q = map (\<lambda>k. (k, get_item q k)) (sort (map fst q))" for q :: row
  have payload: "canonical_payload rt q =
      CHR ''['' # join_commas (map (\<lambda>e. json_entry rt (fst e) (snd e)) (ent q)) @ [CHR '']'']" for q
    by (simp add: canonical_payload_def ent_def o_def)
  have storable: "storable F (snd e)" if "e \<in> set (ent q)" "\<forall>v\<in>snd ` set q. storable F v" for e q
    using that by (force simp: ent_def get_item_def split: option.splits dest: map_of_SomeD)
  have lookup: "map_of q k = map_of (ent q) k" if "distinct (map fst q)" for q k
  proof -
    have "map_of (ent q) k = (if k \<in> fst ` set q then Some (get_item q k) else None)"
      by (simp add: ent_def map_of_map_restrict restrict_map_def)
    moreover have "k \<in> fst ` set q \<longleftrightarrow> map_of q k \<noteq> None"
      by (simp add: map_of_eq_None_iff)
    ultimately show ?thesis by (auto simp: get_item_def split: option.splits)
  qed
  show "map_of r = map_of s" if eq: "canonical_payload rt r = canonical_payload rt s"
  proof -
    have "ent r = ent s"
      using eq assms(2,3) by (intro join_entries_inject[OF assms(1)]) (auto simp: payload storable)
    then show ?thesis using lookup assms(4,5) by (metis ext)
  qed
  show "canonical_payload rt r = canonical_payload rt s" if eq: "map_of r = map_of s"
  proof -
    have "set (map fst r) = set (map fst s)"
      using eq by (metis dom_map_of_conv_image_fst list.set_map)
    then have "sort (map fst r) = sort (map fst s)"
      using assms(4,5)
      by (intro sorted_distinct_set_unique) (auto simp: distinct_sort)
    then show ?thesis by (simp add: canonical_payload_def get_item_def eq)
  qed
qed

lemma sample_hex_faithful: "hex_faithful sample_runtime {1}"
  by (simp add: hex_faithful_def sample_runtime_def)

theorem canonical_payload_faithful_witness:
  "canonical_payload sample_runtime [(''clear'', PInt 4), (''a'', PStr ''x'')] \<noteq>
   canonical_payload sample_runtime [(''a'', PStr ''x''), (''clear'', PStr ''4'')]"
proof
  let ?r = "[(''clear'', PInt 4), (''a'', PStr ''x'')]"
  let ?s = "[(''a'', PStr ''x''), (''clear'', PStr ''4'')]"
  assume "canonical_payload sample_runtime ?r = canonical_payload sample_runtime ?s"
  then have "map_of ?r = map_of ?s"
    using canonical_payload_faithful[OF sample_hex_faithful, of ?r ?s] by simp
  then have "map_of ?r ''clear'' = map_of ?s ''clear''" by (rule fun_cong)
  then show False by simp
qed

end
