(* ===== verification/Domain.thy ===== *)
theory Domain
  imports Py_Values
begin

text \<open>
  \<open>domain/types.py\<close>: the frozen dataclasses exchanged between the core and the adapters.
  Each becomes a record, and its \<open>__post_init__\<close> a function \<open>check_*\<close> that returns the
  record or the exception; a value of the source type exists only if its check returned it.
  The \<open>isinstance\<close> tests on fields that are typed here are discharged by the types.
  Which names are IANA zones is the argument \<open>zone_ok\<close>.
\<close>

subsection \<open>Finite floats\<close>

fun is_finite :: "pyfloat \<Rightarrow> bool" where
  "is_finite (Fin x) = True"
| "is_finite _ = False"

text \<open>\<open>a <= b\<close> on floats: false as soon as one side is NaN.\<close>

fun float_le :: "pyfloat \<Rightarrow> pyfloat \<Rightarrow> bool" where
  "float_le (Fin x) (Fin y) = (x \<le> y)"
| "float_le NotANumber _ = False"
| "float_le _ NotANumber = False"
| "float_le NegInf _ = True"
| "float_le _ PosInf = True"
| "float_le _ _ = False"

definition blank :: "string \<Rightarrow> bool" where
  "blank s \<longleftrightarrow> py_strip s = []"

subsection \<open>Profile settings\<close>

record profile_settings =
  ps_timezone :: string
  ps_target_judged :: int
  ps_reserve_judged :: int
  ps_readiness :: string

definition default_profile_settings :: profile_settings where
  "default_profile_settings = \<lparr>ps_timezone = ''Asia/Tokyo'', ps_target_judged = 100000,
     ps_reserve_judged = 10000, ps_readiness = ''normal''\<rparr>"

definition check_profile_settings ::
    "(string \<Rightarrow> bool) \<Rightarrow> profile_settings \<Rightarrow> profile_settings py" where
  "check_profile_settings zone_ok s =
     py_bind (raise_if (blank (ps_timezone s))
       (DomainValidationError ''timezone must be a non-empty IANA name'')) (\<lambda>_.
     py_bind (raise_if (\<not> zone_ok (ps_timezone s))
       (DomainValidationError ''timezone must be a valid IANA name'')) (\<lambda>_.
     py_bind (raise_if (ps_target_judged s \<le> 0)
       (DomainValidationError ''target_judged must be positive'')) (\<lambda>_.
     py_bind (raise_if (ps_reserve_judged s < 0)
       (DomainValidationError ''reserve_judged must not be negative'')) (\<lambda>_.
     py_bind (raise_if (ps_readiness s \<notin> {''normal'', ''tired''})
       (DomainValidationError ''readiness'')) (\<lambda>_.
     Inr s)))))"

subsection \<open>Profile context\<close>

record profile_context =
  pc_profile_id :: string
  pc_display_name :: string
  pc_timezone :: string
  pc_seed_namespace :: "string option"
  pc_target_judged :: int
  pc_reserve_judged :: int
  pc_readiness :: string
  pc_settings :: "profile_settings option"

definition default_profile_context :: profile_context where
  "default_profile_context = \<lparr>pc_profile_id = ''local-profile'', pc_display_name = ''Personal'',
     pc_timezone = ''Asia/Tokyo'', pc_seed_namespace = None, pc_target_judged = 100000,
     pc_reserve_judged = 10000, pc_readiness = ''normal'', pc_settings = None\<rparr>"

definition check_profile_context ::
    "(string \<Rightarrow> bool) \<Rightarrow> profile_context \<Rightarrow> profile_context py" where
  "check_profile_context zone_ok p =
     py_bind (raise_if (blank (pc_profile_id p)) (DomainValidationError ''profile_id'')) (\<lambda>_.
     py_bind (raise_if (blank (pc_display_name p)) (DomainValidationError ''display_name'')) (\<lambda>_.
     py_bind (raise_if (blank (pc_timezone p)) (DomainValidationError ''timezone'')) (\<lambda>_.
     py_bind (raise_if (case pc_seed_namespace p of None \<Rightarrow> False | Some n \<Rightarrow> blank n)
       (DomainValidationError ''seed_namespace must be a non-empty string'')) (\<lambda>_.
     py_bind
       (case pc_settings p of
          Some s \<Rightarrow> Inr s
        | None \<Rightarrow> check_profile_settings zone_ok
            \<lparr>ps_timezone = pc_timezone p, ps_target_judged = pc_target_judged p,
             ps_reserve_judged = pc_reserve_judged p, ps_readiness = pc_readiness p\<rparr>) (\<lambda>s.
     Inr (p\<lparr>pc_timezone := ps_timezone s, pc_target_judged := ps_target_judged s,
          pc_reserve_judged := ps_reserve_judged s, pc_readiness := ps_readiness s,
          pc_settings := Some s\<rparr>))))))"

definition deterministic_namespace :: "profile_context \<Rightarrow> string" where
  "deterministic_namespace p =
     (case pc_seed_namespace p of Some n \<Rightarrow> if n = [] then pc_profile_id p else n
      | None \<Rightarrow> pc_profile_id p)"

subsection \<open>Plays\<close>

definition official_ir_generation :: int where "official_ir_generation = - 3"

record play =
  pl_sha256 :: string
  pl_mode :: int
  pl_played_at :: int
  pl_playcount :: int
  pl_clear :: int
  pl_notes :: "int option"
  pl_completed :: "int option"
  pl_source :: string
  pl_is_course :: bool
  pl_source_generation :: int
  pl_ex :: "int option"
  pl_minbp :: "int option"
  pl_judged :: "int option"
  pl_empty_poor :: "int option"
  pl_survival :: "real option"
  pl_bp_rate :: "real option"
  pl_credited_gauge_kind :: "string option"
  pl_selected_gauge_kind :: "string option"
  pl_option :: "int option"
  pl_seed :: "int option"
  pl_random :: "int option"
  pl_trophy :: "string option"
  pl_exceeded_aggregate_score :: bool
  pl_lost_events :: int
  pl_payload_hash :: string
  pl_ingested_at :: int

definition check_play :: "play \<Rightarrow> play py" where
  "check_play p =
     py_bind (raise_if (blank (pl_sha256 p))
       (DomainValidationError ''play.sha256 must be a non-empty string'')) (\<lambda>_.
     py_bind (raise_if (blank (pl_source p))
       (DomainValidationError ''play.source must be a non-empty string'')) (\<lambda>_.
     py_bind (raise_if (pl_playcount p < 0 \<or> pl_source_generation p < official_ir_generation
         \<or> pl_lost_events p < 0)
       (DomainValidationError ''play counters must not be negative'')) (\<lambda>_.
     Inr p)))"

text \<open>\<open>as_record\<close>: the dataclass as a dict, with the two booleans stored as integers.\<close>

record play_record =
  r_play :: play
  r_is_course :: int
  r_exceeded_aggregate_score :: int

definition as_record :: "play \<Rightarrow> play_record" where
  "as_record p = \<lparr>r_play = p, r_is_course = of_bool (pl_is_course p),
     r_exceeded_aggregate_score = of_bool (pl_exceeded_aggregate_score p)\<rparr>"

subsection \<open>Charts, observations, models\<close>

record chart =
  ch_sha256 :: string
  ch_md5 :: "string option"
  ch_title :: string
  ch_artist :: string
  ch_notes :: int
  ch_song_mode :: int
  ch_path :: "string option"

definition check_chart :: "chart \<Rightarrow> chart py" where
  "check_chart c =
     py_bind (raise_if (blank (ch_sha256 c))
       (DomainValidationError ''chart.sha256 must be a non-empty string'')) (\<lambda>_.
     py_bind (raise_if (ch_notes c < 0)
       (DomainValidationError ''chart.notes must not be negative'')) (\<lambda>_. Inr c))"

record observation =
  ob_played_at :: int
  ob_day :: int
  ob_features :: "pyfloat list"
  ob_label :: pyfloat

definition check_observation :: "observation \<Rightarrow> observation py" where
  "check_observation ob =
     py_bind (raise_if (length (ob_features ob) \<noteq> 3)
       (DomainValidationError ''observation.features must contain three values'')) (\<lambda>_.
     py_bind (raise_if (\<not> list_all is_finite (ob_features ob))
       (DomainValidationError ''observation.features must be finite'')) (\<lambda>_.
     py_bind (raise_if (\<not> (float_le (Fin 0) (ob_label ob) \<and> float_le (ob_label ob) (Fin 1)))
       (DomainValidationError ''observation.label must be between 0 and 1'')) (\<lambda>_. Inr ob)))"

record model_snapshot =
  ms_target :: string
  ms_version :: int
  ms_trained_at :: int
  ms_n_train :: int
  ms_weights :: "pyfloat list"
  ms_means :: "pyfloat list"
  ms_scales :: "pyfloat list"
  ms_feature_names :: "string list"
  ms_metrics :: "(string \<times> real) list"
  ms_description :: string

definition check_model_snapshot :: "model_snapshot \<Rightarrow> model_snapshot py" where
  "check_model_snapshot m =
     py_bind (raise_if (blank (ms_target m))
       (DomainValidationError ''model.target must be a non-empty string'')) (\<lambda>_.
     py_bind (raise_if (ms_version m < 0 \<or> ms_n_train m < 0)
       (DomainValidationError ''model version and n_train must not be negative'')) (\<lambda>_.
     let width = length (ms_feature_names m) in
     py_bind (raise_if (width = 0 \<or> length (ms_weights m) \<noteq> width + 1)
       (DomainValidationError ''model.weights'')) (\<lambda>_.
     py_bind (raise_if (length (ms_means m) \<noteq> width \<or> length (ms_scales m) \<noteq> width)
       (DomainValidationError ''model normalization vectors must match features'')) (\<lambda>_.
     py_bind (raise_if (\<not> list_all is_finite (ms_weights m))
       (DomainValidationError ''model.weights must be finite'')) (\<lambda>_.
     py_bind (raise_if (\<not> list_all is_finite (ms_means m))
       (DomainValidationError ''model.means must be finite'')) (\<lambda>_.
     py_bind (raise_if (list_ex (\<lambda>v. \<not> is_finite v \<or> float_le v (Fin 0)) (ms_scales m))
       (DomainValidationError ''model.scales must be finite and positive'')) (\<lambda>_.
     Inr m)))))))"

lemmas check_defs = check_play_def check_chart_def check_observation_def
  check_model_snapshot_def check_profile_settings_def check_profile_context_def

lemma check_play_Inr [py_simps]:
  "check_play p = Inr q \<longleftrightarrow> q = p \<and> \<not> blank (pl_sha256 p) \<and> \<not> blank (pl_source p) \<and>
     0 \<le> pl_playcount p \<and> - 3 \<le> pl_source_generation p \<and> 0 \<le> pl_lost_events p"
  by (auto simp: check_play_def py_bind_Inr_iff raise_if_Inr official_ir_generation_def)

text \<open>C20: a profile context that was constructed carries exactly the values of its own
  settings, and when it built those settings itself they are valid: a positive judgement target, a
  non-negative reserve, a known zone and one of the two readiness values. The fields the menu
  planner reads can therefore not disagree with the settings object.\<close>

theorem profile_context_consistent:
  assumes "check_profile_context zone_ok p = Inr q"
  shows "\<exists>s. pc_settings q = Some s \<and> pc_timezone q = ps_timezone s \<and>
      pc_target_judged q = ps_target_judged s \<and> pc_reserve_judged q = ps_reserve_judged s \<and>
      pc_readiness q = ps_readiness s \<and> deterministic_namespace q \<noteq> [] \<and>
      (pc_settings p = Some s \<or>
       zone_ok (ps_timezone s) \<and> 0 < ps_target_judged s \<and> 0 \<le> ps_reserve_judged s \<and>
       ps_readiness s \<in> {''normal'', ''tired''})"
proof -
  obtain s where s: "q = p\<lparr>pc_timezone := ps_timezone s, pc_target_judged := ps_target_judged s,
      pc_reserve_judged := ps_reserve_judged s, pc_readiness := ps_readiness s,
      pc_settings := Some s\<rparr>"
    and origin: "(case pc_settings p of Some s \<Rightarrow> Inr s
        | None \<Rightarrow> check_profile_settings zone_ok
            \<lparr>ps_timezone = pc_timezone p, ps_target_judged = pc_target_judged p,
             ps_reserve_judged = pc_reserve_judged p, ps_readiness = pc_readiness p\<rparr>) = Inr s"
    and id: "\<not> blank (pc_profile_id p)"
    using assms by (auto simp: check_profile_context_def py_bind_Inr_iff raise_if_Inr)
  have "pc_settings p = Some s \<or> zone_ok (ps_timezone s) \<and> 0 < ps_target_judged s \<and>
      0 \<le> ps_reserve_judged s \<and> ps_readiness s \<in> {''normal'', ''tired''}"
    using origin
    by (auto simp: check_profile_settings_def py_bind_Inr_iff raise_if_Inr split: option.splits)
  moreover have "deterministic_namespace q \<noteq> []"
    using id by (auto simp: s deterministic_namespace_def blank_def py_strip_def split: option.splits)
  ultimately show ?thesis by (intro exI[of _ s]) (simp add: s)
qed

lemma default_context_checks:
  "check_profile_context (\<lambda>_. True) default_profile_context =
     Inr (default_profile_context\<lparr>pc_settings := Some default_profile_settings\<rparr>)"
  by (simp add: check_profile_context_def check_profile_settings_def default_profile_context_def
      default_profile_settings_def blank_def py_strip_def is_space_def)

theorem profile_context_consistent_witness:
  "\<exists>s. pc_settings (default_profile_context\<lparr>pc_settings := Some default_profile_settings\<rparr>) = Some s"
  using profile_context_consistent[OF default_context_checks] by blast

end
