(* ===== verification/Normalize.thy ===== *)
theory Normalize
  imports Canonical Domain
begin

text \<open>
  \<open>collect/normalize.py\<close>: one score-like row becomes a \<open>Play\<close>. The row is a dict of
  dynamic values, so every conversion may raise; the order of the conversions is the source's.
  A quotient \<open>judged / notes\<close> is the exact real quotient.
\<close>

definition judgement_columns :: "string list" where
  "judgement_columns = [''epg'', ''lpg'', ''egr'', ''lgr'', ''egd'', ''lgd'', ''ebd'', ''lbd'',
     ''epr'', ''lpr'']"

definition empty_poor_columns :: "string list" where
  "empty_poor_columns = [''ems'', ''lms'']"

definition credited_gauge_by_clear :: "int \<Rightarrow> string option" where
  "credited_gauge_by_clear c =
     (if c = 4 then Some ''EASY'' else if c = 5 then Some ''NORMAL''
      else if c = 6 then Some ''HARD'' else if c = 7 then Some ''EXHARD'' else None)"

definition ex_score :: "row \<Rightarrow> int option py" where
  "ex_score r =
     (if list_ex (\<lambda>c. get_item r c = PNone) [''epg'', ''lpg'', ''egr'', ''lgr''] then Inr None
      else
        py_bind (int_item r ''epg'') (\<lambda>epg.
        py_bind (int_item r ''lpg'') (\<lambda>lpg.
        py_bind (int_item r ''egr'') (\<lambda>egr.
        py_bind (int_item r ''lgr'') (\<lambda>lgr.
          Inr (Some ((epg + lpg) * 2 + egr + lgr)))))))"

definition optional_int :: "pyval \<Rightarrow> int option py" where
  "optional_int v = (if v = PNone then Inr None else py_bind (py_int v) (\<lambda>i. Inr (Some i)))"

definition sum_columns :: "row \<Rightarrow> string list \<Rightarrow> int py" where
  "sum_columns r cs = py_bind (py_mapM (int_or_zero r) cs) (\<lambda>is. Inr (sum_list is))"

definition ratio :: "int option \<Rightarrow> int option \<Rightarrow> real option" where
  "ratio a b =
     (case (a, b) of
        (Some x, Some n) \<Rightarrow> if 0 < n then Some (real_of_int x / real_of_int n) else None
      | _ \<Rightarrow> None)"

definition completes :: "real \<Rightarrow> bool" where
  "completes survival \<longleftrightarrow> 95 / 100 \<le> survival"

definition course_sources :: "string list" where
  "course_sources = [''collector'', ''legacy_last_snapshot'', ''daily_snapshot'']"

text \<open>The four progress values: nothing for an IR import, the judgement sums otherwise.\<close>

definition progress_values ::
    "row \<Rightarrow> string \<Rightarrow> int option \<Rightarrow>
     (int option \<times> int option \<times> real option \<times> int option) py" where
  "progress_values r source notes =
     (if source = ''ir_import'' then Inr (None, None, None, None)
      else
        py_bind (sum_columns r judgement_columns) (\<lambda>judged.
        py_bind (sum_columns r empty_poor_columns) (\<lambda>empty_poor.
          let survival = ratio (Some judged) notes
          in Inr (Some judged, Some empty_poor, survival,
               map_option (\<lambda>s. of_bool (completes s)) survival))))"

definition normalize_play ::
    "runtime \<Rightarrow> row \<Rightarrow> string \<Rightarrow> int \<Rightarrow> row option \<Rightarrow> int \<Rightarrow> int \<Rightarrow> play py" where
  "normalize_play rt r source source_generation aggregate_row lost_events ingested_at =
     py_bind (int_item r ''clear'') (\<lambda>clear.
     py_bind (optional_int (get_item r ''notes'')) (\<lambda>notes.
     py_bind (optional_int (get_item r ''minbp'')) (\<lambda>minbp.
     py_bind (progress_values r source notes) (\<lambda>(judged, empty_poor, survival, completed).
     py_bind (ex_score r) (\<lambda>current_ex.
     py_bind (case aggregate_row of None \<Rightarrow> Inr None | Some a \<Rightarrow> ex_score a) (\<lambda>aggregate_ex.
     py_bind (str_item rt r ''sha256'') (\<lambda>sha256.
     py_bind (int_item r ''mode'') (\<lambda>mode.
     py_bind (int_item r ''date'') (\<lambda>played_at.
     py_bind (int_item r ''playcount'') (\<lambda>playcount.
     py_bind (optional_int (get_item r ''option'')) (\<lambda>opt.
     py_bind (optional_int (get_item r ''seed'')) (\<lambda>seed.
     py_bind (optional_int (get_item r ''random'')) (\<lambda>random.
     check_play
       \<lparr>pl_sha256 = sha256, pl_mode = mode, pl_played_at = played_at, pl_playcount = playcount,
        pl_clear = clear, pl_notes = notes, pl_completed = completed, pl_source = source,
        pl_is_course = (source \<in> set course_sources \<and> clear = 0),
        pl_source_generation = source_generation, pl_ex = current_ex, pl_minbp = minbp,
        pl_judged = judged, pl_empty_poor = empty_poor, pl_survival = survival,
        pl_bp_rate = ratio minbp notes,
        pl_credited_gauge_kind = credited_gauge_by_clear clear, pl_selected_gauge_kind = None,
        pl_option = opt, pl_seed = seed, pl_random = random,
        pl_trophy = (case get_item r ''trophy'' of PNone \<Rightarrow> None | v \<Rightarrow> Some (py_str rt v)),
        pl_exceeded_aggregate_score =
          (case (current_ex, aggregate_ex) of (Some c, Some a) \<Rightarrow> a < c | _ \<Rightarrow> False),
        pl_lost_events = max 0 lost_events, pl_payload_hash = payload_hash rt r,
        pl_ingested_at = ingested_at\<rparr>)))))))))))))"

definition derive_play ::
    "runtime \<Rightarrow> row \<Rightarrow> string \<Rightarrow> int \<Rightarrow> row option \<Rightarrow> int \<Rightarrow> int \<Rightarrow> play_record py" where
  "derive_play rt r source source_generation aggregate_row lost_events ingested_at =
     py_bind (normalize_play rt r source source_generation aggregate_row lost_events ingested_at)
       (\<lambda>p. Inr (as_record p))"

text \<open>The key fields of a derived play are read off the row.\<close>

lemma derive_play_fields:
  assumes "derive_play rt r source gen agg lost now = Inr pr"
  shows "str_item rt r ''sha256'' = Inr (pl_sha256 (r_play pr))"
    and "int_item r ''mode'' = Inr (pl_mode (r_play pr))"
    and "int_item r ''playcount'' = Inr (pl_playcount (r_play pr))"
    and "int_item r ''date'' = Inr (pl_played_at (r_play pr))"
    and "int_item r ''clear'' = Inr (pl_clear (r_play pr))"
    and "pl_source_generation (r_play pr) = gen"
    and "pl_source (r_play pr) = source"
    and "pl_lost_events (r_play pr) = max 0 lost"
    and "pl_payload_hash (r_play pr) = payload_hash rt r"
    and "pl_ingested_at (r_play pr) = now"
    and "pl_selected_gauge_kind (r_play pr) = None"
    and "r_is_course pr = of_bool (pl_is_course (r_play pr))"
  using assms
  by (auto simp: derive_play_def normalize_play_def py_bind_Inr_iff check_play_Inr as_record_def)

lemma normalize_play_shape:
  assumes "normalize_play rt r source gen agg lost now = Inr p"
  shows "progress_values r source (pl_notes p) =
      Inr (pl_judged p, pl_empty_poor p, pl_survival p, pl_completed p)"
    and "pl_credited_gauge_kind p = credited_gauge_by_clear (pl_clear p)"
    and "pl_selected_gauge_kind p = None"
    and "pl_is_course p \<longleftrightarrow> source \<in> set course_sources \<and> pl_clear p = 0"
    and "pl_lost_events p = max 0 lost"
  using assms by (auto simp: normalize_play_def py_bind_Inr_iff check_play_Inr)

lemma credited_gauge_known: "credited_gauge_by_clear c \<noteq> None \<longleftrightarrow> c \<in> {4..7}"
  by (auto simp: credited_gauge_by_clear_def)

lemma completed_threshold:
  assumes "0 < n"
  shows "completes (real_of_int j / real_of_int n) \<longleftrightarrow> 19 * n \<le> 20 * j"
proof -
  have "completes (real_of_int j / real_of_int n) \<longleftrightarrow> 19 * real_of_int n \<le> 20 * real_of_int j"
    using assms by (simp add: completes_def field_simps)
  also have "\<dots> \<longleftrightarrow> real_of_int (19 * n) \<le> real_of_int (20 * j)" by simp
  also have "\<dots> \<longleftrightarrow> 19 * n \<le> 20 * j" by (simp only: of_int_le_iff)
  finally show ?thesis .
qed

lemma progress_values_local:
  assumes "progress_values r source notes = Inr (jo, eo, so, co)" and "source \<noteq> ''ir_import''"
  shows "\<exists>j e. sum_columns r judgement_columns = Inr j \<and> jo = Some j \<and>
      sum_columns r empty_poor_columns = Inr e \<and> eo = Some e \<and> so = ratio (Some j) notes \<and>
      (\<forall>n. notes = Some n \<longrightarrow> 0 < n \<longrightarrow> co = Some (of_bool (19 * n \<le> 20 * j)))"
  using assms
  by (auto simp: progress_values_def py_bind_Inr_iff Let_def ratio_def completed_threshold)

text \<open>The derived values of a play. A row that is not an IR import gets the sum of the
  ten judgement columns as its progress, with the two empty-poor columns kept apart, and counts as completed
  exactly if at least 95 percent of the notes were judged; an IR import carries no progress at all. The
  credited gauge is known exactly for the lamps 4 to 7, the selected gauge is never
  guessed, and only local sources with lamp 0 are courses.\<close>

theorem normalize_play_derived_values:
  assumes "normalize_play rt r source gen agg lost now = Inr p"
  shows "(if source = ''ir_import''
          then pl_judged p = None \<and> pl_empty_poor p = None \<and> pl_survival p = None \<and>
            pl_completed p = None
          else \<exists>j e. sum_columns r judgement_columns = Inr j \<and> pl_judged p = Some j \<and>
            sum_columns r empty_poor_columns = Inr e \<and> pl_empty_poor p = Some e \<and>
            pl_survival p = ratio (Some j) (pl_notes p) \<and>
            (\<forall>n. pl_notes p = Some n \<longrightarrow> 0 < n \<longrightarrow>
               pl_completed p = Some (of_bool (19 * n \<le> 20 * j)))) \<and>
    (pl_credited_gauge_kind p \<noteq> None \<longleftrightarrow> pl_clear p \<in> {4..7}) \<and>
    pl_selected_gauge_kind p = None \<and>
    (pl_is_course p \<longleftrightarrow> pl_clear p = 0 \<and> source \<in> set course_sources) \<and>
    0 \<le> pl_lost_events p \<and> (lost \<ge> 0 \<longrightarrow> pl_lost_events p = lost)"
proof -
  note shape = normalize_play_shape[OF assms]
  have "pl_judged p = None \<and> pl_empty_poor p = None \<and> pl_survival p = None \<and> pl_completed p = None"
    if "source = ''ir_import''"
    using shape(1) that by (simp add: progress_values_def)
  then show ?thesis
    using progress_values_local[OF shape(1)] credited_gauge_known shape(2-5) by auto
qed

definition sample_row :: "string \<Rightarrow> int \<Rightarrow> row" where
  "sample_row sha count =
     [(''sha256'', PStr sha), (''mode'', PInt 0), (''clear'', PInt 6), (''date'', PInt 1000),
      (''playcount'', PInt count), (''notes'', PInt 20), (''minbp'', PInt 1), (''epg'', PInt 10),
      (''lpg'', PInt 5), (''egr'', PInt 4), (''lgr'', PInt 0), (''ems'', PInt 9)]"

lemma sample_row_judged:
  "sum_columns (sample_row sha count) judgement_columns = Inr 19"
  "sum_columns (sample_row sha count) empty_poor_columns = Inr 9"
  "ex_score (sample_row sha count) = Inr (Some 34)"
  by (simp_all add: sum_columns_def judgement_columns_def empty_poor_columns_def ex_score_def
      int_or_zero_def get_item_def sample_row_def int_item_def item_def)

lemma sample_row_items:
  "item (sample_row sha count) ''sha256'' = Inr (PStr sha)"
  "int_item (sample_row sha count) ''mode'' = Inr 0"
  "int_item (sample_row sha count) ''clear'' = Inr 6"
  "int_item (sample_row sha count) ''date'' = Inr 1000"
  "int_item (sample_row sha count) ''playcount'' = Inr count"
  "str_item rt (sample_row sha count) ''sha256'' = Inr sha"
  by (simp_all add: sample_row_def int_item_def item_def str_item_def)

lemma sample_row_optional:
  "get_item (sample_row sha count) ''notes'' = PInt 20"
  "get_item (sample_row sha count) ''minbp'' = PInt 1"
  "get_item (sample_row sha count) ''option'' = PNone"
  "get_item (sample_row sha count) ''seed'' = PNone"
  "get_item (sample_row sha count) ''random'' = PNone"
  "get_item (sample_row sha count) ''trophy'' = PNone"
  by (simp_all add: sample_row_def get_item_def)

definition sample_play :: "runtime \<Rightarrow> string \<Rightarrow> int \<Rightarrow> string \<Rightarrow> int \<Rightarrow> int \<Rightarrow> int \<Rightarrow> play" where
  "sample_play rt sha count source gen lost now =
     \<lparr>pl_sha256 = sha, pl_mode = 0, pl_played_at = 1000, pl_playcount = count,
        pl_clear = 6, pl_notes = Some 20, pl_completed = Some 1, pl_source = source,
        pl_is_course = False,
        pl_source_generation = gen, pl_ex = Some 34, pl_minbp = Some 1,
        pl_judged = Some 19, pl_empty_poor = Some 9, pl_survival = Some (19 / 20),
        pl_bp_rate = Some (1 / 20),
        pl_credited_gauge_kind = Some ''HARD'', pl_selected_gauge_kind = None,
        pl_option = None, pl_seed = None, pl_random = None,
        pl_trophy = None,
        pl_exceeded_aggregate_score = False,
        pl_lost_events = lost, pl_payload_hash = payload_hash rt (sample_row sha count),
        pl_ingested_at = now\<rparr>"

lemma sample_normalize:
  assumes "\<not> blank sha" "\<not> blank source" "0 \<le> count" "- 3 \<le> gen" "0 \<le> lost" "source \<noteq> ''ir_import''"
  shows "normalize_play rt (sample_row sha count) source gen None lost now =
     Inr (sample_play rt sha count source gen lost now)"
  using assms
  by (simp add: normalize_play_def sample_row_items sample_row_optional sample_row_judged
      optional_int_def progress_values_def ratio_def check_play_def official_ir_generation_def
      credited_gauge_by_clear_def sample_play_def completes_def)

lemma not_blank_sample [simp]: "\<not> blank ''aa''" "\<not> blank ''bb''" "\<not> blank ''collector''"
    "\<not> blank ''daily_snapshot''" "\<not> blank ''legacy_last_snapshot''"
  by (simp_all add: blank_def py_strip_def is_space_def)

theorem normalize_play_derived_values_witness:
  "pl_completed (sample_play sample_runtime ''aa'' 1 ''collector'' 0 0 50) = Some (of_bool (19 * 20 \<le> 20 * (19 :: int)))"
proof -
  have "normalize_play sample_runtime (sample_row ''aa'' 1) ''collector'' 0 None 0 50 =
      Inr (sample_play sample_runtime ''aa'' 1 ''collector'' 0 0 50)"
    by (rule sample_normalize) simp_all
  from normalize_play_derived_values[OF this] show ?thesis
    by (auto simp: sample_row_judged sample_play_def)
qed

end
