(* ===== verification/Filesystem.thy ===== *)
theory Filesystem
  imports Py_Values
begin

text \<open>
  \<open>filesystem.py\<close> and \<open>collect/source.py\<close>: the mapping of an operating-system file
  identity to two SQLite integers, and the change signal of a database with its three
  sidecars. The state of the file system is a function from paths to the result of
  \<open>stat\<close>; BLAKE2b is the field \<open>blake2b_fsid\<close> of the runtime.
\<close>

subsection \<open>filesystem.py\<close>

definition sqlite_int64_min :: int where "sqlite_int64_min = - (2 ^ 63)"
definition sqlite_int64_max :: int where "sqlite_int64_max = 2 ^ 63 - 1"
definition uint64_max :: int where "uint64_max = 2 ^ 64 - 1"
definition uint128_max :: int where "uint128_max = 2 ^ 128 - 1"

fun require_integer :: "pyval \<Rightarrow> int py" where
  "require_integer (PInt i) = Inr i"
| "require_integer _ = Inl TypeError"

definition signed_limb :: "int \<Rightarrow> int" where
  "signed_limb v = (if v \<le> sqlite_int64_max then v else v - 2 ^ 64)"

text \<open>\<open>int.to_bytes(n, "big")\<close> and \<open>int.from_bytes(_, "big")\<close>.\<close>

fun be_bytes :: "nat \<Rightarrow> int \<Rightarrow> 8 word list" where
  "be_bytes 0 v = []"
| "be_bytes (Suc n) v = be_bytes n (v div 256) @ [word_of_int (v mod 256)]"

definition from_be :: "8 word list \<Rightarrow> int" where
  "from_be bs = foldl (\<lambda>a b. 256 * a + uint b) 0 bs"

definition in_int64 :: "int \<Rightarrow> bool" where
  "in_int64 v \<longleftrightarrow> sqlite_int64_min \<le> v \<and> v \<le> sqlite_int64_max"

definition fsid_payload :: "int \<Rightarrow> int \<Rightarrow> 8 word list" where
  "fsid_payload device inode = be_bytes 8 device @ be_bytes 16 inode"

definition sqlite_file_identity :: "runtime \<Rightarrow> pyval \<Rightarrow> pyval \<Rightarrow> (int \<times> int) py" where
  "sqlite_file_identity rt device_value inode_value =
     py_bind (require_integer device_value) (\<lambda>device.
     py_bind (require_integer inode_value) (\<lambda>inode.
       if in_int64 device \<and> in_int64 inode then Inr (device, inode)
       else if \<not> (0 \<le> device \<and> device \<le> uint64_max)
         then Inl (OverflowError ''filesystem device is outside the unsigned 64-bit range'')
       else if \<not> (0 \<le> inode \<and> inode \<le> uint128_max)
         then Inl (OverflowError ''filesystem inode is outside the unsigned 128-bit range'')
       else
         let digest = blake2b_fsid rt (fsid_payload device inode)
         in Inr (signed_limb (from_be (take 8 digest)), signed_limb (from_be (drop 8 digest)))))"

subsection \<open>collect/source.py\<close>

record stat =
  st_dev :: int
  st_ino :: int
  st_mtime_ns :: int
  st_size :: int

record file_signal =
  sig_name :: string
  sig_exists :: bool
  sig_device :: "int option"
  sig_inode :: "int option"
  sig_mtime_ns :: "int option"
  sig_size :: int

type_synonym source_sig = "file_signal list"

text \<open>\<open>Path.name\<close>, and \<open>max\<close> of a non-empty list.\<close>

definition path_name :: "string \<Rightarrow> string" where
  "path_name p = rev (takeWhile (\<lambda>c. c \<noteq> CHR ''/'') (rev p))"

fun py_max :: "int list \<Rightarrow> int option" where
  "py_max [] = None"
| "py_max (x # xs) = Some (foldl max x xs)"

definition last_mtime :: "source_sig \<Rightarrow> real option" where
  "last_mtime files =
     map_option (\<lambda>m. real_of_int m / 1000000000) (py_max (List.map_filter sig_mtime_ns files))"

definition total_size :: "source_sig \<Rightarrow> int" where
  "total_size files = sum_list (map sig_size files)"

definition main_identity :: "source_sig \<Rightarrow> int option \<times> int option" where
  "main_identity files = (case files of [] \<Rightarrow> (None, None) | f # _ \<Rightarrow> (sig_device f, sig_inode f))"

definition absent_signal :: "string \<Rightarrow> file_signal" where
  "absent_signal p = \<lparr>sig_name = path_name p, sig_exists = False, sig_device = None,
     sig_inode = None, sig_mtime_ns = None, sig_size = 0\<rparr>"

definition present_signal :: "string \<Rightarrow> stat \<Rightarrow> file_signal" where
  "present_signal p s = \<lparr>sig_name = path_name p, sig_exists = True,
     sig_device = Some (st_dev s), sig_inode = Some (st_ino s),
     sig_mtime_ns = Some (st_mtime_ns s), sig_size = st_size s\<rparr>"

text \<open>One pass of the loop body: only the main file must exist.\<close>

definition file_signal_of :: "(string \<Rightarrow> stat py) \<Rightarrow> string \<Rightarrow> string \<Rightarrow> file_signal py" where
  "file_signal_of fs main p =
     (case fs p of
        Inl FileNotFoundError \<Rightarrow>
          if p = main then Inl FileNotFoundError else Inr (absent_signal p)
      | Inl e \<Rightarrow> Inl e
      | Inr s \<Rightarrow> Inr (present_signal p s))"

definition source_signature :: "(string \<Rightarrow> stat py) \<Rightarrow> string \<Rightarrow> source_sig py" where
  "source_signature fs main =
     py_mapM (file_signal_of fs main)
       [main, main @ ''-wal'', main @ ''-shm'', main @ ''-journal'']"

subsection \<open>Bytes\<close>

lemma length_be_bytes [simp]: "length (be_bytes n v) = n"
  by (induction n arbitrary: v) simp_all

lemma from_be_snoc [simp]: "from_be (bs @ [b]) = 256 * from_be bs + uint b"
  by (simp add: from_be_def)

lemma from_be_Nil [simp]: "from_be [] = 0"
  by (simp add: from_be_def)

lemma uint_byte_bound: "0 \<le> uint (b :: 8 word)" "uint (b :: 8 word) < 256"
  using uint_lt2p[of b] by simp_all

lemma from_be_bounds: "0 \<le> from_be bs \<and> from_be bs < 256 ^ length bs"
proof (induction bs rule: rev_induct)
  case Nil
  then show ?case by simp
next
  case (snoc b bs)
  then show ?case using uint_byte_bound[of b] by (simp add: algebra_simps)
qed

lemma from_be_be_bytes: "0 \<le> v \<Longrightarrow> v < 256 ^ n \<Longrightarrow> from_be (be_bytes n v) = v"
proof (induction n arbitrary: v)
  case 0
  then show ?case by simp
next
  case (Suc n)
  have "v div 256 < 256 ^ n" using Suc.prems(2) by auto
  then have "from_be (be_bytes n (v div 256)) = v div 256"
    using Suc by (simp add: pos_imp_zdiv_nonneg_iff)
  moreover have "uint (word_of_int (v mod 256) :: 8 word) = v mod 256"
    by (simp add: uint_word_of_int)
  ultimately show ?case by simp
qed

lemma byte_split:
  "256 * x + u = 256 * y + v \<Longrightarrow> 0 \<le> u \<Longrightarrow> u < 256 \<Longrightarrow> 0 \<le> v \<Longrightarrow> v < 256 \<Longrightarrow> x = y \<and> u = v"
  for x y u v :: int
proof -
  assume eq: "256 * x + u = 256 * y + v" and "0 \<le> u" "u < 256" "0 \<le> v" "v < 256"
  then have "\<not> x + 1 \<le> y" "\<not> y + 1 \<le> x" by linarith+
  then have "x = y" by linarith
  then show "x = y \<and> u = v" using eq by simp
qed

lemma from_be_inject: "length as = length bs \<Longrightarrow> from_be as = from_be bs \<Longrightarrow> as = bs"
proof (induction as arbitrary: bs rule: rev_induct)
  case Nil
  then show ?case by simp
next
  case (snoc a as)
  have "bs \<noteq> []" using snoc.prems(1) by auto
  then obtain b bs' where bs: "bs = bs' @ [b]" by (metis append_butlast_last_id)
  have eq: "256 * from_be as + uint a = 256 * from_be bs' + uint b"
    using snoc.prems(2) unfolding bs by simp
  have both: "from_be as = from_be bs' \<and> uint a = uint b"
    by (rule byte_split[OF eq]) (rule uint_byte_bound)+
  have "length as = length bs'" using snoc.prems(1) unfolding bs by simp
  then have "as = bs'" using snoc.IH both by blast
  moreover have "a = b" using both by (simp add: word_uint_eq_iff)
  ultimately show ?case by (simp add: bs)
qed

lemma be_bytes_inject:
  "0 \<le> v \<Longrightarrow> v < 256 ^ n \<Longrightarrow> 0 \<le> w \<Longrightarrow> w < 256 ^ n \<Longrightarrow> be_bytes n v = be_bytes n w \<Longrightarrow> v = w"
  by (metis from_be_be_bytes)

lemmas int64_defs = in_int64_def sqlite_int64_min_def sqlite_int64_max_def uint64_max_def
  uint128_max_def

lemma signed_limb_in_int64: "0 \<le> v \<Longrightarrow> v < 2 ^ 64 \<Longrightarrow> in_int64 (signed_limb v)"
  by (simp add: int64_defs signed_limb_def)

lemma signed_limb_inject:
  "0 \<le> v \<Longrightarrow> v < 2 ^ 64 \<Longrightarrow> 0 \<le> w \<Longrightarrow> w < 2 ^ 64 \<Longrightarrow> signed_limb v = signed_limb w \<Longrightarrow> v = w"
  by (auto simp: signed_limb_def sqlite_int64_max_def split: if_splits)

lemma limb_bounds: "length bs \<le> 8 \<Longrightarrow> 0 \<le> from_be bs \<and> from_be bs < 2 ^ 64"
proof -
  assume "length bs \<le> 8"
  then have "(256 :: int) ^ length bs \<le> 256 ^ 8" by (intro power_increasing) simp_all
  then show ?thesis using from_be_bounds[of bs] by simp
qed

lemma fsid_payload_inject:
  assumes "fsid_payload d i = fsid_payload d' i'"
    and "0 \<le> d" "d \<le> uint64_max" "0 \<le> i" "i \<le> uint128_max"
    and "0 \<le> d'" "d' \<le> uint64_max" "0 \<le> i'" "i' \<le> uint128_max"
  shows "d = d' \<and> i = i'"
proof -
  from assms(1) have "be_bytes 8 d = be_bytes 8 d'" "be_bytes 16 i = be_bytes 16 i'"
    by (simp_all add: fsid_payload_def)
  then show ?thesis
    using assms(2-) by (auto simp: uint64_max_def uint128_max_def intro: be_bytes_inject[of d 8 d']
        be_bytes_inject[of i 16 i'])
qed

text \<open>Whatever pair the operating system reports, the pair that reaches the
  INTEGER columns fits SQLite's signed 64-bit domain, given that BLAKE2b returns the 16 bytes
  it is asked for.\<close>

theorem sqlite_file_identity_in_range:
  assumes "sqlite_file_identity rt dv iv = Inr (a, b)"
    and "\<And>p. length (blake2b_fsid rt p) = 16"
  shows "in_int64 a \<and> in_int64 b"
proof -
  have "in_int64 (signed_limb (from_be (take 8 (blake2b_fsid rt p))))"
    "in_int64 (signed_limb (from_be (drop 8 (blake2b_fsid rt p))))" for p
    using limb_bounds[of "take 8 (blake2b_fsid rt p)"] limb_bounds[of "drop 8 (blake2b_fsid rt p)"]
    by (simp_all add: assms(2) signed_limb_in_int64)
  then show ?thesis using assms(1)
    by (auto simp: sqlite_file_identity_def py_bind_Inr_iff Let_def split: if_splits)
qed

lemma sample_digest: "length (blake2b_fsid sample_runtime p) = 16"
  by (simp add: sample_runtime_def)

lemma sample_limb: "signed_limb (from_be (replicate 8 255)) = - 1"
  by code_simp

lemma sample_identity:
  "sqlite_file_identity sample_runtime (PInt (2 ^ 63)) (PInt 7) = Inr (- 1, - 1)"
  by (simp add: sqlite_file_identity_def int64_defs sample_runtime_def sample_limb)

theorem sqlite_file_identity_in_range_witness: "in_int64 (- 1) \<and> in_int64 (- 1)"
  by (rule sqlite_file_identity_in_range[OF sample_identity sample_digest])

text \<open>Two different files whose identities both lie outside the signed domain
  are stored as the same pair only if their 24-byte payloads are a BLAKE2b collision: the
  encoding before the hash is lossless, and so is the split of the digest into two signed limbs.\<close>

theorem sqlite_file_identity_lossless:
  assumes "\<And>p. length (blake2b_fsid rt p) = 16"
    and "sqlite_file_identity rt (PInt d) (PInt i) = Inr r"
    and "sqlite_file_identity rt (PInt d') (PInt i') = Inr r"
    and "\<not> (in_int64 d \<and> in_int64 i)" and "\<not> (in_int64 d' \<and> in_int64 i')"
    and "(d, i) \<noteq> (d', i')"
  shows "fsid_payload d i \<noteq> fsid_payload d' i' \<and>
     blake2b_fsid rt (fsid_payload d i) = blake2b_fsid rt (fsid_payload d' i')"
proof
  have range: "0 \<le> d" "d \<le> uint64_max" "0 \<le> i" "i \<le> uint128_max"
    and range': "0 \<le> d'" "d' \<le> uint64_max" "0 \<le> i'" "i' \<le> uint128_max"
    using assms(2-5) by (auto simp: sqlite_file_identity_def split: if_splits)
  show "fsid_payload d i \<noteq> fsid_payload d' i'"
    using fsid_payload_inject[OF _ range range'] assms(6) by blast
  let ?h = "blake2b_fsid rt (fsid_payload d i)" and ?h' = "blake2b_fsid rt (fsid_payload d' i')"
  have limbs: "signed_limb (from_be (take 8 ?h)) = signed_limb (from_be (take 8 ?h'))"
    "signed_limb (from_be (drop 8 ?h)) = signed_limb (from_be (drop 8 ?h'))"
    using assms(2-5) range range'
    by (auto simp: sqlite_file_identity_def Let_def split: if_splits)
  have "from_be (take 8 ?h) = from_be (take 8 ?h')" "from_be (drop 8 ?h) = from_be (drop 8 ?h')"
    using limb_bounds[of "take 8 ?h"] limb_bounds[of "take 8 ?h'"]
      limb_bounds[of "drop 8 ?h"] limb_bounds[of "drop 8 ?h'"] limbs
    by (auto simp: assms(1) intro: signed_limb_inject)
  then have "take 8 ?h = take 8 ?h'" "drop 8 ?h = drop 8 ?h'"
    by (auto intro!: from_be_inject simp: assms(1))
  then show "?h = ?h'" by (metis append_take_drop_id)
qed

lemma sample_identity2:
  "sqlite_file_identity sample_runtime (PInt (2 ^ 63)) (PInt 8) = Inr (- 1, - 1)"
  by (simp add: sqlite_file_identity_def int64_defs sample_runtime_def sample_limb)

theorem sqlite_file_identity_lossless_witness:
  "fsid_payload (2 ^ 63) 7 \<noteq> fsid_payload (2 ^ 63) 8 \<and>
     blake2b_fsid sample_runtime (fsid_payload (2 ^ 63) 7) =
     blake2b_fsid sample_runtime (fsid_payload (2 ^ 63) 8)"
  by (rule sqlite_file_identity_lossless[OF sample_digest sample_identity sample_identity2])
    (simp_all add: int64_defs)

end
