(* ===== verification/Replay.thy ===== *)
theory Replay
  imports Filesystem
begin

text \<open>
  \<open>collect/replay.py\<close>: the bounded, metadata-only reader of \<open>.brd\<close> replay slots. What the
  file system shows while one slot is read is a \<open>replay_file\<close>: the two \<open>stat\<close> results and
  the bytes in between. GZIP and JSON decoding are the fields of \<open>replay_io\<close>; their failure is the
  exception the source turns into \<open>ReplayReadError\<close>.
\<close>

definition max_compressed_bytes :: int where "max_compressed_bytes = 2 * 1024 * 1024"
definition max_json_bytes :: int where "max_json_bytes = 8 * 1024 * 1024"
definition max_replay_files :: nat where "max_replay_files = 128"
definition max_array_items :: int where "max_array_items = 4096"

definition gauge_kinds :: "int \<Rightarrow> string option" where
  "gauge_kinds g =
     (if g = 0 then Some ''ASSIST_EASY'' else if g = 1 then Some ''EASY''
      else if g = 2 then Some ''NORMAL'' else if g = 3 then Some ''HARD''
      else if g = 4 then Some ''EXHARD'' else if g = 5 then Some ''HAZARD'' else None)"

record replay_meta =
  rm_path :: string
  rm_device :: int
  rm_inode :: int
  rm_content_hash :: string
  rm_compressed_size :: int
  rm_mtime_ns :: int
  rm_sha256 :: string
  rm_mode :: int
  rm_played_at :: int
  rm_gauge :: int
  rm_selected_gauge_kind :: string
  rm_randomoption :: "int option"
  rm_randomoptionseed :: "int option"
  rm_randomoption2 :: "int option"
  rm_randomoption2seed :: "int option"
  rm_doubleoption :: "int option"
  rm_seven_to_nine_pattern :: "int option"
  rm_lane_shuffle_pattern :: "int list list option"
  rm_rand :: "int list option"

record replay_scan_result =
  rs_metadata :: "replay_meta list"
  rs_invalid :: nat
  rs_unstable :: nat
  rs_invalid_paths :: "string list"
  rs_unstable_paths :: "string list"

record replay_file =
  rf_before :: "stat py"
  rf_content :: "string py"
  rf_after :: "stat py"

record replay_io =
  io_gunzip :: "string \<Rightarrow> nat \<Rightarrow> string py"
  io_json :: "string \<Rightarrow> pyval py"

subsection \<open>Field validation\<close>

fun replay_integer :: "pyval \<Rightarrow> string \<Rightarrow> int option \<Rightarrow> int py" where
  "replay_integer (PInt v) field minimum =
     (case minimum of
        Some m \<Rightarrow> if v < m then Inl (ReplayReadError (field @ '' must be >= '' @ show_int m)) else Inr v
      | None \<Rightarrow> Inr v)"
| "replay_integer _ field minimum = Inl (ReplayReadError (field @ '' must be an integer''))"

definition optional_integer :: "row \<Rightarrow> string \<Rightarrow> int option py" where
  "optional_integer payload field =
     (let v = get_item payload field
      in if v = PNone then Inr None
         else py_bind (replay_integer v field None) (\<lambda>i. Inr (Some i)))"

fun integer_array :: "pyval \<Rightarrow> string \<Rightarrow> int list py" where
  "integer_array (PList xs) field =
     (if int (length xs) > max_array_items
      then Inl (ReplayReadError (field @ '' must be a bounded integer array''))
      else py_mapM (\<lambda>v. replay_integer v field None) xs)"
| "integer_array _ field = Inl (ReplayReadError (field @ '' must be a bounded integer array''))"

definition lane_pattern :: "row \<Rightarrow> int list list option py" where
  "lane_pattern payload =
     (case get_item payload ''laneShufflePattern'' of
        PNone \<Rightarrow> Inr None
      | PList xs \<Rightarrow>
          if int (length xs) > max_array_items
          then Inl (ReplayReadError ''laneShufflePattern must be a bounded integer matrix'')
          else
            py_bind (py_mapM (\<lambda>v. integer_array v ''laneShufflePattern'') xs) (\<lambda>rows.
              if sum_list (map (\<lambda>r. int (length r)) rows) > max_array_items
              then Inl (ReplayReadError ''laneShufflePattern contains too many items'')
              else Inr (Some rows))
      | _ \<Rightarrow> Inl (ReplayReadError ''laneShufflePattern must be a bounded integer matrix''))"

definition is_hex_digit :: "char \<Rightarrow> bool" where
  "is_hex_digit c \<longleftrightarrow> is_hex_lower c \<or> (CHR ''A'' \<le> c \<and> c \<le> CHR ''F'')"

fun replay_sha256 :: "pyval \<Rightarrow> string py" where
  "replay_sha256 (PStr s) =
     (if length s \<noteq> 64 \<or> list_ex (\<lambda>c. \<not> is_hex_digit c) s
      then Inl (ReplayReadError ''sha256 must contain 64 hexadecimal characters'') else Inr s)"
| "replay_sha256 _ = Inl (ReplayReadError ''sha256 must contain 64 hexadecimal characters'')"

definition stat_identity :: "stat \<Rightarrow> int \<times> int \<times> int \<times> int" where
  "stat_identity s = (st_dev s, st_ino s, st_size s, st_mtime_ns s)"

subsection \<open>Reading one slot\<close>

text \<open>The bytes of the slot, read once and found unchanged.\<close>

definition read_stable_payload :: "replay_io \<Rightarrow> replay_file \<Rightarrow> (stat \<times> string \<times> string) py" where
  "read_stable_payload io rf =
     py_bind (rf_before rf) (\<lambda>before.
     py_bind (raise_if (st_size before > max_compressed_bytes)
       (ReplayReadError ''compressed replay exceeds size limit'')) (\<lambda>_.
     py_bind (rf_content rf) (\<lambda>content.
     let compressed = take (nat (max_compressed_bytes + 1)) content in
     py_bind (raise_if (int (length compressed) > max_compressed_bytes)
       (ReplayReadError ''compressed replay exceeds size limit'')) (\<lambda>_.
     py_bind (case io_gunzip io compressed (nat (max_json_bytes + 1)) of
         Inl _ \<Rightarrow> Inl (ReplayReadError ''invalid or truncated gzip replay'')
       | Inr b \<Rightarrow> Inr b) (\<lambda>payload_bytes.
     py_bind (raise_if (int (length payload_bytes) > max_json_bytes)
       (ReplayReadError ''decompressed replay exceeds size limit'')) (\<lambda>_.
     py_bind (rf_after rf) (\<lambda>after.
     py_bind (raise_if (stat_identity before \<noteq> stat_identity after) ReplayChangedDuringRead) (\<lambda>_.
     Inr (before, compressed, payload_bytes)))))))))"

definition parse_replay :: "replay_io \<Rightarrow> string \<Rightarrow> row py" where
  "parse_replay io payload_bytes =
     (case io_json io payload_bytes of
        Inl _ \<Rightarrow> Inl (ReplayReadError ''replay is not valid JSON'')
      | Inr (PDict d) \<Rightarrow> Inr d
      | Inr _ \<Rightarrow> Inl (ReplayReadError ''replay root must be an object''))"

definition replay_read :: "runtime \<Rightarrow> replay_io \<Rightarrow> string \<Rightarrow> replay_file \<Rightarrow> replay_meta py" where
  "replay_read rt io path rf =
     py_bind (read_stable_payload io rf) (\<lambda>(before, compressed, payload_bytes).
     py_bind (parse_replay io payload_bytes) (\<lambda>payload.
     py_bind (replay_sha256 (get_item payload ''sha256'')) (\<lambda>sha256.
     py_bind (replay_integer (get_item payload ''gauge'') ''gauge'' None) (\<lambda>gauge.
     py_bind (case gauge_kinds gauge of
         None \<Rightarrow> Inl (ReplayReadError ''gauge is outside the supported range 0..5'')
       | Some k \<Rightarrow> Inr k) (\<lambda>kind.
     py_bind (sqlite_file_identity rt (PInt (st_dev before)) (PInt (st_ino before))) (\<lambda>(device, inode).
     py_bind (replay_integer (get_item payload ''mode'') ''mode'' (Some 0)) (\<lambda>mode.
     py_bind (replay_integer (get_item payload ''date'') ''date'' (Some 1)) (\<lambda>date.
     py_bind (optional_integer payload ''randomoption'') (\<lambda>ro.
     py_bind (optional_integer payload ''randomoptionseed'') (\<lambda>ros.
     py_bind (optional_integer payload ''randomoption2'') (\<lambda>ro2.
     py_bind (optional_integer payload ''randomoption2seed'') (\<lambda>ro2s.
     py_bind (optional_integer payload ''doubleoption'') (\<lambda>dbl.
     py_bind (optional_integer payload ''sevenToNinePattern'') (\<lambda>s9.
     py_bind (lane_pattern payload) (\<lambda>lanes.
     py_bind (let v = get_item payload ''rand'' in
         if v = PNone then Inr None
         else py_bind (integer_array v ''rand'') (\<lambda>xs. Inr (Some xs))) (\<lambda>rand.
     Inr \<lparr>rm_path = path, rm_device = device, rm_inode = inode,
          rm_content_hash = sha256_hex rt compressed, rm_compressed_size = st_size before,
          rm_mtime_ns = st_mtime_ns before, rm_sha256 = py_lower sha256, rm_mode = mode,
          rm_played_at = date, rm_gauge = gauge, rm_selected_gauge_kind = kind,
          rm_randomoption = ro, rm_randomoptionseed = ros, rm_randomoption2 = ro2,
          rm_randomoption2seed = ro2s, rm_doubleoption = dbl, rm_seven_to_nine_pattern = s9,
          rm_lane_shuffle_pattern = lanes, rm_rand = rand\<rparr>))))))))))))))))"

subsection \<open>Scanning a directory\<close>

text \<open>\<open>scan\<close>: all slots or an exception.\<close>

definition replay_scan ::
    "(string \<Rightarrow> replay_meta py) \<Rightarrow> bool \<Rightarrow> string list \<Rightarrow> replay_meta list py" where
  "replay_scan rd is_dir glob =
     (if \<not> is_dir then Inr []
      else if length (sort glob) > max_replay_files
        then Inl (ReplayReadError ''replay directory exceeds 128 files'')
      else py_mapM rd (sort glob))"

text \<open>The exceptions \<open>scan_report\<close> catches; \<open>FileNotFoundError\<close> is an \<open>OSError\<close>. Anything else
  propagates.\<close>

fun caught_invalid :: "py_exn \<Rightarrow> bool" where
  "caught_invalid (ReplayReadError _) = True"
| "caught_invalid (OSError _) = True"
| "caught_invalid FileNotFoundError = True"
| "caught_invalid _ = False"

definition scan_one ::
    "(string \<Rightarrow> replay_meta py) \<Rightarrow> replay_scan_result \<Rightarrow> string \<Rightarrow> replay_scan_result py" where
  "scan_one rd res p =
     (case rd p of
        Inr m \<Rightarrow> Inr (res\<lparr>rs_metadata := rs_metadata res @ [m]\<rparr>)
      | Inl e \<Rightarrow>
          if e = ReplayChangedDuringRead then
            Inr (res\<lparr>rs_unstable := rs_unstable res + 1, rs_unstable_paths := rs_unstable_paths res @ [p]\<rparr>)
          else if caught_invalid e then
            Inr (res\<lparr>rs_invalid := rs_invalid res + 1, rs_invalid_paths := rs_invalid_paths res @ [p]\<rparr>)
          else Inl e)"

definition empty_scan :: replay_scan_result where
  "empty_scan = \<lparr>rs_metadata = [], rs_invalid = 0, rs_unstable = 0, rs_invalid_paths = [],
     rs_unstable_paths = []\<rparr>"

definition scan_report ::
    "(string \<Rightarrow> replay_meta py) \<Rightarrow> bool \<Rightarrow> string list \<Rightarrow> string list option \<Rightarrow> replay_scan_result py" where
  "scan_report rd is_dir glob candidates =
     (if \<not> is_dir then Inr empty_scan
      else
        let paths = take max_replay_files (sort (case candidates of None \<Rightarrow> glob | Some cs \<Rightarrow> cs))
        in py_for (scan_one rd) empty_scan paths)"

subsection \<open>Properties\<close>

lemma replay_integer_Inr:
  "replay_integer v f m = Inr i \<longleftrightarrow> v = PInt i \<and> (\<forall>k. m = Some k \<longrightarrow> k \<le> i)"
  by (cases v) (auto split: option.splits)

lemma replay_sha256_Inr:
  "replay_sha256 v = Inr s \<longleftrightarrow> v = PStr s \<and> length s = 64 \<and> list_all is_hex_digit s"
  by (cases v) (auto simp: list_ex_iff list_all_iff)

lemma lower_hex: "is_hex_digit c \<Longrightarrow> is_hex_lower (lower_char c)"
  by (auto simp: is_hex_digit_def is_hex_lower_def is_digit_def lower_char_def less_eq_char_def)

lemma gauge_kinds_Some: "gauge_kinds g = Some k \<Longrightarrow> 0 \<le> g \<and> g \<le> 5"
  by (auto simp: gauge_kinds_def split: if_splits)

lemma read_stable_payload_Inr:
  "read_stable_payload io rf = Inr (before, compressed, payload) \<Longrightarrow>
     \<exists>after. rf_before rf = Inr before \<and> rf_after rf = Inr after \<and>
       stat_identity after = stat_identity before \<and> st_size before \<le> max_compressed_bytes \<and>
       int (length compressed) \<le> max_compressed_bytes \<and> int (length payload) \<le> max_json_bytes"
  by (auto simp: read_stable_payload_def py_bind_Inr_iff raise_if_Inr Let_def)

text \<open>Metadata is only ever taken from a slot whose identity, size and modification time were the same
  before and after the read and that stays within the size bound, and the metadata is well-formed: a
  lower-case 64-digit hash, one of the six gauges with its name, a non-negative mode and a positive
  date.\<close>

theorem replay_read_sound:
  assumes "replay_read rt io path rf = Inr m"
  shows "length (rm_sha256 m) = 64 \<and> list_all is_hex_lower (rm_sha256 m) \<and>
     gauge_kinds (rm_gauge m) = Some (rm_selected_gauge_kind m) \<and> 0 \<le> rm_gauge m \<and> rm_gauge m \<le> 5 \<and>
     0 \<le> rm_mode m \<and> 1 \<le> rm_played_at m \<and> rm_path m = path \<and>
     (\<exists>before after. rf_before rf = Inr before \<and> rf_after rf = Inr after \<and>
        stat_identity after = stat_identity before \<and>
        rm_compressed_size m = st_size before \<and> rm_mtime_ns m = st_mtime_ns before \<and>
        rm_compressed_size m \<le> max_compressed_bytes)"
proof -
  obtain before compressed payload sha where
    payload: "read_stable_payload io rf = Inr (before, compressed, payload)"
    and size: "rm_compressed_size m = st_size before" "rm_mtime_ns m = st_mtime_ns before"
    and sha: "length sha = 64" "list_all is_hex_digit sha" "rm_sha256 m = py_lower sha"
    and gauge: "gauge_kinds (rm_gauge m) = Some (rm_selected_gauge_kind m)"
    and rest: "0 \<le> rm_mode m" "1 \<le> rm_played_at m" "rm_path m = path"
    using assms
    by (auto simp: replay_read_def py_bind_Inr_iff replay_integer_Inr replay_sha256_Inr
        split: option.splits)
  have "list_all is_hex_lower (rm_sha256 m)"
    using sha(2) by (auto simp: sha(3) py_lower_def list_all_iff lower_hex)
  moreover have "length (rm_sha256 m) = 64" by (simp add: sha py_lower_def)
  ultimately show ?thesis
    using read_stable_payload_Inr[OF payload] gauge_kinds_Some[OF gauge] gauge rest size by auto
qed

definition sample_stat :: stat where
  "sample_stat = \<lparr>st_dev = 1, st_ino = 2, st_mtime_ns = 3, st_size = 4\<rparr>"

definition sample_io :: replay_io where
  "sample_io = \<lparr>io_gunzip = (\<lambda>b _. Inr b),
     io_json = (\<lambda>_. Inr (PDict [(''sha256'', PStr (replicate 64 CHR ''A'')), (''gauge'', PInt 3),
       (''mode'', PInt 0), (''date'', PInt 9)]))\<rparr>"

definition sample_slot :: replay_file where
  "sample_slot = \<lparr>rf_before = Inr sample_stat, rf_content = Inr ''gz'', rf_after = Inr sample_stat\<rparr>"

definition sample_meta :: "string \<Rightarrow> replay_meta" where
  "sample_meta p = \<lparr>rm_path = p, rm_device = 1, rm_inode = 2, rm_content_hash = ''gz'',
     rm_compressed_size = 4, rm_mtime_ns = 3, rm_sha256 = replicate 64 CHR ''a'', rm_mode = 0,
     rm_played_at = 9, rm_gauge = 3, rm_selected_gauge_kind = ''HARD'', rm_randomoption = None,
     rm_randomoptionseed = None, rm_randomoption2 = None, rm_randomoption2seed = None,
     rm_doubleoption = None, rm_seven_to_nine_pattern = None, rm_lane_shuffle_pattern = None,
     rm_rand = None\<rparr>"

lemma sample_replay_read: "replay_read sample_runtime sample_io p sample_slot = Inr (sample_meta p)"
proof -
  have "py_lower (replicate 64 CHR ''A'') = replicate 64 CHR ''a''"
    by code_simp
  moreover have "list_all is_hex_digit (replicate 64 CHR ''A'')"
    by (simp add: list_all_iff is_hex_digit_def less_eq_char_def)
  moreover have "read_stable_payload sample_io sample_slot = Inr (sample_stat, ''gz'', ''gz'')"
    by (simp add: read_stable_payload_def sample_slot_def sample_io_def sample_stat_def Let_def
        max_compressed_bytes_def max_json_bytes_def)
  ultimately show ?thesis
    by (simp add: replay_read_def parse_replay_def sample_io_def get_item_def gauge_kinds_def
        sqlite_file_identity_def int64_defs sample_stat_def optional_integer_def lane_pattern_def
        sample_runtime_def sample_meta_def list_ex_iff list_all_iff)
qed

theorem replay_read_sound_witness: "list_all is_hex_lower (rm_sha256 (sample_meta ''a.brd''))"
  using replay_read_sound[OF sample_replay_read[of "''a.brd''"]] by simp

definition reads :: "(string \<Rightarrow> replay_meta py) \<Rightarrow> string list \<Rightarrow> replay_meta list" where
  "reads rd ps = List.map_filter (\<lambda>p. case rd p of Inr m \<Rightarrow> Some m | Inl _ \<Rightarrow> None) ps"

definition changed_paths :: "(string \<Rightarrow> replay_meta py) \<Rightarrow> string list \<Rightarrow> string list" where
  "changed_paths rd ps = filter (\<lambda>p. rd p = Inl ReplayChangedDuringRead) ps"

definition broken_paths :: "(string \<Rightarrow> replay_meta py) \<Rightarrow> string list \<Rightarrow> string list" where
  "broken_paths rd ps = filter (\<lambda>p. case rd p of Inl e \<Rightarrow> e \<noteq> ReplayChangedDuringRead | Inr _ \<Rightarrow> False) ps"

lemma batch_partition:
  "length (reads rd ps) + length (broken_paths rd ps) + length (changed_paths rd ps) = length ps"
  by (induction ps) (auto simp: reads_def broken_paths_def changed_paths_def
      List.map_filter_simps split: sum.splits)

lemma scan_loop:
  "py_for (scan_one rd) res ps = Inr r \<Longrightarrow>
     r = \<lparr>rs_metadata = rs_metadata res @ reads rd ps,
       rs_invalid = rs_invalid res + length (broken_paths rd ps),
       rs_unstable = rs_unstable res + length (changed_paths rd ps),
       rs_invalid_paths = rs_invalid_paths res @ broken_paths rd ps,
       rs_unstable_paths = rs_unstable_paths res @ changed_paths rd ps\<rparr>"
proof (induction ps arbitrary: res)
  case Nil
  then show ?case by (simp add: reads_def broken_paths_def changed_paths_def List.map_filter_simps)
next
  case (Cons p ps)
  then obtain res' where step: "scan_one rd res p = Inr res'" "py_for (scan_one rd) res' ps = Inr r"
    by (auto simp: py_bind_Inr_iff)
  show ?case using Cons.IH[OF step(2)] step(1)
    by (auto simp: scan_one_def reads_def broken_paths_def changed_paths_def
        List.map_filter_simps split: sum.splits if_splits)
qed

text \<open>One corrupt slot never hides another. A scan report accounts for every path of its batch exactly
  once, as metadata, as invalid or as unstable, and every readable slot of the batch contributes
  its metadata whatever the other slots contain; the batch never exceeds the file limit.\<close>

theorem scan_report_complete:
  assumes "scan_report rd True glob cs = Inr r"
    and "batch = take max_replay_files (sort (case cs of None \<Rightarrow> glob | Some c \<Rightarrow> c))"
  shows "length (rs_metadata r) + rs_invalid r + rs_unstable r = length batch \<and>
      length batch \<le> 128 \<and> rs_metadata r = reads rd batch \<and>
      rs_unstable_paths r = changed_paths rd batch \<and> rs_invalid_paths r = broken_paths rd batch"
proof -
  have "r = \<lparr>rs_metadata = reads rd batch, rs_invalid = length (broken_paths rd batch),
      rs_unstable = length (changed_paths rd batch), rs_invalid_paths = broken_paths rd batch,
      rs_unstable_paths = changed_paths rd batch\<rparr>"
    using scan_loop[of rd empty_scan batch r] assms
    by (simp add: scan_report_def Let_def empty_scan_def)
  then show ?thesis
    using batch_partition[of rd batch] by (simp add: assms(2) max_replay_files_def)
qed

definition sample_dir :: "string \<Rightarrow> replay_meta py" where
  "sample_dir p =
     (if p = ''a.brd'' then Inl (ReplayReadError ''invalid or truncated gzip replay'')
      else if p = ''b.brd'' then Inl ReplayChangedDuringRead
      else replay_read sample_runtime sample_io p sample_slot)"

lemma sample_scan:
  "scan_report sample_dir True [''c.brd'', ''a.brd'', ''b.brd''] None =
     Inr \<lparr>rs_metadata = [sample_meta ''c.brd''], rs_invalid = 1, rs_unstable = 1,
       rs_invalid_paths = [''a.brd''], rs_unstable_paths = [''b.brd'']\<rparr>"
proof -
  have "sort [''c.brd'', ''a.brd'', ''b.brd''] = [''a.brd'', ''b.brd'', ''c.brd'']"
    by code_simp
  then show ?thesis
    by (simp add: scan_report_def max_replay_files_def scan_one_def sample_dir_def sample_replay_read
        empty_scan_def)
qed

theorem scan_report_complete_witness:
  "reads sample_dir (take max_replay_files (sort [''c.brd'', ''a.brd'', ''b.brd''])) =
     [sample_meta ''c.brd'']"
  using scan_report_complete[OF sample_scan refl] by (simp del: sort_key_simps)

text \<open>The exceptions of one slot: with operating-system errors from the file system and a file
  identity inside the unsigned domain, everything a slot can raise is caught by the scan.\<close>

definition well_behaved :: "replay_file \<Rightarrow> bool" where
  "well_behaved rf \<longleftrightarrow>
     (\<forall>e. rf_before rf = Inl e \<longrightarrow> caught_invalid e) \<and> (\<forall>e. rf_content rf = Inl e \<longrightarrow> caught_invalid e) \<and>
     (\<forall>e. rf_after rf = Inl e \<longrightarrow> caught_invalid e) \<and>
     (\<forall>s. rf_before rf = Inr s \<longrightarrow> 0 \<le> st_dev s \<and> st_dev s \<le> uint64_max \<and>
        0 \<le> st_ino s \<and> st_ino s \<le> uint128_max)"

definition handled :: "py_exn \<Rightarrow> bool" where
  "handled e \<longleftrightarrow> e = ReplayChangedDuringRead \<or> caught_invalid e"

lemma handled_simps [simp]:
  "handled ReplayChangedDuringRead" "handled (ReplayReadError s)"
  by (simp_all add: handled_def)

lemma errs_stable_payload: "well_behaved rf \<Longrightarrow> errs_in handled (read_stable_payload io rf)"
  unfolding read_stable_payload_def
  by (intro errs) (auto simp: errs_in_def well_behaved_def handled_def split: sum.splits)

lemma errs_integer [errs]: "errs_in handled (replay_integer v f m)"
  by (cases v) (auto simp: errs_in_def split: option.splits)

lemma errs_optional_integer [errs]: "errs_in handled (optional_integer d f)"
  unfolding optional_integer_def by (intro errs)

lemma errs_sha256 [errs]: "errs_in handled (replay_sha256 v)"
  by (cases v) (auto simp: errs_in_def)

lemma errs_parse [errs]: "errs_in handled (parse_replay io b)"
  by (auto simp: errs_in_def parse_replay_def split: sum.splits pyval.splits)

lemma errs_integer_array [errs]: "errs_in handled (integer_array v f)"
  by (cases v) (auto intro!: errs)

lemma errs_lane_pattern [errs]: "errs_in handled (lane_pattern d)"
  unfolding lane_pattern_def by (cases "get_item d ''laneShufflePattern''") (auto intro!: errs)

lemma replay_read_errors:
  assumes wb: "well_behaved rf"
  shows "errs_in handled (replay_read rt io p rf)"
proof -
  have ident: "errs_in handled (sqlite_file_identity rt (PInt (st_dev b)) (PInt (st_ino b)))"
    if "read_stable_payload io rf = Inr (b, c)" for b c
    using wb read_stable_payload_Inr[of io rf b "fst c" "snd c"] that
    by (auto simp: errs_in_def well_behaved_def sqlite_file_identity_def Let_def)
  show ?thesis
    unfolding replay_read_def by (intro errs errs_stable_payload[OF wb] ident) simp_all
qed

lemma scan_one_total:
  "(\<And>e. rd p = Inl e \<Longrightarrow> handled e) \<Longrightarrow> \<exists>r. scan_one rd res p = Inr r"
  by (auto simp: scan_one_def handled_def split: sum.splits)

lemma scan_loop_total:
  "(\<And>p e. rd p = Inl e \<Longrightarrow> handled e) \<Longrightarrow> \<exists>r. py_for (scan_one rd) res ps = Inr r"
proof (induction ps arbitrary: res)
  case Nil
  then show ?case by simp
next
  case (Cons p ps)
  obtain res' where "scan_one rd res p = Inr res'" using scan_one_total Cons.prems by metis
  then show ?case using Cons by simp
qed

text \<open>Scanning never fails as a whole. If the file system raises only operating-system errors and reports file
  identities inside the unsigned 64 and 128-bit domains, then \<open>scan_report\<close> returns a report for every
  content of the replay directory.\<close>

theorem scan_report_total:
  assumes "\<And>p. well_behaved (slots p)"
  shows "\<exists>r. scan_report (\<lambda>p. replay_read rt io p (slots p)) is_dir glob cs = Inr r"
proof -
  have "\<exists>r. py_for (scan_one (\<lambda>p. replay_read rt io p (slots p))) res ps = Inr r" for res ps
    using replay_read_errors[OF assms] by (intro scan_loop_total) (auto simp: errs_in_def)
  then show ?thesis by (simp add: scan_report_def Let_def)
qed

theorem scan_report_total_witness:
  "\<exists>r. scan_report (\<lambda>p. replay_read sample_runtime sample_io p sample_slot) True [''x''] None = Inr r"
  by (rule scan_report_total) (simp add: well_behaved_def sample_slot_def sample_stat_def
      uint64_max_def uint128_max_def)

end
