(* ===== verification/Tables.thy ===== *)
theory Tables
  imports Normalize Replay
begin

text \<open>
  The tables of \<open>assistant.db\<close> (\<open>db/store.py\<close>, the \<open>SCHEMA_V*\<close> scripts) as records and lists
  of rows in insertion order, the schema migration, and the two contracts the write helpers
  meet: a table whose rows are merged by primary key, and a log that ignores an event whose unique key
  it already holds. The clients of the store use these contracts through their interpretations in
  theory \<open>Store\<close>.
\<close>

subsection \<open>Rows\<close>

record chart_row =
  cr_md5 :: pyval
  cr_title :: pyval
  cr_artist :: pyval
  cr_notes :: pyval
  cr_song_mode :: pyval
  cr_path :: "string option"
  cr_updated_at :: int

type_synonym play_key = "int \<times> string \<times> int \<times> int"
type_synonym cursor_key = "int \<times> string \<times> int"
type_synonym cursor = "int \<times> string"

definition play_key :: "play_record \<Rightarrow> play_key" where
  "play_key p = (pl_source_generation (r_play p), pl_sha256 (r_play p), pl_mode (r_play p),
     pl_playcount (r_play p))"

record collector_row =
  cs_source_generation :: int
  cs_last_mtime :: "real option"
  cs_last_size :: "int option"
  cs_last_run_at :: "int option"
  cs_last_error :: "string option"

record scan_row =
  sc_device :: int
  sc_inode :: int
  sc_mtime_ns :: int
  sc_compressed_size :: int
  sc_outcome :: string
  sc_checked_at :: int

record replay_row =
  rr_id :: int
  rr_path :: string
  rr_content_hash :: string
  rr_previous_content_hash :: "string option"
  rr_observed_at :: int
  rr_mtime_ns :: int
  rr_compressed_size :: int
  rr_sha256 :: string
  rr_mode :: int
  rr_played_at :: int
  rr_gauge :: int
  rr_selected_gauge_kind :: string
  rr_randomoption :: "int option"
  rr_randomoptionseed :: "int option"
  rr_randomoption2 :: "int option"
  rr_randomoption2seed :: "int option"
  rr_doubleoption :: "int option"
  rr_seven_to_nine_pattern :: "int option"
  rr_lane_shuffle_json :: "string option"
  rr_rand_json :: "string option"
  rr_match_status :: string
  rr_matched_play_id :: "int option"

record daily_import_row =
  di_id :: int
  di_imported_at :: int
  di_effective_date :: int
  di_score_sha256 :: string
  di_scoredatalog_sha256 :: string
  di_baseline_judged :: int
  di_cumulative_playcount :: int
  di_new_play_rows :: int
  di_lost_events :: int

text \<open>The four cumulative counters of a player row, and their differences to the row before.\<close>

type_synonym counters = "int \<times> int \<times> int \<times> int"

record player_daily_row =
  pd_cumulative :: counters
  pd_delta :: "counters option"
  pd_import_id :: int

record score_state_row =
  ss_clear :: int
  ss_ex :: "int option"
  ss_minbp :: "int option"
  ss_combo :: "int option"
  ss_notes :: "int option"
  ss_playcount :: int
  ss_played_at :: int
  ss_import_id :: int
  ss_payload_hash :: string

record score_change_row =
  sg_import_id :: int
  sg_sha256 :: string
  sg_mode :: int
  sg_playcount_delta :: int
  sg_old_clear :: int
  sg_new_clear :: int
  sg_old_ex :: "int option"
  sg_new_ex :: "int option"
  sg_old_minbp :: "int option"
  sg_new_minbp :: "int option"
  sg_old_combo :: "int option"
  sg_new_combo :: "int option"

record pattern_row =
  pt_rhythm_family :: pyval
  pt_avg_chord :: pyval
  pt_chord_ge3 :: pyval
  pt_micro_rate :: pyval
  pt_long_jack_rate :: pyval
  pt_practice_low :: pyval
  pt_analysis_version :: int
  pt_grid_bpm :: pyval
  pt_stream_sec :: pyval
  pt_last_kill :: pyval

text \<open>The database: \<open>plays\<close> and \<open>replay_metadata\<close> carry their \<open>AUTOINCREMENT\<close> counters.\<close>

record assistant_db =
  t_charts :: "(string \<times> chart_row) list"
  t_patterns :: "(string \<times> pattern_row) list"
  t_plays :: "(int \<times> play_record) list"
  t_next_play :: int
  t_cursors :: "(cursor_key \<times> cursor) list"
  t_collector :: "(string \<times> collector_row) list"
  t_scans :: "(string \<times> scan_row) list"
  t_replays :: "replay_row list"
  t_next_replay :: int
  t_imports :: "daily_import_row list"
  t_next_import :: int
  t_player_daily :: "(int \<times> player_daily_row) list"
  t_score_state :: "((string \<times> int) \<times> score_state_row) list"
  t_score_changes :: "score_change_row list"

definition empty_db :: assistant_db where
  "empty_db = \<lparr>t_charts = [], t_patterns = [], t_plays = [], t_next_play = 1, t_cursors = [],
     t_collector = [], t_scans = [], t_replays = [], t_next_replay = 1, t_imports = [],
     t_next_import = 1, t_player_daily = [], t_score_state = [], t_score_changes = []\<rparr>"

subsection \<open>Contracts of the write helpers\<close>

text \<open>A table with a primary key, written by \<open>INSERT ... ON CONFLICT DO UPDATE\<close>: \<open>merge\<close> combines
  the stored row, if any, with the one submitted.\<close>

locale merge_table =
  fixes upsert :: "'k \<Rightarrow> 'v \<Rightarrow> 't \<Rightarrow> 't"
    and lookup :: "'t \<Rightarrow> 'k \<Rightarrow> 'v option"
    and merge :: "'v option \<Rightarrow> 'v \<Rightarrow> 'v"
  assumes lookup_upsert: "lookup (upsert k v t) = (lookup t)(k \<mapsto> merge (lookup t k) v)"
begin

definition upsert_all :: "('k \<times> 'v) list \<Rightarrow> 't \<Rightarrow> 't" where
  "upsert_all kvs t = foldl (\<lambda>t (k, v). upsert k v t) t kvs"

lemma dom_upsert: "dom (lookup (upsert k v t)) = insert k (dom (lookup t))"
  by (simp add: lookup_upsert)

lemma lookup_other: "k \<noteq> l \<Longrightarrow> lookup (upsert k v t) l = lookup t l"
  by (simp add: lookup_upsert)

lemma lookup_upsert_all_other: "k \<notin> fst ` set kvs \<Longrightarrow> lookup (upsert_all kvs t) k = lookup t k"
  by (induction kvs arbitrary: t) (auto simp: upsert_all_def lookup_upsert)

lemma lookup_upsert_all:
  "distinct (map fst kvs) \<Longrightarrow> (k, v) \<in> set kvs \<Longrightarrow>
     lookup (upsert_all kvs t) k = Some (merge (lookup t k) v)"
proof (induction kvs arbitrary: t)
  case Nil
  then show ?case by simp
next
  case (Cons kv kvs)
  obtain l w where kv: "kv = (l, w)" by fastforce
  show ?case
  proof (cases "(k, v) = (l, w)")
    case True
    then have "lookup (upsert_all kvs (upsert l w t)) k = lookup (upsert l w t) k"
      using Cons.prems(1) by (intro lookup_upsert_all_other) (simp add: kv)
    then show ?thesis using True by (simp add: kv upsert_all_def lookup_upsert)
  next
    case False
    then have "(k, v) \<in> set kvs" and "k \<noteq> l"
      using Cons.prems by (auto simp: kv rev_image_eqI)
    then show ?thesis
      using Cons.IH[of "upsert l w t"] Cons.prems(1) by (simp add: kv upsert_all_def lookup_other)
  qed
qed

lemma dom_upsert_all: "dom (lookup (upsert_all kvs t)) = dom (lookup t) \<union> fst ` set kvs"
  by (induction kvs arbitrary: t) (auto simp: upsert_all_def dom_upsert split: prod.splits)

end

text \<open>A table whose conflicting insertions are ignored; the flag tells whether a row was created.\<close>

locale event_log =
  fixes append_event :: "'e \<Rightarrow> 't \<Rightarrow> bool \<times> 't"
    and key_of :: "'e \<Rightarrow> 'k"
    and keys :: "'t \<Rightarrow> 'k set"
  assumes keys_append: "keys (snd (append_event e t)) = insert (key_of e) (keys t)"
    and flag_append: "fst (append_event e t) \<longleftrightarrow> key_of e \<notin> keys t"
    and duplicate_append: "key_of e \<in> keys t \<Longrightarrow> snd (append_event e t) = t"
begin

definition append_all :: "'e list \<Rightarrow> nat \<times> 't \<Rightarrow> nat \<times> 't" where
  "append_all es s = foldl (\<lambda>(n, t) e. (n + of_bool (fst (append_event e t)), snd (append_event e t))) s es"

lemma keys_append_all: "keys (snd (append_all es (n, t))) = keys t \<union> key_of ` set es"
  by (induction es arbitrary: n t) (auto simp: append_all_def keys_append)

lemma append_all_repeated:
  "key_of ` set es \<subseteq> keys t \<Longrightarrow> append_all es (n, t) = (n, t)"
proof (induction es arbitrary: n)
  case Nil
  then show ?case by (simp add: append_all_def)
next
  case (Cons e es)
  then have "append_event e t = (False, t)"
    by (intro prod_eqI) (auto simp: flag_append duplicate_append)
  then show ?case using Cons by (simp add: append_all_def)
qed

lemma append_all_idempotent: "append_all es (n, snd (append_all es (m, t))) = (n, snd (append_all es (m, t)))"
  by (rule append_all_repeated) (simp add: keys_append_all)

lemma append_all_counts:
  "finite (keys t) \<Longrightarrow> fst (append_all es (n, t)) + card (keys t) =
     n + card (keys (snd (append_all es (n, t))))"
proof (induction es arbitrary: n t)
  case Nil
  then show ?case by (simp add: append_all_def)
next
  case (Cons e es)
  let ?n = "n + of_bool (fst (append_event e t))" and ?t = "snd (append_event e t)"
  have "finite (keys ?t)" using Cons.prems by (simp add: keys_append)
  from Cons.IH[OF this, of ?n] Cons.prems show ?case
    by (auto simp: append_all_def keys_append flag_append card_insert_if)
qed

end

subsection \<open>Schema migration\<close>

text \<open>What the migration sees of a database: the rows of \<open>schema_version\<close>, if the table exists,
  and the schema scripts that have been executed. Whether SQLite executes a script is the argument
  \<open>exec_script\<close>.\<close>

record schema_state =
  sv_version :: "int list option"
  sv_scripts :: "int list"

definition schema_version_number :: int where "schema_version_number = 11"

definition read_schema_version :: "schema_state \<Rightarrow> int py" where
  "read_schema_version s =
     (case sv_version s of
        None \<Rightarrow> Inr 0
      | Some [] \<Rightarrow> Inl (RuntimeError ''schema_version exists but contains no version'')
      | Some (v # _) \<Rightarrow> Inr v)"

text \<open>The scripts of each branch of \<open>migrate\<close>.\<close>

definition migration_scripts :: "int \<Rightarrow> int list option" where
  "migration_scripts current =
     (if current = 0 then Some [2, 3, 4, 5, 6, 7, 8, 9, 10, 11]
      else if current = 2 then Some [3, 4, 5, 6, 7, 8, 9, 10, 11]
      else if current = 3 then Some [4, 5, 6, 7, 8, 9, 10, 11]
      else if current = 4 then Some [5, 6, 7, 8, 9, 10, 11]
      else if current = 5 then Some [6, 7, 8, 9, 10, 11]
      else if current = 6 then Some [7, 8, 9, 10, 11]
      else if current = 7 then Some [8, 9, 10, 11]
      else if current = 8 then Some [9, 10, 11]
      else if current = 9 then Some [10, 11]
      else if current = 10 then Some [11]
      else None)"

text \<open>One transaction: the scripts, then the version row; \<open>SCHEMA_V2\<close> creates the version
  table and therefore fails where it exists. A failure rolls everything back.\<close>

definition run_scripts ::
    "(int \<Rightarrow> unit py) \<Rightarrow> int list \<Rightarrow> schema_state \<Rightarrow> schema_state py" where
  "run_scripts exec_script scripts s =
     py_bind (raise_if (2 \<in> set scripts \<and> sv_version s \<noteq> None)
       (SqliteError ''table schema_version already exists'')) (\<lambda>_.
     py_bind (py_mapM exec_script scripts) (\<lambda>_.
     Inr \<lparr>sv_version = Some (if 2 \<in> set scripts then [schema_version_number]
            else map (\<lambda>_. schema_version_number) (the (sv_version s))),
          sv_scripts = sv_scripts s @ scripts\<rparr>))"

definition migrate :: "(int \<Rightarrow> unit py) \<Rightarrow> schema_state \<Rightarrow> unit py \<times> schema_state" where
  "migrate exec_script s =
     (case read_schema_version s of
        Inl e \<Rightarrow> (Inl e, s)
      | Inr current \<Rightarrow>
          if schema_version_number < current then
            (Inl (RuntimeError ''assistant DB schema is newer than supported''), s)
          else if current = schema_version_number then (Inr (), s)
          else if current = 1 then
            (Inl (RuntimeError ''assistant DB schema_version 1 cannot be migrated safely''), s)
          else
            (case migration_scripts current of
               None \<Rightarrow> (Inl (RuntimeError ''unsupported assistant DB schema_version''), s)
             | Some scripts \<Rightarrow>
                 (case run_scripts exec_script scripts s of
                    Inl e \<Rightarrow> (Inl e, s)
                  | Inr s' \<Rightarrow> (Inr (), s'))))"

text \<open>A database that earlier versions of \<open>migrate\<close> can have produced: every script from 2 to its
  version was executed exactly once, in order.\<close>

definition schema_consistent :: "schema_state \<Rightarrow> bool" where
  "schema_consistent s \<longleftrightarrow>
     (case sv_version s of
        None \<Rightarrow> sv_scripts s = []
      | Some [v] \<Rightarrow> 2 \<le> v \<and> v \<le> 11 \<and> sv_scripts s = [2..v]
      | _ \<Rightarrow> False)"

lemma upto_numeral: "[2..11] = [2, 3, 4, 5, 6, 7, 8, 9, 10, 11 :: int]"
  by (simp add: upto.simps)

lemma migration_scripts_rest:
  "2 \<le> v \<Longrightarrow> v < 11 \<Longrightarrow> migration_scripts v = Some [v + 1..11]"
proof -
  assume "2 \<le> v" "v < 11"
  then consider "v = 2" | "v = 3" | "v = 4" | "v = 5" | "v = 6" | "v = 7" | "v = 8" | "v = 9" | "v = 10"
    by linarith
  then show ?thesis by cases (simp_all add: migration_scripts_def upto.simps)
qed

lemma upto_append: "i \<le> j \<Longrightarrow> j \<le> k \<Longrightarrow> [i..j] @ [j + 1..k] = [i..k]" for i j k :: int
  by (simp add: upto_split2[of i j k])

lemma migrate_fresh_or_old:
  assumes "schema_consistent s" and "migrate exec_script s = (Inr (), s')"
  shows "sv_version s' = Some [11] \<and> sv_scripts s' = [2..11]"
proof (cases "sv_version s")
  case None
  then show ?thesis using assms
    by (auto simp: migrate_def read_schema_version_def schema_consistent_def migration_scripts_def
        run_scripts_def schema_version_number_def upto_numeral py_bind_Inr_iff
        split: sum.splits)
next
  case (Some vs)
  then obtain v where v: "vs = [v]" "2 \<le> v" "v \<le> 11" "sv_scripts s = [2..v]"
    using assms(1) by (auto simp: schema_consistent_def split: list.splits)
  show ?thesis
  proof (cases "v = 11")
    case True
    then show ?thesis using assms(2) Some v
      by (simp add: migrate_def read_schema_version_def schema_version_number_def)
  next
    case False
    then have "migration_scripts v = Some [v + 1..11]" using v by (intro migration_scripts_rest) auto
    then show ?thesis using assms(2) Some v False upto_append[of 2 v 11]
      by (auto simp: migrate_def read_schema_version_def run_scripts_def schema_version_number_def
          py_bind_Inr_iff split: sum.splits)
  qed
qed

text \<open>C18: migration is atomic and complete. From any consistent database it either leaves everything untouched and
  raises, or reaches version 11 with every schema script from 2 to 11 executed exactly once in
  order, and then a second run changes nothing.\<close>

theorem migrate_atomic_complete:
  assumes "schema_consistent s"
  shows "(case migrate exec_script s of
       (Inl e, s') \<Rightarrow> s' = s
     | (Inr u, s') \<Rightarrow> sv_version s' = Some [11] \<and> sv_scripts s' = [2..11] \<and>
         migrate exec_script s' = (Inr (), s'))"
proof -
  have same: "s' = s" if "migrate exec_script s = (Inl e, s')" for e s'
    using that by (auto simp: migrate_def split: sum.splits if_splits option.splits)
  have again: "migrate exec_script s' = (Inr (), s')" if "sv_version s' = Some [11]" for s'
    using that by (simp add: migrate_def read_schema_version_def schema_version_number_def)
  obtain r s' where m: "migrate exec_script s = (r, s')" by fastforce
  show ?thesis
  proof (cases r)
    case (Inl e)
    then show ?thesis using same m by simp
  next
    case (Inr u)
    then have "migrate exec_script s = (Inr (), s')" using m by simp
    from migrate_fresh_or_old[OF assms this] show ?thesis
      using again[of s'] m Inr by simp
  qed
qed

theorem migrate_atomic_complete_witness:
  "sv_scripts (snd (migrate (\<lambda>_. Inr ()) \<lparr>sv_version = Some [9], sv_scripts = [2..9]\<rparr>)) = [2..11]"
proof -
  define ss where "ss = \<lparr>sv_version = Some [9], sv_scripts = [2..9]\<rparr>"
  have "schema_consistent ss" by (simp add: schema_consistent_def ss_def)
  note result = migrate_atomic_complete[OF this, of "\<lambda>_. Inr ()"]
  obtain s' where m: "migrate (\<lambda>_. Inr ()) ss = (Inr (), s')"
    by (simp add: migrate_def read_schema_version_def schema_version_number_def
        migration_scripts_def run_scripts_def ss_def)
  then have "sv_scripts s' = [2..11]" using result by simp
  then show ?thesis using m by (simp only: ss_def snd_conv)
qed

end
