(* ===== verification/Store.thy ===== *)
theory Store
  imports Tables
begin

text \<open>
  The write helpers of \<open>db/store.py\<close>: plays, cursors, collector state, charts, pattern features, replay scan
  states and replay metadata. A connection is the value of the tables; \<open>total_changes\<close> is
  not modelled, its only use being whether the last statement inserted a row.
\<close>

subsection \<open>Opening\<close>

text \<open>\<open>init\<close> refuses the names of the source databases.\<close>

definition beatoraja_db_names :: "string list" where
  "beatoraja_db_names = [''score.db'', ''scoredatalog.db'', ''scorelog.db'', ''songdata.db'', ''songinfo.db'']"

definition check_store_name :: "string \<Rightarrow> unit py" where
  "check_store_name path =
     raise_if (path_name path \<in> set beatoraja_db_names)
       (ValueError ''refusing to use beatoraja source name as store'')"

subsection \<open>Plays\<close>

definition find_play :: "play_key \<Rightarrow> (int \<times> play_record) list \<Rightarrow> (int \<times> play_record) option" where
  "find_play k ps = List.find (\<lambda>(i, p). play_key p = k) ps"

definition play_keys :: "assistant_db \<Rightarrow> play_key set" where
  "play_keys db = play_key ` snd ` set (t_plays db)"

text \<open>The columns of \<open>PLAY_COLUMNS\<close> that the conflict clause overwrites: all but the unique key, the source and
  the lost events.\<close>

definition overwrite_play :: "play_record \<Rightarrow> play_record \<Rightarrow> play_record" where
  "overwrite_play old new =
     new\<lparr>r_play := (r_play new)\<lparr>pl_source := pl_source (r_play old),
                              pl_lost_events := pl_lost_events (r_play old)\<rparr>\<rparr>"

definition add_play :: "play_record \<Rightarrow> assistant_db \<Rightarrow> assistant_db" where
  "add_play p db = db\<lparr>t_plays := t_plays db @ [(t_next_play db, p)], t_next_play := t_next_play db + 1\<rparr>"

definition insert_play :: "bool \<Rightarrow> play_record \<Rightarrow> assistant_db \<Rightarrow> bool \<times> assistant_db" where
  "insert_play update_existing p db =
     (if find_play (play_key p) (t_plays db) = None then (True, add_play p db)
      else if \<not> update_existing then (False, db)
      else (False, db\<lparr>t_plays :=
          map (\<lambda>(i, q). (i, if play_key q = play_key p then overwrite_play q p else q)) (t_plays db)\<rparr>))"

subsection \<open>Cursors and collector state\<close>

text \<open>\<open>ON CONFLICT DO UPDATE ... WHERE excluded.last_playcount >= chart_cursor.last_playcount\<close>.\<close>

fun merge_cursor :: "cursor option \<Rightarrow> cursor \<Rightarrow> cursor" where
  "merge_cursor None c = c"
| "merge_cursor (Some old) c = (if fst c \<ge> fst old then c else old)"

definition upsert_cursor :: "cursor_key \<Rightarrow> cursor \<Rightarrow> assistant_db \<Rightarrow> assistant_db" where
  "upsert_cursor k c db =
     db\<lparr>t_cursors := AList.update k (merge_cursor (map_of (t_cursors db) k) c) (t_cursors db)\<rparr>"

definition load_cursors :: "assistant_db \<Rightarrow> int \<Rightarrow> ((string \<times> int) \<times> cursor) list" where
  "load_cursors db generation =
     map (\<lambda>((g, sha, mode), c). ((sha, mode), c)) (filter (\<lambda>((g, sha, mode), c). g = generation) (t_cursors db))"

definition upsert_collector_state :: "string \<Rightarrow> collector_row \<Rightarrow> assistant_db \<Rightarrow> assistant_db" where
  "upsert_collector_state k r db = db\<lparr>t_collector := AList.update k r (t_collector db)\<rparr>"

subsection \<open>Charts and pattern features\<close>

text \<open>The representative path of a chart is the smallest one seen, a missing path never winning.\<close>

fun merge_path :: "string option \<Rightarrow> string option \<Rightarrow> string option" where
  "merge_path None new = new"
| "merge_path (Some old) None = Some old"
| "merge_path (Some old) (Some new) = (if new < old then Some new else Some old)"

fun merge_chart :: "chart_row option \<Rightarrow> chart_row \<Rightarrow> chart_row" where
  "merge_chart None new = new"
| "merge_chart (Some old) new = new\<lparr>cr_path := merge_path (cr_path old) (cr_path new)\<rparr>"

definition upsert_chart :: "string \<Rightarrow> chart_row \<Rightarrow> assistant_db \<Rightarrow> assistant_db" where
  "upsert_chart sha c db =
     db\<lparr>t_charts := AList.update sha (merge_chart (map_of (t_charts db) sha) c) (t_charts db)\<rparr>"

definition upsert_charts :: "(string \<times> chart_row) list \<Rightarrow> assistant_db \<Rightarrow> assistant_db" where
  "upsert_charts cs db = foldl (\<lambda>db (sha, c). upsert_chart sha c db) db cs"

definition upsert_pattern :: "string \<Rightarrow> pattern_row \<Rightarrow> assistant_db \<Rightarrow> assistant_db" where
  "upsert_pattern sha p db = db\<lparr>t_patterns := AList.update sha p (t_patterns db)\<rparr>"

definition upsert_chart_pattern_features ::
    "(string \<times> pattern_row) list \<Rightarrow> assistant_db \<Rightarrow> assistant_db" where
  "upsert_chart_pattern_features ps db = foldl (\<lambda>db (sha, p). upsert_pattern sha p db) db ps"

subsection \<open>Replay scan states\<close>

text \<open>The identity tuple the collector compares: device, inode, modification time, size and
  outcome.\<close>

definition load_replay_scan_states ::
    "assistant_db \<Rightarrow> (string \<times> (int \<times> int \<times> int \<times> int \<times> string)) list" where
  "load_replay_scan_states db =
     map (\<lambda>(p, r). (p, (sc_device r, sc_inode r, sc_mtime_ns r, sc_compressed_size r, sc_outcome r)))
       (t_scans db)"

definition normalized_replay_scan_state :: "runtime \<Rightarrow> scan_row \<Rightarrow> scan_row py" where
  "normalized_replay_scan_state rt r =
     py_bind (sqlite_file_identity rt (PInt (sc_device r)) (PInt (sc_inode r))) (\<lambda>(device, inode).
       Inr (r\<lparr>sc_device := device, sc_inode := inode\<rparr>))"

definition put_scan_state :: "string \<Rightarrow> scan_row \<Rightarrow> assistant_db \<Rightarrow> assistant_db" where
  "put_scan_state p r db = db\<lparr>t_scans := AList.update p r (t_scans db)\<rparr>"

definition upsert_replay_scan_states ::
    "runtime \<Rightarrow> (string \<times> scan_row) list \<Rightarrow> assistant_db \<Rightarrow> assistant_db py" where
  "upsert_replay_scan_states rt obs db =
     py_for (\<lambda>db (p, r). py_bind (normalized_replay_scan_state rt r) (\<lambda>r'. Inr (put_scan_state p r' db)))
       db obs"

definition delete_replay_scan_states :: "string list \<Rightarrow> assistant_db \<Rightarrow> assistant_db" where
  "delete_replay_scan_states paths db =
     db\<lparr>t_scans := filter (\<lambda>(p, r). p \<notin> set paths) (t_scans db)\<rparr>"

definition replay_scan_error_counts :: "assistant_db \<Rightarrow> nat \<times> nat" where
  "replay_scan_error_counts db =
     (length (filter (\<lambda>(p, r). sc_outcome r = ''invalid'') (t_scans db)),
      length (filter (\<lambda>(p, r). sc_outcome r = ''unstable'') (t_scans db)))"

subsection \<open>Replay metadata\<close>

definition replay_match_tolerance_seconds :: int where "replay_match_tolerance_seconds = 30"
definition replay_ln_modes :: "int set" where "replay_ln_modes = {1, 2}"

definition json_ints :: "int list \<Rightarrow> string" where
  "json_ints xs = CHR ''['' # join_commas (map show_int xs) @ [CHR '']'']"

definition json_int_rows :: "int list list \<Rightarrow> string" where
  "json_int_rows xs = CHR ''['' # join_commas (map json_ints xs) @ [CHR '']'']"

text \<open>\<open>refresh_play_gauge\<close>: the play takes the gauge of the newest replay matched to it, or none.\<close>

definition newest_gauge :: "assistant_db \<Rightarrow> int \<Rightarrow> string option" where
  "newest_gauge db play_id =
     (case rev (filter (\<lambda>r. rr_match_status r = ''matched'' \<and> rr_matched_play_id r = Some play_id)
        (t_replays db)) of
        [] \<Rightarrow> None | r # _ \<Rightarrow> Some (rr_selected_gauge_kind r))"

definition set_gauge :: "string option \<Rightarrow> play_record \<Rightarrow> play_record" where
  "set_gauge g p = p\<lparr>r_play := (r_play p)\<lparr>pl_selected_gauge_kind := g\<rparr>\<rparr>"

definition refresh_play_gauge :: "int \<Rightarrow> assistant_db \<Rightarrow> assistant_db" where
  "refresh_play_gauge play_id db =
     db\<lparr>t_plays := map (\<lambda>(i, p). (i, if i = play_id then set_gauge (newest_gauge db play_id) p else p))
        (t_plays db)\<rparr>"

text \<open>\<open>play_matches\<close>: at most the two oldest plays of the chart and mode in the window after the replay.\<close>

definition replay_matches :: "replay_meta \<Rightarrow> int \<Rightarrow> play_record \<Rightarrow> bool" where
  "replay_matches m mode p \<longleftrightarrow>
     pl_sha256 (r_play p) = rm_sha256 m \<and> pl_mode (r_play p) = mode \<and>
     rm_played_at m \<le> pl_played_at (r_play p) \<and>
     pl_played_at (r_play p) \<le> rm_played_at m + replay_match_tolerance_seconds \<and>
     r_is_course p = 0"

definition play_matches :: "assistant_db \<Rightarrow> replay_meta \<Rightarrow> int \<Rightarrow> int list" where
  "play_matches db m mode =
     take 2 (map fst (filter (\<lambda>(i, p). replay_matches m mode p) (t_plays db)))"

text \<open>An exact-mode candidate wins; a configured LN mode falls back to mode 0 only without one.\<close>

definition candidate_plays :: "assistant_db \<Rightarrow> replay_meta \<Rightarrow> int list" where
  "candidate_plays db m =
     (let exact = play_matches db m (rm_mode m)
      in if exact = [] \<and> rm_mode m \<in> replay_ln_modes then play_matches db m 0 else exact)"

definition replay_row_of ::
    "int \<Rightarrow> replay_meta \<Rightarrow> string option \<Rightarrow> int \<Rightarrow> string \<Rightarrow> int option \<Rightarrow> replay_row" where
  "replay_row_of i m previous observed_at status play_id =
     \<lparr>rr_id = i, rr_path = rm_path m, rr_content_hash = rm_content_hash m,
      rr_previous_content_hash = previous, rr_observed_at = observed_at, rr_mtime_ns = rm_mtime_ns m,
      rr_compressed_size = rm_compressed_size m, rr_sha256 = rm_sha256 m, rr_mode = rm_mode m,
      rr_played_at = rm_played_at m, rr_gauge = rm_gauge m,
      rr_selected_gauge_kind = rm_selected_gauge_kind m, rr_randomoption = rm_randomoption m,
      rr_randomoptionseed = rm_randomoptionseed m, rr_randomoption2 = rm_randomoption2 m,
      rr_randomoption2seed = rm_randomoption2seed m, rr_doubleoption = rm_doubleoption m,
      rr_seven_to_nine_pattern = rm_seven_to_nine_pattern m,
      rr_lane_shuffle_json = map_option json_int_rows (rm_lane_shuffle_pattern m),
      rr_rand_json = map_option json_ints (rm_rand m),
      rr_match_status = status, rr_matched_play_id = play_id\<rparr>"

definition set_match :: "int \<Rightarrow> string \<Rightarrow> int option \<Rightarrow> assistant_db \<Rightarrow> assistant_db" where
  "set_match i status play_id db =
     db\<lparr>t_replays := map (\<lambda>r. if rr_id r = i
        then r\<lparr>rr_match_status := status, rr_matched_play_id := play_id\<rparr> else r) (t_replays db)\<rparr>"

text \<open>A slot version seen before: reconciled when its match has changed.\<close>

definition reconcile_replay ::
    "replay_row \<Rightarrow> int list \<Rightarrow> assistant_db \<Rightarrow> (string \<times> bool \<times> bool) \<times> assistant_db" where
  "reconcile_replay existing matches db =
     (let previous_status = rr_match_status existing;
          previous_play_id = rr_matched_play_id existing
      in case matches of
           [p] \<Rightarrow>
             if previous_status = ''matched'' \<and> previous_play_id = Some p
             then ((previous_status, False, False), db)
             else
               let db1 = set_match (rr_id existing) ''matched'' (Some p) db;
                   db2 = (case previous_play_id of
                            Some q \<Rightarrow> if q \<noteq> p then refresh_play_gauge q db1 else db1
                          | None \<Rightarrow> db1)
               in ((''matched'', False, True), refresh_play_gauge p db2)
         | _ \<Rightarrow>
             if length matches > 1 \<and> previous_status \<noteq> ''ambiguous'' then
               let db1 = set_match (rr_id existing) ''ambiguous'' None db
               in ((''ambiguous'', False, True),
                   case previous_play_id of Some q \<Rightarrow> refresh_play_gauge q db1 | None \<Rightarrow> db1)
             else ((previous_status, False, False), db))"

definition record_replay ::
    "replay_meta \<Rightarrow> int list \<Rightarrow> int \<Rightarrow> assistant_db \<Rightarrow> (string \<times> bool \<times> bool) \<times> assistant_db" where
  "record_replay m matches observed_at db =
     (let previous = (case rev (filter (\<lambda>r. rr_path r = rm_path m) (t_replays db)) of
            [] \<Rightarrow> None | r # _ \<Rightarrow> Some (rr_content_hash r));
          status = (case matches of [p] \<Rightarrow> ''matched'' | [] \<Rightarrow> ''unmatched'' | _ \<Rightarrow> ''ambiguous'');
          play_id = (case matches of [p] \<Rightarrow> Some p | _ \<Rightarrow> None);
          row = replay_row_of (t_next_replay db) m previous observed_at status play_id;
          db1 = db\<lparr>t_replays := t_replays db @ [row], t_next_replay := t_next_replay db + 1\<rparr>
      in ((status, previous \<noteq> None, True),
          case play_id of Some p \<Rightarrow> refresh_play_gauge p db1 | None \<Rightarrow> db1))"

text \<open>The result is \<open>(status, overwritten, changed)\<close>.\<close>

definition ingest_replay_metadata ::
    "replay_meta \<Rightarrow> int \<Rightarrow> assistant_db \<Rightarrow> (string \<times> bool \<times> bool) \<times> assistant_db" where
  "ingest_replay_metadata m observed_at db =
     (case List.find (\<lambda>r. rr_path r = rm_path m \<and> rr_content_hash r = rm_content_hash m) (t_replays db) of
        Some existing \<Rightarrow> reconcile_replay existing (candidate_plays db m) db
      | None \<Rightarrow> record_replay m (candidate_plays db m) observed_at db)"

subsection \<open>The helpers meet their contracts\<close>

lemma find_play_None [table_simps]: "find_play k ps = None \<longleftrightarrow> k \<notin> play_key ` snd ` set ps"
  by (force simp: find_play_def find_None_iff)

lemma play_keys_add [table_simps]: "play_keys (add_play p db) = insert (play_key p) (play_keys db)"
  by (simp add: play_keys_def add_play_def)

interpretation plays_log: event_log "insert_play False" play_key play_keys
  by unfold_locales (simp_all add: insert_play_def find_play_None play_keys_add insert_absorb
      flip: play_keys_def)

interpretation cursor_table: merge_table upsert_cursor "\<lambda>db. map_of (t_cursors db)" merge_cursor
  by unfold_locales (simp add: upsert_cursor_def AList.update_conv')

interpretation collector_table:
  merge_table upsert_collector_state "\<lambda>db. map_of (t_collector db)" "\<lambda>_ r. r"
  by unfold_locales (simp add: upsert_collector_state_def AList.update_conv')

interpretation chart_table: merge_table upsert_chart "\<lambda>db. map_of (t_charts db)" merge_chart
  by unfold_locales (simp add: upsert_chart_def AList.update_conv')

interpretation pattern_table:
  merge_table upsert_pattern "\<lambda>db. map_of (t_patterns db)" "\<lambda>_ r. r"
  by unfold_locales (simp add: upsert_pattern_def AList.update_conv')

interpretation scan_table:
  merge_table put_scan_state "\<lambda>db. map_of (t_scans db)" "\<lambda>_ r. r"
  by unfold_locales (simp add: put_scan_state_def AList.update_conv')

subsection \<open>The invariant of the store\<close>

definition plays_ok :: "assistant_db \<Rightarrow> bool" where
  "plays_ok db \<longleftrightarrow> distinct (map (\<lambda>x. play_key (snd x)) (t_plays db)) \<and>
     distinct (map fst (t_plays db)) \<and> (\<forall>x\<in>set (t_plays db). fst x < t_next_play db)"

definition keyed_ok :: "assistant_db \<Rightarrow> bool" where
  "keyed_ok db \<longleftrightarrow> distinct (map fst (t_cursors db)) \<and> distinct (map fst (t_scans db)) \<and>
     distinct (map fst (t_charts db)) \<and> distinct (map fst (t_collector db))"

definition play_ids :: "assistant_db \<Rightarrow> int set" where
  "play_ids db = fst ` set (t_plays db)"

text \<open>Every matched replay refers to an existing play, and only matched ones refer to any.\<close>

definition replays_ok :: "assistant_db \<Rightarrow> bool" where
  "replays_ok db \<longleftrightarrow> distinct (map rr_id (t_replays db)) \<and>
     (\<forall>r\<in>set (t_replays db). rr_id r < t_next_replay db) \<and>
     (\<forall>r\<in>set (t_replays db). (rr_match_status r = ''matched'') = (rr_matched_play_id r \<noteq> None)) \<and>
     (\<forall>r\<in>set (t_replays db). set_option (rr_matched_play_id r) \<subseteq> play_ids db) \<and>
     distinct (map (\<lambda>r. (rr_path r, rr_content_hash r)) (t_replays db))"

text \<open>The gauge column of \<open>plays\<close> is a cache of the replay history.\<close>

definition gauges_ok :: "assistant_db \<Rightarrow> bool" where
  "gauges_ok db \<longleftrightarrow>
     (\<forall>x\<in>set (t_plays db). pl_selected_gauge_kind (r_play (snd x)) = newest_gauge db (fst x))"

definition store_ok :: "assistant_db \<Rightarrow> bool" where
  "store_ok db \<longleftrightarrow> plays_ok db \<and> keyed_ok db \<and> replays_ok db"

lemma store_ok_empty [simp]: "store_ok empty_db" "gauges_ok empty_db"
  by (simp_all add: store_ok_def plays_ok_def keyed_ok_def replays_ok_def empty_db_def gauges_ok_def)

lemma play_key_overwrite [simp]: "play_key q = play_key p \<Longrightarrow> play_key (overwrite_play q p) = play_key p"
  by (simp add: play_key_def overwrite_play_def)

lemma play_key_set_gauge [simp]: "play_key (set_gauge g p) = play_key p"
  by (simp add: play_key_def set_gauge_def)

lemma insert_play_frame [simp]:
  "t_cursors (snd (insert_play u p db)) = t_cursors db"
  "t_scans (snd (insert_play u p db)) = t_scans db"
  "t_charts (snd (insert_play u p db)) = t_charts db"
  "t_collector (snd (insert_play u p db)) = t_collector db"
  "t_replays (snd (insert_play u p db)) = t_replays db"
  "t_next_replay (snd (insert_play u p db)) = t_next_replay db"
  "t_next_play db \<le> t_next_play (snd (insert_play u p db))"
  by (simp_all add: insert_play_def add_play_def)

lemma overwrite_keys:
  "map (\<lambda>x. play_key (snd x)) (map (\<lambda>(i, q). (i, if play_key q = play_key p then overwrite_play q p else q)) ps)
     = map (\<lambda>x. play_key (snd x)) ps"
  by auto

lemma overwrite_ids:
  "map fst (map (\<lambda>(i, q). (i, if play_key q = k then overwrite_play q p else q)) ps) = map fst ps"
  by (auto simp: split_beta)

text \<open>Updates that keep the keys and the identifiers of the plays keep the invariant.\<close>

lemma plays_ok_same_keys:
  assumes "plays_ok db" and "map (\<lambda>x. play_key (snd x)) ps = map (\<lambda>x. play_key (snd x)) (t_plays db)"
    and "map fst ps = map fst (t_plays db)"
  shows "plays_ok (db\<lparr>t_plays := ps\<rparr>)"
proof -
  have "fst x < t_next_play db" if "x \<in> set ps" for x
  proof -
    have "fst x \<in> set (map fst (t_plays db))" using that by (simp flip: assms(3))
    then show ?thesis using assms(1) by (auto simp: plays_ok_def)
  qed
  then show ?thesis using assms by (simp add: plays_ok_def)
qed

lemma plays_ok_add:
  assumes "plays_ok db" and "play_key p \<notin> play_keys db"
  shows "plays_ok (add_play p db)"
proof -
  have "t_next_play db \<notin> fst ` set (t_plays db)" using assms(1) by (force simp: plays_ok_def)
  moreover have "fst x < t_next_play db + 1" if "x \<in> set (t_plays db)" for x
    using assms(1) that by (auto simp: plays_ok_def intro: less_trans)
  moreover have "play_key p \<notin> (\<lambda>x. play_key (snd x)) ` set (t_plays db)"
    using assms(2) by (simp add: play_keys_def image_image)
  ultimately show ?thesis using assms(1) by (simp add: plays_ok_def add_play_def)
qed

lemma plays_ok_insert: "plays_ok db \<Longrightarrow> plays_ok (snd (insert_play u p db))"
  using plays_ok_add[of db p] plays_ok_same_keys[OF _ overwrite_keys overwrite_ids, of db p]
  by (simp add: insert_play_def find_play_None play_keys_def)

lemma replays_ok_mono:
  assumes "replays_ok db" and "t_replays db' = t_replays db" and "t_next_replay db' = t_next_replay db"
    and "play_ids db \<subseteq> play_ids db'"
  shows "replays_ok db'"
proof -
  have "\<forall>r\<in>set (t_replays db). set_option (rr_matched_play_id r) \<subseteq> play_ids db"
    using assms(1) by (simp add: replays_ok_def)
  then have "\<forall>r\<in>set (t_replays db). set_option (rr_matched_play_id r) \<subseteq> play_ids db'"
    using assms(4) by blast
  then show ?thesis using assms(1-3) by (simp add: replays_ok_def)
qed

lemma play_ids_insert:
  "play_ids (snd (insert_play u p db)) =
     (if find_play (play_key p) (t_plays db) = None then insert (t_next_play db) (play_ids db)
      else play_ids db)"
  by (simp add: insert_play_def add_play_def play_ids_def image_image split_beta)

lemma replays_ok_insert: "replays_ok db \<Longrightarrow> replays_ok (snd (insert_play u p db))"
  by (erule replays_ok_mono) (auto simp: play_ids_insert)

lemma store_ok_insert [intro]: "store_ok db \<Longrightarrow> store_ok (snd (insert_play u p db))"
  by (simp add: store_ok_def plays_ok_insert replays_ok_insert) (simp add: keyed_ok_def)

lemma store_ok_cursor [intro]: "store_ok db \<Longrightarrow> store_ok (upsert_cursor k c db)"
  by (simp add: store_ok_def plays_ok_def keyed_ok_def replays_ok_def play_ids_def upsert_cursor_def distinct_update)

lemma store_ok_collector [intro]: "store_ok db \<Longrightarrow> store_ok (upsert_collector_state k r db)"
  by (simp add: store_ok_def plays_ok_def keyed_ok_def replays_ok_def play_ids_def upsert_collector_state_def
      distinct_update)

lemma store_ok_scan [intro]: "store_ok db \<Longrightarrow> store_ok (put_scan_state p r db)"
  by (simp add: store_ok_def plays_ok_def keyed_ok_def replays_ok_def play_ids_def put_scan_state_def distinct_update)

lemma store_ok_chart [intro]: "store_ok db \<Longrightarrow> store_ok (upsert_chart k c db)"
  by (simp add: store_ok_def plays_ok_def keyed_ok_def replays_ok_def play_ids_def upsert_chart_def distinct_update)

lemma store_ok_delete [intro]: "store_ok db \<Longrightarrow> store_ok (delete_replay_scan_states ps db)"
  by (simp add: store_ok_def plays_ok_def keyed_ok_def replays_ok_def play_ids_def delete_replay_scan_states_def
      distinct_map_filter)

end
