(* ===== verification/Replay_Ingest.thy ===== *)
theory Replay_Ingest
  imports Store
begin

text \<open>
  What \<open>ingest_replay_metadata\<close> guarantees: it keeps the invariant of the store, the gauge column of
  \<open>plays\<close> stays the gauge of the newest replay matched to the play, a second observation of the same
  slot version changes nothing, and nothing but the gauge column of at most two plays is
  written outside the replay table.
\<close>

subsection \<open>Refreshing and re-matching\<close>

definition gauges_ok_except :: "int set \<Rightarrow> assistant_db \<Rightarrow> bool" where
  "gauges_ok_except S db \<longleftrightarrow>
     (\<forall>x\<in>set (t_plays db). fst x \<notin> S \<longrightarrow> pl_selected_gauge_kind (r_play (snd x)) = newest_gauge db (fst x))"

lemma gauges_ok_except_empty: "gauges_ok_except {} db \<longleftrightarrow> gauges_ok db"
  by (simp add: gauges_ok_except_def gauges_ok_def)

lemma gauges_ok_except_mono: "gauges_ok_except S db \<Longrightarrow> S \<subseteq> T \<Longrightarrow> gauges_ok_except T db"
  by (auto simp: gauges_ok_except_def)

lemma newest_gauge_cong: "t_replays db = t_replays db' \<Longrightarrow> newest_gauge db i = newest_gauge db' i"
  by (simp add: newest_gauge_def)

lemma refresh_frame [simp]:
  "t_replays (refresh_play_gauge i db) = t_replays db"
  "t_next_replay (refresh_play_gauge i db) = t_next_replay db"
  "t_next_play (refresh_play_gauge i db) = t_next_play db"
  "t_cursors (refresh_play_gauge i db) = t_cursors db"
  "t_scans (refresh_play_gauge i db) = t_scans db"
  "t_charts (refresh_play_gauge i db) = t_charts db"
  "t_collector (refresh_play_gauge i db) = t_collector db"
  "play_ids (refresh_play_gauge i db) = play_ids db"
  by (simp_all add: refresh_play_gauge_def play_ids_def image_image split_beta)

lemma refresh_keys:
  "map (\<lambda>x. play_key (snd x)) (map (\<lambda>(j, p). (j, if j = i then set_gauge g p else p)) ps)
     = map (\<lambda>x. play_key (snd x)) ps"
  "map fst (map (\<lambda>(j, p). (j, if j = i then set_gauge g p else p)) ps) = map fst ps"
  by (auto simp: split_beta)

lemma store_ok_refresh [intro]: "store_ok db \<Longrightarrow> store_ok (refresh_play_gauge i db)"
  unfolding store_ok_def
proof (intro conjI; elim conjE)
  assume "plays_ok db"
  then show "plays_ok (refresh_play_gauge i db)"
    unfolding refresh_play_gauge_def by (rule plays_ok_same_keys) (rule refresh_keys)+
next
  assume "replays_ok db"
  then show "replays_ok (refresh_play_gauge i db)" by (rule replays_ok_mono) simp_all
next
  assume "keyed_ok db"
  then show "keyed_ok (refresh_play_gauge i db)" by (simp add: keyed_ok_def)
qed

lemma gauges_refresh:
  assumes "gauges_ok_except S db"
  shows "gauges_ok_except (S - {i}) (refresh_play_gauge i db)"
proof -
  have "newest_gauge (refresh_play_gauge i db) j = newest_gauge db j" for j
    by (rule newest_gauge_cong) simp
  moreover have "pl_selected_gauge_kind (r_play (snd x)) = newest_gauge db (fst x)"
    if "x \<in> set (t_plays (refresh_play_gauge i db))" "fst x \<notin> S - {i}" for x
  proof -
    from that(1) obtain y where "y \<in> set (t_plays db)"
      and "x = (case y of (j, p) \<Rightarrow> (j, if j = i then set_gauge (newest_gauge db i) p else p))"
      unfolding refresh_play_gauge_def by auto
    moreover obtain j p where "y = (j, p)" by fastforce
    ultimately have p: "(fst x, p) \<in> set (t_plays db)"
      and x: "snd x = (if fst x = i then set_gauge (newest_gauge db i) p else p)" by simp_all
    show ?thesis
    proof (cases "fst x = i")
      case True
      then show ?thesis by (simp add: x set_gauge_def)
    next
      case False
      then show ?thesis using assms p that(2) by (auto simp: gauges_ok_except_def x)
    qed
  qed
  ultimately show ?thesis unfolding gauges_ok_except_def by simp
qed

lemma set_match_frame [simp]:
  "t_plays (set_match i s p db) = t_plays db"
  "t_next_replay (set_match i s p db) = t_next_replay db"
  "t_next_play (set_match i s p db) = t_next_play db"
  "t_cursors (set_match i s p db) = t_cursors db"
  "t_scans (set_match i s p db) = t_scans db"
  "t_charts (set_match i s p db) = t_charts db"
  "t_collector (set_match i s p db) = t_collector db"
  by (simp_all add: set_match_def)

lemma replays_okD:
  assumes "replays_ok db"
  shows "distinct (map rr_id (t_replays db))"
    and "r \<in> set (t_replays db) \<Longrightarrow> rr_id r < t_next_replay db"
    and "r \<in> set (t_replays db) \<Longrightarrow> set_option (rr_matched_play_id r) \<subseteq> play_ids db"
    and "r \<in> set (t_replays db) \<Longrightarrow> (rr_match_status r = ''matched'') = (rr_matched_play_id r \<noteq> None)"
    and "distinct (map (\<lambda>r. (rr_path r, rr_content_hash r)) (t_replays db))"
  using assms unfolding replays_ok_def by blast+

lemma replay_id_unique:
  assumes "replays_ok db" and "x \<in> set (t_replays db)" and "y \<in> set (t_replays db)" and "rr_id x = rr_id y"
  shows "x = y"
proof -
  have "inj_on rr_id (set (t_replays db))" using replays_okD(1)[OF assms(1)] by (simp add: distinct_map)
  then show ?thesis using assms(2-4) by (simp add: inj_on_eq_iff)
qed

lemma filter_map_fixed:
  "(\<And>x. x \<in> set xs \<Longrightarrow> P (f x) = P x \<and> (P x \<longrightarrow> f x = x)) \<Longrightarrow> filter P (map f xs) = filter P xs"
  by (induction xs) auto

text \<open>Re-matching one replay leaves the newest gauge of every play it was and is not matched
  to.\<close>

lemma newest_gauge_set_match:
  assumes "replays_ok db" and "r \<in> set (t_replays db)"
    and "rr_matched_play_id r \<noteq> Some q" and "p \<noteq> Some q"
  shows "newest_gauge (set_match (rr_id r) s p db) q = newest_gauge db q"
proof -
  let ?f = "\<lambda>x. if rr_id x = rr_id r then x\<lparr>rr_match_status := s, rr_matched_play_id := p\<rparr> else x"
  let ?P = "\<lambda>x. rr_match_status x = ''matched'' \<and> rr_matched_play_id x = Some q"
  have only: "x = r" if "x \<in> set (t_replays db)" "rr_id x = rr_id r" for x
    using replay_id_unique[OF assms(1)] assms(2) that by blast
  have "filter ?P (map ?f (t_replays db)) = filter ?P (t_replays db)"
  proof (rule filter_map_fixed)
    fix x
    assume x: "x \<in> set (t_replays db)"
    show "?P (?f x) = ?P x \<and> (?P x \<longrightarrow> ?f x = x)"
    proof (cases "rr_id x = rr_id r")
      case True
      with x have "x = r" by (rule only)
      then show ?thesis using assms(3,4) by simp
    qed simp
  qed
  then show ?thesis unfolding newest_gauge_def set_match_def by simp
qed

lemma gauges_set_match:
  assumes "replays_ok db" and "r \<in> set (t_replays db)" and "gauges_ok_except S db"
  shows "gauges_ok_except (S \<union> set_option (rr_matched_play_id r) \<union> set_option p)
           (set_match (rr_id r) s p db)"
  unfolding gauges_ok_except_def
proof (intro ballI impI)
  fix x
  assume "x \<in> set (t_plays (set_match (rr_id r) s p db))"
    and out: "fst x \<notin> S \<union> set_option (rr_matched_play_id r) \<union> set_option p"
  then have "pl_selected_gauge_kind (r_play (snd x)) = newest_gauge db (fst x)"
    using assms(3) by (simp add: gauges_ok_except_def)
  moreover have "newest_gauge (set_match (rr_id r) s p db) (fst x) = newest_gauge db (fst x)"
    using out by (intro newest_gauge_set_match[OF assms(1,2)]) auto
  ultimately show "pl_selected_gauge_kind (r_play (snd x)) =
      newest_gauge (set_match (rr_id r) s p db) (fst x)" by simp
qed

lemma store_ok_set_match [intro]:
  assumes "store_ok db" and "set_option p \<subseteq> play_ids db" and "(s = ''matched'') = (p \<noteq> None)"
  shows "store_ok (set_match i s p db)"
proof -
  let ?f = "\<lambda>x. if rr_id x = i then x\<lparr>rr_match_status := s, rr_matched_play_id := p\<rparr> else x"
  have ok: "replays_ok db" using assms(1) by (simp add: store_ok_def)
  have ids: "map rr_id (map ?f (t_replays db)) = map rr_id (t_replays db)"
    and slots: "map (\<lambda>r. (rr_path r, rr_content_hash r)) (map ?f (t_replays db)) =
      map (\<lambda>r. (rr_path r, rr_content_hash r)) (t_replays db)" by simp_all
  have "replays_ok (set_match i s p db)"
    unfolding replays_ok_def
  proof (intro conjI)
    show "distinct (map rr_id (t_replays (set_match i s p db)))"
      using ok ids unfolding set_match_def replays_ok_def by (simp del: map_map)
    show "distinct (map (\<lambda>r. (rr_path r, rr_content_hash r)) (t_replays (set_match i s p db)))"
      using ok slots unfolding set_match_def replays_ok_def by (simp del: map_map)
    show "\<forall>r\<in>set (t_replays (set_match i s p db)). rr_id r < t_next_replay (set_match i s p db)"
      using replays_okD(2)[OF ok] by (auto simp: set_match_def)
    show "\<forall>r\<in>set (t_replays (set_match i s p db)). set_option (rr_matched_play_id r) \<subseteq> play_ids (set_match i s p db)"
      using replays_okD(3)[OF ok] assms(2) by (auto simp: set_match_def play_ids_def)
    show "\<forall>r\<in>set (t_replays (set_match i s p db)).
        (rr_match_status r = ''matched'') = (rr_matched_play_id r \<noteq> None)"
      using replays_okD(4)[OF ok] assms(3) by (auto simp: set_match_def simp del: not_None_eq)
  qed
  then show ?thesis using assms(1) by (simp add: store_ok_def plays_ok_def keyed_ok_def)
qed

subsection \<open>Candidates\<close>

lemma play_matches_ids: "set (play_matches db m mode) \<subseteq> play_ids db"
  by (auto simp: play_matches_def play_ids_def dest!: in_set_takeD)

lemma candidate_ids: "set (candidate_plays db m) \<subseteq> play_ids db"
  using play_matches_ids by (simp add: candidate_plays_def Let_def)

lemma filter_fst_map:
  "(\<And>i p. Q i (f i p) = Q i p) \<Longrightarrow>
     map fst (filter (\<lambda>(i, p). Q i p) (map (\<lambda>(i, p). (i, f i p)) ps)) = map fst (filter (\<lambda>(i, p). Q i p) ps)"
  by (induction ps) auto

lemma replay_matches_set_gauge: "replay_matches m mode (set_gauge g p) = replay_matches m mode p"
  by (simp add: replay_matches_def set_gauge_def)

lemma play_matches_refresh [simp]: "play_matches (refresh_play_gauge i db) m mode = play_matches db m mode"
  unfolding play_matches_def refresh_play_gauge_def
  using filter_fst_map[where Q = "\<lambda>_. replay_matches m mode" and
      f = "\<lambda>j p. if j = i then set_gauge (newest_gauge db i) p else p"]
  by (simp add: replay_matches_set_gauge)

lemma candidate_plays_refresh [simp]: "candidate_plays (refresh_play_gauge i db) m = candidate_plays db m"
  by (simp add: candidate_plays_def cong: if_cong)

lemma candidate_plays_same: "t_plays db' = t_plays db \<Longrightarrow> candidate_plays db' m = candidate_plays db m"
  by (simp add: candidate_plays_def play_matches_def)

lemma zero_one_many [case_names none one many]:
  obtains "ms = []" | p where "ms = [p]" | "1 < length ms"
proof (cases ms)
  case (Cons x xs)
  then show ?thesis using that by (cases xs) auto
qed (use that in auto)

subsection \<open>Every branch keeps the invariants\<close>

lemma reconcile_ok:
  assumes ok: "store_ok db" "gauges_ok_except S db" and r: "r \<in> set (t_replays db)"
    and ids: "set ms \<subseteq> play_ids db"
  shows "store_ok (snd (reconcile_replay r ms db)) \<and> gauges_ok_except S (snd (reconcile_replay r ms db))"
proof -
  have rok: "replays_ok db" using ok(1) by (simp add: store_ok_def)
  have rematch: "gauges_ok_except (S \<union> set_option (rr_matched_play_id r) \<union> set_option p) (set_match (rr_id r) s p db)"
    for s p using gauges_set_match[OF rok r ok(2)] .
  show ?thesis
  proof (cases ms rule: zero_one_many)
    case none
    then show ?thesis using ok by (simp add: reconcile_replay_def)
  next
    case (one p)
    let ?db1 = "set_match (rr_id r) ''matched'' (Some p) db"
    have ok1: "store_ok ?db1" using ok(1) ids one by (intro store_ok_set_match) auto
    have g1: "gauges_ok_except (S \<union> set_option (rr_matched_play_id r) \<union> {p}) ?db1"
      using rematch[of "Some p" "''matched''"] by simp
    have "gauges_ok_except S (refresh_play_gauge p (refresh_play_gauge q ?db1))"
      if "rr_matched_play_id r = Some q" for q
      using gauges_refresh[OF gauges_refresh[OF g1], of q p] that
      by (auto elim: gauges_ok_except_mono)
    moreover have "gauges_ok_except S (refresh_play_gauge p ?db1)"
      if "set_option (rr_matched_play_id r) \<subseteq> {p}"
      using gauges_refresh[OF g1, of p] that by (auto elim: gauges_ok_except_mono)
    ultimately show ?thesis using ok ok1 one
      by (cases "rr_matched_play_id r")
        (auto simp: reconcile_replay_def Let_def simp del: not_None_eq)
  next
    case many
    let ?db1 = "set_match (rr_id r) ''ambiguous'' None db"
    have ok1: "store_ok ?db1" using ok(1) by (intro store_ok_set_match) auto
    have g1: "gauges_ok_except (S \<union> set_option (rr_matched_play_id r)) ?db1"
      using rematch[of None "''ambiguous''"] by simp
    have "gauges_ok_except S (refresh_play_gauge q ?db1)" if "rr_matched_play_id r = Some q" for q
      using gauges_refresh[OF g1, of q] that by (auto elim: gauges_ok_except_mono)
    then show ?thesis using ok ok1 g1 many
      by (cases "rr_matched_play_id r")
        (auto simp: reconcile_replay_def Let_def split: list.splits)
  qed
qed

lemma newest_gauge_append:
  "newest_gauge (db\<lparr>t_replays := t_replays db @ [r], t_next_replay := n\<rparr>) i =
     (if rr_match_status r = ''matched'' \<and> rr_matched_play_id r = Some i
      then Some (rr_selected_gauge_kind r) else newest_gauge db i)"
  by (simp add: newest_gauge_def)

lemma replays_ok_append:
  assumes "replays_ok db" and "rr_id r = t_next_replay db" and "set_option (rr_matched_play_id r) \<subseteq> play_ids db"
    and "(rr_match_status r = ''matched'') = (rr_matched_play_id r \<noteq> None)"
    and "\<forall>x\<in>set (t_replays db). (rr_path x, rr_content_hash x) \<noteq> (rr_path r, rr_content_hash r)"
  shows "replays_ok (db\<lparr>t_replays := t_replays db @ [r], t_next_replay := t_next_replay db + 1\<rparr>)"
proof -
  note old = replays_okD[OF assms(1)]
  let ?db = "db\<lparr>t_replays := t_replays db @ [r], t_next_replay := t_next_replay db + 1\<rparr>"
  have ids: "play_ids ?db = play_ids db" by (simp add: play_ids_def)
  have "rr_id r \<notin> rr_id ` set (t_replays db)" using old(2) assms(2) by fastforce
  moreover have "(rr_path r, rr_content_hash r) \<notin> (\<lambda>r. (rr_path r, rr_content_hash r)) ` set (t_replays db)"
    using assms(5) by force
  moreover have "rr_id x < t_next_replay db + 1" if "x \<in> set (t_replays db)" for x
    using old(2)[OF that] by simp
  ultimately show ?thesis unfolding replays_ok_def ids
    using old(1,5) old(3,4) assms(2,3,4) by (simp del: not_None_eq)
qed

lemma record_ok:
  assumes ok: "store_ok db" "gauges_ok_except S db" and ids: "set ms \<subseteq> play_ids db"
    and fresh: "\<forall>x\<in>set (t_replays db). \<not> (rr_path x = rm_path m \<and> rr_content_hash x = rm_content_hash m)"
  shows "store_ok (snd (record_replay m ms t db)) \<and> gauges_ok_except S (snd (record_replay m ms t db))"
proof -
  define row where "row = (\<lambda>previous status play_id.
    replay_row_of (t_next_replay db) m previous t status play_id)"
  define ext where "ext = (\<lambda>previous status play_id. db\<lparr>t_replays := t_replays db @ [row previous status play_id],
    t_next_replay := t_next_replay db + 1\<rparr>)"
  have rok: "replays_ok db" using ok(1) by (simp add: store_ok_def)
  have ext_ok: "store_ok (ext h s p)" if "set_option p \<subseteq> play_ids db" "(s = ''matched'') = (p \<noteq> None)" for h s p
  proof -
    have "replays_ok (ext h s p)" unfolding ext_def
      using that fresh by (intro replays_ok_append[OF rok]) (auto simp: row_def replay_row_of_def)
    then show ?thesis using ok(1) by (simp add: store_ok_def plays_ok_def keyed_ok_def ext_def)
  qed
  have ext_gauges: "gauges_ok_except (S \<union> set_option p) (ext h s p)" for h s p
    using ok(2) unfolding gauges_ok_except_def ext_def newest_gauge_append
    by (auto simp: row_def replay_row_of_def)
  show ?thesis
  proof (cases ms rule: zero_one_many)
    case none
    then show ?thesis using ext_ok[of None "''unmatched''"] ext_gauges[of None]
      by (simp add: record_replay_def Let_def flip: row_def ext_def) (simp add: row_def ext_def)
  next
    case (one p)
    then show ?thesis using ext_ok[of "Some p" "''matched''"] ids gauges_refresh[OF ext_gauges[of "Some p"], of p]
      by (auto simp: record_replay_def Let_def row_def ext_def intro: gauges_ok_except_mono[OF _ Diff_subset])
  next
    case many
    then show ?thesis using ext_ok[of None "''ambiguous''"] ext_gauges[of None]
      by (auto simp: record_replay_def Let_def row_def ext_def split: list.splits)
  qed
qed

lemma ingest_ok_except:
  assumes "store_ok db" and "gauges_ok_except S db"
  shows "store_ok (snd (ingest_replay_metadata m t db)) \<and> gauges_ok_except S (snd (ingest_replay_metadata m t db))"
proof (cases "List.find (\<lambda>r. rr_path r = rm_path m \<and> rr_content_hash r = rm_content_hash m) (t_replays db)")
  case None
  then show ?thesis using record_ok[OF assms candidate_ids, of m]
    by (simp add: ingest_replay_metadata_def) (simp add: find_None_iff)
next
  case (Some r)
  then have "r \<in> set (t_replays db)" by (auto simp: find_Some_iff)
  then show ?thesis using reconcile_ok[OF assms _ candidate_ids] Some
    by (simp add: ingest_replay_metadata_def)
qed

text \<open>With nothing and with everything excepted.\<close>

lemmas ingest_gauges_ok = ingest_ok_except[of _ "{}", unfolded gauges_ok_except_empty, THEN conjunct2]

lemma ingest_store_ok: "store_ok db \<Longrightarrow> store_ok (snd (ingest_replay_metadata m t db))"
  using ingest_ok_except[of db UNIV] by (simp add: gauges_ok_except_def)

subsection \<open>New plays start without a gauge\<close>

lemma newest_gauge_unreferenced:
  assumes "replays_ok db" and "i \<notin> play_ids db"
  shows "newest_gauge db i = None"
proof -
  have "rr_matched_play_id r \<noteq> Some i" if "r \<in> set (t_replays db)" for r
    using replays_okD(3)[OF assms(1) that] assms(2) by auto
  then have "filter (\<lambda>r. rr_match_status r = ''matched'' \<and> rr_matched_play_id r = Some i) (t_replays db) = []"
    by (simp add: filter_empty_conv)
  then show ?thesis unfolding newest_gauge_def by simp
qed

lemma gauges_ok_insert:
  assumes "store_ok db" and "gauges_ok db" and "pl_selected_gauge_kind (r_play p) = None"
  shows "gauges_ok (snd (insert_play False p db))"
proof -
  have "t_next_play db \<notin> play_ids db"
    using assms(1) by (force simp: store_ok_def plays_ok_def play_ids_def)
  then have new: "newest_gauge db (t_next_play db) = None"
    using assms(1) by (intro newest_gauge_unreferenced) (auto simp: store_ok_def)
  have same: "newest_gauge (add_play p db) i = newest_gauge db i" for i
    by (rule newest_gauge_cong) (simp add: add_play_def)
  show ?thesis using assms(2,3) new
    by (auto simp: insert_play_def gauges_ok_def same) (auto simp: add_play_def)
qed

subsection \<open>Looking up the slot again\<close>

abbreviation same_slot :: "replay_meta \<Rightarrow> replay_row \<Rightarrow> bool" where
  "same_slot m r \<equiv> rr_path r = rm_path m \<and> rr_content_hash r = rm_content_hash m"

lemma find_map_same: "(\<And>x. P (f x) = P x) \<Longrightarrow> List.find P (map f xs) = map_option f (List.find P xs)"
  by (induction xs) auto

lemma find_set_match:
  "List.find (same_slot m) (t_replays db) = Some r \<Longrightarrow>
     List.find (same_slot m) (t_replays (set_match (rr_id r) s p db)) =
       Some (r\<lparr>rr_match_status := s, rr_matched_play_id := p\<rparr>)"
  by (simp add: set_match_def find_map_same)

lemma candidate_plays_set_match [simp]: "candidate_plays (set_match i s p db) m = candidate_plays db m"
  by (rule candidate_plays_same) simp

text \<open>A second look at the slot finds a row that agrees with the candidates and writes nothing.\<close>

lemma ingest_settled:
  assumes "List.find (same_slot m) (t_replays db) = Some r"
    and "case candidate_plays db m of
           [] \<Rightarrow> True
         | [p] \<Rightarrow> rr_match_status r = ''matched'' \<and> rr_matched_play_id r = Some p
         | _ \<Rightarrow> rr_match_status r = ''ambiguous''"
  shows "ingest_replay_metadata m t db = ((rr_match_status r, False, False), db)"
  using assms(2)
  by (cases "candidate_plays db m" rule: zero_one_many)
    (auto simp: ingest_replay_metadata_def assms(1) reconcile_replay_def Let_def split: list.splits)

lemma ingest_settles:
  "\<exists>r. List.find (same_slot m) (t_replays (snd (ingest_replay_metadata m t db))) = Some r \<and>
     rr_match_status r = fst (fst (ingest_replay_metadata m t db)) \<and>
     candidate_plays (snd (ingest_replay_metadata m t db)) m = candidate_plays db m \<and>
     (case candidate_plays db m of
        [] \<Rightarrow> True
      | [p] \<Rightarrow> rr_match_status r = ''matched'' \<and> rr_matched_play_id r = Some p
      | _ \<Rightarrow> rr_match_status r = ''ambiguous'')"
proof (cases "List.find (same_slot m) (t_replays db)")
  case None
  have append: "List.find P (xs @ [y]) = Some y" if "List.find P xs = None" "P y" for P xs and y :: replay_row
    using that by (induction xs) (auto split: if_splits)
  have same: "candidate_plays (db\<lparr>t_replays := rs, t_next_replay := n\<rparr>) m = candidate_plays db m" for rs n
    by (rule candidate_plays_same) simp
  show ?thesis
    by (cases "candidate_plays db m" rule: zero_one_many)
      (auto simp: ingest_replay_metadata_def None record_replay_def Let_def same replay_row_of_def
          append[OF None] split: list.splits)
next
  case (Some r)
  show ?thesis
  proof (cases "candidate_plays db m" rule: zero_one_many)
    case none
    then show ?thesis using Some by (simp add: ingest_replay_metadata_def reconcile_replay_def)
  next
    case (one p)
    then show ?thesis using Some find_set_match[OF Some]
      by (auto simp: ingest_replay_metadata_def reconcile_replay_def Let_def split: option.splits)
  next
    case many
    then show ?thesis using Some find_set_match[OF Some]
      by (auto simp: ingest_replay_metadata_def reconcile_replay_def Let_def
          split: option.splits list.splits)
  qed
qed

subsection \<open>The properties\<close>

definition sample_ingest_db :: assistant_db where
  "sample_ingest_db = snd (insert_play False
     (as_record (sample_play sample_runtime ''aa'' 1 ''collector'' 0 0 50)) empty_db)"

definition sample_ingest_meta :: replay_meta where
  "sample_ingest_meta = (sample_meta ''slot.brd'')\<lparr>rm_sha256 := ''aa'', rm_played_at := 990\<rparr>"

lemma sample_ingest_ok: "store_ok sample_ingest_db" "gauges_ok sample_ingest_db"
  by (auto simp: sample_ingest_db_def as_record_def sample_play_def intro: gauges_ok_insert)

lemma sample_ingest_values:
  "t_plays sample_ingest_db = [(1, as_record (sample_play sample_runtime ''aa'' 1 ''collector'' 0 0 50))]"
  "t_replays sample_ingest_db = []" "t_next_replay sample_ingest_db = 1"
  by (simp_all add: sample_ingest_db_def insert_play_def find_play_def add_play_def empty_db_def)

lemma sample_candidates:
  "t_plays db = [(1, as_record (sample_play sample_runtime ''aa'' 1 ''collector'' 0 0 n))] \<Longrightarrow>
     candidate_plays db sample_ingest_meta = [1]"
  unfolding candidate_plays_def play_matches_def
  by (simp add: sample_ingest_meta_def sample_meta_def as_record_def sample_play_def
      replay_matches_def replay_match_tolerance_seconds_def)

lemmas sample_ingest_candidates = sample_candidates[OF sample_ingest_values(1)]

lemma sample_ingest_fresh:
  "List.find (same_slot sample_ingest_meta) (t_replays sample_ingest_db) = None"
  by (simp add: sample_ingest_values)

text \<open>C17: ingesting a replay keeps every key of the store unique, every matched replay attached to an existing play,
  and the gauge column of every play equal to the gauge of the newest replay matched to it,
  whichever of the five branches is taken.\<close>

theorem ingest_keeps_gauges_consistent:
  assumes "store_ok db" and "gauges_ok db"
  shows "store_ok (snd (ingest_replay_metadata m t db)) \<and> gauges_ok (snd (ingest_replay_metadata m t db))"
  using assms ingest_store_ok ingest_gauges_ok by blast

theorem ingest_keeps_gauges_consistent_witness:
  "gauges_ok (snd (ingest_replay_metadata sample_ingest_meta 60 sample_ingest_db))"
  using ingest_keeps_gauges_consistent[OF sample_ingest_ok] by simp

text \<open>Re-observing a slot version is idempotent. After an ingest, a second one of the same metadata, at any
  time, reports the same status, no overwrite and no change, and leaves the database as it
  is.\<close>

theorem ingest_idempotent:
  "ingest_replay_metadata m t2 (snd (ingest_replay_metadata m t1 db)) =
     ((fst (fst (ingest_replay_metadata m t1 db)), False, False), snd (ingest_replay_metadata m t1 db))"
proof -
  obtain r where r: "List.find (same_slot m) (t_replays (snd (ingest_replay_metadata m t1 db))) = Some r"
    and st: "rr_match_status r = fst (fst (ingest_replay_metadata m t1 db))"
    and cand: "candidate_plays (snd (ingest_replay_metadata m t1 db)) m = candidate_plays db m"
    and ok: "case candidate_plays db m of
        [] \<Rightarrow> True
      | [p] \<Rightarrow> rr_match_status r = ''matched'' \<and> rr_matched_play_id r = Some p
      | _ \<Rightarrow> rr_match_status r = ''ambiguous''"
    using ingest_settles[of m t1 db] by blast
  show ?thesis using ingest_settled[OF r, of t2] ok by (simp add: cand st)
qed

definition in_window :: "assistant_db \<Rightarrow> replay_meta \<Rightarrow> int \<Rightarrow> int list" where
  "in_window db m mode = map fst (filter (\<lambda>(i, p). replay_matches m mode p) (t_plays db))"

lemma candidate_single:
  assumes "candidate_plays db m = [p]"
  shows "in_window db m (rm_mode m) = [p] \<or>
     in_window db m (rm_mode m) = [] \<and> rm_mode m \<in> replay_ln_modes \<and> in_window db m 0 = [p]"
proof -
  have single: "xs = [p]" if "take 2 xs = [p]" for xs :: "int list"
  proof -
    have "length (take 2 xs) = 1" using that by simp
    then have "length xs \<le> 2" by simp
    then show ?thesis using that by simp
  qed
  show ?thesis using assms
    by (auto simp: candidate_plays_def play_matches_def in_window_def Let_def dest!: single split: if_splits)
qed

text \<open>Only an exactly matched play is updated. A slot version not seen before adds one replay row; if exactly
  one play of the chart lies in the thirty-second window, in the mode of the replay or, for a
  configured LN mode without such a play, in mode 0, that play alone takes the gauge of the
  replay; otherwise no play is changed.\<close>

theorem ingest_updates_only_exact_match:
  assumes "List.find (same_slot m) (t_replays db) = None"
    and "ingest_replay_metadata m t db = ((status, overwritten, changed), db')"
  shows "length (t_replays db') = length (t_replays db) + 1 \<and> changed \<and>
     (if status = ''matched''
      then (\<exists>p. (in_window db m (rm_mode m) = [p] \<or>
              in_window db m (rm_mode m) = [] \<and> rm_mode m \<in> replay_ln_modes \<and> in_window db m 0 = [p]) \<and>
            t_plays db' = map (\<lambda>(i, q). (i, if i = p then set_gauge (Some (rm_selected_gauge_kind m)) q else q))
                            (t_plays db))
      else t_plays db' = t_plays db)"
proof (cases "candidate_plays db m" rule: zero_one_many)
  case (one p)
  have "newest_gauge (db\<lparr>t_replays := t_replays db @ [replay_row_of (t_next_replay db) m h t ''matched'' (Some p)],
      t_next_replay := t_next_replay db + 1\<rparr>) p = Some (rm_selected_gauge_kind m)" for h
    by (subst newest_gauge_append) (simp add: replay_row_of_def)
  then show ?thesis using assms candidate_single[OF one] one
    by (auto simp: ingest_replay_metadata_def record_replay_def Let_def refresh_play_gauge_def)
qed (use assms in \<open>auto simp: ingest_replay_metadata_def record_replay_def Let_def split: list.splits\<close>)

theorem ingest_updates_only_exact_match_witness:
  "length (t_replays (snd (ingest_replay_metadata sample_ingest_meta 60 sample_ingest_db))) = 1"
proof -
  obtain status overwritten changed db' where
    r: "ingest_replay_metadata sample_ingest_meta 60 sample_ingest_db = ((status, overwritten, changed), db')"
    by (metis surj_pair)
  have "length (t_replays db') = length (t_replays sample_ingest_db) + 1"
    using ingest_updates_only_exact_match[OF sample_ingest_fresh r] by blast
  then show ?thesis by (simp add: r sample_ingest_values)
qed

text \<open>Correcting the payload of a play loses the gauge its replay had recorded. The update in place overwrites
  the gauge column with the empty value every derived play carries, although the newest replay
  matched to the play still holds a gauge, and ingesting that replay again restores nothing, because the slot counts as
  already matched.\<close>

theorem payload_correction_erases_gauge:
  assumes "(i, q) \<in> set (t_plays db)" and "newest_gauge db i = Some g"
    and "play_key p = play_key q" and "pl_selected_gauge_kind (r_play p) = None"
    and "db' = snd (insert_play True p db)"
    and "List.find (same_slot m) (t_replays db') = Some r" and "rr_match_status r = ''matched''"
    and "rr_matched_play_id r = Some i" and "candidate_plays db' m = [i]"
  shows "(\<exists>q'. (i, q') \<in> set (t_plays db') \<and> pl_selected_gauge_kind (r_play q') = None) \<and>
     \<not> gauges_ok db' \<and> snd (ingest_replay_metadata m t db') = db'"
proof -
  obtain x where found: "find_play (play_key p) (t_plays db) = Some x"
    using assms(1,3) by (cases "find_play (play_key p) (t_plays db)") (auto simp: find_play_def find_None_iff)
  then have plays: "t_plays db' = map (\<lambda>(j, x). (j, if play_key x = play_key p then overwrite_play x p else x)) (t_plays db)"
    and replays: "t_replays db' = t_replays db"
    by (simp_all add: assms(5) insert_play_def)
  have erased: "(i, overwrite_play q p) \<in> set (t_plays db')" using assms(1,3) by (force simp: plays)
  moreover have "pl_selected_gauge_kind (r_play (overwrite_play q p)) = None"
    using assms(4) by (simp add: overwrite_play_def)
  moreover have "newest_gauge db' i = Some g" using assms(2) newest_gauge_cong[OF replays] by simp
  ultimately have "\<not> gauges_ok db'" by (force simp: gauges_ok_def)
  moreover have "snd (ingest_replay_metadata m t db') = db'"
    using ingest_settled[OF assms(6), of t] assms(7-9) by simp
  ultimately show ?thesis using erased assms(4) by (auto simp: overwrite_play_def)
qed

definition sample_matched_db :: assistant_db where
  "sample_matched_db = snd (ingest_replay_metadata sample_ingest_meta 60 sample_ingest_db)"

definition sample_correction :: play_record where
  "sample_correction = as_record (sample_play sample_runtime ''aa'' 1 ''collector'' 0 0 70)"

lemma sample_matched_values:
  "t_plays sample_matched_db = [(1, set_gauge (Some ''HARD'')
     (as_record (sample_play sample_runtime ''aa'' 1 ''collector'' 0 0 50)))]"
  "t_replays sample_matched_db = [replay_row_of 1 sample_ingest_meta None 60 ''matched'' (Some 1)]"
  by (simp_all add: sample_matched_db_def ingest_replay_metadata_def sample_ingest_fresh sample_ingest_candidates
      record_replay_def refresh_play_gauge_def newest_gauge_def replay_row_of_def sample_ingest_values Let_def)
    (simp_all add: sample_ingest_meta_def sample_meta_def)

theorem payload_correction_erases_gauge_witness:
  "\<not> gauges_ok (snd (insert_play True sample_correction sample_matched_db))"
proof -
  let ?db' = "snd (insert_play True sample_correction sample_matched_db)"
  have replays: "t_replays ?db' = t_replays sample_matched_db" by simp
  have plays: "t_plays ?db' = [(1, sample_correction)]"
    by (simp add: insert_play_def find_play_def sample_matched_values play_key_def sample_correction_def
        set_gauge_def as_record_def sample_play_def overwrite_play_def)
  then have "candidate_plays ?db' sample_ingest_meta = [1]"
    unfolding sample_correction_def by (rule sample_candidates)
  then show ?thesis
    using payload_correction_erases_gauge[where i = 1 and g = "''HARD''" and db = sample_matched_db and
        p = sample_correction and m = sample_ingest_meta, OF _ _ _ _ refl]
    by (simp add: replays sample_matched_values newest_gauge_def replay_row_of_def
        sample_correction_def as_record_def sample_play_def sample_ingest_meta_def sample_meta_def
        play_key_def set_gauge_def)
qed

end
