(* ===== verification/Readers.thy ===== *)
theory Readers
  imports Canonical "HOL-Library.Multiset"
begin

text \<open>
  \<open>db/readers.py\<close>: schema detection and the selection of rows from a beatoraja database. A database that
  SQLite has opened is a list of named tables, each with the answer of
  \<open>PRAGMA table_info\<close> (column names and primary-key positions) and its rows; the connection
  handling (URI, \<open>query_only\<close>, timeouts) is left out. \<open>ORDER BY\<close> compares by storage class, then value; rows
  equal in the order columns keep the order of the table.
\<close>

record source_table =
  tb_columns :: "string list"
  tb_key_positions :: "(int \<times> string) list"
  tb_rows :: "row list"

type_synonym source_db = "(string \<times> source_table) list"

definition absent_table :: source_table where
  "absent_table = \<lparr>tb_columns = [], tb_key_positions = [], tb_rows = []\<rparr>"

definition table_of :: "source_db \<Rightarrow> string \<Rightarrow> source_table" where
  "table_of db t = (case map_of db t of None \<Rightarrow> absent_table | Some tb \<Rightarrow> tb)"

subsection \<open>Identifiers and schema\<close>

definition is_alpha_char :: "char \<Rightarrow> bool" where
  "is_alpha_char c \<longleftrightarrow> (CHR ''A'' \<le> c \<and> c \<le> CHR ''Z'') \<or> (CHR ''a'' \<le> c \<and> c \<le> CHR ''z'') \<or> c = CHR ''_''"

fun is_identifier :: "string \<Rightarrow> bool" where
  "is_identifier [] = False"
| "is_identifier (c # cs) \<longleftrightarrow> is_alpha_char c \<and> list_all (\<lambda>d. is_alpha_char d \<or> is_digit d) cs"

definition quoted_identifier :: "string \<Rightarrow> string py" where
  "quoted_identifier s =
     (if is_identifier s then Inr (CHR 0x22 # s @ [CHR 0x22])
      else Inl (ValueError ''unsafe SQLite identifier''))"

definition table_column_names :: "source_db \<Rightarrow> string \<Rightarrow> string list py" where
  "table_column_names db t =
     py_bind (quoted_identifier t) (\<lambda>_. Inr (tb_columns (table_of db t)))"

definition primary_key_columns :: "source_db \<Rightarrow> string \<Rightarrow> string list py" where
  "primary_key_columns db t =
     py_bind (quoted_identifier t) (\<lambda>_.
       Inr (map snd (sort (filter (\<lambda>(i, c). 0 < i) (tb_key_positions (table_of db t))))))"

definition require_overwrite_scoredatalog_schema :: "source_db \<Rightarrow> unit py" where
  "require_overwrite_scoredatalog_schema db =
     py_bind (primary_key_columns db ''scoredatalog'') (\<lambda>actual.
       raise_if (actual \<noteq> [''sha256'', ''mode''])
         (ReaderSchemaError ''unsupported scoredatalog schema''))"

definition missing_columns :: "string list \<Rightarrow> string list \<Rightarrow> string list" where
  "missing_columns actual required = sort (filter (\<lambda>c. c \<notin> set actual) required)"

definition require_columns :: "string \<Rightarrow> string list \<Rightarrow> string list \<Rightarrow> unit py" where
  "require_columns table actual required =
     (let missing = missing_columns actual required
      in raise_if (missing \<noteq> []) (ReaderSchemaError (table @ '' is missing required columns'')))"

subsection \<open>Selecting rows\<close>

text \<open>The SQLite order of values: NULL, numbers, text, blobs.\<close>

fun sql_rank :: "pyval \<Rightarrow> nat \<times> real \<times> string" where
  "sql_rank (PBool b) = (2, of_bool b, [])"
| "sql_rank (PInt i) = (2, real_of_int i, [])"
| "sql_rank (PFloat (Fin r)) = (2, r, [])"
| "sql_rank (PFloat NegInf) = (1, 0, [])"
| "sql_rank (PFloat PosInf) = (3, 0, [])"
| "sql_rank (PStr s) = (4, 0, s)"
| "sql_rank (PBytes s) = (5, 0, s)"
| "sql_rank _ = (0, 0, [])"

definition order_by :: "string list \<Rightarrow> row list \<Rightarrow> row list" where
  "order_by cols rows = sort_key (\<lambda>r. map (\<lambda>c. sql_rank (get_item r c)) cols) rows"

definition select_rows ::
    "source_db \<Rightarrow> string \<Rightarrow> string list \<Rightarrow> (row \<Rightarrow> bool) \<Rightarrow> string list \<Rightarrow> row list py" where
  "select_rows db table required keep order_cols =
     py_bind (table_column_names db table) (\<lambda>columns.
     py_bind (require_columns table columns required) (\<lambda>_.
     py_bind (py_mapM quoted_identifier columns) (\<lambda>_.
     py_bind (quoted_identifier table) (\<lambda>_.
       Inr (order_by order_cols (filter keep (tb_rows (table_of db table))))))))"

definition score_required :: "string list" where
  "score_required = [''sha256'', ''mode'', ''clear'', ''epg'', ''lpg'', ''egr'', ''lgr'', ''egd'',
     ''lgd'', ''ebd'', ''lbd'', ''epr'', ''lpr'', ''ems'', ''lms'', ''notes'', ''minbp'',
     ''playcount'', ''date'']"

definition read_scoredatalog :: "source_db \<Rightarrow> row list py" where
  "read_scoredatalog db =
     py_bind (require_overwrite_scoredatalog_schema db) (\<lambda>_.
       select_rows db ''scoredatalog'' score_required (\<lambda>_. True) [''sha256'', ''mode''])"

definition read_score :: "source_db \<Rightarrow> row list py" where
  "read_score db = select_rows db ''score'' score_required (\<lambda>_. True) [''sha256'', ''mode'']"

definition player_required :: "string list" where
  "player_required = [''date'', ''playcount'', ''playtime'', ''epg'', ''lpg'', ''egr'', ''lgr'',
     ''egd'', ''lgd'', ''ebd'', ''lbd'', ''epr'', ''lpr'', ''ems'', ''lms'']"

definition read_player :: "source_db \<Rightarrow> row list py" where
  "read_player db = select_rows db ''player'' player_required (\<lambda>_. True) [''date'']"

definition scorelog_required :: "string list" where
  "scorelog_required = [''sha256'', ''mode'', ''clear'', ''oldclear'', ''score'', ''oldscore'',
     ''combo'', ''oldcombo'', ''minbp'', ''oldminbp'', ''date'']"

definition read_scorelog :: "source_db \<Rightarrow> row list py" where
  "read_scorelog db =
     select_rows db ''scorelog'' scorelog_required (\<lambda>_. True) [''date'', ''sha256'', ''mode'']"

subsection \<open>Selecting by hash, in chunks\<close>

definition sqlite_variable_chunk :: nat where "sqlite_variable_chunk = 900"

function chunks :: "nat \<Rightarrow> 'a list \<Rightarrow> 'a list list" where
  "chunks n xs = (if xs = [] then [] else take (Suc n) xs # chunks n (drop (Suc n) xs))"
  by pat_completeness auto
termination by (relation "measure (\<lambda>(n, xs). length xs)") auto

declare chunks.simps [simp del]

definition hash_order :: "string \<Rightarrow> string list" where
  "hash_order table = (if table = ''song'' then [''sha256'', ''path''] else [''sha256''])"

text \<open>\<open>list(dict.fromkeys(xs))\<close>: the first occurrence of every element.\<close>

fun dedupe :: "'a list \<Rightarrow> 'a list" where
  "dedupe [] = []"
| "dedupe (x # xs) = x # dedupe (filter (\<lambda>y. y \<noteq> x) xs)"

definition in_hashes :: "string list \<Rightarrow> row \<Rightarrow> bool" where
  "in_hashes hs r = (case get_item r ''sha256'' of PStr s \<Rightarrow> s \<in> set hs | _ \<Rightarrow> False)"

definition read_by_hashes ::
    "source_db \<Rightarrow> string \<Rightarrow> string list option \<Rightarrow> string list \<Rightarrow> row list py" where
  "read_by_hashes db table sha256s required =
     (case sha256s of
        None \<Rightarrow> select_rows db table required (\<lambda>_. True) (hash_order table)
      | Some hs \<Rightarrow>
          py_bind (py_mapM (\<lambda>chunk. select_rows db table required (in_hashes chunk) (hash_order table))
             (chunks (sqlite_variable_chunk - 1) (dedupe hs))) (\<lambda>parts. Inr (concat parts)))"

definition song_required :: "string list" where
  "song_required = [''sha256'', ''md5'', ''title'', ''artist'', ''notes'', ''mode'', ''path'']"

definition read_songs :: "source_db \<Rightarrow> string list option \<Rightarrow> row list py" where
  "read_songs db sha256s = read_by_hashes db ''song'' sha256s song_required"

definition read_songinfo :: "source_db \<Rightarrow> string list option \<Rightarrow> row list py" where
  "read_songinfo db sha256s = read_by_hashes db ''information'' sha256s [''sha256'']"

definition read_chart_patterns :: "source_db \<Rightarrow> string list option \<Rightarrow> row list py" where
  "read_chart_patterns db sha256s =
     (if map_of db ''bmscf_chart_analysis'' = None then Inr []
      else read_by_hashes db ''bmscf_chart_analysis'' sha256s [''sha256''])"

subsection \<open>Properties\<close>

lemma set_dedupe [simp]: "set (dedupe xs) = set xs"
  by (induction xs rule: dedupe.induct) auto

lemma distinct_dedupe [simp]: "distinct (dedupe xs)"
  by (induction xs rule: dedupe.induct) auto

lemma concat_chunks [simp]: "concat (chunks n xs) = xs"
  by (induction n xs rule: chunks.induct) (subst chunks.simps, simp)

lemma chunks_bound: "c \<in> set (chunks n xs) \<Longrightarrow> c \<noteq> [] \<and> length c \<le> Suc n"
proof (induction n xs rule: chunks.induct)
  case (1 n xs)
  show ?case
  proof (cases "xs = []")
    case True
    then show ?thesis using "1.prems" by (subst (asm) chunks.simps) simp
  next
    case False
    then have "c = take (Suc n) xs \<or> c \<in> set (chunks n (drop (Suc n) xs))"
      using "1.prems" by (subst (asm) chunks.simps) simp
    then show ?thesis using "1.IH" False by auto
  qed
qed

lemma order_by_mset [simp]: "mset (order_by cols rows) = mset rows"
  by (simp add: order_by_def)

lemma order_by_set [simp]: "set (order_by cols rows) = set rows"
  by (simp add: order_by_def)

lemma select_rows_Inr:
  assumes "select_rows db t req keep ord = Inr rows"
  shows "rows = order_by ord (filter keep (tb_rows (table_of db t)))"
    and "set req \<subseteq> set (tb_columns (table_of db t))"
proof -
  have "missing_columns (tb_columns (table_of db t)) req = []"
    and "rows = order_by ord (filter keep (tb_rows (table_of db t)))"
    using assms
    by (auto simp: select_rows_def py_bind_Inr_iff require_columns_def raise_if_Inr table_column_names_def Let_def)
  moreover have "sort xs = [] \<longleftrightarrow> xs = []" for xs :: "string list"
    by (metis length_0_conv length_sort)
  ultimately show "rows = order_by ord (filter keep (tb_rows (table_of db t)))"
    and "set req \<subseteq> set (tb_columns (table_of db t))"
    by (auto simp: missing_columns_def filter_empty_conv)
qed

text \<open>The chunks partition the hashes, so every row is selected by at most one of them.\<close>

lemma in_hashes_append: "in_hashes (xs @ ys) r \<longleftrightarrow> in_hashes xs r \<or> in_hashes ys r"
  by (auto simp: in_hashes_def split: pyval.splits)

lemma in_hashes_disjoint: "set xs \<inter> set ys = {} \<Longrightarrow> in_hashes xs r \<Longrightarrow> \<not> in_hashes ys r"
  by (auto simp: in_hashes_def split: pyval.splits)

lemma mset_filter_disj:
  "(\<And>x. x \<in> set xs \<Longrightarrow> P x \<Longrightarrow> \<not> Q x) \<Longrightarrow>
     mset (filter (\<lambda>x. P x \<or> Q x) xs) = mset (filter P xs) + mset (filter Q xs)"
  by (induction xs) auto

lemma mset_chunked_filters:
  "distinct (concat cs) \<Longrightarrow>
     mset (concat (map (\<lambda>c. filter (in_hashes c) rows) cs)) = mset (filter (in_hashes (concat cs)) rows)"
proof (induction cs)
  case Nil
  then show ?case by (simp add: in_hashes_def filter_empty_conv split: pyval.splits)
next
  case (Cons c cs)
  have "set c \<inter> set (concat cs) = {}" using Cons.prems by auto
  then have "mset (filter (\<lambda>r. in_hashes c r \<or> in_hashes (concat cs) r) rows) =
      mset (filter (in_hashes c) rows) + mset (filter (in_hashes (concat cs)) rows)"
    by (intro mset_filter_disj) (rule in_hashes_disjoint)
  then show ?case using Cons by (simp add: in_hashes_append)
qed

lemma in_hashes_cong: "set xs = set ys \<Longrightarrow> in_hashes xs = in_hashes ys"
  by (auto simp: in_hashes_def fun_eq_iff split: pyval.splits)

text \<open>Chunking is invisible. Whatever the number of hashes asked for, and however often one
  is repeated, a successful read returns each row with a requested hash exactly once and no other row,
  no statement binds more than 900 variables, and the required columns were all present if any statement ran.\<close>

theorem read_by_hashes_exact:
  assumes "read_by_hashes db t (Some hs) req = Inr rows"
  shows "mset rows = mset (filter (in_hashes hs) (tb_rows (table_of db t))) \<and>
     (\<forall>c\<in>set (chunks (sqlite_variable_chunk - 1) (dedupe hs)). length c \<le> 900) \<and>
     (hs \<noteq> [] \<longrightarrow> set req \<subseteq> set (tb_columns (table_of db t)))"
proof -
  let ?cs = "chunks (sqlite_variable_chunk - 1) (dedupe hs)"
  let ?sel = "\<lambda>c. select_rows db t req (in_hashes c) (hash_order t)"
  let ?all = "tb_rows (table_of db t)"
  obtain parts where parts: "py_mapM ?sel ?cs = Inr parts" and rows: "rows = concat parts"
    using assms by (auto simp: read_by_hashes_def py_bind_Inr_iff)
  have eq: "map ?sel ?cs = map Inr parts" using parts by (simp add: py_mapM_Inr_iff)
  have "parts = map (\<lambda>c. order_by (hash_order t) (filter (in_hashes c) ?all)) ?cs"
  proof (rule nth_equalityI)
    show len: "length parts = length (map (\<lambda>c. order_by (hash_order t) (filter (in_hashes c) ?all)) ?cs)"
      using py_mapM_length[OF parts] by simp
    fix i
    assume "i < length parts"
    then show "parts ! i = map (\<lambda>c. order_by (hash_order t) (filter (in_hashes c) ?all)) ?cs ! i"
      using select_rows_Inr(1)[OF py_mapM_nth[OF parts]] len by simp
  qed
  then have "mset rows = mset (concat (map (\<lambda>c. filter (in_hashes c) ?all) ?cs))"
    unfolding rows mset_concat by (simp add: comp_def)
  also have "\<dots> = mset (filter (in_hashes hs) ?all)"
    by (subst mset_chunked_filters) (simp_all add: in_hashes_cong[of "dedupe hs" hs])
  finally have "mset rows = mset (filter (in_hashes hs) ?all)" .
  moreover have "length c \<le> 900" if "c \<in> set ?cs" for c
    using chunks_bound[OF that] by (simp add: sqlite_variable_chunk_def)
  moreover have "set req \<subseteq> set (tb_columns (table_of db t))" if "hs \<noteq> []"
  proof -
    have "dedupe hs \<noteq> []" using that set_dedupe[of hs] by (metis set_empty)
    then obtain c cs where "?cs = c # cs"
      using chunks.simps[of "sqlite_variable_chunk - 1" "dedupe hs"] by simp
    then obtain p where "?sel c = Inr p" using eq by (cases parts) auto
    then show ?thesis by (rule select_rows_Inr(2))
  qed
  ultimately show ?thesis by blast
qed

definition sample_source :: source_db where
  "sample_source = [(''information'', \<lparr>tb_columns = [''sha256''], tb_key_positions = [],
     tb_rows = [[(''sha256'', PStr ''b'')], [(''sha256'', PStr ''a'')], [(''sha256'', PStr ''c'')]]\<rparr>)]"

theorem read_by_hashes_exact_witness:
  "\<exists>rows. read_songinfo sample_source (Some [''a'', ''b'', ''a'']) = Inr rows \<and>
     mset rows = {#[(''sha256'', PStr ''b'')], [(''sha256'', PStr ''a'')]#}"
proof -
  have chunk: "chunks 899 [''a'', ''b''] = [[''a'', ''b'']]"
    by (simp add: chunks.simps numeral_eq_Suc)
  obtain rows where rows: "read_by_hashes sample_source ''information'' (Some [''a'', ''b'', ''a'']) [''sha256''] = Inr rows"
    by (simp add: read_by_hashes_def sqlite_variable_chunk_def chunk select_rows_def
        table_column_names_def quoted_identifier_def is_alpha_char_def less_eq_char_def table_of_def is_digit_def
        sample_source_def require_columns_def missing_columns_def)
  from read_by_hashes_exact[OF this] show ?thesis
    by (simp add: read_songinfo_def rows) (simp add: sample_source_def table_of_def in_hashes_def get_item_def)
qed

end
