(* ===== verification/Poller.thy ===== *)
theory Poller
  imports Replay_Ingest Readers
begin

text \<open>
  \<open>collect/poller.py\<close>: the content-diff collector. The surroundings of one tick (what \<open>stat\<close>, \<open>read\<close>,
  SQLite, the replay slots and the clock answer) are the record \<open>tick_env\<close>; the state kept is the assistant database and the last
  signature. A block \<open>with conn\<close> is a computation on the tables whose result is
  stored only if it returns.
\<close>

subsection \<open>Configuration, surroundings and results\<close>

record poller_config =
  pc_scoredatalog :: string
  pc_score :: string
  pc_max_retries :: nat
  pc_describe :: "py_exn \<Rightarrow> string"

text \<open>What SQLite finds in a private copy: the two answers of \<open>PRAGMA data_version\<close> and the
  tables.\<close>

record copy_reading =
  cp_version_before :: int
  cp_version_after :: int
  cp_db :: source_db

type_synonym private_copy = "(string \<times> string) list"

text \<open>One attempt at a consistent read: the file system before and after, and the bytes copied.\<close>

record attempt =
  at_before :: "string \<Rightarrow> stat py"
  at_bytes :: "string \<Rightarrow> string py"
  at_after :: "string \<Rightarrow> stat py"

record tick_env =
  te_trigger :: "string \<Rightarrow> stat py"
  te_attempt :: "nat \<Rightarrow> attempt"
  te_open :: "private_copy \<Rightarrow> copy_reading py"
  te_replay_stats :: "(string \<times> stat py) list option"
  te_replay_dir :: bool
  te_replay_read :: "string \<Rightarrow> replay_meta py"
  te_now :: int
  te_error_now :: int

record poller =
  po_db :: assistant_db
  po_last_signature :: "source_sig option"

record tick_result =
  tr_new_plays :: nat
  tr_lost_events :: int
  tr_generation_changed :: bool
  tr_scanned :: bool
  tr_replay_scanned :: nat
  tr_replay_matched :: nat
  tr_replay_unmatched :: nat
  tr_replay_ambiguous :: nat
  tr_replay_invalid :: nat
  tr_replay_unstable :: nat
  tr_replay_overwritten :: nat

definition tick_counts :: "nat \<Rightarrow> int \<Rightarrow> bool \<Rightarrow> bool \<Rightarrow> tick_result" where
  "tick_counts new_plays lost changed scanned =
     \<lparr>tr_new_plays = new_plays, tr_lost_events = lost, tr_generation_changed = changed,
      tr_scanned = scanned, tr_replay_scanned = 0, tr_replay_matched = 0, tr_replay_unmatched = 0,
      tr_replay_ambiguous = 0, tr_replay_invalid = 0, tr_replay_unstable = 0,
      tr_replay_overwritten = 0\<rparr>"

definition same_persisted_signal :: "source_sig \<Rightarrow> real option \<Rightarrow> int option \<Rightarrow> bool" where
  "same_persisted_signal sig last_mtime_value last_size =
     (case (last_mtime_value, last_size, last_mtime sig) of
        (Some m, Some n, Some current) \<Rightarrow> \<bar>current - m\<bar> < 5 / 10000000 \<and> total_size sig = n
      | _ \<Rightarrow> False)"

subsection \<open>Reading both databases consistently\<close>

text \<open>\<open>_copy_live_database\<close>: the main file, and the WAL and the journal if they exist.\<close>

fun copy_sidecars :: "(string \<Rightarrow> string py) \<Rightarrow> string \<Rightarrow> string list \<Rightarrow> private_copy py" where
  "copy_sidecars bytes source [] = Inr []"
| "copy_sidecars bytes source (suffix # rest) =
     (case bytes (source @ suffix) of
        Inl e \<Rightarrow> if e = FileNotFoundError then copy_sidecars bytes source rest else Inl e
      | Inr content \<Rightarrow>
          py_bind (copy_sidecars bytes source rest) (\<lambda>files. Inr ((suffix, content) # files)))"

definition copy_live_database :: "(string \<Rightarrow> string py) \<Rightarrow> string \<Rightarrow> private_copy py" where
  "copy_live_database bytes source =
     py_bind (bytes source) (\<lambda>main.
     py_bind (copy_sidecars bytes source [''-wal'', ''-journal'']) (\<lambda>files. Inr (([], main) # files)))"

type_synonym chart_key = "string \<times> int"

definition row_key :: "runtime \<Rightarrow> row \<Rightarrow> chart_key py" where
  "row_key rt r =
     py_bind (str_item rt r ''sha256'') (\<lambda>sha. py_bind (int_item r ''mode'') (\<lambda>mode. Inr (sha, mode)))"

text \<open>The rows, the aggregate rows by chart (a dict: the last row of a key wins) and the signature, or
  nothing when the sources changed during the read.\<close>

type_synonym snapshot = "row list \<times> (chart_key \<times> row) list \<times> source_sig"

definition aggregate_dict :: "runtime \<Rightarrow> row list \<Rightarrow> (chart_key \<times> row) list py" where
  "aggregate_dict rt rows =
     py_bind (py_mapM (\<lambda>r. py_bind (row_key rt r) (\<lambda>k. Inr (k, r))) rows) (\<lambda>kvs. Inr (rev kvs))"

definition read_attempt ::
    "runtime \<Rightarrow> poller_config \<Rightarrow> (private_copy \<Rightarrow> copy_reading py) \<Rightarrow> attempt \<Rightarrow> snapshot option py" where
  "read_attempt rt cfg open_copy a =
     py_bind (source_signature (at_before a) (pc_scoredatalog cfg)) (\<lambda>scoredatalog_before.
     py_bind (source_signature (at_before a) (pc_score cfg)) (\<lambda>score_before.
     py_bind (copy_live_database (at_bytes a) (pc_scoredatalog cfg)) (\<lambda>scoredatalog_copy.
     py_bind (copy_live_database (at_bytes a) (pc_score cfg)) (\<lambda>score_copy.
     py_bind (open_copy scoredatalog_copy) (\<lambda>data.
     py_bind (open_copy score_copy) (\<lambda>score.
     py_bind (read_scoredatalog (cp_db data)) (\<lambda>rows.
     py_bind (read_score (cp_db score)) (\<lambda>aggregate_rows.
     py_bind (source_signature (at_after a) (pc_scoredatalog cfg)) (\<lambda>scoredatalog_after.
     py_bind (source_signature (at_after a) (pc_score cfg)) (\<lambda>score_after.
       if scoredatalog_before = scoredatalog_after \<and> score_before = score_after \<and>
          cp_version_before data = cp_version_after data \<and> cp_version_before score = cp_version_after score
       then py_bind (aggregate_dict rt aggregate_rows) (\<lambda>aggregate.
         Inr (Some (rows, aggregate, scoredatalog_after)))
       else Inr None))))))))))"

fun read_attempts :: "(nat \<Rightarrow> snapshot option py) \<Rightarrow> nat \<Rightarrow> nat \<Rightarrow> snapshot py" where
  "read_attempts try i 0 = Inl SourceChangedDuringRead"
| "read_attempts try i (Suc n) =
     (case try i of
        Inl e \<Rightarrow> Inl e
      | Inr (Some snap) \<Rightarrow> Inr snap
      | Inr None \<Rightarrow> read_attempts try (Suc i) n)"

definition read_consistent_snapshot :: "runtime \<Rightarrow> poller_config \<Rightarrow> tick_env \<Rightarrow> snapshot py" where
  "read_consistent_snapshot rt cfg env =
     read_attempts (\<lambda>i. read_attempt rt cfg (te_open env) (te_attempt env i)) 0 (max 1 (pc_max_retries cfg))"

subsection \<open>Recording an error\<close>

definition collector_generation :: "assistant_db \<Rightarrow> int" where
  "collector_generation db =
     (case map_of (t_collector db) ''scoredatalog'' of
        None \<Rightarrow> 0 | Some r \<Rightarrow> cs_source_generation r)"

definition record_error ::
    "poller_config \<Rightarrow> tick_env \<Rightarrow> py_exn \<Rightarrow> source_sig option \<Rightarrow> assistant_db \<Rightarrow> assistant_db" where
  "record_error cfg env e sig db =
     upsert_collector_state ''scoredatalog''
       \<lparr>cs_source_generation = collector_generation db,
        cs_last_mtime = Option.bind sig last_mtime, cs_last_size = map_option total_size sig,
        cs_last_run_at = Some (te_error_now env), cs_last_error = Some (pc_describe cfg e)\<rparr> db"

subsection \<open>Replay slots\<close>

type_synonym slot_signal = "string \<times> (int \<times> int \<times> int \<times> int)"

definition slot_signal_of :: "runtime \<Rightarrow> string \<times> stat py \<Rightarrow> slot_signal option py" where
  "slot_signal_of rt = (\<lambda>(path, st).
     case st of
       Inl e \<Rightarrow> if e = FileNotFoundError then Inr None else Inl e
     | Inr st' \<Rightarrow>
         py_bind (sqlite_file_identity rt (PInt (st_dev st')) (PInt (st_ino st'))) (\<lambda>(device, inode).
           Inr (Some (path, (device, inode, st_mtime_ns st', st_size st')))))"

definition replay_signature :: "runtime \<Rightarrow> tick_env \<Rightarrow> slot_signal list py" where
  "replay_signature rt env =
     (case te_replay_stats env of
        None \<Rightarrow> Inr []
      | Some stats \<Rightarrow>
          py_bind (py_mapM (slot_signal_of rt) (sort_key fst stats)) (\<lambda>signals.
            Inr (List.map_filter id signals)))"

definition persisted_identity :: "assistant_db \<Rightarrow> string \<Rightarrow> (int \<times> int \<times> int \<times> int) option" where
  "persisted_identity db path =
     map_option (\<lambda>(device, inode, mtime, size, outcome). (device, inode, mtime, size))
       (map_of (load_replay_scan_states db) path)"

text \<open>Unseen slots first, then changed ones, and with \<open>force\<close> unchanged ones up to the
  limit.\<close>

definition select_slots :: "assistant_db \<Rightarrow> bool \<Rightarrow> slot_signal list \<Rightarrow> slot_signal list" where
  "select_slots db force signature =
     (let unseen = filter (\<lambda>(path, sig). persisted_identity db path = None) signature;
          changed = filter (\<lambda>(path, sig). persisted_identity db path \<notin> {None, Some sig}) signature;
          selected = take max_replay_files (unseen @ changed)
      in if force \<and> length selected < max_replay_files
         then selected @ take (max_replay_files - length selected)
                (filter (\<lambda>(path, sig). path \<notin> fst ` set selected) signature)
         else selected)"

definition stale_slots :: "assistant_db \<Rightarrow> slot_signal list \<Rightarrow> string list" where
  "stale_slots db signature =
     sort (filter (\<lambda>path. path \<notin> fst ` set signature) (map fst (t_scans db)))"

text \<open>The counters \<open>(matched, unmatched, ambiguous, overwritten)\<close> of one ingest.\<close>

type_synonym replay_counts = "nat \<times> nat \<times> nat \<times> nat"

fun count_ingest :: "string \<times> bool \<times> bool \<Rightarrow> replay_counts \<Rightarrow> replay_counts" where
  "count_ingest (status, overwritten, inserted) (matched, unmatched, ambiguous, over) =
     (if \<not> inserted then (matched, unmatched, ambiguous, over)
      else if status = ''matched'' then (matched + 1, unmatched, ambiguous, over + of_bool overwritten)
      else if status = ''ambiguous'' then (matched, unmatched, ambiguous + 1, over + of_bool overwritten)
      else (matched, unmatched + 1, ambiguous, over + of_bool overwritten))"

definition ingest_step ::
    "int \<Rightarrow> replay_counts \<times> assistant_db \<Rightarrow> replay_meta \<Rightarrow> replay_counts \<times> assistant_db" where
  "ingest_step now = (\<lambda>(counts, db) m.
     let (outcome, db') = ingest_replay_metadata m now db in (count_ingest outcome counts, db'))"

definition valid_observation :: "int \<Rightarrow> replay_meta \<Rightarrow> string \<times> scan_row" where
  "valid_observation now m =
     (rm_path m, \<lparr>sc_device = rm_device m, sc_inode = rm_inode m, sc_mtime_ns = rm_mtime_ns m,
        sc_compressed_size = rm_compressed_size m, sc_outcome = ''valid'', sc_checked_at = now\<rparr>)"

definition failed_observations ::
    "int \<Rightarrow> slot_signal list \<Rightarrow> string \<Rightarrow> string list \<Rightarrow> (string \<times> scan_row) list" where
  "failed_observations now signals outcome paths =
     List.map_filter (\<lambda>path.
       map_option (\<lambda>(device, inode, mtime, size).
         (path, \<lparr>sc_device = device, sc_inode = inode, sc_mtime_ns = mtime,
            sc_compressed_size = size, sc_outcome = outcome, sc_checked_at = now\<rparr>))
         (map_of signals path)) paths"

definition scan_observations ::
    "int \<Rightarrow> slot_signal list \<Rightarrow> replay_scan_result \<Rightarrow> (string \<times> scan_row) list" where
  "scan_observations now signals report =
     map (valid_observation now) (rs_metadata report) @
     failed_observations now signals ''invalid'' (rs_invalid_paths report) @
     failed_observations now signals ''unstable'' (rs_unstable_paths report)"

definition replay_collector_row ::
    "int \<Rightarrow> slot_signal list \<Rightarrow> replay_scan_result \<Rightarrow> assistant_db \<Rightarrow> collector_row" where
  "replay_collector_row now signature report db =
     (let (persisted_invalid, persisted_unstable) = replay_scan_error_counts db;
          audit_invalid = max persisted_invalid (rs_invalid report);
          audit_unstable = max persisted_unstable (rs_unstable report)
      in \<lparr>cs_source_generation = 0,
          cs_last_mtime = map_option (\<lambda>m. real_of_int m / 1000000000)
            (py_max (map (\<lambda>(path, device, inode, mtime, size). mtime) signature)),
          cs_last_size = Some (sum_list (map (\<lambda>(path, device, inode, mtime, size). size) signature)),
          cs_last_run_at = Some now,
          cs_last_error =
            (if audit_invalid = 0 \<and> audit_unstable = 0 then None
             else Some (''invalid='' @ show_nat audit_invalid @ '', unstable='' @ show_nat audit_unstable))\<rparr>)"

definition store_report ::
    "runtime \<Rightarrow> int \<Rightarrow> slot_signal list \<Rightarrow> string list \<Rightarrow> replay_scan_result \<Rightarrow> assistant_db \<Rightarrow>
       (replay_counts \<times> assistant_db) py" where
  "store_report rt now signature stale report db =
     (let (counts, db1) = foldl (ingest_step now) ((0, 0, 0, 0), delete_replay_scan_states stale db)
            (rs_metadata report)
      in py_bind (upsert_replay_scan_states rt (scan_observations now signature report) db1) (\<lambda>db2.
         Inr (counts, upsert_collector_state ''replay''
           (replay_collector_row now signature report db2) db2)))"

definition collect_replays ::
    "runtime \<Rightarrow> tick_env \<Rightarrow> int \<Rightarrow> bool \<Rightarrow> assistant_db \<Rightarrow> (tick_result \<times> assistant_db) py" where
  "collect_replays rt env now force db =
     py_bind (replay_signature rt env) (\<lambda>signature.
       let selected = select_slots db force signature;
           stale = stale_slots db signature
       in if selected = [] \<and> stale = [] then Inr (tick_counts 0 0 False False, db)
          else
            py_bind (scan_report (te_replay_read env) (te_replay_dir env) []
              (Some (map fst selected))) (\<lambda>report.
            py_bind (store_report rt now signature stale report db)
              (\<lambda>((matched, unmatched, ambiguous, overwritten), db').
            Inr (\<lparr>tr_new_plays = 0, tr_lost_events = 0, tr_generation_changed = False,
                tr_scanned = (selected \<noteq> [] \<or> rs_invalid report \<noteq> 0 \<or> rs_unstable report \<noteq> 0),
                tr_replay_scanned = length (rs_metadata report) + rs_invalid report + rs_unstable report,
                tr_replay_matched = matched, tr_replay_unmatched = unmatched,
                tr_replay_ambiguous = ambiguous, tr_replay_invalid = rs_invalid report,
                tr_replay_unstable = rs_unstable report, tr_replay_overwritten = overwritten\<rparr>, db'))))"

definition with_replays :: "tick_result \<Rightarrow> tick_result \<Rightarrow> tick_result" where
  "with_replays score replays =
     replays\<lparr>tr_new_plays := tr_new_plays score, tr_lost_events := tr_lost_events score,
       tr_generation_changed := tr_generation_changed score,
       tr_scanned := (tr_scanned score \<or> tr_scanned replays)\<rparr>"

subsection \<open>One scan of \<open>scoredatalog\<close>\<close>

type_synonym score_progress = "nat \<times> int \<times> assistant_db"

definition put_cursor ::
    "int \<Rightarrow> chart_key \<Rightarrow> int \<Rightarrow> string \<Rightarrow> assistant_db \<Rightarrow> assistant_db" where
  "put_cursor generation key playcount payload db =
     upsert_cursor (generation, key) (playcount, payload) db"

definition scan_row ::
    "runtime \<Rightarrow> (chart_key \<times> cursor) list \<Rightarrow> int \<Rightarrow> (chart_key \<times> row) list \<Rightarrow> int \<Rightarrow>
       score_progress \<Rightarrow> row \<Rightarrow> score_progress py" where
  "scan_row rt cursors generation aggregate now = (\<lambda>(new_plays, lost_total, db) r.
     py_bind (row_key rt r) (\<lambda>key.
     py_bind (int_item r ''playcount'') (\<lambda>current_playcount.
     let current_hash = payload_hash rt r in
     case map_of cursors key of
       None \<Rightarrow>
         py_bind (derive_play rt r ''collector'' generation (map_of aggregate key) 0 now) (\<lambda>play.
           let (created, db1) = insert_play False play db
           in Inr (if created then new_plays + 1 else new_plays, lost_total,
                   put_cursor generation key current_playcount current_hash db1))
     | Some (last_playcount, last_hash) \<Rightarrow>
         if last_playcount < current_playcount then
           let lost = max 0 (current_playcount - last_playcount - 1) in
           py_bind (derive_play rt r ''collector'' generation (map_of aggregate key) lost now) (\<lambda>play.
             let (created, db1) = insert_play False play db
             in Inr (if created then new_plays + 1 else new_plays,
                     if created then lost_total + lost else lost_total,
                     put_cursor generation key current_playcount current_hash db1))
         else if current_playcount = last_playcount \<and> current_hash \<noteq> last_hash then
           py_bind (derive_play rt r ''collector'' generation (map_of aggregate key) 0 now) (\<lambda>play.
             Inr (new_plays, lost_total,
                  put_cursor generation key current_playcount current_hash (snd (insert_play True play db))))
         else Inr (new_plays, lost_total, db))))"

text \<open>Whether the source was regenerated: another main file, a vanished chart, or a playcount that
  went back.\<close>

definition replaced ::
    "source_sig option \<Rightarrow> source_sig \<Rightarrow> (chart_key \<times> cursor) list \<Rightarrow> chart_key list \<Rightarrow> bool" where
  "replaced last_signature stable_signature cursors current_keys \<longleftrightarrow>
     (case last_signature of
        None \<Rightarrow> False
      | Some sig \<Rightarrow> main_identity sig \<noteq> main_identity stable_signature) \<or>
     (\<exists>key\<in>fst ` set cursors. key \<notin> set current_keys)"

definition row_rolled_back :: "runtime \<Rightarrow> (chart_key \<times> cursor) list \<Rightarrow> row \<Rightarrow> bool py" where
  "row_rolled_back rt cursors r =
     py_bind (row_key rt r) (\<lambda>key.
       case map_of cursors key of
         None \<Rightarrow> Inr False
       | Some (last_playcount, last_hash) \<Rightarrow>
           py_bind (int_item r ''playcount'') (\<lambda>n. Inr (n < last_playcount)))"

text \<open>\<open>any(...)\<close> stops at the first true element.\<close>

fun any_rolled_back :: "runtime \<Rightarrow> (chart_key \<times> cursor) list \<Rightarrow> row list \<Rightarrow> bool py" where
  "any_rolled_back rt cursors [] = Inr False"
| "any_rolled_back rt cursors (r # rs) =
     py_bind (row_rolled_back rt cursors r) (\<lambda>b. if b then Inr True else any_rolled_back rt cursors rs)"

definition scan_score ::
    "runtime \<Rightarrow> source_sig option \<Rightarrow> int \<Rightarrow> snapshot \<Rightarrow> assistant_db \<Rightarrow> (tick_result \<times> assistant_db) py" where
  "scan_score rt last_signature now = (\<lambda>(rows, aggregate, stable_signature) db.
     let generation = collector_generation db;
         cursors = load_cursors db generation
     in
     py_bind (py_mapM (row_key rt) rows) (\<lambda>current_keys.
     py_bind (any_rolled_back rt cursors rows) (\<lambda>rollback.
       let generation_changed = (replaced last_signature stable_signature cursors current_keys \<or> rollback);
           generation' = (if generation_changed then generation + 1 else generation);
           cursors' = (if generation_changed then [] else cursors)
       in
       py_bind (py_for (scan_row rt cursors' generation' aggregate now) (0, 0, db) rows)
         (\<lambda>(new_plays, lost_total, db').
         Inr (tick_counts new_plays lost_total generation_changed True,
              upsert_collector_state ''scoredatalog''
                \<lparr>cs_source_generation = generation', cs_last_mtime = last_mtime stable_signature,
                 cs_last_size = Some (total_size stable_signature), cs_last_run_at = Some now,
                 cs_last_error = None\<rparr> db')))))"

subsection \<open>A tick\<close>

fun is_os_error :: "py_exn \<Rightarrow> bool" where
  "is_os_error FileNotFoundError = True"
| "is_os_error (OSError _) = True"
| "is_os_error _ = False"

definition settle_replays ::
    "runtime \<Rightarrow> tick_env \<Rightarrow> poller \<Rightarrow> tick_result py \<times> poller" where
  "settle_replays rt env p =
     (case collect_replays rt env (te_now env) False (po_db p) of
        Inl e \<Rightarrow> (Inl e, p)
      | Inr (result, db) \<Rightarrow> (Inr result, p\<lparr>po_db := db\<rparr>))"

definition fail_tick ::
    "poller_config \<Rightarrow> tick_env \<Rightarrow> py_exn \<Rightarrow> source_sig option \<Rightarrow> poller \<Rightarrow> tick_result py \<times> poller" where
  "fail_tick cfg env e sig p = (Inl e, p\<lparr>po_db := record_error cfg env e sig (po_db p)\<rparr>)"

definition tick_scan ::
    "runtime \<Rightarrow> poller_config \<Rightarrow> tick_env \<Rightarrow> bool \<Rightarrow> source_sig \<Rightarrow> poller \<Rightarrow> tick_result py \<times> poller" where
  "tick_scan rt cfg env force trigger p =
     (case read_consistent_snapshot rt cfg env of
        Inl e \<Rightarrow> fail_tick cfg env e (Some trigger) p
      | Inr snap \<Rightarrow>
          (case scan_score rt (po_last_signature p) (te_now env) snap (po_db p) of
             Inl e \<Rightarrow> fail_tick cfg env e (Some trigger) p
           | Inr (score_result, db1) \<Rightarrow>
               let p1 = \<lparr>po_db = db1, po_last_signature = Some (snd (snd snap))\<rparr>
               in (case collect_replays rt env (te_now env) (force \<or> 0 < tr_new_plays score_result) db1 of
                     Inl e \<Rightarrow> fail_tick cfg env e (Some trigger) p1
                   | Inr (replay_result, db2) \<Rightarrow>
                       (Inr (with_replays score_result replay_result), p1\<lparr>po_db := db2\<rparr>))))"

definition settled :: "assistant_db \<Rightarrow> source_sig \<Rightarrow> bool" where
  "settled db trigger \<longleftrightarrow>
     (case map_of (t_collector db) ''scoredatalog'' of
        None \<Rightarrow> False
      | Some r \<Rightarrow> cs_last_error r = None \<and> same_persisted_signal trigger (cs_last_mtime r) (cs_last_size r))"

definition tick ::
    "runtime \<Rightarrow> poller_config \<Rightarrow> tick_env \<Rightarrow> bool \<Rightarrow> poller \<Rightarrow> tick_result py \<times> poller" where
  "tick rt cfg env force p =
     (case source_signature (te_trigger env) (pc_scoredatalog cfg) of
        Inl e \<Rightarrow> if is_os_error e then fail_tick cfg env e None p else (Inl e, p)
      | Inr trigger \<Rightarrow>
          if \<not> force \<and> po_last_signature p = Some trigger then settle_replays rt env p
          else if \<not> force \<and> po_last_signature p = None \<and> settled (po_db p) trigger
            then settle_replays rt env (p\<lparr>po_last_signature := Some trigger\<rparr>)
          else tick_scan rt cfg env force trigger p)"

end
