(* ===== verification/Poller_Proofs.thy ===== *)
theory Poller_Proofs
  imports Poller
begin

text \<open>
  What the collector guarantees. The plays of one chart in one generation form a chain: each playcount is
  the one before plus one plus the lost events recorded with it, and the cursor of the chart is
  the playcount and payload hash of the last play.
\<close>

subsection \<open>Histories\<close>

definition of_chart :: "int \<Rightarrow> chart_key \<Rightarrow> play_record \<Rightarrow> bool" where
  "of_chart g k p \<longleftrightarrow> pl_source_generation (r_play p) = g \<and> (pl_sha256 (r_play p), pl_mode (r_play p)) = k"

definition chart_plays :: "assistant_db \<Rightarrow> int \<Rightarrow> chart_key \<Rightarrow> play list" where
  "chart_plays db g k = map r_play (filter (of_chart g k) (map snd (t_plays db)))"

fun chained :: "play list \<Rightarrow> bool" where
  "chained (p # q # ps) \<longleftrightarrow>
     0 \<le> pl_lost_events q \<and> pl_playcount q = pl_playcount p + 1 + pl_lost_events q \<and> chained (q # ps)"
| "chained _ = True"

fun history_ok :: "cursor option \<Rightarrow> play list \<Rightarrow> bool" where
  "history_ok None ps \<longleftrightarrow> ps = []"
| "history_ok (Some (n, h)) ps \<longleftrightarrow>
     ps \<noteq> [] \<and> chained ps \<and> pl_playcount (last ps) = n \<and> pl_payload_hash (last ps) = h"

definition histories_ok :: "assistant_db \<Rightarrow> bool" where
  "histories_ok db \<longleftrightarrow>
     (\<forall>g k. 0 \<le> g \<longrightarrow> history_ok (map_of (t_cursors db) (g, k)) (chart_plays db g k))"

lemma histories_okD: "histories_ok db \<Longrightarrow> 0 \<le> g \<Longrightarrow> history_ok (map_of (t_cursors db) (g, k)) (chart_plays db g k)"
  unfolding histories_ok_def by blast

definition generations_ok :: "assistant_db \<Rightarrow> bool" where
  "generations_ok db \<longleftrightarrow>
     0 \<le> collector_generation db \<and>
     (\<forall>g k. map_of (t_cursors db) (g, k) \<noteq> None \<longrightarrow> g \<le> collector_generation db)"

definition poller_inv :: "assistant_db \<Rightarrow> bool" where
  "poller_inv db \<longleftrightarrow> store_ok db \<and> histories_ok db \<and> generations_ok db"

lemma chained_Cons: "chained (p # ps) \<Longrightarrow> chained ps"
  by (cases ps) simp_all

lemma chained_snoc:
  "chained (ps @ [p]) \<longleftrightarrow> chained ps \<and>
     (ps \<noteq> [] \<longrightarrow> 0 \<le> pl_lost_events p \<and> pl_playcount p = pl_playcount (last ps) + 1 + pl_lost_events p)"
  by (induction ps rule: chained.induct) auto

lemma chained_le_last: "chained ps \<Longrightarrow> x \<in> set ps \<Longrightarrow> pl_playcount x \<le> pl_playcount (last ps)"
proof (induction ps arbitrary: x rule: chained.induct)
  case (1 p q ps)
  have tail: "pl_playcount y \<le> pl_playcount (last (q # ps))" if "y \<in> set (q # ps)" for y
    using "1.prems"(1) that by (intro "1.IH") simp_all
  have "pl_playcount p \<le> pl_playcount q" using "1.prems"(1) by simp
  also have "pl_playcount q \<le> pl_playcount (last (q # ps))" by (rule tail) simp
  finally have "pl_playcount p \<le> pl_playcount (last (q # ps))" .
  then show ?case using tail[of x] "1.prems"(2) by (cases "x = p") simp_all
qed auto

lemma chained_total:
  "chained ps \<Longrightarrow> ps \<noteq> [] \<Longrightarrow>
     pl_playcount (last ps) = pl_playcount (hd ps) + sum_list (map (\<lambda>p. 1 + pl_lost_events p) (tl ps))"
  by (induction ps rule: chained.induct) auto

lemma chained_cong:
  "map pl_playcount ps = map pl_playcount qs \<Longrightarrow> map pl_lost_events ps = map pl_lost_events qs \<Longrightarrow>
     chained ps = chained qs"
proof (induction ps arbitrary: qs rule: chained.induct)
  case (1 p q ps)
  from "1.prems" obtain p' q' qs' where "qs = p' # q' # qs'"
    by (cases qs; cases "tl qs") auto
  then show ?case using "1.IH"[of "q' # qs'"] "1.prems" by simp
qed (auto simp: Suc_length_conv)

subsection \<open>Insertions and histories\<close>

lemma chart_plays_add:
  "chart_plays (add_play p db) g k = chart_plays db g k @ (if of_chart g k p then [r_play p] else [])"
  by (simp add: chart_plays_def add_play_def)

lemma play_key_of_chart:
  "play_key p = (g, fst k, snd k, n) \<longleftrightarrow> of_chart g k p \<and> pl_playcount (r_play p) = n"
  by (cases k) (auto simp: play_key_def of_chart_def)

lemma find_play_chart:
  assumes "of_chart g k p"
  shows "find_play (play_key p) (t_plays db) = None \<longleftrightarrow>
    pl_playcount (r_play p) \<notin> pl_playcount ` set (chart_plays db g k)"
proof -
  have "play_key p = (g, fst k, snd k, pl_playcount (r_play p))"
    using assms by (simp add: play_key_of_chart)
  then have key: "play_key q = play_key p \<longleftrightarrow> of_chart g k q \<and> pl_playcount (r_play q) = pl_playcount (r_play p)" for q
    using play_key_of_chart[of q] by simp
  have "find_play (play_key p) (t_plays db) = None \<longleftrightarrow> \<not> (\<exists>q\<in>set (map snd (t_plays db)). play_key q = play_key p)"
    by (simp add: find_play_None image_iff eq_commute[of "play_key p"])
  then have "find_play (play_key p) (t_plays db) = None \<longleftrightarrow>
      \<not> (\<exists>q\<in>set (map snd (t_plays db)). of_chart g k q \<and> pl_playcount (r_play q) = pl_playcount (r_play p))"
    unfolding key .
  moreover have "(\<exists>q\<in>set (map snd (t_plays db)). of_chart g k q \<and> pl_playcount (r_play q) = c) \<longleftrightarrow>
      c \<in> pl_playcount ` set (chart_plays db g k)" for c
    unfolding chart_plays_def set_map set_filter image_iff by blast
  ultimately show ?thesis by (simp only: not_not)
qed

lemma insert_next:
  assumes "history_ok (Some (n, h)) (chart_plays db g k) \<and> n < pl_playcount (r_play p) \<or>
      history_ok None (chart_plays db g k)"
    and "of_chart g k p"
  shows "insert_play False p db = (True, add_play p db)"
proof -
  have "pl_playcount (r_play p) \<notin> pl_playcount ` set (chart_plays db g k)"
    using assms(1) chained_le_last by fastforce
  then show ?thesis using find_play_chart[OF assms(2)] by (simp add: insert_play_def)
qed

definition correct :: "play_record \<Rightarrow> play_record \<Rightarrow> play_record" where
  "correct p q = (if play_key q = play_key p then overwrite_play q p else q)"

lemma correct_frame [simp]:
  "play_key (correct p q) = play_key q"
  "of_chart g k (correct p q) = of_chart g k q"
  "pl_playcount (r_play (correct p q)) = pl_playcount (r_play q)"
  "pl_lost_events (r_play (correct p q)) = pl_lost_events (r_play q)"
  by (auto simp: correct_def play_key_def of_chart_def overwrite_play_def)

lemma chart_plays_correct:
  assumes "find_play (play_key p) (t_plays db) \<noteq> None"
  shows "chart_plays (snd (insert_play True p db)) g k =
    map (r_play \<circ> correct p) (filter (of_chart g k) (map snd (t_plays db)))"
proof -
  have "filter (of_chart g k) (map (correct p) ps) = map (correct p) (filter (of_chart g k) ps)" for ps
    by (induction ps) simp_all
  moreover have "map snd (t_plays (snd (insert_play True p db))) = map (correct p) (map snd (t_plays db))"
    using assms by (auto simp: insert_play_def correct_def split_beta)
  ultimately show ?thesis by (simp add: chart_plays_def del: map_map) (simp add: comp_def)
qed

lemma history_correct:
  assumes "history_ok (Some (n, h)) (chart_plays db g k)" and "of_chart g k p" and "pl_playcount (r_play p) = n"
  shows "find_play (play_key p) (t_plays db) \<noteq> None"
    and "history_ok (Some (n, pl_payload_hash (r_play p))) (chart_plays (snd (insert_play True p db)) g k)"
proof -
  let ?qs = "filter (of_chart g k) (map snd (t_plays db))"
  have qs: "?qs \<noteq> []" and chain: "chained (map r_play ?qs)" and last: "pl_playcount (r_play (last ?qs)) = n"
    using assms(1) by (auto simp: chart_plays_def last_map simp del: filter_map filter_map)
  have "n \<in> pl_playcount ` set (chart_plays db g k)"
    using assms(1) by (auto intro!: image_eqI last_in_set)
  then show found: "find_play (play_key p) (t_plays db) \<noteq> None"
    using find_play_chart[OF assms(2)] assms(3) by simp
  have "last ?qs \<in> set ?qs" using qs by (rule last_in_set)
  then have "of_chart g k (last ?qs)" by simp
  then have "play_key (last ?qs) = play_key p"
  proof -
    have "play_key p = (g, fst k, snd k, n)" using assms(2,3) by (simp add: play_key_of_chart)
    moreover have "play_key (last ?qs) = (g, fst k, snd k, n)"
      using last \<open>of_chart g k (last ?qs)\<close> by (simp add: play_key_of_chart)
    ultimately show ?thesis by simp
  qed
  then have "pl_payload_hash (r_play (correct p (last ?qs))) = pl_payload_hash (r_play p)"
    by (simp add: correct_def overwrite_play_def)
  moreover have "chained (map (r_play \<circ> correct p) ?qs)"
    using chain by (subst chained_cong[of _ "map r_play ?qs"]) simp_all
  ultimately show "history_ok (Some (n, pl_payload_hash (r_play p))) (chart_plays (snd (insert_play True p db)) g k)"
    unfolding chart_plays_correct[OF found] using qs last by (simp add: last_map del: filter_map)
qed

lemma chart_plays_correct_other:
  assumes "of_chart g k p" and "(g', k') \<noteq> (g, k)" and "find_play (play_key p) (t_plays db) \<noteq> None"
  shows "chart_plays (snd (insert_play True p db)) g' k' = chart_plays db g' k'"
proof -
  have "correct p q = q" if "of_chart g' k' q" for q
  proof -
    have "play_key q \<noteq> play_key p" using that assms(1,2) by (auto simp: play_key_def of_chart_def)
    then show ?thesis by (simp add: correct_def)
  qed
  then show ?thesis by (subst chart_plays_correct[OF assms(3)]) (simp add: chart_plays_def)
qed

lemma cursors_put_cursor:
  "map_of (t_cursors (put_cursor g k n h db)) =
     (map_of (t_cursors db))((g, k) \<mapsto> merge_cursor (map_of (t_cursors db) (g, k)) (n, h))"
  unfolding put_cursor_def by (rule cursor_table.lookup_upsert)

lemma put_cursor_frame [simp]:
  "t_plays (put_cursor g k n h db) = t_plays db"
  "chart_plays (put_cursor g k n h db) g' k' = chart_plays db g' k'"
  "t_collector (put_cursor g k n h db) = t_collector db"
  "t_replays (put_cursor g k n h db) = t_replays db"
  "t_scans (put_cursor g k n h db) = t_scans db"
  by (simp_all add: put_cursor_def upsert_cursor_def chart_plays_def)

lemma collector_generation_cong: "t_collector db = t_collector db' \<Longrightarrow> collector_generation db = collector_generation db'"
  by (simp add: collector_generation_def)

text \<open>An insertion or a correction followed by the cursor it belongs to.\<close>

lemma histories_insert:
  assumes "histories_ok db" and "of_chart g k p" and "0 \<le> g"
    and "case map_of (t_cursors db) (g, k) of
           None \<Rightarrow> True
         | Some (n, h) \<Rightarrow> n < pl_playcount (r_play p) \<and>
             pl_lost_events (r_play p) = pl_playcount (r_play p) - n - 1"
  shows "insert_play False p db = (True, add_play p db)"
    and "histories_ok (put_cursor g k (pl_playcount (r_play p)) (pl_payload_hash (r_play p)) (add_play p db))"
proof -
  have old: "history_ok (map_of (t_cursors db) (g, k)) (chart_plays db g k)"
    using assms(1,3) by (rule histories_okD)
  show "insert_play False p db = (True, add_play p db)"
    using old assms(4) by (cases "map_of (t_cursors db) (g, k)")
      (auto intro!: insert_next[OF _ assms(2)])
  have new: "history_ok (Some (pl_playcount (r_play p), pl_payload_hash (r_play p))) (chart_plays db g k @ [r_play p])"
    using old assms(4) by (cases "map_of (t_cursors db) (g, k)") (auto simp: chained_snoc)
  have merged: "merge_cursor (map_of (t_cursors db) (g, k)) (pl_playcount (r_play p), h) = (pl_playcount (r_play p), h)" for h
    using assms(4) by (cases "map_of (t_cursors db) (g, k)") auto
  have same: "t_cursors (add_play p db) = t_cursors db" by (simp add: add_play_def)
  have other: "\<not> of_chart g' k' p" if "(g', k') \<noteq> (g, k)" for g' k'
    using assms(2) that by (auto simp: of_chart_def)
  show "histories_ok (put_cursor g k (pl_playcount (r_play p)) (pl_payload_hash (r_play p)) (add_play p db))"
    unfolding histories_ok_def
  proof (intro allI impI)
    fix g' :: int and k' :: chart_key
    assume "0 \<le> g'"
    then show "history_ok (map_of (t_cursors (put_cursor g k (pl_playcount (r_play p))
        (pl_payload_hash (r_play p)) (add_play p db))) (g', k'))
        (chart_plays (put_cursor g k (pl_playcount (r_play p)) (pl_payload_hash (r_play p)) (add_play p db)) g' k')"
      using histories_okD[OF assms(1), of g' k'] assms(2) new other[of g' k']
      by (cases "(g', k') = (g, k)")
        (auto simp: cursors_put_cursor same merged chart_plays_add simp del: history_ok.simps)
  qed
qed

lemma histories_correct:
  assumes "histories_ok db" and "of_chart g k p" and "0 \<le> g"
    and "map_of (t_cursors db) (g, k) = Some (pl_playcount (r_play p), h)"
  shows "histories_ok (put_cursor g k (pl_playcount (r_play p)) (pl_payload_hash (r_play p)) (snd (insert_play True p db)))"
proof -
  have old: "history_ok (Some (pl_playcount (r_play p), h)) (chart_plays db g k)"
    using histories_okD[OF assms(1,3), of k] assms(4) by simp
  note new = history_correct[OF old assms(2) refl]
  have merged: "merge_cursor (map_of (t_cursors db) (g, k)) (pl_playcount (r_play p), h') = (pl_playcount (r_play p), h')" for h'
    by (simp add: assms(4))
  show ?thesis unfolding histories_ok_def
  proof (intro allI impI)
    fix g' :: int and k' :: chart_key
    assume "0 \<le> g'"
    then show "history_ok (map_of (t_cursors (put_cursor g k (pl_playcount (r_play p))
        (pl_payload_hash (r_play p)) (snd (insert_play True p db)))) (g', k'))
        (chart_plays (put_cursor g k (pl_playcount (r_play p)) (pl_payload_hash (r_play p)) (snd (insert_play True p db))) g' k')"
      using histories_okD[OF assms(1), of g' k'] new chart_plays_correct_other[OF assms(2), of g' k' db]
      by (cases "(g', k') = (g, k)")
        (auto simp: cursors_put_cursor merged simp del: history_ok.simps)
  qed
qed

subsection \<open>One row\<close>

definition row_new :: "(chart_key \<times> cursor) list \<Rightarrow> chart_key \<Rightarrow> int \<Rightarrow> bool" where
  "row_new cursors k m = (case map_of cursors k of None \<Rightarrow> True | Some (c, h) \<Rightarrow> c < m)"

definition row_lost :: "(chart_key \<times> cursor) list \<Rightarrow> chart_key \<Rightarrow> int \<Rightarrow> int" where
  "row_lost cursors k m = (case map_of cursors k of None \<Rightarrow> 0 | Some (c, h) \<Rightarrow> max 0 (m - c - 1))"

text \<open>The three outcomes of a row: a new play, a corrected one, or nothing.\<close>

lemma derived_of_chart:
  assumes "derive_play rt r source g agg lost now = Inr p" and "row_key rt r = Inr k" and "int_item r ''playcount'' = Inr m"
  shows "of_chart g k p" and "pl_playcount (r_play p) = m" and "pl_payload_hash (r_play p) = payload_hash rt r"
    and "0 \<le> lost \<Longrightarrow> pl_lost_events (r_play p) = lost" and "pl_selected_gauge_kind (r_play p) = None"
  using derive_play_fields[OF assms(1)] assms(2,3)
  by (auto simp: of_chart_def row_key_def py_bind_Inr_iff)

lemma scan_row_step:
  assumes step: "scan_row rt cursors g agg now (n, l, db) r = Inr (n', l', db')"
    and key: "row_key rt r = Inr k" and m: "int_item r ''playcount'' = Inr m"
    and inv: "histories_ok db" "store_ok db" "0 \<le> g"
    and same: "map_of (t_cursors db) (g, k) = map_of cursors k"
    and forward: "\<And>c h. map_of cursors k = Some (c, h) \<Longrightarrow> c \<le> m"
  shows "histories_ok db' \<and> store_ok db' \<and>
    map_of (t_cursors db') = (map_of (t_cursors db))((g, k) \<mapsto> (m, payload_hash rt r)) \<and>
    t_collector db' = t_collector db \<and>
    n' = n + of_bool (row_new cursors k m) \<and> l' = l + row_lost cursors k m \<and>
    length (t_plays db') = length (t_plays db) + of_bool (row_new cursors k m)"
proof -
  let ?h = "payload_hash rt r"
  consider (new) "map_of cursors k = None" | (next_play) c h where "map_of cursors k = Some (c, h)" "c < m"
    | (changed) c h where "map_of cursors k = Some (c, h)" "c = m" "?h \<noteq> h"
    | (same) "map_of cursors k = Some (m, ?h)"
  proof (cases "map_of cursors k")
    case (Some ch)
    obtain c h where ch: "ch = (c, h)" by fastforce
    then have "c < m \<or> c = m" using forward Some by force
    then show ?thesis using that(2-4) Some ch by blast
  qed (use that(1) in blast)
  then show ?thesis
  proof cases
    case new
    then obtain p where p: "derive_play rt r ''collector'' g (map_of agg k) 0 now = Inr p"
      and out: "Inr (n', l', db') = (let (created, db1) = insert_play False p db
           in Inr (if created then n + 1 else n, l, put_cursor g k m ?h db1) :: score_progress py)"
      using step by (auto simp: scan_row_def key m Let_def py_bind_Inr_iff)
    note of = derived_of_chart[OF p key m]
    have "insert_play False p db = (True, add_play p db)" "histories_ok (put_cursor g k m ?h (add_play p db))"
      using histories_insert[OF inv(1) of(1) inv(3)] new same of by simp_all
    moreover from this have "store_ok (put_cursor g k m ?h (add_play p db))"
      using store_ok_insert[OF inv(2), of False p] by (auto simp: put_cursor_def)
    moreover have "map_of (t_cursors (put_cursor g k m ?h (add_play p db))) = (map_of (t_cursors db))((g, k) \<mapsto> (m, ?h))"
      using new same by (simp add: cursors_put_cursor add_play_def)
    ultimately show ?thesis using out new by (auto simp: add_play_def row_new_def row_lost_def)
  next
    case (next_play c h)
    then obtain p where p: "derive_play rt r ''collector'' g (map_of agg k) (m - c - 1) now = Inr p"
      and out: "Inr (n', l', db') = (let (created, db1) = insert_play False p db
           in Inr (if created then n + 1 else n, if created then l + (m - c - 1) else l,
               put_cursor g k m ?h db1) :: score_progress py)"
      using step by (auto simp: scan_row_def key m Let_def py_bind_Inr_iff)
    note of = derived_of_chart[OF p key m]
    have "insert_play False p db = (True, add_play p db)" "histories_ok (put_cursor g k m ?h (add_play p db))"
      using histories_insert[OF inv(1) of(1) inv(3)] next_play same of by simp_all
    moreover from this have "store_ok (put_cursor g k m ?h (add_play p db))"
      using store_ok_insert[OF inv(2), of False p] by (auto simp: put_cursor_def)
    moreover have "map_of (t_cursors (put_cursor g k m ?h (add_play p db))) = (map_of (t_cursors db))((g, k) \<mapsto> (m, ?h))"
      using next_play same by (simp add: cursors_put_cursor add_play_def)
    ultimately show ?thesis using out next_play by (auto simp: add_play_def row_new_def row_lost_def)
  next
    case (changed c h)
    then obtain p where p: "derive_play rt r ''collector'' g (map_of agg k) 0 now = Inr p"
      and out: "n' = n" "l' = l" "db' = put_cursor g k m ?h (snd (insert_play True p db))"
      using step by (auto simp: scan_row_def key m Let_def py_bind_Inr_iff)
    note of = derived_of_chart[OF p key m]
    have cursor: "map_of (t_cursors db) (g, k) = Some (pl_playcount (r_play p), h)"
      using changed same of by simp
    then obtain x where found: "find_play (play_key p) (t_plays db) = Some x"
      using histories_okD[OF inv(1,3), of k] history_correct(1)[OF _ of(1) refl, of h db] by (auto simp del: history_ok.simps)
    have "histories_ok db'"
      using histories_correct[OF inv(1) of(1) inv(3) cursor] of by (simp add: out)
    moreover have "store_ok db'" using inv(2) by (auto simp: out put_cursor_def)
    moreover have "length (t_plays db') = length (t_plays db)" "t_collector db' = t_collector db"
      using found by (simp_all add: out put_cursor_def upsert_cursor_def insert_play_def)
    ultimately show ?thesis using out changed same by (simp add: cursors_put_cursor row_new_def row_lost_def)
  next
    case same
    then show ?thesis using step inv \<open>map_of (t_cursors db) (g, k) = map_of cursors k\<close>
      by (auto simp: scan_row_def key m Let_def row_new_def row_lost_def)
  qed
qed

subsection \<open>All rows\<close>

lemma map_of_load_cursors: "map_of (load_cursors db g) k = map_of (t_cursors db) (g, k)"
proof -
  have "map_of (map (\<lambda>((g', sha, mode), c). ((sha, mode), c)) (filter (\<lambda>((g', sha, mode), c). g' = g) cs)) k =
      map_of cs (g, k)" for cs :: "(cursor_key \<times> cursor) list"
    by (induction cs) (auto split: prod.splits)
  then show ?thesis by (simp add: load_cursors_def)
qed

definition mirrored :: "runtime \<Rightarrow> int \<Rightarrow> assistant_db \<Rightarrow> row \<Rightarrow> bool" where
  "mirrored rt g db r \<longleftrightarrow>
     (\<exists>k m. row_key rt r = Inr k \<and> int_item r ''playcount'' = Inr m \<and>
        map_of (t_cursors db) (g, k) = Some (m, payload_hash rt r))"

lemma mirrored_cursor:
  "mirrored rt g db r \<Longrightarrow> row_key rt r = Inr k \<Longrightarrow> map_of (t_cursors db) (g, k) \<noteq> None"
  unfolding mirrored_def by (metis option.distinct(1) sum.inject(2))

definition forward_rows :: "runtime \<Rightarrow> (chart_key \<times> cursor) list \<Rightarrow> row list \<Rightarrow> bool" where
  "forward_rows rt cursors rows \<longleftrightarrow>
     (\<forall>r\<in>set rows. \<forall>k m c h. row_key rt r = Inr k \<longrightarrow> int_item r ''playcount'' = Inr m \<longrightarrow>
        map_of cursors k = Some (c, h) \<longrightarrow> c \<le> m)"

definition key_count :: "runtime \<Rightarrow> row \<Rightarrow> chart_key \<times> int" where
  "key_count rt r = (case (row_key rt r, int_item r ''playcount'') of
     (Inr k, Inr m) \<Rightarrow> (k, m) | _ \<Rightarrow> (([], 0), 0))"

lemma scan_row_keys:
  "scan_row rt cursors g agg now s r = Inr s' \<Longrightarrow> \<exists>k m. row_key rt r = Inr k \<and> int_item r ''playcount'' = Inr m"
  by (cases s) (auto simp: scan_row_def py_bind_Inr_iff)

lemma scan_rows_ok:
  assumes "py_for (scan_row rt cursors g agg now) (n, l, db) rows = Inr (n', l', db')"
    and "py_mapM (row_key rt) rows = Inr ks" and "distinct ks"
    and "histories_ok db" "store_ok db" "0 \<le> g"
    and "\<forall>k\<in>set ks. map_of (t_cursors db) (g, k) = map_of cursors k"
    and "forward_rows rt cursors rows"
  shows "histories_ok db' \<and> store_ok db' \<and> t_collector db' = t_collector db \<and>
    (\<forall>r\<in>set rows. mirrored rt g db' r) \<and>
    (\<forall>g' k. (g', k) \<notin> Pair g ` set ks \<longrightarrow> map_of (t_cursors db') (g', k) = map_of (t_cursors db) (g', k)) \<and>
    n' = n + length (filter (\<lambda>r. case key_count rt r of (k, m) \<Rightarrow> row_new cursors k m) rows) \<and>
    l' = l + sum_list (map (\<lambda>r. case key_count rt r of (k, m) \<Rightarrow> row_lost cursors k m) rows) \<and>
    length (t_plays db') = length (t_plays db) + (n' - n)"
  using assms
proof (induction rows arbitrary: n l db ks)
  case Nil
  then show ?case by simp
next
  case (Cons r rows)
  obtain n1 l1 db1 where first: "scan_row rt cursors g agg now (n, l, db) r = Inr (n1, l1, db1)"
    and rest: "py_for (scan_row rt cursors g agg now) (n1, l1, db1) rows = Inr (n', l', db')"
    using Cons.prems(1) by (auto simp: py_bind_Inr_iff)
  obtain k ks' where k: "row_key rt r = Inr k" and ks': "py_mapM (row_key rt) rows = Inr ks'"
    and ks: "ks = k # ks'"
    using Cons.prems(2) by (auto simp: py_bind_Inr_iff)
  obtain m where m: "int_item r ''playcount'' = Inr m" using scan_row_keys[OF first] by blast
  have "map_of (t_cursors db) (g, k) = map_of cursors k" using Cons.prems(7) by (simp add: ks)
  moreover have "c \<le> m" if "map_of cursors k = Some (c, h)" for c h
    using Cons.prems(8) k m that unfolding forward_rows_def by (meson list.set_intros(1))
  ultimately have step: "histories_ok db1" "store_ok db1"
      "map_of (t_cursors db1) = (map_of (t_cursors db))((g, k) \<mapsto> (m, payload_hash rt r))"
      "t_collector db1 = t_collector db" "n1 = n + of_bool (row_new cursors k m)"
      "l1 = l + row_lost cursors k m" "length (t_plays db1) = length (t_plays db) + of_bool (row_new cursors k m)"
    using scan_row_step[OF first k m Cons.prems(4-6)] by blast+
  have kc: "key_count rt r = (k, m)" by (simp add: key_count_def k m)
  have later: "\<forall>j\<in>set ks'. map_of (t_cursors db1) (g, j) = map_of cursors j"
    using Cons.prems(3,7) by (auto simp: step(3) ks)
  have fwd: "forward_rows rt cursors rows" using Cons.prems(8) by (auto simp: forward_rows_def)
  have IH: "histories_ok db'" "store_ok db'" "t_collector db' = t_collector db1"
      "\<forall>r\<in>set rows. mirrored rt g db' r"
      "\<forall>g' j. (g', j) \<notin> Pair g ` set ks' \<longrightarrow> map_of (t_cursors db') (g', j) = map_of (t_cursors db1) (g', j)"
      "n' = n1 + length (filter (\<lambda>r. case key_count rt r of (k, m) \<Rightarrow> row_new cursors k m) rows)"
      "l' = l1 + sum_list (map (\<lambda>r. case key_count rt r of (k, m) \<Rightarrow> row_lost cursors k m) rows)"
      "length (t_plays db') = length (t_plays db1) + (n' - n1)"
    using Cons.IH[OF rest ks' _ step(1,2) Cons.prems(6) later fwd] Cons.prems(3) by (simp_all add: ks)
  have "map_of (t_cursors db') (g, k) = Some (m, payload_hash rt r)"
    using spec[OF spec[OF IH(5), of g], of k] Cons.prems(3) by (auto simp: ks step(3))
  then have "mirrored rt g db' r" using k m by (auto simp: mirrored_def)
  moreover have "map_of (t_cursors db') (g', j) = map_of (t_cursors db) (g', j)"
    if "(g', j) \<notin> Pair g ` set ks" for g' j
    using spec[OF spec[OF IH(5), of g'], of j] that by (auto simp: ks step(3))
  ultimately show ?case using IH(1-4,6-8) step(4-7) by (simp add: kc)
qed

subsection \<open>The whole scan\<close>

lemma any_rolled_back_False:
  "any_rolled_back rt cursors rows = Inr False \<Longrightarrow> forward_rows rt cursors rows"
proof (induction rows)
  case Nil
  then show ?case by (simp add: forward_rows_def)
next
  case (Cons r rows)
  then have first: "row_rolled_back rt cursors r = Inr False" and rest: "forward_rows rt cursors rows"
    by (auto simp: py_bind_Inr_iff split: if_splits)
  have "c \<le> m" if "row_key rt r = Inr k" "int_item r ''playcount'' = Inr m" "map_of cursors k = Some (c, h)" for k m c h
    using first that by (auto simp: row_rolled_back_def not_less)
  then show ?case using rest unfolding forward_rows_def by (metis set_ConsD)
qed

lemma any_rolled_back_True:
  "any_rolled_back rt cursors rows = Inr b \<Longrightarrow>
     b \<longleftrightarrow> (\<exists>r\<in>set rows. row_rolled_back rt cursors r = Inr True)"
  by (induction rows) (auto simp: py_bind_Inr_iff split: if_splits)

lemma generation_put:
  "collector_generation (upsert_collector_state ''scoredatalog'' r db) = cs_source_generation r"
  by (simp add: collector_generation_def collector_table.lookup_upsert)

lemma collector_put_frame [simp]:
  "t_cursors (upsert_collector_state key r db) = t_cursors db"
  "t_plays (upsert_collector_state key r db) = t_plays db"
  "chart_plays (upsert_collector_state key r db) g k = chart_plays db g k"
  "histories_ok (upsert_collector_state key r db) = histories_ok db"
  "mirrored rt g (upsert_collector_state key r db) row = mirrored rt g db row"
  by (simp_all add: upsert_collector_state_def chart_plays_def histories_ok_def mirrored_def)

lemma scan_score_shape:
  assumes "scan_score rt sig0 now (rows, agg, sig) db = Inr (res, db')" and "py_mapM (row_key rt) rows = Inr ks"
  obtains rollback changed g cursors n l db1 where
    "any_rolled_back rt (load_cursors db (collector_generation db)) rows = Inr rollback"
    "changed = (replaced sig0 sig (load_cursors db (collector_generation db)) ks \<or> rollback)"
    "g = collector_generation db + of_bool changed"
    "cursors = (if changed then [] else load_cursors db (collector_generation db))"
    "py_for (scan_row rt cursors g agg now) (0, 0, db) rows = Inr (n, l, db1)"
    "res = tick_counts n l changed True"
    "db' = upsert_collector_state ''scoredatalog''
       \<lparr>cs_source_generation = g, cs_last_mtime = last_mtime sig, cs_last_size = Some (total_size sig),
        cs_last_run_at = Some now, cs_last_error = None\<rparr> db1"
proof -
  let ?old = "load_cursors db (collector_generation db)"
  obtain rollback n l db1 where parts:
    "any_rolled_back rt ?old rows = Inr rollback"
    "py_for (scan_row rt (if replaced sig0 sig ?old ks \<or> rollback then [] else ?old)
        (if replaced sig0 sig ?old ks \<or> rollback then collector_generation db + 1 else collector_generation db)
        agg now) (0, 0, db) rows = Inr (n, l, db1)"
    "res = tick_counts n l (replaced sig0 sig ?old ks \<or> rollback) True"
    "db' = upsert_collector_state ''scoredatalog''
       \<lparr>cs_source_generation = (if replaced sig0 sig ?old ks \<or> rollback then collector_generation db + 1
            else collector_generation db), cs_last_mtime = last_mtime sig,
        cs_last_size = Some (total_size sig), cs_last_run_at = Some now, cs_last_error = None\<rparr> db1"
    using assms by (auto simp: scan_score_def Let_def py_bind_Inr_iff)
  have g: "(if replaced sig0 sig ?old ks \<or> rollback then collector_generation db + 1 else collector_generation db) =
    collector_generation db + of_bool (replaced sig0 sig ?old ks \<or> rollback)" by simp
  show ?thesis using that[OF parts(1) refl refl refl] parts(2-4) unfolding g by blast
qed

lemma scan_score_ok:
  assumes scan: "scan_score rt sig0 now (rows, agg, sig) db = Inr (res, db')"
    and keys: "py_mapM (row_key rt) rows = Inr ks" "distinct ks" and inv: "poller_inv db"
  shows "poller_inv db' \<and>
    collector_generation db' = collector_generation db + of_bool (tr_generation_changed res) \<and>
    (\<forall>r\<in>set rows. mirrored rt (collector_generation db') db' r) \<and>
    (\<forall>k. map_of (t_cursors db') (collector_generation db', k) \<noteq> None \<longleftrightarrow> k \<in> set ks) \<and>
    length (t_plays db') = length (t_plays db) + tr_new_plays res"
proof -
  obtain rollback changed g cursors n l db1 where s:
    "any_rolled_back rt (load_cursors db (collector_generation db)) rows = Inr rollback"
    "changed = (replaced sig0 sig (load_cursors db (collector_generation db)) ks \<or> rollback)"
    "g = collector_generation db + of_bool changed"
    "cursors = (if changed then [] else load_cursors db (collector_generation db))"
    "py_for (scan_row rt cursors g agg now) (0, 0, db) rows = Inr (n, l, db1)"
    "res = tick_counts n l changed True"
    "db' = upsert_collector_state ''scoredatalog''
       \<lparr>cs_source_generation = g, cs_last_mtime = last_mtime sig, cs_last_size = Some (total_size sig),
        cs_last_run_at = Some now, cs_last_error = None\<rparr> db1"
    by (rule scan_score_shape[OF scan keys(1)])
  have gen: "0 \<le> collector_generation db" "\<And>g k. map_of (t_cursors db) (g, k) \<noteq> None \<Longrightarrow> g \<le> collector_generation db"
    using inv unfolding poller_inv_def generations_ok_def by blast+
  have g: "0 \<le> g" using gen(1) s(3) by simp
  have start: "map_of (t_cursors db) (g, k) = map_of cursors k" for k
    using gen(2)[of g k] s(3,4)
    by (cases changed; cases "map_of (t_cursors db) (g, k)") (auto simp: map_of_load_cursors)
  have forward: "forward_rows rt cursors rows"
    using any_rolled_back_False s(1,2,4) by (cases changed) (auto simp: forward_rows_def)
  have ok: "histories_ok db" "store_ok db" using inv unfolding poller_inv_def by blast+
  have start': "\<forall>k\<in>set ks. map_of (t_cursors db) (g, k) = map_of cursors k" using start by blast
  note loop = scan_rows_ok[OF s(5) keys ok g start' forward]
  have all: "histories_ok db1" "store_ok db1" "t_collector db1 = t_collector db"
      "\<forall>r\<in>set rows. mirrored rt g db1 r"
      "\<forall>g' k. (g', k) \<notin> Pair g ` set ks \<longrightarrow> map_of (t_cursors db1) (g', k) = map_of (t_cursors db) (g', k)"
      "length (t_plays db1) = length (t_plays db) + (n - 0)"
    using loop by blast+
  have other: "map_of (t_cursors db1) (g', k) = map_of (t_cursors db) (g', k)" if "g' \<noteq> g \<or> k \<notin> set ks" for g' k
    using spec[OF spec[OF all(5), of g'], of k] that by auto
  have present: "map_of (t_cursors db1) (g, k) \<noteq> None" if "k \<in> set ks" for k
  proof -
    obtain r where r: "r \<in> set rows" "row_key rt r = Inr k"
      using py_mapM_set[OF keys(1), of k] \<open>k \<in> set ks\<close> by (elim iffD1[THEN bexE]) simp_all
    then have "mirrored rt g db1 r" using all(4) by simp
    then show ?thesis using r(2) by (rule mirrored_cursor)
  qed
  have absent: "map_of (t_cursors db1) (g, k) = None" if "k \<notin> set ks" for k
  proof -
    have "map_of cursors k = None"
      using that s(2,4) by (cases changed) (auto simp: replaced_def map_of_eq_None_iff)
    then show ?thesis using other[of g k] that start by simp
  qed
  have "collector_generation db \<le> g" using s(3) by simp
  then have "g' \<le> g" if "map_of (t_cursors db1) (g', k) \<noteq> None" for g' k
    using gen(2)[of g' k] other[of g' k] that by (cases "g' = g") auto
  then have "generations_ok db'" using g by (simp add: generations_ok_def s(7) generation_put del: not_None_eq)
  then have inv': "poller_inv db'" using all(1,2) by (auto simp: poller_inv_def s(7))
  have now: "collector_generation db' = g" by (simp add: s(7) generation_put)
  have cursors': "t_cursors db' = t_cursors db1" "t_plays db' = t_plays db1" by (simp_all add: s(7))
  have "\<forall>r\<in>set rows. mirrored rt g db' r" using all(4) by (simp add: s(7))
  moreover have "(map_of (t_cursors db') (g, k) \<noteq> None) = (k \<in> set ks)" for k
    using present[of k] absent[of k] unfolding cursors' by (cases "k \<in> set ks") simp_all
  moreover have "tr_generation_changed res = changed" "tr_new_plays res = n" by (simp_all add: s(6) tick_counts_def)
  ultimately show ?thesis using inv' all(6) s(3) unfolding now cursors' by (simp del: not_None_eq)
qed

text \<open>Rows the cursors already mirror change nothing.\<close>

lemma scan_row_settled:
  assumes "row_key rt r = Inr k" "int_item r ''playcount'' = Inr m" "map_of cursors k = Some (m, payload_hash rt r)"
  shows "scan_row rt cursors g agg now s r = Inr s"
  using assms by (cases s) (simp add: scan_row_def Let_def)

lemma scan_rows_settled:
  assumes "\<And>r. r \<in> set rows \<Longrightarrow> scan_row rt cursors g agg now s r = Inr s"
  shows "py_for (scan_row rt cursors g agg now) s rows = Inr s"
  using assms by (induction rows) auto

lemma row_rolled_back_settled:
  assumes "row_key rt r = Inr k" "int_item r ''playcount'' = Inr m" "map_of cursors k = Some (m, h)"
  shows "row_rolled_back rt cursors r = Inr False"
  using assms by (simp add: row_rolled_back_def)

lemma any_rolled_back_settled:
  "(\<And>r. r \<in> set rows \<Longrightarrow> row_rolled_back rt cursors r = Inr False) \<Longrightarrow> any_rolled_back rt cursors rows = Inr False"
  by (induction rows) auto

lemma scan_mirrored:
  assumes mirror: "\<forall>r\<in>set rows. mirrored rt (collector_generation db) db r"
    and exact: "\<forall>k. map_of (t_cursors db) (collector_generation db, k) \<noteq> None \<longrightarrow> k \<in> set ks"
    and keys: "py_mapM (row_key rt) rows = Inr ks"
    and sig0: "\<forall>s. sig0 = Some s \<longrightarrow> main_identity s = main_identity sig"
  shows "scan_score rt sig0 now (rows, agg, sig) db =
    Inr (tick_counts 0 0 False True, upsert_collector_state ''scoredatalog''
      \<lparr>cs_source_generation = collector_generation db, cs_last_mtime = last_mtime sig,
       cs_last_size = Some (total_size sig), cs_last_run_at = Some now, cs_last_error = None\<rparr> db)"
proof -
  let ?g = "collector_generation db" and ?cs = "load_cursors db (collector_generation db)"
  have row: "scan_row rt ?cs ?g agg now s r = Inr s \<and> row_rolled_back rt ?cs r = Inr False"
    if "r \<in> set rows" for r s
  proof -
    have "mirrored rt ?g db r" using mirror that by simp
    then obtain k m where k: "row_key rt r = Inr k" "int_item r ''playcount'' = Inr m"
        "map_of (t_cursors db) (?g, k) = Some (m, payload_hash rt r)"
      unfolding mirrored_def by (elim exE conjE)
    then have "map_of ?cs k = Some (m, payload_hash rt r)" by (simp add: map_of_load_cursors)
    then show ?thesis using scan_row_settled row_rolled_back_settled k by blast
  qed
  have none_back: "any_rolled_back rt ?cs rows = Inr False"
    by (rule any_rolled_back_settled) (use row in blast)
  have loop: "py_for (scan_row rt ?cs ?g agg now) (0, 0, db) rows = Inr (0, 0, db)"
    by (rule scan_rows_settled) (use row in blast)
  have "k \<in> set ks" if "k \<in> fst ` set ?cs" for k
  proof -
    have "map_of ?cs k \<noteq> None" using that by (simp add: map_of_eq_None_iff del: not_None_eq)
    then show ?thesis using spec[OF exact, of k] by (simp add: map_of_load_cursors)
  qed
  then have rep: "\<not> replaced sig0 sig ?cs ks" using sig0 by (auto simp: replaced_def split: option.splits)
  show ?thesis by (simp add: scan_score_def Let_def keys(1) none_back rep loop)
qed

end
