(* ===== verification/Poller_Runs.thy ===== *)
theory Poller_Runs
  imports Poller_Proofs
begin

text \<open>
  The properties of the collector: what one scan records, that repeating it records nothing, what a failed
  tick leaves behind, which read is accepted, and the history every run of the daemon
  keeps.
\<close>

subsection \<open>Replays leave the history alone\<close>

definition history_view :: "assistant_db \<Rightarrow> (int \<times> play_record) list" where
  "history_view db = map (\<lambda>(i, p). (i, set_gauge None p)) (t_plays db)"

lemma set_gauge_frame [simp]:
  "of_chart g k (set_gauge v p) = of_chart g k p"
  "set_gauge v (set_gauge w p) = set_gauge v p"
  "pl_playcount (r_play (set_gauge v p)) = pl_playcount (r_play p)"
  "pl_lost_events (r_play (set_gauge v p)) = pl_lost_events (r_play p)"
  "pl_payload_hash (r_play (set_gauge v p)) = pl_payload_hash (r_play p)"
  by (simp_all add: set_gauge_def of_chart_def)

definition history_facts :: "play \<Rightarrow> int \<times> int \<times> string" where
  "history_facts p = (pl_playcount p, pl_lost_events p, pl_payload_hash p)"

lemma history_facts_view:
  "map history_facts (chart_plays db g k) =
     map (history_facts \<circ> r_play) (filter (of_chart g k) (map snd (history_view db)))"
proof -
  have "map (history_facts \<circ> r_play) (filter (of_chart g k) (map snd ps)) =
      map (history_facts \<circ> r_play) (filter (of_chart g k) (map (snd \<circ> (\<lambda>(i, p). (i, set_gauge None p))) ps))"
    for ps :: "(int \<times> play_record) list"
    by (induction ps) (auto simp: history_facts_def)
  then show ?thesis unfolding chart_plays_def history_view_def by simp
qed

lemma history_ok_facts:
  assumes "map history_facts ps = map history_facts qs"
  shows "history_ok c ps = history_ok c qs"
proof -
  have len: "length ps = length qs" using assms by (metis length_map)
  have "map pl_playcount ps = map pl_playcount qs" "map pl_lost_events ps = map pl_lost_events qs"
    using arg_cong[OF assms, of "map fst"] arg_cong[OF assms, of "map (fst \<circ> snd)"]
    by (simp_all add: comp_def history_facts_def)
  then have "chained ps = chained qs" by (rule chained_cong)
  moreover have "history_facts (last ps) = history_facts (last qs)" if "ps \<noteq> []"
    using that arg_cong[OF assms, of last] len by (cases "qs = []") (simp_all add: last_map)
  ultimately show ?thesis using len
    by (cases c rule: option.exhaust; cases "ps = []") (auto simp: history_facts_def)
qed

text \<open>An operation that only touches gauges, replays, scan states and other rows of the collector state.\<close>

definition same_history :: "assistant_db \<Rightarrow> assistant_db \<Rightarrow> bool" where
  "same_history db db' \<longleftrightarrow> history_view db' = history_view db \<and> t_cursors db' = t_cursors db \<and>
     collector_generation db' = collector_generation db \<and> t_charts db' = t_charts db"

lemma same_history_refl [simp]: "same_history db db"
  by (simp add: same_history_def)

lemma same_history_trans: "same_history a b \<Longrightarrow> same_history b c \<Longrightarrow> same_history a c"
  by (simp add: same_history_def)

lemma same_history_inv:
  assumes "same_history db db'" and "store_ok db'" and "poller_inv db"
  shows "poller_inv db'"
proof -
  have same: "t_cursors db' = t_cursors db" "collector_generation db' = collector_generation db"
      "history_view db' = history_view db" using assms(1) by (simp_all add: same_history_def)
  have old: "histories_ok db" "generations_ok db" using assms(3) by (simp_all add: poller_inv_def)
  have "history_ok (map_of (t_cursors db') (g, k)) (chart_plays db' g k)" if "0 \<le> g" for g k
  proof -
    have eq: "map history_facts (chart_plays db' g k) = map history_facts (chart_plays db g k)"
      by (simp add: history_facts_view same(3))
    show ?thesis unfolding history_ok_facts[OF eq] same(1) by (rule histories_okD[OF old(1) that])
  qed
  then have "histories_ok db'" unfolding histories_ok_def by blast
  moreover have "generations_ok db'" using old(2) unfolding generations_ok_def same .
  ultimately show ?thesis using assms(2) by (simp add: poller_inv_def)
qed

lemma same_history_refresh: "same_history db (refresh_play_gauge i db)"
proof -
  have "map (\<lambda>(i, p). (i, set_gauge None p)) (map (\<lambda>(j, p). (j, if j = i then set_gauge v p else p)) ps) =
      map (\<lambda>(i, p). (i, set_gauge None p)) ps" for v and ps :: "(int \<times> play_record) list"
    by auto
  then show ?thesis
    by (simp add: same_history_def history_view_def refresh_play_gauge_def collector_generation_def del: map_map)
qed

lemma same_history_set_match: "same_history db (set_match i s p db)"
  by (simp add: same_history_def history_view_def collector_generation_def)

lemma same_history_rows: "same_history db (db\<lparr>t_replays := rs, t_next_replay := n\<rparr>)"
  by (simp add: same_history_def history_view_def collector_generation_def)

lemma same_history_reconcile: "same_history db (snd (reconcile_replay r ms db))"
proof -
  have "same_history db (refresh_play_gauge i (set_match j s p db))"
    "same_history db (refresh_play_gauge i (refresh_play_gauge l (set_match j s p db)))" for i j l s p
    by (blast intro: same_history_trans same_history_set_match same_history_refresh)+
  then show ?thesis
    by (auto simp: reconcile_replay_def Let_def same_history_set_match split: list.splits option.splits)
qed

lemma same_history_ingest: "same_history db (snd (ingest_replay_metadata m t db))"
proof -
  have "same_history db (refresh_play_gauge i (db\<lparr>t_replays := rs, t_next_replay := n\<rparr>))" for i rs n
    by (blast intro: same_history_trans same_history_rows same_history_refresh)
  then have "same_history db (snd (record_replay m ms t db))" for ms
    by (auto simp: record_replay_def Let_def same_history_rows split: list.splits option.splits)
  then show ?thesis
    by (auto simp: ingest_replay_metadata_def same_history_reconcile split: option.splits)
qed

lemma same_history_scan:
  "same_history db (put_scan_state p r db)" "same_history db (delete_replay_scan_states ps db)"
  by (simp_all add: put_scan_state_def delete_replay_scan_states_def same_history_def history_view_def
      collector_generation_def)

lemma same_history_collector:
  "key \<noteq> ''scoredatalog'' \<Longrightarrow> same_history db (upsert_collector_state key r db)"
  by (simp add: same_history_def history_view_def collector_generation_def collector_table.lookup_upsert)
    (simp add: upsert_collector_state_def)

lemma ingest_all:
  assumes "store_ok db"
  shows "store_ok (snd (foldl (ingest_step now) (c, db) ms)) \<and>
    (gauges_ok db \<longrightarrow> gauges_ok (snd (foldl (ingest_step now) (c, db) ms))) \<and>
    same_history db (snd (foldl (ingest_step now) (c, db) ms))"
  using assms
proof (induction ms arbitrary: c db)
  case Nil
  then show ?case by simp
next
  case (Cons m ms)
  let ?db = "snd (ingest_replay_metadata m now db)" and ?c = "count_ingest (fst (ingest_replay_metadata m now db)) c"
  have step: "foldl (ingest_step now) (c, db) (m # ms) = foldl (ingest_step now) (?c, ?db) ms"
    by (simp add: ingest_step_def split_beta)
  show ?case unfolding step
    using Cons.IH[of ?db ?c] ingest_store_ok[OF Cons.prems] ingest_gauges_ok[OF Cons.prems, of m now]
      same_history_trans[OF same_history_ingest] by blast
qed

definition gauge_facts :: "assistant_db \<Rightarrow> (int \<times> play_record) list \<times> replay_row list" where
  "gauge_facts db = (t_plays db, t_replays db)"

lemma gauges_ok_facts: "gauge_facts db = gauge_facts db' \<Longrightarrow> gauges_ok db = gauges_ok db'"
  by (simp add: gauges_ok_def newest_gauge_def gauge_facts_def)

lemma gauge_facts_frame [simp]:
  "gauge_facts (put_scan_state p r db) = gauge_facts db"
  "gauge_facts (delete_replay_scan_states ps db) = gauge_facts db"
  "gauge_facts (upsert_collector_state key row db) = gauge_facts db"
  by (simp_all add: gauge_facts_def put_scan_state_def delete_replay_scan_states_def upsert_collector_state_def)

lemma scan_states_ok:
  assumes "upsert_replay_scan_states rt obs db = Inr db'" and "store_ok db"
  shows "store_ok db' \<and> same_history db db' \<and> gauge_facts db' = gauge_facts db"
proof -
  have "store_ok db' \<and> same_history db db' \<and> gauge_facts db' = gauge_facts db"
    using assms(1)[unfolded upsert_replay_scan_states_def]
  proof (rule py_for_invariant)
    show "store_ok db \<and> same_history db db \<and> gauge_facts db = gauge_facts db" using assms(2) by simp
  next
    fix s x s'
    assume inv: "store_ok s \<and> same_history db s \<and> gauge_facts s = gauge_facts db"
      and "(case x of (p, r) \<Rightarrow> py_bind (normalized_replay_scan_state rt r) (\<lambda>r'. Inr (put_scan_state p r' s))) = Inr s'"
    then obtain p r where s': "s' = put_scan_state p r s"
      by (cases x) (auto simp: py_bind_Inr_iff)
    show "store_ok s' \<and> same_history db s' \<and> gauge_facts s' = gauge_facts db"
      using inv by (auto simp: s' intro: same_history_trans same_history_scan)
  qed
  then show ?thesis .
qed

lemma store_report_ok:
  assumes "store_report rt now sig stale report db = Inr (c, db')" and "store_ok db"
  shows "store_ok db' \<and> (gauges_ok db \<longrightarrow> gauges_ok db') \<and> same_history db db'"
proof -
  let ?del = "delete_replay_scan_states stale db"
  obtain counts db1 where fold: "foldl (ingest_step now) ((0, 0, 0, 0), ?del) (rs_metadata report) = (counts, db1)"
    by fastforce
  obtain db2 where put: "upsert_replay_scan_states rt (scan_observations now sig report) db1 = Inr db2"
    and db': "db' = upsert_collector_state ''replay'' (replay_collector_row now sig report db2) db2"
    using assms(1) by (auto simp: store_report_def fold py_bind_Inr_iff)
  have "gauges_ok ?del = gauges_ok db" by (rule gauges_ok_facts) simp
  then have one: "store_ok db1" "gauges_ok db \<longrightarrow> gauges_ok db1" "same_history ?del db1"
    using ingest_all[of ?del now "(0, 0, 0, 0)" "rs_metadata report"] store_ok_delete[OF assms(2)]
    by (simp_all add: fold)
  have two: "store_ok db2" "same_history db1 db2" "gauge_facts db2 = gauge_facts db1"
    using scan_states_ok[OF put one(1)] by simp_all
  have "gauge_facts db' = gauge_facts db1" by (simp add: db' two(3))
  then have "gauges_ok db \<longrightarrow> gauges_ok db'" using gauges_ok_facts one(2) by blast
  moreover have "same_history db2 db'" unfolding db' by (rule same_history_collector) simp
  then have "same_history db db'"
    using same_history_scan(2)[of db stale] one(3) two(2) by (blast intro: same_history_trans)
  ultimately show ?thesis using two(1) by (auto simp: db')
qed

lemma collect_replays_ok:
  assumes "collect_replays rt env now force db = Inr (res, db')" and "store_ok db"
  shows "store_ok db' \<and> (gauges_ok db \<longrightarrow> gauges_ok db') \<and> same_history db db'"
proof -
  have "db' = db \<or> (\<exists>sig stale report c. store_report rt now sig stale report db = Inr (c, db'))"
    using assms(1) by (auto simp: collect_replays_def py_bind_Inr_iff Let_def split: if_splits)
  then show ?thesis using assms(2) store_report_ok by (elim disjE exE) auto
qed

subsection \<open>A tick keeps the invariant\<close>

text \<open>What the primary key \<open>(sha256, mode)\<close> of \<open>scoredatalog\<close>, which the reader insists on, gives.\<close>

definition unique_charts :: "runtime \<Rightarrow> row list \<Rightarrow> bool" where
  "unique_charts rt rows \<longleftrightarrow> (case py_mapM (row_key rt) rows of Inr ks \<Rightarrow> distinct ks | Inl e \<Rightarrow> True)"

definition unique_snapshots :: "runtime \<Rightarrow> poller_config \<Rightarrow> tick_env \<Rightarrow> bool" where
  "unique_snapshots rt cfg env \<longleftrightarrow>
     (\<forall>snap. read_consistent_snapshot rt cfg env = Inr snap \<longrightarrow> unique_charts rt (fst snap))"

lemma scan_score_keys:
  "scan_score rt sig0 now (rows, agg, sig) db = Inr (res, db') \<Longrightarrow> \<exists>ks. py_mapM (row_key rt) rows = Inr ks"
  by (auto simp: scan_score_def Let_def py_bind_Inr_iff)

lemma scan_score_unique:
  assumes "scan_score rt sig0 now (rows, agg, sig) db = Inr (res, db')" and "unique_charts rt rows"
  obtains ks where "py_mapM (row_key rt) rows = Inr ks" and "distinct ks"
  using scan_score_keys[OF assms(1)] assms(2) by (auto simp: unique_charts_def)

lemma record_error_inv: "poller_inv db \<Longrightarrow> poller_inv (record_error cfg env e sig db)"
  by (auto simp: poller_inv_def record_error_def generations_ok_def generation_put)

lemma collect_replays_inv:
  "collect_replays rt env now force db = Inr (res, db') \<Longrightarrow> poller_inv db \<Longrightarrow> poller_inv db'"
  using collect_replays_ok same_history_inv unfolding poller_inv_def by blast

lemma settle_replays_inv: "poller_inv (po_db p) \<Longrightarrow> poller_inv (po_db (snd (settle_replays rt env p)))"
  by (auto simp: settle_replays_def intro: collect_replays_inv split: sum.splits)

lemma tick_scan_inv:
  assumes "poller_inv (po_db p)" and "unique_snapshots rt cfg env"
  shows "poller_inv (po_db (snd (tick_scan rt cfg env force trigger p)))"
proof (cases "read_consistent_snapshot rt cfg env")
  case (Inl e)
  then show ?thesis using assms(1) by (simp add: tick_scan_def fail_tick_def record_error_inv)
next
  case (Inr snap)
  obtain rows agg sig where snap: "snap = (rows, agg, sig)" by (metis surj_pair)
  show ?thesis
  proof (cases "scan_score rt (po_last_signature p) (te_now env) snap (po_db p)")
    case (Inl e)
    then show ?thesis using Inr assms(1) by (simp add: tick_scan_def fail_tick_def record_error_inv)
  next
    case scan: (Inr out)
    obtain res db1 where out: "out = (res, db1)" by fastforce
    have "unique_charts rt rows" using assms(2) Inr snap by (force simp: unique_snapshots_def)
    then obtain ks where "py_mapM (row_key rt) rows = Inr ks" "distinct ks"
      using scan_score_unique scan unfolding snap out by blast
    from scan_score_ok[OF scan[unfolded snap out] this assms(1)] have "poller_inv db1" by blast
    then show ?thesis using Inr scan
      by (auto simp: tick_scan_def fail_tick_def out Let_def record_error_inv
          intro: collect_replays_inv split: sum.splits)
  qed
qed

lemma tick_inv:
  assumes "poller_inv (po_db p)" and "unique_snapshots rt cfg env"
  shows "poller_inv (po_db (snd (tick rt cfg env force p)))"
  using assms tick_scan_inv[OF assms]
  by (auto simp: tick_def fail_tick_def record_error_inv settle_replays_inv split: sum.splits)

lemma poller_inv_empty: "poller_inv empty_db"
  by (simp add: poller_inv_def histories_ok_def generations_ok_def chart_plays_def
      collector_generation_def) (simp add: empty_db_def)

subsection \<open>The daemon\<close>

text \<open>\<open>run_daemon\<close> survives operating-system, SQLite and unstable-source errors; any other exception ends it. A run is the
  sequence of its ticks.\<close>

fun survives :: "py_exn \<Rightarrow> bool" where
  "survives FileNotFoundError = True"
| "survives (OSError _) = True"
| "survives (SqliteError _) = True"
| "survives SourceChangedDuringRead = True"
| "survives _ = False"

inductive daemon_run :: "runtime \<Rightarrow> poller_config \<Rightarrow> poller \<Rightarrow> poller \<Rightarrow> bool"
  for rt :: runtime and cfg :: poller_config where
  start: "daemon_run rt cfg p p"
| ticked: "daemon_run rt cfg p q \<Longrightarrow> tick rt cfg env False q = (Inr res, q') \<Longrightarrow>
    unique_snapshots rt cfg env \<Longrightarrow> daemon_run rt cfg p q'"
| failed: "daemon_run rt cfg p q \<Longrightarrow> tick rt cfg env False q = (Inl e, q') \<Longrightarrow> survives e \<Longrightarrow>
    unique_snapshots rt cfg env \<Longrightarrow> daemon_run rt cfg p q'"

inductive_cases daemon_run_cases: "daemon_run rt cfg p q"

lemma daemon_run_inv: "daemon_run rt cfg p q \<Longrightarrow> poller_inv (po_db p) \<Longrightarrow> poller_inv (po_db q)"
  by (induction rule: daemon_run.induct) (metis tick_inv snd_conv)+

lemma daemon_run_trans: "daemon_run rt cfg q r \<Longrightarrow> daemon_run rt cfg p q \<Longrightarrow> daemon_run rt cfg p r"
  by (induction rule: daemon_run.induct) (auto intro: daemon_run.intros)

end
