(* ===== verification/Poller_Properties.thy ===== *)
theory Poller_Properties
  imports Poller_Runs
begin

text \<open>
  The properties of the collector, each on a concrete source where it has hypotheses: one chart with one row
  whose playcount is the argument.
\<close>

subsection \<open>A concrete source\<close>

definition sample_table :: "int \<Rightarrow> source_table" where
  "sample_table n = \<lparr>tb_columns = score_required, tb_key_positions = [(1, ''sha256''), (2, ''mode'')],
     tb_rows = [sample_row ''aa'' n]\<rparr>"

definition sample_copy :: "int \<Rightarrow> copy_reading" where
  "sample_copy n = \<lparr>cp_version_before = 1, cp_version_after = 1,
     cp_db = [(''scoredatalog'', sample_table n), (''score'', sample_table n)]\<rparr>"

definition sample_fs :: "int \<Rightarrow> string \<Rightarrow> stat py" where
  "sample_fs n p = Inr \<lparr>st_dev = 1, st_ino = 2, st_mtime_ns = n, st_size = 100\<rparr>"

definition sample_env :: "int \<Rightarrow> int \<Rightarrow> tick_env" where
  "sample_env n now = \<lparr>te_trigger = sample_fs n,
     te_attempt = (\<lambda>_. \<lparr>at_before = sample_fs n, at_bytes = (\<lambda>_. Inr ''x''), at_after = sample_fs n\<rparr>),
     te_open = (\<lambda>_. Inr (sample_copy n)), te_replay_stats = None, te_replay_dir = False,
     te_replay_read = (\<lambda>_. Inl FileNotFoundError), te_now = now, te_error_now = now\<rparr>"

definition sample_config :: poller_config where
  "sample_config = \<lparr>pc_scoredatalog = ''scoredatalog.db'', pc_score = ''score.db'', pc_max_retries = 3,
     pc_describe = (\<lambda>_. ''error'')\<rparr>"

definition sample_signature :: "int \<Rightarrow> source_sig" where
  "sample_signature n = map (\<lambda>p. present_signal p \<lparr>st_dev = 1, st_ino = 2, st_mtime_ns = n, st_size = 100\<rparr>)
     [''scoredatalog.db'', ''scoredatalog.db-wal'', ''scoredatalog.db-shm'', ''scoredatalog.db-journal'']"

definition sample_poller :: poller where
  "sample_poller = \<lparr>po_db = empty_db, po_last_signature = None\<rparr>"

lemma sample_source_signature: "source_signature (sample_fs n) ''scoredatalog.db'' = Inr (sample_signature n)"
  "\<exists>s. source_signature (sample_fs n) ''score.db'' = Inr s"
  by (simp_all add: source_signature_def file_signal_of_def sample_fs_def sample_signature_def)

lemma sample_columns: "py_mapM quoted_identifier score_required = Inr (map (\<lambda>s. CHR 0x22 # s @ [CHR 0x22]) score_required)"
proof -
  have "list_all is_identifier score_required" by code_simp
  then have "\<forall>s\<in>set score_required. is_identifier s" by (simp add: list_all_iff)
  then show ?thesis by (simp add: py_mapM_Inr_iff quoted_identifier_def)
qed

lemma sample_table_names:
  "quoted_identifier ''scoredatalog'' = Inr (CHR 0x22 # ''scoredatalog'' @ [CHR 0x22])"
  "quoted_identifier ''score'' = Inr (CHR 0x22 # ''score'' @ [CHR 0x22])"
  by code_simp+

lemma sample_reads:
  "read_scoredatalog (cp_db (sample_copy n)) = Inr [sample_row ''aa'' n]"
  "read_score (cp_db (sample_copy n)) = Inr [sample_row ''aa'' n]"
proof -
  have "sort [(1 :: int, ''sha256''), (2, ''mode'')] = [(1, ''sha256''), (2, ''mode'')]" by code_simp
  then show "read_scoredatalog (cp_db (sample_copy n)) = Inr [sample_row ''aa'' n]"
    "read_score (cp_db (sample_copy n)) = Inr [sample_row ''aa'' n]"
    by (simp_all add: read_scoredatalog_def read_score_def require_overwrite_scoredatalog_schema_def
        primary_key_columns_def select_rows_def table_column_names_def sample_table_names sample_columns
        table_of_def sample_copy_def sample_table_def require_columns_def missing_columns_def order_by_def
        del: sort_key_simps)
      (simp_all add: sort_key_simps)
qed

lemma sample_keys [simp]:
  "row_key rt (sample_row sha n) = Inr (sha, 0)"
  "int_item (sample_row sha n) ''playcount'' = Inr n"
  by (simp_all add: row_key_def sample_row_items)

definition sample_snapshot :: "int \<Rightarrow> snapshot" where
  "sample_snapshot n = ([sample_row ''aa'' n], [((''aa'', 0), sample_row ''aa'' n)], sample_signature n)"

lemma sample_snapshot_read:
  "read_consistent_snapshot sample_runtime sample_config (sample_env n now) = Inr (sample_snapshot n)"
proof -
  obtain s where "source_signature (sample_fs n) ''score.db'' = Inr s" using sample_source_signature(2) by blast
  then have "read_attempt sample_runtime sample_config (te_open (sample_env n now)) (te_attempt (sample_env n now) 0) =
      Inr (Some (sample_snapshot n))"
    by (simp add: read_attempt_def sample_config_def sample_env_def sample_source_signature(1)
        copy_live_database_def sample_reads aggregate_dict_def sample_snapshot_def)
      (simp add: sample_copy_def)
  then show ?thesis
    by (simp add: read_consistent_snapshot_def sample_config_def numeral_eq_Suc)
qed

lemma sample_unique: "unique_snapshots sample_runtime sample_config (sample_env n now)"
  by (simp add: unique_snapshots_def sample_snapshot_read unique_charts_def sample_snapshot_def)

lemma sample_derive:
  assumes "0 \<le> n" "- 3 \<le> g" "0 \<le> lost"
  shows "derive_play rt (sample_row ''aa'' n) ''collector'' g (Some (sample_row ''aa'' n)) lost now =
     Inr (as_record (sample_play rt ''aa'' n ''collector'' g lost now))"
  using assms
  by (simp add: derive_play_def normalize_play_def sample_row_items sample_row_optional sample_row_judged
      optional_int_def progress_values_def ratio_def check_play_def official_ir_generation_def
      credited_gauge_by_clear_def sample_play_def completes_def)

definition sample_recorded :: "int \<Rightarrow> int \<Rightarrow> assistant_db" where
  "sample_recorded n now = upsert_collector_state ''scoredatalog''
     \<lparr>cs_source_generation = 0, cs_last_mtime = last_mtime (sample_signature n),
      cs_last_size = Some (total_size (sample_signature n)), cs_last_run_at = Some now, cs_last_error = None\<rparr>
     (put_cursor 0 (''aa'', 0) n (payload_hash sample_runtime (sample_row ''aa'' n))
       (add_play (as_record (sample_play sample_runtime ''aa'' n ''collector'' 0 0 now)) empty_db))"

lemma sample_scan_score:
  assumes "0 \<le> n"
  shows "scan_score sample_runtime None now (sample_snapshot n) empty_db =
     Inr (tick_counts 1 0 False True, sample_recorded n now)"
proof -
  have none: "collector_generation empty_db = 0" "load_cursors empty_db 0 = []"
    by (simp_all add: collector_generation_def load_cursors_def empty_db_def)
  have "insert_play False p empty_db = (True, add_play p empty_db)" for p
    by (simp add: insert_play_def find_play_def) (simp add: empty_db_def)
  then show ?thesis using assms
    by (simp add: scan_score_def sample_snapshot_def none row_rolled_back_def replaced_def scan_row_def
        sample_derive Let_def sample_recorded_def)
qed

lemma sample_no_replays:
  "t_scans db = [] \<Longrightarrow> collect_replays rt (sample_env n now) t f db = Inr (tick_counts 0 0 False False, db)"
  by (simp add: collect_replays_def replay_signature_def sample_env_def select_slots_def stale_slots_def Let_def)

lemma sample_tick:
  assumes "0 \<le> n"
  shows "tick sample_runtime sample_config (sample_env n now) False sample_poller =
    (Inr (tick_counts 1 0 False True), \<lparr>po_db = sample_recorded n now, po_last_signature = Some (sample_signature n)\<rparr>)"
proof -
  have "t_scans (sample_recorded n now) = []"
    by (simp add: sample_recorded_def upsert_collector_state_def put_cursor_def upsert_cursor_def add_play_def empty_db_def)
  then have replays: "collect_replays rt (sample_env n now) t f (sample_recorded n now) =
      Inr (tick_counts 0 0 False False, sample_recorded n now)" for rt t f
    by (rule sample_no_replays)
  have env: "te_now (sample_env n now) = now" "te_trigger (sample_env n now) = sample_fs n"
      "pc_scoredatalog sample_config = ''scoredatalog.db''"
    by (simp_all add: sample_env_def sample_config_def)
  have "\<not> settled empty_db (sample_signature n)" by (simp add: settled_def empty_db_def)
  then show ?thesis
    by (simp add: tick_def env sample_source_signature(1) sample_poller_def tick_scan_def sample_snapshot_read
        sample_scan_score[OF assms] replays Let_def with_replays_def tick_counts_def)
      (simp add: sample_snapshot_def)
qed

lemma sample_run:
  "daemon_run sample_runtime sample_config sample_poller
     \<lparr>po_db = sample_recorded 1 50, po_last_signature = Some (sample_signature 1)\<rparr>"
  by (rule daemon_run.ticked[OF daemon_run.start sample_tick sample_unique]) simp

lemma sample_generation:
  "collector_generation (sample_recorded n now) = 0" "collector_generation empty_db = 0"
  by (simp_all add: sample_recorded_def generation_put) (simp add: collector_generation_def empty_db_def)

lemma sample_recorded_cursor:
  "map_of (t_cursors (sample_recorded n now)) (0, (''aa'', 0)) =
     Some (n, payload_hash sample_runtime (sample_row ''aa'' n))"
  by (simp add: sample_recorded_def cursors_put_cursor) (simp add: add_play_def empty_db_def)

subsection \<open>Histories\<close>

text \<open>C1: no play goes unaccounted. After any run of the daemon from an empty database, whatever ticks failed and whatever
  the source did, the plays recorded for a chart in a generation form a chain that
  ends at its cursor: the last play carries the playcount and payload hash of the cursor, and that
  playcount is the first recorded one plus, for every later play, one and its lost
  events.\<close>

theorem daemon_accounts_for_every_play:
  assumes "daemon_run rt cfg p q" and "po_db p = empty_db" and "0 \<le> g"
    and "map_of (t_cursors (po_db q)) (g, k) = Some (n, h)"
  shows "chart_plays (po_db q) g k \<noteq> [] \<and>
     pl_playcount (last (chart_plays (po_db q) g k)) = n \<and>
     pl_payload_hash (last (chart_plays (po_db q) g k)) = h \<and>
     n = pl_playcount (hd (chart_plays (po_db q) g k)) +
       sum_list (map (\<lambda>p. 1 + pl_lost_events p) (tl (chart_plays (po_db q) g k))) \<and>
     (\<forall>x\<in>set (chart_plays (po_db q) g k). pl_playcount x \<le> n)"
proof -
  have "poller_inv (po_db q)" using daemon_run_inv[OF assms(1)] poller_inv_empty assms(2) by simp
  then have "history_ok (map_of (t_cursors (po_db q)) (g, k)) (chart_plays (po_db q) g k)"
    using histories_okD[OF _ assms(3)] unfolding poller_inv_def by blast
  then have ok: "chart_plays (po_db q) g k \<noteq> []" "chained (chart_plays (po_db q) g k)"
      "pl_playcount (last (chart_plays (po_db q) g k)) = n" "pl_payload_hash (last (chart_plays (po_db q) g k)) = h"
    by (simp_all add: assms(4))
  then show ?thesis using chained_total[OF ok(2,1)] chained_le_last[OF ok(2)] by simp
qed

theorem daemon_accounts_for_every_play_witness:
  "pl_playcount (last (chart_plays (sample_recorded 1 50) 0 (''aa'', 0))) = 1"
  using daemon_accounts_for_every_play[OF sample_run, of 0 "(''aa'', 0)"] sample_recorded_cursor[of 1 50]
  by (simp add: sample_poller_def)

subsection \<open>One scan\<close>

text \<open>C2: a completed scan makes the cursors an exact mirror of the source. Every row has its playcount and payload
  hash under the current generation and no other chart has a cursor there; the number of plays
  grows by exactly the number reported; the generation grows by one exactly when the result says so; and the
  invariant of the store is kept.\<close>

theorem scan_mirrors_source:
  assumes "scan_score rt sig0 now (rows, agg, sig) db = Inr (res, db')"
    and "py_mapM (row_key rt) rows = Inr ks" and "distinct ks" and "poller_inv db"
  shows "poller_inv db' \<and>
    collector_generation db' = collector_generation db + of_bool (tr_generation_changed res) \<and>
    (\<forall>r\<in>set rows. mirrored rt (collector_generation db') db' r) \<and>
    (\<forall>k. map_of (t_cursors db') (collector_generation db', k) \<noteq> None \<longleftrightarrow> k \<in> set ks) \<and>
    length (t_plays db') = length (t_plays db) + tr_new_plays res"
  by (rule scan_score_ok[OF assms])

theorem scan_mirrors_source_witness:
  "mirrored sample_runtime 0 (sample_recorded 1 50) (sample_row ''aa'' 1)"
  using scan_mirrors_source[OF sample_scan_score[of 1 50, unfolded sample_snapshot_def] _ _ poller_inv_empty]
  by (simp add: tick_counts_def sample_generation)

text \<open>Collecting twice records nothing twice. A scan of rows that a scan has just recorded, of the same main file,
  with any aggregate rows and at any time, reports no new play, no lost event and no
  new generation, and writes nothing but the collector state.\<close>

theorem rescan_records_nothing:
  assumes "scan_score rt sig0 now (rows, agg, sig) db = Inr (res, db')"
    and "unique_charts rt rows" and "poller_inv db" and "main_identity sig = main_identity sig2"
  shows "scan_score rt (Some sig) now2 (rows, agg2, sig2) db' =
    Inr (tick_counts 0 0 False True, upsert_collector_state ''scoredatalog''
      \<lparr>cs_source_generation = collector_generation db', cs_last_mtime = last_mtime sig2,
       cs_last_size = Some (total_size sig2), cs_last_run_at = Some now2, cs_last_error = None\<rparr> db')"
proof -
  obtain ks where keys: "py_mapM (row_key rt) rows = Inr ks" "distinct ks"
    by (rule scan_score_unique[OF assms(1,2)])
  have "\<forall>r\<in>set rows. mirrored rt (collector_generation db') db' r"
    and "\<forall>k. map_of (t_cursors db') (collector_generation db', k) \<noteq> None \<longleftrightarrow> k \<in> set ks"
    using scan_score_ok[OF assms(1) keys assms(3)] by blast+
  then show ?thesis using keys(1) assms(4) by (intro scan_mirrored) auto
qed

theorem rescan_records_nothing_witness:
  "\<exists>db. scan_score sample_runtime (Some (sample_signature 1)) 99 (sample_snapshot 1) (sample_recorded 1 50) =
     Inr (tick_counts 0 0 False True, db)"
  using rescan_records_nothing[OF sample_scan_score[of 1 50, unfolded sample_snapshot_def] _ poller_inv_empty refl,
      of 99 "[((''aa'', 0), sample_row ''aa'' 1)]"]
  by (simp add: unique_charts_def sample_snapshot_def)

text \<open>What a scan reports. The new plays are the rows whose chart is new or has advanced, the lost events are the
  playcounts skipped between the cursor and the row, and a new generation begins exactly if the main file was
  replaced, a chart with a cursor has vanished, or a playcount went back; then every row is new and nothing
  is lost.\<close>

theorem scan_reports_exactly:
  assumes "scan_score rt sig0 now (rows, agg, sig) db = Inr (res, db')"
    and "py_mapM (row_key rt) rows = Inr ks" and "distinct ks" and "poller_inv db"
  shows "let old = load_cursors db (collector_generation db);
             cursors = (if tr_generation_changed res then [] else old)
         in tr_new_plays res = length (filter (\<lambda>r. case key_count rt r of (k, m) \<Rightarrow> row_new cursors k m) rows) \<and>
            tr_lost_events res = sum_list (map (\<lambda>r. case key_count rt r of (k, m) \<Rightarrow> row_lost cursors k m) rows) \<and>
            tr_generation_changed res =
              (replaced sig0 sig old ks \<or> (\<exists>r\<in>set rows. row_rolled_back rt old r = Inr True))"
proof -
  obtain rollback changed g cursors n l db1 where s:
    "any_rolled_back rt (load_cursors db (collector_generation db)) rows = Inr rollback"
    "changed = (replaced sig0 sig (load_cursors db (collector_generation db)) ks \<or> rollback)"
    "g = collector_generation db + of_bool changed"
    "cursors = (if changed then [] else load_cursors db (collector_generation db))"
    "py_for (scan_row rt cursors g agg now) (0, 0, db) rows = Inr (n, l, db1)"
    "res = tick_counts n l changed True"
    by (rule scan_score_shape[OF assms(1,2)])
  have inv: "histories_ok db" "store_ok db" "generations_ok db" using assms(4) unfolding poller_inv_def by blast+
  have gen: "0 \<le> collector_generation db" "\<And>g k. map_of (t_cursors db) (g, k) \<noteq> None \<Longrightarrow> g \<le> collector_generation db"
    using inv(3) unfolding generations_ok_def by blast+
  have g: "0 \<le> g" using gen(1) s(3) by simp
  have start: "\<forall>k\<in>set ks. map_of (t_cursors db) (g, k) = map_of cursors k"
  proof
    fix k
    show "map_of (t_cursors db) (g, k) = map_of cursors k" using gen(2)[of g k] s(3,4)
      by (cases changed; cases "map_of (t_cursors db) (g, k)") (auto simp: map_of_load_cursors)
  qed
  have forward: "forward_rows rt cursors rows"
    using any_rolled_back_False s(1,2,4) by (cases changed) (auto simp: forward_rows_def)
  have counts: "n = 0 + length (filter (\<lambda>r. case key_count rt r of (k, m) \<Rightarrow> row_new cursors k m) rows)"
      "l = 0 + sum_list (map (\<lambda>r. case key_count rt r of (k, m) \<Rightarrow> row_lost cursors k m) rows)"
    using scan_rows_ok[OF s(5) assms(2,3) inv(1,2) g start forward] by blast+
  have res: "tr_generation_changed res = changed" "tr_new_plays res = n" "tr_lost_events res = l"
    by (simp_all add: s(6) tick_counts_def)
  have "rollback \<longleftrightarrow> (\<exists>r\<in>set rows. row_rolled_back rt (load_cursors db (collector_generation db)) r = Inr True)"
    by (rule any_rolled_back_True[OF s(1)])
  then show ?thesis using counts s(2,4) unfolding res Let_def by simp
qed

theorem scan_reports_exactly_witness:
  "tr_new_plays (tick_counts 1 0 False True) =
     length (filter (\<lambda>r. case key_count sample_runtime r of (k, m) \<Rightarrow> row_new [] k m) [sample_row ''aa'' 1])"
  using scan_reports_exactly[OF sample_scan_score[of 1 50, unfolded sample_snapshot_def] _ _ poller_inv_empty]
  by (simp add: Let_def tick_counts_def load_cursors_def) (simp add: empty_db_def)

subsection \<open>Reading and failing\<close>

lemma read_attempts_Inr:
  "read_attempts try i n = Inr snap \<longleftrightarrow>
     (\<exists>j. i \<le> j \<and> j < i + n \<and> try j = Inr (Some snap) \<and> (\<forall>l. i \<le> l \<and> l < j \<longrightarrow> try l = Inr None))"
  (is "?lhs i n \<longleftrightarrow> ?rhs i n")
proof (induction n arbitrary: i)
  case 0
  then show ?case by simp
next
  case (Suc n)
  show ?case
  proof (cases "try i")
    case (Inl e)
    then have "\<not> ?rhs i (Suc n)" by (metis Inl_Inr_False le_refl linorder_le_less_linear order_antisym)
    then show ?thesis using Inl by simp
  next
    case (Inr r)
    show ?thesis
    proof (cases r)
      case None
      have "?rhs (Suc i) n \<longleftrightarrow> ?rhs i (Suc n)"
      proof
        assume "?rhs (Suc i) n"
        then obtain j where j: "Suc i \<le> j" "j < Suc i + n" "try j = Inr (Some snap)"
            "\<forall>l. Suc i \<le> l \<and> l < j \<longrightarrow> try l = Inr None" by blast
        moreover have "try l = Inr None" if "i \<le> l" "l < j" for l
          using j(4) that Inr None by (cases "l = i") auto
        ultimately show "?rhs i (Suc n)" by (intro exI[of _ j]) simp
      next
        assume "?rhs i (Suc n)"
        then obtain j where j: "i \<le> j" "j < i + Suc n" "try j = Inr (Some snap)"
            "\<forall>l. i \<le> l \<and> l < j \<longrightarrow> try l = Inr None" by blast
        then have "j \<noteq> i" using Inr None by auto
        then show "?rhs (Suc i) n" using j by (intro exI[of _ j]) simp
      qed
      then show ?thesis using Suc.IH[of "Suc i"] Inr None by simp
    next
      case (Some s)
      have "?rhs i (Suc n) \<longleftrightarrow> s = snap"
      proof
        assume "?rhs i (Suc n)"
        then obtain j where j: "i \<le> j" "try j = Inr (Some snap)"
            "\<forall>l. i \<le> l \<and> l < j \<longrightarrow> try l = Inr None" by blast
        have "\<not> i < j" using spec[OF j(3), of i] Inr Some by auto
        then show "s = snap" using j(1,2) Inr Some by simp
      qed (use Inr Some in \<open>auto intro!: exI[of _ i]\<close>)
      then show ?thesis using Inr Some by simp
    qed
  qed
qed

text \<open>The read returns what the first stable attempt saw. It returns a snapshot exactly if, within the bound on retries,
  some attempt finds the sources unchanged and returns it, and every attempt before
  that one found them changing; in particular it returns whenever the source is stable
  early enough.\<close>

theorem consistent_read_is_first_stable_attempt:
  "read_consistent_snapshot rt cfg env = Inr snap \<longleftrightarrow>
     (\<exists>j < max 1 (pc_max_retries cfg).
        read_attempt rt cfg (te_open env) (te_attempt env j) = Inr (Some snap) \<and>
        (\<forall>i<j. read_attempt rt cfg (te_open env) (te_attempt env i) = Inr None))"
  unfolding read_consistent_snapshot_def read_attempts_Inr by auto

theorem consistent_read_is_first_stable_attempt_witness:
  "\<exists>j < max 1 (pc_max_retries sample_config).
     read_attempt sample_runtime sample_config (te_open (sample_env 7 50)) (te_attempt (sample_env 7 50) j) =
       Inr (Some (sample_snapshot 7))"
  using consistent_read_is_first_stable_attempt[of sample_runtime sample_config "sample_env 7 50" "sample_snapshot 7"]
    sample_snapshot_read[of 7 50] by blast



text \<open>Everything but the status rows.\<close>

definition same_data :: "assistant_db \<Rightarrow> assistant_db \<Rightarrow> bool" where
  "same_data db db' \<longleftrightarrow> db'\<lparr>t_collector := t_collector db\<rparr> = db \<and> collector_generation db' = collector_generation db"

lemma same_data_error: "same_data db (record_error cfg env e sig db)"
  by (simp add: same_data_def record_error_def generation_put) (simp add: upsert_collector_state_def)

lemma same_data_refl [simp]: "same_data db db"
  by (simp add: same_data_def)

text \<open>C3: a failing tick is atomic. Either nothing but the status row of the collector changes, whose generation is kept, or the
  score scan had completed: then its whole result is kept, only the replay part is missing, and the signature of
  the scanned source is remembered.\<close>

theorem failed_tick_is_atomic:
  assumes "tick rt cfg env force p = (Inl e, p')"
  shows "same_data (po_db p) (po_db p') \<or>
    (\<exists>snap res db1. read_consistent_snapshot rt cfg env = Inr snap \<and>
       scan_score rt (po_last_signature p) (te_now env) snap (po_db p) = Inr (res, db1) \<and>
       same_data db1 (po_db p') \<and> po_last_signature p' = Some (snd (snd snap)))"
proof -
  have settle: "same_data (po_db q) (po_db p')" if "settle_replays rt env q = (Inl e, p')" for q
    using that by (auto simp: settle_replays_def split: sum.splits)
  have scan: ?thesis if "tick_scan rt cfg env force trigger p = (Inl e, p')" for trigger
    using that
    by (auto simp: tick_scan_def fail_tick_def Let_def same_data_error split: sum.splits)
  show ?thesis
  proof (cases "source_signature (te_trigger env) (pc_scoredatalog cfg)")
    case (Inl x)
    then show ?thesis using assms by (auto simp: tick_def fail_tick_def same_data_error split: if_splits)
  next
    case (Inr trigger)
    then show ?thesis using assms settle[of p] settle[of "p\<lparr>po_last_signature := Some trigger\<rparr>"] scan[of trigger]
      by (auto simp: tick_def split: if_splits)
  qed
qed

theorem failed_tick_is_atomic_witness:
  "\<exists>p'. tick sample_runtime sample_config ((sample_env 1 50)\<lparr>te_trigger := \<lambda>_. Inl FileNotFoundError\<rparr>) False sample_poller
      = (Inl FileNotFoundError, p') \<and> same_data (po_db sample_poller) (po_db p')"
proof -
  let ?env = "(sample_env 1 50)\<lparr>te_trigger := \<lambda>_. Inl FileNotFoundError\<rparr>"
  have "source_signature (te_trigger ?env) (pc_scoredatalog sample_config) = Inl FileNotFoundError"
    by (simp add: source_signature_def file_signal_of_def)
  then obtain p' where t: "tick sample_runtime sample_config ?env False sample_poller = (Inl FileNotFoundError, p')"
      and last: "po_last_signature p' = None"
    by (simp add: tick_def fail_tick_def sample_poller_def)
  from failed_tick_is_atomic[OF t] have "same_data (po_db sample_poller) (po_db p')" using last by auto
  then show ?thesis using t by blast
qed

end
