(* ===== verification/Backfill.thy ===== *)
theory Backfill
  imports Poller_Properties
begin

text \<open>
  \<open>collect/backfill.py\<close>: the initial import of charts, pattern features, the latest local plays and usable IR
  aggregates, in one transaction. Path resolution is the argument \<open>resolve\<close>; what SQLite finds in the
  three source files is part of the surroundings.
\<close>

subsection \<open>The import\<close>

definition legacy_generation :: int where "legacy_generation = 0"
definition ir_import_generation :: int where "ir_import_generation = - 1"

definition source_databases :: "string list" where
  "source_databases = [''score.db'', ''scoredatalog.db'', ''scorelog.db'', ''songdata.db'', ''songinfo.db'']"

record backfill_env =
  bf_before :: "string \<Rightarrow> stat py"
  bf_after :: "string \<Rightarrow> stat py"
  bf_songdata :: "source_db py"
  bf_scoredatalog :: "source_db py"
  bf_score :: "source_db py"
  bf_now :: int

record backfill_result =
  br_charts :: nat
  br_pattern_features :: nat
  br_legacy_plays :: nat
  br_ir_imports :: nat
  br_song_rows_seen :: nat
  br_skipped_ir_noplay :: nat

definition br_plays :: "backfill_result \<Rightarrow> nat" where
  "br_plays r = br_legacy_plays r + br_ir_imports r"

definition in_dir :: "string \<Rightarrow> string \<Rightarrow> string" where
  "in_dir dir name = dir @ ''/'' @ name"

definition validate_destination :: "(string \<Rightarrow> string) \<Rightarrow> string \<Rightarrow> string \<Rightarrow> string py" where
  "validate_destination resolve db_dir assistant_db =
     (let destination = resolve assistant_db
      in if destination \<in> set (map (\<lambda>name. resolve (in_dir db_dir name)) source_databases)
         then Inl (ValueError ''assistant_db must not be a beatoraja source database'')
         else Inr destination)"

text \<open>A chart and its pattern features as the row dictionaries are built. The path column has TEXT affinity.\<close>

definition path_text :: "pyval \<Rightarrow> string option" where
  "path_text v = (case v of PStr s \<Rightarrow> Some s | _ \<Rightarrow> None)"

definition chart_of_song :: "runtime \<Rightarrow> int \<Rightarrow> row \<Rightarrow> (string \<times> chart_row) py" where
  "chart_of_song rt now song =
     py_bind (str_item rt song ''sha256'') (\<lambda>sha256.
       Inr (sha256, \<lparr>cr_md5 = get_item song ''md5'', cr_title = get_item song ''title'',
         cr_artist = get_item song ''artist'', cr_notes = get_item song ''notes'',
         cr_song_mode = get_item song ''mode'', cr_path = path_text (get_item song ''path''),
         cr_updated_at = now\<rparr>))"

definition pattern_of_row :: "runtime \<Rightarrow> row \<Rightarrow> (string \<times> pattern_row) py" where
  "pattern_of_row rt r =
     py_bind (str_item rt r ''sha256'') (\<lambda>sha256.
     py_bind (int_or_zero r ''analysis_version'') (\<lambda>version.
       Inr (sha256, \<lparr>pt_rhythm_family = get_item r ''rhythm_family'', pt_avg_chord = get_item r ''avg_chord'',
         pt_chord_ge3 = get_item r ''chord_ge3'', pt_micro_rate = get_item r ''micro_rate'',
         pt_long_jack_rate = get_item r ''long_jack_rate'', pt_practice_low = get_item r ''practice_low'',
         pt_analysis_version = version, pt_grid_bpm = get_item r ''grid_bpm'',
         pt_stream_sec = get_item r ''stream_sec'', pt_last_kill = get_item r ''last_kill''\<rparr>)))"

definition usable_pattern :: "row \<Rightarrow> bool" where
  "usable_pattern r \<longleftrightarrow> \<not> truthy (get_item r ''error'')"

text \<open>One row of \<open>scoredatalog\<close>: the play, ignored if it exists, and its cursor.\<close>

definition import_latest ::
    "runtime \<Rightarrow> (chart_key \<times> row) list \<Rightarrow> int \<Rightarrow> assistant_db \<Rightarrow> row \<Rightarrow> assistant_db py" where
  "import_latest rt aggregate now db r =
     py_bind (row_key rt r) (\<lambda>key.
     py_bind (derive_play rt r ''legacy_last_snapshot'' legacy_generation (map_of aggregate key) 0 now) (\<lambda>play.
     py_bind (int_item r ''playcount'') (\<lambda>playcount.
       Inr (put_cursor legacy_generation key playcount (payload_hash rt r) (snd (insert_play False play db))))))"

text \<open>One row of \<open>score\<close>: an IR aggregate has no date and a lamp.\<close>

definition import_ir :: "runtime \<Rightarrow> int \<Rightarrow> assistant_db \<Rightarrow> row \<Rightarrow> assistant_db py" where
  "import_ir rt now db r =
     py_bind (int_item r ''date'') (\<lambda>date.
       if date \<noteq> 0 then Inr db
       else py_bind (int_item r ''clear'') (\<lambda>clear.
         if clear = 0 then Inr db
         else py_bind (derive_play rt r ''ir_import'' ir_import_generation (Some r) 0 now) (\<lambda>play.
           Inr (snd (insert_play False play db)))))"

definition insert_collector_state :: "string \<Rightarrow> collector_row \<Rightarrow> assistant_db \<Rightarrow> assistant_db" where
  "insert_collector_state key r db =
     (if map_of (t_collector db) key = None then upsert_collector_state key r db else db)"

definition skipped_noplay :: "row \<Rightarrow> bool py" where
  "skipped_noplay r =
     py_bind (int_item r ''date'') (\<lambda>date.
       if date \<noteq> 0 then Inr False else py_bind (int_item r ''clear'') (\<lambda>clear. Inr (clear = 0)))"

definition plays_from :: "string \<Rightarrow> assistant_db \<Rightarrow> nat" where
  "plays_from source db = length (filter (\<lambda>(i, p). pl_source (r_play p) = source) (t_plays db))"

definition backfill_store ::
    "runtime \<Rightarrow> int \<Rightarrow> row list \<Rightarrow> row list \<Rightarrow> row list \<Rightarrow> row list \<Rightarrow> (chart_key \<times> row) list \<Rightarrow> source_sig \<Rightarrow>
       assistant_db \<Rightarrow> assistant_db py" where
  "backfill_store rt now songs pattern_rows latest_rows score_rows aggregate signature db =
     py_bind (py_mapM (chart_of_song rt now) songs) (\<lambda>charts.
     py_bind (py_mapM (pattern_of_row rt) (filter usable_pattern pattern_rows)) (\<lambda>patterns.
     py_bind (py_for (import_latest rt aggregate now)
       (upsert_chart_pattern_features patterns (upsert_charts charts db)) latest_rows) (\<lambda>db1.
     py_bind (py_for (import_ir rt now) db1 score_rows) (\<lambda>db2.
       Inr (insert_collector_state ''scoredatalog''
         \<lparr>cs_source_generation = legacy_generation, cs_last_mtime = last_mtime signature,
          cs_last_size = Some (total_size signature), cs_last_run_at = Some now, cs_last_error = None\<rparr>
         db2)))))"

definition backfill_run ::
    "runtime \<Rightarrow> (string \<Rightarrow> string) \<Rightarrow> backfill_env \<Rightarrow> string \<Rightarrow> string \<Rightarrow> assistant_db \<Rightarrow>
       (backfill_result \<times> assistant_db) py" where
  "backfill_run rt resolve env db_dir assistant_path db =
     (let source_dir = resolve db_dir;
          read_paths = map (in_dir source_dir) [''songdata.db'', ''scoredatalog.db'', ''score.db''];
          now = bf_now env
      in
      py_bind (validate_destination resolve source_dir assistant_path) (\<lambda>destination.
      py_bind (py_mapM (source_signature (bf_before env)) read_paths) (\<lambda>signatures_before.
      py_bind (bf_songdata env) (\<lambda>songdata.
      py_bind (read_songs songdata None) (\<lambda>songs.
      py_bind (read_chart_patterns songdata None) (\<lambda>pattern_rows.
      py_bind (bf_scoredatalog env) (\<lambda>scoredatalog.
      py_bind (read_scoredatalog scoredatalog) (\<lambda>latest_rows.
      py_bind (bf_score env) (\<lambda>score.
      py_bind (read_score score) (\<lambda>score_rows.
      py_bind (py_mapM (source_signature (bf_after env)) read_paths) (\<lambda>signatures_after.
      py_bind (raise_if (signatures_after \<noteq> signatures_before) SourceChangedDuringBackfill) (\<lambda>_.
      py_bind (aggregate_dict rt score_rows) (\<lambda>aggregate.
      py_bind (check_store_name destination) (\<lambda>_.
      py_bind (backfill_store rt now songs pattern_rows latest_rows score_rows aggregate
        (signatures_after ! 1) db) (\<lambda>db'.
      py_bind (py_mapM skipped_noplay score_rows) (\<lambda>skipped.
        Inr (\<lparr>br_charts = length (t_charts db'),
              br_pattern_features = length (filter usable_pattern pattern_rows),
              br_legacy_plays = plays_from ''legacy_last_snapshot'' db',
              br_ir_imports = plays_from ''ir_import'' db', br_song_rows_seen = length songs,
              br_skipped_ir_noplay = length (filter id skipped)\<rparr>, db')))))))))))))))))"

subsection \<open>Charts and patterns leave the rest alone\<close>

definition other_tables :: "assistant_db \<Rightarrow> assistant_db" where
  "other_tables db = db\<lparr>t_charts := [], t_patterns := []\<rparr>"

lemma other_tables_one [simp]:
  "other_tables (upsert_chart k c db) = other_tables db"
  "other_tables (upsert_pattern k p db) = other_tables db"
  by (simp_all add: other_tables_def upsert_chart_def upsert_pattern_def)

lemma other_tables_charts [simp]: "other_tables (upsert_charts cs db) = other_tables db"
  unfolding upsert_charts_def by (induction cs arbitrary: db) (auto simp: split_beta)

lemma other_tables_patterns [simp]: "other_tables (upsert_chart_pattern_features ps db) = other_tables db"
  unfolding upsert_chart_pattern_features_def by (induction ps arbitrary: db) (auto simp: split_beta)

lemma other_tables_eq:
  assumes "other_tables db = other_tables db'"
  shows "t_plays db = t_plays db'" "t_cursors db = t_cursors db'" "t_collector db = t_collector db'"
    "t_scans db = t_scans db'" "t_replays db = t_replays db'" "t_next_play db = t_next_play db'"
    "t_next_replay db = t_next_replay db'"
  using assms by (simp_all add: other_tables_def) (cases db; cases db'; simp)+

lemma charts_distinct: "distinct (map fst (t_charts db)) \<Longrightarrow> distinct (map fst (t_charts (upsert_charts cs db)))"
  by (induction cs arbitrary: db) (auto simp: upsert_charts_def upsert_chart_def distinct_update)

lemma patterns_charts [simp]: "t_charts (upsert_chart_pattern_features ps db) = t_charts db"
  by (induction ps arbitrary: db) (auto simp: upsert_chart_pattern_features_def upsert_pattern_def)

lemma store_ok_metadata:
  assumes "store_ok db"
  shows "store_ok (upsert_chart_pattern_features ps (upsert_charts cs db))"
proof -
  let ?db = "upsert_chart_pattern_features ps (upsert_charts cs db)"
  have "other_tables ?db = other_tables db" by simp
  note same = other_tables_eq[OF this]
  have "distinct (map fst (t_charts ?db))" using assms by (simp add: store_ok_def keyed_ok_def charts_distinct)
  then show ?thesis using assms
    by (simp add: store_ok_def plays_ok_def keyed_ok_def replays_ok_def play_ids_def same)
qed

subsection \<open>The history a backfill begins\<close>

lemma import_latest_step:
  assumes step: "import_latest rt agg now db r = Inr db'" and key: "row_key rt r = Inr k"
    and inv: "histories_ok db" "store_ok db" and new: "map_of (t_cursors db) (0, k) = None"
  obtains m where "int_item r ''playcount'' = Inr m" "histories_ok db'" "store_ok db'"
    "map_of (t_cursors db') = (map_of (t_cursors db))((0, k) \<mapsto> (m, payload_hash rt r))"
    "t_collector db' = t_collector db"
proof -
  obtain p m where p: "derive_play rt r ''legacy_last_snapshot'' 0 (map_of agg k) 0 now = Inr p"
      and m: "int_item r ''playcount'' = Inr m"
      and db': "db' = put_cursor 0 k m (payload_hash rt r) (snd (insert_play False p db))"
    using step key by (auto simp: import_latest_def py_bind_Inr_iff legacy_generation_def)
  note of = derived_of_chart[OF p key m]
  have "insert_play False p db = (True, add_play p db)" "histories_ok (put_cursor 0 k m (payload_hash rt r) (add_play p db))"
    using histories_insert[OF inv(1) of(1)] new of by simp_all
  moreover from this have "store_ok (put_cursor 0 k m (payload_hash rt r) (add_play p db))"
    using store_ok_insert[OF inv(2), of False p] by (auto simp: put_cursor_def)
  moreover have "map_of (t_cursors (put_cursor 0 k m (payload_hash rt r) (add_play p db))) =
      (map_of (t_cursors db))((0, k) \<mapsto> (m, payload_hash rt r))"
    using new by (simp add: cursors_put_cursor add_play_def)
  ultimately show ?thesis using that[OF m] by (simp add: db') (simp add: add_play_def)
qed

lemma import_latest_all:
  assumes "py_for (import_latest rt agg now) db rows = Inr db'"
    and "py_mapM (row_key rt) rows = Inr ks" and "distinct ks"
    and "histories_ok db" "store_ok db" and "\<forall>k\<in>set ks. map_of (t_cursors db) (0, k) = None"
  shows "histories_ok db' \<and> store_ok db' \<and> t_collector db' = t_collector db \<and>
    (\<forall>r\<in>set rows. mirrored rt 0 db' r) \<and>
    (\<forall>g k. (g, k) \<notin> Pair 0 ` set ks \<longrightarrow> map_of (t_cursors db') (g, k) = map_of (t_cursors db) (g, k))"
  using assms
proof (induction rows arbitrary: db ks)
  case Nil
  then show ?case by simp
next
  case (Cons r rows)
  obtain db1 where first: "import_latest rt agg now db r = Inr db1"
    and rest: "py_for (import_latest rt agg now) db1 rows = Inr db'"
    using Cons.prems(1) by (auto simp: py_bind_Inr_iff)
  obtain k ks' where k: "row_key rt r = Inr k" and ks': "py_mapM (row_key rt) rows = Inr ks'"
    and ks: "ks = k # ks'"
    using Cons.prems(2) by (auto simp: py_bind_Inr_iff)
  have "map_of (t_cursors db) (0, k) = None" using Cons.prems(6) by (simp add: ks)
  from import_latest_step[OF first k Cons.prems(4,5) this] obtain m where
    m: "int_item r ''playcount'' = Inr m" and step: "histories_ok db1" "store_ok db1"
      "map_of (t_cursors db1) = (map_of (t_cursors db))((0, k) \<mapsto> (m, payload_hash rt r))"
      "t_collector db1 = t_collector db" .
  have later: "\<forall>j\<in>set ks'. map_of (t_cursors db1) (0, j) = None"
    using Cons.prems(3,6) by (auto simp: step(3) ks)
  have IH: "histories_ok db'" "store_ok db'" "t_collector db' = t_collector db1" "\<forall>r\<in>set rows. mirrored rt 0 db' r"
      "\<forall>g j. (g, j) \<notin> Pair 0 ` set ks' \<longrightarrow> map_of (t_cursors db') (g, j) = map_of (t_cursors db1) (g, j)"
    using Cons.IH[OF rest ks' _ step(1,2) later] Cons.prems(3) by (simp_all add: ks)
  have "map_of (t_cursors db') (0, k) = Some (m, payload_hash rt r)"
    using spec[OF spec[OF IH(5), of 0], of k] Cons.prems(3) by (auto simp: ks step(3))
  then have "mirrored rt 0 db' r" using k m by (auto simp: mirrored_def)
  moreover have "map_of (t_cursors db') (g, j) = map_of (t_cursors db) (g, j)"
    if "(g, j) \<notin> Pair 0 ` set ks" for g j
    using spec[OF spec[OF IH(5), of g], of j] that by (auto simp: ks step(3))
  ultimately show ?case using IH(1-4) step(4) by simp
qed

text \<open>A play of a negative generation is outside every history.\<close>

lemma insert_negative:
  assumes "pl_source_generation (r_play p) < 0"
  shows "0 \<le> g \<Longrightarrow> chart_plays (snd (insert_play False p db)) g k = chart_plays db g k"
  using assms by (auto simp: insert_play_def chart_plays_add of_chart_def)

lemma histories_negative:
  assumes "histories_ok db" and "pl_source_generation (r_play p) < 0"
  shows "histories_ok (snd (insert_play False p db))"
  unfolding histories_ok_def
proof (intro allI impI)
  fix g :: int and k :: chart_key
  assume g: "0 \<le> g"
  show "history_ok (map_of (t_cursors (snd (insert_play False p db))) (g, k)) (chart_plays (snd (insert_play False p db)) g k)"
    unfolding insert_negative[OF assms(2) g] insert_play_frame by (rule histories_okD[OF assms(1) g])
qed

lemma insert_play_collector [simp]: "t_collector (snd (insert_play u p db)) = t_collector db"
  by (simp add: insert_play_def add_play_def)

definition imported_alike :: "assistant_db \<Rightarrow> assistant_db \<Rightarrow> bool" where
  "imported_alike db db' \<longleftrightarrow> histories_ok db' \<and> store_ok db' \<and> t_collector db' = t_collector db \<and>
     t_cursors db' = t_cursors db"

lemma import_ir_step:
  assumes "import_ir rt now db r = Inr db'" and "histories_ok db" and "store_ok db"
  shows "imported_alike db db'"
proof -
  have "db' = db \<or> (\<exists>p. db' = snd (insert_play False p db) \<and> pl_source_generation (r_play p) < 0)"
  proof (cases "db' = db")
    case False
    then obtain p where "derive_play rt r ''ir_import'' (- 1) (Some r) 0 now = Inr p"
        and "db' = snd (insert_play False p db)"
      using assms(1)
      by (auto simp: import_ir_def py_bind_Inr_iff ir_import_generation_def split: if_splits)
    then show ?thesis using derive_play_fields(6) by fastforce
  qed simp
  then show ?thesis using assms(2,3) histories_negative by (auto simp: imported_alike_def)
qed

lemma import_ir_all:
  assumes "py_for (import_ir rt now) db rows = Inr db'" and "histories_ok db" and "store_ok db"
  shows "imported_alike db db'"
  using assms(1)
proof (rule py_for_invariant)
  show "imported_alike db db" using assms(2,3) by (simp add: imported_alike_def)
next
  fix s r s'
  assume s: "imported_alike db s" and "import_ir rt now s r = Inr s'"
  then have "imported_alike s s'" by (intro import_ir_step) (auto simp: imported_alike_def)
  then show "imported_alike db s'" using s by (simp add: imported_alike_def)
qed

lemma insert_collector_frame [simp]:
  "t_cursors (insert_collector_state key r db) = t_cursors db"
  "histories_ok (insert_collector_state key r db) = histories_ok db"
  "mirrored rt g (insert_collector_state key r db) row = mirrored rt g db row"
  "store_ok db \<Longrightarrow> store_ok (insert_collector_state key r db)"
  by (auto simp: insert_collector_state_def)

lemma generation_insert:
  "cs_source_generation r = 0 \<Longrightarrow>
     collector_generation (insert_collector_state ''scoredatalog'' r db) = collector_generation db"
  by (simp add: insert_collector_state_def generation_put) (simp add: collector_generation_def)

lemma backfill_store_fresh:
  assumes "backfill_store rt now songs pats rows score_rows agg sig db = Inr db'"
    and "py_mapM (row_key rt) rows = Inr ks" and "distinct ks"
    and "poller_inv db" and "\<forall>k. map_of (t_cursors db) (0, k) = None"
  shows "poller_inv db' \<and> (\<forall>r\<in>set rows. mirrored rt 0 db' r) \<and>
    (\<forall>k. map_of (t_cursors db') (0, k) \<noteq> None \<longrightarrow> k \<in> set ks) \<and>
    collector_generation db' = collector_generation db"
proof -
  obtain charts patterns db1 db2 where s:
    "py_for (import_latest rt agg now) (upsert_chart_pattern_features patterns (upsert_charts charts db)) rows = Inr db1"
    "py_for (import_ir rt now) db1 score_rows = Inr db2"
    "db' = insert_collector_state ''scoredatalog''
         \<lparr>cs_source_generation = 0, cs_last_mtime = last_mtime sig, cs_last_size = Some (total_size sig),
          cs_last_run_at = Some now, cs_last_error = None\<rparr> db2"
    using assms(1) by (auto simp: backfill_store_def py_bind_Inr_iff legacy_generation_def)
  let ?db = "upsert_chart_pattern_features patterns (upsert_charts charts db)"
  have "other_tables ?db = other_tables db" by simp
  note same = other_tables_eq[OF this]
  have inv: "store_ok db" "histories_ok db" "generations_ok db" using assms(4) unfolding poller_inv_def by blast+
  have start: "histories_ok ?db" using inv(2) by (simp add: histories_ok_def chart_plays_def same)
  have fresh: "\<forall>k\<in>set ks. map_of (t_cursors ?db) (0, k) = None" using assms(5) unfolding same by blast
  have one: "histories_ok db1" "store_ok db1" "t_collector db1 = t_collector db" "\<forall>r\<in>set rows. mirrored rt 0 db1 r"
      "\<forall>g k. (g, k) \<notin> Pair 0 ` set ks \<longrightarrow> map_of (t_cursors db1) (g, k) = map_of (t_cursors db) (g, k)"
    using import_latest_all[OF s(1) assms(2,3) start store_ok_metadata[OF inv(1)] fresh] unfolding same by blast+
  have two: "histories_ok db2" "store_ok db2" "t_collector db2 = t_collector db" "t_cursors db2 = t_cursors db1"
    using import_ir_all[OF s(2) one(1,2)] one(3) by (simp_all add: imported_alike_def)
  have gen: "collector_generation db' = collector_generation db"
    unfolding s(3) by (simp add: generation_insert) (simp add: collector_generation_def two(3))
  have cursor: "k \<in> set ks \<and> g = 0 \<or> map_of (t_cursors db) (g, k) \<noteq> None"
    if "map_of (t_cursors db') (g, k) \<noteq> None" for g k
    using spec[OF spec[OF one(5), of g], of k] that by (auto simp: s(3) two(4))
  have "generations_ok db'" unfolding generations_ok_def gen
  proof (intro conjI allI impI)
    show "0 \<le> collector_generation db" using inv(3) by (simp add: generations_ok_def)
    fix g k
    assume "map_of (t_cursors db') (g, k) \<noteq> None"
    from cursor[OF this] show "g \<le> collector_generation db" using inv(3) unfolding generations_ok_def by blast
  qed
  moreover have "k \<in> set ks" if "map_of (t_cursors db') (0, k) \<noteq> None" for k
    using cursor[OF that] assms(5) by simp
  moreover have "\<forall>r\<in>set rows. mirrored rt 0 db' r" using one(4) by (simp add: s(3) mirrored_def two(4))
  ultimately show ?thesis using two(1,2) gen by (auto simp: poller_inv_def s(3))
qed

subsection \<open>The properties\<close>

text \<open>C15: the collector continues where a backfill stopped. Into a store without local history, a backfill keeps the invariant of the
  collector, and the first scan of the same \<open>scoredatalog\<close> rows, with any aggregate rows and
  at any time, finds nothing new, nothing lost and no new generation: the IR imports of the same run do not
  disturb it.\<close>

theorem collector_continues_backfill:
  assumes "backfill_store rt now songs pats rows score_rows agg sig db = Inr db'"
    and "py_mapM (row_key rt) rows = Inr ks" and "distinct ks" and "poller_inv db"
    and "collector_generation db = 0" and "\<forall>k. map_of (t_cursors db) (0, k) = None"
  shows "poller_inv db' \<and>
    (\<exists>db''. scan_score rt None now2 (rows, agg2, sig2) db' = Inr (tick_counts 0 0 False True, db''))"
proof -
  have facts: "poller_inv db'" "\<forall>r\<in>set rows. mirrored rt 0 db' r"
      "\<forall>k. map_of (t_cursors db') (0, k) \<noteq> None \<longrightarrow> k \<in> set ks" "collector_generation db' = 0"
    using backfill_store_fresh[OF assms(1-4,6)] unfolding assms(5) by blast+
  have "\<forall>r\<in>set rows. mirrored rt (collector_generation db') db' r"
    and "\<forall>k. map_of (t_cursors db') (collector_generation db', k) \<noteq> None \<longrightarrow> k \<in> set ks"
    unfolding facts(4) by (rule facts(2), rule facts(3))
  from scan_mirrored[OF this assms(2), of None sig2 now2 agg2]
  have "\<exists>db''. scan_score rt None now2 (rows, agg2, sig2) db' = Inr (tick_counts 0 0 False True, db'')"
    by blast
  then show ?thesis using facts(1) by blast
qed

definition sample_backfilled :: assistant_db where
  "sample_backfilled = upsert_collector_state ''scoredatalog''
     \<lparr>cs_source_generation = 0, cs_last_mtime = None, cs_last_size = Some 0, cs_last_run_at = Some 40,
      cs_last_error = None\<rparr>
     (put_cursor 0 (''aa'', 0) 1 (payload_hash sample_runtime (sample_row ''aa'' 1))
       (add_play (as_record (sample_play sample_runtime ''aa'' 1 ''legacy_last_snapshot'' 0 0 40)) empty_db))"

lemma sample_import:
  "import_latest sample_runtime [] 40 db (sample_row ''aa'' n) =
     (if 0 \<le> n then Inr (put_cursor 0 (''aa'', 0) n (payload_hash sample_runtime (sample_row ''aa'' n))
       (snd (insert_play False (as_record (sample_play sample_runtime ''aa'' n ''legacy_last_snapshot'' 0 0 40)) db)))
      else import_latest sample_runtime [] 40 db (sample_row ''aa'' n))"
  using sample_normalize[of "''aa''" "''legacy_last_snapshot''" n 0 0 sample_runtime 40]
  by (simp add: import_latest_def legacy_generation_def derive_play_def)

lemma sample_backfill:
  "backfill_store sample_runtime 40 [] [] [sample_row ''aa'' 1] [] [] [] empty_db = Inr sample_backfilled"
proof -
  have "insert_play False p empty_db = (True, add_play p empty_db)" for p
    by (simp add: insert_play_def find_play_def) (simp add: empty_db_def)
  moreover have "map_of (t_collector empty_db) key = None" for key by (simp add: empty_db_def)
  moreover have "t_collector (add_play p db) = t_collector db" for p db by (simp add: add_play_def)
  ultimately show ?thesis
    by (simp add: backfill_store_def upsert_charts_def upsert_chart_pattern_features_def sample_import
        sample_backfilled_def insert_collector_state_def legacy_generation_def last_mtime_def total_size_def
        map_filter_simps)
qed

theorem collector_continues_backfill_witness:
  "\<exists>db''. scan_score sample_runtime None 60 ([sample_row ''aa'' 1], [], []) sample_backfilled =
     Inr (tick_counts 0 0 False True, db'')"
  using collector_continues_backfill[OF sample_backfill _ _ poller_inv_empty sample_generation(2)]
  by (simp add: empty_db_def)

text \<open>Running the backfill again hides a payload correction from the collector. For a chart whose playcount is that of
  its cursor, the existing play keeps its old payload while the cursor takes the new
  hash, so that the collector, which would have corrected the play, finds the row unchanged from then
  on.\<close>

theorem backfill_rerun_hides_correction:
  assumes "import_latest rt agg now db r = Inr db'" and "row_key rt r = Inr k" and "int_item r ''playcount'' = Inr m"
    and "histories_ok db" and "map_of (t_cursors db) (0, k) = Some (m, h)" and "h \<noteq> payload_hash rt r"
  shows "t_plays db' = t_plays db \<and> map_of (t_cursors db') (0, k) = Some (m, payload_hash rt r) \<and>
    pl_payload_hash (last (chart_plays db' 0 k)) \<noteq> payload_hash rt r \<and>
    scan_row rt (load_cursors db' 0) 0 agg2 now2 (n, l, db') r = Inr (n, l, db')"
proof -
  obtain p where p: "derive_play rt r ''legacy_last_snapshot'' 0 (map_of agg k) 0 now = Inr p"
      and db': "db' = put_cursor 0 k m (payload_hash rt r) (snd (insert_play False p db))"
    using assms(1-3) by (auto simp: import_latest_def py_bind_Inr_iff legacy_generation_def)
  note of = derived_of_chart[OF p assms(2,3)]
  have old: "history_ok (Some (m, h)) (chart_plays db 0 k)"
    using histories_okD[OF assms(4), of 0 k] assms(5) by simp
  obtain x where "find_play (play_key p) (t_plays db) = Some x"
    using history_correct(1)[OF old of(1,2)] by blast
  then have db: "db' = put_cursor 0 k m (payload_hash rt r) db" by (simp add: db' insert_play_def)
  have cursor: "map_of (t_cursors db') (0, k) = Some (m, payload_hash rt r)"
    by (simp add: db cursors_put_cursor assms(5))
  then have "scan_row rt (load_cursors db' 0) 0 agg2 now2 (n, l, db') r = Inr (n, l, db')"
    by (intro scan_row_settled[OF assms(2,3)]) (simp add: map_of_load_cursors)
  moreover have "pl_payload_hash (last (chart_plays db' 0 k)) = h" using old by (simp add: db)
  ultimately show ?thesis using cursor assms(6) by (simp add: db)
qed

definition sample_stale_play :: play_record where
  "sample_stale_play =
     as_record ((sample_play sample_runtime ''aa'' 1 ''legacy_last_snapshot'' 0 0 40)\<lparr>pl_payload_hash := ''x''\<rparr>)"

definition sample_stale :: assistant_db where
  "sample_stale = put_cursor 0 (''aa'', 0) 1 ''x'' (add_play sample_stale_play empty_db)"

theorem backfill_rerun_hides_correction_witness:
  "\<exists>db'. import_latest sample_runtime [] 40 sample_stale (sample_row ''aa'' 1) = Inr db' \<and>
     t_plays db' = t_plays sample_stale \<and>
     map_of (t_cursors db') (0, (''aa'', 0)) = Some (1, payload_hash sample_runtime (sample_row ''aa'' 1))"
proof -
  have "of_chart 0 (''aa'', 0) sample_stale_play"
    by (simp add: of_chart_def sample_stale_play_def as_record_def sample_play_def)
  moreover have vals: "pl_playcount (r_play sample_stale_play) = 1" "pl_payload_hash (r_play sample_stale_play) = ''x''"
    by (simp_all add: sample_stale_play_def as_record_def sample_play_def)
  moreover have "histories_ok empty_db" using poller_inv_empty by (simp add: poller_inv_def)
  ultimately have ok: "histories_ok sample_stale"
    using histories_insert(2)[of empty_db 0 "(''aa'', 0)" sample_stale_play]
    by (simp add: sample_stale_def) (simp add: empty_db_def)
  have cursor: "map_of (t_cursors sample_stale) (0, (''aa'', 0)) = Some (1, ''x'')"
    by (simp add: sample_stale_def cursors_put_cursor) (simp add: add_play_def empty_db_def)
  have fresh: "''x'' \<noteq> payload_hash sample_runtime (sample_row ''aa'' 1)"
    by (simp add: payload_hash_def canonical_payload_def sample_runtime_def)
  obtain db' where i: "import_latest sample_runtime [] 40 sample_stale (sample_row ''aa'' 1) = Inr db'"
    using sample_import[of sample_stale 1] by simp
  from backfill_rerun_hides_correction[OF i sample_keys(1) sample_keys(2) ok cursor fresh] i
  show ?thesis by blast
qed

lemma sample_backfilled_facts:
  "histories_ok sample_backfilled"
  "map_of (t_cursors sample_backfilled) (0, (''aa'', 0)) =
     Some (1, payload_hash sample_runtime (sample_row ''aa'' 1))"
proof -
  have "poller_inv sample_backfilled"
    using backfill_store_fresh[OF sample_backfill _ _ poller_inv_empty] by (simp add: empty_db_def)
  then show "histories_ok sample_backfilled" by (simp add: poller_inv_def)
  show "map_of (t_cursors sample_backfilled) (0, (''aa'', 0)) =
     Some (1, payload_hash sample_runtime (sample_row ''aa'' 1))"
    by (simp add: sample_backfilled_def cursors_put_cursor) (simp add: add_play_def empty_db_def)
qed

text \<open>Running the backfill again loses events. For a chart that has advanced by more than one play since its cursor, the backfill records a
  play without lost events and moves the cursor over the gap: the chain the collector keeps is broken and the
  plays in between are never accounted for.\<close>

theorem backfill_rerun_hides_lost_events:
  assumes "import_latest rt agg now db r = Inr db'" and "row_key rt r = Inr k" and "int_item r ''playcount'' = Inr m"
    and "histories_ok db" and "map_of (t_cursors db) (0, k) = Some (c, h)" and "c + 1 < m"
  shows "map_of (t_cursors db') (0, k) = Some (m, payload_hash rt r) \<and>
    pl_lost_events (last (chart_plays db' 0 k)) = 0 \<and> \<not> histories_ok db'"
proof -
  obtain p where p: "derive_play rt r ''legacy_last_snapshot'' 0 (map_of agg k) 0 now = Inr p"
      and db': "db' = put_cursor 0 k m (payload_hash rt r) (snd (insert_play False p db))"
    using assms(1-3) by (auto simp: import_latest_def py_bind_Inr_iff legacy_generation_def)
  note of = derived_of_chart[OF p assms(2,3)]
  have old: "history_ok (Some (c, h)) (chart_plays db 0 k)"
    using histories_okD[OF assms(4), of 0 k] assms(5) by simp
  have "insert_play False p db = (True, add_play p db)"
    using old assms(6) of(2) by (intro insert_next[OF _ of(1)]) auto
  then have db: "db' = put_cursor 0 k m (payload_hash rt r) (add_play p db)" by (simp add: db')
  have plays: "chart_plays db' 0 k = chart_plays db 0 k @ [r_play p]" using of(1) by (simp add: db chart_plays_add)
  have cursor: "map_of (t_cursors db') (0, k) = Some (m, payload_hash rt r)"
    using assms(5,6) by (simp add: db cursors_put_cursor add_play_def)
  have "\<not> chained (chart_plays db' 0 k)" unfolding plays chained_snoc
    using old of(2,4) assms(6) by simp
  then have "\<not> histories_ok db'" using histories_okD[of db' 0 k] cursor by auto
  then show ?thesis using cursor of(4) by (simp add: plays)
qed

theorem backfill_rerun_hides_lost_events_witness:
  "\<exists>db'. import_latest sample_runtime [] 40 sample_backfilled (sample_row ''aa'' 5) = Inr db' \<and>
     map_of (t_cursors db') (0, (''aa'', 0)) = Some (5, payload_hash sample_runtime (sample_row ''aa'' 5)) \<and>
     \<not> histories_ok db'"
proof -
  obtain db' where i: "import_latest sample_runtime [] 40 sample_backfilled (sample_row ''aa'' 5) = Inr db'"
    using sample_import[of sample_backfilled 5] by simp
  from backfill_rerun_hides_lost_events[OF i sample_keys(1) sample_keys(2) sample_backfilled_facts] i
  show ?thesis by simp
qed

end
