(* ===== verification/Snapshot.thy ===== *)
theory Snapshot
  imports Backfill
begin

text \<open>
  \<open>collect/snapshot.py\<close>: the import of one daily pair of \<open>score.db\<close> and \<open>scoredatalog.db\<close>, in one transaction, once per pair of
  file contents. The effective date is kept as a day number; Japan Standard Time is UTC+9 for
  every date after 1951.
\<close>

subsection \<open>State, surroundings and results\<close>

definition daily_generation :: int where "daily_generation = - 2"

record snapshot_env =
  sn_exists :: "string \<Rightarrow> bool"
  sn_before :: "string \<Rightarrow> stat py"
  sn_after :: "string \<Rightarrow> stat py"
  sn_bytes :: "string \<Rightarrow> string py"
  sn_score :: "source_db py"
  sn_log :: "source_db py"
  sn_now :: int

record daily_result =
  dr_import_id :: int
  dr_effective_date :: int
  dr_baseline_judged :: int
  dr_cumulative_playcount :: int
  dr_new_play_rows :: nat
  dr_lost_events :: int
  dr_lamp_updates :: nat
  dr_idempotent :: bool

definition file_sha256 :: "runtime \<Rightarrow> (string \<Rightarrow> string py) \<Rightarrow> string \<Rightarrow> string py" where
  "file_sha256 rt bytes path = py_bind (bytes path) (\<lambda>content. Inr (sha256_hex rt content))"

definition cumulative :: "row \<Rightarrow> counters py" where
  "cumulative r =
     py_bind (sum_columns r judgement_columns) (\<lambda>judged.
     py_bind (sum_columns r empty_poor_columns) (\<lambda>empty.
     py_bind (int_item r ''playcount'') (\<lambda>playcount.
     py_bind (int_item r ''playtime'') (\<lambda>playtime.
       Inr (playcount, judged, empty, playtime)))))"

definition validate_static :: "(string \<Rightarrow> bool) \<Rightarrow> string \<Rightarrow> unit py" where
  "validate_static present path =
     raise_if (list_ex (\<lambda>suffix. present (path @ suffix)) [''-wal'', ''-shm'', ''-journal''])
       (SnapshotPairMismatch ''a submitted database has a live SQLite sidecar'')"

definition lamp_changes :: "assistant_db \<Rightarrow> int \<Rightarrow> nat" where
  "lamp_changes db i =
     length (filter (\<lambda>c. sg_import_id c = i \<and> sg_old_clear c < sg_new_clear c) (t_score_changes db))"

definition existing_result :: "assistant_db \<Rightarrow> string \<Rightarrow> string \<Rightarrow> daily_result option" where
  "existing_result db score_hash log_hash =
     map_option (\<lambda>r. \<lparr>dr_import_id = di_id r, dr_effective_date = di_effective_date r,
         dr_baseline_judged = di_baseline_judged r, dr_cumulative_playcount = di_cumulative_playcount r,
         dr_new_play_rows = nat (di_new_play_rows r), dr_lost_events = di_lost_events r,
         dr_lamp_updates = lamp_changes db (di_id r), dr_idempotent = True\<rparr>)
       (List.find (\<lambda>r. di_score_sha256 r = score_hash \<and> di_scoredatalog_sha256 r = log_hash) (t_imports db))"

text \<open>\<open>datetime.fromtimestamp(t, JST).date()\<close>, which raises outside the years 1 to 9999.\<close>

definition jst_day :: "int \<Rightarrow> int py" where
  "jst_day t =
     (let local = t + 32400
      in if - 62135596800 \<le> local \<and> local < 253402300800 then Inr (local div 86400)
         else Inl (ValueError ''year is out of range''))"

subsection \<open>The three loops\<close>

definition incoherent :: "runtime \<Rightarrow> (chart_key \<times> row) list \<Rightarrow> row \<Rightarrow> bool py" where
  "incoherent rt aggregate r =
     py_bind (row_key rt r) (\<lambda>key.
       case map_of aggregate key of
         None \<Rightarrow> Inr False
       | Some current \<Rightarrow>
           py_bind (int_item r ''playcount'') (\<lambda>n.
           py_bind (int_item current ''playcount'') (\<lambda>m. Inr (m < n))))"

fun counter_deltas :: "counters option \<Rightarrow> counters \<Rightarrow> counters option" where
  "counter_deltas None c = None"
| "counter_deltas (Some (p0, j0, e0, t0)) (p, j, e, t) = Some (p - p0, j - j0, e - e0, t - t0)"

fun negative_counters :: "counters option \<Rightarrow> bool" where
  "negative_counters None = False"
| "negative_counters (Some (p, j, e, t)) \<longleftrightarrow> p < 0 \<or> j < 0 \<or> e < 0 \<or> t < 0"

definition import_player ::
    "int \<Rightarrow> counters option \<times> assistant_db \<Rightarrow> row \<Rightarrow> (counters option \<times> assistant_db) py" where
  "import_player import_id = (\<lambda>(previous, db) r.
     py_bind (cumulative r) (\<lambda>current.
     let deltas = counter_deltas previous current in
     py_bind (raise_if (negative_counters deltas)
       (SnapshotPairMismatch ''player cumulative counters moved backwards'')) (\<lambda>_.
     py_bind (int_item r ''date'') (\<lambda>date.
       Inr (Some current, db\<lparr>t_player_daily := AList.update date
         \<lparr>pd_cumulative = current, pd_delta = deltas, pd_import_id = import_id\<rparr> (t_player_daily db)\<rparr>)))))"

text \<open>The row of \<open>score_changes\<close> for a chart that moved; its primary key is the import and the
  chart.\<close>

definition change_row ::
    "int \<Rightarrow> chart_key \<Rightarrow> int \<Rightarrow> score_state_row \<Rightarrow> int \<Rightarrow> int option \<Rightarrow> int option \<Rightarrow> int option \<Rightarrow> score_change_row" where
  "change_row import_id key play_delta old clear ex minbp combo =
     \<lparr>sg_import_id = import_id, sg_sha256 = fst key, sg_mode = snd key, sg_playcount_delta = play_delta,
      sg_old_clear = ss_clear old, sg_new_clear = clear, sg_old_ex = ss_ex old, sg_new_ex = ex,
      sg_old_minbp = ss_minbp old, sg_new_minbp = minbp, sg_old_combo = ss_combo old,
      sg_new_combo = combo\<rparr>"

definition insert_change :: "score_change_row \<Rightarrow> assistant_db \<Rightarrow> assistant_db py" where
  "insert_change c db =
     (if list_ex (\<lambda>d. sg_import_id d = sg_import_id c \<and> sg_sha256 d = sg_sha256 c \<and> sg_mode d = sg_mode c)
           (t_score_changes db)
      then Inl (SqliteError ''UNIQUE constraint failed: score_changes'')
      else Inr (db\<lparr>t_score_changes := t_score_changes db @ [c]\<rparr>))"

definition note_change ::
    "int \<Rightarrow> bool \<Rightarrow> score_state_row option \<Rightarrow> row \<Rightarrow> chart_key \<Rightarrow> int option \<Rightarrow> int option \<Rightarrow> int option \<Rightarrow>
       nat \<times> assistant_db \<Rightarrow> (nat \<times> assistant_db) py" where
  "note_change import_id baseline previous r key current_ex minbp combo = (\<lambda>(lamp_updates, db).
     case previous of
       None \<Rightarrow> Inr (lamp_updates, db)
     | Some old \<Rightarrow>
         if baseline then Inr (lamp_updates, db)
         else
           py_bind (int_item r ''playcount'') (\<lambda>playcount.
           let play_delta = playcount - ss_playcount old in
           py_bind (raise_if (play_delta < 0)
             (SnapshotPairMismatch ''score playcount moved backwards'')) (\<lambda>_.
           py_bind (int_item r ''clear'') (\<lambda>clear.
           if 0 < play_delta \<or> clear \<noteq> ss_clear old \<or> current_ex \<noteq> ss_ex old \<or>
              minbp \<noteq> ss_minbp old \<or> combo \<noteq> ss_combo old
           then py_bind (insert_change (change_row import_id key play_delta old clear current_ex minbp combo) db)
                  (\<lambda>db1. Inr (lamp_updates + of_bool (ss_clear old < clear), db1))
           else Inr (lamp_updates, db)))))"

definition put_score_state :: "chart_key \<Rightarrow> score_state_row \<Rightarrow> assistant_db \<Rightarrow> assistant_db" where
  "put_score_state key st db = db\<lparr>t_score_state := AList.update key st (t_score_state db)\<rparr>"

definition write_score_state ::
    "runtime \<Rightarrow> int \<Rightarrow> row \<Rightarrow> chart_key \<Rightarrow> int option \<Rightarrow> int option \<Rightarrow> int option \<Rightarrow>
       nat \<times> assistant_db \<Rightarrow> (nat \<times> assistant_db) py" where
  "write_score_state rt import_id r key current_ex minbp combo = (\<lambda>(lamp_updates, db).
     py_bind (int_item r ''clear'') (\<lambda>clear.
     py_bind (optional_int (get_item r ''notes'')) (\<lambda>notes.
     py_bind (int_item r ''playcount'') (\<lambda>playcount.
     py_bind (int_item r ''date'') (\<lambda>date.
       Inr (lamp_updates, put_score_state key
         \<lparr>ss_clear = clear, ss_ex = current_ex, ss_minbp = minbp, ss_combo = combo, ss_notes = notes,
          ss_playcount = playcount, ss_played_at = date, ss_import_id = import_id,
          ss_payload_hash = payload_hash rt r\<rparr> db))))))"

definition import_score ::
    "runtime \<Rightarrow> int \<Rightarrow> bool \<Rightarrow> ((string \<times> int) \<times> score_state_row) list \<Rightarrow>
       nat \<times> assistant_db \<Rightarrow> row \<Rightarrow> (nat \<times> assistant_db) py" where
  "import_score rt import_id baseline previous_score progress r =
     py_bind (row_key rt r) (\<lambda>key.
     py_bind (ex_score r) (\<lambda>current_ex.
     py_bind (optional_int (get_item r ''combo'')) (\<lambda>combo.
     py_bind (optional_int (get_item r ''minbp'')) (\<lambda>minbp.
     py_bind (note_change import_id baseline (map_of previous_score key) r key current_ex minbp combo progress)
       (write_score_state rt import_id r key current_ex minbp combo)))))"

definition log_play ::
    "runtime \<Rightarrow> row option \<Rightarrow> int \<Rightarrow> int \<Rightarrow> row \<Rightarrow> score_progress \<Rightarrow> score_progress py" where
  "log_play rt aggregate_row lost now r = (\<lambda>(new_rows, lost_total, db).
     py_bind (derive_play rt r ''daily_snapshot'' daily_generation aggregate_row lost now) (\<lambda>play.
       let (created, db1) = insert_play False play db
       in Inr (if created then new_rows + 1 else new_rows,
               if created then lost_total + lost else lost_total, db1)))"

definition import_log ::
    "runtime \<Rightarrow> bool \<Rightarrow> (chart_key \<times> cursor) list \<Rightarrow> (chart_key \<times> row) list \<Rightarrow> int \<Rightarrow>
       score_progress \<Rightarrow> row \<Rightarrow> score_progress py" where
  "import_log rt baseline cursors aggregate now progress r =
     py_bind (row_key rt r) (\<lambda>key.
     py_bind (int_item r ''playcount'') (\<lambda>current_count.
     let old_cursor = map_of cursors key;
         old_count = (case old_cursor of None \<Rightarrow> 0 | Some (n, h) \<Rightarrow> n)
     in
     py_bind (raise_if (old_cursor \<noteq> None \<and> current_count < old_count)
       (SnapshotPairMismatch ''scoredatalog playcount moved backwards'')) (\<lambda>_.
     py_bind
       (if \<not> baseline \<and> (old_cursor = None \<or> old_count < current_count)
        then log_play rt (map_of aggregate key) (max 0 (current_count - old_count - 1)) now r progress
        else Inr progress)
       (\<lambda>(new_rows, lost_total, db).
     Inr (new_rows, lost_total,
       if old_cursor = None \<or> old_count \<le> current_count
       then put_cursor daily_generation key current_count (payload_hash rt r) db else db)))))"

subsection \<open>The import\<close>

definition add_import :: "daily_import_row \<Rightarrow> assistant_db \<Rightarrow> assistant_db" where
  "add_import r db =
     db\<lparr>t_imports := t_imports db @ [r\<lparr>di_id := t_next_import db\<rparr>], t_next_import := t_next_import db + 1\<rparr>"

definition finish_import :: "int \<Rightarrow> nat \<Rightarrow> int \<Rightarrow> assistant_db \<Rightarrow> assistant_db" where
  "finish_import i new_rows lost db =
     db\<lparr>t_imports := map (\<lambda>r. if di_id r = i then r\<lparr>di_new_play_rows := int new_rows, di_lost_events := lost\<rparr> else r)
        (t_imports db)\<rparr>"

definition import_store ::
    "runtime \<Rightarrow> daily_import_row \<Rightarrow> row list \<Rightarrow> row list \<Rightarrow> row list \<Rightarrow> (chart_key \<times> row) list \<Rightarrow>
       assistant_db \<Rightarrow> (daily_result \<times> assistant_db) py" where
  "import_store rt header player_rows score_rows log_rows aggregate db =
     (let now = di_imported_at header;
          baseline = (t_imports db = []);
          import_id = t_next_import db
      in
      py_bind (py_for (import_player import_id) (None, add_import header db) player_rows) (\<lambda>(_, db1).
      py_bind (py_for (import_score rt import_id baseline (t_score_state db)) (0, db1) score_rows)
        (\<lambda>(lamp_updates, db2).
      py_bind (py_for (import_log rt baseline (load_cursors db daily_generation) aggregate now)
        (0, 0, db2) log_rows) (\<lambda>(new_rows, lost_total, db3).
        Inr (\<lparr>dr_import_id = import_id, dr_effective_date = di_effective_date header,
            dr_baseline_judged = di_baseline_judged header,
            dr_cumulative_playcount = di_cumulative_playcount header, dr_new_play_rows = new_rows,
            dr_lost_events = lost_total, dr_lamp_updates = lamp_updates, dr_idempotent = False\<rparr>,
          finish_import import_id new_rows lost_total db3)))))"

definition snapshot_run ::
    "runtime \<Rightarrow> snapshot_env \<Rightarrow> string \<Rightarrow> string \<Rightarrow> string \<Rightarrow> assistant_db \<Rightarrow> (daily_result \<times> assistant_db) py" where
  "snapshot_run rt env score_path log_path destination db =
     py_bind (raise_if (destination = score_path \<or> destination = log_path)
       (ValueError ''assistant_db must not be either submitted source DB'')) (\<lambda>_.
     py_bind (validate_static (sn_exists env) score_path) (\<lambda>_.
     py_bind (validate_static (sn_exists env) log_path) (\<lambda>_.
     py_bind (py_mapM (source_signature (sn_before env)) [score_path, log_path]) (\<lambda>signatures_before.
     py_bind (file_sha256 rt (sn_bytes env) score_path) (\<lambda>score_hash.
     py_bind (file_sha256 rt (sn_bytes env) log_path) (\<lambda>log_hash.
     py_bind (check_store_name destination) (\<lambda>_.
     case existing_result db score_hash log_hash of
       Some result \<Rightarrow> Inr (result, db)
     | None \<Rightarrow>
         py_bind (sn_score env) (\<lambda>score.
         py_bind (read_score score) (\<lambda>score_rows.
         py_bind (read_player score) (\<lambda>player_rows.
         py_bind (sn_log env) (\<lambda>log.
         py_bind (read_scoredatalog log) (\<lambda>log_rows.
         py_bind (py_mapM (source_signature (sn_after env)) [score_path, log_path]) (\<lambda>signatures_after.
         py_bind (raise_if (signatures_after \<noteq> signatures_before)
           (SnapshotPairMismatch ''submitted DB changed during immutable read'')) (\<lambda>_.
         py_bind (raise_if (player_rows = [])
           (SnapshotPairMismatch ''score.db.player contains no cumulative rows'')) (\<lambda>_.
         py_bind (aggregate_dict rt score_rows) (\<lambda>aggregate.
         py_bind (py_mapM (incoherent rt aggregate) log_rows) (\<lambda>newer.
         py_bind (raise_if (True \<in> set newer)
           (SnapshotPairMismatch ''scoredatalog.db is newer than score.db'')) (\<lambda>_.
         py_bind (cumulative (last player_rows)) (\<lambda>(total_playcount, total_judged, _, _).
         py_bind (int_item (last player_rows) ''date'') (\<lambda>date.
         py_bind (jst_day date) (\<lambda>effective_date.
           import_store rt
             \<lparr>di_id = 0, di_imported_at = sn_now env, di_effective_date = effective_date,
              di_score_sha256 = score_hash, di_scoredatalog_sha256 = log_hash,
              di_baseline_judged = total_judged, di_cumulative_playcount = total_playcount,
              di_new_play_rows = 0, di_lost_events = 0\<rparr>
             player_rows score_rows log_rows aggregate db)))))))))))))))))))))"

subsection \<open>What each loop touches\<close>

definition but_player :: "assistant_db \<Rightarrow> assistant_db" where
  "but_player db = db\<lparr>t_player_daily := []\<rparr>"

definition but_scores :: "assistant_db \<Rightarrow> assistant_db" where
  "but_scores db = db\<lparr>t_score_state := [], t_score_changes := []\<rparr>"

definition but_plays :: "assistant_db \<Rightarrow> assistant_db" where
  "but_plays db = db\<lparr>t_plays := [], t_next_play := 0, t_cursors := []\<rparr>"

lemma but_playerD:
  assumes "but_player db = but_player db'"
  shows "t_imports db = t_imports db'" "t_next_import db = t_next_import db'" "t_plays db = t_plays db'"
    "t_cursors db = t_cursors db'" "t_collector db = t_collector db'" "t_score_changes db = t_score_changes db'"
    "t_score_state db = t_score_state db'" "t_next_play db = t_next_play db'" "t_replays db = t_replays db'"
    "t_next_replay db = t_next_replay db'" "t_scans db = t_scans db'" "t_charts db = t_charts db'"
  using assms by (cases db; cases db'; simp add: but_player_def)+

lemma but_scoresD:
  assumes "but_scores db = but_scores db'"
  shows "t_imports db = t_imports db'" "t_next_import db = t_next_import db'" "t_plays db = t_plays db'"
    "t_cursors db = t_cursors db'" "t_collector db = t_collector db'" "t_player_daily db = t_player_daily db'"
    "t_next_play db = t_next_play db'" "t_replays db = t_replays db'"
    "t_next_replay db = t_next_replay db'" "t_scans db = t_scans db'" "t_charts db = t_charts db'"
  using assms by (cases db; cases db'; simp add: but_scores_def)+

lemma but_playsD:
  assumes "but_plays db = but_plays db'"
  shows "t_imports db = t_imports db'" "t_next_import db = t_next_import db'"
    "t_collector db = t_collector db'" "t_score_changes db = t_score_changes db'"
    "t_score_state db = t_score_state db'" "t_player_daily db = t_player_daily db'" "t_replays db = t_replays db'"
    "t_next_replay db = t_next_replay db'" "t_scans db = t_scans db'" "t_charts db = t_charts db'"
  using assms by (cases db; cases db'; simp add: but_plays_def)+

lemma but_plays_upd [simp]:
  "but_plays (snd (insert_play u p db)) = but_plays db"
  "but_plays (put_cursor g k n h db) = but_plays db"
  by (simp_all add: but_plays_def insert_play_def add_play_def put_cursor_def upsert_cursor_def)

lemma import_player_frame:
  assumes "py_for (import_player i) (None, db) rows = Inr (prev, db')"
  shows "but_player db' = but_player db"
proof -
  have "but_player (snd (prev, db')) = but_player db"
    using assms
    by (rule py_for_invariant)
      (auto simp: import_player_def py_bind_Inr_iff Let_def but_player_def)
  then show ?thesis by simp
qed

definition lamp_tracked :: "int \<Rightarrow> assistant_db \<Rightarrow> nat \<times> assistant_db \<Rightarrow> bool" where
  "lamp_tracked i db = (\<lambda>(n, d). but_scores d = but_scores db \<and> lamp_changes d i = n + lamp_changes db i \<and>
     (\<forall>c\<in>set (t_score_changes d). c \<in> set (t_score_changes db) \<or> sg_import_id c = i))"

lemma insert_change_Inr:
  "insert_change c db = Inr db' \<Longrightarrow> db' = db\<lparr>t_score_changes := t_score_changes db @ [c]\<rparr>"
  by (auto simp: insert_change_def split: if_splits)

lemma lamp_tracked_state: "lamp_tracked i db (n, d) \<Longrightarrow> lamp_tracked i db (n, d\<lparr>t_score_state := s\<rparr>)"
  by (simp add: lamp_tracked_def but_scores_def lamp_changes_def)

lemma lamp_tracked_change:
  "lamp_tracked i db (n, d) \<Longrightarrow> insert_change c d = Inr d' \<Longrightarrow> sg_import_id c = i \<Longrightarrow>
     lamp_tracked i db (n + of_bool (sg_old_clear c < sg_new_clear c), d')"
  by (auto simp: lamp_tracked_def but_scores_def lamp_changes_def dest!: insert_change_Inr)

lemma note_change_shape:
  assumes "note_change i baseline previous r key ex minbp combo (n, d) = Inr (n1, d1)"
  shows "(n1, d1) = (n, d) \<or> (\<exists>c. \<not> baseline \<and> insert_change c d = Inr d1 \<and> sg_import_id c = i \<and>
        n1 = n + of_bool (sg_old_clear c < sg_new_clear c))"
proof (cases previous)
  case None
  then show ?thesis using assms by (simp add: note_change_def)
next
  case (Some old)
  show ?thesis
  proof (cases "baseline \<or> (n1, d1) = (n, d)")
    case True
    then show ?thesis using assms Some by (auto simp: note_change_def)
  next
    case False
    then obtain delta clear where "insert_change (change_row i key delta old clear ex minbp combo) d = Inr d1"
        and "n1 = n + of_bool (ss_clear old < clear)"
      using assms Some by (auto simp: note_change_def py_bind_Inr_iff Let_def split: if_splits)
    then show ?thesis using False
      by (intro disjI2 exI[of _ "change_row i key delta old clear ex minbp combo"]) (simp add: change_row_def)
  qed
qed

lemma import_score_step:
  assumes "import_score rt i baseline prev s r = Inr s'" and "lamp_tracked i db s"
  shows "lamp_tracked i db s' \<and> (baseline \<longrightarrow> fst s' = fst s \<and> t_score_changes (snd s') = t_score_changes (snd s))"
proof -
  obtain n d where s: "s = (n, d)" by fastforce
  obtain previous key ex minbp combo x where
    x: "note_change i baseline previous r key ex minbp combo (n, d) = Inr x"
    and w: "write_score_state rt i r key ex minbp combo x = Inr s'"
    using assms(1) unfolding s import_score_def py_bind_Inr_iff by blast
  obtain n1 d1 where x': "x = (n1, d1)" by fastforce
  note noted = x[unfolded x']
  obtain st where s': "s' = (n1, put_score_state key st d1)"
    using w unfolding x' by (auto simp: write_score_state_def py_bind_Inr_iff)
  show ?thesis using note_change_shape[OF noted]
  proof
    assume "(n1, d1) = (n, d)"
    then show ?thesis using assms(2) lamp_tracked_state by (simp add: s s' put_score_state_def)
  next
    assume "\<exists>c. \<not> baseline \<and> insert_change c d = Inr d1 \<and> sg_import_id c = i \<and>
        n1 = n + of_bool (sg_old_clear c < sg_new_clear c)"
    then obtain c where c: "\<not> baseline" "insert_change c d = Inr d1" "sg_import_id c = i"
        "n1 = n + of_bool (sg_old_clear c < sg_new_clear c)" by blast
    have "lamp_tracked i db (n1, d1)" unfolding c(4)
      by (rule lamp_tracked_change[OF assms(2)[unfolded s] c(2,3)])
    then show ?thesis using lamp_tracked_state c(1) by (simp add: s' put_score_state_def)
  qed
qed

lemma import_score_frame:
  assumes "py_for (import_score rt i baseline prev) (0, db) rows = Inr (n, db')"
  shows "lamp_tracked i db (n, db') \<and> (baseline \<longrightarrow> n = 0 \<and> t_score_changes db' = t_score_changes db)"
proof -
  have "lamp_tracked i db (n, db') \<and>
     (baseline \<longrightarrow> fst (n, db') = 0 \<and> t_score_changes (snd (n, db')) = t_score_changes db)"
    using assms
  proof (rule py_for_invariant)
    show "lamp_tracked i db (0, db) \<and> (baseline \<longrightarrow> fst (0, db) = 0 \<and> t_score_changes (snd (0, db)) = t_score_changes db)"
      by (simp add: lamp_tracked_def)
  next
    fix s r s'
    assume "lamp_tracked i db s \<and> (baseline \<longrightarrow> fst s = 0 \<and> t_score_changes (snd s) = t_score_changes db)"
      and "import_score rt i baseline prev s r = Inr s'"
    then show "lamp_tracked i db s' \<and> (baseline \<longrightarrow> fst s' = 0 \<and> t_score_changes (snd s') = t_score_changes db)"
      using import_score_step by fastforce
  qed
  then show ?thesis by simp
qed

lemma log_play_shape:
  assumes "log_play rt agg lost now r (n, l, d) = Inr (n', l', d')"
  obtains p where "derive_play rt r ''daily_snapshot'' daily_generation agg lost now = Inr p"
    and "d' = snd (insert_play False p d)"
  using assms by (auto simp: log_play_def py_bind_Inr_iff split_beta Let_def)

lemma import_log_shape:
  assumes "import_log rt baseline cs agg now (n, l, d) r = Inr (n', l', d')"
  obtains d1 g k m h where "d' = d1 \<or> d' = put_cursor daily_generation k m h d1"
    and "(n', l', d1) = (n, l, d) \<or> \<not> baseline \<and> (\<exists>a lost. log_play rt a lost now r (n, l, d) = Inr (n', l', d1))"
proof -
  obtain key m where key: "row_key rt r = Inr key" and m: "int_item r ''playcount'' = Inr m"
    using assms by (auto simp: import_log_def py_bind_Inr_iff Let_def)
  let ?old = "case map_of cs key of None \<Rightarrow> 0 | Some (n, h) \<Rightarrow> n"
  let ?lost = "max 0 (m - ?old - 1)" and ?taken = "\<not> baseline \<and> (map_of cs key = None \<or> ?old < m)"
  obtain x where one: "(if ?taken then log_play rt (map_of agg key) ?lost now r (n, l, d) else Inr (n, l, d)) = Inr x"
    and two: "(case x of (n', l', d1) \<Rightarrow> Inr (n', l', if map_of cs key = None \<or> ?old \<le> m
        then put_cursor daily_generation key m (payload_hash rt r) d1 else d1)) = (Inr (n', l', d') :: score_progress py)"
    using assms unfolding import_log_def key m py_bind_simps Let_def py_bind_Inr_iff by blast
  obtain d1 where d1: "x = (n', l', d1)" "d' = d1 \<or> d' = put_cursor daily_generation key m (payload_hash rt r) d1"
    using two by (cases x) (auto split: if_splits)
  show ?thesis using that[OF d1(2)] one d1(1) by (cases ?taken) auto
qed

lemma import_log_frame:
  assumes "py_for (import_log rt baseline cs agg now) (0, 0, db) rows = Inr (n, l, db')"
  shows "but_plays db' = but_plays db \<and> (baseline \<longrightarrow> n = 0 \<and> l = 0 \<and> t_plays db' = t_plays db)"
proof -
  let ?P = "\<lambda>(n, l, d). but_plays d = but_plays db \<and> (baseline \<longrightarrow> n = (0 :: nat) \<and> l = (0 :: int) \<and> t_plays d = t_plays db)"
  have "?P (n, l, db')" using assms
  proof (rule py_for_invariant)
    show "?P (0, 0, db)" by simp
  next
    fix s r s'
    assume P: "?P s" and step: "import_log rt baseline cs agg now s r = Inr s'"
    obtain a b d where s: "s = (a, b, d)" by (metis surj_pair)
    obtain a' b' d' where s': "s' = (a', b', d')" by (metis surj_pair)
    from step obtain d1 k m h where "d' = d1 \<or> d' = put_cursor daily_generation k m h d1"
      and "(a', b', d1) = (a, b, d) \<or> \<not> baseline \<and> (\<exists>x lost. log_play rt x lost now r (a, b, d) = Inr (a', b', d1))"
      unfolding s s' by (rule import_log_shape)
    then show "?P s'" using P unfolding s s' by (auto elim!: log_play_shape)
  qed
  then show ?thesis by simp
qed

subsection \<open>The whole import\<close>

definition imports_ok :: "assistant_db \<Rightarrow> bool" where
  "imports_ok db \<longleftrightarrow> (\<forall>r\<in>set (t_imports db). di_id r < t_next_import db) \<and>
     (\<forall>c\<in>set (t_score_changes db). sg_import_id c < t_next_import db)"

lemma import_store_shape:
  assumes "import_store rt header players scores logs agg db = Inr (res, db')"
  obtains prev db1 lamps db2 n l db3 where
    "py_for (import_player (t_next_import db)) (None, add_import header db) players = Inr (prev, db1)"
    "py_for (import_score rt (t_next_import db) (t_imports db = []) (t_score_state db)) (0, db1) scores = Inr (lamps, db2)"
    "py_for (import_log rt (t_imports db = []) (load_cursors db daily_generation) agg (di_imported_at header))
       (0, 0, db2) logs = Inr (n, l, db3)"
    "res = \<lparr>dr_import_id = t_next_import db, dr_effective_date = di_effective_date header,
        dr_baseline_judged = di_baseline_judged header,
        dr_cumulative_playcount = di_cumulative_playcount header, dr_new_play_rows = n,
        dr_lost_events = l, dr_lamp_updates = lamps, dr_idempotent = False\<rparr>"
    "db' = finish_import (t_next_import db) n l db3"
  using assms by (auto simp: import_store_def py_bind_Inr_iff Let_def)

lemma add_import_frame [simp]:
  "t_plays (add_import h db) = t_plays db" "t_cursors (add_import h db) = t_cursors db"
  "t_collector (add_import h db) = t_collector db" "t_score_changes (add_import h db) = t_score_changes db"
  "t_next_play (add_import h db) = t_next_play db" "t_replays (add_import h db) = t_replays db"
  "t_next_replay (add_import h db) = t_next_replay db" "t_scans (add_import h db) = t_scans db"
  "t_charts (add_import h db) = t_charts db"
  by (simp_all add: add_import_def)

lemma finish_import_frame [simp]:
  "t_plays (finish_import i n l db) = t_plays db" "t_cursors (finish_import i n l db) = t_cursors db"
  "t_collector (finish_import i n l db) = t_collector db" "t_score_changes (finish_import i n l db) = t_score_changes db"
  "t_next_play (finish_import i n l db) = t_next_play db" "t_replays (finish_import i n l db) = t_replays db"
  "t_next_replay (finish_import i n l db) = t_next_replay db" "t_scans (finish_import i n l db) = t_scans db"
  "t_charts (finish_import i n l db) = t_charts db" "t_next_import (finish_import i n l db) = t_next_import db"
  by (simp_all add: finish_import_def)

lemma import_store_facts:
  assumes run: "import_store rt header players scores logs agg db = Inr (res, db')" and ok: "imports_ok db"
  shows "t_imports db' = t_imports db @ [header\<lparr>di_id := t_next_import db, di_new_play_rows := int (dr_new_play_rows res),
      di_lost_events := dr_lost_events res\<rparr>]"
    and "t_next_import db' = t_next_import db + 1"
    and "imports_ok db'"
    and "lamp_changes db' (t_next_import db) = dr_lamp_updates res"
    and "t_imports db = [] \<Longrightarrow> dr_new_play_rows res = 0 \<and> dr_lost_events res = 0 \<and> dr_lamp_updates res = 0 \<and>
      t_plays db' = t_plays db \<and> t_score_changes db' = t_score_changes db"
proof -
  obtain prev db1 lamps db2 n l db3 where p:
    "py_for (import_player (t_next_import db)) (None, add_import header db) players = Inr (prev, db1)"
    "py_for (import_score rt (t_next_import db) (t_imports db = []) (t_score_state db)) (0, db1) scores = Inr (lamps, db2)"
    "py_for (import_log rt (t_imports db = []) (load_cursors db daily_generation) agg (di_imported_at header))
       (0, 0, db2) logs = Inr (n, l, db3)"
    "res = \<lparr>dr_import_id = t_next_import db, dr_effective_date = di_effective_date header,
        dr_baseline_judged = di_baseline_judged header,
        dr_cumulative_playcount = di_cumulative_playcount header, dr_new_play_rows = n,
        dr_lost_events = l, dr_lamp_updates = lamps, dr_idempotent = False\<rparr>"
    "db' = finish_import (t_next_import db) n l db3"
    using run by (rule import_store_shape)
  let ?i = "t_next_import db"
  note one = but_playerD[OF import_player_frame[OF p(1)]]
  have two': "lamp_tracked ?i db1 (lamps, db2)" and base2: "t_imports db = [] \<Longrightarrow> lamps = 0 \<and> t_score_changes db2 = t_score_changes db1"
    using import_score_frame[OF p(2)] by simp_all
  then have tracked: "but_scores db2 = but_scores db1" "lamp_changes db2 ?i = lamps + lamp_changes db1 ?i"
      "\<forall>c\<in>set (t_score_changes db2). c \<in> set (t_score_changes db1) \<or> sg_import_id c = ?i"
    by (simp_all add: lamp_tracked_def)
  note two = but_scoresD[OF tracked(1)]
  have three': "but_plays db3 = but_plays db2" and base3: "t_imports db = [] \<Longrightarrow> n = 0 \<and> l = 0 \<and> t_plays db3 = t_plays db2"
    using import_log_frame[OF p(3)] by simp_all
  note three = but_playsD[OF three']
  have old_ids: "\<forall>r\<in>set (t_imports db). di_id r < ?i" "\<forall>c\<in>set (t_score_changes db). sg_import_id c < ?i"
    using ok by (simp_all add: imports_ok_def)
  have "map (\<lambda>r. if di_id r = ?i then r\<lparr>di_new_play_rows := int n, di_lost_events := l\<rparr> else r) (t_imports db) = t_imports db"
    using old_ids(1) by (intro map_idI) auto
  then show added: "t_imports db' = t_imports db @ [header\<lparr>di_id := ?i, di_new_play_rows := int (dr_new_play_rows res),
      di_lost_events := dr_lost_events res\<rparr>]"
    by (simp add: p(4,5) finish_import_def three two one) (simp add: add_import_def)
  show next_id: "t_next_import db' = ?i + 1" by (simp add: p(5) three two one) (simp add: add_import_def)
  have changes: "\<forall>c\<in>set (t_score_changes db'). sg_import_id c < ?i + 1"
    using tracked(3) old_ids(2) by (fastforce simp: p(5) three one)
  show "imports_ok db'" using old_ids(1) changes by (auto simp: imports_ok_def added next_id)
  have "lamp_changes db1 ?i = 0" using old_ids(2) by (auto simp: lamp_changes_def one filter_empty_conv)
  then show "lamp_changes db' ?i = dr_lamp_updates res"
    using tracked(2) by (simp add: p(4,5) lamp_changes_def three)
  show "dr_new_play_rows res = 0 \<and> dr_lost_events res = 0 \<and> dr_lamp_updates res = 0 \<and>
      t_plays db' = t_plays db \<and> t_score_changes db' = t_score_changes db" if "t_imports db = []"
    using base2[OF that] base3[OF that] by (simp add: p(4,5) two one three)
qed

subsection \<open>The history of the collector\<close>

lemma store_ok_cong:
  assumes "t_plays db' = t_plays db" "t_next_play db' = t_next_play db" "t_cursors db' = t_cursors db"
    "t_scans db' = t_scans db" "t_charts db' = t_charts db" "t_collector db' = t_collector db"
    "t_replays db' = t_replays db" "t_next_replay db' = t_next_replay db"
  shows "store_ok db' = store_ok db"
  using assms by (simp add: store_ok_def plays_ok_def keyed_ok_def replays_ok_def play_ids_def)

lemma histories_ok_cong:
  "t_plays db' = t_plays db \<Longrightarrow> t_cursors db' = t_cursors db \<Longrightarrow> histories_ok db' = histories_ok db"
  by (simp add: histories_ok_def chart_plays_def)

definition collector_untouched :: "assistant_db \<Rightarrow> assistant_db \<Rightarrow> bool" where
  "collector_untouched db d \<longleftrightarrow> histories_ok d \<and> store_ok d \<and> t_collector d = t_collector db \<and>
     (\<forall>g k. 0 \<le> g \<longrightarrow> map_of (t_cursors d) (g, k) = map_of (t_cursors db) (g, k) \<and>
        chart_plays d g k = chart_plays db g k)"

lemma collector_untouched_insert:
  assumes "collector_untouched db d" and "pl_source_generation (r_play p) < 0"
  shows "collector_untouched db (snd (insert_play False p d))"
  using assms insert_negative[OF assms(2)] histories_negative[OF _ assms(2)]
  unfolding collector_untouched_def by (auto simp del: insert_play_frame(7))

lemma collector_untouched_cursor:
  assumes "collector_untouched db d" and "g < 0"
  shows "collector_untouched db (put_cursor g k n h d)"
proof -
  have same: "map_of (t_cursors (put_cursor g k n h d)) (g', k') = map_of (t_cursors d) (g', k')" if "0 \<le> g'" for g' k'
    using that assms(2) by (simp add: cursors_put_cursor)
  have "histories_ok (put_cursor g k n h d)" unfolding histories_ok_def
  proof (intro allI impI)
    fix g' :: int and k' :: chart_key
    assume "0 \<le> g'"
    then show "history_ok (map_of (t_cursors (put_cursor g k n h d)) (g', k')) (chart_plays (put_cursor g k n h d) g' k')"
      using histories_okD[of d g' k'] assms(1) by (simp add: same collector_untouched_def)
  qed
  moreover have "store_ok (put_cursor g k n h d)"
    using assms(1) unfolding put_cursor_def collector_untouched_def by blast
  ultimately show ?thesis using assms(1) same unfolding collector_untouched_def by simp
qed

lemma import_log_untouched:
  assumes "py_for (import_log rt baseline cs agg now) (0, 0, db) rows = Inr (n, l, db')"
    and "histories_ok db" and "store_ok db"
  shows "collector_untouched db db'"
proof -
  let ?P = "\<lambda>(n, l, d). collector_untouched db d"
  have "?P (n, l, db')" using assms(1)
  proof (rule py_for_invariant)
    show "?P (0, 0, db)" using assms(2,3) by (simp add: collector_untouched_def)
  next
    fix s r s'
    assume P: "?P s" and step: "import_log rt baseline cs agg now s r = Inr s'"
    obtain a b d where s: "s = (a, b, d)" by (metis surj_pair)
    obtain a' b' d' where s': "s' = (a', b', d')" by (metis surj_pair)
    from step obtain d1 k m h where d': "d' = d1 \<or> d' = put_cursor daily_generation k m h d1"
      and d1: "(a', b', d1) = (a, b, d) \<or> \<not> baseline \<and> (\<exists>x lost. log_play rt x lost now r (a, b, d) = Inr (a', b', d1))"
      unfolding s s' by (rule import_log_shape)
    have "collector_untouched db d1" using d1
    proof
      assume "(a', b', d1) = (a, b, d)"
      then show ?thesis using P by (simp add: s)
    next
      assume "\<not> baseline \<and> (\<exists>x lost. log_play rt x lost now r (a, b, d) = Inr (a', b', d1))"
      then obtain p x lost where p: "derive_play rt r ''daily_snapshot'' daily_generation x lost now = Inr p"
          and "d1 = snd (insert_play False p d)"
        by (auto elim: log_play_shape)
      moreover have "pl_source_generation (r_play p) < 0"
        using derive_play_fields(6)[OF p] by (simp add: daily_generation_def)
      ultimately show ?thesis using P collector_untouched_insert by (simp add: s)
    qed
    then show "?P s'" using d' collector_untouched_cursor[of db d1 daily_generation k m h]
      by (auto simp: s' daily_generation_def)
  qed
  then show ?thesis by simp
qed

lemma import_store_untouched:
  assumes "import_store rt header players scores logs agg db = Inr (res, db')" and "poller_inv db"
  shows "collector_untouched db db'"
proof -
  obtain prev db1 lamps db2 n l db3 where p:
    "py_for (import_player (t_next_import db)) (None, add_import header db) players = Inr (prev, db1)"
    "py_for (import_score rt (t_next_import db) (t_imports db = []) (t_score_state db)) (0, db1) scores = Inr (lamps, db2)"
    "py_for (import_log rt (t_imports db = []) (load_cursors db daily_generation) agg (di_imported_at header))
       (0, 0, db2) logs = Inr (n, l, db3)"
    "db' = finish_import (t_next_import db) n l db3"
    using assms(1) by (rule import_store_shape)
  note one = but_playerD[OF import_player_frame[OF p(1)]]
  have "but_scores db2 = but_scores db1" using import_score_frame[OF p(2)] by (simp add: lamp_tracked_def)
  note two = but_scoresD[OF this]
  have ok: "histories_ok db" "store_ok db" using assms(2) by (simp_all add: poller_inv_def)
  have "store_ok db2 = store_ok db" by (rule store_ok_cong) (simp_all add: two one)
  moreover have "histories_ok db2 = histories_ok db" by (rule histories_ok_cong) (simp_all add: two one)
  ultimately have "collector_untouched db2 db3" using import_log_untouched[OF p(3)] ok by simp
  moreover have "store_ok db' = store_ok db3" by (rule store_ok_cong) (simp_all add: p(4))
  moreover have "histories_ok db' = histories_ok db3" by (rule histories_ok_cong) (simp_all add: p(4))
  ultimately show ?thesis by (simp add: collector_untouched_def p(4) two one chart_plays_def)
qed

lemma collector_untouched_inv:
  assumes "collector_untouched db db'" and "poller_inv db"
  shows "poller_inv db'"
proof -
  have gen: "collector_generation db' = collector_generation db"
    using assms(1) by (simp add: collector_untouched_def collector_generation_def)
  have old: "generations_ok db" using assms(2) by (simp add: poller_inv_def)
  have "g \<le> collector_generation db" if "map_of (t_cursors db') (g, k) \<noteq> None" for g k
  proof (cases "0 \<le> g")
    case True
    then have "map_of (t_cursors db) (g, k) \<noteq> None" using that assms(1) unfolding collector_untouched_def by metis
    then show ?thesis using old unfolding generations_ok_def by blast
  next
    case False
    then show ?thesis using old unfolding generations_ok_def by linarith
  qed
  then have "generations_ok db'" using old unfolding generations_ok_def gen by blast
  then show ?thesis using assms(1) by (simp add: poller_inv_def collector_untouched_def)
qed

subsection \<open>A concrete pair\<close>

definition sample_player_row :: row where
  "sample_player_row = [(''date'', PInt 1000), (''playcount'', PInt 5), (''playtime'', PInt 60), (''epg'', PInt 7)]"

definition sample_snapshot_env :: snapshot_env where
  "sample_snapshot_env = \<lparr>sn_exists = (\<lambda>_. False), sn_before = sample_fs 1, sn_after = sample_fs 1,
     sn_bytes = (\<lambda>_. Inr ''bytes''),
     sn_score = Inr [(''score'', (sample_table 1)\<lparr>tb_rows := []\<rparr>), (''player'', \<lparr>tb_columns = player_required,
        tb_key_positions = [], tb_rows = [sample_player_row]\<rparr>)],
     sn_log = Inr [(''scoredatalog'', (sample_table 1)\<lparr>tb_rows := []\<rparr>)], sn_now = 70\<rparr>"

definition sample_header :: daily_import_row where
  "sample_header = \<lparr>di_id = 0, di_imported_at = 70, di_effective_date = 0, di_score_sha256 = ''bytes'',
     di_scoredatalog_sha256 = ''bytes'', di_baseline_judged = 7, di_cumulative_playcount = 5, di_new_play_rows = 0,
     di_lost_events = 0\<rparr>"

lemma sample_cumulative: "cumulative sample_player_row = Inr (5, 7, 0, 60)"
  by (simp add: cumulative_def sum_columns_def judgement_columns_def empty_poor_columns_def int_or_zero_def
      get_item_def sample_player_row_def int_item_def item_def)

lemma sample_player_date: "int_item sample_player_row ''date'' = Inr 1000"
  by (simp add: sample_player_row_def int_item_def item_def)

lemma sample_import_store:
  "\<exists>res db'. import_store sample_runtime sample_header [sample_player_row] [] [] [] empty_db = Inr (res, db')"
  by (simp add: import_store_def Let_def import_player_def sample_cumulative sample_player_date)

lemma sample_player_columns: "py_mapM quoted_identifier player_required = Inr (map (\<lambda>s. CHR 0x22 # s @ [CHR 0x22]) player_required)"
proof -
  have "list_all is_identifier player_required" by code_simp
  then have "\<forall>s\<in>set player_required. is_identifier s" by (simp add: list_all_iff)
  then show ?thesis by (simp add: py_mapM_Inr_iff quoted_identifier_def)
qed

lemma sample_snapshot_reads:
  "read_scoredatalog [(''scoredatalog'', (sample_table 1)\<lparr>tb_rows := []\<rparr>)] = Inr []"
  "read_score [(''score'', (sample_table 1)\<lparr>tb_rows := []\<rparr>), x] = Inr []"
  "read_player [x, (''player'', \<lparr>tb_columns = player_required, tb_key_positions = [],
     tb_rows = [sample_player_row]\<rparr>)] = (if fst x = ''player'' then read_player [x] else Inr [sample_player_row])"
proof -
  have "sort [(1 :: int, ''sha256''), (2, ''mode'')] = [(1, ''sha256''), (2, ''mode'')]" by code_simp
  then show "read_scoredatalog [(''scoredatalog'', (sample_table 1)\<lparr>tb_rows := []\<rparr>)] = Inr []"
    "read_score [(''score'', (sample_table 1)\<lparr>tb_rows := []\<rparr>), x] = Inr []"
    by (simp_all add: read_scoredatalog_def read_score_def require_overwrite_scoredatalog_schema_def
        primary_key_columns_def select_rows_def table_column_names_def sample_table_names sample_columns
        table_of_def sample_table_def require_columns_def missing_columns_def order_by_def
        del: sort_key_simps)
      (simp_all add: sort_key_simps)
  have "quoted_identifier ''player'' = Inr (CHR 0x22 # ''player'' @ [CHR 0x22])" by code_simp
  then show "read_player [x, (''player'', \<lparr>tb_columns = player_required, tb_key_positions = [],
     tb_rows = [sample_player_row]\<rparr>)] = (if fst x = ''player'' then read_player [x] else Inr [sample_player_row])"
    by (cases x) (simp add: read_player_def select_rows_def table_column_names_def sample_player_columns
        table_of_def require_columns_def missing_columns_def order_by_def)
qed

lemma sample_snapshot_run:
  "\<exists>res db'. snapshot_run sample_runtime sample_snapshot_env ''scoredatalog.db'' ''scoredatalog.db'' ''assistant.db'' empty_db =
     Inr (res, db')"
proof -
  have "check_store_name ''assistant.db'' = Inr ()"
    by (simp add: check_store_name_def path_name_def beatoraja_db_names_def)
  moreover have "existing_result empty_db h1 h2 = None" for h1 h2
    by (simp add: existing_result_def empty_db_def)
  moreover have "jst_day 1000 = Inr 0" by (simp add: jst_day_def)
  ultimately show ?thesis using sample_import_store
    by (simp add: snapshot_run_def sample_snapshot_env_def validate_static_def sample_source_signature(1)
        file_sha256_def sample_runtime_def sample_snapshot_reads aggregate_dict_def sample_cumulative
        sample_player_date sample_header_def)
qed

subsection \<open>The properties\<close>

lemma snapshot_run_new:
  assumes "snapshot_run rt env score_path log_path dest db = Inr (res, db')"
    and "file_sha256 rt (sn_bytes env) score_path = Inr h1" and "file_sha256 rt (sn_bytes env) log_path = Inr h2"
    and "existing_result db h1 h2 = None"
  obtains header players scores logs agg where
    "import_store rt header players scores logs agg db = Inr (res, db')"
    "di_score_sha256 header = h1" "di_scoredatalog_sha256 header = h2"
  using assms
  by (auto simp: snapshot_run_def py_bind_Inr_iff)

text \<open>A pair is imported once. After an import, importing files with the same contents again, whatever their
  tables are then found to hold, returns the first result marked idempotent, lamp count
  included, and leaves the database as it is.\<close>

theorem daily_import_idempotent:
  assumes "snapshot_run rt env score_path log_path dest db = Inr (res, db')" and "imports_ok db"
    and "file_sha256 rt (sn_bytes env) score_path = Inr h1" and "file_sha256 rt (sn_bytes env) log_path = Inr h2"
    and "existing_result db h1 h2 = None"
    and "sn_bytes env2 = sn_bytes env" and "sn_exists env2 = sn_exists env" and "sn_before env2 = sn_before env"
  shows "snapshot_run rt env2 score_path log_path dest db' = Inr (res\<lparr>dr_idempotent := True\<rparr>, db')"
proof -
  obtain header players scores logs agg where
    s: "import_store rt header players scores logs agg db = Inr (res, db')"
    and h: "di_score_sha256 header = h1" "di_scoredatalog_sha256 header = h2"
    by (rule snapshot_run_new[OF assms(1,3,4,5)])
  note facts = import_store_facts[OF s assms(2)]
  have res: "dr_import_id res = t_next_import db" "dr_effective_date res = di_effective_date header"
      "dr_baseline_judged res = di_baseline_judged header"
      "dr_cumulative_playcount res = di_cumulative_playcount header"
    using s by (auto elim!: import_store_shape)
  have find_last: "List.find P (xs @ [y]) = Some y" if "List.find P xs = None" "P y" for P xs and y :: daily_import_row
    using that by (induction xs) (auto split: if_splits)
  have "List.find (\<lambda>r. di_score_sha256 r = h1 \<and> di_scoredatalog_sha256 r = h2) (t_imports db) = None"
    using assms(5) by (simp add: existing_result_def)
  then have "existing_result db' h1 h2 = Some (res\<lparr>dr_idempotent := True\<rparr>)"
    using h facts(4) res by (simp add: existing_result_def facts(1) find_last)
  then show ?thesis using assms(1,3,4)
    by (auto simp: snapshot_run_def py_bind_Inr_iff assms(6-8))
qed

theorem daily_import_idempotent_witness:
  "\<exists>res db'. snapshot_run sample_runtime sample_snapshot_env ''scoredatalog.db'' ''scoredatalog.db'' ''assistant.db'' db' =
     Inr (res\<lparr>dr_idempotent := True\<rparr>, db')"
proof -
  obtain res db' where run: "snapshot_run sample_runtime sample_snapshot_env ''scoredatalog.db'' ''scoredatalog.db''
      ''assistant.db'' empty_db = Inr (res, db')" using sample_snapshot_run by blast
  have "imports_ok empty_db" by (simp add: imports_ok_def empty_db_def)
  moreover have "file_sha256 sample_runtime (sn_bytes sample_snapshot_env) p = Inr ''bytes''" for p
    by (simp add: file_sha256_def sample_snapshot_env_def sample_runtime_def)
  moreover have "existing_result empty_db ''bytes'' ''bytes'' = None" by (simp add: existing_result_def empty_db_def)
  ultimately show ?thesis using daily_import_idempotent[OF run] by blast
qed

text \<open>The first import only sets the baseline. On a store without imports it records no play, no lost event, no lamp update and
  no score change, whatever the two databases hold.\<close>

theorem baseline_import_records_no_play:
  assumes "import_store rt header players scores logs agg db = Inr (res, db')" and "imports_ok db"
    and "t_imports db = []"
  shows "dr_new_play_rows res = 0 \<and> dr_lost_events res = 0 \<and> dr_lamp_updates res = 0 \<and>
      t_plays db' = t_plays db \<and> t_score_changes db' = t_score_changes db"
  using assms by (rule import_store_facts(5))

theorem baseline_import_records_no_play_witness:
  "\<exists>res db'. import_store sample_runtime sample_header [sample_player_row] [] [] [] empty_db = Inr (res, db') \<and>
     t_plays db' = t_plays empty_db"
proof -
  obtain res db' where run: "import_store sample_runtime sample_header [sample_player_row] [] [] [] empty_db = Inr (res, db')"
    using sample_import_store by blast
  have "imports_ok empty_db" "t_imports empty_db = []" by (simp_all add: imports_ok_def empty_db_def)
  from baseline_import_records_no_play[OF run this] run show ?thesis by blast
qed

text \<open>C16: the daily import and the collector do not interfere. An import keeps the invariant of the collector, and every cursor
  and every play of the collector's generations is as before.\<close>

theorem daily_import_leaves_collector_history:
  assumes "import_store rt header players scores logs agg db = Inr (res, db')" and "poller_inv db" and "0 \<le> g"
  shows "poller_inv db' \<and> map_of (t_cursors db') (g, k) = map_of (t_cursors db) (g, k) \<and>
    chart_plays db' g k = chart_plays db g k \<and> collector_generation db' = collector_generation db"
proof -
  have u: "collector_untouched db db'" by (rule import_store_untouched[OF assms(1,2)])
  then have "collector_generation db' = collector_generation db"
    by (simp add: collector_untouched_def collector_generation_def)
  moreover have "map_of (t_cursors db') (g, k) = map_of (t_cursors db) (g, k) \<and> chart_plays db' g k = chart_plays db g k"
    using u assms(3) unfolding collector_untouched_def by blast
  ultimately show ?thesis using collector_untouched_inv[OF u assms(2)] by blast
qed

theorem daily_import_leaves_collector_history_witness:
  "\<exists>res db'. import_store sample_runtime sample_header [sample_player_row] [] [] [] empty_db = Inr (res, db') \<and>
     poller_inv db'"
proof -
  obtain res db' where run: "import_store sample_runtime sample_header [sample_player_row] [] [] [] empty_db = Inr (res, db')"
    using sample_import_store by blast
  from daily_import_leaves_collector_history[OF run poller_inv_empty order_refl] run show ?thesis by blast
qed

subsection \<open>Daily differences\<close>

fun judged_of :: "counters \<Rightarrow> int" where
  "judged_of (p, j, e, t) = j"

definition judged_delta :: "assistant_db \<Rightarrow> int \<Rightarrow> int" where
  "judged_delta db date =
     (case map_of (t_player_daily db) date of
        None \<Rightarrow> 0
      | Some r \<Rightarrow> (case pd_delta r of None \<Rightarrow> 0 | Some d \<Rightarrow> judged_of d))"

lemma import_player_step:
  assumes "import_player i (prev, db) r = Inr s" and "int_item r ''date'' = Inr d"
  obtains c where "cumulative r = Inr c" "\<not> negative_counters (counter_deltas prev c)"
    "s = (Some c, db\<lparr>t_player_daily := AList.update d
       \<lparr>pd_cumulative = c, pd_delta = counter_deltas prev c, pd_import_id = i\<rparr> (t_player_daily db)\<rparr>)"
  using assms by (auto simp: import_player_def py_bind_Inr_iff raise_if_Inr Let_def)

lemma counter_deltas_judged:
  "\<not> negative_counters (counter_deltas (Some c0) c) \<Longrightarrow>
     (case counter_deltas (Some c0) c of None \<Rightarrow> 0 | Some d \<Rightarrow> judged_of d) = judged_of c - judged_of c0 \<and>
     judged_of c0 \<le> judged_of c"
  by (cases c0; cases c) simp

lemma import_player_deltas:
  assumes "py_for (import_player i) (Some c0, db) rows = Inr (Some c, db')"
    and "py_mapM (\<lambda>r. int_item r ''date'') rows = Inr ds" and "distinct ds"
  shows "sum_list (map (judged_delta db') ds) = judged_of c - judged_of c0 \<and>
    (\<forall>d\<in>set ds. 0 \<le> judged_delta db' d) \<and>
    (\<forall>d. d \<notin> set ds \<longrightarrow> judged_delta db' d = judged_delta db d)"
  using assms
proof (induction rows arbitrary: c0 db ds)
  case Nil
  then show ?case by simp
next
  case (Cons r rows)
  obtain d ds' where d: "int_item r ''date'' = Inr d" and ds': "py_mapM (\<lambda>r. int_item r ''date'') rows = Inr ds'"
      and ds: "ds = d # ds'" using Cons.prems(2) by (auto simp: py_bind_Inr_iff)
  obtain s where s: "import_player i (Some c0, db) r = Inr s" "py_for (import_player i) s rows = Inr (Some c, db')"
    using Cons.prems(1) by (auto simp: py_bind_Inr_iff)
  obtain c1 where c1: "\<not> negative_counters (counter_deltas (Some c0) c1)"
      "s = (Some c1, db\<lparr>t_player_daily := AList.update d \<lparr>pd_cumulative = c1,
         pd_delta = counter_deltas (Some c0) c1, pd_import_id = i\<rparr> (t_player_daily db)\<rparr>)"
    using import_player_step[OF s(1) d] by blast
  let ?db = "db\<lparr>t_player_daily := AList.update d \<lparr>pd_cumulative = c1,
         pd_delta = counter_deltas (Some c0) c1, pd_import_id = i\<rparr> (t_player_daily db)\<rparr>"
  have here: "judged_delta ?db d = judged_of c1 - judged_of c0" "0 \<le> judged_delta ?db d"
      "e \<noteq> d \<Longrightarrow> judged_delta ?db e = judged_delta db e" for e
    using counter_deltas_judged[OF c1(1)] by (simp_all add: judged_delta_def AList.update_conv')
  have "distinct ds'" "d \<notin> set ds'" using Cons.prems(3) by (simp_all add: ds)
  then show ?case using Cons.IH[OF s(2)[unfolded c1(2)] ds'] here by (simp add: ds)
qed

text \<open>The stored daily differences add up. If every day occurs once, each recorded difference of judged notes is
  non-negative, the first row has none, and together they are the cumulative count of the
  last row minus that of the first, so no keystroke is counted twice or dropped.\<close>

theorem player_deltas_add_up:
  assumes "py_for (import_player i) (None, db) (r # rows) = Inr (Some c, db')"
    and "py_mapM (\<lambda>r. int_item r ''date'') (r # rows) = Inr ds" and "distinct ds"
    and "cumulative r = Inr c0"
  shows "sum_list (map (judged_delta db') ds) = judged_of c - judged_of c0 \<and>
    (\<forall>d\<in>set ds. 0 \<le> judged_delta db' d) \<and> judged_delta db' (hd ds) = 0"
proof -
  obtain d ds' where d: "int_item r ''date'' = Inr d" and ds': "py_mapM (\<lambda>r. int_item r ''date'') rows = Inr ds'"
      and ds: "ds = d # ds'" using assms(2) by (auto simp: py_bind_Inr_iff)
  obtain s where s: "import_player i (None, db) r = Inr s" "py_for (import_player i) s rows = Inr (Some c, db')"
    using assms(1) by (auto simp: py_bind_Inr_iff)
  have s': "s = (Some c0, db\<lparr>t_player_daily := AList.update d \<lparr>pd_cumulative = c0,
         pd_delta = None, pd_import_id = i\<rparr> (t_player_daily db)\<rparr>)"
    using import_player_step[OF s(1) d] assms(4) by auto
  let ?db = "db\<lparr>t_player_daily := AList.update d \<lparr>pd_cumulative = c0, pd_delta = None, pd_import_id = i\<rparr> (t_player_daily db)\<rparr>"
  have "distinct ds'" "d \<notin> set ds'" using assms(3) by (simp_all add: ds)
  moreover have "judged_delta ?db d = 0" by (simp add: judged_delta_def AList.update_conv')
  ultimately show ?thesis using import_player_deltas[OF s(2)[unfolded s'] ds'] by (simp add: ds)
qed

theorem player_deltas_add_up_witness:
  "\<exists>db'. py_for (import_player 1) (None, empty_db)
      [[(''date'', PInt 1), (''playcount'', PInt 1), (''playtime'', PInt 1), (''epg'', PInt 7)],
       [(''date'', PInt 2), (''playcount'', PInt 1), (''playtime'', PInt 1), (''epg'', PInt 9)]] = Inr (Some (1, 9, 0, 1), db') \<and>
     sum_list (map (judged_delta db') [1, 2]) = 2"
proof -
  define day where "day = (\<lambda>d n. [(''date'', PInt d), (''playcount'', PInt 1), (''playtime'', PInt 1), (''epg'', PInt n)])"
  have row: "cumulative (day d n) = Inr (1, n, 0, 1)" "int_item (day d n) ''date'' = Inr d" for d n
    by (simp_all add: day_def cumulative_def sum_columns_def judgement_columns_def empty_poor_columns_def
        int_or_zero_def get_item_def int_item_def item_def)
  obtain db' where run: "py_for (import_player 1) (None, empty_db) [day 1 7, day 2 9] = Inr (Some (1, 9, 0, 1), db')"
    by (simp add: import_player_def row Let_def)
  have "py_mapM (\<lambda>r. int_item r ''date'') [day 1 7, day 2 9] = Inr [1, 2]" by (simp add: row)
  from player_deltas_add_up[OF run this _ row(1)] run show ?thesis unfolding day_def by (intro exI[of _ db']) simp
qed

end
