(* ===== verification/Experiment.thy ===== *)
theory Experiment
  imports Snapshot
begin

text \<open>
  \<open>plan/experiment.py\<close>: the two-arm self-experiment. A session is assigned once to one arm, with one chart
  for retention and four unpractised charts for transfer, each to be replayed in its own one-day window; targets are resolved
  when their window has closed. The candidates of a session are kept as the value their JSON text
  denotes. A transaction is a computation whose tables are stored only if it returns; the check that the connection is
  outside one is left out.
\<close>

subsection \<open>Candidates\<close>

definition arms :: "string list" where "arms = [''coach'', ''control'']"
definition interval_days :: "int list" where "interval_days = [1, 3, 7, 14]"
definition day_seconds :: int where "day_seconds = 86400"

record candidate =
  ca_sha256 :: string
  ca_mode :: int
  ca_p_pred :: real

record candidate_sets =
  cd_coach :: "candidate list"
  cd_control :: "candidate list"
  cd_transfer :: "candidate list"

type_synonym identity = "string \<times> int"

definition identity :: "candidate \<Rightarrow> identity" where
  "identity c = (ca_sha256 c, ca_mode c)"

definition get_default :: "row \<Rightarrow> string \<Rightarrow> pyval \<Rightarrow> pyval" where
  "get_default r k d = (case map_of r k of Some v \<Rightarrow> v | None \<Rightarrow> d)"

fun unit_interval :: "pyfloat \<Rightarrow> real option" where
  "unit_interval (Fin p) = (if 0 \<le> p \<and> p \<le> 1 then Some p else None)"
| "unit_interval _ = None"

definition candidate_of :: "runtime \<Rightarrow> row \<Rightarrow> candidate py" where
  "candidate_of rt value =
     (let sha256 = py_lower (py_str rt (get_default value ''sha256'' (PStr [])))
      in if length sha256 \<noteq> 64 \<or> \<not> list_all is_hex_lower sha256
         then Inl (ValueError ''candidate sha256 must be 64 lowercase hexadecimal characters'')
         else
           py_bind (py_int (get_default value ''mode'' (PInt 0))) (\<lambda>mode.
           py_bind (py_float rt (get_item value ''p_pred'')) (\<lambda>probability.
             case unit_interval probability of
               None \<Rightarrow> Inl (ValueError ''candidate p_pred must be between 0 and 1'')
             | Some p \<Rightarrow> Inr \<lparr>ca_sha256 = sha256, ca_mode = mode, ca_p_pred = p\<rparr>)))"

definition candidate_order :: "candidate \<Rightarrow> string \<times> int \<times> real" where
  "candidate_order c = (ca_sha256 c, ca_mode c, ca_p_pred c)"

definition normalise_group :: "candidate list \<Rightarrow> candidate list py" where
  "normalise_group candidates =
     (if candidates = [] then Inl (ValueError ''candidate set must not be empty'')
      else if \<not> distinct (map identity candidates)
        then Inl (ValueError ''candidate set contains duplicate charts'')
      else Inr (sort_key candidate_order candidates))"

definition normalise_with :: "('v list \<Rightarrow> candidate list py) \<Rightarrow> (string \<Rightarrow> 'v list) \<Rightarrow> candidate_sets py" where
  "normalise_with parse values_of =
     py_bind (py_bind (parse (values_of ''coach'')) normalise_group) (\<lambda>coach.
     py_bind (py_bind (parse (values_of ''control'')) normalise_group) (\<lambda>control.
     py_bind (py_bind (parse (values_of ''transfer'')) normalise_group) (\<lambda>transfer.
       if set (map identity coach) \<inter> set (map identity control) \<noteq> {}
       then Inl (ValueError ''coach and control candidate sets must not overlap'')
       else Inr \<lparr>cd_coach = coach, cd_control = control, cd_transfer = transfer\<rparr>)))"

definition normalise_candidates :: "runtime \<Rightarrow> (string \<Rightarrow> row list) \<Rightarrow> candidate_sets py" where
  "normalise_candidates rt submitted = normalise_with (py_mapM (candidate_of rt)) submitted"

definition group_of :: "candidate_sets \<Rightarrow> string \<Rightarrow> candidate list" where
  "group_of cs name =
     (if name = ''coach'' then cd_coach cs else if name = ''control'' then cd_control cs
      else cd_transfer cs)"

text \<open>Reading candidates back: they were validated when written.\<close>

definition stored_candidates :: "candidate_sets \<Rightarrow> candidate_sets py" where
  "stored_candidates cs =
     (case normalise_with Inr (group_of cs) of
        Inl e \<Rightarrow> Inl (RuntimeError ''stored experiment candidates are invalid'')
      | Inr r \<Rightarrow> Inr r)"

text \<open>The canonical JSON text, keys sorted.\<close>

definition candidate_json :: "runtime \<Rightarrow> candidate \<Rightarrow> string" where
  "candidate_json rt c =
     CHR 0x7B # json_string ''mode'' @ '':'' @ show_int (ca_mode c) @ '','' @
     json_string ''p_pred'' @ '':'' @ repr rt (PFloat (Fin (ca_p_pred c))) @ '','' @
     json_string ''sha256'' @ '':'' @ json_string (ca_sha256 c) @ [CHR 0x7D]"

definition group_json :: "runtime \<Rightarrow> candidate list \<Rightarrow> string" where
  "group_json rt cs = CHR ''['' # join_commas (map (candidate_json rt) cs) @ [CHR '']'']"

definition canonical_candidates :: "runtime \<Rightarrow> candidate_sets \<Rightarrow> string" where
  "canonical_candidates rt cs =
     CHR 0x7B # json_string ''coach'' @ '':'' @ group_json rt (cd_coach cs) @ '','' @
     json_string ''control'' @ '':'' @ group_json rt (cd_control cs) @ '','' @
     json_string ''transfer'' @ '':'' @ group_json rt (cd_transfer cs) @ [CHR 0x7D]"

definition transfer_selection_probability :: "candidate_sets \<Rightarrow> real py" where
  "transfer_selection_probability cs =
     py_bind (stored_candidates cs) (\<lambda>stored. Inr (1 / real (length (cd_transfer stored))))"

subsection \<open>Drawing\<close>

text \<open>The digest as a big-endian number, read off its hexadecimal text.\<close>

definition hex_digit_value :: "char \<Rightarrow> nat" where
  "hex_digit_value c = (if is_digit c then of_char c - 48 else of_char c - 87)"

definition hex_value :: "string \<Rightarrow> nat" where
  "hex_value s = foldl (\<lambda>a c. 16 * a + hex_digit_value c) 0 s"

definition draw :: "runtime \<Rightarrow> string \<Rightarrow> string \<Rightarrow> string \<Rightarrow> nat" where
  "draw rt seed session_key purpose =
     hex_value (sha256_hex rt (''oraja-experiment-v1'' @ [CHR 0x00] @ seed @ [CHR 0x00] @ session_key @
       [CHR 0x00] @ purpose))"

definition pick_by :: "nat \<Rightarrow> 'a list \<Rightarrow> 'a" where
  "pick_by n xs = xs ! (n mod length xs)"

subsection \<open>Tables\<close>

record experiment_row =
  ex_id :: int
  ex_name :: string
  ex_seed :: string
  ex_starts_at :: int
  ex_ends_at :: int
  ex_min_samples :: int
  ex_created_at :: int

record session_row =
  es_id :: int
  es_experiment_id :: int
  es_session_key :: string
  es_session_at :: int
  es_arm :: string
  es_arm_probability :: real
  es_selection_probability :: real
  es_candidate_hash :: string
  es_candidates :: candidate_sets
  es_selected :: candidate
  es_transfer :: candidate
  es_assigned_at :: int
  es_input_candidate_hash :: "string option"

datatype target_kind = Retention | Transfer
datatype target_status = Pending | Resolved | Missing | Duplicate

record target_row =
  et_id :: int
  et_session_id :: int
  et_kind :: target_kind
  et_interval_days :: int
  et_chart :: identity
  et_due_at :: int
  et_window_closes_at :: int
  et_p_pred :: real
  et_status :: target_status
  et_outcome :: "int option"
  et_resolved_play_id :: "int option"
  et_resolved_at :: "int option"
  et_resolution_note :: "string option"

record experiment_db =
  xd_store :: assistant_db
  xd_experiments :: "experiment_row list"
  xd_next_experiment :: int
  xd_sessions :: "session_row list"
  xd_next_session :: int
  xd_targets :: "target_row list"
  xd_next_target :: int

definition find_experiment :: "experiment_db \<Rightarrow> int \<Rightarrow> experiment_row option" where
  "find_experiment x i = List.find (\<lambda>e. ex_id e = i) (xd_experiments x)"

definition sessions_of :: "experiment_db \<Rightarrow> int \<Rightarrow> session_row list" where
  "sessions_of x i = filter (\<lambda>s. es_experiment_id s = i) (xd_sessions x)"

definition find_session :: "experiment_db \<Rightarrow> int \<Rightarrow> session_row option" where
  "find_session x i = List.find (\<lambda>s. es_id s = i) (xd_sessions x)"

text \<open>The targets of an experiment, joined with their sessions.\<close>

definition targets_of :: "experiment_db \<Rightarrow> int \<Rightarrow> target_row list" where
  "targets_of x i =
     filter (\<lambda>t. list_ex (\<lambda>s. es_id s = et_session_id t) (sessions_of x i)) (xd_targets x)"

subsection \<open>Starting an experiment\<close>

definition start_experiment ::
    "string \<Rightarrow> string \<Rightarrow> int \<Rightarrow> int \<Rightarrow> int \<Rightarrow> int \<Rightarrow> experiment_db \<Rightarrow> (experiment_row \<times> experiment_db) py" where
  "start_experiment name seed starts_at days min_samples created x =
     py_bind (raise_if (py_strip name = [] \<or> seed = []) (ValueError ''name and seed must not be empty'')) (\<lambda>_.
     py_bind (raise_if (days < 1 \<or> min_samples < 1)
       (ValueError ''days and min_samples_per_arm must be positive'')) (\<lambda>_.
     let e = \<lparr>ex_id = xd_next_experiment x, ex_name = py_strip name, ex_seed = seed,
              ex_starts_at = starts_at, ex_ends_at = starts_at + days * day_seconds,
              ex_min_samples = min_samples, ex_created_at = created\<rparr>
     in Inr (e, x\<lparr>xd_experiments := xd_experiments x @ [e],
                  xd_next_experiment := xd_next_experiment x + 1\<rparr>)))"

subsection \<open>Assigning a session\<close>

definition reserved_charts :: "experiment_db \<Rightarrow> int \<Rightarrow> identity list" where
  "reserved_charts x i =
     concat (map (\<lambda>s. [identity (es_selected s), identity (es_transfer s)]) (sessions_of x i)) @
     map et_chart (targets_of x i)"

definition practised :: "assistant_db \<Rightarrow> identity \<Rightarrow> bool" where
  "practised db chart \<longleftrightarrow>
     list_ex (\<lambda>(k, s). k = chart \<and> (0 < ss_playcount s \<or> 0 < ss_clear s)) (t_score_state db) \<or>
     list_ex (\<lambda>(i, p). (pl_sha256 (r_play p), pl_mode (r_play p)) = chart \<and> r_is_course p = 0 \<and>
         (0 < pl_playcount (r_play p) \<or> 0 < pl_clear (r_play p) \<or> pl_completed (r_play p) \<noteq> None))
       (t_plays db)"

definition unused :: "identity list \<Rightarrow> candidate list \<Rightarrow> candidate list" where
  "unused reserved cs = filter (\<lambda>c. identity c \<notin> set reserved) cs"

definition available_candidates :: "experiment_db \<Rightarrow> int \<Rightarrow> candidate_sets \<Rightarrow> candidate_sets py" where
  "available_candidates x i submitted =
     (let reserved = reserved_charts x i;
          coach = unused reserved (cd_coach submitted);
          control = unused reserved (cd_control submitted);
          transfer = filter (\<lambda>c. \<not> practised (xd_store x) (identity c)) (unused reserved (cd_transfer submitted))
      in
      py_bind (raise_if (coach = [] \<or> control = [])
        (ValueError ''candidate set has no chart unused by this experiment'')) (\<lambda>_.
      py_bind (raise_if (length transfer < length interval_days)
        (ValueError ''transfer candidates must contain four distinct charts unpractised at session start'')) (\<lambda>_.
      py_bind (raise_if (list_ex (\<lambda>c. identity c \<in> set (map identity (coach @ control))) transfer)
        (ValueError ''transfer candidates must be unpractised charts outside both arms'')) (\<lambda>_.
        Inr \<lparr>cd_coach = coach, cd_control = control, cd_transfer = transfer\<rparr>))))"

definition transfer_purpose :: "int \<Rightarrow> string" where
  "transfer_purpose interval = (if interval = 1 then ''transfer'' else ''transfer:'' @ show_int interval)"

text \<open>Popping the drawn transfer chart of each interval from those that remain.\<close>

fun pick_transfers :: "(string \<Rightarrow> nat) \<Rightarrow> int list \<Rightarrow> candidate list \<Rightarrow> (int \<times> candidate) list" where
  "pick_transfers dice [] remaining = []"
| "pick_transfers dice (interval # rest) remaining =
     (let j = dice (transfer_purpose interval) mod length remaining
      in (interval, remaining ! j) #
         pick_transfers dice rest (take j remaining @ drop (Suc j) remaining))"

definition target_rows ::
    "int \<Rightarrow> int \<Rightarrow> int \<Rightarrow> candidate \<Rightarrow> (int \<times> candidate) list \<Rightarrow> target_row list" where
  "target_rows next_id session_id session_at selected transfers =
     map (\<lambda>(n, kind, interval, c).
       \<lparr>et_id = next_id + int n, et_session_id = session_id, et_kind = kind, et_interval_days = interval,
        et_chart = identity c, et_due_at = session_at + interval * day_seconds,
        et_window_closes_at = session_at + interval * day_seconds + day_seconds,
        et_p_pred = ca_p_pred c, et_status = Pending, et_outcome = None, et_resolved_play_id = None,
        et_resolved_at = None, et_resolution_note = None\<rparr>)
       (enumerate 0 (concat (map (\<lambda>(interval, c). [(Retention, interval, selected), (Transfer, interval, c)])
         transfers)))"

definition new_session ::
    "runtime \<Rightarrow> experiment_row \<Rightarrow> string \<Rightarrow> int \<Rightarrow> candidate_sets \<Rightarrow> string \<Rightarrow> int \<Rightarrow> experiment_db \<Rightarrow>
       session_row \<times> experiment_db" where
  "new_session rt e session_key session_at candidates input_hash assigned x =
     (let dice = draw rt (ex_seed e) session_key;
          arm = pick_by (dice ''arm'') arms;
          arm_candidates = group_of candidates arm;
          selected = pick_by (dice ''selection'') arm_candidates;
          transfers = pick_transfers dice interval_days (cd_transfer candidates);
          s = \<lparr>es_id = xd_next_session x, es_experiment_id = ex_id e, es_session_key = session_key,
               es_session_at = session_at, es_arm = arm, es_arm_probability = 1 / 2,
               es_selection_probability = (1 / real (length arms)) * (1 / real (length arm_candidates)),
               es_candidate_hash = sha256_hex rt (canonical_candidates rt candidates),
               es_candidates = candidates, es_selected = selected, es_transfer = snd (hd transfers),
               es_assigned_at = assigned, es_input_candidate_hash = Some input_hash\<rparr>;
          targets = target_rows (xd_next_target x) (es_id s) session_at selected transfers
      in (s, x\<lparr>xd_sessions := xd_sessions x @ [s], xd_next_session := xd_next_session x + 1,
               xd_targets := xd_targets x @ targets,
               xd_next_target := xd_next_target x + int (length targets)\<rparr>))"

record rendered =
  rd_chart :: identity
  rd_p_pred :: real
  rd_titles :: "(string \<times> string) option"

record assignment =
  as_session_id :: int
  as_experiment_id :: int
  as_session_key :: string
  as_arm :: string
  as_arm_probability :: real
  as_selection_probability :: real
  as_transfer_probability :: real
  as_candidate_hash :: string
  as_input_candidate_hash :: "string option"
  as_selected :: rendered
  as_transfer :: rendered
  as_transfers :: "(int \<times> rendered) list"

definition text_or_empty :: "runtime \<Rightarrow> pyval \<Rightarrow> string" where
  "text_or_empty rt v = (if truthy v then py_str rt v else [])"

definition rendered_candidate :: "runtime \<Rightarrow> assistant_db \<Rightarrow> identity \<Rightarrow> real \<Rightarrow> rendered" where
  "rendered_candidate rt db chart p =
     \<lparr>rd_chart = chart, rd_p_pred = p,
      rd_titles = map_option (\<lambda>c. (text_or_empty rt (cr_title c), text_or_empty rt (cr_artist c)))
        (map_of (t_charts db) (fst chart))\<rparr>"

definition assignment_result :: "runtime \<Rightarrow> experiment_db \<Rightarrow> int \<Rightarrow> assignment py" where
  "assignment_result rt x session_id =
     (case find_session x session_id of
        None \<Rightarrow> Inl (RuntimeError ''assignment disappeared'')
      | Some s \<Rightarrow>
          py_bind (transfer_selection_probability (es_candidates s)) (\<lambda>probability.
            let db = xd_store x;
                transfer_targets = sort_key et_interval_days
                  (filter (\<lambda>t. et_session_id t = session_id \<and> et_kind t = Transfer) (xd_targets x))
            in Inr \<lparr>as_session_id = es_id s, as_experiment_id = es_experiment_id s,
                 as_session_key = es_session_key s, as_arm = es_arm s,
                 as_arm_probability = es_arm_probability s,
                 as_selection_probability = es_selection_probability s,
                 as_transfer_probability = probability, as_candidate_hash = es_candidate_hash s,
                 as_input_candidate_hash = es_input_candidate_hash s,
                 as_selected = rendered_candidate rt db (identity (es_selected s)) (ca_p_pred (es_selected s)),
                 as_transfer = rendered_candidate rt db (identity (es_transfer s)) (ca_p_pred (es_transfer s)),
                 as_transfers = map (\<lambda>t. (et_interval_days t, rendered_candidate rt db (et_chart t) (et_p_pred t)))
                   transfer_targets\<rparr>))"

text \<open>A key seen before is answered from the stored session if the inputs agree.\<close>

definition same_inputs ::
    "runtime \<Rightarrow> session_row \<Rightarrow> int \<Rightarrow> candidate_sets \<Rightarrow> unit py" where
  "same_inputs rt s session_at submitted =
     py_bind (raise_if (es_session_at s \<noteq> session_at)
       (ValueError ''session_key was already assigned with different inputs'')) (\<lambda>_.
     py_bind (stored_candidates (es_candidates s)) (\<lambda>stored.
       let stored_input_hash =
             (case es_input_candidate_hash s of
                Some h \<Rightarrow> if h = [] then es_candidate_hash s else h | None \<Rightarrow> es_candidate_hash s);
           submitted_json = canonical_candidates rt submitted
       in raise_if (sha256_hex rt submitted_json \<noteq> stored_input_hash \<and>
            submitted_json \<noteq> canonical_candidates rt stored)
          (ValueError ''session_key was already assigned with different inputs'')))"

definition assign_session ::
    "runtime \<Rightarrow> int \<Rightarrow> string \<Rightarrow> int \<Rightarrow> (string \<Rightarrow> row list) \<Rightarrow> int \<Rightarrow> experiment_db \<Rightarrow>
       (assignment \<times> experiment_db) py" where
  "assign_session rt experiment_id session_key session_at candidate_sets assigned x =
     py_bind (raise_if (session_key = []) (ValueError ''session_key must not be empty'')) (\<lambda>_.
     py_bind (normalise_candidates rt candidate_sets) (\<lambda>submitted.
     case find_experiment x experiment_id of
       None \<Rightarrow> Inl (ValueError ''unknown experiment'')
     | Some e \<Rightarrow>
         py_bind (raise_if (\<not> (ex_starts_at e \<le> session_at \<and> session_at < ex_ends_at e))
           (ValueError ''session_at is outside the experiment assignment period'')) (\<lambda>_.
         case List.find (\<lambda>s. es_session_key s = session_key) (sessions_of x experiment_id) of
           Some s \<Rightarrow>
             py_bind (same_inputs rt s session_at submitted) (\<lambda>_.
             py_bind (assignment_result rt x (es_id s)) (\<lambda>result. Inr (result, x)))
         | None \<Rightarrow>
             py_bind (available_candidates x experiment_id submitted) (\<lambda>candidates.
               let (s, x') = new_session rt e session_key session_at candidates
                     (sha256_hex rt (canonical_candidates rt submitted)) assigned x
               in py_bind (assignment_result rt x' (es_id s)) (\<lambda>result. Inr (result, x'))))))"

subsection \<open>Resolving targets\<close>

fun source_rank :: "string \<Rightarrow> nat" where
  "source_rank s =
     (if s = ''collector'' then 0 else if s = ''official_ir'' then 1 else if s = ''daily_snapshot'' then 2
      else if s = ''legacy_last_snapshot'' then 3 else 4)"

text \<open>The rows of one play seen by several sources: same chart, mode, time and playcount. The one kept has the best source, then
  the latest ingestion, then the highest id.\<close>

definition same_play :: "play_record \<Rightarrow> play_record \<Rightarrow> bool" where
  "same_play p q \<longleftrightarrow>
     pl_sha256 (r_play p) = pl_sha256 (r_play q) \<and> pl_mode (r_play p) = pl_mode (r_play q) \<and>
     pl_played_at (r_play p) = pl_played_at (r_play q) \<and> pl_playcount (r_play p) = pl_playcount (r_play q)"

definition semantic_order :: "int \<times> play_record \<Rightarrow> nat \<times> int \<times> int" where
  "semantic_order = (\<lambda>(i, p). (source_rank (pl_source (r_play p)), - pl_ingested_at (r_play p), - i))"

definition semantic_plays :: "(int \<times> play_record) list \<Rightarrow> (int \<times> play_record) list" where
  "semantic_plays ps =
     sort_key (\<lambda>(i, p). (pl_played_at (r_play p), i))
       (filter (\<lambda>x. \<not> list_ex (\<lambda>y. same_play (snd x) (snd y) \<and> semantic_order y < semantic_order x) ps) ps)"

definition plays_between :: "assistant_db \<Rightarrow> identity \<Rightarrow> int \<Rightarrow> int \<Rightarrow> (int \<times> play_record) list" where
  "plays_between db chart from_time until =
     filter (\<lambda>(i, p). (pl_sha256 (r_play p), pl_mode (r_play p)) = chart \<and> r_is_course p = 0 \<and>
         from_time \<le> pl_played_at (r_play p) \<and> pl_played_at (r_play p) < until) (t_plays db)"

definition scorable_plays :: "assistant_db \<Rightarrow> target_row \<Rightarrow> (int \<times> play_record) list" where
  "scorable_plays db t =
     semantic_plays (filter (\<lambda>(i, p). pl_completed (r_play p) \<noteq> None)
       (plays_between db (et_chart t) (et_due_at t) (et_window_closes_at t)))"

definition close_target ::
    "target_status \<Rightarrow> int option \<Rightarrow> int option \<Rightarrow> int \<Rightarrow> string option \<Rightarrow> target_row \<Rightarrow> target_row" where
  "close_target status outcome play_id resolved_at note t =
     t\<lparr>et_status := status, et_outcome := outcome, et_resolved_play_id := play_id,
       et_resolved_at := Some resolved_at, et_resolution_note := note\<rparr>"

definition session_start :: "experiment_db \<Rightarrow> target_row \<Rightarrow> int" where
  "session_start x t =
     (case find_session x (et_session_id t) of None \<Rightarrow> 0 | Some s \<Rightarrow> es_session_at s)"

text \<open>The decision on one target whose window has closed.\<close>

definition decide_target :: "int \<Rightarrow> int \<Rightarrow> experiment_db \<Rightarrow> target_row \<Rightarrow> target_row" where
  "decide_target experiment_id resolved_at x t =
     (if et_kind t = Transfer \<and> plays_between (xd_store x) (et_chart t) (session_start x t) (et_due_at t) \<noteq> []
      then close_target Duplicate None None resolved_at (Some ''transfer chart played before evaluation window'') t
      else
        case scorable_plays (xd_store x) t of
          [] \<Rightarrow> close_target Missing None None resolved_at (Some ''no scorable play in evaluation window'') t
        | [(play_id, p)] \<Rightarrow>
            if list_ex (\<lambda>other. et_id other \<noteq> et_id t \<and> et_resolved_play_id other = Some play_id)
                 (targets_of x experiment_id)
            then close_target Duplicate None None resolved_at (Some ''play already used by another target'') t
            else close_target Resolved (Some (of_bool (pl_completed (r_play p) \<noteq> Some 0))) (Some play_id)
                   resolved_at None t
        | _ \<Rightarrow> close_target Duplicate None None resolved_at (Some ''multiple plays in evaluation window'') t)"

record resolve_counts =
  rc_resolved :: nat
  rc_missing :: nat
  rc_duplicate :: nat
  rc_pending :: nat

fun count_status :: "target_status \<Rightarrow> resolve_counts \<Rightarrow> resolve_counts" where
  "count_status Resolved c = c\<lparr>rc_resolved := rc_resolved c + 1\<rparr>"
| "count_status Missing c = c\<lparr>rc_missing := rc_missing c + 1\<rparr>"
| "count_status Duplicate c = c\<lparr>rc_duplicate := rc_duplicate c + 1\<rparr>"
| "count_status Pending c = c\<lparr>rc_pending := rc_pending c + 1\<rparr>"

definition resolve_target ::
    "int \<Rightarrow> int \<Rightarrow> resolve_counts \<times> experiment_db \<Rightarrow> target_row \<Rightarrow> resolve_counts \<times> experiment_db" where
  "resolve_target experiment_id resolved_at = (\<lambda>(counts, x) t.
     if resolved_at < et_window_closes_at t then (count_status Pending counts, x)
     else
       let t' = decide_target experiment_id resolved_at x t
       in (count_status (et_status t') counts,
           x\<lparr>xd_targets := map (\<lambda>u. if et_id u = et_id t then t' else u) (xd_targets x)\<rparr>))"

definition due_targets :: "int \<Rightarrow> int \<Rightarrow> experiment_db \<Rightarrow> target_row list" where
  "due_targets experiment_id now x =
     filter (\<lambda>t. et_status t = Pending \<and> et_due_at t \<le> now) (targets_of x experiment_id)"

definition resolve_targets :: "int \<Rightarrow> int \<Rightarrow> experiment_db \<Rightarrow> resolve_counts \<times> experiment_db" where
  "resolve_targets experiment_id now x =
     foldl (resolve_target experiment_id now)
       (\<lparr>rc_resolved = 0, rc_missing = 0, rc_duplicate = 0, rc_pending = 0\<rparr>, x)
       (due_targets experiment_id now x)"

subsection \<open>Reporting\<close>

record arm_summary =
  am_n :: nat
  am_success_rate :: "real option"
  am_brier :: "real option"

definition summarize :: "(real \<times> int) list \<Rightarrow> arm_summary" where
  "summarize obs =
     (let n = length obs in
      \<lparr>am_n = n,
       am_success_rate = (if n = 0 then None else Some (real_of_int (sum_list (map snd obs)) / real n)),
       am_brier = (if n = 0 then None
         else Some (sum_list (map (\<lambda>(p, y). (p - real_of_int y) ^ 2) obs) / real n))\<rparr>)"

record report_line =
  rl_kind :: target_kind
  rl_interval_days :: int
  rl_estimable :: bool
  rl_coach :: arm_summary
  rl_control :: arm_summary
  rl_success_difference :: "real option"
  rl_brier_difference :: "real option"

definition arm_of_target :: "experiment_db \<Rightarrow> target_row \<Rightarrow> string option" where
  "arm_of_target x t = map_option es_arm (find_session x (et_session_id t))"

definition arm_observations ::
    "experiment_db \<Rightarrow> int \<Rightarrow> target_kind \<Rightarrow> int \<Rightarrow> string \<Rightarrow> (real \<times> int) list" where
  "arm_observations x i kind interval arm =
     List.map_filter (\<lambda>t. map_option (\<lambda>y. (et_p_pred t, y)) (et_outcome t))
       (filter (\<lambda>t. et_status t = Resolved \<and> et_kind t = kind \<and> et_interval_days t = interval \<and>
          arm_of_target x t = Some arm) (targets_of x i))"

fun difference :: "real option \<Rightarrow> real option \<Rightarrow> real option" where
  "difference (Some a) (Some b) = Some (a - b)"
| "difference _ _ = None"

definition report_line_of :: "experiment_db \<Rightarrow> experiment_row \<Rightarrow> target_kind \<Rightarrow> int \<Rightarrow> report_line" where
  "report_line_of x e kind interval =
     (let coach = summarize (arm_observations x (ex_id e) kind interval ''coach'');
          control = summarize (arm_observations x (ex_id e) kind interval ''control'');
          conclusive = (ex_min_samples e \<le> int (am_n coach) \<and> ex_min_samples e \<le> int (am_n control))
      in \<lparr>rl_kind = kind, rl_interval_days = interval, rl_estimable = conclusive, rl_coach = coach,
          rl_control = control,
          rl_success_difference =
            (if conclusive then difference (am_success_rate coach) (am_success_rate control) else None),
          rl_brier_difference =
            (if conclusive then difference (am_brier coach) (am_brier control) else None)\<rparr>)"

definition status_counts :: "experiment_db \<Rightarrow> int \<Rightarrow> target_status \<Rightarrow> nat" where
  "status_counts x i st = length (filter (\<lambda>t. et_status t = st) (targets_of x i))"

definition report_experiment :: "experiment_db \<Rightarrow> int \<Rightarrow> report_line list py" where
  "report_experiment x i =
     (case find_experiment x i of
        None \<Rightarrow> Inl (ValueError ''unknown experiment'')
      | Some e \<Rightarrow>
          Inr (concat (map (\<lambda>kind. map (report_line_of x e kind) interval_days) [Retention, Transfer])))"

end
