(* ===== verification/Experiment_Proofs.thy ===== *)
theory Experiment_Proofs
  imports Experiment
begin

text \<open>
  The guarantees of the self-experiment: a session key is assigned once, its schedule uses only fresh charts, every target is
  settled exactly once and by exactly one play, no play settles two targets, and the report only claims what its
  samples allow.
\<close>

subsection \<open>Resolution\<close>

definition unique_targets :: "experiment_db \<Rightarrow> bool" where
  "unique_targets x \<longleftrightarrow> distinct (map et_id (xd_targets x))"

text \<open>How a closed target may end.\<close>

definition decided :: "experiment_db \<Rightarrow> int \<Rightarrow> target_row \<Rightarrow> target_row \<Rightarrow> bool" where
  "decided x now t t' \<longleftrightarrow>
     et_id t' = et_id t \<and> et_session_id t' = et_session_id t \<and> et_kind t' = et_kind t \<and> et_chart t' = et_chart t \<and>
     et_due_at t' = et_due_at t \<and> et_window_closes_at t' = et_window_closes_at t \<and>
     et_interval_days t' = et_interval_days t \<and> et_p_pred t' = et_p_pred t \<and>
     et_status t' \<noteq> Pending \<and> et_resolved_at t' = Some now \<and>
     (et_status t' \<noteq> Resolved \<longrightarrow> et_outcome t' = None \<and> et_resolved_play_id t' = None) \<and>
     (et_status t' = Missing \<longrightarrow> scorable_plays (xd_store x) t = []) \<and>
     (et_status t' = Resolved \<longrightarrow>
        (\<exists>i p. scorable_plays (xd_store x) t = [(i, p)] \<and> et_resolved_play_id t' = Some i \<and>
           et_outcome t' = Some (of_bool (pl_completed (r_play p) \<noteq> Some 0)))) \<and>
     (et_kind t = Transfer \<and> et_status t' \<noteq> Duplicate \<longrightarrow>
        plays_between (xd_store x) (et_chart t) (session_start x t) (et_due_at t) = [])"

lemma decide_target_decided: "decided x now t (decide_target i now x t)"
  by (auto simp: decided_def decide_target_def close_target_def split: list.splits)

lemma decided_cong:
  assumes "xd_store x = xd_store y" and "xd_sessions x = xd_sessions y"
  shows "decided x now t t' = decided y now t t'"
  using assms by (simp add: decided_def session_start_def find_session_def)

definition closed :: "int \<Rightarrow> target_row \<Rightarrow> bool" where
  "closed now t \<longleftrightarrow> et_window_closes_at t \<le> now"

definition settled_as :: "experiment_db \<Rightarrow> int \<Rightarrow> target_row set \<Rightarrow> target_row \<Rightarrow> target_row \<Rightarrow> bool" where
  "settled_as x now T t t' \<longleftrightarrow> (if t \<in> T \<and> closed now t then decided x now t t' else t' = t)"

lemma resolve_target_frame:
  "xd_store (snd (resolve_target i now (c, x) t)) = xd_store x"
  "xd_sessions (snd (resolve_target i now (c, x) t)) = xd_sessions x"
  by (simp_all add: resolve_target_def Let_def)

definition total_count :: "resolve_counts \<Rightarrow> nat" where
  "total_count c = rc_resolved c + rc_missing c + rc_duplicate c + rc_pending c"

lemma total_count_status [simp]: "total_count (count_status st c) = total_count c + 1"
  by (cases st) (simp_all add: total_count_def)

lemma resolve_target_count: "total_count (fst (resolve_target i now (c, x) t)) = total_count c + 1"
  by (simp add: resolve_target_def Let_def del: count_status.simps)

lemma unique_target:
  "unique_targets x \<Longrightarrow> t \<in> set (xd_targets x) \<Longrightarrow> u \<in> set (xd_targets x) \<Longrightarrow> et_id t = et_id u \<Longrightarrow> t = u"
  by (auto simp: unique_targets_def distinct_map dest: inj_onD)

lemma resolve_target_targets:
  assumes "unique_targets x" and "t \<in> set (xd_targets x)"
  shows "list_all2 (settled_as x now {t}) (xd_targets x) (xd_targets (snd (resolve_target i now (c, x) t)))"
    and "map et_id (xd_targets (snd (resolve_target i now (c, x) t))) = map et_id (xd_targets x)"
proof -
  let ?t' = "decide_target i now x t"
  have ids: "et_id ?t' = et_id t" using decide_target_decided[of x now t i] by (simp add: decided_def)
  have "settled_as x now {t} u (if et_id u = et_id t then ?t' else u)" if "u \<in> set (xd_targets x)" "closed now t" for u
    using unique_target[OF assms(1) that(1) assms(2)] decide_target_decided[of x now t i] that(2)
    by (auto simp: settled_as_def)
  moreover have "settled_as x now {t} u u" if "\<not> closed now t" for u
    using that by (auto simp: settled_as_def)
  ultimately show "list_all2 (settled_as x now {t}) (xd_targets x) (xd_targets (snd (resolve_target i now (c, x) t)))"
    by (auto simp: resolve_target_def Let_def closed_def list_all2_map2 list_all2_same intro!: list.rel_refl_strong)
  show "map et_id (xd_targets (snd (resolve_target i now (c, x) t))) = map et_id (xd_targets x)"
    by (simp add: resolve_target_def Let_def ids)
qed

lemma resolve_loop:
  assumes "unique_targets x" and "set ts \<subseteq> set (xd_targets x)" and "distinct ts"
  shows "let (c', x') = foldl (resolve_target i now) (c, x) ts in
     list_all2 (settled_as x now (set ts)) (xd_targets x) (xd_targets x') \<and>
     map et_id (xd_targets x') = map et_id (xd_targets x) \<and>
     xd_store x' = xd_store x \<and> xd_sessions x' = xd_sessions x \<and> total_count c' = total_count c + length ts"
  using assms
proof (induction ts arbitrary: c x)
  case Nil
  then show ?case by (simp add: settled_as_def list_all2_same)
next
  case (Cons t ts)
  obtain c1 x1 where one: "resolve_target i now (c, x) t = (c1, x1)" by fastforce
  have frame: "xd_store x1 = xd_store x" "xd_sessions x1 = xd_sessions x" "total_count c1 = total_count c + 1"
    using resolve_target_frame[of i now c x t] resolve_target_count[of i now c x t] by (simp_all add: one)
  have t: "t \<in> set (xd_targets x)" using Cons.prems(2) by simp
  have step: "list_all2 (settled_as x now {t}) (xd_targets x) (xd_targets x1)"
      "map et_id (xd_targets x1) = map et_id (xd_targets x)"
    using resolve_target_targets[OF Cons.prems(1) t, where now = now and i = i and c = c] by (simp_all add: one)
  have "unique_targets x1" using Cons.prems(1) step(2) by (simp add: unique_targets_def)
  moreover have "set ts \<subseteq> set (xd_targets x1)"
  proof
    fix u
    assume "u \<in> set ts"
    then have u: "u \<in> set (xd_targets x)" "u \<noteq> t" using Cons.prems(2,3) by auto
    then obtain k where k: "k < length (xd_targets x)" "xd_targets x ! k = u" by (metis in_set_conv_nth)
    then have "settled_as x now {t} u (xd_targets x1 ! k)" using step(1) by (auto dest: list_all2_nthD)
    then have "xd_targets x1 ! k = u" using u(2) by (simp add: settled_as_def)
    moreover have "k < length (xd_targets x1)" using k(1) step(1) by (simp add: list_all2_lengthD)
    ultimately show "u \<in> set (xd_targets x1)" by (metis nth_mem)
  qed
  moreover have "distinct ts" using Cons.prems(3) by simp
  ultimately have IH: "let (c', x') = foldl (resolve_target i now) (c1, x1) ts in
     list_all2 (settled_as x1 now (set ts)) (xd_targets x1) (xd_targets x') \<and>
     map et_id (xd_targets x') = map et_id (xd_targets x1) \<and>
     xd_store x' = xd_store x1 \<and> xd_sessions x' = xd_sessions x1 \<and> total_count c' = total_count c1 + length ts"
    by (rule Cons.IH)
  obtain c' x' where fold: "foldl (resolve_target i now) (c1, x1) ts = (c', x')" by fastforce
  have "list_all2 (settled_as x now (set (t # ts))) (xd_targets x) (xd_targets x')"
  proof (rule list_all2_all_nthI)
    show "length (xd_targets x) = length (xd_targets x')"
    proof -
      have "map et_id (xd_targets x') = map et_id (xd_targets x1)" using IH by (simp add: fold)
      then have "length (xd_targets x') = length (xd_targets x1)" by (rule map_eq_imp_length_eq)
      then show ?thesis using list_all2_lengthD[OF step(1)] by simp
    qed
    fix k
    assume k: "k < length (xd_targets x)"
    then have one': "settled_as x now {t} (xd_targets x ! k) (xd_targets x1 ! k)" using step(1) by (rule list_all2_nthD[rotated])
    have k1: "k < length (xd_targets x1)" using k step(1) by (simp add: list_all2_lengthD)
    have two': "settled_as x1 now (set ts) (xd_targets x1 ! k) (xd_targets x' ! k)"
      using IH k1 by (auto simp: fold dest: list_all2_nthD)
    show "settled_as x now (set (t # ts)) (xd_targets x ! k) (xd_targets x' ! k)"
    proof (cases "xd_targets x ! k = t")
      case True
      have "xd_targets x1 ! k \<notin> set ts"
      proof
        assume "xd_targets x1 ! k \<in> set ts"
        then have "xd_targets x1 ! k \<in> set (xd_targets x)" "xd_targets x1 ! k \<noteq> t" using Cons.prems(2,3) by auto
        moreover have "et_id (xd_targets x1 ! k) = et_id t"
          using arg_cong[OF step(2), of "\<lambda>l. l ! k"] k k1 True by simp
        ultimately show False using unique_target[OF Cons.prems(1) _ t] by blast
      qed
      then show ?thesis using one' two' True by (auto simp: settled_as_def split: if_splits)
    next
      case False
      then have "xd_targets x1 ! k = xd_targets x ! k" using one' by (simp add: settled_as_def)
      moreover have "decided x1 now (xd_targets x ! k) (xd_targets x' ! k) = decided x now (xd_targets x ! k) (xd_targets x' ! k)"
        by (rule decided_cong) (rule frame)+
      ultimately show ?thesis using two' False by (auto simp: settled_as_def split: if_splits)
    qed
  qed
  then show ?case using IH frame step(2) by (simp add: one fold)
qed

subsection \<open>No play is used twice\<close>

definition same_session_experiment :: "experiment_db \<Rightarrow> int \<Rightarrow> target_row \<Rightarrow> bool" where
  "same_session_experiment x i t \<longleftrightarrow> list_ex (\<lambda>s. es_id s = et_session_id t) (sessions_of x i)"

definition used_once :: "experiment_db \<Rightarrow> int \<Rightarrow> bool" where
  "used_once x i \<longleftrightarrow>
     (\<forall>t\<in>set (targets_of x i). \<forall>u\<in>set (targets_of x i).
        et_resolved_play_id t \<noteq> None \<longrightarrow> et_resolved_play_id t = et_resolved_play_id u \<longrightarrow> et_id t = et_id u)"

lemma decide_target_fresh:
  assumes "et_resolved_play_id (decide_target i now x t) = Some p"
    and "u \<in> set (targets_of x i)" and "et_id u \<noteq> et_id t"
  shows "et_resolved_play_id u \<noteq> Some p"
  using assms
  by (auto simp: decide_target_def close_target_def list_ex_iff split: if_splits list.splits)

lemma targets_of_update:
  "targets_of (x\<lparr>xd_targets := ts\<rparr>) i = filter (same_session_experiment x i) ts"
  by (simp add: targets_of_def same_session_experiment_def[abs_def] sessions_of_def)

lemma used_onceD:
  "used_once x i \<Longrightarrow> a \<in> set (targets_of x i) \<Longrightarrow> b \<in> set (targets_of x i) \<Longrightarrow>
   et_resolved_play_id a = Some p \<Longrightarrow> et_resolved_play_id b = Some p \<Longrightarrow> et_id a = et_id b"
  unfolding used_once_def by (metis option.distinct(1))

lemma used_onceI:
  "(\<And>a b p. a \<in> set (targets_of x i) \<Longrightarrow> b \<in> set (targets_of x i) \<Longrightarrow>
     et_resolved_play_id a = Some p \<Longrightarrow> et_resolved_play_id b = Some p \<Longrightarrow> et_id a = et_id b) \<Longrightarrow> used_once x i"
  unfolding used_once_def by (metis not_None_eq)

text \<open>The rows of the experiment after one target was decided: the decided one and the others unchanged.\<close>

lemma targets_of_resolved:
  assumes "unique_targets x" and "t \<in> set (targets_of x i)" and "\<not> now < et_window_closes_at t"
    and "u' \<in> set (targets_of (snd (resolve_target i now (c, x) t)) i)"
  shows "u' = decide_target i now x t \<or> (u' \<in> set (targets_of x i) \<and> et_id u' \<noteq> et_id t)"
proof -
  obtain u where u: "u \<in> set (xd_targets x)" "u' = (if et_id u = et_id t then decide_target i now x t else u)"
      "same_session_experiment x i u'"
    using assms(3,4) by (auto simp: resolve_target_def Let_def targets_of_update)
  show ?thesis
  proof (cases "et_id u = et_id t")
    case True
    then show ?thesis using u(2) by simp
  next
    case False
    then have "u' = u" using u(2) by simp
    then show ?thesis using u(1,3) False by (simp add: targets_of_def same_session_experiment_def)
  qed
qed

lemma used_once_step:
  assumes "used_once x i" and "unique_targets x" and "t \<in> set (targets_of x i)"
  shows "used_once (snd (resolve_target i now (c, x) t)) i"
proof (cases "now < et_window_closes_at t")
  case True
  then show ?thesis using assms(1) by (simp add: resolve_target_def)
next
  case False
  note cases = targets_of_resolved[OF assms(2,3) False]
  show ?thesis
  proof (rule used_onceI)
    fix a b p
    assume a: "a \<in> set (targets_of (snd (resolve_target i now (c, x) t)) i)"
      and b: "b \<in> set (targets_of (snd (resolve_target i now (c, x) t)) i)"
      and pa: "et_resolved_play_id a = Some p" and pb: "et_resolved_play_id b = Some p"
    from cases[OF a] cases[OF b] show "et_id a = et_id b"
    proof (elim disjE conjE)
      assume "a = decide_target i now x t" and "b = decide_target i now x t"
      then show ?thesis by (simp only:)
    next
      assume eq: "a = decide_target i now x t" and other: "b \<in> set (targets_of x i)" "et_id b \<noteq> et_id t"
      have "et_resolved_play_id b \<noteq> Some p" by (rule decide_target_fresh[OF pa[unfolded eq] other])
      from this pb show ?thesis by (rule notE)
    next
      assume eq: "b = decide_target i now x t" and other: "a \<in> set (targets_of x i)" "et_id a \<noteq> et_id t"
      have "et_resolved_play_id a \<noteq> Some p" by (rule decide_target_fresh[OF pb[unfolded eq] other])
      from this pa show ?thesis by (rule notE)
    next
      assume "a \<in> set (targets_of x i)" and "b \<in> set (targets_of x i)"
      then show ?thesis using pa pb by (rule used_onceD[OF assms(1)])
    qed
  qed
qed

lemma used_once_loop:
  assumes "used_once x i" and "unique_targets x" and "set ts \<subseteq> set (targets_of x i)" and "distinct ts"
  shows "used_once (snd (foldl (resolve_target i now) (c, x) ts)) i"
  using assms
proof (induction ts arbitrary: c x)
  case Nil
  then show ?case by simp
next
  case (Cons t ts)
  obtain c1 x1 where one: "resolve_target i now (c, x) t = (c1, x1)" by fastforce
  have t: "t \<in> set (xd_targets x)" "t \<in> set (targets_of x i)" using Cons.prems(3) by (auto simp: targets_of_def)
  have "used_once x1 i" using used_once_step[OF Cons.prems(1,2) t(2), of now c] by (simp add: one)
  moreover have "unique_targets x1"
    using resolve_target_targets(2)[OF Cons.prems(2) t(1), where now = now and i = i and c = c] Cons.prems(2)
    by (simp add: one unique_targets_def)
  moreover have "set ts \<subseteq> set (targets_of x1 i)"
  proof
    fix u
    assume "u \<in> set ts"
    then have u: "u \<in> set (targets_of x i)" "u \<noteq> t" using Cons.prems(3,4) by auto
    then have "et_id u \<noteq> et_id t" using unique_target[OF Cons.prems(2) _ t(1)] by (auto simp: targets_of_def)
    then have "u \<in> set (xd_targets x1)" using u(1) one
      by (auto simp: resolve_target_def Let_def targets_of_def image_iff split: if_splits)
    moreover have "sessions_of x1 i = sessions_of x i"
      using resolve_target_frame(2)[of i now c x t] by (simp add: one sessions_of_def)
    ultimately show "u \<in> set (targets_of x1 i)" using u(1) by (simp add: targets_of_def)
  qed
  ultimately show ?case using Cons.IH[of x1 c1] Cons.prems(4) by (simp add: one)
qed

lemma due_targets_subset: "set (due_targets i now x) \<subseteq> set (targets_of x i)"
  by (auto simp: due_targets_def)

lemma targets_of_subset: "set (targets_of x i) \<subseteq> set (xd_targets x)"
  by (auto simp: targets_of_def)

lemma distinct_due_targets: "unique_targets x \<Longrightarrow> distinct (due_targets i now x)"
  by (auto simp: unique_targets_def due_targets_def targets_of_def distinct_map)


text \<open>C6: no play is counted twice. If no play has settled two targets of an experiment, resolution keeps it so.\<close>

theorem no_play_settles_two_targets:
  assumes "unique_targets x" and "used_once x i"
  shows "used_once (snd (resolve_targets i now x)) i"
  unfolding resolve_targets_def
  by (rule used_once_loop[OF assms(2,1) due_targets_subset distinct_due_targets[OF assms(1)]])

subsection \<open>Assignment\<close>

lemma pick_by_in: "xs \<noteq> [] \<Longrightarrow> pick_by n xs \<in> set xs"
  by (simp add: pick_by_def)

lemma pick_transfers_sound:
  assumes "length ds \<le> length cs" and "distinct (map identity cs)"
  shows "map fst (pick_transfers dice ds cs) = ds \<and> snd ` set (pick_transfers dice ds cs) \<subseteq> set cs \<and>
     distinct (map (identity \<circ> snd) (pick_transfers dice ds cs))"
  using assms
proof (induction ds arbitrary: cs)
  case Nil
  then show ?case by simp
next
  case (Cons d ds)
  let ?j = "dice (transfer_purpose d) mod length cs"
  let ?rest = "take ?j cs @ drop (Suc ?j) cs"
  have j: "?j < length cs" by (rule mod_less_divisor) (use Cons.prems(1) in \<open>cases cs; simp\<close>)
  have cs: "cs = take ?j cs @ cs ! ?j # drop (Suc ?j) cs" using j by (rule id_take_nth_drop)
  have "distinct (map identity (take ?j cs @ cs ! ?j # drop (Suc ?j) cs))" using Cons.prems(2) cs by simp
  then have rest: "distinct (map identity ?rest)" "identity (cs ! ?j) \<notin> identity ` set ?rest" by auto
  have sub: "set ?rest \<subseteq> set cs" using set_take_subset[of ?j cs] set_drop_subset[of "Suc ?j" cs] by auto
  have len: "length ds \<le> length ?rest" using Cons.prems(1) j by simp
  note IH = Cons.IH[OF len rest(1)]
  have "identity (cs ! ?j) \<notin> (identity \<circ> snd) ` set (pick_transfers dice ds ?rest)"
    using IH rest(2) by (auto simp: image_comp[symmetric])
  then show ?case using IH sub j by (auto simp: Let_def)
qed

definition unit_group :: "candidate list \<Rightarrow> bool" where
  "unit_group cs \<longleftrightarrow> cs \<noteq> [] \<and> distinct (map identity cs)"

definition usable_sets :: "candidate_sets \<Rightarrow> bool" where
  "usable_sets cs \<longleftrightarrow> unit_group (cd_coach cs) \<and> unit_group (cd_control cs) \<and> unit_group (cd_transfer cs) \<and>
     identity ` set (cd_coach cs) \<inter> identity ` set (cd_control cs) = {}"

lemma distinct_sort_key: "distinct (map f (sort_key g xs)) = distinct (map f xs)"
  by (metis mset_map mset_sort mset_eq_imp_distinct_iff)

lemma normalise_group_Inr: "normalise_group cs = Inr cs' \<Longrightarrow> unit_group cs'"
  by (auto simp: normalise_group_def unit_group_def distinct_sort_key split: if_splits dest: arg_cong[of _ _ set])

lemma normalise_group_total: "unit_group cs \<Longrightarrow> normalise_group cs = Inr (sort_key candidate_order cs)"
  by (simp add: normalise_group_def unit_group_def)

lemma normalise_with_Inr:
  assumes "normalise_with parse values_of = Inr cs"
  shows "usable_sets cs"
proof -
  obtain coach control transfer where groups: "unit_group coach" "unit_group control" "unit_group transfer"
    and rest: "(if set (map identity coach) \<inter> set (map identity control) \<noteq> {}
       then Inl (ValueError ''coach and control candidate sets must not overlap'')
       else Inr \<lparr>cd_coach = coach, cd_control = control, cd_transfer = transfer\<rparr>) = Inr cs"
    using assms unfolding normalise_with_def py_bind_Inr_iff by (blast dest: normalise_group_Inr)
  have "identity ` set coach \<inter> identity ` set control = {}"
    using rest by (cases "identity ` set coach \<inter> identity ` set control = {}") simp_all
  moreover from this have "cs = \<lparr>cd_coach = coach, cd_control = control, cd_transfer = transfer\<rparr>"
    using rest by simp
  ultimately show ?thesis using groups by (simp add: usable_sets_def)
qed

lemma stored_candidates_total: "usable_sets cs \<Longrightarrow> \<exists>cs'. stored_candidates cs = Inr cs'"
  by (simp add: stored_candidates_def normalise_with_def usable_sets_def group_of_def normalise_group_total)

lemma distinct_unused: "distinct (map identity cs) \<Longrightarrow> distinct (map identity (unused r cs))"
  by (simp add: unused_def distinct_map_filter)

text \<open>What the availability check leaves.\<close>

definition fresh_sets :: "experiment_db \<Rightarrow> int \<Rightarrow> candidate_sets \<Rightarrow> bool" where
  "fresh_sets x i cs \<longleftrightarrow> usable_sets cs \<and> length interval_days \<le> length (cd_transfer cs) \<and>
     (\<forall>c\<in>set (cd_coach cs @ cd_control cs @ cd_transfer cs). identity c \<notin> set (reserved_charts x i)) \<and>
     (\<forall>c\<in>set (cd_transfer cs). \<not> practised (xd_store x) (identity c) \<and>
        identity c \<notin> identity ` set (cd_coach cs @ cd_control cs))"

lemma available_fresh:
  assumes "available_candidates x i submitted = Inr cs" and "usable_sets submitted"
  shows "fresh_sets x i cs"
proof -
  let ?r = "reserved_charts x i"
  let ?transfer = "filter (\<lambda>c. \<not> practised (xd_store x) (identity c)) (unused ?r (cd_transfer submitted))"
  have cs: "cd_coach cs = unused ?r (cd_coach submitted)" "cd_control cs = unused ?r (cd_control submitted)"
      "cd_transfer cs = ?transfer" "cd_coach cs \<noteq> []" "cd_control cs \<noteq> []"
      "length interval_days \<le> length ?transfer"
      "\<forall>c\<in>set ?transfer. identity c \<notin> identity ` set (cd_coach cs @ cd_control cs)"
    using assms(1) by (auto simp: available_candidates_def Let_def py_bind_Inr_iff raise_if_Inr list_ex_iff)
  have "usable_sets cs"
    using assms(2) cs(4,5,6) unfolding usable_sets_def unit_group_def cs(1,2,3)
    by (auto simp: unused_def distinct_map_filter interval_days_def)
  then show ?thesis using cs(6,7) unfolding fresh_sets_def cs(3)
    by (auto simp: cs(1,2) unused_def)
qed

lemma find_append_new: "List.find P xs = None \<Longrightarrow> P s \<Longrightarrow> List.find P (xs @ [s]) = Some s"
  by (induction xs) (auto split: if_splits)

lemma find_experiment_id: "find_experiment x i = Some e \<Longrightarrow> ex_id e = i"
  by (simp add: find_experiment_def find_Some_iff) blast

lemma assign_session_cases:
  assumes "assign_session rt i key start sets now x = Inr (a, x')"
  obtains (known) submitted s e where "key \<noteq> []" "normalise_candidates rt sets = Inr submitted"
      "find_experiment x i = Some e" "ex_starts_at e \<le> start" "start < ex_ends_at e"
      "List.find (\<lambda>s. es_session_key s = key) (sessions_of x i) = Some s"
      "same_inputs rt s start submitted = Inr ()" "assignment_result rt x (es_id s) = Inr a" "x' = x"
  | (fresh) submitted s e candidates where "key \<noteq> []" "normalise_candidates rt sets = Inr submitted"
      "find_experiment x i = Some e" "ex_starts_at e \<le> start" "start < ex_ends_at e"
      "List.find (\<lambda>s. es_session_key s = key) (sessions_of x i) = None"
      "available_candidates x i submitted = Inr candidates"
      "new_session rt e key start candidates (sha256_hex rt (canonical_candidates rt submitted)) now x = (s, x')"
      "assignment_result rt x' (es_id s) = Inr a"
proof -
  obtain submitted where key: "key \<noteq> []" and submitted: "normalise_candidates rt sets = Inr submitted"
    using assms by (auto simp: assign_session_def py_bind_Inr_iff raise_if_Inr)
  obtain e where e: "find_experiment x i = Some e"
    using assms key submitted by (auto simp: assign_session_def split: option.splits)
  have period: "ex_starts_at e \<le> start" "start < ex_ends_at e"
    using assms key submitted e by (auto simp: assign_session_def py_bind_Inr_iff raise_if_Inr)
  show thesis
  proof (cases "List.find (\<lambda>s. es_session_key s = key) (sessions_of x i)")
    case (Some s)
    show thesis
      by (rule known[OF key submitted e period Some])
        (use assms key submitted e period Some in \<open>auto simp: assign_session_def py_bind_Inr_iff raise_if_Inr\<close>)
  next
    case None
    obtain candidates where candidates: "available_candidates x i submitted = Inr candidates"
      using assms key submitted e period None by (auto simp: assign_session_def py_bind_Inr_iff raise_if_Inr)
    obtain s y where new: "new_session rt e key start candidates (sha256_hex rt (canonical_candidates rt submitted)) now x = (s, y)"
      by fastforce
    have "assignment_result rt y (es_id s) = Inr a" "x' = y"
      using assms key submitted e period None candidates new by (auto simp: assign_session_def py_bind_Inr_iff raise_if_Inr)
    with new show thesis by (intro fresh[OF key submitted e period None candidates]) simp_all
  qed
qed

text \<open>A fresh assignment appends one session row and the targets of its schedule.\<close>

lemma new_session_shape:
  assumes "new_session rt e key start cs h now x = (s, x')"
  shows "xd_sessions x' = xd_sessions x @ [s]" "xd_experiments x' = xd_experiments x" "xd_store x' = xd_store x"
    "es_experiment_id s = ex_id e" "es_session_key s = key" "es_session_at s = start"
    "es_input_candidate_hash s = Some h" "es_candidates s = cs" "es_id s = xd_next_session x"
    "es_arm s = pick_by (draw rt (ex_seed e) key ''arm'') arms"
    "es_selected s = pick_by (draw rt (ex_seed e) key ''selection'') (group_of cs (es_arm s))"
    "es_transfer s = snd (hd (pick_transfers (draw rt (ex_seed e) key) interval_days (cd_transfer cs)))"
    "xd_targets x' = xd_targets x @ target_rows (xd_next_target x) (es_id s) start (es_selected s)
       (pick_transfers (draw rt (ex_seed e) key) interval_days (cd_transfer cs))"
  using assms by (auto simp: new_session_def Let_def)

text \<open>C7: a session is assigned once. After an assignment, the same request, at any later time, returns the same answer and changes
  nothing; \<open>sha256\<close> returns a non-empty digest.\<close>

theorem assign_session_idempotent:
  assumes "assign_session rt i key start sets now x = Inr (a, x')" and "\<And>t. sha256_hex rt t \<noteq> []"
  shows "assign_session rt i key start sets later x' = Inr (a, x')"
  using assms(1)
proof (cases rule: assign_session_cases)
  case (known submitted s e)
  then show ?thesis by (simp add: assign_session_def)
next
  case (fresh submitted s e cs)
  note shape = new_session_shape[OF fresh(8)]
  have "usable_sets submitted" using fresh(2) unfolding normalise_candidates_def by (rule normalise_with_Inr)
  from available_fresh[OF fresh(7) this] have "usable_sets cs" by (simp add: fresh_sets_def)
  then obtain cs' where stored: "stored_candidates cs = Inr cs'" using stored_candidates_total by blast
  have "sessions_of x' i = sessions_of x i @ [s]"
    using find_experiment_id[OF fresh(3)] by (simp add: sessions_of_def shape)
  then have "List.find (\<lambda>s. es_session_key s = key) (sessions_of x' i) = Some s"
    using find_append_new[OF fresh(6), of s] by (simp add: shape)
  moreover have "find_experiment x' i = Some e" using fresh(3) by (simp add: find_experiment_def shape)
  moreover have "same_inputs rt s start submitted = Inr ()"
    using assms(2) by (simp add: same_inputs_def shape stored Let_def)
  ultimately show ?thesis using fresh(1,2,4,5,9) by (simp add: assign_session_def)
qed

text \<open>The schedule of a new session.\<close>

definition scheduled :: "int \<Rightarrow> int \<Rightarrow> target_row \<Rightarrow> bool" where
  "scheduled session_id start t \<longleftrightarrow>
     et_session_id t = session_id \<and> et_status t = Pending \<and> et_outcome t = None \<and> et_resolved_play_id t = None \<and>
     et_due_at t = start + et_interval_days t * day_seconds \<and>
     et_window_closes_at t = et_due_at t + day_seconds"

abbreviation of_kind :: "target_kind \<Rightarrow> target_row list \<Rightarrow> target_row list" where
  "of_kind k \<equiv> filter (\<lambda>t. et_kind t = k)"

lemma target_rows_four:
  assumes "map fst ps = interval_days"
  obtains a b c d where "ps = [(1, a), (3, b), (7, c), (14, d)]"
proof -
  have "map fst ps = [1, 3, 7, 14]" using assms by (simp add: interval_days_def)
  then obtain p q r s where "ps = [p, q, r, s]" "fst p = 1" "fst q = 3" "fst r = 7" "fst s = 14"
    by (auto simp: map_eq_Cons_conv)
  with that[of "snd p" "snd q" "snd r" "snd s"] show thesis by (cases p; cases q; cases r; cases s) simp
qed

lemma target_rows_schedule:
  assumes "map fst ps = interval_days"
  shows "list_all (scheduled sid start) (target_rows n sid start c ps)"
    and "map et_id (target_rows n sid start c ps) = map (\<lambda>k. n + int k) [0..<8]"
    and "map et_interval_days (of_kind Retention (target_rows n sid start c ps)) = interval_days"
    and "map et_chart (of_kind Retention (target_rows n sid start c ps)) = replicate 4 (identity c)"
    and "map et_interval_days (of_kind Transfer (target_rows n sid start c ps)) = interval_days"
    and "map et_chart (of_kind Transfer (target_rows n sid start c ps)) = map (identity \<circ> snd) ps"
  by (rule target_rows_four[OF assms],
      simp add: target_rows_def scheduled_def interval_days_def day_seconds_def upt_rec numeral_eq_Suc)+

text \<open>The schedule of a new session. Eight pending targets are added, one for retention and one for transfer after 1, 3, 7
  and 14 days, each with a window of one day; retention is always the chart drawn for the
  session's arm, while the four transfer charts are distinct, unpractised, in neither arm and, like the
  drawn chart, used by no earlier session of the experiment.\<close>

theorem assigned_schedule_is_fresh:
  assumes "assign_session rt i key start sets now x = Inr (a, x')"
    and "List.find (\<lambda>s. es_session_key s = key) (sessions_of x i) = None"
  shows "\<exists>s ts. xd_sessions x' = xd_sessions x @ [s] \<and> xd_targets x' = xd_targets x @ ts \<and>
     list_all (scheduled (es_id s) start) ts \<and> es_arm s \<in> set arms \<and>
     es_selected s \<in> set (group_of (es_candidates s) (es_arm s)) \<and>
     identity (es_selected s) \<notin> set (reserved_charts x i) \<and>
     map et_interval_days (of_kind Retention ts) = interval_days \<and>
     map et_chart (of_kind Retention ts) = replicate 4 (identity (es_selected s)) \<and>
     map et_interval_days (of_kind Transfer ts) = interval_days \<and>
     distinct (map et_chart (of_kind Transfer ts)) \<and>
     (\<forall>ch\<in>set (map et_chart (of_kind Transfer ts)). \<not> practised (xd_store x) ch \<and>
        ch \<notin> set (reserved_charts x i) \<and>
        ch \<notin> identity ` set (cd_coach (es_candidates s) @ cd_control (es_candidates s)))"
  using assms(1)
proof (cases rule: assign_session_cases)
  case (known submitted s e)
  then show ?thesis using assms(2) by simp
next
  case (fresh submitted s e cs)
  note shape = new_session_shape[OF fresh(8)]
  have "usable_sets submitted" using fresh(2) unfolding normalise_candidates_def by (rule normalise_with_Inr)
  from available_fresh[OF fresh(7) this] have cs: "fresh_sets x i cs" .
  let ?dice = "draw rt (ex_seed e) key"
  let ?ps = "pick_transfers ?dice interval_days (cd_transfer cs)"
  have ps: "map fst ?ps = interval_days" "snd ` set ?ps \<subseteq> set (cd_transfer cs)" "distinct (map (identity \<circ> snd) ?ps)"
    using pick_transfers_sound[of interval_days "cd_transfer cs" ?dice] cs
    by (simp_all add: fresh_sets_def usable_sets_def unit_group_def)
  have arm: "es_arm s \<in> set arms" unfolding shape(10) by (rule pick_by_in) (simp add: arms_def)
  have "group_of cs (es_arm s) \<noteq> []" using arm cs
    by (auto simp: arms_def group_of_def fresh_sets_def usable_sets_def unit_group_def)
  then have selected: "es_selected s \<in> set (group_of cs (es_arm s))" unfolding shape(11) by (rule pick_by_in)
  then have reserved: "identity (es_selected s) \<notin> set (reserved_charts x i)"
    using cs by (auto simp: group_of_def fresh_sets_def split: if_splits)
  have transfer: "\<forall>ch\<in>set (map (identity \<circ> snd) ?ps). \<not> practised (xd_store x) ch \<and>
      ch \<notin> set (reserved_charts x i) \<and> ch \<notin> identity ` set (cd_coach cs @ cd_control cs)"
  proof
    fix ch
    assume "ch \<in> set (map (identity \<circ> snd) ?ps)"
    then obtain c where c: "c \<in> set (cd_transfer cs)" "ch = identity c" using ps(2) by auto
    then show "\<not> practised (xd_store x) ch \<and> ch \<notin> set (reserved_charts x i) \<and>
        ch \<notin> identity ` set (cd_coach cs @ cd_control cs)"
      using cs unfolding fresh_sets_def by simp
  qed
  define ts where "ts = target_rows (xd_next_target x) (es_id s) start (es_selected s) ?ps"
  note schedule = target_rows_schedule[OF ps(1), where sid = "es_id s" and start = start and n = "xd_next_target x"
    and c = "es_selected s", folded ts_def]
  have "distinct (map et_chart (of_kind Transfer ts))" unfolding schedule(6) by (rule ps(3))
  moreover have "xd_targets x' = xd_targets x @ ts" unfolding ts_def by (rule shape(13))
  ultimately show ?thesis
    by (intro exI[of _ s] exI[of _ ts] conjI)
      (rule shape(1) schedule(1,3,4,5) arm selected[folded shape(8)] reserved
         transfer[folded schedule(6), folded shape(8)] | assumption)+
qed

subsection \<open>The report\<close>

definition targets_valid :: "experiment_db \<Rightarrow> bool" where
  "targets_valid x \<longleftrightarrow>
     (\<forall>t\<in>set (xd_targets x). 0 \<le> et_p_pred t \<and> et_p_pred t \<le> 1 \<and> (\<forall>y. et_outcome t = Some y \<longrightarrow> y \<in> {0, 1}))"

definition unit_option :: "real option \<Rightarrow> bool" where
  "unit_option r \<longleftrightarrow> (case r of None \<Rightarrow> True | Some v \<Rightarrow> 0 \<le> v \<and> v \<le> 1)"

definition valid_observations :: "(real \<times> int) list \<Rightarrow> bool" where
  "valid_observations obs \<longleftrightarrow> (\<forall>(p, y)\<in>set obs. 0 \<le> p \<and> p \<le> 1 \<and> y \<in> {0, 1})"

lemma sum_list_unit:
  "\<forall>v\<in>set vs. 0 \<le> v \<and> v \<le> (1 :: real) \<Longrightarrow> 0 \<le> sum_list vs \<and> sum_list vs \<le> real (length vs)"
  by (induction vs) auto

lemma mean_unit: "\<forall>v\<in>set vs. 0 \<le> v \<and> v \<le> (1 :: real) \<Longrightarrow> vs \<noteq> [] \<Longrightarrow>
    0 \<le> sum_list vs / real (length vs) \<and> sum_list vs / real (length vs) \<le> 1"
  using sum_list_unit[of vs] by (simp add: divide_le_eq)

lemma square_unit: "0 \<le> p \<Longrightarrow> p \<le> 1 \<Longrightarrow> y \<in> {0, 1} \<Longrightarrow> 0 \<le> (p - real_of_int y)\<^sup>2 \<and> (p - real_of_int y)\<^sup>2 \<le> 1"
  unfolding abs_square_le_1 by auto

lemma summarize_unit:
  assumes "valid_observations obs"
  shows "unit_option (am_success_rate (summarize obs)) \<and> unit_option (am_brier (summarize obs))"
proof (cases "obs = []")
  case True
  then show ?thesis by (simp add: summarize_def unit_option_def)
next
  case False
  have ys: "\<forall>v\<in>set (map (\<lambda>o'. real_of_int (snd o')) obs). 0 \<le> v \<and> v \<le> 1"
    and sq: "\<forall>v\<in>set (map (\<lambda>(p, y). (p - real_of_int y)\<^sup>2) obs). 0 \<le> v \<and> v \<le> 1"
    using assms square_unit unfolding valid_observations_def by fastforce+
  have "real_of_int (sum_list (map snd obs)) = sum_list (map (\<lambda>o'. real_of_int (snd o')) obs)"
    by (induction obs) simp_all
  then show ?thesis using mean_unit[OF ys] mean_unit[OF sq] False
    by (simp add: summarize_def unit_option_def Let_def)
qed

lemma arm_observations_valid: "targets_valid x \<Longrightarrow> valid_observations (arm_observations x i kind d arm)"
  unfolding targets_valid_def valid_observations_def arm_observations_def
  by (fastforce simp: List.map_filter_def targets_of_def)

text \<open>The report claims no more than its samples allow. Every rate and Brier score lies in the unit interval; a line has
  differences between the arms exactly if both arms reached the preregistered minimum, and
  they are then the differences of the shown values, between -1 and 1.\<close>

theorem report_is_bounded:
  assumes "targets_valid x" and "report_experiment x i = Inr lines" and "line \<in> set lines"
    and "find_experiment x i = Some e" and "0 < ex_min_samples e"
  shows "unit_option (am_success_rate (rl_coach line)) \<and> unit_option (am_success_rate (rl_control line)) \<and>
     unit_option (am_brier (rl_coach line)) \<and> unit_option (am_brier (rl_control line)) \<and>
     (rl_estimable line \<longleftrightarrow> ex_min_samples e \<le> int (am_n (rl_coach line)) \<and> ex_min_samples e \<le> int (am_n (rl_control line))) \<and>
     (rl_estimable line \<longleftrightarrow> rl_success_difference line \<noteq> None) \<and> (rl_estimable line \<longleftrightarrow> rl_brier_difference line \<noteq> None) \<and>
     (\<forall>d. rl_success_difference line = Some d \<longrightarrow> \<bar>d\<bar> \<le> 1) \<and> (\<forall>d. rl_brier_difference line = Some d \<longrightarrow> \<bar>d\<bar> \<le> 1)"
proof -
  obtain kind interval where line: "line = report_line_of x e kind interval"
    using assms(2,3,4) by (auto simp: report_experiment_def)
  let ?a = "summarize (arm_observations x (ex_id e) kind interval ''coach'')"
  let ?b = "summarize (arm_observations x (ex_id e) kind interval ''control'')"
  have units: "unit_option (am_success_rate ?a)" "unit_option (am_brier ?a)"
      "unit_option (am_success_rate ?b)" "unit_option (am_brier ?b)"
    using summarize_unit arm_observations_valid[OF assms(1)] by blast+
  have known: "\<exists>u v. am_success_rate (summarize obs) = Some u \<and> am_brier (summarize obs) = Some v"
    if "ex_min_samples e \<le> int (am_n (summarize obs))" for obs
    using that assms(5) by (cases "obs = []") (simp_all add: summarize_def Let_def)
  have fields: "rl_coach line = ?a" "rl_control line = ?b"
      "rl_estimable line \<longleftrightarrow> ex_min_samples e \<le> int (am_n ?a) \<and> ex_min_samples e \<le> int (am_n ?b)"
      "rl_success_difference line = (if rl_estimable line then difference (am_success_rate ?a) (am_success_rate ?b) else None)"
      "rl_brier_difference line = (if rl_estimable line then difference (am_brier ?a) (am_brier ?b) else None)"
    by (simp_all add: line report_line_of_def Let_def)
  show ?thesis
  proof (cases "rl_estimable line")
    case False
    then have "rl_success_difference line = None" "rl_brier_difference line = None" by (simp_all only: fields(4,5) if_False)
    then show ?thesis using units False unfolding fields(1,2) fields(3)[symmetric] by simp
  next
    case True
    obtain u v where a: "am_success_rate ?a = Some u" "am_brier ?a = Some v" using known True fields(3) by blast
    obtain u' v' where b: "am_success_rate ?b = Some u'" "am_brier ?b = Some v'" using known True fields(3) by blast
    show ?thesis using units True fields(3) unfolding fields(1,2,4,5) a b by (simp add: unit_option_def abs_le_iff)
  qed
qed

subsection \<open>A small experiment\<close>

definition sample_candidate_row :: "int \<Rightarrow> row" where
  "sample_candidate_row m = [(''sha256'', PStr (replicate 64 CHR ''a'')), (''mode'', PInt m), (''p_pred'', PFloat (Fin (1 / 2)))]"

definition sample_submitted :: "string \<Rightarrow> row list" where
  "sample_submitted name = map sample_candidate_row
     (if name = ''coach'' then [1] else if name = ''control'' then [2] else [3, 4, 5, 6])"

definition sample_candidate :: "int \<Rightarrow> candidate" where
  "sample_candidate m = \<lparr>ca_sha256 = replicate 64 CHR ''a'', ca_mode = m, ca_p_pred = 1 / 2\<rparr>"

definition sample_sets :: candidate_sets where
  "sample_sets = \<lparr>cd_coach = [sample_candidate 1], cd_control = [sample_candidate 2],
     cd_transfer = map sample_candidate [3, 4, 5, 6]\<rparr>"

definition sample_digest_runtime :: runtime where
  "sample_digest_runtime = sample_runtime\<lparr>sha256_hex := (\<lambda>_. replicate 64 CHR ''0'')\<rparr>"

definition sample_experiment :: experiment_row where
  "sample_experiment = \<lparr>ex_id = 1, ex_name = ''trial'', ex_seed = ''seed'', ex_starts_at = 0,
     ex_ends_at = 14 * day_seconds, ex_min_samples = 1, ex_created_at = 0\<rparr>"

definition sample_experiment_db :: experiment_db where
  "sample_experiment_db = \<lparr>xd_store = empty_db, xd_experiments = [sample_experiment], xd_next_experiment = 2,
     xd_sessions = [], xd_next_session = 1, xd_targets = [], xd_next_target = 1\<rparr>"

lemma lower_sample: "py_lower (replicate 64 CHR ''a'') = replicate 64 CHR ''a''"
  by (simp add: py_lower_def lower_char_def)

lemma sample_candidate_of: "candidate_of rt (sample_candidate_row m) = Inr (sample_candidate m)"
  by (simp add: candidate_of_def sample_candidate_row_def get_default_def get_item_def lower_sample sample_candidate_def
      list_all_iff is_hex_lower_def is_digit_def less_eq_char_def)

lemma sample_group:
  "normalise_group [sample_candidate m] = Inr [sample_candidate m]"
  "normalise_group (map sample_candidate [3, 4, 5, 6]) = Inr (map sample_candidate [3, 4, 5, 6])"
  by (simp_all add: normalise_group_def identity_def sample_candidate_def candidate_order_def)

lemma sample_normalised: "normalise_candidates rt sample_submitted = Inr sample_sets"
  by (simp add: normalise_candidates_def normalise_with_def sample_submitted_def sample_candidate_of
      sample_group[simplified] sample_sets_def) (simp add: identity_def sample_candidate_def)

lemma sample_assigned:
  "\<exists>a x'. assign_session sample_digest_runtime 1 ''first'' 0 sample_submitted 5 sample_experiment_db = Inr (a, x')"
proof -
  let ?x = sample_experiment_db and ?rt = sample_digest_runtime
  have empty: "sessions_of ?x 1 = []" "reserved_charts ?x 1 = []" "xd_store ?x = empty_db"
    by (simp_all add: sessions_of_def sample_experiment_db_def reserved_charts_def targets_of_def)
  have "available_candidates ?x 1 sample_sets = Inr sample_sets"
    by (simp add: available_candidates_def Let_def empty unused_def sample_sets_def practised_def empty_db_def
        interval_days_def identity_def sample_candidate_def)
  moreover have "find_experiment ?x 1 = Some sample_experiment"
    by (simp add: find_experiment_def sample_experiment_db_def sample_experiment_def)
  moreover obtain s x' where new: "new_session ?rt sample_experiment ''first'' 0 sample_sets
      (sha256_hex ?rt (canonical_candidates ?rt sample_sets)) 5 ?x = (s, x')" by fastforce
  moreover have "\<exists>a. assignment_result ?rt x' (es_id s) = Inr a"
  proof -
    have "find_session x' (es_id s) = Some s"
      using new_session_shape(1)[OF new] by (simp add: find_session_def sample_experiment_db_def)
    moreover have "usable_sets sample_sets"
      by (simp add: usable_sets_def unit_group_def sample_sets_def identity_def sample_candidate_def)
    moreover from this obtain cs' where "stored_candidates sample_sets = Inr cs'" using stored_candidates_total by blast
    ultimately show ?thesis using new_session_shape(8)[OF new]
      by (auto simp: assignment_result_def transfer_selection_probability_def Let_def)
  qed
  ultimately show ?thesis
    by (auto simp: assign_session_def sample_normalised empty sample_experiment_def day_seconds_def)
qed

theorem assign_session_idempotent_witness:
  "\<exists>a x'. assign_session sample_digest_runtime 1 ''first'' 0 sample_submitted 5 sample_experiment_db = Inr (a, x') \<and>
     assign_session sample_digest_runtime 1 ''first'' 0 sample_submitted 99 x' = Inr (a, x')"
proof -
  have "sha256_hex sample_digest_runtime t \<noteq> []" for t by (simp add: sample_digest_runtime_def)
  then show ?thesis using sample_assigned assign_session_idempotent by blast
qed

theorem assigned_schedule_is_fresh_witness:
  "\<exists>a x'. assign_session sample_digest_runtime 1 ''first'' 0 sample_submitted 5 sample_experiment_db = Inr (a, x') \<and>
     (\<exists>ts. xd_targets x' = ts \<and> distinct (map et_chart (of_kind Transfer ts)))"
proof -
  obtain a x' where run: "assign_session sample_digest_runtime 1 ''first'' 0 sample_submitted 5 sample_experiment_db = Inr (a, x')"
    using sample_assigned by blast
  have "List.find (\<lambda>s. es_session_key s = ''first'') (sessions_of sample_experiment_db 1) = None"
    by (simp add: sessions_of_def sample_experiment_db_def)
  from assigned_schedule_is_fresh[OF run this] obtain ts
    where "xd_targets x' = xd_targets sample_experiment_db @ ts" "distinct (map et_chart (of_kind Transfer ts))" by blast
  then show ?thesis using run by (auto simp: sample_experiment_db_def)
qed

text \<open>Two targets on one chart whose windows overlap, and a play in both.\<close>

definition sample_session :: session_row where
  "sample_session = \<lparr>es_id = 1, es_experiment_id = 1, es_session_key = ''first'', es_session_at = 0, es_arm = ''coach'',
     es_arm_probability = 1 / 2, es_selection_probability = 1 / 2, es_candidate_hash = ''h'', es_candidates = sample_sets,
     es_selected = sample_candidate 1, es_transfer = sample_candidate 3, es_assigned_at = 0,
     es_input_candidate_hash = Some ''h''\<rparr>"

definition sample_target :: "int \<Rightarrow> target_row" where
  "sample_target i = \<lparr>et_id = i, et_session_id = 1, et_kind = Retention, et_interval_days = 1, et_chart = (''aa'', 0),
     et_due_at = 900 + i, et_window_closes_at = 2000, et_p_pred = 1 / 2, et_status = Pending, et_outcome = None,
     et_resolved_play_id = None, et_resolved_at = None, et_resolution_note = None\<rparr>"

definition sample_resolvable :: experiment_db where
  "sample_resolvable = \<lparr>xd_store = empty_db\<lparr>t_plays :=
       [(1, as_record (sample_play sample_runtime ''aa'' 1 ''collector'' 0 0 5))]\<rparr>,
     xd_experiments = [sample_experiment], xd_next_experiment = 2, xd_sessions = [sample_session], xd_next_session = 2,
     xd_targets = [sample_target 1, sample_target 2], xd_next_target = 3\<rparr>"

lemma sample_targets: "targets_of sample_resolvable 1 = [sample_target 1, sample_target 2]"
  by (simp add: targets_of_def sessions_of_def sample_resolvable_def sample_session_def sample_target_def)

lemma sample_unique_targets: "unique_targets sample_resolvable"
  by (simp add: unique_targets_def sample_resolvable_def sample_target_def)

lemma sample_scorable:
  "scorable_plays (xd_store sample_resolvable) (sample_target i) =
     (if 900 + i \<le> 1000 then [(1, as_record (sample_play sample_runtime ''aa'' 1 ''collector'' 0 0 5))] else [])"
  by (simp add: scorable_plays_def plays_between_def semantic_plays_def sample_resolvable_def sample_target_def
      as_record_def sample_play_def empty_db_def)


theorem no_play_settles_two_targets_witness:
  "used_once (snd (resolve_targets 1 3000 sample_resolvable)) 1 \<and>
     scorable_plays (xd_store sample_resolvable) (sample_target 1) =
       scorable_plays (xd_store sample_resolvable) (sample_target 2)"
proof -
  have "used_once sample_resolvable 1" by (simp add: used_once_def sample_targets) (simp add: sample_target_def)
  from no_play_settles_two_targets[OF sample_unique_targets this] show ?thesis by (simp add: sample_scorable)
qed

theorem report_is_bounded_witness:
  "\<exists>line. rl_estimable line = False \<and> report_experiment sample_resolvable 1 \<noteq> Inr [] \<and>
     line \<in> set (case report_experiment sample_resolvable 1 of Inl e \<Rightarrow> [] | Inr ls \<Rightarrow> ls) \<and>
     unit_option (am_brier (rl_coach line)) \<and> rl_success_difference line = None"
proof -
  have valid: "targets_valid sample_resolvable"
    by (simp add: targets_valid_def sample_resolvable_def sample_target_def)
  have find: "find_experiment sample_resolvable 1 = Some sample_experiment"
    by (simp add: find_experiment_def sample_resolvable_def sample_experiment_def)
  let ?line = "report_line_of sample_resolvable sample_experiment Retention 1"
  obtain lines where lines: "report_experiment sample_resolvable 1 = Inr lines" "?line \<in> set lines"
    by (simp add: report_experiment_def find interval_days_def)
  have none: "arm_observations sample_resolvable 1 Retention 1 ''coach'' = []"
    by (simp add: arm_observations_def sample_targets) (simp add: sample_target_def List.map_filter_def)
  have "0 < ex_min_samples sample_experiment" by (simp add: sample_experiment_def)
  note bounded = report_is_bounded[OF valid lines find this]
  have "\<not> rl_estimable ?line"
    by (simp add: report_line_of_def Let_def none sample_experiment_def summarize_def)
  then show ?thesis using bounded lines by (intro exI[of _ ?line]) auto
qed

end
