(* ===== verification/Dates.thy ===== *)
theory Dates
  imports Py_Values
begin

text \<open>
  Dates and times as text: the rendering of an epoch second in UTC that \<open>plan/experiment.py\<close> prints, and of a day number
  that the progress receiver of \<open>serve/app.py\<close> stores.
\<close>

text \<open>\<open>datetime.fromtimestamp(t, timezone.utc).isoformat()\<close>: the civil date of a day number in the proleptic Gregorian
  calendar, years 1 to 9999.\<close>

definition civil_of_day :: "int \<Rightarrow> int \<times> int \<times> int" where
  "civil_of_day day =
     (let z = day + 719468;
          era = z div 146097;
          doe = z - era * 146097;
          yoe = (doe - doe div 1460 + doe div 36524 - doe div 146096) div 365;
          doy = doe - (365 * yoe + yoe div 4 - yoe div 100);
          mp = (5 * doy + 2) div 153;
          month = (if mp < 10 then mp + 3 else mp - 9)
      in (yoe + era * 400 + (if month \<le> 2 then 1 else 0), month, doy - (153 * mp + 2) div 5 + 1))"

definition padded :: "nat \<Rightarrow> int \<Rightarrow> string" where
  "padded width n = (let t = show_int n in replicate (width - length t) CHR ''0'' @ t)"

definition iso_date :: "int \<Rightarrow> string" where
  "iso_date day = (case civil_of_day day of (year, month, d) \<Rightarrow> padded 4 year @ ''-'' @ padded 2 month @ ''-'' @ padded 2 d)"

definition utc_iso :: "int \<Rightarrow> string py" where
  "utc_iso t =
     (case civil_of_day (t div 86400) of (year, month, day) \<Rightarrow>
        if year < 1 \<or> 9999 < year then Inl (ValueError ''year is out of range'')
        else Inr (iso_date (t div 86400) @ ''T'' @
          padded 2 (t mod 86400 div 3600) @ '':'' @ padded 2 (t mod 3600 div 60) @ '':'' @ padded 2 (t mod 60) @
          ''+00:00''))"

lemma utc_iso_leap_day: "utc_iso 951827696 = Inr ''2000-02-29T12:34:56+00:00''"
  by code_simp

end
