(* ===== verification/Experiment_Menu.thy ===== *)
theory Experiment_Menu
  imports Experiment_Proofs Dates
begin

text \<open>
  The two ends of an experiment in \<open>plan/experiment.py\<close>: \<open>build_candidate_sets\<close>, which derives the arms of a session from
  the latest published menu, and \<open>list_targets\<close>, the schedule a player sees. The stored menu is the value its JSON text
  denotes: \<open>None\<close> when there is none, \<open>Some None\<close> when the text does not parse.
\<close>

subsection \<open>Rows of the menu\<close>

text \<open>A comprehension whose condition may raise.\<close>

fun py_pick :: "('a \<Rightarrow> 'b option py) \<Rightarrow> 'a list \<Rightarrow> 'b list py" where
  "py_pick f [] = Inr []"
| "py_pick f (x # xs) =
     py_bind (f x) (\<lambda>y. py_bind (py_pick f xs) (\<lambda>ys. Inr (case y of None \<Rightarrow> ys | Some z \<Rightarrow> z # ys)))"

fun dicts_of :: "pyval list \<Rightarrow> row list" where
  "dicts_of [] = []"
| "dicts_of (PDict r # vs) = r # dicts_of vs"
| "dicts_of (v # vs) = dicts_of vs"

fun list_of :: "pyval \<Rightarrow> pyval list option" where
  "list_of (PList vs) = Some vs"
| "list_of v = None"

fun text_of :: "pyval \<Rightarrow> string option" where
  "text_of (PStr s) = Some s"
| "text_of v = None"

fun hashable :: "pyval \<Rightarrow> bool" where
  "hashable (PList vs) = False"
| "hashable (PDict r) = False"
| "hashable v = True"

text \<open>The charts of the personal table by hash, the last entry of a hash winning.\<close>

definition by_sha :: "row list \<Rightarrow> string \<Rightarrow> row option" where
  "by_sha personal sha = List.find (\<lambda>r. text_of (get_item r ''sha256'') = Some sha) (rev personal)"

definition row_identity :: "runtime \<Rightarrow> row \<Rightarrow> identity py" where
  "row_identity rt r =
     py_bind (py_int (get_default r ''mode'' (PInt 0))) (\<lambda>mode.
       Inr (text_or_empty rt (get_item r ''sha256''), mode))"

definition queue_identity :: "row list \<Rightarrow> row \<Rightarrow> identity option py" where
  "queue_identity personal entry =
     (case text_of (get_item entry ''sha256'') of
        None \<Rightarrow> Inr None
      | Some sha \<Rightarrow>
          let source = (case by_sha personal sha of None \<Rightarrow> [] | Some r \<Rightarrow> r) in
          py_bind (py_int (get_default source ''mode'' (get_default entry ''mode'' (PInt 0))))
            (\<lambda>mode. Inr (Some (sha, mode))))"

text \<open>\<open>str(source.get(k) or item.get(k) or "")\<close>.\<close>

definition either_text :: "runtime \<Rightarrow> row \<Rightarrow> row \<Rightarrow> string \<Rightarrow> string" where
  "either_text rt source entry k =
     (if truthy (get_item source k) then py_str rt (get_item source k) else text_or_empty rt (get_item entry k))"

subsection \<open>Strata\<close>

type_synonym stratum = "string \<times> string \<times> bool \<times> string"

definition focus_categories :: "string list" where
  "focus_categories = [''02 FOCUS-A'', ''04 FOCUS-B'']"

text \<open>The stratum of a focus chart of the queue: its table, its level, whether it was played, its axis.\<close>

definition focus_entry :: "runtime \<Rightarrow> row list \<Rightarrow> identity set \<Rightarrow> row \<Rightarrow> (stratum \<times> row) option py" where
  "focus_entry rt personal reserved entry =
     (if \<not> hashable (get_item entry ''category'') then Inl TypeError
      else if get_item entry ''category'' \<notin> PStr ` set focus_categories then Inr None
      else
        py_bind (let a = get_item entry ''attempt'' in py_int (if truthy a then a else PInt 1)) (\<lambda>attempt.
          if attempt \<noteq> 1 then Inr None
          else case by_sha personal (py_str rt (get_item entry ''sha256'')) of
            None \<Rightarrow> Inr None
          | Some source \<Rightarrow>
              py_bind (py_int (get_default source ''mode'' (PInt 0))) (\<lambda>mode.
                if (py_str rt (get_item entry ''sha256''), mode) \<in> reserved then Inr None
                else
                  py_bind (int_or_zero source ''playcount'') (\<lambda>playcount.
                    let table = either_text rt source entry ''table_id'';
                        level = either_text rt source entry ''source_level'';
                        axis = text_or_empty rt (get_item source ''primary_axis'')
                    in Inr (if table = [] \<or> level = [] \<or> axis = [] then None
                            else Some ((table, level, 0 < playcount, axis), source))))))"

definition in_level :: "runtime \<Rightarrow> stratum \<Rightarrow> row \<Rightarrow> bool" where
  "in_level rt key r \<longleftrightarrow>
     text_or_empty rt (get_item r ''table_id'') = fst key \<and>
     text_or_empty rt (get_item r ''source_level'') = fst (snd key)"

definition unblocked :: "runtime \<Rightarrow> identity set \<Rightarrow> row \<Rightarrow> (identity \<times> row) option py" where
  "unblocked rt blocked r =
     py_bind (row_identity rt r) (\<lambda>i. Inr (if i \<in> blocked then None else Some (i, r)))"

definition baseline_entry :: "runtime \<Rightarrow> identity set \<Rightarrow> stratum \<Rightarrow> row \<Rightarrow> (identity \<times> row) option py" where
  "baseline_entry rt blocked key r =
     (if \<not> in_level rt key r then Inr None
      else py_bind (int_or_zero r ''playcount'') (\<lambda>playcount.
        if (0 < playcount) \<noteq> fst (snd (snd key)) then Inr None else unblocked rt blocked r))"

definition transfer_entry :: "runtime \<Rightarrow> identity set \<Rightarrow> stratum \<Rightarrow> row \<Rightarrow> (identity \<times> row) option py" where
  "transfer_entry rt blocked key r =
     (if \<not> in_level rt key r then Inr None
      else py_bind (int_or_zero r ''playcount'') (\<lambda>playcount.
        if playcount \<noteq> 0 then Inr None
        else py_bind (int_or_zero r ''clear'') (\<lambda>clear.
          if clear \<noteq> 0 then Inr None
          else if text_or_empty rt (get_item r ''primary_axis'') \<noteq> snd (snd (snd key)) then Inr None
          else unblocked rt blocked r)))"

record possibility =
  po_coach :: "row list"
  po_control :: "row list"
  po_transfer :: "row list"

definition possibility_of ::
    "runtime \<Rightarrow> row list \<Rightarrow> identity set \<Rightarrow> (stratum \<times> row) list \<Rightarrow> stratum \<Rightarrow> possibility option py" where
  "possibility_of rt personal blocked focus key =
     py_bind (py_pick (baseline_entry rt blocked key) personal) (\<lambda>baseline.
     py_bind (py_pick (transfer_entry rt blocked key) personal) (\<lambda>transfers.
       let control = filter (\<lambda>(i, r). i \<notin> fst ` set transfers) baseline in
       Inr (if baseline = [] \<or> length transfers < length interval_days \<or> control = [] then None
            else Some \<lparr>po_coach = map snd (filter (\<lambda>(k, r). k = key) focus),
                       po_control = map snd (sort_key fst control),
                       po_transfer = map snd (sort_key fst transfers)\<rparr>)))"

definition menu_candidate_row :: "runtime \<Rightarrow> row \<Rightarrow> row py" where
  "menu_candidate_row rt r =
     py_bind (candidate_of rt [(''sha256'', get_item r ''sha256''), (''mode'', get_default r ''mode'' (PInt 0)),
        (''p_pred'', get_item r ''p_complete'')]) (\<lambda>c.
       Inr [(''sha256'', PStr (ca_sha256 c)), (''mode'', PInt (ca_mode c)), (''p_pred'', PFloat (Fin (ca_p_pred c))),
            (''title'', PStr (text_or_empty rt (get_item r ''title''))),
            (''artist'', PStr (text_or_empty rt (get_item r ''artist'')))])"

definition candidate_row_of :: "candidate \<Rightarrow> row" where
  "candidate_row_of c =
     [(''sha256'', PStr (ca_sha256 c)), (''mode'', PInt (ca_mode c)), (''p_pred'', PFloat (Fin (ca_p_pred c)))]"

type_synonym submission = "(string \<times> row list) list"

definition submitted_rows :: "submission \<Rightarrow> string \<Rightarrow> row list" where
  "submitted_rows s name = (case map_of s name of None \<Rightarrow> [] | Some rs \<Rightarrow> rs)"

definition render_possibility :: "runtime \<Rightarrow> possibility \<Rightarrow> submission py" where
  "render_possibility rt p =
     py_bind (py_mapM (menu_candidate_row rt) (po_coach p)) (\<lambda>coach.
     py_bind (py_mapM (menu_candidate_row rt) (po_control p)) (\<lambda>control.
     py_bind (py_mapM (menu_candidate_row rt) (po_transfer p)) (\<lambda>transfer.
       Inr [(''coach'', coach), (''control'', control), (''transfer'', transfer)])))"

text \<open>The latest menu: a queue and a personal table, both lists.\<close>

definition menu_payload :: "pyval option option \<Rightarrow> (row list \<times> row list) py" where
  "menu_payload latest =
     (case latest of
        None \<Rightarrow> Inl (ValueError ''generate a Daily Menu before assigning an experiment session'')
      | Some (Some (PDict d)) \<Rightarrow>
          (case (list_of (get_item d ''queue''), list_of (get_item d ''personal'')) of
             (Some q, Some p) \<Rightarrow> Inr (dicts_of q, dicts_of p)
           | _ \<Rightarrow> Inl (ValueError ''latest Daily Menu has no candidate pool''))
      | _ \<Rightarrow> Inl (ValueError ''latest Daily Menu payload is invalid''))"

definition build_candidate_sets ::
    "runtime \<Rightarrow> int \<Rightarrow> string \<Rightarrow> pyval option option \<Rightarrow> experiment_db \<Rightarrow> submission py" where
  "build_candidate_sets rt experiment_id session_key latest x =
     (case find_experiment x experiment_id of
        None \<Rightarrow> Inl (ValueError ''unknown experiment'')
      | Some e \<Rightarrow>
          (case List.find (\<lambda>s. es_session_key s = session_key) (sessions_of x experiment_id) of
             Some s \<Rightarrow>
               py_bind (stored_candidates (es_candidates s)) (\<lambda>stored.
                 Inr (map (\<lambda>g. (g, map candidate_row_of (group_of stored g))) (arms @ [''transfer''])))
           | None \<Rightarrow>
               py_bind (menu_payload latest) (\<lambda>(queue, personal).
               py_bind (py_pick (queue_identity personal) queue) (\<lambda>identities.
               let reserved = set (reserved_charts x experiment_id) in
               py_bind (py_pick (focus_entry rt personal reserved) queue) (\<lambda>focus.
               py_bind (py_pick (possibility_of rt personal (set identities \<union> reserved) focus)
                          (sort (remdups (map fst focus)))) (\<lambda>possibilities.
                 if possibilities = []
                 then Inl (ValueError ''latest Daily Menu has no focus/control/unused-transfer stratum'')
                 else render_possibility rt
                        (pick_by (draw rt (ex_seed e) session_key ''candidate-stratum'') possibilities)))))))"

subsection \<open>What a proposal contains\<close>

lemma py_pick_set: "py_pick f xs = Inr ys \<Longrightarrow> y \<in> set ys \<longleftrightarrow> (\<exists>x\<in>set xs. f x = Inr (Some y))"
  by (induction xs arbitrary: ys) (auto simp: py_bind_Inr_iff split: option.splits)

lemma py_pick_distinct:
  assumes "py_pick f xs = Inr ys" and "distinct (map g xs)"
    and "\<And>x y. x \<in> set xs \<Longrightarrow> f x = Inr (Some y) \<Longrightarrow> h y = g x"
  shows "distinct (map h ys)"
  using assms
proof (induction xs arbitrary: ys)
  case (Cons x xs)
  obtain o1 zs where step: "f x = Inr o1" "py_pick f xs = Inr zs" "ys = (case o1 of None \<Rightarrow> zs | Some z \<Rightarrow> z # zs)"
    using Cons.prems(1) by (auto simp: py_bind_Inr_iff)
  have IH: "distinct (map h zs)" using Cons.IH[OF step(2)] Cons.prems(2,3) by auto
  show ?case
  proof (cases o1)
    case None
    then show ?thesis using IH step(3) by simp
  next
    case (Some z)
    have "h z \<noteq> h w" if w: "w \<in> set zs" for w
    proof -
      obtain v where "v \<in> set xs" "f v = Inr (Some w)" using py_pick_set[OF step(2)] w by blast
      moreover from this have "h w = g v" using Cons.prems(3)[of v w] by simp
      moreover have "h z = g x" using Cons.prems(3)[of x z] step(1) Some by simp
      ultimately show ?thesis using Cons.prems(2) by auto
    qed
    then show ?thesis using IH step(3) Some by auto
  qed
qed simp

lemma distinct_map_finer: "distinct (map (\<lambda>x. k (f x)) xs) \<Longrightarrow> distinct (map f xs)"
  by (induction xs) auto

text \<open>A row as the planner writes it: a lower-case hash and an integer mode; and the items of its queue.\<close>

definition planned_row :: "row \<Rightarrow> bool" where
  "planned_row r \<longleftrightarrow> (\<exists>s m. map_of r ''sha256'' = Some (PStr s) \<and> py_lower s = s \<and> map_of r ''mode'' = Some (PInt m))"

fun identity_of :: "pyval \<Rightarrow> pyval \<Rightarrow> identity" where
  "identity_of (PStr s) (PInt m) = (s, m)"
| "identity_of v w = ([], 0)"

definition planned_identity :: "row \<Rightarrow> identity" where
  "planned_identity r = identity_of (get_item r ''sha256'') (get_item r ''mode'')"

definition planned_item :: "row \<Rightarrow> bool" where
  "planned_item q \<longleftrightarrow> (\<exists>s a. get_item q ''sha256'' = PStr s \<and> get_item q ''attempt'' = PInt a \<and> a \<noteq> 0)"

definition planned_menu :: "row list \<times> row list \<Rightarrow> bool" where
  "planned_menu = (\<lambda>(queue, personal).
     list_all planned_item queue \<and> distinct (map (\<lambda>q. (get_item q ''sha256'', get_item q ''attempt'')) queue) \<and>
     list_all planned_row personal \<and> distinct (map planned_identity personal))"

lemma planned_rowE:
  assumes "planned_row r"
  obtains s m where "map_of r ''sha256'' = Some (PStr s)" "py_lower s = s" "map_of r ''mode'' = Some (PInt m)"
    "planned_identity r = (s, m)" "row_identity rt r = Inr (s, m)"
proof -
  obtain s m where "map_of r ''sha256'' = Some (PStr s)" "py_lower s = s" "map_of r ''mode'' = Some (PInt m)"
    using assms by (auto simp: planned_row_def)
  then show thesis
    by (intro that[of s m])
      (simp_all add: planned_identity_def row_identity_def get_item_def get_default_def text_or_empty_def)
qed

lemma candidate_of_Inr:
  assumes "candidate_of rt v = Inr c" and "get_default v ''sha256'' (PStr []) = PStr s"
    and "get_default v ''mode'' (PInt 0) = PInt m" and "py_lower s = s"
  shows "ca_sha256 c = s \<and> ca_mode c = m \<and> 0 \<le> ca_p_pred c \<and> ca_p_pred c \<le> 1 \<and> length s = 64 \<and> list_all is_hex_lower s"
  using assms
  by (auto simp: candidate_of_def py_bind_Inr_iff Let_def split: if_splits option.splits elim!: unit_interval.elims)

lemma candidate_ofI:
  assumes "get_default v ''sha256'' (PStr []) = PStr s" and "py_lower s = s" and "get_default v ''mode'' (PInt 0) = PInt m"
    and "get_item v ''p_pred'' = PFloat (Fin p)" and "0 \<le> p" and "p \<le> 1" and "length s = 64" and "list_all is_hex_lower s"
    and "c = \<lparr>ca_sha256 = s, ca_mode = m, ca_p_pred = p\<rparr>"
  shows "candidate_of rt v = Inr c"
  using assms by (simp add: candidate_of_def)

text \<open>Rendering a planned row gives a candidate of the same identity, and reading it back gives that candidate.\<close>

lemma menu_candidate_row_reads_back:
  assumes "planned_row r" and "menu_candidate_row rt r = Inr row"
  shows "\<exists>c. candidate_of rt row = Inr c \<and> identity c = planned_identity r"
proof -
  obtain s m where r: "map_of r ''sha256'' = Some (PStr s)" "py_lower s = s" "map_of r ''mode'' = Some (PInt m)"
    "planned_identity r = (s, m)" by (rule planned_rowE[OF assms(1)])
  let ?entry = "[(''sha256'', PStr s), (''mode'', PInt m), (''p_pred'', get_item r ''p_complete'')]"
  obtain c where c: "candidate_of rt ?entry = Inr c"
    and row: "row = [(''sha256'', PStr (ca_sha256 c)), (''mode'', PInt (ca_mode c)), (''p_pred'', PFloat (Fin (ca_p_pred c))),
        (''title'', PStr (text_or_empty rt (get_item r ''title''))),
        (''artist'', PStr (text_or_empty rt (get_item r ''artist'')))]"
    using assms(2) r(1,3) by (auto simp: menu_candidate_row_def get_item_def get_default_def py_bind_Inr_iff)
  have c: "ca_sha256 c = s \<and> ca_mode c = m \<and> 0 \<le> ca_p_pred c \<and> ca_p_pred c \<le> 1 \<and> length s = 64 \<and> list_all is_hex_lower s"
    by (rule candidate_of_Inr[OF c]) (simp_all add: get_default_def r(2))
  have "candidate_of rt row = Inr c"
    unfolding row using c
    by (intro candidate_ofI[where s = s and m = m and p = "ca_p_pred c"]) (simp_all add: get_default_def get_item_def r(2))
  then show ?thesis using c by (auto simp: identity_def r(4))
qed

lemma group_reads_back:
  assumes "list_all planned_row rs" and "py_mapM (menu_candidate_row rt) rs = Inr rows"
  shows "\<exists>cs. py_mapM (candidate_of rt) rows = Inr cs \<and> map identity cs = map planned_identity rs"
  using assms
proof (induction rs arbitrary: rows)
  case (Cons r rs)
  obtain row rest where rows: "menu_candidate_row rt r = Inr row" "py_mapM (menu_candidate_row rt) rs = Inr rest"
      "rows = row # rest"
    using Cons.prems(2) by (auto simp: py_bind_Inr_iff)
  obtain cs where "py_mapM (candidate_of rt) rest = Inr cs" "map identity cs = map planned_identity rs"
    using Cons.IH[OF _ rows(2)] Cons.prems(1) by auto
  moreover obtain c where "candidate_of rt row = Inr c" "identity c = planned_identity r"
    using menu_candidate_row_reads_back[OF _ rows(1)] Cons.prems(1) by auto
  ultimately show ?case by (intro exI[of _ "c # cs"]) (simp add: rows(3))
qed simp

lemma by_sha_Some:
  assumes "by_sha personal sha = Some r"
  shows "r \<in> set personal" and "get_item r ''sha256'' = PStr sha"
  using assms unfolding by_sha_def find_Some_iff
  by (auto simp: nth_mem[of _ "rev personal", simplified] elim!: text_of.elims)

lemma focus_entry_Some:
  assumes "focus_entry rt personal reserved q = Inr (Some (key, r))" and "planned_item q" and "list_all planned_row personal"
  shows "r \<in> set personal" "planned_identity r \<notin> reserved"
    "(PStr (fst (planned_identity r)), PInt 1) = (get_item q ''sha256'', get_item q ''attempt'')"
    "queue_identity personal q = Inr (Some (planned_identity r))"
proof -
  obtain s a where q: "get_item q ''sha256'' = PStr s" "get_item q ''attempt'' = PInt a" "a \<noteq> 0"
    using assms(2) by (auto simp: planned_item_def)
  have found: "by_sha personal s = Some r" "a = 1"
    and mode: "\<exists>m. py_int (get_default r ''mode'' (PInt 0)) = Inr m \<and> (s, m) \<notin> reserved"
    using assms(1) q unfolding focus_entry_def
    by (auto simp: py_bind_Inr_iff Let_def split: if_splits option.splits)
  show r: "r \<in> set personal" by (rule by_sha_Some(1)[OF found(1)])
  have "planned_row r" using assms(3) r by (simp add: list_all_iff)
  then obtain m where m: "map_of r ''mode'' = Some (PInt m)" "planned_identity r = (s, m)"
    using by_sha_Some(2)[OF found(1)] by (auto elim!: planned_rowE simp: get_item_def split: option.splits)
  show "planned_identity r \<notin> reserved" using mode m by (simp add: get_default_def)
  show "(PStr (fst (planned_identity r)), PInt 1) = (get_item q ''sha256'', get_item q ''attempt'')"
    using q found(2) m(2) by simp
  show "queue_identity personal q = Inr (Some (planned_identity r))"
    using q(1) found(1) m by (simp add: queue_identity_def get_default_def)
qed

lemma unblocked_Some:
  assumes "unblocked rt blocked r = Inr (Some y)" and "planned_row r"
  shows "y = (planned_identity r, r)" "planned_identity r \<notin> blocked"
  using assms by (auto simp: unblocked_def py_bind_Inr_iff elim!: planned_rowE[of r rt] split: if_splits)

lemma entry_Some:
  "baseline_entry rt blocked key r = Inr (Some y) \<Longrightarrow> unblocked rt blocked r = Inr (Some y)"
  "transfer_entry rt blocked key r = Inr (Some y) \<Longrightarrow> unblocked rt blocked r = Inr (Some y)"
  by (auto simp: baseline_entry_def transfer_entry_def py_bind_Inr_iff split: if_splits)

text \<open>A possibility: planned rows of distinct charts, the arms and the transfer charts apart from each other and from every
  reserved chart.\<close>

definition sound_possibility :: "identity set \<Rightarrow> possibility \<Rightarrow> bool" where
  "sound_possibility reserved p \<longleftrightarrow>
     (\<forall>rs \<in> {po_coach p, po_control p, po_transfer p}.
        rs \<noteq> [] \<and> list_all planned_row rs \<and> distinct (map planned_identity rs) \<and>
        planned_identity ` set rs \<inter> reserved = {}) \<and>
     length interval_days \<le> length (po_transfer p) \<and>
     planned_identity ` set (po_coach p) \<inter> planned_identity ` set (po_control p) = {} \<and>
     planned_identity ` set (po_transfer p) \<inter> planned_identity ` set (po_coach p @ po_control p) = {}"

lemma pool_facts:
  assumes "\<forall>y\<in>set ys. fst y = planned_identity (snd y) \<and> planned_row (snd y) \<and> fst y \<notin> blocked"
    and "distinct (map fst ys)"
  shows "list_all planned_row (map snd (sort_key fst ys))"
    "distinct (map planned_identity (map snd (sort_key fst ys)))"
    "planned_identity ` set (map snd (sort_key fst ys)) = fst ` set ys"
    "planned_identity ` set (map snd (sort_key fst ys)) \<inter> blocked = {}"
proof -
  have same: "map (planned_identity \<circ> snd) (sort_key fst ys) = map fst (sort_key fst ys)" using assms(1) by simp
  show "list_all planned_row (map snd (sort_key fst ys))" using assms(1) by (auto simp: list_all_iff)
  show "distinct (map planned_identity (map snd (sort_key fst ys)))"
    using assms(2) by (simp add: same distinct_sort_key)
  show image: "planned_identity ` set (map snd (sort_key fst ys)) = fst ` set ys"
    using assms(1) by (force simp: image_image)
  show "planned_identity ` set (map snd (sort_key fst ys)) \<inter> blocked = {}"
    using assms(1) by (auto simp: image)
qed

lemma pool_of_rows:
  assumes "py_pick f personal = Inr ys" and "\<And>r y. f r = Inr (Some y) \<Longrightarrow> unblocked rt blocked r = Inr (Some y)"
    and "list_all planned_row personal" and "distinct (map planned_identity personal)"
  shows "\<And>y. y \<in> set ys \<Longrightarrow> fst y = planned_identity (snd y) \<and> planned_row (snd y) \<and> fst y \<notin> blocked"
    and "distinct (map fst ys)"
proof -
  have entry: "y = (planned_identity r, r) \<and> planned_identity r \<notin> blocked \<and> planned_row r"
    if "r \<in> set personal" "f r = Inr (Some y)" for r y
    using unblocked_Some[OF assms(2)[OF that(2)]] assms(3) that(1) by (simp add: list_all_iff)
  show "fst y = planned_identity (snd y) \<and> planned_row (snd y) \<and> fst y \<notin> blocked" if y: "y \<in> set ys" for y
  proof -
    obtain r where "r \<in> set personal" "f r = Inr (Some y)" using py_pick_set[OF assms(1), of y] y by blast
    from entry[OF this] show ?thesis by simp
  qed
  show "distinct (map fst ys)"
    by (rule py_pick_distinct[OF assms(1,4)]) (use entry in auto)
qed

lemma possibility_sound:
  assumes "possibility_of rt personal (set identities \<union> reserved) focus key = Inr (Some p)"
    and "key \<in> fst ` set focus"
    and "py_pick (focus_entry rt personal reserved) queue = Inr focus"
    and "py_pick (queue_identity personal) queue = Inr identities"
    and "planned_menu (queue, personal)"
  shows "sound_possibility reserved p"
proof -
  let ?blocked = "set identities \<union> reserved"
  have menu: "list_all planned_item queue" "list_all planned_row personal" "distinct (map planned_identity personal)"
      "distinct (map (\<lambda>q. (get_item q ''sha256'', get_item q ''attempt'')) queue)"
    using assms(5) by (simp_all add: planned_menu_def)
  let ?control_of = "\<lambda>baseline transfers :: (identity \<times> row) list. filter (\<lambda>(i, r). i \<notin> fst ` set transfers) baseline"
  obtain baseline transfers where pools: "py_pick (baseline_entry rt ?blocked key) personal = Inr baseline"
      "py_pick (transfer_entry rt ?blocked key) personal = Inr transfers"
    and made: "Inr (if baseline = [] \<or> length transfers < length interval_days \<or> ?control_of baseline transfers = [] then None
        else Some \<lparr>po_coach = map snd (filter (\<lambda>(k, r). k = key) focus),
          po_control = map snd (sort_key fst (?control_of baseline transfers)),
          po_transfer = map snd (sort_key fst transfers)\<rparr>) = Inr (Some p)"
    using assms(1) unfolding possibility_of_def py_bind_Inr_iff Let_def by blast
  have ready: "length interval_days \<le> length transfers" "?control_of baseline transfers \<noteq> []"
    and p: "p = \<lparr>po_coach = map snd (filter (\<lambda>(k, r). k = key) focus),
        po_control = map snd (sort_key fst (?control_of baseline transfers)),
        po_transfer = map snd (sort_key fst transfers)\<rparr>"
    using made by (simp_all only: sum.inject split: if_splits) simp_all
  have base: "fst y = planned_identity (snd y) \<and> planned_row (snd y) \<and> fst y \<notin> ?blocked" if "y \<in> set baseline" for y
    by (rule pool_of_rows(1)[OF pools(1) _ menu(2,3) that]) (rule entry_Some(1))
  have base_distinct: "distinct (map fst baseline)"
    by (rule pool_of_rows(2)[OF pools(1) _ menu(2,3)]) (rule entry_Some(1))
  have trans: "fst y = planned_identity (snd y) \<and> planned_row (snd y) \<and> fst y \<notin> ?blocked" if "y \<in> set transfers" for y
    by (rule pool_of_rows(1)[OF pools(2) _ menu(2,3) that]) (rule entry_Some(2))
  have trans_distinct: "distinct (map fst transfers)"
    by (rule pool_of_rows(2)[OF pools(2) _ menu(2,3)]) (rule entry_Some(2))
  let ?control = "filter (\<lambda>(i, r). i \<notin> fst ` set transfers) baseline"
  have control: "fst y = planned_identity (snd y) \<and> planned_row (snd y) \<and> fst y \<notin> ?blocked" if "y \<in> set ?control" for y
    using base that by auto
  have control_distinct: "distinct (map fst ?control)" using base_distinct by (rule distinct_map_filter)
  have all: "\<forall>y\<in>set ?control. fst y = planned_identity (snd y) \<and> planned_row (snd y) \<and> fst y \<notin> ?blocked"
      "\<forall>y\<in>set transfers. fst y = planned_identity (snd y) \<and> planned_row (snd y) \<and> fst y \<notin> ?blocked"
    using control trans by blast+
  have fields: "po_coach p = map snd (filter (\<lambda>(k, r). k = key) focus)" "po_control p = map snd (sort_key fst ?control)"
      "po_transfer p = map snd (sort_key fst transfers)"
    by (simp_all only: p possibility.simps)
  note c = pool_facts[OF all(1) control_distinct, folded fields(2)] and t = pool_facts[OF all(2) trans_distinct, folded fields(3)]
  have focus: "snd y \<in> set personal \<and> planned_identity (snd y) \<notin> reserved \<and> planned_identity (snd y) \<in> set identities"
    if y: "y \<in> set focus" for y
  proof -
    obtain q where q: "q \<in> set queue" "focus_entry rt personal reserved q = Inr (Some y)"
      using py_pick_set[OF assms(3), of y] y by blast
    then have "planned_item q" using menu(1) by (simp add: list_all_iff)
    moreover have "focus_entry rt personal reserved q = Inr (Some (fst y, snd y))" using q(2) by simp
    ultimately have facts: "snd y \<in> set personal" "planned_identity (snd y) \<notin> reserved"
        "queue_identity personal q = Inr (Some (planned_identity (snd y)))"
      using focus_entry_Some(1,2,4) menu(2) by blast+
    show ?thesis using facts py_pick_set[OF assms(4), of "planned_identity (snd y)"] q(1) by blast
  qed
  have "distinct (map (\<lambda>y. (PStr (fst (planned_identity (snd y))), PInt 1)) focus)"
  proof (rule py_pick_distinct[OF assms(3) menu(4)])
    fix q y
    assume q: "q \<in> set queue" and y: "focus_entry rt personal reserved q = Inr (Some y)"
    have "planned_item q" using menu(1) q by (simp add: list_all_iff)
    moreover have "focus_entry rt personal reserved q = Inr (Some (fst y, snd y))" using y by simp
    ultimately show "(PStr (fst (planned_identity (snd y))), PInt 1) = (get_item q ''sha256'', get_item q ''attempt'')"
      using focus_entry_Some(3) menu(2) by blast
  qed
  then have "distinct (map (\<lambda>y. planned_identity (snd y)) focus)"
    by (rule distinct_map_finer[where k = "\<lambda>i. (PStr (fst i), PInt 1)"])
  then have coach_distinct: "distinct (map planned_identity (po_coach p))"
    by (simp add: fields(1) distinct_map_filter comp_def)
  obtain y where "y \<in> set focus" "fst y = key" using assms(2) by blast
  then have "y \<in> set (filter (\<lambda>(k, r). k = key) focus)" by (simp add: split_beta)
  then have "filter (\<lambda>(k, r). k = key) focus \<noteq> []" by (metis empty_iff empty_set)
  then have "po_coach p \<noteq> []" by (simp add: fields(1))
  moreover have coach: "set (po_coach p) \<subseteq> set personal" "planned_identity ` set (po_coach p) \<inter> reserved = {}"
      "planned_identity ` set (po_coach p) \<subseteq> set identities"
    using focus by (auto simp: fields(1))
  moreover have "list_all planned_row (po_coach p)" using coach(1) menu(2) by (auto simp: list_all_iff)
  moreover have "fst ` set ?control \<inter> fst ` set transfers = {}" by force
  moreover from this have "planned_identity ` set (po_control p) \<inter> planned_identity ` set (po_transfer p) = {}"
    unfolding c(3) t(3) .
  moreover have "length (po_transfer p) = length transfers" "length (po_control p) = length ?control"
    unfolding fields by simp_all
  then have "length interval_days \<le> length (po_transfer p)" "0 < length (po_control p)" "0 < length (po_transfer p)"
    using ready by (auto simp: interval_days_def)
  moreover have "planned_identity ` set (po_coach p) \<inter> planned_identity ` set (po_control p) = {}"
      "planned_identity ` set (po_coach p) \<inter> planned_identity ` set (po_transfer p) = {}"
      "planned_identity ` set (po_control p) \<inter> reserved = {}" "planned_identity ` set (po_transfer p) \<inter> reserved = {}"
    using c(4) t(4) coach(3) by blast+
  ultimately show ?thesis
    using coach_distinct c(1,2) t(1,2)
    by (simp add: sound_possibility_def image_Un Int_Un_distrib Int_commute)
qed

subsection \<open>A proposal is accepted\<close>

lemma normalise_with_total:
  assumes "parse (f ''coach'') = Inr a" "parse (f ''control'') = Inr b" "parse (f ''transfer'') = Inr c"
    and "usable_sets \<lparr>cd_coach = a, cd_control = b, cd_transfer = c\<rparr>"
  shows "normalise_with parse f = Inr \<lparr>cd_coach = sort_key candidate_order a, cd_control = sort_key candidate_order b,
           cd_transfer = sort_key candidate_order c\<rparr>"
  using assms by (simp add: normalise_with_def usable_sets_def normalise_group_total)

lemma unused_all: "identity ` set cs \<inter> set reserved = {} \<Longrightarrow> unused reserved cs = cs"
  unfolding unused_def by (rule filter_True) blast

lemma available_all:
  assumes "usable_sets cs" and "length interval_days \<le> length (cd_transfer cs)"
    and "identity ` set (cd_coach cs @ cd_control cs @ cd_transfer cs) \<inter> set (reserved_charts x i) = {}"
    and "identity ` set (cd_transfer cs) \<inter> identity ` set (cd_coach cs @ cd_control cs) = {}"
    and "\<forall>c\<in>set (cd_transfer cs). \<not> practised (xd_store x) (identity c)"
  shows "available_candidates x i cs = Inr cs"
proof -
  let ?r = "reserved_charts x i"
  have "unused ?r (cd_coach cs) = cd_coach cs" "unused ?r (cd_control cs) = cd_control cs"
      "unused ?r (cd_transfer cs) = cd_transfer cs"
    by (rule unused_all, use assms(3) in auto)+
  moreover have "filter (\<lambda>c. \<not> practised (xd_store x) (identity c)) (cd_transfer cs) = cd_transfer cs"
    using assms(5) by (intro filter_True) blast
  moreover have "\<not> list_ex (\<lambda>c. identity c \<in> set (map identity (cd_coach cs @ cd_control cs))) (cd_transfer cs)"
    using assms(4) by (auto simp: list_ex_iff)
  ultimately show ?thesis using assms(1,2)
    by (simp add: available_candidates_def Let_def usable_sets_def unit_group_def not_less)
qed

text \<open>What a rendered sound possibility becomes when it is submitted.\<close>

lemma rendered_normalises:
  assumes "sound_possibility reserved p" and "render_possibility rt p = Inr sets"
  shows "\<exists>cs. normalise_candidates rt (submitted_rows sets) = Inr cs \<and> usable_sets cs \<and>
     length interval_days \<le> length (cd_transfer cs) \<and>
     identity ` set (cd_coach cs @ cd_control cs @ cd_transfer cs) \<inter> reserved = {} \<and>
     identity ` set (cd_transfer cs) \<inter> identity ` set (cd_coach cs @ cd_control cs) = {} \<and>
     (\<forall>c\<in>set (cd_transfer cs). \<exists>row\<in>set (submitted_rows sets ''transfer''). candidate_of rt row = Inr c)"
proof -
  obtain a b c where rows: "py_mapM (menu_candidate_row rt) (po_coach p) = Inr a"
      "py_mapM (menu_candidate_row rt) (po_control p) = Inr b" "py_mapM (menu_candidate_row rt) (po_transfer p) = Inr c"
    and sets: "sets = [(''coach'', a), (''control'', b), (''transfer'', c)]"
    using assms(2) by (auto simp: render_possibility_def py_bind_Inr_iff)
  have planned: "list_all planned_row (po_coach p)" "list_all planned_row (po_control p)" "list_all planned_row (po_transfer p)"
    using assms(1) by (simp_all add: sound_possibility_def)
  obtain ca cb cc where parsed: "py_mapM (candidate_of rt) a = Inr ca" "py_mapM (candidate_of rt) b = Inr cb"
      "py_mapM (candidate_of rt) c = Inr cc"
    and ids: "map identity ca = map planned_identity (po_coach p)" "map identity cb = map planned_identity (po_control p)"
      "map identity cc = map planned_identity (po_transfer p)"
    using group_reads_back[OF planned(1) rows(1)] group_reads_back[OF planned(2) rows(2)]
      group_reads_back[OF planned(3) rows(3)] by blast
  have images: "identity ` set ca = planned_identity ` set (po_coach p)"
      "identity ` set cb = planned_identity ` set (po_control p)" "identity ` set cc = planned_identity ` set (po_transfer p)"
    using ids by (metis list.set_map)+
  have lengths: "ca = [] \<longleftrightarrow> po_coach p = []" "cb = [] \<longleftrightarrow> po_control p = []" "length cc = length (po_transfer p)"
    using ids by (metis length_0_conv length_map)+
  have usable: "usable_sets \<lparr>cd_coach = ca, cd_control = cb, cd_transfer = cc\<rparr>"
    using assms(1) lengths by (auto simp: usable_sets_def unit_group_def images ids sound_possibility_def interval_days_def)
  let ?cs = "\<lparr>cd_coach = sort_key candidate_order ca, cd_control = sort_key candidate_order cb,
       cd_transfer = sort_key candidate_order cc\<rparr>"
  have norm: "normalise_candidates rt (submitted_rows sets) = Inr ?cs"
    unfolding normalise_candidates_def
    by (rule normalise_with_total[OF _ _ _ usable]) (simp_all add: submitted_rows_def sets parsed)
  have "usable_sets ?cs" using norm unfolding normalise_candidates_def by (rule normalise_with_Inr)
  moreover have "\<forall>c\<in>set cc. \<exists>row\<in>set (submitted_rows sets ''transfer''). candidate_of rt row = Inr c"
    using py_mapM_set[OF parsed(3)] by (simp add: submitted_rows_def sets)
  ultimately show ?thesis using norm assms(1) lengths(3)
    by (intro exI[of _ ?cs]) (simp add: images image_Un sound_possibility_def Int_Un_distrib Int_Un_distrib2)
qed

lemma build_candidate_sets_Inr:
  assumes "build_candidate_sets rt i key latest x = Inr sets" and "find_experiment x i = Some e"
    and "List.find (\<lambda>s. es_session_key s = key) (sessions_of x i) = None"
    and "menu_payload latest = Inr menu" and "planned_menu menu"
  shows "\<exists>p. sound_possibility (set (reserved_charts x i)) p \<and> render_possibility rt p = Inr sets"
proof -
  obtain queue personal where menu: "menu = (queue, personal)" by fastforce
  let ?reserved = "set (reserved_charts x i)"
  obtain identities focus ps where picks: "py_pick (queue_identity personal) queue = Inr identities"
      "py_pick (focus_entry rt personal ?reserved) queue = Inr focus"
      "py_pick (possibility_of rt personal (set identities \<union> ?reserved) focus) (sort (remdups (map fst focus))) = Inr ps"
    and last: "(if ps = [] then Inl (ValueError ''latest Daily Menu has no focus/control/unused-transfer stratum'')
       else render_possibility rt (pick_by (draw rt (ex_seed e) key ''candidate-stratum'') ps)) = Inr sets"
    using assms(1) unfolding build_candidate_sets_def assms(2,3,4) option.case menu Let_def
    by (fastforce simp: py_bind_Inr_iff)
  let ?p = "pick_by (draw rt (ex_seed e) key ''candidate-stratum'') ps"
  have ps: "ps \<noteq> []" using last by auto
  then obtain k where "k \<in> set (sort (remdups (map fst focus)))"
    and possible: "possibility_of rt personal (set identities \<union> ?reserved) focus k = Inr (Some ?p)"
    using py_pick_set[OF picks(3), of ?p] pick_by_in[OF ps] by blast
  then have key: "k \<in> fst ` set focus" by (simp only: set_sort set_remdups set_map)
  show ?thesis
    using possibility_sound[OF possible key picks(2,1) assms(5)[unfolded menu]] last ps by auto
qed

text \<open>C11: The candidate sets proposed from the latest menu can always be assigned. For a new session key of a running experiment, if
  the menu is one the planner wrote and the proposed transfer charts are still unpractised, the assignment succeeds
  and keeps every proposed chart: none is dropped as already used by the experiment, and the arms do not overlap.\<close>

theorem proposed_session_is_accepted:
  assumes "find_experiment x i = Some e" and "key \<noteq> []" and "ex_starts_at e \<le> start" and "start < ex_ends_at e"
    and "List.find (\<lambda>s. es_session_key s = key) (sessions_of x i) = None"
    and "menu_payload latest = Inr menu" and "planned_menu menu"
    and "build_candidate_sets rt i key latest x = Inr sets"
    and "\<forall>s\<in>set (xd_sessions x). es_id s < xd_next_session x"
    and "\<And>row c. row \<in> set (submitted_rows sets ''transfer'') \<Longrightarrow> candidate_of rt row = Inr c \<Longrightarrow>
           \<not> practised (xd_store x) (identity c)"
  shows "\<exists>a x' s. assign_session rt i key start (submitted_rows sets) now x = Inr (a, x') \<and>
           xd_sessions x' = xd_sessions x @ [s] \<and>
           normalise_candidates rt (submitted_rows sets) = Inr (es_candidates s)"
proof -
  obtain p where p: "sound_possibility (set (reserved_charts x i)) p" "render_possibility rt p = Inr sets"
    using build_candidate_sets_Inr[OF assms(8,1,5,6,7)] by blast
  obtain cs where cs: "normalise_candidates rt (submitted_rows sets) = Inr cs" "usable_sets cs"
      "length interval_days \<le> length (cd_transfer cs)"
      "identity ` set (cd_coach cs @ cd_control cs @ cd_transfer cs) \<inter> set (reserved_charts x i) = {}"
      "identity ` set (cd_transfer cs) \<inter> identity ` set (cd_coach cs @ cd_control cs) = {}"
      "\<forall>c\<in>set (cd_transfer cs). \<exists>row\<in>set (submitted_rows sets ''transfer''). candidate_of rt row = Inr c"
    using rendered_normalises[OF p] by blast
  have available: "available_candidates x i cs = Inr cs"
    by (rule available_all[OF cs(2-5)]) (use cs(6) assms(10) in blast)
  let ?h = "sha256_hex rt (canonical_candidates rt cs)"
  obtain s x' where new: "new_session rt e key start cs ?h now x = (s, x')" by fastforce
  note shape = new_session_shape[OF new]
  have "List.find (\<lambda>u. es_id u = es_id s) (xd_sessions x) = None"
    using assms(9) by (auto simp: find_None_iff shape(9))
  then have "find_session x' (es_id s) = Some s"
    unfolding find_session_def shape(1) by (rule find_append_new) simp
  moreover obtain stored where "stored_candidates cs = Inr stored" using stored_candidates_total[OF cs(2)] by blast
  ultimately obtain a where "assignment_result rt x' (es_id s) = Inr a"
    by (auto simp: assignment_result_def transfer_selection_probability_def Let_def shape(8))
  then have "assign_session rt i key start (submitted_rows sets) now x = Inr (a, x')"
    using assms(1-5) by (simp add: assign_session_def cs(1) available new)
  then show ?thesis using shape(1,8) cs(1) by blast
qed

subsection \<open>A small menu\<close>

definition sample_sha :: string where
  "sample_sha = replicate 64 CHR ''a''"

lemma sample_sha: "py_lower sample_sha = sample_sha" "length sample_sha = 64" "list_all is_hex_lower sample_sha"
    "sample_sha \<noteq> []"
  by (simp_all add: sample_sha_def lower_sample is_hex_lower_def list_all_iff less_eq_char_def)

definition sample_menu_row :: "int \<Rightarrow> int \<Rightarrow> row" where
  "sample_menu_row mode playcount =
     [(''sha256'', PStr sample_sha), (''mode'', PInt mode), (''p_complete'', PFloat (Fin (1 / 2))),
      (''table_id'', PStr ''stella''), (''source_level'', PStr ''1''), (''primary_axis'', PStr ''ln''),
      (''playcount'', PInt playcount), (''clear'', PInt 0)]"

definition sample_personal :: "row list" where
  "sample_personal = [sample_menu_row 3 0, sample_menu_row 4 0, sample_menu_row 5 0, sample_menu_row 6 0,
     sample_menu_row 2 1, sample_menu_row 1 1]"

definition sample_queue :: "row list" where
  "sample_queue = [[(''sha256'', PStr sample_sha), (''attempt'', PInt 1), (''category'', PStr ''02 FOCUS-A'')]]"

definition sample_latest :: "pyval option option" where
  "sample_latest = Some (Some (PDict [(''queue'', PList (map PDict sample_queue)), (''personal'', PList (map PDict sample_personal))]))"

definition sample_rendered :: "int \<Rightarrow> row" where
  "sample_rendered mode = [(''sha256'', PStr sample_sha), (''mode'', PInt mode), (''p_pred'', PFloat (Fin (1 / 2))),
     (''title'', PStr []), (''artist'', PStr [])]"

definition sample_proposal :: submission where
  "sample_proposal = [(''coach'', [sample_rendered 1]), (''control'', [sample_rendered 2]),
     (''transfer'', map sample_rendered [3, 4, 5, 6])]"

lemma sample_menu_payload: "menu_payload sample_latest = Inr (sample_queue, sample_personal)"
  by (simp add: menu_payload_def sample_latest_def sample_queue_def sample_personal_def get_item_def)

lemma sample_planned_menu: "planned_menu (sample_queue, sample_personal)"
  by (simp add: planned_menu_def planned_item_def planned_row_def planned_identity_def sample_queue_def sample_personal_def
      sample_menu_row_def get_item_def sample_sha)

lemma sample_menu_candidate_row: "menu_candidate_row rt (sample_menu_row m n) = Inr (sample_rendered m)"
proof -
  have "candidate_of rt [(''sha256'', PStr sample_sha), (''mode'', PInt m), (''p_pred'', PFloat (Fin (1 / 2)))] =
      Inr \<lparr>ca_sha256 = sample_sha, ca_mode = m, ca_p_pred = 1 / 2\<rparr>"
    by (rule candidate_ofI[where s = sample_sha and m = m and p = "1 / 2"]) (simp_all add: get_default_def get_item_def sample_sha)
  then show ?thesis
    by (simp add: menu_candidate_row_def sample_menu_row_def sample_rendered_def get_item_def get_default_def text_or_empty_def)
qed

definition sample_stratum :: stratum where
  "sample_stratum = (''stella'', ''1'', True, ''ln'')"

lemma sample_by_sha: "by_sha sample_personal sample_sha = Some (sample_menu_row 1 1)"
  by (simp add: by_sha_def sample_personal_def sample_menu_row_def get_item_def)

lemma sample_focus: "focus_entry rt sample_personal {} (hd sample_queue) = Inr (Some (sample_stratum, sample_menu_row 1 1))"
  by (simp add: focus_entry_def sample_queue_def sample_by_sha get_item_def focus_categories_def)
    (simp add: sample_menu_row_def get_default_def get_item_def int_or_zero_def either_text_def text_or_empty_def sample_stratum_def Let_def)

lemma sample_possibility:
  "possibility_of rt sample_personal {(sample_sha, 1)} [(sample_stratum, sample_menu_row 1 1)] sample_stratum =
     Inr (Some \<lparr>po_coach = [sample_menu_row 1 1], po_control = [sample_menu_row 2 1],
       po_transfer = [sample_menu_row 3 0, sample_menu_row 4 0, sample_menu_row 5 0, sample_menu_row 6 0]\<rparr>)"
proof -
  have level: "in_level rt sample_stratum (sample_menu_row m n)" for m n
    by (simp add: in_level_def sample_menu_row_def sample_stratum_def get_item_def text_or_empty_def)
  have "baseline_entry rt {(sample_sha, 1)} sample_stratum (sample_menu_row m n) =
      Inr (if 0 < n \<and> m \<noteq> 1 then Some ((sample_sha, m), sample_menu_row m n) else None)" for m n
    by (simp add: baseline_entry_def level)
      (simp add: sample_menu_row_def sample_stratum_def int_or_zero_def get_item_def unblocked_def row_identity_def
        get_default_def text_or_empty_def sample_sha)
  moreover have "transfer_entry rt {(sample_sha, 1)} sample_stratum (sample_menu_row m n) =
      Inr (if n = 0 \<and> m \<noteq> 1 then Some ((sample_sha, m), sample_menu_row m n) else None)" for m n
    by (simp add: transfer_entry_def level)
      (simp add: sample_menu_row_def sample_stratum_def int_or_zero_def get_item_def unblocked_def row_identity_def
        get_default_def text_or_empty_def sample_sha)
  ultimately show ?thesis
    by (simp add: possibility_of_def sample_personal_def interval_days_def)
qed

lemma sample_built:
  "build_candidate_sets sample_digest_runtime 1 ''first'' sample_latest sample_experiment_db = Inr sample_proposal"
proof -
  have db: "find_experiment sample_experiment_db 1 = Some sample_experiment" "sessions_of sample_experiment_db 1 = []"
      "reserved_charts sample_experiment_db 1 = []"
    by (simp_all add: find_experiment_def sample_experiment_db_def sample_experiment_def sessions_of_def reserved_charts_def
        targets_of_def)
  have queue: "sample_queue = [hd sample_queue]" by (simp add: sample_queue_def)
  have identity: "queue_identity sample_personal (hd sample_queue) = Inr (Some (sample_sha, 1))"
    by (simp add: queue_identity_def sample_queue_def get_item_def sample_by_sha)
      (simp add: sample_menu_row_def get_default_def)
  have "py_pick (queue_identity sample_personal) sample_queue = Inr [(sample_sha, 1)]"
    by (subst queue) (simp add: identity)
  moreover have "py_pick (focus_entry sample_digest_runtime sample_personal {}) sample_queue =
      Inr [(sample_stratum, sample_menu_row 1 1)]"
    by (subst queue) (simp add: sample_focus)
  ultimately show ?thesis
    by (simp add: build_candidate_sets_def db sample_menu_payload sample_possibility pick_by_def render_possibility_def
        sample_menu_candidate_row sample_proposal_def)
qed

theorem proposed_session_is_accepted_witness:
  "\<exists>a x' s. assign_session sample_digest_runtime 1 ''first'' 0 (submitted_rows sample_proposal) 5 sample_experiment_db = Inr (a, x') \<and>
     xd_sessions x' = [s] \<and>
     normalise_candidates sample_digest_runtime (submitted_rows sample_proposal) = Inr (es_candidates s)"
proof -
  have "\<exists>a x' s. assign_session sample_digest_runtime 1 ''first'' 0 (submitted_rows sample_proposal) 5 sample_experiment_db = Inr (a, x') \<and>
     xd_sessions x' = xd_sessions sample_experiment_db @ [s] \<and>
     normalise_candidates sample_digest_runtime (submitted_rows sample_proposal) = Inr (es_candidates s)"
    by (rule proposed_session_is_accepted[OF _ _ _ _ _ sample_menu_payload sample_planned_menu sample_built, where e = sample_experiment])
      (simp_all add: find_experiment_def sample_experiment_db_def sample_experiment_def sessions_of_def day_seconds_def
        practised_def empty_db_def)
  then show ?thesis by (simp add: sample_experiment_db_def)
qed

subsection \<open>The schedule\<close>

text \<open>The text of a target kind orders the schedule: retention before transfer.\<close>

instantiation target_kind :: linorder
begin

fun less_eq_target_kind :: "target_kind \<Rightarrow> target_kind \<Rightarrow> bool" where
  "less_eq_target_kind Retention k = True"
| "less_eq_target_kind Transfer k = (k = Transfer)"

definition less_target_kind :: "target_kind \<Rightarrow> target_kind \<Rightarrow> bool" where
  "less_target_kind a b = (a \<le> b \<and> \<not> b \<le> (a :: target_kind))"

instance
proof
  fix a b c :: target_kind
  show "a < b \<longleftrightarrow> a \<le> b \<and> \<not> b \<le> a" by (rule less_target_kind_def)
  show "a \<le> a" by (cases a) simp_all
  show "a \<le> b \<Longrightarrow> b \<le> c \<Longrightarrow> a \<le> c" by (cases a) (cases b; simp)+
  show "a \<le> b \<Longrightarrow> b \<le> a \<Longrightarrow> a = b" by (cases a; cases b) simp_all
  show "a \<le> b \<or> b \<le> a" by (cases a; cases b) simp_all
qed

end

record target_view =
  tv_target :: target_row
  tv_session_id :: int
  tv_session_key :: string
  tv_arm :: string
  tv_titles :: "(pyval \<times> pyval) option"
  tv_due_at_utc :: string
  tv_window_closes_at_utc :: string
  tv_selection_probability :: real

definition status_of_text :: "string \<Rightarrow> target_status option" where
  "status_of_text s =
     (if s = ''pending'' then Some Pending else if s = ''resolved'' then Some Resolved
      else if s = ''missing'' then Some Missing else if s = ''duplicate'' then Some Duplicate else None)"

definition target_order :: "target_row \<Rightarrow> int \<times> target_kind \<times> int" where
  "target_order t = (et_due_at t, et_kind t, et_id t)"

definition target_view_of :: "experiment_db \<Rightarrow> session_row \<Rightarrow> target_row \<Rightarrow> target_view py" where
  "target_view_of x s t =
     py_bind (utc_iso (et_due_at t)) (\<lambda>due.
     py_bind (utc_iso (et_window_closes_at t)) (\<lambda>closes.
     py_bind (if et_kind t = Retention then Inr (es_selection_probability s)
              else transfer_selection_probability (es_candidates s)) (\<lambda>p.
       Inr \<lparr>tv_target = t, tv_session_id = es_id s, tv_session_key = es_session_key s, tv_arm = es_arm s,
            tv_titles = map_option (\<lambda>c. (cr_title c, cr_artist c)) (map_of (t_charts (xd_store x)) (fst (et_chart t))),
            tv_due_at_utc = due, tv_window_closes_at_utc = closes, tv_selection_probability = p\<rparr>)))"

text \<open>The join of targets and sessions keeps the targets whose session belongs to the experiment.\<close>

definition joined_view :: "experiment_db \<Rightarrow> int \<Rightarrow> target_row \<Rightarrow> target_view py" where
  "joined_view x i t =
     (case List.find (\<lambda>s. es_id s = et_session_id t) (sessions_of x i) of
        None \<Rightarrow> Inl (RuntimeError ''target without session'')
      | Some s \<Rightarrow> target_view_of x s t)"

definition list_targets :: "experiment_db \<Rightarrow> int \<Rightarrow> string option \<Rightarrow> target_view list py" where
  "list_targets x i status =
     (case status of
        Some text \<Rightarrow>
          (case status_of_text text of
             None \<Rightarrow> Inl (ValueError ''unknown experiment target status'')
           | Some st \<Rightarrow>
               py_mapM (joined_view x i) (sort_key target_order (filter (\<lambda>t. et_status t = st) (targets_of x i))))
      | None \<Rightarrow> py_mapM (joined_view x i) (sort_key target_order (targets_of x i)))"

lemma joined_view_target: "joined_view x i t = Inr v \<Longrightarrow> tv_target v = t"
  by (auto simp: joined_view_def target_view_of_def py_bind_Inr_iff split: option.splits)

lemma views_of_targets: "py_mapM (joined_view x i) ts = Inr vs \<Longrightarrow> map tv_target vs = ts"
  by (induction ts arbitrary: vs) (auto simp: py_bind_Inr_iff dest: joined_view_target)

text \<open>The listing is complete and in schedule order: exactly the targets of the experiment with the status asked for, each once,
  sorted by due time, kind and id.\<close>

theorem listed_targets_are_the_schedule:
  assumes "list_targets x i status = Inr vs"
  shows "mset (map tv_target vs) =
      mset (filter (\<lambda>t. status = None \<or> Option.bind status status_of_text = Some (et_status t)) (targets_of x i)) \<and>
    sorted (map (\<lambda>v. target_order (tv_target v)) vs)"
proof -
  let ?chosen = "filter (\<lambda>t. status = None \<or> Option.bind status status_of_text = Some (et_status t)) (targets_of x i)"
  have "py_mapM (joined_view x i) (sort_key target_order ?chosen) = Inr vs"
  proof (cases status)
    case None
    then show ?thesis using assms by (simp add: list_targets_def)
  next
    case (Some name)
    then obtain st where st: "status_of_text name = Some st"
      and run: "py_mapM (joined_view x i) (sort_key target_order (filter (\<lambda>t. et_status t = st) (targets_of x i))) = Inr vs"
      using assms by (auto simp: list_targets_def split: option.splits)
    have "?chosen = filter (\<lambda>t. et_status t = st) (targets_of x i)"
      by (rule filter_cong) (auto simp: Some st)
    then show ?thesis using run by simp
  qed
  then have targets: "map tv_target vs = sort_key target_order ?chosen" by (rule views_of_targets)
  have "map (\<lambda>v. target_order (tv_target v)) vs = map target_order (map tv_target vs)" by simp
  then show ?thesis unfolding targets by simp
qed

end
