(* ===== verification/Model_Core.thy ===== *)
theory Model_Core
  imports Domain
begin

text \<open>
  \<open>model/core.py\<close>: the completion model. A difficulty frontier is fitted per table by a grid search, the model itself
  by a Newton iteration on a logistic loss, and a new snapshot is accepted only if it beats the baseline on most
  bootstrap samples of the held-out days. Floats are real numbers, so overflow and rounding are not modelled; the
  generator of the bootstrap is the argument \<open>dice\<close>, the index it picks among \<open>n\<close> days at each draw.
\<close>

subsection \<open>Levels\<close>

fun finite_real :: "pyfloat \<Rightarrow> real option" where
  "finite_real (Fin x) = Some x"
| "finite_real _ = None"

text \<open>The digits collected from a label such as \<open>\<star>12\<close>: a sign or a dot only as the first character.\<close>

fun scan_number :: "bool \<Rightarrow> string \<Rightarrow> string" where
  "scan_number started [] = []"
| "scan_number started (c # cs) =
     (if is_digit c \<or> (c \<in> {CHR ''.'', CHR ''-''} \<and> \<not> started) then c # scan_number True cs
      else if started then [] else scan_number False cs)"

definition numeric_level :: "runtime \<Rightarrow> string \<Rightarrow> real option" where
  "numeric_level rt value =
     (let txt = py_strip value in
      case parse_float rt txt of
        Some f \<Rightarrow> finite_real f
      | None \<Rightarrow>
          (case parse_float rt (scan_number False txt) of
             Some f \<Rightarrow> finite_real f
           | None \<Rightarrow> None))"

subsection \<open>The difficulty frontier\<close>

definition sigmoid :: "real \<Rightarrow> real" where
  "sigmoid v =
     (if 0 \<le> v then 1 / (1 + exp (- v)) else exp v / (1 + exp v))"

definition frontier_probability :: "real \<Rightarrow> real \<Rightarrow> real" where
  "frontier_probability ability level = min (999 / 1000) (max (1 / 1000) (sigmoid ((ability - level) / (3 / 2))))"

definition frontier_loss :: "(real \<times> bool) list \<Rightarrow> real \<Rightarrow> real" where
  "frontier_loss obs ability =
     foldl (\<lambda>loss (level, cleared).
       let p = frontier_probability ability level in loss - ln (if cleared then p else 1 - p)) 0 obs"

definition frontier_ability :: "(real \<times> bool) list \<Rightarrow> nat \<Rightarrow> real" where
  "frontier_ability obs step =
     (let low = Min (fst ` set obs) - 3; high = Max (fst ` set obs) + 3
      in low + (high - low) * real step / 240)"

text \<open>The running best: replaced only by a strictly smaller loss; the infinite loss before the first step is \<open>None\<close>.\<close>

fun better :: "('a \<Rightarrow> real) \<Rightarrow> ('a \<times> real) option \<Rightarrow> 'a \<Rightarrow> ('a \<times> real) option" where
  "better loss None x = Some (x, loss x)"
| "better loss (Some (y, l)) x = (if loss x < l then Some (x, loss x) else Some (y, l))"

definition fit_difficulty_frontier :: "(real \<times> bool) list \<Rightarrow> real" where
  "fit_difficulty_frontier obs =
     (if obs = [] then 0
      else case foldl (better (frontier_loss obs)) None (map (frontier_ability obs) [0..<241]) of
             None \<Rightarrow> Min (fst ` set obs) - 3
           | Some (ability, loss) \<Rightarrow> ability)"

subsection \<open>Logistic regression\<close>

definition mean_of :: "real list \<Rightarrow> real" where
  "mean_of vs = sum_list vs / real (length vs)"

definition features_of :: "observation \<Rightarrow> real list" where
  "features_of ob = map (\<lambda>f. case finite_real f of Some x \<Rightarrow> x | None \<Rightarrow> 0) (ob_features ob)"

definition label_of :: "observation \<Rightarrow> real" where
  "label_of ob = (case finite_real (ob_label ob) of Some x \<Rightarrow> x | None \<Rightarrow> 0)"

definition standardize :: "observation list \<Rightarrow> nat list \<Rightarrow> real list \<times> real list" where
  "standardize train indexes =
     (let column = (\<lambda>i. map (\<lambda>r. features_of r ! i) train);
          mean = (\<lambda>i. mean_of (column i));
          variance = (\<lambda>i. sum_list (map (\<lambda>v. (v - mean i)\<^sup>2) (column i)) / real (length (column i)))
      in (map mean indexes,
          map (\<lambda>i. if 1 / 10 ^ 12 < variance i then sqrt (variance i) else 1) indexes))"

definition matrix_of ::
    "observation list \<Rightarrow> nat list \<Rightarrow> real list \<Rightarrow> real list \<Rightarrow> real list list" where
  "matrix_of obs indexes means scales =
     map (\<lambda>r. 1 # map (\<lambda>(column, i). (features_of r ! i - means ! column) / scales ! column) (enumerate 0 indexes)) obs"

definition dot :: "real list \<Rightarrow> real list \<Rightarrow> real" where
  "dot ws vs = sum_list (map2 (*) ws vs)"

text \<open>Gauss-Jordan elimination on the augmented matrix, with a clamped pivot.\<close>

definition argmax :: "('a \<Rightarrow> real) \<Rightarrow> 'a \<Rightarrow> 'a list \<Rightarrow> 'a" where
  "argmax f x xs = foldl (\<lambda>best y. if f best < f y then y else best) x xs"

definition swap_rows :: "nat \<Rightarrow> nat \<Rightarrow> 'a list \<Rightarrow> 'a list" where
  "swap_rows i j m = m[i := m ! j, j := m ! i]"

definition scale_row :: "nat \<Rightarrow> real \<Rightarrow> real list \<Rightarrow> real list" where
  "scale_row column d r = take column r @ map (\<lambda>v. v / d) (drop column r)"

definition reduce_row :: "nat \<Rightarrow> real list \<Rightarrow> real list \<Rightarrow> real list" where
  "reduce_row column pivot r =
     take column r @ map2 (\<lambda>v p. v - r ! column * p) (drop column r) (drop column pivot)"

definition eliminate :: "nat \<Rightarrow> real list list \<Rightarrow> nat \<Rightarrow> real list list" where
  "eliminate width m column =
     (let p = argmax (\<lambda>i. \<bar>m ! i ! column\<bar>) column [Suc column..<width];
          m1 = swap_rows column p m;
          d = m1 ! column ! column;
          pivot = scale_row column (if \<bar>d\<bar> < 1 / 10 ^ 12 then 1 / 10 ^ 12 else d) (m1 ! column)
      in map (\<lambda>i. if i = column then pivot else reduce_row column pivot (m1 ! i)) [0..<width])"

definition solve :: "real list list \<Rightarrow> real list \<Rightarrow> real list" where
  "solve m v =
     (let width = length v
      in map (\<lambda>r. r ! width) (foldl (eliminate width) (map (\<lambda>i. m ! i @ [v ! i]) [0..<width]) [0..<width]))"

definition gradient :: "real list list \<Rightarrow> real list \<Rightarrow> real list \<Rightarrow> real list" where
  "gradient x y ws =
     map (\<lambda>j. sum_list (map2 (\<lambda>r label. (sigmoid (dot ws r) - label) * r ! j / real (length x)) x y) +
       (if j = 0 then 0 else 1 / 100 * ws ! j)) [0..<length ws]"

definition hessian :: "real list list \<Rightarrow> real list \<Rightarrow> real list list" where
  "hessian x ws =
     map (\<lambda>i. map (\<lambda>j.
       sum_list (map (\<lambda>r. let p = sigmoid (dot ws r) in p * (1 - p) * r ! i * r ! j / real (length x)) x) +
       (if i = j then if i = 0 then 1 / 10 ^ 9 else 1 / 100 else 0)) [0..<length ws]) [0..<length ws]"

fun newton :: "nat \<Rightarrow> real list list \<Rightarrow> real list \<Rightarrow> real list \<Rightarrow> real list" where
  "newton 0 x y ws = ws"
| "newton (Suc n) x y ws =
     (let change = solve (hessian x ws) (gradient x y ws);
          ws' = map2 (-) ws change
      in if list_all (\<lambda>c. \<bar>c\<bar> < 1 / 10 ^ 8) change then ws' else newton n x y ws')"

definition fit_logistic :: "real list list \<Rightarrow> real list \<Rightarrow> real list" where
  "fit_logistic x y = newton 100 x y (replicate (length (hd x)) 0)"

definition probabilities :: "real list list \<Rightarrow> real list \<Rightarrow> real list" where
  "probabilities x ws = map (\<lambda>r. sigmoid (dot ws r)) x"

definition clamp_probability :: "real \<Rightarrow> real" where
  "clamp_probability p = min (max p (1 / 10 ^ 15)) (1 - 1 / 10 ^ 15)"

definition losses :: "real list \<Rightarrow> real list \<Rightarrow> real list" where
  "losses labels predictions =
     map2 (\<lambda>label prediction.
       let p = clamp_probability prediction in - (label * ln p + (1 - label) * ln (1 - p))) labels predictions"

subsection \<open>Fitting\<close>

definition min_results :: nat where "min_results = 200"
definition min_sessions :: nat where "min_sessions = 10"
definition bootstrap_samples :: nat where "bootstrap_samples = 100"
definition gate_fraction :: real where "gate_fraction = 4 / 5"

definition feature_names :: "string list" where
  "feature_names = [''table_completion_margin'', ''density_p99'', ''scratch_rate'']"

text \<open>Resampling whole days: in each sample as many days are drawn as there are.\<close>

definition indexes_of_day :: "observation list \<Rightarrow> int \<Rightarrow> nat list" where
  "indexes_of_day obs day = filter (\<lambda>i. ob_day (obs ! i) = day) [0..<length obs]"

definition sample_indexes :: "(nat \<Rightarrow> nat) \<Rightarrow> observation list \<Rightarrow> nat \<Rightarrow> nat list" where
  "sample_indexes dice obs k =
     (let days = sorted_list_of_set (set (map ob_day obs)); n = length days
      in concat (map (\<lambda>j. indexes_of_day obs (days ! dice (k * n + j))) [0..<n]))"

definition bootstrap_fraction ::
    "(nat \<Rightarrow> nat) \<Rightarrow> observation list \<Rightarrow> real list \<Rightarrow> real list \<Rightarrow> real" where
  "bootstrap_fraction dice obs baseline_losses full_losses =
     (let improved = filter (\<lambda>k.
        let indexes = sample_indexes dice obs k
        in mean_of (map (\<lambda>i. full_losses ! i) indexes) < mean_of (map (\<lambda>i. baseline_losses ! i) indexes))
        [0..<bootstrap_samples]
      in real (length improved) / real bootstrap_samples)"

datatype fit_status = Collecting | Rejected | Unchanged | Passed

record fit_result =
  fr_status :: fit_status
  fr_n_results :: nat
  fr_n_sessions :: nat
  fr_n_train :: nat
  fr_n_holdout :: nat
  fr_gate_fraction :: "real option"
  fr_version :: "int option"
  fr_metrics :: "(string \<times> real) list option"
  fr_model :: "model_snapshot option"

text \<open>What a split of the observations into training and held-out rows is scored by.\<close>

definition predictions_of :: "observation list \<Rightarrow> observation list \<Rightarrow> nat list \<Rightarrow> real list" where
  "predictions_of train holdout indexes =
     (let (means, scales) = standardize train indexes
      in probabilities (matrix_of holdout indexes means scales)
           (fit_logistic (matrix_of train indexes means scales) (map label_of train)))"

definition snapshot_of :: "observation list \<Rightarrow> int \<Rightarrow> int \<Rightarrow> (string \<times> real) list \<Rightarrow> model_snapshot" where
  "snapshot_of train version trained_at metrics =
     (let (means, scales) = standardize train [0, 1, 2]
      in \<lparr>ms_target = ''observed_completion'', ms_version = version, ms_trained_at = trained_at,
          ms_n_train = int (length train),
          ms_weights = map Fin (fit_logistic (matrix_of train [0, 1, 2] means scales) (map label_of train)),
          ms_means = map Fin means, ms_scales = map Fin scales, ms_feature_names = feature_names,
          ms_metrics = metrics,
          ms_description = ''Observed completion under habitual settings; not gauge-conditional.''\<rparr>)"

definition split_point :: "nat \<Rightarrow> nat" where
  "split_point n = max 1 (min (n - 1) (n * 4 div 5))"

definition fit_observations ::
    "(nat \<Rightarrow> nat) \<Rightarrow> model_snapshot option \<Rightarrow> int \<Rightarrow> observation list \<Rightarrow> fit_result py" where
  "fit_observations dice previous trained_at obs =
     (let n = length obs; sessions = card (set (map ob_day obs)) in
      if n < min_results \<or> sessions < min_sessions
      then Inr \<lparr>fr_status = Collecting, fr_n_results = n, fr_n_sessions = sessions, fr_n_train = 0,
                fr_n_holdout = 0, fr_gate_fraction = None, fr_version = None, fr_metrics = None, fr_model = None\<rparr>
      else
        let train = take (split_point n) obs;
            holdout = drop (split_point n) obs;
            labels = map label_of holdout;
            full = predictions_of train holdout [0, 1, 2];
            baseline_losses = losses labels (predictions_of train holdout [0]);
            full_losses = losses labels full;
            fraction = bootstrap_fraction dice holdout baseline_losses full_losses;
            metrics = [(''logloss'', mean_of full_losses),
                       (''brier'', mean_of (map2 (\<lambda>p y. (p - y)\<^sup>2) full labels)),
                       (''baseline_logloss'', mean_of baseline_losses),
                       (''bootstrap_improvement_fraction'', fraction),
                       (''n_holdout'', real (length holdout))];
            outcome = \<lparr>fr_status = Rejected, fr_n_results = n, fr_n_sessions = sessions,
                       fr_n_train = length train, fr_n_holdout = length holdout, fr_gate_fraction = Some fraction,
                       fr_version = None, fr_metrics = Some metrics, fr_model = None\<rparr>
        in
        if fraction < gate_fraction then Inr outcome
        else
          case previous of
            Some p \<Rightarrow>
              if ms_n_train p = int (length train) \<and> ms_feature_names p = feature_names
              then Inr (outcome\<lparr>fr_status := Unchanged, fr_version := Some (ms_version p), fr_model := Some p\<rparr>)
              else py_bind (check_model_snapshot (snapshot_of train (ms_version p + 1) trained_at metrics)) (\<lambda>m.
                Inr (outcome\<lparr>fr_status := Passed, fr_version := Some (ms_version p + 1), fr_model := Some m\<rparr>))
          | None \<Rightarrow>
              py_bind (check_model_snapshot (snapshot_of train 1 trained_at metrics)) (\<lambda>m.
                Inr (outcome\<lparr>fr_status := Passed, fr_version := Some 1, fr_model := Some m\<rparr>)))"

text \<open>Fitting and storing through the ports: only a passed fit is saved, and with a unit of work a failing save or commit
  is rolled back before the exception continues.\<close>

record 's model_ports =
  mp_save :: "model_snapshot \<Rightarrow> 's \<Rightarrow> unit py \<times> 's"
  mp_commit :: "'s \<Rightarrow> unit py \<times> 's"
  mp_rollback :: "'s \<Rightarrow> 's"

definition fit_repository ::
    "'s model_ports \<Rightarrow> bool \<Rightarrow> fit_result py \<Rightarrow> 's \<Rightarrow> fit_result py \<times> 's" where
  "fit_repository ports unit_of_work fitted s =
     (case fitted of
        Inl e \<Rightarrow> (Inl e, s)
      | Inr result \<Rightarrow>
          (case (fr_status result, fr_model result) of
             (Passed, Some m) \<Rightarrow>
               (case mp_save ports m s of
                  (Inl e, s1) \<Rightarrow> (Inl e, if unit_of_work then mp_rollback ports s1 else s1)
                | (Inr u, s1) \<Rightarrow>
                    if \<not> unit_of_work then (Inr result, s1)
                    else (case mp_commit ports s1 of
                            (Inl e, s2) \<Rightarrow> (Inl e, mp_rollback ports s2)
                          | (Inr v, s2) \<Rightarrow> (Inr result, s2)))
           | _ \<Rightarrow> (Inr result, s)))"

subsection \<open>Prediction\<close>

fun reals_of :: "pyfloat list \<Rightarrow> real list option" where
  "reals_of [] = Some []"
| "reals_of (f # fs) =
     (case (finite_real f, reals_of fs) of (Some x, Some xs) \<Rightarrow> Some (x # xs) | _ \<Rightarrow> None)"

text \<open>The vectors of a snapshot are finite: \<open>check_model_snapshot\<close> has refused any other.\<close>

definition predict_snapshot :: "model_snapshot option \<Rightarrow> real \<Rightarrow> real \<Rightarrow> real \<Rightarrow> real option" where
  "predict_snapshot snapshot margin density scratch =
     (case snapshot of
        None \<Rightarrow> None
      | Some m \<Rightarrow>
          if ms_feature_names m \<noteq> feature_names then None
          else case (reals_of (ms_weights m), reals_of (ms_means m), reals_of (ms_scales m)) of
                 (Some (w # ws), Some means, Some scales) \<Rightarrow>
                   Some (sigmoid (w + dot ws
                     (map2 (\<lambda>(v, mean) scale. (v - mean) / scale) (zip [margin, density, scratch] means) scales)))
               | _ \<Rightarrow> None)"

end
