(* ===== verification/Model_Proofs.thy ===== *)
theory Model_Proofs
  imports Model_Core
begin

text \<open>
  What the model of \<open>model/core.py\<close> promises: the frontier is the best grid point, a fit always ends in one of its four
  outcomes, and an accepted snapshot is valid and predicts a probability.
\<close>

subsection \<open>The frontier\<close>

lemma better_upt:
  "0 < n \<Longrightarrow> \<exists>k<n. foldl (better f) None (map g [0..<n]) = Some (g k, f (g k)) \<and>
     (\<forall>j<n. f (g k) \<le> f (g j)) \<and> (\<forall>j<k. f (g k) < f (g j))"
proof (induction n)
  case 0
  then show ?case by simp
next
  case (Suc n)
  show ?case
  proof (cases "n = 0")
    case True
    then show ?thesis by (intro exI[of _ 0]) simp
  next
    case False
    then obtain k where k: "k < n" "foldl (better f) None (map g [0..<n]) = Some (g k, f (g k))"
        "\<forall>j<n. f (g k) \<le> f (g j)" "\<forall>j<k. f (g k) < f (g j)"
      using Suc.IH by auto
    show ?thesis
    proof (cases "f (g n) < f (g k)")
      case True
      then have "\<forall>j<n. f (g n) < f (g j)" using k(3) by force
      then show ?thesis using True k(2) by (intro exI[of _ n]) (auto simp: less_Suc_eq)
    next
      case False
      then show ?thesis using k by (intro exI[of _ k]) (auto simp: less_Suc_eq)
    qed
  qed
qed

lemma frontier_ability_between:
  assumes "k \<le> 240" and "obs \<noteq> []"
  shows "Min (fst ` set obs) - 3 \<le> frontier_ability obs k \<and> frontier_ability obs k \<le> Max (fst ` set obs) + 3"
proof -
  let ?low = "Min (fst ` set obs) - 3" and ?high = "Max (fst ` set obs) + 3"
  have "Min (fst ` set obs) \<le> Max (fst ` set obs)" using assms(2) by (intro Min.coboundedI Max_in) auto
  then have le: "0 \<le> ?high - ?low" by simp
  have t: "0 \<le> real k / 240" "real k / 240 \<le> 1" using assms(1) by simp_all
  have "(?high - ?low) * (real k / 240) \<le> (?high - ?low) * 1" using le t(2) by (rule mult_left_mono[rotated])
  moreover have "0 \<le> (?high - ?low) * (real k / 240)" using le t(1) by simp
  ultimately show ?thesis by (simp add: frontier_ability_def Let_def)
qed

text \<open>The frontier is the best of the 241 grid points, the lowest one among equals, and lies within three levels of
  the levels that were observed.\<close>

theorem frontier_is_best_grid_point:
  assumes "obs \<noteq> []"
  shows "\<exists>k\<le>240. fit_difficulty_frontier obs = frontier_ability obs k \<and>
     (\<forall>j\<le>240. frontier_loss obs (frontier_ability obs k) \<le> frontier_loss obs (frontier_ability obs j)) \<and>
     (\<forall>j<k. frontier_loss obs (frontier_ability obs k) < frontier_loss obs (frontier_ability obs j)) \<and>
     Min (fst ` set obs) - 3 \<le> fit_difficulty_frontier obs \<and> fit_difficulty_frontier obs \<le> Max (fst ` set obs) + 3"
proof -
  obtain k where k: "k < 241"
      "foldl (better (frontier_loss obs)) None (map (frontier_ability obs) [0..<241]) =
         Some (frontier_ability obs k, frontier_loss obs (frontier_ability obs k))"
      "\<forall>j<241. frontier_loss obs (frontier_ability obs k) \<le> frontier_loss obs (frontier_ability obs j)"
      "\<forall>j<k. frontier_loss obs (frontier_ability obs k) < frontier_loss obs (frontier_ability obs j)"
    using better_upt[of 241 "frontier_loss obs" "frontier_ability obs"] by (metis zero_less_numeral)
  have "k \<le> 240" using k(1) by simp
  moreover have "fit_difficulty_frontier obs = frontier_ability obs k"
    unfolding fit_difficulty_frontier_def k(2) using assms by simp
  ultimately show ?thesis using k(3,4) frontier_ability_between[of k obs] assms by (intro exI[of _ k]) auto
qed

theorem frontier_is_best_grid_point_witness:
  "\<bar>fit_difficulty_frontier [(10, True), (12, False)] - 11\<bar> \<le> 4"
proof -
  have "[(10, True), (12 :: real, False)] \<noteq> []" by simp
  from frontier_is_best_grid_point[OF this] show ?thesis by (auto simp: abs_le_iff)
qed

subsection \<open>Dimensions\<close>

lemma length_eliminate [simp]: "length (eliminate n m c) = n"
  by (simp add: eliminate_def Let_def)

lemma length_solve [simp]: "length (solve m v) = length v"
proof -
  have "length (foldl (eliminate n) m cs) = n" if "length m = n" for n m cs
    using that by (induction cs arbitrary: m) simp_all
  then show ?thesis by (simp add: solve_def Let_def)
qed

lemma length_newton: "length (newton n x y ws) = length ws"
proof (induction n arbitrary: ws)
  case (Suc n)
  have "length (solve (hessian x ws) (gradient x y ws)) = length ws" by (simp add: gradient_def)
  then show ?case using Suc.IH[of "map2 (-) ws (solve (hessian x ws) (gradient x y ws))"]
    by (simp add: Let_def)
qed simp

lemma standardize_fields:
  "length (fst (standardize train is)) = length is" "length (snd (standardize train is)) = length is"
  "\<forall>s\<in>set (snd (standardize train is)). 0 < s"
proof -
  show "\<forall>s\<in>set (snd (standardize train is)). 0 < s"
  proof
    fix s
    assume "s \<in> set (snd (standardize train is))"
    then have "s \<in> (\<lambda>v. if 1 / 10 ^ 12 < v then sqrt v else 1) ` UNIV"
      unfolding standardize_def Let_def snd_conv set_map by (auto simp only: image_iff)
    then show "0 < s" using order.strict_trans[of 0 "1 / 10 ^ 12" "_ :: real"] by (auto split: if_splits)
  qed
qed (simp_all add: standardize_def Let_def)

lemma snapshot_valid:
  assumes "train \<noteq> []" and "0 \<le> version"
  shows "check_model_snapshot (snapshot_of train version t ms) = Inr (snapshot_of train version t ms)"
proof -
  obtain means scales where st: "standardize train [0, 1, 2] = (means, scales)" by fastforce
  have scales: "length means = 3" "length scales = 3" "\<forall>s\<in>set scales. 0 < s"
    using standardize_fields[of train "[0, 1, 2]", unfolded st] by simp_all
  have "length (hd (matrix_of train [0, 1, 2] means scales)) = 4"
    using assms(1) by (cases train) (simp_all add: matrix_of_def)
  then have weights: "length (fit_logistic (matrix_of train [0, 1, 2] means scales) (map label_of train)) = 4"
    by (simp add: fit_logistic_def length_newton)
  have "\<not> list_ex (\<lambda>v. \<not> is_finite v \<or> float_le v (Fin 0)) (map Fin scales)"
    using scales(3) by (auto simp: list_ex_iff)
  moreover have "\<not> blank ''observed_completion''" by (simp add: blank_def py_strip_def is_space_def)
  ultimately show ?thesis
    using assms(2) scales(1,2) weights
    by (simp add: check_model_snapshot_def snapshot_of_def st feature_names_def Let_def list_all_iff del: One_nat_def)
qed

subsection \<open>Outcomes of a fit\<close>

lemma split_point_bounds: "2 \<le> n \<Longrightarrow> 0 < split_point n \<and> split_point n < n"
  by (auto simp: split_point_def)

definition next_version :: "model_snapshot option \<Rightarrow> int" where
  "next_version previous = (case previous of None \<Rightarrow> 1 | Some p \<Rightarrow> ms_version p + 1)"

text \<open>A fit always ends in one of its four outcomes. It never raises; it waits while there are fewer than 200 results or
  10 days; otherwise all results are split into a non-empty training and held-out part, a snapshot is only
  returned if at least four fifths of the bootstrap samples favour it, and a new one satisfies every
  check of its constructor and carries the next version.\<close>

theorem fit_outcomes:
  assumes "\<And>p. previous = Some p \<Longrightarrow> 0 \<le> ms_version p"
  shows "\<exists>r. fit_observations dice previous trained obs = Inr r \<and>
     (fr_status r = Collecting \<longleftrightarrow> length obs < 200 \<or> card (set (map ob_day obs)) < 10) \<and>
     (fr_status r \<noteq> Collecting \<longrightarrow> 0 < fr_n_train r \<and> 0 < fr_n_holdout r \<and> fr_n_train r + fr_n_holdout r = length obs) \<and>
     (fr_model r \<noteq> None \<longleftrightarrow> (\<exists>f. fr_gate_fraction r = Some f \<and> 4 / 5 \<le> f)) \<and>
     (fr_status r = Passed \<longrightarrow> (\<exists>m. fr_model r = Some m \<and> check_model_snapshot m = Inr m \<and>
        ms_version m = next_version previous \<and> ms_feature_names m = feature_names \<and> ms_n_train m = int (fr_n_train r))) \<and>
     (fr_status r = Unchanged \<longrightarrow> fr_model r = previous)"
proof (cases "length obs < 200 \<or> card (set (map ob_day obs)) < 10")
  case True
  then show ?thesis
    by (simp add: fit_observations_def min_results_def min_sessions_def Let_def)
next
  case False
  let ?n = "split_point (length obs)"
  have n: "0 < ?n" "?n < length obs" using split_point_bounds[of "length obs"] False by auto
  then have "take ?n obs \<noteq> []" by auto
  then have valid: "check_model_snapshot (snapshot_of (take ?n obs) v trained ms) = Inr (snapshot_of (take ?n obs) v trained ms)"
    if "0 \<le> v" for v ms by (rule snapshot_valid) (rule that)
  have fields: "ms_version (snapshot_of train v trained ms) = v" "ms_feature_names (snapshot_of train v trained ms) = feature_names"
      "ms_n_train (snapshot_of train v trained ms) = int (length train)" for train v ms
    by (simp_all add: snapshot_of_def split: prod.splits)
  have cond: "(length obs < min_results \<or> card (set (map ob_day obs)) < min_sessions) = False"
    using False by (simp add: min_results_def min_sessions_def)
  show ?thesis
  proof (cases previous)
    case None
    then show ?thesis using n valid[of 1] False
      unfolding fit_observations_def Let_def cond if_False
      by (simp add: fields next_version_def gate_fraction_def min_def)
  next
    case (Some p)
    have "0 \<le> ms_version p + 1" using assms[OF Some] by simp
    then show ?thesis using n valid[of "ms_version p + 1"] False Some
      unfolding fit_observations_def Let_def cond if_False
      by (simp add: fields next_version_def gate_fraction_def min_def)
  qed
qed

definition sample_observations :: "observation list" where
  "sample_observations = map (\<lambda>i. \<lparr>ob_played_at = int i, ob_day = int (i mod 10),
     ob_features = [Fin 0, Fin 1, Fin (real i)], ob_label = Fin (of_bool (even i))\<rparr>) [0..<200]"

lemma sample_days: "card (set (map ob_day sample_observations)) = 10"
proof -
  have "set (map ob_day sample_observations) = int ` (\<lambda>i. i mod 10) ` {0..<200}"
    by (auto simp: sample_observations_def)
  also have "(\<lambda>i. i mod 10) ` {0..<200} = {0..<10 :: nat}"
  proof
    show "{0..<10} \<subseteq> (\<lambda>i. i mod 10) ` {0..<200 :: nat}"
      by (rule subsetI) (rule_tac x = x in image_eqI, auto)
  qed auto
  finally show ?thesis by (simp add: card_image)
qed

theorem fit_outcomes_witness:
  "\<exists>r. fit_observations (\<lambda>_. 0) None 7 sample_observations = Inr r \<and> fr_status r \<noteq> Collecting \<and>
     0 < fr_n_train r \<and> 0 < fr_n_holdout r \<and> fr_n_train r + fr_n_holdout r = 200"
proof -
  have "0 \<le> ms_version p" if "None = Some p" for p using that by simp
  from fit_outcomes[OF this, where dice = "\<lambda>_. 0" and trained = 7 and obs = sample_observations] sample_days show ?thesis
    by (force simp: sample_observations_def)
qed

subsection \<open>Predictions\<close>

lemma sigmoid_unit: "0 < sigmoid v \<and> sigmoid v < 1"
  by (simp add: sigmoid_def add_pos_pos)

lemma reals_of_finite: "list_all is_finite fs \<Longrightarrow> \<exists>xs. reals_of fs = Some xs \<and> length xs = length fs"
proof (induction fs)
  case (Cons f fs)
  then show ?case by (cases f) auto
qed simp

text \<open>A snapshot that passed its constructor predicts. If it is on the features of this version, every input has a
  prediction, strictly between 0 and 1; on other features there is none.\<close>

theorem valid_snapshot_predicts:
  assumes "check_model_snapshot m = Inr m"
  shows "(\<exists>p. predict_snapshot (Some m) margin density scratch = Some p \<and> 0 < p \<and> p < 1) \<longleftrightarrow>
     ms_feature_names m = feature_names"
proof
  assume names: "ms_feature_names m = feature_names"
  have checks: "length (ms_weights m) = 4" "list_all is_finite (ms_weights m)" "list_all is_finite (ms_means m)"
      "list_all is_finite (ms_scales m)"
    using assms by (auto simp: check_model_snapshot_def py_bind_Inr_iff raise_if_Inr Let_def names feature_names_def
        list_ex_iff list_all_iff)
  obtain ws where ws: "reals_of (ms_weights m) = Some ws" "length ws = 4" using reals_of_finite[OF checks(2)] checks(1) by auto
  obtain w ws' where cons: "ws = w # ws'" using ws(2) by (cases ws) auto
  obtain means scales where "reals_of (ms_means m) = Some means" "reals_of (ms_scales m) = Some scales"
    using reals_of_finite[OF checks(3)] reals_of_finite[OF checks(4)] by auto
  then show "\<exists>p. predict_snapshot (Some m) margin density scratch = Some p \<and> 0 < p \<and> p < 1"
    using ws(1) names by (simp add: cons predict_snapshot_def sigmoid_unit)
next
  assume "\<exists>p. predict_snapshot (Some m) margin density scratch = Some p \<and> 0 < p \<and> p < 1"
  then show "ms_feature_names m = feature_names" by (auto simp: predict_snapshot_def split: if_splits)
qed

definition sample_model :: model_snapshot where
  "sample_model = \<lparr>ms_target = ''observed_completion'', ms_version = 1, ms_trained_at = 0, ms_n_train = 160,
     ms_weights = map Fin [0, 1, 0, 0], ms_means = map Fin [0, 0, 0], ms_scales = map Fin [1, 1, 1],
     ms_feature_names = feature_names, ms_metrics = [], ms_description = []\<rparr>"

theorem valid_snapshot_predicts_witness:
  "\<exists>p. predict_snapshot (Some sample_model) 2 0 0 = Some p \<and> 0 < p \<and> p < 1"
proof -
  have "\<not> blank ''observed_completion''" by (simp add: blank_def py_strip_def is_space_def)
  then have "check_model_snapshot sample_model = Inr sample_model"
    by (simp add: check_model_snapshot_def sample_model_def feature_names_def)
  from valid_snapshot_predicts[OF this] show ?thesis by (simp add: sample_model_def)
qed

end
