(* ===== verification/Progress.thy ===== *)
theory Progress
  imports Dates Normalize
begin

text \<open>
  The progress protocol: reading the counters of \<open>score.db\<close> (\<open>serve/progress_counts.py\<close>), checking and sending a snapshot
  (\<open>serve/progress_sender.py\<close>), and the receiver \<open>receive_progress\<close> of \<open>serve/app.py\<close>, whose state is one JSON file. The rows
  of the table \<open>player\<close> are pairs of their date and their judgement columns. Asia/Tokyo is nine hours ahead of UTC.
\<close>

subsection \<open>Counting\<close>

record progress_counts =
  pg_current :: int
  pg_today :: "int option"

definition progress_day :: "int \<Rightarrow> int" where
  "progress_day t = (t + 9 * 3600) div 86400"

type_synonym player_counts = "int \<times> pyval list"

definition count_of :: "pyval \<Rightarrow> int py" where
  "count_of v = py_bind (if truthy v then py_int v else Inr 0) (\<lambda>n. Inr (max 0 n))"

definition total_of :: "player_counts \<Rightarrow> int py" where
  "total_of r = py_bind (py_mapM count_of (snd r)) (\<lambda>ns. Inr (sum_list ns))"

definition read_progress_counts :: "player_counts list \<Rightarrow> int \<Rightarrow> progress_counts py" where
  "read_progress_counts player now =
     (let rows = take 2 (sort_key (\<lambda>r. - fst r) player) in
      py_bind (raise_if (rows = []) (RuntimeError ''player table is empty'')) (\<lambda>_.
      py_bind (py_mapM total_of rows) (\<lambda>totals.
        let latest = progress_day (fst (hd rows))
        in Inr \<lparr>pg_current = hd totals,
             pg_today =
               (if latest < progress_day now then Some 0
                else if latest = progress_day now \<and> length totals = 2 then Some (max 0 (totals ! 0 - totals ! 1))
                else None)\<rparr>)))"

subsection \<open>Sending\<close>

record progress_message =
  pm_source_id :: string
  pm_current :: int
  pm_today :: "int option"
  pm_observed_at :: int

definition option_value :: "int option \<Rightarrow> pyval" where
  "option_value v = (case v of None \<Rightarrow> PNone | Some n \<Rightarrow> PInt n)"

text \<open>The JSON object that is posted to \<open>/api/progress\<close>.\<close>

definition message_value :: "progress_message \<Rightarrow> pyval" where
  "message_value m =
     PDict [(''source_id'', PStr (pm_source_id m)), (''current_judged'', PInt (pm_current m)),
            (''today_judged'', option_value (pm_today m)), (''observed_at'', PInt (pm_observed_at m))]"

text \<open>\<open>send_progress_snapshot\<close>: the network is a function of its state, the token and the object.\<close>

definition send_progress_snapshot ::
    "('n \<Rightarrow> string \<Rightarrow> pyval \<Rightarrow> unit py \<times> 'n) \<Rightarrow> string \<Rightarrow> progress_message \<Rightarrow> 'n \<Rightarrow> unit py \<times> 'n" where
  "send_progress_snapshot post token m net =
     (if pm_current m < 0 then (Inl (ValueError ''current_judged must be non-negative''), net)
      else if \<not> (case pm_today m of None \<Rightarrow> True | Some t \<Rightarrow> 0 \<le> t \<and> t \<le> pm_current m)
        then (Inl (ValueError ''today_judged must be a valid cumulative subset''), net)
      else if token = [] then (Inl (ValueError ''progress token is empty''), net)
      else post net token (message_value m))"

subsection \<open>Receiving\<close>

datatype http_status = HttpOk | BadRequest | Unauthorized | NotFound | Conflict | TooLarge | ServiceUnavailable

text \<open>The state file: absent, not readable as JSON, or holding a value.\<close>

datatype state_file = NoFile | Unreadable | Holding pyval

record receiver =
  rv_source_id :: string
  rv_state :: "state_file option"

definition is_alnum :: "char \<Rightarrow> bool" where
  "is_alnum c \<longleftrightarrow> is_digit c \<or> CHR ''a'' \<le> c \<and> c \<le> CHR ''z'' \<or> CHR ''A'' \<le> c \<and> c \<le> CHR ''Z''"

definition source_id_ok :: "string \<Rightarrow> bool" where
  "source_id_ok s \<longleftrightarrow> s \<noteq> [] \<and> length s \<le> 64 \<and> list_all (\<lambda>c. is_alnum c \<or> c = CHR ''-'' \<or> c = CHR ''_'') s"

fun today_ok :: "int \<Rightarrow> pyval \<Rightarrow> bool" where
  "today_ok current PNone = True"
| "today_ok current (PInt t) = (0 \<le> t \<and> t \<le> current)"
| "today_ok current v = False"

definition required_keys :: "string set" where
  "required_keys = {''source_id'', ''current_judged'', ''observed_at''}"

text \<open>The checks on a request: its keys, the configured source, two integers in range.\<close>

definition accepted_payload :: "string \<Rightarrow> int \<Rightarrow> row \<Rightarrow> (int \<times> int) option" where
  "accepted_payload source now d =
     (if fst ` set d \<noteq> required_keys \<and> fst ` set d \<noteq> insert ''today_judged'' required_keys then None
      else case (get_item d ''source_id'', get_item d ''current_judged'', get_item d ''observed_at'') of
        (PStr s, PInt current, PInt observed) \<Rightarrow>
          (if source_id_ok s \<and> s = source \<and> 0 \<le> current \<and> 0 \<le> observed \<and> observed \<le> now + 300 \<and>
              today_ok current (get_item d ''today_judged'')
           then Some (current, observed) else None)
      | _ \<Rightarrow> None)"

definition stored_row :: "string \<Rightarrow> int \<Rightarrow> pyval \<Rightarrow> int \<Rightarrow> int \<Rightarrow> row" where
  "stored_row source current today observed now =
     [(''source_id'', PStr source), (''current_judged'', PInt current), (''today_judged'', today),
      (''observed_at'', PInt observed), (''observed_date'', PStr (iso_date (progress_day observed))),
      (''received_at'', PInt now)]"

definition error_body :: "string \<Rightarrow> row" where
  "error_body text = [(''error'', PStr text)]"

text \<open>\<open>{"status": "accepted", **state}\<close>.\<close>

definition accepted_body :: "row \<Rightarrow> row" where
  "accepted_body d = foldl (\<lambda>r (k, v). AList.update k v r) [(''status'', PStr ''accepted'')] d"

text \<open>What the previous state says about a request: an answer, or \<open>None\<close> when the request becomes the state.\<close>

definition previous_answer :: "string \<Rightarrow> row \<Rightarrow> int \<Rightarrow> int \<Rightarrow> row \<Rightarrow> (http_status \<times> row) option" where
  "previous_answer source payload current observed previous =
     (case (get_item previous ''observed_at'', get_item previous ''current_judged'', get_item previous ''received_at'') of
        (PInt old_time, PInt old_current, PInt received) \<Rightarrow>
          (if get_item previous ''source_id'' \<noteq> PStr source
             then Some (ServiceUnavailable, error_body ''progress state unavailable'')
           else if observed < old_time \<or> current < old_current
             then Some (Conflict, error_body ''progress moved backwards'')
           else if observed = old_time \<and> current \<noteq> old_current
             then Some (Conflict, error_body ''conflicting progress snapshot'')
           else if observed = old_time \<and> current = old_current then
             (if map_of payload ''today_judged'' \<noteq> None \<and> map_of previous ''today_judged'' \<noteq> None \<and>
                 get_item payload ''today_judged'' \<noteq> get_item previous ''today_judged''
              then Some (Conflict, error_body ''conflicting progress snapshot'')
              else Some (HttpOk, accepted_body previous))
           else None)
      | _ \<Rightarrow> Some (ServiceUnavailable, error_body ''progress state unavailable''))"

definition receive_progress :: "receiver \<Rightarrow> int \<Rightarrow> pyval \<Rightarrow> (http_status \<times> row) \<times> receiver" where
  "receive_progress rv now payload =
     (case payload of
        PDict d \<Rightarrow>
          (case accepted_payload (rv_source_id rv) now d of
             None \<Rightarrow> ((BadRequest, error_body ''invalid progress payload''), rv)
           | Some (current, observed) \<Rightarrow>
               (let state = stored_row (rv_source_id rv) current (get_item d ''today_judged'') observed now;
                    store = ((HttpOk, accepted_body state), rv\<lparr>rv_state := Some (Holding (PDict state))\<rparr>)
                in case rv_state rv of
                     None \<Rightarrow> ((ServiceUnavailable, error_body ''progress receiver disabled''), rv)
                   | Some Unreadable \<Rightarrow> ((ServiceUnavailable, error_body ''progress state unavailable''), rv)
                   | Some (Holding (PDict previous)) \<Rightarrow>
                       (case previous_answer (rv_source_id rv) d current observed previous of
                          Some answer \<Rightarrow> (answer, rv)
                        | None \<Rightarrow> store)
                   | _ \<Rightarrow> store))
      | _ \<Rightarrow> ((BadRequest, error_body ''JSON object required''), rv))"

end
