(* ===== verification/Menu_Data.thy ===== *)
theory Menu_Data
  imports Model_Core
begin

text \<open>
  The data of the menu planner, \<open>plan/menu.py\<close>, and the numeric helpers it ranks charts with. The rows a
  recommendation starts from are those of the candidate query of \<open>db/recommendation_adapter.py\<close>, whose columns have the
  declared types; a feature column is looked up by its name. Floats are real numbers.
\<close>

subsection \<open>Constants\<close>

definition level_order :: "string list" where
  "level_order = [''01 WARMUP'', ''02 FOCUS-A'', ''03 TRANSFER-A'', ''04 FOCUS-B'', ''05 TRANSFER-B'', ''06 LAMP'',
     ''07 REVIEW'', ''08 PROBE'', ''09 RESERVE'']"

definition quotas :: "(string \<times> int) list" where
  "quotas = [(''01 WARMUP'', 8000), (''02 FOCUS-A'', 21000), (''03 TRANSFER-A'', 10000), (''04 FOCUS-B'', 21000),
     (''05 TRANSFER-B'', 10000), (''06 LAMP'', 15000), (''07 REVIEW'', 10000), (''08 PROBE'', 5000)]"

definition quota :: "string \<Rightarrow> int" where
  "quota c = (case map_of quotas c of Some q \<Rightarrow> q | None \<Rightarrow> 0)"

definition feature_axes :: "string list" where
  "feature_axes = [''density'', ''scratch'', ''ln'', ''soflan'']"

definition difficulty_tables :: "string list" where
  "difficulty_tables = [''genocide'', ''overjoy'', ''satellite'', ''stella'']"

definition unproven_completion :: real where "unproven_completion = 34 / 100"

definition core_warmup_features :: "string list" where
  "core_warmup_features = [''density_p90'', ''end_density'', ''burst_max'', ''scratch_rate'', ''scratch_combo_rate'',
     ''ln_rate'', ''soflan_var'', ''soflan_changes'', ''stop_count'', ''end_density_ratio'', ''burst_ratio'']"

definition pattern_warmup_features :: "string list" where
  "pattern_warmup_features =
     [''micro_rate'', ''long_jack_rate'', ''avg_chord'', ''chord_ge3'', ''grid_bpm'', ''stream_sec'', ''last_kill'']"

definition warmup_features :: "string list" where
  "warmup_features = core_warmup_features @ pattern_warmup_features"

subsection \<open>Rows and planned values\<close>

record candidate_row =
  q_sha256 :: string
  q_md5 :: "string option"
  q_title :: "string option"
  q_artist :: "string option"
  q_notes :: int
  q_table_id :: string
  q_level :: string
  q_mode :: int
  q_clear :: int
  q_playcount :: int
  q_last_played :: int
  q_minbp :: "int option"
  q_recent_successes :: int
  q_recent_failures :: int
  q_recent_played_at :: int
  q_recent_second_played_at :: int
  q_recent_bp_rate :: "pyfloat option"
  q_axis :: "string \<Rightarrow> real"
  q_model_scratch :: real
  q_feature :: "string \<Rightarrow> pyfloat option"
  q_chart_seconds :: "pyfloat option"
  q_practice_low :: "int option"

record classification_row =
  cl_sha256 :: "string option"
  cl_family :: string
  cl_scale :: string
  cl_level :: string
  cl_source_id :: string

record table_source_row =
  tb_table_id :: string
  tb_last_error :: "string option"
  tb_entry_count :: "int option"
  tb_matched_count :: "int option"

record recommendation_input =
  ri_profile :: profile_context
  ri_import_id :: int
  ri_baseline_judged :: int
  ri_candidates :: "candidate_row list"
  ri_model :: "model_snapshot option"
  ri_table_sources :: "table_source_row list"
  ri_warmup_adjustment :: int
  ri_classifications :: "classification_row list"

definition check_recommendation_input :: "recommendation_input \<Rightarrow> recommendation_input py" where
  "check_recommendation_input r =
     py_bind (raise_if (ri_import_id r < 0 \<or> ri_baseline_judged r < 0)
       (DomainValidationError ''recommendation input counters must not be negative'')) (\<lambda>_.
     py_bind (raise_if (ri_warmup_adjustment r \<notin> {- 1, 0, 1})
       (DomainValidationError ''warmup_adjustment must be -1, 0, or 1'')) (\<lambda>_. Inr r))"

record rating =
  ra_table_id :: string
  ra_source_level :: string
  ra_level_number :: "real option"

record frontier =
  fo_table_id :: string
  fo_easy :: real
  fo_normal :: real
  fo_hard :: real
  fo_warmup_anchor :: real
  fo_observations :: nat
  fo_hard_clears :: nat

record menu_candidate =
  mc_sha256 :: string
  mc_mode :: int
  mc_md5 :: "string option"
  mc_title :: string
  mc_artist :: string
  mc_notes :: int
  mc_table_id :: string
  mc_source_level :: string
  mc_level_number :: "real option"
  mc_ratings :: "rating list"
  mc_clear :: int
  mc_playcount :: int
  mc_last_played :: int
  mc_minbp :: "int option"
  mc_recent_successes :: int
  mc_recent_failures :: int
  mc_recent_played_at :: int
  mc_recent_second_played_at :: int
  mc_recent_bp_rate :: "real option"
  mc_p_complete :: real
  mc_tier :: string
  mc_target :: string
  mc_weakness :: real
  mc_primary_axis :: string
  mc_high_load :: real
  mc_feature_score :: "string \<Rightarrow> real"
  mc_warmup_feature :: "string \<Rightarrow> real option"
  mc_warmup_score :: "string \<Rightarrow> real"
  mc_warmup_load :: real
  mc_chart_seconds :: "real option"
  mc_practice_low :: "bool option"
  mc_classifications :: "classification_row list"

record menu_item =
  mi_sequence :: nat
  mi_sha256 :: string
  mi_mode :: int
  mi_md5 :: "string option"
  mi_title :: string
  mi_artist :: string
  mi_notes :: int
  mi_expected_judged :: int
  mi_category :: string
  mi_table_id :: string
  mi_source_level :: string
  mi_band :: string
  mi_p_complete :: real
  mi_target :: string
  mi_reason :: string
  mi_attempt :: nat
  mi_optional :: bool
  mi_is_exploration :: bool

record session =
  se_menu_date :: string
  se_generated_at :: int
  se_seed :: string
  se_readiness :: string
  se_target_judged :: int
  se_reserve_target :: int
  se_core_expected_judged :: int
  se_reserve_expected_judged :: int
  se_weakness_axes :: "string list"
  se_baseline_judged :: int
  se_import_id :: int
  se_model_version :: int
  se_model_status :: string
  se_table_frontiers :: "frontier list"
  se_table_warnings :: "string list"
  se_warmup_adjustment :: int
  se_queue :: "menu_item list"
  se_personal :: "menu_candidate list"
  se_profile :: profile_context

subsection \<open>Numbers\<close>

text \<open>\<open>round(x)\<close>: to the nearest integer, halves to the even one; and to four decimals.\<close>

definition py_round :: "real \<Rightarrow> int" where
  "py_round x =
     (let f = \<lfloor>x\<rfloor>; d = x - of_int f
      in if d < 1 / 2 then f else if 1 / 2 < d then f + 1 else if even f then f else f + 1)"

definition round4 :: "real \<Rightarrow> real" where
  "round4 x = of_int (py_round (x * 10000)) / 10000"

definition unit_clamp :: "real \<Rightarrow> real" where
  "unit_clamp x = max 0 (min 1 x)"

definition logistic :: "real \<Rightarrow> real" where
  "logistic v = (if 0 \<le> v then 1 / (1 + exp (- v)) else exp v / (1 + exp v))"

definition tier :: "real \<Rightarrow> string" where
  "tier p =
     (if 97 / 100 \<le> p then ''R0 RECOVERY'' else if 90 / 100 \<le> p then ''R1 WARMUP''
      else if 65 / 100 \<le> p then ''R2 GROWTH'' else if 35 / 100 \<le> p then ''R3 CHALLENGE'' else ''R4 FUTURE'')"

definition target_of :: "int \<Rightarrow> real \<Rightarrow> string" where
  "target_of clear p =
     (if clear < 4 then ''EASY''
      else if clear < 6 then (if 95 / 100 \<le> p then ''HARD'' else ''NORMAL'')
      else if clear = 6 then ''EXHARD'' else ''BP / EX'')"

text \<open>The runs of equal values in the sorted pairs of value and index: every index of a run gets the middle position.\<close>

function rank_runs :: "real \<Rightarrow> nat \<Rightarrow> (real \<times> nat) list \<Rightarrow> (nat \<times> real) list" where
  "rank_runs d start [] = []"
| "rank_runs d start ((v, i) # ps) =
     (let run = takeWhile (\<lambda>p. fst p = v) ps;
          stop = start + 1 + length run;
          rank = real (start + stop - 1) / 2 / d
      in map (\<lambda>p. (snd p, rank)) ((v, i) # run) @ rank_runs d stop (dropWhile (\<lambda>p. fst p = v) ps))"
  by pat_completeness auto
termination
  by (relation "measure (\<lambda>(d, start, ps). length ps)") (auto simp: le_imp_less_Suc length_dropWhile_le)

definition optional_percentile_ranks :: "real option list \<Rightarrow> real list" where
  "optional_percentile_ranks vs =
     (let known = List.map_filter (\<lambda>(i, v). map_option (\<lambda>x. (x, i)) v) (enumerate 0 vs);
          ranks = rank_runs (real (max 1 (length known - 1))) 0 (sort known)
      in map (\<lambda>i. case map_of ranks i of Some r \<Rightarrow> r | None \<Rightarrow> 0) [0..<length vs])"

definition percentile_ranks :: "real list \<Rightarrow> real list" where
  "percentile_ranks vs =
     (let ranks = rank_runs (real (max 1 (length vs - 1))) 0 (sort (zip vs [0..<length vs]))
      in map (\<lambda>i. case map_of ranks i of Some r \<Rightarrow> r | None \<Rightarrow> 0) [0..<length vs])"

definition quantile :: "real list \<Rightarrow> real \<Rightarrow> real" where
  "quantile vs fraction =
     (if vs = [] then 0
      else sort vs ! nat (py_round (real (length vs - 1) * unit_clamp fraction)))"

definition optional_number :: "pyfloat option \<Rightarrow> real option" where
  "optional_number v = Option.bind v finite_real"

text \<open>A stored metric, or the ratio of two of them: a zero baseline is only harmless under a zero numerator.\<close>

definition warmup_ratio :: "real option \<Rightarrow> real option \<Rightarrow> real option" where
  "warmup_ratio numerator baseline =
     (case (numerator, baseline) of
        (Some a, Some b) \<Rightarrow> if b \<le> 0 then (if a \<le> 0 then Some 0 else None) else Some (a / b)
      | _ \<Rightarrow> None)"

definition warmup_feature_value :: "candidate_row \<Rightarrow> string \<Rightarrow> real option" where
  "warmup_feature_value r feature =
     (let number = (\<lambda>k. optional_number (q_feature r k)) in
      if feature = ''end_density_ratio'' then warmup_ratio (number ''end_density'') (number ''density_p90'')
      else if feature = ''burst_ratio'' then warmup_ratio (number ''burst_max'') (number ''density_p90'')
      else number feature)"

definition frontier_has_evidence :: "frontier option \<Rightarrow> bool" where
  "frontier_has_evidence f = (case f of None \<Rightarrow> False | Some g \<Rightarrow> 8 \<le> fo_observations g \<and> 3 \<le> fo_hard_clears g)"

definition table_index :: "string \<Rightarrow> nat" where
  "table_index t =
     (case List.find (\<lambda>i. difficulty_tables ! i = t) [0..<length difficulty_tables] of
        Some i \<Rightarrow> i | None \<Rightarrow> length difficulty_tables)"

text \<open>\<open>min(xs, key=f)\<close>: the first of the smallest.\<close>

definition min_by :: "('a \<Rightarrow> 'b :: linorder) \<Rightarrow> 'a list \<Rightarrow> 'a" where
  "min_by f xs = hd (sort_key f xs)"

definition first_seen :: "'a list \<Rightarrow> 'a list" where
  "first_seen xs = rev (remdups (rev xs))"

end
