(* ===== verification/Menu_Load.thy ===== *)
theory Menu_Load
  imports Menu_Data
begin

text \<open>
  \<open>_load_candidates\<close> of \<open>plan/menu.py\<close>: the rows of one chart are grouped, every table's frontier is fitted from the lamps,
  the two weakness axes are chosen, and each chart becomes one candidate with a completion probability. A row of
  the input is one membership of a chart in a table.
\<close>

subsection \<open>Grouping\<close>

definition charts_of :: "candidate_row list \<Rightarrow> string list" where
  "charts_of rs = first_seen (map q_sha256 rs)"

definition memberships :: "candidate_row list \<Rightarrow> string \<Rightarrow> candidate_row list" where
  "memberships rs sha = filter (\<lambda>r. q_sha256 r = sha) rs"

definition base_row :: "candidate_row list \<Rightarrow> string \<Rightarrow> candidate_row" where
  "base_row rs sha = hd (memberships rs sha)"

definition deduped :: "candidate_row list \<Rightarrow> candidate_row list" where
  "deduped rs = map (base_row rs) (charts_of rs)"

definition classification_order :: "classification_row \<Rightarrow> string \<times> string \<times> string \<times> string" where
  "classification_order c = (cl_family c, cl_scale c, cl_level c, cl_source_id c)"

definition classifications_of :: "classification_row list \<Rightarrow> string \<Rightarrow> classification_row list" where
  "classifications_of cls sha = sort_key classification_order (filter (\<lambda>c. cl_sha256 c = Some sha) cls)"

subsection \<open>Frontiers\<close>

text \<open>One observation per played chart and rating, of the level and the lamp of the chart.\<close>

definition chart_observations :: "runtime \<Rightarrow> candidate_row list \<Rightarrow> string \<Rightarrow> string \<Rightarrow> (real \<times> int) list" where
  "chart_observations rt rs table sha =
     (let base = base_row rs sha in
      if q_playcount base \<le> 0 \<or> q_last_played base \<le> 0 then []
      else List.map_filter (\<lambda>(t, level). map_option (\<lambda>l. (l, q_clear base)) (numeric_level rt level))
             (filter (\<lambda>(t, level). t = table)
                (first_seen (map (\<lambda>r. (q_table_id r, q_level r)) (memberships rs sha)))))"

definition table_observations :: "runtime \<Rightarrow> candidate_row list \<Rightarrow> string \<Rightarrow> (real \<times> int) list" where
  "table_observations rt rs table = concat (map (chart_observations rt rs table) (charts_of rs))"

definition outcomes :: "(real \<times> int) list \<Rightarrow> int \<Rightarrow> (real \<times> bool) list" where
  "outcomes obs threshold = map (\<lambda>(l, clear). (l, threshold \<le> clear)) obs"

definition table_frontier :: "runtime \<Rightarrow> candidate_row list \<Rightarrow> string \<Rightarrow> frontier" where
  "table_frontier rt rs table =
     (let obs = table_observations rt rs table;
          hard = fit_difficulty_frontier (outcomes obs 6);
          cleared = filter snd (outcomes obs 6)
      in \<lparr>fo_table_id = table, fo_easy = fit_difficulty_frontier (outcomes obs 4),
          fo_normal = fit_difficulty_frontier (outcomes obs 5), fo_hard = hard,
          fo_warmup_anchor = min (of_int \<lfloor>hard\<rfloor>) (quantile (map fst cleared) (9 / 10)),
          fo_observations = length obs, fo_hard_clears = length cleared\<rparr>)"

definition table_frontiers :: "runtime \<Rightarrow> candidate_row list \<Rightarrow> frontier list" where
  "table_frontiers rt rs =
     map (table_frontier rt rs) (sort_key (\<lambda>t. (table_index t, t)) (first_seen (map q_table_id rs)))"

definition find_frontier :: "frontier list \<Rightarrow> string \<Rightarrow> frontier option" where
  "find_frontier fs t = List.find (\<lambda>f. fo_table_id f = t) fs"

subsection \<open>Weakness\<close>

definition axis_ranks :: "candidate_row list \<Rightarrow> string \<Rightarrow> real list" where
  "axis_ranks rs axis = percentile_ranks (map (\<lambda>r. q_axis r axis) (deduped rs))"

definition feature_ranks :: "candidate_row list \<Rightarrow> string \<Rightarrow> real list" where
  "feature_ranks rs feature =
     optional_percentile_ranks (map (\<lambda>r. warmup_feature_value r feature) (deduped rs))"

definition mean_or_half :: "real list \<Rightarrow> real" where
  "mean_or_half vs = (if vs = [] then 1 / 2 else mean_of vs)"

definition weakness_raw :: "candidate_row list \<Rightarrow> string \<Rightarrow> real" where
  "weakness_raw rs axis =
     (let played = filter (\<lambda>(r, v). 0 < q_playcount r) (zip (deduped rs) (axis_ranks rs axis));
          failed = map snd (filter (\<lambda>(r, v). q_clear r < 4) played);
          cleared = map snd (filter (\<lambda>(r, v). 4 \<le> q_clear r) played)
      in max (1 / 100) (mean_or_half failed - mean_or_half cleared + 1 / 10))"

definition weakness_axes :: "candidate_row list \<Rightarrow> string \<times> string" where
  "weakness_axes rs =
     (let ordered = sort_key (\<lambda>axis. - weakness_raw rs axis) feature_axes in (ordered ! 0, ordered ! 1))"

subsection \<open>Candidates\<close>

definition ratings_of :: "runtime \<Rightarrow> candidate_row list \<Rightarrow> rating list" where
  "ratings_of rt ms =
     map (\<lambda>r. \<lparr>ra_table_id = q_table_id r, ra_source_level = q_level r, ra_level_number = numeric_level rt (q_level r)\<rparr>)
       (sort_key (\<lambda>r. let l = numeric_level rt (q_level r)
           in (table_index (q_table_id r), q_table_id r, l = None, case l of Some v \<Rightarrow> v | None \<Rightarrow> 0)) ms)"

definition reliable :: "frontier list \<Rightarrow> rating \<Rightarrow> bool" where
  "reliable fs r \<longleftrightarrow> ra_level_number r \<noteq> None \<and> frontier_has_evidence (find_frontier fs (ra_table_id r))"

definition primary_rating :: "frontier list \<Rightarrow> rating list \<Rightarrow> rating" where
  "primary_rating fs =
     min_by (\<lambda>r. (\<not> reliable fs r,
        - (case find_frontier fs (ra_table_id r) of Some f \<Rightarrow> int (fo_observations f) | None \<Rightarrow> 0),
        table_index (ra_table_id r), ra_table_id r, ra_level_number r = None,
        case ra_level_number r of Some v \<Rightarrow> v | None \<Rightarrow> 0))"

definition completion_margin :: "frontier list \<Rightarrow> rating \<Rightarrow> real" where
  "completion_margin fs r =
     (case (find_frontier fs (ra_table_id r), ra_level_number r) of
        (Some f, Some level) \<Rightarrow> if reliable fs r then (fo_easy f - level) / (3 / 2) else 0
      | _ \<Rightarrow> 0)"

text \<open>The lamp raises the probability to its floor, repeated failures lower it, and without a reliable frontier an
  uncleared chart stays unproven.\<close>

definition lamp_probability :: "candidate_row \<Rightarrow> real \<Rightarrow> real" where
  "lamp_probability r p =
     (let clear = q_clear r in
      if 7 \<le> clear then max p (99 / 100)
      else if 6 \<le> clear then max p (97 / 100)
      else if 5 \<le> clear then max p (90 / 100)
      else if 4 \<le> clear
        then (if 2 \<le> q_recent_successes r \<and> q_recent_failures r = 0 then max p (88 / 100) else max p (35 / 100))
      else if 2 < q_playcount r then max (3 / 100) (p - 5 / 100)
      else p)"

definition completion_probability ::
    "frontier list \<Rightarrow> model_snapshot option \<Rightarrow> candidate_row \<Rightarrow> rating \<Rightarrow> real" where
  "completion_probability fs model r primary =
     (let margin = completion_margin fs primary;
          start = (if reliable fs primary then logistic margin else unproven_completion);
          modelled = (case predict_snapshot model margin (q_axis r ''density'') (q_model_scratch r) of
             Some p \<Rightarrow> p | None \<Rightarrow> start);
          lamp = lamp_probability r modelled
      in if \<not> reliable fs primary \<and> q_clear r < 4 then min lamp unproven_completion else lamp)"

definition warmup_load_of :: "(string \<Rightarrow> real option) \<Rightarrow> (string \<Rightarrow> real) \<Rightarrow> real" where
  "warmup_load_of feature score =
     (let vs = map (\<lambda>k. if feature k = None then 55 / 100 else score k) warmup_features
      in 65 / 100 * Max (set vs) + 35 / 100 * mean_of vs)"

text \<open>The second axis is the primary one only if it weighs strictly more.\<close>

definition primary_axis_of :: "candidate_row list \<Rightarrow> (string \<Rightarrow> real) \<Rightarrow> string" where
  "primary_axis_of rs score =
     (case weakness_axes rs of (a, b) \<Rightarrow>
        if score a * weakness_raw rs a < score b * weakness_raw rs b then b else a)"

definition weakness_of :: "candidate_row list \<Rightarrow> (string \<Rightarrow> real) \<Rightarrow> real" where
  "weakness_of rs score =
     (case weakness_axes rs of (a, b) \<Rightarrow>
        (score a * weakness_raw rs a + score b * weakness_raw rs b) / (weakness_raw rs a + weakness_raw rs b))"

definition text_or_unknown :: "string option \<Rightarrow> string" where
  "text_or_unknown t = (case t of Some s \<Rightarrow> if s = [] then ''UNKNOWN'' else s | None \<Rightarrow> ''UNKNOWN'')"

definition menu_candidate_of ::
    "runtime \<Rightarrow> candidate_row list \<Rightarrow> model_snapshot option \<Rightarrow> classification_row list \<Rightarrow> nat \<Rightarrow> menu_candidate" where
  "menu_candidate_of rt rs model cls index =
     (let r = deduped rs ! index;
          fs = table_frontiers rt rs;
          ratings = ratings_of rt (memberships rs (q_sha256 r));
          primary = primary_rating fs ratings;
          p = completion_probability fs model r primary;
          score = (\<lambda>axis. axis_ranks rs axis ! index);
          feature = warmup_feature_value r;
          feature_score = (\<lambda>k. feature_ranks rs k ! index)
      in \<lparr>mc_sha256 = q_sha256 r, mc_mode = q_mode r, mc_md5 = q_md5 r, mc_title = text_or_unknown (q_title r),
          mc_artist = text_or_unknown (q_artist r), mc_notes = q_notes r, mc_table_id = ra_table_id primary,
          mc_source_level = ra_source_level primary, mc_level_number = ra_level_number primary, mc_ratings = ratings,
          mc_clear = q_clear r, mc_playcount = q_playcount r, mc_last_played = q_last_played r, mc_minbp = q_minbp r,
          mc_recent_successes = q_recent_successes r, mc_recent_failures = q_recent_failures r,
          mc_recent_played_at = q_recent_played_at r, mc_recent_second_played_at = q_recent_second_played_at r,
          mc_recent_bp_rate = optional_number (q_recent_bp_rate r), mc_p_complete = p, mc_tier = tier p,
          mc_target = target_of (q_clear r) p, mc_weakness = unit_clamp (weakness_of rs score),
          mc_primary_axis = primary_axis_of rs score, mc_high_load = max (score ''density'') (score ''scratch''),
          mc_feature_score = score, mc_warmup_feature = feature, mc_warmup_score = feature_score,
          mc_warmup_load = unit_clamp (warmup_load_of feature feature_score),
          mc_chart_seconds = optional_number (q_chart_seconds r),
          mc_practice_low = map_option (\<lambda>v. v \<noteq> 0) (q_practice_low r),
          mc_classifications = classifications_of cls (q_sha256 r)\<rparr>)"

definition compatible_model :: "model_snapshot option \<Rightarrow> model_snapshot option" where
  "compatible_model model =
     (case model of Some m \<Rightarrow> if ms_feature_names m = feature_names then Some m else None | None \<Rightarrow> None)"

record loaded =
  ld_candidates :: "menu_candidate list"
  ld_axes :: "string \<times> string"
  ld_model_version :: int
  ld_frontiers :: "frontier list"

definition load_candidates ::
    "runtime \<Rightarrow> candidate_row list \<Rightarrow> model_snapshot option \<Rightarrow> classification_row list \<Rightarrow> loaded py" where
  "load_candidates rt rs model cls =
     (if rs = [] then Inl (MenuBuildError ''no owned 7key table entries; refresh and match difficulty tables first'')
      else Inr \<lparr>ld_candidates = map (menu_candidate_of rt rs (compatible_model model) cls) [0..<length (deduped rs)],
                ld_axes = weakness_axes rs,
                ld_model_version = (case compatible_model model of Some m \<Rightarrow> ms_version m | None \<Rightarrow> 0),
                ld_frontiers = table_frontiers rt rs\<rparr>)"

subsection \<open>Weakness by classification\<close>

definition classification_labels :: "menu_candidate \<Rightarrow> string list" where
  "classification_labels c =
     remdups (map (\<lambda>v. ''pattern:'' @ cl_family v @ '':'' @ cl_scale v) (mc_classifications c))"

definition label_outcome :: "menu_candidate list \<Rightarrow> string \<Rightarrow> nat \<times> nat" where
  "label_outcome cs label =
     (let played = filter (\<lambda>c. 0 < mc_playcount c \<and> label \<in> set (classification_labels c)) cs
      in (length (filter (\<lambda>c. mc_clear c < 4) played), length played))"

definition classification_weakness_axes :: "menu_candidate list \<Rightarrow> string list" where
  "classification_weakness_axes cs =
     take 2 (sort_key (\<lambda>label. case label_outcome cs label of (bad, all) \<Rightarrow>
         (- (real bad / real all), - int bad, - int all, label))
       (first_seen (concat (map classification_labels (filter (\<lambda>c. 0 < mc_playcount c) cs)))))"

end
