(* ===== verification/Menu_Select.thy ===== *)
theory Menu_Select
  imports Menu_Load
begin

text \<open>
  The selection half of \<open>plan/menu.py\<close>: candidates are scored, drawn into the categories of the daily menu, and the
  categories are interleaved into the play order. The seeded generator is a record of two operations on an opaque
  state: \<open>random()\<close> and \<open>randrange(n)\<close>.
\<close>

record 's rng =
  rg_seed :: "string \<Rightarrow> 's"
  rg_random :: "'s \<Rightarrow> real \<times> 's"
  rg_below :: "nat \<Rightarrow> 's \<Rightarrow> nat \<times> 's"

text \<open>\<open>randrange(n)\<close> returns a number below \<open>n\<close>.\<close>

definition rng_ok :: "'s rng \<Rightarrow> bool" where
  "rng_ok g \<longleftrightarrow> (\<forall>n s. 0 < n \<longrightarrow> fst (rg_below g n s) < n)"

subsection \<open>Scores and items\<close>

definition expected :: "menu_candidate \<Rightarrow> int" where
  "expected c =
     (let survival = (if 4 \<le> mc_clear c then 1 else max (60 / 100) (min (98 / 100) (mc_p_complete c + 20 / 100)))
      in max 1 (py_round (real_of_int (mc_notes c) * survival)))"

definition utility :: "real \<Rightarrow> int \<Rightarrow> string \<Rightarrow> real \<Rightarrow> menu_candidate \<Rightarrow> real" where
  "utility target_p now readiness noise c =
     (let challenge = 1 - min 1 (\<bar>mc_p_complete c - target_p\<bar> / (55 / 100));
          days = (if mc_last_played c \<noteq> 0 then max 0 (real_of_int (now - mc_last_played c) / 86400) else 0);
          review = min 1 (days / 14);
          information = 4 * mc_p_complete c * (1 - mc_p_complete c);
          novelty = 1 / (1 + real_of_int (mc_playcount c));
          fatigue = mc_high_load c * (if readiness = ''tired'' then 30 / 100 else 8 / 100);
          boredom = min (1 / 4) (real_of_int (mc_playcount c) / 40)
      in 35 / 100 * challenge + 30 / 100 * mc_weakness c + 15 / 100 * review + 10 / 100 * information +
         10 / 100 * novelty - fatigue - boredom + noise * (3 / 100))"

text \<open>The first word of the tier.\<close>

definition band_of :: "string \<Rightarrow> string" where
  "band_of t = takeWhile (\<lambda>c. c \<noteq> CHR '' '') t"

definition to_item ::
    "menu_candidate \<Rightarrow> string \<Rightarrow> string \<Rightarrow> nat \<Rightarrow> bool \<Rightarrow> bool \<Rightarrow> rating option \<Rightarrow> string option \<Rightarrow> string option \<Rightarrow> menu_item" where
  "to_item c category reason attempt optional exploration rating target band =
     (let shown = (case rating of Some r \<Rightarrow> r
         | None \<Rightarrow> \<lparr>ra_table_id = mc_table_id c, ra_source_level = mc_source_level c, ra_level_number = mc_level_number c\<rparr>)
      in \<lparr>mi_sequence = 0, mi_sha256 = mc_sha256 c, mi_mode = mc_mode c, mi_md5 = mc_md5 c, mi_title = mc_title c,
          mi_artist = mc_artist c, mi_notes = mc_notes c, mi_expected_judged = expected c, mi_category = category,
          mi_table_id = ra_table_id shown, mi_source_level = ra_source_level shown,
          mi_band = (case band of Some b \<Rightarrow> b | None \<Rightarrow> band_of (mc_tier c)),
          mi_p_complete = round4 (mc_p_complete c),
          mi_target = (case target of Some t \<Rightarrow> t | None \<Rightarrow> mc_target c), mi_reason = reason,
          mi_attempt = attempt, mi_optional = optional, mi_is_exploration = exploration\<rparr>)"

subsection \<open>Warm-up\<close>

definition has_warmup_evidence :: "int \<Rightarrow> menu_candidate \<Rightarrow> bool" where
  "has_warmup_evidence now c \<longleftrightarrow>
     (6 \<le> mc_clear c \<and> 0 < mc_last_played c) \<or>
     (4 \<le> mc_clear c \<and> 2 \<le> mc_recent_successes c \<and> mc_recent_failures c = 0 \<and> 0 < mc_recent_played_at c \<and>
      0 < mc_recent_second_played_at c \<and> now - mc_recent_second_played_at c \<le> 30 * 86400 \<and>
      (case mc_recent_bp_rate c of None \<Rightarrow> False | Some r \<Rightarrow> r \<le> 5 / 100))"

definition warmup_limits :: "(string \<times> real) list" where
  "warmup_limits =
     [(''density_p90'', 82 / 100), (''end_density'', 85 / 100), (''burst_max'', 88 / 100), (''scratch_rate'', 88 / 100),
      (''scratch_combo_rate'', 85 / 100), (''ln_rate'', 90 / 100), (''soflan_var'', 85 / 100),
      (''soflan_changes'', 85 / 100), (''end_density_ratio'', 85 / 100), (''burst_ratio'', 88 / 100),
      (''micro_rate'', 85 / 100), (''long_jack_rate'', 85 / 100), (''avg_chord'', 90 / 100), (''chord_ge3'', 88 / 100),
      (''grid_bpm'', 88 / 100), (''stream_sec'', 90 / 100), (''last_kill'', 85 / 100)]"

definition raw_limits :: "(string \<times> real) list" where
  "raw_limits =
     [(''stop_count'', 0), (''soflan_changes'', 4), (''end_density_ratio'', 3 / 2), (''burst_ratio'', 18 / 10),
      (''grid_bpm'', 225), (''stream_sec'', 30), (''last_kill'', 13 / 10)]"

definition warmup_features_are_safe :: "string \<Rightarrow> menu_candidate \<Rightarrow> bool" where
  "warmup_features_are_safe readiness c \<longleftrightarrow>
     list_all (\<lambda>k. mc_warmup_feature c k \<noteq> None) core_warmup_features \<and>
     list_all (\<lambda>(k, limit). (case mc_warmup_feature c k of Some v \<Rightarrow> v | None \<Rightarrow> 0) \<le> limit) raw_limits \<and>
     (case mc_chart_seconds c of None \<Rightarrow> True | Some s \<Rightarrow> s \<le> 240) \<and>
     list_all (\<lambda>(k, limit). mc_warmup_score c k < limit) warmup_limits \<and>
     mc_warmup_load c \<le> (if readiness = ''tired'' then 55 / 100 else 68 / 100)"

text \<open>The ratings of a chart inside the band of its table, with the progress through the band.\<close>

definition allowed_ratings :: "frontier list \<Rightarrow> int \<Rightarrow> menu_candidate \<Rightarrow> (rating \<times> frontier \<times> real) list" where
  "allowed_ratings fs shift c =
     List.map_filter (\<lambda>r.
       case (ra_level_number r, find_frontier fs (ra_table_id r)) of
         (Some level, Some f) \<Rightarrow>
           (let upper = fo_warmup_anchor f + of_int shift; lower = upper - 2 in
            if ra_table_id r \<in> set difficulty_tables \<and> frontier_has_evidence (Some f) \<and> lower \<le> level \<and> level \<le> upper
            then Some (r, f, unit_clamp ((level - lower) / 2)) else None)
       | _ \<Rightarrow> None) (mc_ratings c)"

definition warmup_eligible ::
    "frontier list \<Rightarrow> int \<Rightarrow> string \<Rightarrow> int \<Rightarrow> string set \<Rightarrow> menu_candidate list \<Rightarrow> (menu_candidate \<times> rating \<times> real) list" where
  "warmup_eligible fs shift readiness now used cs =
     List.map_filter (\<lambda>c.
       if mc_sha256 c \<in> used \<or> \<not> has_warmup_evidence now c \<or> \<not> warmup_features_are_safe readiness c then None
       else
         let allowed = allowed_ratings fs shift c in
         if allowed = [] then None
         else case min_by (\<lambda>(r, f, progress). (- int (fo_observations f), \<bar>progress - 1 / 2\<bar>, ra_table_id r)) allowed of
                (r, f, progress) \<Rightarrow> Some (c, r, progress)) cs"

definition warmup_cost :: "real \<Rightarrow> real \<Rightarrow> menu_candidate \<times> rating \<times> real \<Rightarrow> real" where
  "warmup_cost target noise = (\<lambda>(c, r, progress).
     1 / 2 * \<bar>progress - target\<bar> + 35 / 100 * mc_warmup_load c +
     10 / 100 * min 1 ((case mc_chart_seconds c of Some s \<Rightarrow> if s = 0 then 120 else s | None \<Rightarrow> 120) / 240) -
     (if mc_practice_low c = Some True then 8 / 100 else 0) -
     min (5 / 100) (real_of_int (mc_playcount c) / 200) + noise * (1 / 100))"

text \<open>One number of the generator per element, left to right.\<close>

fun draws :: "'s rng \<Rightarrow> 'a list \<Rightarrow> 's \<Rightarrow> (real \<times> 'a) list \<times> 's" where
  "draws g [] s = ([], s)"
| "draws g (x # xs) s =
     (let (u, s1) = rg_random g s; (ys, s2) = draws g xs s1 in ((u, x) # ys, s2))"

text \<open>At most four charts, until the quota is reached; \<open>n\<close> counts the ones still allowed.\<close>

fun warmup_loop ::
    "'s rng \<Rightarrow> int \<Rightarrow> nat \<Rightarrow> nat \<Rightarrow> int \<Rightarrow> (menu_candidate \<times> rating \<times> real) list \<Rightarrow> 's \<Rightarrow>
       (menu_candidate \<times> rating \<times> real) list \<times> 's" where
  "warmup_loop g limit 0 picked acc eligible s = ([], s)"
| "warmup_loop g limit (Suc n) picked acc eligible s =
     (if eligible = [] \<or> limit \<le> acc then ([], s)
      else
        let (drawn, s1) = draws g eligible s;
            choice = snd (min_by (\<lambda>(u, x). (warmup_cost (real picked / 3) u x, mc_sha256 (fst x))) drawn);
            (rest, s2) = warmup_loop g limit n (picked + 1) (acc + expected (fst choice))
              (filter (\<lambda>x. mc_sha256 (fst x) \<noteq> mc_sha256 (fst choice)) eligible) s1
        in (choice # rest, s2))"

definition select_warmup ::
    "'s rng \<Rightarrow> frontier list \<Rightarrow> int \<Rightarrow> string \<Rightarrow> int \<Rightarrow> menu_candidate list \<Rightarrow> string set \<times> 's \<Rightarrow>
       menu_item list \<times> string set \<times> 's" where
  "select_warmup g fs now readiness adjustment cs = (\<lambda>(used, s).
     let shift = adjustment - (if readiness = ''tired'' then 1 else 0);
         (picked, s') = warmup_loop g (quota ''01 WARMUP'') 4 0 0 (warmup_eligible fs shift readiness now used cs) s;
         ordered = sort_key (\<lambda>(c, r, progress). (75 / 100 * progress + 25 / 100 * mc_warmup_load c, mc_sha256 c)) picked
     in (map (\<lambda>(c, r, progress). to_item c ''01 WARMUP''
               (ra_table_id r @ '' '' @ ra_source_level r @ '' / familiar low-load'') 1 False False
               (Some r) (Some ''COMFORT'') (Some ''WARMUP'')) ordered,
         used \<union> mc_sha256 ` fst ` set ordered, s'))"

subsection \<open>The other categories\<close>

record selection =
  sl_category :: string
  sl_quota :: int
  sl_target_p :: real
  sl_predicate :: "menu_candidate \<Rightarrow> bool"
  sl_attempts :: nat
  sl_optional :: bool
  sl_fallback :: bool

definition selectable :: "string \<Rightarrow> string set \<Rightarrow> menu_candidate \<Rightarrow> bool" where
  "selectable readiness used c \<longleftrightarrow>
     mc_sha256 c \<notin> used \<and> mc_tier c \<noteq> ''R4 FUTURE'' \<and> \<not> (readiness = ''tired'' \<and> 80 / 100 \<le> mc_high_load c)"

definition eligible_candidates :: "selection \<Rightarrow> string \<Rightarrow> string set \<Rightarrow> menu_candidate list \<Rightarrow> menu_candidate list" where
  "eligible_candidates sel readiness used cs =
     (let matching = filter (\<lambda>c. selectable readiness used c \<and> sl_predicate sel c) cs
      in if matching = [] \<and> sl_fallback sel then filter (selectable readiness used) cs else matching)"

text \<open>\<open>sort(key, reverse=True)\<close> is stable, like sorting by the negated key.\<close>

definition ranked :: "'s rng \<Rightarrow> selection \<Rightarrow> int \<Rightarrow> string \<Rightarrow> menu_candidate list \<Rightarrow> 's \<Rightarrow> menu_candidate list \<times> 's" where
  "ranked g sel now readiness cs s =
     (let (drawn, s1) = draws g cs s
      in (map snd (sort_key (\<lambda>(u, c). - utility (sl_target_p sel) now readiness u c) drawn), s1))"

definition chart_items :: "selection \<Rightarrow> bool \<Rightarrow> menu_candidate \<Rightarrow> menu_item list" where
  "chart_items sel exploration c =
     map (\<lambda>attempt. to_item c (sl_category sel) (mc_primary_axis c @ '' / '' @ mc_tier c) attempt (sl_optional sel)
       exploration None None None) [1..<Suc (sl_attempts sel)]"

text \<open>Every fifth pick is drawn among the ten best that remain; \<open>n\<close> bounds the picks by the number of charts.\<close>

fun pick_loop ::
    "'s rng \<Rightarrow> selection \<Rightarrow> nat \<Rightarrow> nat \<Rightarrow> int \<Rightarrow> menu_candidate list \<Rightarrow> 's \<Rightarrow> (bool \<times> menu_candidate) list \<times> 's" where
  "pick_loop g sel 0 k acc eligible s = ([], s)"
| "pick_loop g sel (Suc n) k acc eligible s =
     (if eligible = [] then ([], s)
      else
        let exploration = (k mod 5 = 4 \<and> 1 < length eligible);
            (pick, s1) = (if exploration then rg_below g (min 10 (length eligible)) s else (0, s));
            c = eligible ! pick;
            acc' = acc + int (sl_attempts sel) * expected c
        in if sl_quota sel \<le> acc' then ([(exploration, c)], s1)
           else
             let (rest, s2) = pick_loop g sel n (k + 1) acc' (take pick eligible @ drop (Suc pick) eligible) s1
             in ((exploration, c) # rest, s2))"

definition picks ::
    "'s rng \<Rightarrow> int \<Rightarrow> string \<Rightarrow> menu_candidate list \<Rightarrow> selection \<Rightarrow> string set \<times> 's \<Rightarrow>
       (bool \<times> menu_candidate) list \<times> 's" where
  "picks g now readiness cs sel = (\<lambda>(used, s).
     let (ordered, s1) = ranked g sel now readiness (eligible_candidates sel readiness used cs) s
     in pick_loop g sel (length ordered) 0 0 ordered s1)"

definition select ::
    "'s rng \<Rightarrow> int \<Rightarrow> string \<Rightarrow> menu_candidate list \<Rightarrow> selection \<Rightarrow> string set \<times> 's \<Rightarrow>
       menu_item list \<times> string set \<times> 's" where
  "select g now readiness cs sel = (\<lambda>(used, s).
     let (picked, s') = picks g now readiness cs sel (used, s)
     in (concat (map (\<lambda>(exploration, c). chart_items sel exploration c) picked),
         used \<union> mc_sha256 ` snd ` set picked, s'))"

subsection \<open>Play order\<close>

text \<open>The focus charts in groups of four, each group followed by its repeats; a short last group is filled up.\<close>

function order_groups :: "(string \<Rightarrow> menu_item option) \<Rightarrow> menu_item list \<Rightarrow> menu_item list \<Rightarrow> menu_item list" where
  "order_groups repeats focus fillers =
     (if focus = [] then fillers
      else
        let chunk = take 4 focus; k = 4 - length chunk
        in chunk @ take k fillers @ List.map_filter (\<lambda>i. repeats (mi_sha256 i)) chunk @
           order_groups repeats (drop 4 focus) (drop k fillers))"
  by pat_completeness auto
termination
  by (relation "measure (\<lambda>(r, focus, f). length focus)") auto

declare order_groups.simps [simp del]

definition order_menu :: "(string \<Rightarrow> menu_item list) \<Rightarrow> menu_item list" where
  "order_menu core =
     (let focus = core ''02 FOCUS-A'' @ core ''04 FOCUS-B'';
          repeats = map_of (rev (map (\<lambda>i. (mi_sha256 i, i)) (filter (\<lambda>i. mi_attempt i \<noteq> 1) focus)));
          fillers = core ''03 TRANSFER-A'' @ core ''05 TRANSFER-B'' @ core ''06 LAMP'' @ core ''07 REVIEW'' @ core ''08 PROBE''
      in core ''01 WARMUP'' @ order_groups repeats (filter (\<lambda>i. mi_attempt i = 1) focus) fillers)"

end
