(* ===== verification/Menu_Session.thy ===== *)
theory Menu_Session
  imports Menu_Select
begin

text \<open>
  \<open>build_session_from_input\<close> of \<open>plan/menu.py\<close>: the settings of the request are merged over those of the profile, the seed
  is derived, the categories are drawn in a fixed order from the charts not used yet, and the queue is numbered.
  The calendar (the offset of a zone at an instant, the rendering of a day, the validation of a date) is the record
  \<open>calendar\<close>; the number formatting of \<open>str\<close> is \<open>show_int\<close>.
\<close>

record calendar =
  cal_zone_ok :: "string \<Rightarrow> bool"
  cal_offset :: "string \<Rightarrow> int \<Rightarrow> int"
  cal_render :: "int \<Rightarrow> string"
  cal_valid :: "string \<Rightarrow> bool"

subsection \<open>Training days\<close>

text \<open>The day, counted from 1970-01-01, that changes at 04:00 local time.\<close>

definition training_day :: "calendar \<Rightarrow> int \<Rightarrow> string \<Rightarrow> int" where
  "training_day cal moment zone =
     (let local_time = moment + cal_offset cal zone moment;
          day = local_time div 86400
      in if 4 * 3600 \<le> local_time mod 86400 then day else day - 1)"

definition next_training_date :: "calendar \<Rightarrow> int \<Rightarrow> profile_context \<Rightarrow> int" where
  "next_training_date cal moment p = training_day cal moment (pc_timezone p) + 1"

subsection \<open>Warnings\<close>

definition evidence_suffix :: "frontier option \<Rightarrow> string" where
  "evidence_suffix f =
     ''('' @ show_nat (case f of None \<Rightarrow> 0 | Some g \<Rightarrow> fo_observations g) @ '' observations, '' @
     show_nat (case f of None \<Rightarrow> 0 | Some g \<Rightarrow> fo_hard_clears g) @ '' HARD+)''"

definition or_zero :: "int option \<Rightarrow> int" where
  "or_zero v = (case v of None \<Rightarrow> 0 | Some n \<Rightarrow> n)"

definition table_warning ::
    "table_source_row list \<Rightarrow> string set \<Rightarrow> frontier list \<Rightarrow> string \<Rightarrow> string list" where
  "table_warning sources matched fs t =
     (case map_of (rev (map (\<lambda>s. (tb_table_id s, s)) sources)) t of
        None \<Rightarrow> [t @ '': difficulty table has not been refreshed'']
      | Some s \<Rightarrow>
          (case tb_last_error s of
             Some e \<Rightarrow> if e = [] then [] else [t @ '': refresh failed ('' @ e @ '')'']
           | None \<Rightarrow> []) @
          (if tb_last_error s \<noteq> None \<and> tb_last_error s \<noteq> Some [] then []
           else
             let entries = or_zero (tb_entry_count s); found = or_zero (tb_matched_count s) in
             if t \<notin> matched \<and> found = 0
             then [t @ '': no owned charts matched'' @ (if entries \<noteq> 0 then '' (0/'' @ show_int entries @ '')'' else [])]
             else
               (if 0 < entries \<and> tb_matched_count s \<noteq> None \<and>
                   (found < 8 \<or> real_of_int found / real_of_int entries < 80 / 100)
                then [t @ '': low owned-chart match coverage ('' @ show_int found @ ''/'' @ show_int entries @ '')'']
                else []) @
               (if frontier_has_evidence (find_frontier fs t) then []
                else [t @ '': insufficient lamp evidence for challenge/warmup classification '' @
                        evidence_suffix (find_frontier fs t) @ ''; unproven charts stay in R4 FUTURE''])))"

definition table_warnings :: "table_source_row list \<Rightarrow> menu_candidate list \<Rightarrow> frontier list \<Rightarrow> string list" where
  "table_warnings sources cs fs =
     (let matched = ra_table_id ` set (concat (map mc_ratings cs));
          missing = length (filter (\<lambda>c. list_ex (\<lambda>k. mc_warmup_feature c k = None) pattern_warmup_features) cs)
      in (if missing \<noteq> 0
          then [''warmup: optional pattern analysis missing for '' @ show_nat missing @
                '' owned charts; conservative load penalty applied'']
          else []) @
         concat (map (table_warning sources matched fs) difficulty_tables))"

subsection \<open>The selections of a menu\<close>

definition tired_shift :: "string \<Rightarrow> real" where
  "tired_shift readiness = (if readiness = ''tired'' then 8 / 100 else 0)"

definition focus_selection :: "string \<Rightarrow> string \<Rightarrow> string \<Rightarrow> selection" where
  "focus_selection readiness category axis =
     \<lparr>sl_category = category, sl_quota = quota category, sl_target_p = 77 / 100 + tired_shift readiness,
      sl_predicate = (\<lambda>c. mc_primary_axis c = axis \<and> 62 / 100 \<le> mc_p_complete c \<and> mc_p_complete c \<le> 92 / 100),
      sl_attempts = 2, sl_optional = False, sl_fallback = True\<rparr>"

definition transfer_selection :: "string \<Rightarrow> string \<Rightarrow> string \<Rightarrow> selection" where
  "transfer_selection readiness category axis =
     \<lparr>sl_category = category, sl_quota = quota category, sl_target_p = 70 / 100 + tired_shift readiness,
      sl_predicate = (\<lambda>c. mc_primary_axis c = axis \<and> mc_playcount c \<le> 1 \<and>
        50 / 100 \<le> mc_p_complete c \<and> mc_p_complete c \<le> 90 / 100),
      sl_attempts = 1, sl_optional = False, sl_fallback = True\<rparr>"

definition lamp_selection :: "string \<Rightarrow> selection" where
  "lamp_selection readiness =
     \<lparr>sl_category = ''06 LAMP'', sl_quota = py_round (real_of_int (quota ''06 LAMP'') * (3 / 4)),
      sl_target_p = 55 / 100 + tired_shift readiness,
      sl_predicate = (\<lambda>c. mc_clear c < 4 \<and> 30 / 100 \<le> mc_p_complete c \<and> mc_p_complete c \<le> 78 / 100),
      sl_attempts = 1, sl_optional = False, sl_fallback = False\<rparr>"

definition upgrade_selection :: selection where
  "upgrade_selection =
     \<lparr>sl_category = ''06 LAMP'', sl_quota = quota ''06 LAMP'' - py_round (real_of_int (quota ''06 LAMP'') * (3 / 4)),
      sl_target_p = 97 / 100, sl_predicate = (\<lambda>c. mc_clear c \<in> {4, 5} \<and> 95 / 100 \<le> mc_p_complete c),
      sl_attempts = 1, sl_optional = False, sl_fallback = False\<rparr>"

definition review_selection :: "string \<Rightarrow> int \<Rightarrow> selection" where
  "review_selection readiness now =
     \<lparr>sl_category = ''07 REVIEW'', sl_quota = quota ''07 REVIEW'', sl_target_p = 85 / 100 + tired_shift readiness,
      sl_predicate = (\<lambda>c. 0 < mc_last_played c \<and> 3 * 86400 \<le> now - mc_last_played c),
      sl_attempts = 1, sl_optional = False, sl_fallback = False\<rparr>"

definition probe_selection :: "string \<Rightarrow> selection" where
  "probe_selection readiness =
     \<lparr>sl_category = ''08 PROBE'', sl_quota = quota ''08 PROBE'', sl_target_p = 82 / 100 + tired_shift readiness,
      sl_predicate = (\<lambda>c. 70 / 100 \<le> mc_p_complete c \<and> mc_p_complete c \<le> 95 / 100),
      sl_attempts = 1, sl_optional = False, sl_fallback = True\<rparr>"

definition supplement_selection :: "string \<Rightarrow> int \<Rightarrow> selection" where
  "supplement_selection readiness missing =
     \<lparr>sl_category = ''05 TRANSFER-B'', sl_quota = missing, sl_target_p = 75 / 100 + tired_shift readiness,
      sl_predicate = (\<lambda>c. True), sl_attempts = 1, sl_optional = False, sl_fallback = True\<rparr>"

definition reserve_selection :: "string \<Rightarrow> int \<Rightarrow> selection" where
  "reserve_selection readiness reserve_judged =
     \<lparr>sl_category = ''09 RESERVE'', sl_quota = reserve_judged, sl_target_p = 88 / 100 + tired_shift readiness,
      sl_predicate = (\<lambda>c. 65 / 100 \<le> mc_p_complete c), sl_attempts = 1, sl_optional = True, sl_fallback = True\<rparr>"

definition core_selections :: "string \<Rightarrow> int \<Rightarrow> string \<times> string \<Rightarrow> selection list" where
  "core_selections readiness now axes =
     [focus_selection readiness ''02 FOCUS-A'' (fst axes), focus_selection readiness ''04 FOCUS-B'' (snd axes),
      transfer_selection readiness ''03 TRANSFER-A'' (fst axes),
      transfer_selection readiness ''05 TRANSFER-B'' (snd axes),
      lamp_selection readiness, upgrade_selection, review_selection readiness now, probe_selection readiness]"

text \<open>Selections run one after the other on the charts that are left; two selections of one category add up.\<close>

fun run_selections ::
    "'s rng \<Rightarrow> int \<Rightarrow> string \<Rightarrow> menu_candidate list \<Rightarrow> selection list \<Rightarrow> string set \<times> 's \<Rightarrow>
       menu_item list \<times> string set \<times> 's" where
  "run_selections g now readiness cs [] st = ([], st)"
| "run_selections g now readiness cs (sel # sels) st =
     (let (items, st1) = select g now readiness cs sel st;
          (rest, st2) = run_selections g now readiness cs sels st1
      in (items @ rest, st2))"

definition expected_total :: "menu_item list \<Rightarrow> int" where
  "expected_total items = sum_list (map mi_expected_judged items)"

definition renumber :: "menu_item list \<Rightarrow> menu_item list" where
  "renumber items = map (\<lambda>(n, i). i\<lparr>mi_sequence := n\<rparr>) (enumerate 1 items)"

record menu_plan =
  pn_core :: "menu_item list"
  pn_supplement :: "menu_item list"
  pn_reserve :: "menu_item list"

definition plan_menu ::
    "'s rng \<Rightarrow> int \<Rightarrow> profile_settings \<Rightarrow> int \<Rightarrow> loaded \<Rightarrow> 's \<Rightarrow> menu_plan" where
  "plan_menu g now settings adjustment ld s =
     (let readiness = ps_readiness settings; cs = ld_candidates ld;
          (warmup, st0) = select_warmup g (ld_frontiers ld) now readiness adjustment cs ({}, s);
          (items, st1) = run_selections g now readiness cs (core_selections readiness now (ld_axes ld)) st0;
          core = order_menu (\<lambda>category. filter (\<lambda>i. mi_category i = category) (warmup @ items));
          missing = ps_target_judged settings - expected_total core;
          (supplement, st2) =
            (if 0 < missing then select g now readiness cs (supplement_selection readiness missing) st1 else ([], st1));
          (reserve, st3) = select g now readiness cs (reserve_selection readiness (ps_reserve_judged settings)) st2
      in \<lparr>pn_core = core, pn_supplement = supplement, pn_reserve = reserve\<rparr>)"

subsection \<open>Building a session\<close>

record request =
  rq_menu_date :: "string option"
  rq_readiness :: "string option"
  rq_target_judged :: "int option"
  rq_reserve_judged :: "int option"

definition effective_settings :: "calendar \<Rightarrow> profile_context \<Rightarrow> request \<Rightarrow> profile_settings py" where
  "effective_settings cal p q =
     py_bind
       (case pc_settings p of
          Some s \<Rightarrow> Inr s
        | None \<Rightarrow> check_profile_settings (cal_zone_ok cal)
            \<lparr>ps_timezone = pc_timezone p, ps_target_judged = pc_target_judged p,
             ps_reserve_judged = pc_reserve_judged p, ps_readiness = pc_readiness p\<rparr>) (\<lambda>s.
     check_profile_settings (cal_zone_ok cal)
       \<lparr>ps_timezone = ps_timezone s,
        ps_target_judged = (case rq_target_judged q of None \<Rightarrow> ps_target_judged s | Some v \<Rightarrow> v),
        ps_reserve_judged = (case rq_reserve_judged q of None \<Rightarrow> ps_reserve_judged s | Some v \<Rightarrow> v),
        ps_readiness = (case rq_readiness q of None \<Rightarrow> ps_readiness s | Some v \<Rightarrow> v)\<rparr>)"

definition effective_profile :: "calendar \<Rightarrow> profile_context \<Rightarrow> profile_settings \<Rightarrow> profile_context py" where
  "effective_profile cal p s =
     check_profile_context (cal_zone_ok cal)
       (default_profile_context\<lparr>pc_profile_id := pc_profile_id p, pc_display_name := pc_display_name p,
          pc_timezone := ps_timezone s, pc_seed_namespace := pc_seed_namespace p, pc_settings := Some s\<rparr>)"

definition seed_text :: "profile_context \<Rightarrow> string \<Rightarrow> int \<Rightarrow> int \<Rightarrow> profile_settings \<Rightarrow> int \<Rightarrow> string" where
  "seed_text p menu_date import_id model_version s adjustment =
     deterministic_namespace p @ '':'' @ menu_date @ '':'' @ show_int import_id @ '':'' @ show_int model_version @ '':'' @
     ps_readiness s @ '':'' @ show_int (ps_target_judged s) @ '':'' @ show_int (ps_reserve_judged s) @ '':'' @
     show_int adjustment"

definition personal_order :: "menu_candidate \<Rightarrow> real \<times> string" where
  "personal_order c = (- mc_p_complete c, mc_title c)"

definition build_session_from_input ::
    "runtime \<Rightarrow> calendar \<Rightarrow> 's rng \<Rightarrow> recommendation_input \<Rightarrow> request \<Rightarrow> int \<Rightarrow> session py" where
  "build_session_from_input rt cal g input q now =
     py_bind (effective_settings cal (ri_profile input) q) (\<lambda>settings.
     py_bind (effective_profile cal (ri_profile input) settings) (\<lambda>p.
     let menu_date = (case rq_menu_date q of None \<Rightarrow> cal_render cal (next_training_date cal now p) | Some d \<Rightarrow> d) in
     py_bind (raise_if (\<not> cal_valid cal menu_date) (ValueError ''time data does not match format'')) (\<lambda>_.
     py_bind (raise_if (ri_import_id input \<le> 0)
       (MenuBuildError ''ingest a daily score/scoredatalog snapshot first'')) (\<lambda>_.
     py_bind (load_candidates rt (ri_candidates input) (ri_model input) (ri_classifications input)) (\<lambda>ld.
       let seed = take 16 (sha256_hex rt (seed_text p menu_date (ri_import_id input) (ld_model_version ld) settings
                    (ri_warmup_adjustment input)));
           pn = plan_menu g now settings (ri_warmup_adjustment input) ld (rg_seed g seed);
           warned = table_warnings (ri_table_sources input) (ld_candidates ld) (ld_frontiers ld)
       in Inr \<lparr>se_menu_date = menu_date, se_generated_at = now, se_seed = seed, se_readiness = ps_readiness settings,
               se_target_judged = ps_target_judged settings, se_reserve_target = ps_reserve_judged settings,
               se_core_expected_judged = expected_total (pn_core pn) + expected_total (pn_supplement pn),
               se_reserve_expected_judged = expected_total (pn_reserve pn),
               se_weakness_axes = [fst (ld_axes ld), snd (ld_axes ld)] @ classification_weakness_axes (ld_candidates ld),
               se_baseline_judged = ri_baseline_judged input, se_import_id = ri_import_id input,
               se_model_version = ld_model_version ld,
               se_model_status = (if ld_model_version ld \<noteq> 0 then ''validated_model'' else ''cold_start''),
               se_table_frontiers = ld_frontiers ld,
               se_table_warnings = warned @
                 (if filter (\<lambda>i. mi_category i = ''01 WARMUP'') (pn_core pn) = []
                  then [''warmup: no chart met safe lamp-evidence and feature criteria''] else []),
               se_warmup_adjustment = ri_warmup_adjustment input,
               se_queue = renumber (pn_core pn @ pn_supplement pn @ pn_reserve pn),
               se_personal = sort_key personal_order (ld_candidates ld), se_profile = p\<rparr>)))))"

end
