(* ===== verification/Menu_Proofs.thy ===== *)
theory Menu_Proofs
  imports Menu_Session "HOL-Library.Multiset"
begin

text \<open>
  What the daily menu promises: every chart is used by one selection only, nothing that was drawn is lost by the play
  order, repeats keep their distance, the selections stop at their quota, and the totals of the session are those of
  its queue.
\<close>

subsection \<open>Drawing\<close>

lemma draws_map: "map snd (fst (draws g xs s)) = xs"
proof (induction xs arbitrary: s)
  case (Cons x xs)
  obtain u s1 ys s2 where "rg_random g s = (u, s1)" "draws g xs s1 = (ys, s2)" by (meson surj_pair)
  then show ?case using Cons[of s1] by simp
qed simp

lemma ranked_mset: "mset (fst (ranked g sel now readiness cs s)) = mset cs"
proof -
  obtain drawn s1 where d: "draws g cs s = (drawn, s1)" by fastforce
  then have "map snd drawn = cs" using draws_map[of g cs s] by simp
  then show ?thesis by (auto simp: ranked_def d)
qed

text \<open>The charts that were picked, their number of attempts, and what they are expected to cost.\<close>

abbreviation pick_shas :: "(bool \<times> menu_candidate) list \<Rightarrow> string list" where
  "pick_shas ps \<equiv> map (\<lambda>p. mc_sha256 (snd p)) ps"

definition pick_cost :: "selection \<Rightarrow> (bool \<times> menu_candidate) list \<Rightarrow> int" where
  "pick_cost sel ps = sum_list (map (\<lambda>p. int (sl_attempts sel) * expected (snd p)) ps)"

lemma remove_nth_set: "k < length xs \<Longrightarrow> distinct (map f xs) \<Longrightarrow>
    set (take k xs @ drop (Suc k) xs) \<subseteq> set xs \<and> f (xs ! k) \<notin> f ` set (take k xs @ drop (Suc k) xs) \<and>
    distinct (map f (take k xs @ drop (Suc k) xs)) \<and> set xs = insert (xs ! k) (set (take k xs @ drop (Suc k) xs))"
proof -
  assume k: "k < length xs" and d: "distinct (map f xs)"
  have xs: "xs = take k xs @ xs ! k # drop (Suc k) xs" using k by (rule id_take_nth_drop)
  then have "distinct (map f (take k xs @ xs ! k # drop (Suc k) xs))" using d by simp
  moreover have "set xs = set (take k xs @ xs ! k # drop (Suc k) xs)" using xs by simp
  ultimately show ?thesis by auto
qed

definition picks_ok :: "selection \<Rightarrow> int \<Rightarrow> menu_candidate list \<Rightarrow> (bool \<times> menu_candidate) list \<Rightarrow> bool" where
  "picks_ok sel acc eligible ps \<longleftrightarrow>
     snd ` set ps \<subseteq> set eligible \<and> distinct (pick_shas ps) \<and>
     (ps \<noteq> [] \<longrightarrow> butlast ps = [] \<or> acc + pick_cost sel (butlast ps) < sl_quota sel) \<and>
     (sl_quota sel \<le> acc + pick_cost sel ps \<or> snd ` set ps = set eligible)"

lemma pick_loop_step:
  assumes "eligible \<noteq> []"
    and "(if k mod 5 = 4 \<and> 1 < length eligible then rg_below g (min 10 (length eligible)) s else (0, s)) = (pick, s1)"
  shows "pick_loop g sel (Suc n) k acc eligible s =
     (if sl_quota sel \<le> acc + int (sl_attempts sel) * expected (eligible ! pick)
      then ([(k mod 5 = 4 \<and> 1 < length eligible, eligible ! pick)], s1)
      else
        let (rest, s2) = pick_loop g sel n (k + 1) (acc + int (sl_attempts sel) * expected (eligible ! pick))
              (take pick eligible @ drop (Suc pick) eligible) s1
        in ((k mod 5 = 4 \<and> 1 < length eligible, eligible ! pick) # rest, s2))"
  by (simp only: pick_loop.simps Let_def assms if_False prod.case)

lemma pick_loop_ok:
  assumes "rng_ok g" and "length eligible \<le> n" and "distinct (map mc_sha256 eligible)"
  shows "picks_ok sel acc eligible (fst (pick_loop g sel n k acc eligible s))"
  using assms(2,3)
proof (induction n arbitrary: k acc eligible s)
  case 0
  then show ?case by (simp add: picks_ok_def)
next
  case (Suc n)
  show ?case
  proof (cases "eligible = []")
    case True
    then show ?thesis by (simp add: picks_ok_def)
  next
    case False
    define explore where "explore \<longleftrightarrow> k mod 5 = 4 \<and> 1 < length eligible"
    obtain pick s1 where draw: "(if explore then rg_below g (min 10 (length eligible)) s else (0, s)) = (pick, s1)" by fastforce
    have pick: "pick < length eligible"
    proof (cases explore)
      case True
      have "fst (rg_below g (min 10 (length eligible)) s) < min 10 (length eligible)"
        using assms(1) False unfolding rng_ok_def by (metis length_greater_0_conv min_less_iff_conj zero_less_numeral)
      then show ?thesis using draw True by simp
    qed (use draw False in auto)
    let ?c = "eligible ! pick" and ?left = "take pick eligible @ drop (Suc pick) eligible"
    let ?acc = "acc + int (sl_attempts sel) * expected ?c"
    note nth = remove_nth_set[OF pick Suc.prems(2)]
    show ?thesis
    proof (cases "sl_quota sel \<le> ?acc")
      case True
      then have "fst (pick_loop g sel (Suc n) k acc eligible s) = [(explore, ?c)]"
        by (simp only: pick_loop_step[OF False draw[unfolded explore_def]] explore_def if_True fst_conv)
      then show ?thesis using True pick by (simp add: picks_ok_def pick_cost_def)
    next
      case more: False
      obtain rest s2 where rest: "pick_loop g sel n (k + 1) ?acc ?left s1 = (rest, s2)" by fastforce
      have run: "fst (pick_loop g sel (Suc n) k acc eligible s) = (explore, ?c) # rest"
        by (simp only: pick_loop_step[OF False draw[unfolded explore_def]] explore_def more if_False rest Let_def
            prod.case fst_conv)
      have len: "length ?left \<le> n" using pick Suc.prems(1) by simp
      have dist: "distinct (map mc_sha256 ?left)" and fresh: "mc_sha256 ?c \<notin> mc_sha256 ` set ?left"
        and all: "set eligible = insert ?c (set ?left)" using nth by blast+
      have IH: "picks_ok sel ?acc ?left rest" using Suc.IH[OF len dist, of ?acc "k + 1" s1] unfolding rest fst_conv .
      have sub: "snd ` set rest \<subseteq> set ?left" and d: "distinct (pick_shas rest)"
        and before: "rest \<noteq> [] \<longrightarrow> butlast rest = [] \<or> ?acc + pick_cost sel (butlast rest) < sl_quota sel"
        and after: "sl_quota sel \<le> ?acc + pick_cost sel rest \<or> snd ` set rest = set ?left"
        using IH unfolding picks_ok_def by blast+
      have "set (pick_shas rest) \<subseteq> mc_sha256 ` set ?left" using sub by (simp add: image_image[symmetric] image_mono)
      then have "mc_sha256 ?c \<notin> set (pick_shas rest)" using fresh by blast
      moreover have "snd ` set ((explore, ?c) # rest) \<subseteq> set eligible" unfolding all using sub by (simp add: subset_insertI2)
      moreover have "butlast ((explore, ?c) # rest) = [] \<or> acc + pick_cost sel (butlast ((explore, ?c) # rest)) < sl_quota sel"
      proof (cases "butlast rest = []")
        case True
        then show ?thesis using more by (simp add: pick_cost_def)
      next
        case False
        then have "rest \<noteq> []" by auto
        then show ?thesis using before False by (simp add: pick_cost_def)
      qed
      moreover have "sl_quota sel \<le> acc + pick_cost sel ((explore, ?c) # rest) \<or> snd ` set ((explore, ?c) # rest) = set eligible"
        using after unfolding all by (auto simp add: pick_cost_def)
      ultimately show ?thesis unfolding run picks_ok_def using d by simp
    qed
  qed
qed

lemma distinct_eligible: "distinct (map mc_sha256 cs) \<Longrightarrow> distinct (map mc_sha256 (eligible_candidates sel readiness used cs))"
  by (simp add: eligible_candidates_def Let_def distinct_map_filter)

lemma picks_sound:
  assumes "rng_ok g" and "distinct (map mc_sha256 cs)"
  shows "picks_ok sel 0 (eligible_candidates sel readiness used cs) (fst (picks g now readiness cs sel (used, s)))"
proof -
  let ?e = "eligible_candidates sel readiness used cs"
  obtain ordered s1 where r: "ranked g sel now readiness ?e s = (ordered, s1)" by fastforce
  then have m: "mset ordered = mset ?e" using ranked_mset[of g sel now readiness ?e s] by simp
  then have "distinct (map mc_sha256 ordered)"
    using distinct_eligible[OF assms(2)] by (metis mset_map mset_eq_imp_distinct_iff)
  from pick_loop_ok[OF assms(1) order_refl this]
  have "picks_ok sel 0 ordered (fst (picks g now readiness cs sel (used, s)))" by (simp add: picks_def r)
  moreover have "set ordered = set ?e" using m by (metis set_mset_mset)
  ultimately show ?thesis by (simp add: picks_ok_def)
qed

text \<open>A selection fills its quota and no more. It takes eligible charts only, none twice; without its last chart it
  would be below the quota; and it stops short of the quota only when no eligible chart is left.\<close>

theorem selection_fills_quota:
  assumes "rng_ok g" and "distinct (map mc_sha256 cs)" and "picks g now readiness cs sel (used, s) = (ps, s')"
  shows "(\<forall>p\<in>set ps. snd p \<in> set cs \<and> selectable readiness used (snd p)) \<and> distinct (pick_shas ps) \<and>
     (1 < length ps \<longrightarrow> pick_cost sel (butlast ps) < sl_quota sel) \<and>
     (sl_quota sel \<le> pick_cost sel ps \<or> snd ` set ps = set (eligible_candidates sel readiness used cs))"
proof -
  have ok: "picks_ok sel 0 (eligible_candidates sel readiness used cs) ps"
    using picks_sound[OF assms(1,2), of sel readiness used now s] by (simp add: assms(3))
  have "set (eligible_candidates sel readiness used cs) \<subseteq> {c \<in> set cs. selectable readiness used c}"
    by (auto simp: eligible_candidates_def Let_def)
  then have "\<forall>p\<in>set ps. snd p \<in> set cs \<and> selectable readiness used (snd p)" using ok by (auto simp: picks_ok_def)
  moreover have "1 < length ps \<longrightarrow> pick_cost sel (butlast ps) < sl_quota sel"
    using ok by (cases ps; cases "butlast ps = []") (auto simp: picks_ok_def)
  ultimately show ?thesis using ok by (simp add: picks_ok_def)
qed

subsection \<open>No chart in two selections\<close>

definition items_ok :: "menu_item list \<Rightarrow> string set \<Rightarrow> string set \<Rightarrow> bool" where
  "items_ok items used used' \<longleftrightarrow>
     used' = used \<union> mi_sha256 ` set items \<and> mi_sha256 ` set items \<inter> used = {} \<and>
     distinct (map (\<lambda>i. (mi_sha256 i, mi_attempt i)) items) \<and>
     (\<forall>i\<in>set items. \<forall>j\<in>set items. mi_sha256 i = mi_sha256 j \<longrightarrow> mi_category i = mi_category j)"

lemma items_ok_Nil: "items_ok [] used used"
  by (simp add: items_ok_def)

abbreviation item_key :: "menu_item \<Rightarrow> string \<times> nat" where
  "item_key i \<equiv> (mi_sha256 i, mi_attempt i)"

lemma items_okD:
  assumes "items_ok xs u v"
  shows "v = u \<union> mi_sha256 ` set xs" "mi_sha256 ` set xs \<inter> u = {}" "distinct (map item_key xs)"
    "i \<in> set xs \<Longrightarrow> j \<in> set xs \<Longrightarrow> mi_sha256 i = mi_sha256 j \<Longrightarrow> mi_category i = mi_category j"
  using assms unfolding items_ok_def
  by (rule conjunct1, rule conjunct1[OF conjunct2], rule conjunct1[OF conjunct2[OF conjunct2]], elim conjE)
    (drule (1) bspec, drule (1) bspec, drule (1) mp, assumption)

lemma items_ok_append:
  assumes "items_ok xs u v" and "items_ok ys v w"
  shows "items_ok (xs @ ys) u w"
proof -
  note xs = items_okD[OF assms(1)] and ys = items_okD[OF assms(2)]
  note v = xs(1) and w = ys(1) and fresh = xs(2) ys(2) and dist = xs(3) ys(3) and cat = xs(4) ys(4)
  have apart: "mi_sha256 i \<noteq> mi_sha256 j" if "i \<in> set xs" "j \<in> set ys" for i j
    using fresh(2) that unfolding v by blast
  have "distinct (map item_key (xs @ ys))" using dist apart by auto
  moreover have "mi_category i = mi_category j" if "i \<in> set (xs @ ys)" "j \<in> set (xs @ ys)" "mi_sha256 i = mi_sha256 j" for i j
  proof -
    note i = that(1) and j = that(2) and same = that(3)
    consider "i \<in> set xs" "j \<in> set xs" | "i \<in> set ys" "j \<in> set ys" | "i \<in> set xs" "j \<in> set ys" | "i \<in> set ys" "j \<in> set xs"
      using i j by auto
    then show ?thesis
    proof cases
      case 1
      then show ?thesis using same by (rule cat(1))
    next
      case 2
      then show ?thesis using same by (rule cat(2))
    next
      case 3
      from apart[OF this] same show ?thesis by contradiction
    next
      case 4
      from apart[OF 4(2,1)] same[symmetric] show ?thesis by contradiction
    qed
  qed
  moreover have "mi_sha256 ` set (xs @ ys) \<inter> u = {}" using fresh v by auto
  moreover have "w = u \<union> mi_sha256 ` set (xs @ ys)" unfolding w v by auto
  ultimately show ?thesis unfolding items_ok_def by blast
qed

lemma items_ok_mset:
  assumes "items_ok xs u v" and "mset xs = mset ys"
  shows "items_ok ys u v"
proof -
  have sets: "set xs = set ys" using assms(2) by (rule mset_eq_setD)
  have "mset (map item_key xs) = mset (map item_key ys)" using assms(2) by simp
  then have dist: "distinct (map item_key xs) = distinct (map item_key ys)" by (rule mset_eq_imp_distinct_iff)
  show ?thesis using assms(1) unfolding items_ok_def sets dist .
qed

lemma chart_items_fields:
  "i \<in> set (chart_items sel e c) \<Longrightarrow> mi_sha256 i = mc_sha256 c \<and> mi_category i = sl_category sel \<and>
     mi_optional i = sl_optional sel \<and> mi_attempt i \<in> {1..sl_attempts sel}"
  by (auto simp: chart_items_def to_item_def)

lemma chart_items_attempts: "map mi_attempt (chart_items sel e c) = [1..<Suc (sl_attempts sel)]"
  by (simp add: chart_items_def to_item_def comp_def)

lemma distinct_concat_items:
  assumes "distinct (pick_shas ps)"
  shows "distinct (map (\<lambda>i. (mi_sha256 i, mi_attempt i)) (concat (map (\<lambda>(e, c). chart_items sel e c) ps)))"
  using assms
proof (induction ps)
  case (Cons p ps)
  obtain e c where p: "p = (e, c)" by (cases p)
  have "distinct (map mi_attempt (chart_items sel e c))" by (simp add: chart_items_attempts del: upt_Suc)
  then have one: "distinct (map (\<lambda>i. (mi_sha256 i, mi_attempt i)) (chart_items sel e c))"
    by (auto simp: distinct_map inj_on_def)
  have apart: "mi_sha256 i \<noteq> mi_sha256 j"
    if "i \<in> set (chart_items sel e c)" and "j \<in> set (concat (map (\<lambda>(e, c). chart_items sel e c) ps))" for i j
  proof -
    note i = that(1) and j = that(2)
    obtain e' c' where c': "(e', c') \<in> set ps" "j \<in> set (chart_items sel e' c')" using j by auto
    then have "mc_sha256 c' \<in> set (pick_shas ps)" by force
    moreover have "mc_sha256 c \<notin> set (pick_shas ps)" using Cons.prems by (simp add: p)
    ultimately show ?thesis using chart_items_fields[OF i] chart_items_fields[OF c'(2)] by metis
  qed
  have "item_key ` set (chart_items sel e c) \<inter> item_key ` set (concat (map (\<lambda>(e, c). chart_items sel e c) ps)) = {}"
    using apart by (blast dest: arg_cong[of _ _ fst] intro: Pair_inject)
  then show ?case using one Cons.IH Cons.prems by (simp add: p)
qed simp

lemma select_items_ok:
  assumes "rng_ok g" and "distinct (map mc_sha256 cs)" and "select g now readiness cs sel (used, s) = (items, used', s')"
    and "0 < sl_attempts sel"
  shows "items_ok items used used'" and "\<forall>i\<in>set items. mi_category i = sl_category sel \<and> mi_optional i = sl_optional sel \<and>
      mi_attempt i \<in> {1..sl_attempts sel} \<and> mi_sha256 i \<in> mc_sha256 ` set cs"
proof -
  obtain ps s1 where ps: "picks g now readiness cs sel (used, s) = (ps, s1)" by fastforce
  note sound = selection_fills_quota[OF assms(1,2) ps]
  have items: "items = concat (map (\<lambda>(e, c). chart_items sel e c) ps)" "used' = used \<union> mc_sha256 ` snd ` set ps"
    using assms(3) by (simp_all add: select_def ps)
  have shas: "mi_sha256 ` set items = mc_sha256 ` snd ` set ps"
  proof
    show "mi_sha256 ` set items \<subseteq> mc_sha256 ` snd ` set ps"
    proof
      fix h
      assume "h \<in> mi_sha256 ` set items"
      then obtain e c i where "(e, c) \<in> set ps" "i \<in> set (chart_items sel e c)" "h = mi_sha256 i" by (auto simp: items)
      then have "h = mc_sha256 (snd (e, c))" "(e, c) \<in> set ps" using chart_items_fields by auto
      then show "h \<in> mc_sha256 ` snd ` set ps" by blast
    qed
    show "mc_sha256 ` snd ` set ps \<subseteq> mi_sha256 ` set items"
    proof
      fix h
      assume "h \<in> mc_sha256 ` snd ` set ps"
      then obtain e c where c: "(e, c) \<in> set ps" "h = mc_sha256 c" by auto
      obtain i where "i \<in> set (chart_items sel e c)" using chart_items_attempts[of sel e c] assms(4)
        by (cases "chart_items sel e c") auto
      then show "h \<in> mi_sha256 ` set items" using c chart_items_fields unfolding items by (force intro!: rev_image_eqI)
    qed
  qed
  show "items_ok items used used'"
    unfolding items_ok_def shas items(2)
  proof (intro conjI)
    show "mc_sha256 ` snd ` set ps \<inter> used = {}" using sound by (auto simp: selectable_def)
    show "distinct (map (\<lambda>i. (mi_sha256 i, mi_attempt i)) items)" using sound distinct_concat_items by (simp add: items)
    show "\<forall>i\<in>set items. \<forall>j\<in>set items. mi_sha256 i = mi_sha256 j \<longrightarrow> mi_category i = mi_category j"
      by (auto simp: items dest!: chart_items_fields)
  qed simp
  show "\<forall>i\<in>set items. mi_category i = sl_category sel \<and> mi_optional i = sl_optional sel \<and>
      mi_attempt i \<in> {1..sl_attempts sel} \<and> mi_sha256 i \<in> mc_sha256 ` set cs"
    using sound by (fastforce simp: items dest!: chart_items_fields)
qed

lemma min_by_in: "xs \<noteq> [] \<Longrightarrow> min_by f xs \<in> set xs"
  unfolding min_by_def by (metis hd_in_set length_0_conv length_sort set_sort)

lemma warmup_choice:
  assumes "eligible \<noteq> []"
  shows "snd (min_by f (fst (draws g eligible s))) \<in> set eligible"
proof -
  have "fst (draws g eligible s) \<noteq> []" using draws_map[of g eligible s] assms by auto
  from min_by_in[OF this, of f] have "snd (min_by f (fst (draws g eligible s))) \<in> snd ` set (fst (draws g eligible s))" by simp
  also have "snd ` set (fst (draws g eligible s)) = set (map snd (fst (draws g eligible s)))" by simp
  also have "\<dots> = set eligible" unfolding draws_map ..
  finally show ?thesis .
qed

abbreviation triple_sha :: "menu_candidate \<times> rating \<times> real \<Rightarrow> string" where
  "triple_sha x \<equiv> mc_sha256 (fst x)"

lemma warmup_loop_ok:
  "set (fst (warmup_loop g upto_quota n picked acc eligible s)) \<subseteq> set eligible \<and>
     distinct (map triple_sha (fst (warmup_loop g upto_quota n picked acc eligible s))) \<and>
     length (fst (warmup_loop g upto_quota n picked acc eligible s)) \<le> n"
proof (induction n arbitrary: picked acc eligible s)
  case 0
  then show ?case by simp
next
  case (Suc n)
  show ?case
  proof (cases "eligible = [] \<or> upto_quota \<le> acc")
    case True
    then show ?thesis by simp
  next
    case False
    obtain drawn s1 where d: "draws g eligible s = (drawn, s1)" by fastforce
    define choice where "choice = snd (min_by (\<lambda>(u, x). (warmup_cost (real picked / 3) u x, mc_sha256 (fst x))) drawn)"
    let ?left = "filter (\<lambda>x. triple_sha x \<noteq> triple_sha choice) eligible"
    obtain rest s2 where rest: "warmup_loop g upto_quota n (picked + 1) (acc + expected (fst choice)) ?left s1 = (rest, s2)" by fastforce
    have run: "fst (warmup_loop g upto_quota (Suc n) picked acc eligible s) = choice # rest"
      unfolding warmup_loop.simps if_not_P[OF False] Let_def d prod.case choice_def[symmetric] rest by simp
    have "choice \<in> set eligible"
      using warmup_choice[of eligible _ g s] False unfolding choice_def d fst_conv by blast
    moreover have "set rest \<subseteq> set ?left" "distinct (map triple_sha rest)" "length rest \<le> n"
      using Suc.IH[of "picked + 1" "acc + expected (fst choice)" ?left s1] unfolding rest by simp_all
    moreover from this(1) have "triple_sha choice \<notin> set (map triple_sha rest)" "set rest \<subseteq> set eligible" by auto
    ultimately show ?thesis unfolding run by simp
  qed
qed

lemma in_map_filter: "y \<in> set (List.map_filter f xs) \<longleftrightarrow> (\<exists>x\<in>set xs. f x = Some y)"
  by (force simp: List.map_filter_def)

lemma warmup_eligible_fields:
  assumes "x \<in> set (warmup_eligible fs shift readiness now used cs)"
  shows "fst x \<in> set cs \<and> triple_sha x \<notin> used \<and> has_warmup_evidence now (fst x) \<and> warmup_features_are_safe readiness (fst x)"
proof -
  let ?least = "\<lambda>c. min_by (\<lambda>(r, f, progress). (- int (fo_observations f), \<bar>progress - 1 / 2\<bar>, ra_table_id r)) (allowed_ratings fs shift c)"
  obtain c where c: "c \<in> set cs"
    "(if mc_sha256 c \<in> used \<or> \<not> has_warmup_evidence now c \<or> \<not> warmup_features_are_safe readiness c then None
      else let allowed = allowed_ratings fs shift c in if allowed = [] then None
           else case ?least c of (r, f, progress) \<Rightarrow> Some (c, r, progress)) = Some x"
    using assms unfolding warmup_eligible_def in_map_filter Let_def by blast
  obtain r f progress where least: "?least c = (r, f, progress)" by (metis prod.collapse)
  show ?thesis using c unfolding least Let_def by (auto split: if_splits)
qed

lemma select_warmup_ok:
  assumes "select_warmup g fs now readiness adjustment cs (used, s) = (items, used', s')"
  shows "items_ok items used used'" and "length items \<le> 4"
    and "\<forall>i\<in>set items. mi_category i = ''01 WARMUP'' \<and> \<not> mi_optional i \<and> mi_attempt i = 1 \<and> mi_sha256 i \<in> mc_sha256 ` set cs"
proof -
  let ?e = "warmup_eligible fs (adjustment - (if readiness = ''tired'' then 1 else 0)) readiness now used cs"
  obtain picked s1 where run: "warmup_loop g (quota ''01 WARMUP'') 4 0 0 ?e s = (picked, s1)" by fastforce
  define ordered where "ordered = sort_key (\<lambda>(c, r, progress). (75 / 100 * progress + 25 / 100 * mc_warmup_load c, mc_sha256 c)) picked"
  define f where "f = (\<lambda>(c, r, progress :: real). to_item c ''01 WARMUP''
               (ra_table_id r @ '' '' @ ra_source_level r @ '' / familiar low-load'') 1 False False
               (Some r) (Some ''COMFORT'') (Some ''WARMUP''))"
  have items: "items = map f ordered" "used' = used \<union> triple_sha ` set ordered"
    using assms by (simp_all add: select_warmup_def run Let_def ordered_def f_def image_image)
  have loop: "set picked \<subseteq> set ?e" "distinct (map triple_sha picked)" "length picked \<le> 4"
    using warmup_loop_ok[of g "quota ''01 WARMUP''" 4 0 0 ?e s] by (simp_all add: run)
  have set_ordered: "set ordered = set picked" "length ordered = length picked" by (simp_all add: ordered_def)
  have "mset ordered = mset picked" by (simp add: ordered_def)
  then have "distinct (map triple_sha ordered) = distinct (map triple_sha picked)"
    by (intro mset_eq_imp_distinct_iff) (simp only: mset_map)
  with loop(2) have dist: "distinct (map triple_sha ordered)" by simp
  have f: "mi_sha256 (f x) = triple_sha x" "mi_category (f x) = ''01 WARMUP''" "\<not> mi_optional (f x)" "mi_attempt (f x) = 1" for x
    by (simp_all add: f_def to_item_def split: prod.splits)
  have shas: "mi_sha256 ` set items = triple_sha ` set ordered" by (simp add: items image_image f)
  show "length items \<le> 4" using loop(3) by (simp add: items set_ordered)
  show "items_ok items used used'"
    unfolding items_ok_def shas items(2)
  proof (intro conjI)
    show "triple_sha ` set ordered \<inter> used = {}" using loop(1) warmup_eligible_fields by (fastforce simp: set_ordered)
    show "distinct (map item_key items)" using dist by (simp add: items f comp_def distinct_map inj_on_def)
    show "\<forall>i\<in>set items. \<forall>j\<in>set items. mi_sha256 i = mi_sha256 j \<longrightarrow> mi_category i = mi_category j"
      by (auto simp: items f)
  qed simp
  show "\<forall>i\<in>set items. mi_category i = ''01 WARMUP'' \<and> \<not> mi_optional i \<and> mi_attempt i = 1 \<and> mi_sha256 i \<in> mc_sha256 ` set cs"
  proof
    fix i
    assume "i \<in> set items"
    then obtain x where x: "x \<in> set ?e" "i = f x" using loop(1) by (auto simp: items set_ordered)
    then show "mi_category i = ''01 WARMUP'' \<and> \<not> mi_optional i \<and> mi_attempt i = 1 \<and> mi_sha256 i \<in> mc_sha256 ` set cs"
      using warmup_eligible_fields[OF x(1)] by (simp add: f)
  qed
qed

definition known_items :: "menu_candidate list \<Rightarrow> menu_item list \<Rightarrow> bool" where
  "known_items cs items \<longleftrightarrow> mi_sha256 ` set items \<subseteq> mc_sha256 ` set cs"

lemma run_selections_ok:
  assumes "rng_ok g" and "distinct (map mc_sha256 cs)" and "\<forall>sel\<in>set sels. 0 < sl_attempts sel"
    and "run_selections g now readiness cs sels (used, s) = (items, used', s')"
  shows "items_ok items used used' \<and> known_items cs items \<and>
     (\<forall>i\<in>set items. \<exists>sel\<in>set sels. mi_category i = sl_category sel \<and> mi_optional i = sl_optional sel \<and>
        mi_attempt i \<in> {1..sl_attempts sel})"
  using assms(3,4)
proof (induction sels arbitrary: used s items)
  case Nil
  then show ?case by (simp add: items_ok_Nil known_items_def)
next
  case (Cons sel sels)
  obtain xs v s1 where one: "select g now readiness cs sel (used, s) = (xs, v, s1)" by (metis prod.collapse)
  obtain ys where ys: "run_selections g now readiness cs sels (v, s1) = (ys, used', s')" "items = xs @ ys"
    using Cons.prems(2) by (auto simp: one Let_def split: prod.splits)
  have "0 < sl_attempts sel" "\<forall>sel\<in>set sels. 0 < sl_attempts sel" using Cons.prems(1) by simp_all
  note xs = select_items_ok[OF assms(1,2) one this(1)] and rest = Cons.IH[OF this(2) ys(1)]
  have "items_ok items used used'" using items_ok_append[OF xs(1)] rest ys(2) by blast
  moreover have "known_items cs items" using xs(2) rest by (auto simp: known_items_def ys(2))
  moreover have "\<forall>i\<in>set items. \<exists>sel'\<in>set (sel # sels). mi_category i = sl_category sel' \<and> mi_optional i = sl_optional sel' \<and>
        mi_attempt i \<in> {1..sl_attempts sel'}"
  proof
    fix i
    assume "i \<in> set items"
    then consider "i \<in> set xs" | "i \<in> set ys" by (auto simp: ys(2))
    then show "\<exists>sel'\<in>set (sel # sels). mi_category i = sl_category sel' \<and> mi_optional i = sl_optional sel' \<and>
        mi_attempt i \<in> {1..sl_attempts sel'}"
      using xs(2) rest by cases auto
  qed
  ultimately show ?case by blast
qed

subsection \<open>The play order\<close>

lemma map_filter_append: "List.map_filter f (xs @ ys) = List.map_filter f xs @ List.map_filter f ys"
  by (simp add: List.map_filter_def)

lemma order_groups_mset:
  "mset (order_groups repeats focus fillers) =
     mset focus + mset fillers + mset (List.map_filter (\<lambda>i. repeats (mi_sha256 i)) focus)"
proof (induction repeats focus fillers rule: order_groups.induct)
  case (1 repeats focus fillers)
  show ?case
  proof (cases "focus = []")
    case True
    then show ?thesis by (simp add: order_groups.simps List.map_filter_def)
  next
    case False
    let ?k = "4 - length (take 4 focus)"
    have IH: "mset (order_groups repeats (drop 4 focus) (drop ?k fillers)) = mset (drop 4 focus) + mset (drop ?k fillers) +
        mset (List.map_filter (\<lambda>i. repeats (mi_sha256 i)) (drop 4 focus))"
      using 1[OF False refl refl] .
    have fillers: "mset fillers = mset (take ?k fillers) + mset (drop ?k fillers)"
      by (metis append_take_drop_id mset_append)
    have focus: "mset focus = mset (take 4 focus) + mset (drop 4 focus)" by (metis append_take_drop_id mset_append)
    have reps: "mset (List.map_filter (\<lambda>i. repeats (mi_sha256 i)) focus) =
        mset (List.map_filter (\<lambda>i. repeats (mi_sha256 i)) (take 4 focus)) +
        mset (List.map_filter (\<lambda>i. repeats (mi_sha256 i)) (drop 4 focus))"
      by (metis append_take_drop_id map_filter_append mset_append)
    show ?thesis
      unfolding order_groups.simps[of repeats focus fillers] if_not_P[OF False] Let_def mset_append IH
      unfolding fillers focus reps by (simp only: ac_simps)
  qed
qed

text \<open>Every later attempt has its first one.\<close>

definition attempts_ok :: "menu_item list \<Rightarrow> bool" where
  "attempts_ok items \<longleftrightarrow> (\<forall>i\<in>set items. mi_attempt i \<in> {1, 2} \<and>
     (mi_attempt i = 2 \<longrightarrow> (\<exists>j\<in>set items. mi_sha256 j = mi_sha256 i \<and> mi_attempt j = 1)))"

lemma attempts_ok_append: "attempts_ok xs \<Longrightarrow> attempts_ok ys \<Longrightarrow> attempts_ok (xs @ ys)"
  unfolding attempts_ok_def by (simp add: ball_Un) blast

lemma repeats_exact:
  assumes "distinct (map item_key focus)" and "attempts_ok focus"
  shows "mset (List.map_filter (\<lambda>i. map_of (rev (map (\<lambda>i. (mi_sha256 i, i)) (filter (\<lambda>i. mi_attempt i \<noteq> 1) focus))) (mi_sha256 i))
      (filter (\<lambda>i. mi_attempt i = 1) focus)) = mset (filter (\<lambda>i. mi_attempt i \<noteq> 1) focus)"
proof -
  let ?firsts = "filter (\<lambda>i. mi_attempt i = 1) focus" and ?later = "filter (\<lambda>i. mi_attempt i \<noteq> 1) focus"
  let ?rep = "map_of (rev (map (\<lambda>i. (mi_sha256 i, i)) ?later))"
  have two: "mi_attempt i = 2" if "i \<in> set ?later" for i
  proof -
    have "i \<in> set focus" "mi_attempt i \<noteq> 1" using that by simp_all
    moreover from this(1) have "mi_attempt i \<in> {1, 2}" using assms(2) unfolding attempts_ok_def by blast
    ultimately show ?thesis by blast
  qed
  have inj: "inj_on item_key (set focus)" and d: "distinct focus" using assms(1) by (simp_all add: distinct_map)
  have same: "i = j" if "i \<in> set focus" "j \<in> set focus" "mi_sha256 i = mi_sha256 j" "mi_attempt i = mi_attempt j" for i j
    by (rule inj_onD[OF inj]) (use that in \<open>simp_all only:\<close>)
  have "inj_on mi_sha256 (set ?later)"
  proof (rule inj_onI)
    fix i j
    assume i: "i \<in> set ?later" and j: "j \<in> set ?later" and eq: "mi_sha256 i = mi_sha256 j"
    have "mi_attempt i = mi_attempt j" unfolding two[OF i] two[OF j] ..
    then show "i = j" using i j eq by (intro same) simp_all
  qed
  then have keys: "distinct (map mi_sha256 ?later)" using d by (simp add: distinct_map)
  have rep: "?rep h = Some i \<longleftrightarrow> i \<in> set ?later \<and> mi_sha256 i = h" for h i
  proof -
    have "distinct (map fst (rev (map (\<lambda>i. (mi_sha256 i, i)) ?later)))"
      using keys unfolding rev_map[symmetric] by (simp add: comp_def)
    then show ?thesis by (auto simp: map_of_eq_Some_iff)
  qed
  have "inj_on mi_sha256 (set ?firsts)" by (rule inj_onI) (rule same, simp_all)
  then have first_keys: "distinct (map mi_sha256 ?firsts)" using d by (simp add: distinct_map)
  have dist: "distinct (List.map_filter (\<lambda>i. ?rep (mi_sha256 i)) xs)"
    if "distinct (map mi_sha256 xs)" for xs
    using that
  proof (induction xs)
    case (Cons x xs)
    show ?case
    proof (cases "?rep (mi_sha256 x)")
      case None
      then show ?thesis using Cons by (simp add: List.map_filter_simps)
    next
      case (Some i)
      then have "i \<notin> set (List.map_filter (\<lambda>i. ?rep (mi_sha256 i)) xs)"
        using Cons.prems unfolding in_map_filter rep by auto
      then show ?thesis using Some Cons by (simp add: List.map_filter_simps)
    qed
  qed (simp add: List.map_filter_simps)
  have "set (List.map_filter (\<lambda>i. ?rep (mi_sha256 i)) ?firsts) = set ?later"
  proof (rule set_eqI)
    fix i
    have partner: "\<exists>j\<in>set ?firsts. mi_sha256 i = mi_sha256 j" if "i \<in> set ?later"
      
    proof -
      note second = two[OF that]
      have "i \<in> set focus" using that by simp
      then obtain j where "j \<in> set focus" "mi_sha256 j = mi_sha256 i" "mi_attempt j = 1"
        using second assms(2) unfolding attempts_ok_def by blast
      then show ?thesis by (intro bexI[of _ j]) simp_all
    qed
    show "i \<in> set (List.map_filter (\<lambda>i. ?rep (mi_sha256 i)) ?firsts) \<longleftrightarrow> i \<in> set ?later"
      unfolding in_map_filter rep using partner by blast
  qed
  moreover have "distinct ?later" using d by (rule distinct_filter)
  from set_eq_iff_mset_eq_distinct[OF dist[OF first_keys] this]
  have "set (List.map_filter (\<lambda>i. ?rep (mi_sha256 i)) ?firsts) = set ?later \<Longrightarrow>
      mset (List.map_filter (\<lambda>i. ?rep (mi_sha256 i)) ?firsts) = mset ?later" by (rule iffD1)
  ultimately show ?thesis by blast
qed

definition core_categories :: "string list" where
  "core_categories = [''01 WARMUP'', ''02 FOCUS-A'', ''04 FOCUS-B'', ''03 TRANSFER-A'', ''05 TRANSFER-B'', ''06 LAMP'',
     ''07 REVIEW'', ''08 PROBE'']"

abbreviation of_category :: "menu_item list \<Rightarrow> string \<Rightarrow> menu_item list" where
  "of_category items \<equiv> \<lambda>c. filter (\<lambda>i. mi_category i = c) items"

lemma mset_by_category:
  assumes "distinct cats"
  shows "mset (concat (map (of_category items) cats)) = filter_mset (\<lambda>i. mi_category i \<in> set cats) (mset items)"
  using assms
proof (induction cats)
  case (Cons c cats)
  have "filter_mset (\<lambda>i. mi_category i \<in> set (c # cats)) (mset items) =
      filter_mset (\<lambda>i. mi_category i = c) (mset items) + filter_mset (\<lambda>i. mi_category i \<in> set cats) (mset items)"
    using Cons.prems by (intro multiset_eqI) auto
  then show ?case using Cons by simp
qed simp

lemma order_keeps_every_item:
  assumes "distinct (map item_key items)" and "attempts_ok items" and "mi_category ` set items \<subseteq> set core_categories"
    and "\<forall>i\<in>set items. \<forall>j\<in>set items. mi_sha256 i = mi_sha256 j \<longrightarrow> mi_category i = mi_category j"
  shows "mset (order_menu (of_category items)) = mset items"
proof -
  let ?focus = "of_category items ''02 FOCUS-A'' @ of_category items ''04 FOCUS-B''"
  have sub: "set ?focus \<subseteq> set items" by auto
  have inj: "inj_on item_key (set items)" and d: "distinct items" using assms(1) by (simp_all add: distinct_map)
  have "inj_on item_key (set ?focus)" using inj sub by (rule inj_on_subset)
  moreover have "distinct ?focus" using d by auto
  ultimately have "distinct (map item_key ?focus)" by (simp only: distinct_map)
  moreover have "attempts_ok ?focus"
    unfolding attempts_ok_def
  proof
    fix i
    assume i: "i \<in> set ?focus"
    then have "i \<in> set items" using sub by blast
    then have two: "mi_attempt i \<in> {1, 2}" and
      partner: "mi_attempt i = 2 \<Longrightarrow> \<exists>j\<in>set items. mi_sha256 j = mi_sha256 i \<and> mi_attempt j = 1"
      using assms(2) unfolding attempts_ok_def by blast+
    have "\<exists>j\<in>set ?focus. mi_sha256 j = mi_sha256 i \<and> mi_attempt j = 1" if second: "mi_attempt i = 2"
    proof -
      obtain j where j: "j \<in> set items" "mi_sha256 j = mi_sha256 i" "mi_attempt j = 1" using partner[OF second] by blast
      have "mi_category j = mi_category i" using assms(4) j(1,2) \<open>i \<in> set items\<close> by blast
      then have "j \<in> set ?focus" using i j(1) by auto
      then show ?thesis using j(2,3) by blast
    qed
    then show "mi_attempt i \<in> {1, 2} \<and> (mi_attempt i = 2 \<longrightarrow> (\<exists>j\<in>set ?focus. mi_sha256 j = mi_sha256 i \<and> mi_attempt j = 1))"
      using two by blast
  qed
  ultimately have later: "mset (List.map_filter (\<lambda>i. map_of (rev (map (\<lambda>i. (mi_sha256 i, i)) (filter (\<lambda>i. mi_attempt i \<noteq> 1) ?focus)))
      (mi_sha256 i)) (filter (\<lambda>i. mi_attempt i = 1) ?focus)) = mset (filter (\<lambda>i. mi_attempt i \<noteq> 1) ?focus)"
    by (rule repeats_exact)
  have split: "mset ?focus = mset (filter (\<lambda>i. mi_attempt i = 1) ?focus) + mset (filter (\<lambda>i. mi_attempt i \<noteq> 1) ?focus)"
    unfolding mset_filter by (rule multiset_partition)
  have "mset (order_menu (of_category items)) = mset (concat (map (of_category items) core_categories))"
    unfolding order_menu_def Let_def mset_append order_groups_mset later
    using split by (simp add: core_categories_def)
  also have "\<dots> = filter_mset (\<lambda>i. mi_category i \<in> set core_categories) (mset items)"
    by (rule mset_by_category) (simp add: core_categories_def)
  also have "\<dots> = mset items" using assms(3) by (auto simp: filter_mset_eq_conv)
  finally show ?thesis .
qed

subsection \<open>The whole plan\<close>

lemma select_attempts_ok:
  assumes "rng_ok g" and "distinct (map mc_sha256 cs)" and "select g now readiness cs sel (used, s) = (items, used', s')"
    and "sl_attempts sel \<in> {1, 2}"
  shows "attempts_ok items"
proof -
  obtain ps s1 where ps: "picks g now readiness cs sel (used, s) = (ps, s1)" by fastforce
  have items: "items = concat (map (\<lambda>(e, c). chart_items sel e c) ps)"
    using assms(3) by (simp add: select_def ps)
  have first: "\<exists>j\<in>set (chart_items sel e c). mi_sha256 j = mc_sha256 c \<and> mi_attempt j = 1" for e c
    using assms(4) by (auto simp: chart_items_def to_item_def numeral_2_eq_2)
  show ?thesis
    unfolding attempts_ok_def
  proof
    fix i
    assume "i \<in> set items"
    then obtain e c where c: "(e, c) \<in> set ps" "i \<in> set (chart_items sel e c)" by (auto simp: items)
    obtain j where j: "j \<in> set (chart_items sel e c)" "mi_sha256 j = mc_sha256 c" "mi_attempt j = 1" using first by blast
    have "j \<in> set items" using c(1) j(1) by (auto simp: items)
    moreover have "mi_sha256 i = mc_sha256 c" "mi_attempt i \<in> {1..sl_attempts sel}" using chart_items_fields[OF c(2)] by blast+
    ultimately show "mi_attempt i \<in> {1, 2} \<and> (mi_attempt i = 2 \<longrightarrow> (\<exists>j\<in>set items. mi_sha256 j = mi_sha256 i \<and> mi_attempt j = 1))"
      using j(2,3) assms(4) by auto
  qed
qed

lemma run_selections_attempts:
  assumes "rng_ok g" and "distinct (map mc_sha256 cs)" and "\<forall>sel\<in>set sels. sl_attempts sel \<in> {1, 2}"
    and "run_selections g now readiness cs sels (used, s) = (items, used', s')"
  shows "attempts_ok items"
  using assms(3,4)
proof (induction sels arbitrary: used s items)
  case Nil
  then show ?case by (simp add: attempts_ok_def)
next
  case (Cons sel sels)
  obtain xs v s1 where one: "select g now readiness cs sel (used, s) = (xs, v, s1)" by (metis prod.collapse)
  obtain ys where ys: "run_selections g now readiness cs sels (v, s1) = (ys, used', s')" "items = xs @ ys"
    using Cons.prems(2) by (auto simp: one Let_def split: prod.splits)
  show ?case unfolding ys(2)
    by (rule attempts_ok_append[OF select_attempts_ok[OF assms(1,2) one] Cons.IH[OF _ ys(1)]]) (use Cons.prems(1) in auto)
qed

lemmas selection_defs = focus_selection_def transfer_selection_def lamp_selection_def upgrade_selection_def
  review_selection_def probe_selection_def supplement_selection_def reserve_selection_def

lemma core_selections_fields:
  "sel \<in> set (core_selections readiness now axes) \<Longrightarrow>
     sl_attempts sel \<in> {1, 2} \<and> \<not> sl_optional sel \<and> sl_category sel \<in> set core_categories - {''01 WARMUP''}"
  by (auto simp: core_selections_def selection_defs core_categories_def)

text \<open>The three parts of a plan: no chart is shared, and each part is of its kind.\<close>

definition plan_ok :: "menu_candidate list \<Rightarrow> menu_plan \<Rightarrow> bool" where
  "plan_ok cs pn \<longleftrightarrow>
     (\<exists>used. items_ok (pn_core pn @ pn_supplement pn @ pn_reserve pn) {} used) \<and>
     known_items cs (pn_core pn @ pn_supplement pn @ pn_reserve pn) \<and>
     (\<forall>i\<in>set (pn_core pn). \<not> mi_optional i \<and> mi_category i \<in> set core_categories) \<and>
     (\<forall>i\<in>set (pn_supplement pn). \<not> mi_optional i \<and> mi_category i = ''05 TRANSFER-B'') \<and>
     (\<forall>i\<in>set (pn_reserve pn). mi_optional i \<and> mi_category i = ''09 RESERVE'')"

lemma plan_menu_ok:
  assumes "rng_ok g" and "distinct (map mc_sha256 (ld_candidates ld))"
  shows "plan_ok (ld_candidates ld) (plan_menu g now settings adjustment ld s)"
proof -
  let ?r = "ps_readiness settings" and ?cs = "ld_candidates ld"
  obtain warmup u0 s0 where w: "select_warmup g (ld_frontiers ld) now ?r adjustment ?cs ({}, s) = (warmup, u0, s0)"
    by (metis prod.collapse)
  obtain items u1 s1 where c: "run_selections g now ?r ?cs (core_selections ?r now (ld_axes ld)) (u0, s0) = (items, u1, s1)"
    by (metis prod.collapse)
  define core where "core = order_menu (of_category (warmup @ items))"
  define missing where "missing = ps_target_judged settings - expected_total core"
  obtain supp u2 s2 where sup: "(if 0 < missing then select g now ?r ?cs (supplement_selection ?r missing) (u1, s1)
      else ([], u1, s1)) = (supp, u2, s2)" by (metis prod.collapse)
  obtain res u3 s3 where res: "select g now ?r ?cs (reserve_selection ?r (ps_reserve_judged settings)) (u2, s2) = (res, u3, s3)"
    by (metis prod.collapse)
  have plan: "plan_menu g now settings adjustment ld s = \<lparr>pn_core = core, pn_supplement = supp, pn_reserve = res\<rparr>"
    unfolding plan_menu_def Let_def w c prod.case core_def[symmetric] missing_def[symmetric] sup res by simp
  note wok = select_warmup_ok[OF w]
  have sels: "\<forall>sel\<in>set (core_selections ?r now (ld_axes ld)). 0 < sl_attempts sel"
      "\<forall>sel\<in>set (core_selections ?r now (ld_axes ld)). sl_attempts sel \<in> {1, 2}"
    using core_selections_fields by fastforce+
  note cok = run_selections_ok[OF assms sels(1) c]
  have both: "items_ok (warmup @ items) {} u1" using items_ok_append[OF wok(1)] cok by blast
  have "attempts_ok warmup" using wok(3) by (simp add: attempts_ok_def)
  then have att: "attempts_ok (warmup @ items)"
    using run_selections_attempts[OF assms sels(2) c] by (rule attempts_ok_append)
  have kinds: "\<forall>i\<in>set (warmup @ items). \<not> mi_optional i \<and> mi_category i \<in> set core_categories"
  proof
    fix i
    assume "i \<in> set (warmup @ items)"
    then consider "i \<in> set warmup" | "i \<in> set items" by auto
    then show "\<not> mi_optional i \<and> mi_category i \<in> set core_categories"
    proof cases
      case 1
      then show ?thesis using wok(3) by (auto simp: core_categories_def)
    next
      case 2
      then obtain sel where "sel \<in> set (core_selections ?r now (ld_axes ld))" "mi_category i = sl_category sel"
          "mi_optional i = sl_optional sel" using cok by blast
      then show ?thesis using core_selections_fields by fastforce
    qed
  qed
  have m: "mset core = mset (warmup @ items)"
    unfolding core_def
    by (rule order_keeps_every_item[OF items_okD(3)[OF both] att]) (use kinds items_okD(4)[OF both] in blast)+
  then have sets: "set core = set (warmup @ items)" by (rule mset_eq_setD)
  have core_ok: "items_ok core {} u1" by (rule items_ok_mset[OF both m[symmetric]])
  have supp_ok: "items_ok supp u1 u2 \<and> (\<forall>i\<in>set supp. \<not> mi_optional i \<and> mi_category i = ''05 TRANSFER-B'' \<and> mi_sha256 i \<in> mc_sha256 ` set ?cs)"
  proof (cases "0 < missing")
    case True
    then have "select g now ?r ?cs (supplement_selection ?r missing) (u1, s1) = (supp, u2, s2)" using sup by simp
    from select_items_ok[OF assms this] show ?thesis by (simp add: supplement_selection_def)
  next
    case False
    then show ?thesis using sup by (simp add: items_ok_Nil)
  qed
  have res_ok: "items_ok res u2 u3" "\<forall>i\<in>set res. mi_optional i \<and> mi_category i = ''09 RESERVE'' \<and> mi_sha256 i \<in> mc_sha256 ` set ?cs"
    using select_items_ok[OF assms res] by (simp_all add: reserve_selection_def)
  have "items_ok (core @ supp @ res) {} u3"
    by (rule items_ok_append[OF core_ok items_ok_append[OF conjunct1[OF supp_ok] res_ok(1)]])
  moreover have "known_items ?cs (core @ supp @ res)"
    using wok(3) cok supp_ok res_ok(2) by (auto simp: known_items_def sets)
  moreover have "\<forall>i\<in>set core. \<not> mi_optional i \<and> mi_category i \<in> set core_categories" using kinds unfolding sets .
  ultimately show ?thesis using supp_ok res_ok(2) unfolding plan_ok_def plan by auto
qed

subsection \<open>The session\<close>

lemma first_seen_facts [simp]: "set (first_seen xs) = set xs" "distinct (first_seen xs)"
  by (simp_all add: first_seen_def)

lemma base_row_sha: "h \<in> set (map q_sha256 rs) \<Longrightarrow> q_sha256 (base_row rs h) = h \<and> base_row rs h \<in> set rs"
proof -
  assume "h \<in> set (map q_sha256 rs)"
  then have "memberships rs h \<noteq> []" by (auto simp: memberships_def filter_empty_conv)
  then have "base_row rs h \<in> set (memberships rs h)" unfolding base_row_def by (rule hd_in_set)
  then show ?thesis by (simp add: memberships_def)
qed

lemma deduped_shas: "map q_sha256 (deduped rs) = charts_of rs"
proof -
  have "q_sha256 (base_row rs h) = h" if "h \<in> set (charts_of rs)" for h
    using that base_row_sha by (simp add: charts_of_def)
  then show ?thesis by (simp add: deduped_def comp_def map_idI)
qed

lemma load_candidates_shas:
  assumes "load_candidates rt rs model cls = Inr ld"
  shows "map mc_sha256 (ld_candidates ld) = charts_of rs"
proof -
  have "ld_candidates ld = map (menu_candidate_of rt rs (compatible_model model) cls) [0..<length (deduped rs)]"
    using assms by (auto simp: load_candidates_def split: if_splits)
  then have "map mc_sha256 (ld_candidates ld) = map (\<lambda>k. q_sha256 (deduped rs ! k)) [0..<length (deduped rs)]"
    by (simp add: menu_candidate_of_def Let_def comp_def)
  also have "\<dots> = map q_sha256 (deduped rs)" by (rule nth_equalityI) simp_all
  finally show ?thesis by (simp add: deduped_shas)
qed

lemma renumber_facts:
  "map mi_sequence (renumber xs) = [1..<Suc (length xs)]"
  "map item_key (renumber xs) = map item_key xs"
  "map mi_category (renumber xs) = map mi_category xs"
  "map mi_optional (renumber xs) = map mi_optional xs"
  "map mi_expected_judged (renumber xs) = map mi_expected_judged xs"
proof -
  show "map mi_sequence (renumber xs) = [1..<Suc (length xs)]"
    by (simp add: renumber_def case_prod_beta comp_def)
qed (rule nth_equalityI; simp add: renumber_def nth_enumerate_eq)+

lemma expected_filter_renumber:
  "expected_total (filter (\<lambda>i. mi_optional i = b) (renumber xs)) = expected_total (filter (\<lambda>i. mi_optional i = b) xs)"
  unfolding renumber_def by (induction xs rule: rev_induct) (simp_all add: expected_total_def enumerate_append_eq)

lemma session_plan:
  assumes "rng_ok g" and "build_session_from_input rt cal g input q now = Inr se"
  obtains pn cs where "plan_ok cs pn" and "map mc_sha256 cs = charts_of (ri_candidates input)"
    and "se_queue se = renumber (pn_core pn @ pn_supplement pn @ pn_reserve pn)"
    and "se_core_expected_judged se = expected_total (pn_core pn) + expected_total (pn_supplement pn)"
    and "se_reserve_expected_judged se = expected_total (pn_reserve pn)"
proof -
  obtain ld settings s where ld: "load_candidates rt (ri_candidates input) (ri_model input) (ri_classifications input) = Inr ld"
    and session: "se_queue se = renumber (pn_core (plan_menu g now settings (ri_warmup_adjustment input) ld s) @
       pn_supplement (plan_menu g now settings (ri_warmup_adjustment input) ld s) @
       pn_reserve (plan_menu g now settings (ri_warmup_adjustment input) ld s))"
      "se_core_expected_judged se = expected_total (pn_core (plan_menu g now settings (ri_warmup_adjustment input) ld s)) +
       expected_total (pn_supplement (plan_menu g now settings (ri_warmup_adjustment input) ld s))"
      "se_reserve_expected_judged se = expected_total (pn_reserve (plan_menu g now settings (ri_warmup_adjustment input) ld s))"
    using assms(2) unfolding build_session_from_input_def py_bind_Inr_iff raise_if_Inr Let_def by auto
  have shas: "map mc_sha256 (ld_candidates ld) = charts_of (ri_candidates input)" by (rule load_candidates_shas[OF ld])
  then have "distinct (map mc_sha256 (ld_candidates ld))" by (simp add: charts_of_def)
  from that[OF plan_menu_ok[OF assms(1) this] shas session] show thesis .
qed

lemma renumbered_item:
  assumes "i \<in> set (renumber xs)"
  obtains j where "j \<in> set xs" and "mi_sha256 i = mi_sha256 j" and "mi_category i = mi_category j"
proof -
  note facts = renumber_facts[of xs]
  have len: "length (renumber xs) = length xs" by (metis facts(2) length_map)
  obtain k where k: "k < length xs" "i = renumber xs ! k" using assms len by (metis in_set_conv_nth)
  have "mi_sha256 i = mi_sha256 (xs ! k)" "mi_category i = mi_category (xs ! k)"
    using arg_cong[OF facts(2), of "\<lambda>l. fst (l ! k)"] arg_cong[OF facts(3), of "\<lambda>l. l ! k"] k len by simp_all
  then show thesis using that[of "xs ! k"] k(1) by simp
qed

lemma session_from_candidates:
  assumes "rng_ok g" and "build_session_from_input rt cal g input q now = Inr se" and "i \<in> set (se_queue se)"
  shows "mi_sha256 i \<in> q_sha256 ` set (ri_candidates input)"
proof -
  obtain pn cs where pn: "plan_ok cs pn" "map mc_sha256 cs = charts_of (ri_candidates input)"
      "se_queue se = renumber (pn_core pn @ pn_supplement pn @ pn_reserve pn)"
    using session_plan[OF assms(1,2)] by metis
  obtain j where j: "j \<in> set (pn_core pn @ pn_supplement pn @ pn_reserve pn)" "mi_sha256 i = mi_sha256 j"
    using renumbered_item assms(3) unfolding pn(3) by metis
  have "mi_sha256 j \<in> set (map mc_sha256 cs)" using pn(1) j(1) by (auto simp: plan_ok_def known_items_def)
  then show ?thesis unfolding pn(2) by (simp add: charts_of_def j(2))
qed

text \<open>C8: the daily menu uses each chart once. In the queue of a session no attempt of a chart occurs twice and all attempts of
  a chart belong to one category; only charts of the input appear; the entries are numbered from 1 without a
  gap; and the two totals of the session are those of the entries that are not optional and that are.\<close>

theorem session_uses_each_chart_once:
  assumes "rng_ok g" and "build_session_from_input rt cal g input q now = Inr se"
  shows "distinct (map (\<lambda>i. (mi_sha256 i, mi_attempt i)) (se_queue se)) \<and>
     (\<forall>i\<in>set (se_queue se). \<forall>j\<in>set (se_queue se). mi_sha256 i = mi_sha256 j \<longrightarrow> mi_category i = mi_category j) \<and>
     mi_sha256 ` set (se_queue se) \<subseteq> q_sha256 ` set (ri_candidates input) \<and>
     map mi_sequence (se_queue se) = [1..<Suc (length (se_queue se))] \<and>
     se_core_expected_judged se = expected_total (filter (\<lambda>i. \<not> mi_optional i) (se_queue se)) \<and>
     se_reserve_expected_judged se = expected_total (filter (\<lambda>i. mi_optional i) (se_queue se))"
proof -
  obtain pn cs where pn: "plan_ok cs pn" "se_queue se = renumber (pn_core pn @ pn_supplement pn @ pn_reserve pn)"
    and totals: "se_core_expected_judged se = expected_total (pn_core pn) + expected_total (pn_supplement pn)"
      "se_reserve_expected_judged se = expected_total (pn_reserve pn)"
    using session_plan[OF assms] by metis
  define all where "all = pn_core pn @ pn_supplement pn @ pn_reserve pn"
  obtain used where ok: "items_ok all {} used" using pn(1) unfolding plan_ok_def all_def by blast
  have q: "se_queue se = renumber all" by (simp add: pn(2) all_def)
  have keys: "map item_key (se_queue se) = map item_key all" and seqs: "map mi_sequence (se_queue se) = [1..<Suc (length all)]"
    unfolding q by (rule renumber_facts)+
  have len: "length (se_queue se) = length all" by (metis keys length_map)
  have "mi_category i = mi_category j" if "i \<in> set (se_queue se)" "j \<in> set (se_queue se)" "mi_sha256 i = mi_sha256 j" for i j
    using that items_okD(4)[OF ok] unfolding q by (metis renumbered_item)
  moreover have parts: "filter (\<lambda>i. mi_optional i = False) all = pn_core pn @ pn_supplement pn"
      "filter (\<lambda>i. mi_optional i = True) all = pn_reserve pn"
    using pn(1) unfolding plan_ok_def all_def by (auto simp: filter_empty_conv intro!: filter_True)
  moreover have "se_core_expected_judged se = expected_total (filter (\<lambda>i. mi_optional i = False) (se_queue se))"
    unfolding q expected_filter_renumber parts totals(1) by (simp add: expected_total_def)
  moreover have "se_reserve_expected_judged se = expected_total (filter (\<lambda>i. mi_optional i = True) (se_queue se))"
    unfolding q expected_filter_renumber parts totals(2) ..
  moreover have "distinct (map item_key (se_queue se))" unfolding keys by (rule items_okD(3)[OF ok])
  moreover have "map mi_sequence (se_queue se) = [1..<Suc (length (se_queue se))]" unfolding len by (rule seqs)
  moreover have "mi_sha256 ` set (se_queue se) \<subseteq> q_sha256 ` set (ri_candidates input)"
    using session_from_candidates[OF assms] by blast
  ultimately show ?thesis unfolding eq_True eq_False by blast
qed

end
