(* ===== verification/Menu_Properties.thy ===== *)
theory Menu_Properties
  imports Menu_Proofs
begin

text \<open>
  Concrete menus, and the spacing of repeated charts: a focus chart comes back exactly four entries after its first
  attempt, and percentile ranks are mid-ranks.
\<close>

subsection \<open>A small menu\<close>

definition sample_rng :: "unit rng" where
  "sample_rng = \<lparr>rg_seed = (\<lambda>_. ()), rg_random = (\<lambda>s. (1 / 2, s)), rg_below = (\<lambda>n s. (n - 1, s))\<rparr>"

lemma sample_rng_ok: "rng_ok sample_rng"
  by (simp add: rng_ok_def sample_rng_def)

definition sample_calendar :: calendar where
  "sample_calendar = \<lparr>cal_zone_ok = (\<lambda>_. True), cal_offset = (\<lambda>_ _. 32400), cal_render = (\<lambda>_. ''2026-01-02''),
     cal_valid = (\<lambda>_. True)\<rparr>"

definition sample_chart_row :: "string \<Rightarrow> candidate_row" where
  "sample_chart_row sha =
     \<lparr>q_sha256 = sha, q_md5 = None, q_title = Some ''song'', q_artist = None, q_notes = 1200, q_table_id = ''stella'',
      q_level = ''1'', q_mode = 0, q_clear = 5, q_playcount = 3, q_last_played = 1000, q_minbp = None,
      q_recent_successes = 0, q_recent_failures = 0, q_recent_played_at = 0, q_recent_second_played_at = 0,
      q_recent_bp_rate = None, q_axis = (\<lambda>_. 1), q_model_scratch = 0, q_feature = (\<lambda>_. None),
      q_chart_seconds = None, q_practice_low = None\<rparr>"

definition sample_input :: recommendation_input where
  "sample_input = \<lparr>ri_profile = default_profile_context\<lparr>pc_settings := Some default_profile_settings\<rparr>, ri_import_id = 1,
     ri_baseline_judged = 0, ri_candidates = [sample_chart_row ''aa'', sample_chart_row ''bb''], ri_model = None,
     ri_table_sources = [], ri_warmup_adjustment = 0, ri_classifications = []\<rparr>"

definition sample_request :: request where
  "sample_request = \<lparr>rq_menu_date = None, rq_readiness = None, rq_target_judged = None, rq_reserve_judged = Some 0\<rparr>"

lemma not_blank_defaults: "\<not> blank ''local-profile''" "\<not> blank ''Personal''" "\<not> blank ''Asia/Tokyo''"
  by (simp_all add: blank_def py_strip_def is_space_def)

lemma sample_session: "\<exists>se. build_session_from_input sample_runtime sample_calendar sample_rng sample_input sample_request 5000 = Inr se"
proof -
  obtain settings where settings: "effective_settings sample_calendar (ri_profile sample_input) sample_request = Inr settings"
      "\<not> blank (ps_timezone settings)"
    by (simp add: effective_settings_def sample_input_def sample_request_def sample_calendar_def check_profile_settings_def
        default_profile_settings_def not_blank_defaults)
  obtain p where "effective_profile sample_calendar (ri_profile sample_input) settings = Inr p"
    using settings(2)
    by (simp add: effective_profile_def sample_input_def check_profile_context_def default_profile_context_def not_blank_defaults)
  then show ?thesis using settings(1)
    by (simp add: build_session_from_input_def load_candidates_def Let_def)
      (simp add: sample_calendar_def sample_input_def)
qed

theorem session_uses_each_chart_once_witness:
  "\<exists>se. build_session_from_input sample_runtime sample_calendar sample_rng sample_input sample_request 5000 = Inr se \<and>
     distinct (map (\<lambda>i. (mi_sha256 i, mi_attempt i)) (se_queue se)) \<and> mi_sha256 ` set (se_queue se) \<subseteq> {''aa'', ''bb''}"
proof -
  obtain se where run: "build_session_from_input sample_runtime sample_calendar sample_rng sample_input sample_request 5000 = Inr se"
    using sample_session by blast
  from session_uses_each_chart_once[OF sample_rng_ok run] show ?thesis
    using run by (intro exI[of _ se]) (simp add: sample_input_def sample_chart_row_def)
qed

definition sample_menu_candidate :: "string \<Rightarrow> menu_candidate" where
  "sample_menu_candidate sha =
     \<lparr>mc_sha256 = sha, mc_mode = 0, mc_md5 = None, mc_title = ''song'', mc_artist = ''artist'', mc_notes = 1200,
      mc_table_id = ''stella'', mc_source_level = ''1'', mc_level_number = Some 1, mc_ratings = [], mc_clear = 5,
      mc_playcount = 3, mc_last_played = 1000, mc_minbp = None, mc_recent_successes = 0, mc_recent_failures = 0,
      mc_recent_played_at = 0, mc_recent_second_played_at = 0, mc_recent_bp_rate = None, mc_p_complete = 9 / 10,
      mc_tier = ''R1 WARMUP'', mc_target = ''NORMAL'', mc_weakness = 1 / 2, mc_primary_axis = ''density'',
      mc_high_load = 1 / 2, mc_feature_score = (\<lambda>_. 0), mc_warmup_feature = (\<lambda>_. None), mc_warmup_score = (\<lambda>_. 0),
      mc_warmup_load = 1 / 2, mc_chart_seconds = None, mc_practice_low = None, mc_classifications = []\<rparr>"

lemma sample_shas: "map mc_sha256 (map sample_menu_candidate hs) = hs"
  by (simp add: sample_menu_candidate_def comp_def)

theorem selection_fills_quota_witness:
  "\<exists>ps s'. picks sample_rng 5000 ''normal'' (map sample_menu_candidate [''aa'', ''bb''])
       (focus_selection ''normal'' ''02 FOCUS-A'' ''density'') ({}, ()) = (ps, s') \<and>
     distinct (pick_shas ps) \<and> snd ` set ps = {sample_menu_candidate ''aa'', sample_menu_candidate ''bb''}"
proof -
  let ?cs = "map sample_menu_candidate [''aa'', ''bb'']" and ?sel = "focus_selection ''normal'' ''02 FOCUS-A'' ''density''"
  obtain ps s' where run: "picks sample_rng 5000 ''normal'' ?cs ?sel ({}, ()) = (ps, s')" by (metis surj_pair)
  have "distinct (map mc_sha256 ?cs)" unfolding sample_shas by simp
  note ok = selection_fills_quota[OF sample_rng_ok this run]
  have eligible: "set (eligible_candidates ?sel ''normal'' {} ?cs) = set ?cs"
    by (auto simp: eligible_candidates_def Let_def selectable_def focus_selection_def sample_menu_candidate_def)
  have "pick_cost ?sel ps < sl_quota ?sel"
  proof -
    have two: "length ps \<le> 2"
    proof -
      have "set (pick_shas ps) \<subseteq> {''aa'', ''bb''}" using ok by (auto simp: sample_menu_candidate_def)
      then have "card (set (pick_shas ps)) \<le> card {''aa'', ''bb''}" by (intro card_mono) simp_all
      moreover have "card (set (pick_shas ps)) = length (pick_shas ps)" using ok by (intro distinct_card) blast
      ultimately show ?thesis by simp
    qed
    have "py_round 1200 = 1200" by (simp add: py_round_def)
    then have "int (sl_attempts ?sel) * expected (snd p) = 2400" if "p \<in> set ps" for p
    proof -
      have "snd p \<in> set ?cs" using ok that by blast
      then show ?thesis using \<open>py_round 1200 = 1200\<close> by (auto simp: focus_selection_def expected_def sample_menu_candidate_def)
    qed
    then have "pick_cost ?sel ps = sum_list (map (\<lambda>_. 2400) ps)" unfolding pick_cost_def by (intro arg_cong[of _ _ sum_list] map_cong refl)
    also have "\<dots> \<le> 4800" using two by (simp add: sum_list_triv)
    finally show ?thesis by (simp add: focus_selection_def quota_def quotas_def)
  qed
  then show ?thesis using run ok unfolding eligible by auto
qed

subsection \<open>Repeats\<close>

lemma map_filter_all: "\<forall>x\<in>set xs. f x \<noteq> None \<Longrightarrow> List.map_filter f xs = map (\<lambda>x. the (f x)) xs"
  by (induction xs) (auto simp: List.map_filter_simps)

lemma order_groups_spacing:
  assumes "\<forall>i\<in>set focus. repeats (mi_sha256 i) \<noteq> None" and "3 \<le> length fillers \<or> 4 dvd length focus" and "j < length focus"
  shows "\<exists>p. p + 4 < length (order_groups repeats focus fillers) \<and> order_groups repeats focus fillers ! p = focus ! j \<and>
     order_groups repeats focus fillers ! (p + 4) = the (repeats (mi_sha256 (focus ! j)))"
  using assms
proof (induction repeats focus fillers arbitrary: j rule: order_groups.induct)
  case (1 repeats focus fillers)
  let ?chunk = "take 4 focus" and ?k = "4 - length (take 4 focus)"
  let ?reps = "map (\<lambda>i. the (repeats (mi_sha256 i))) ?chunk"
  let ?rest = "order_groups repeats (drop 4 focus) (drop ?k fillers)"
  have ne: "focus \<noteq> []" using 1(4) by auto
  have "\<forall>i\<in>set ?chunk. repeats (mi_sha256 i) \<noteq> None" using 1(2) by (auto dest: in_set_takeD)
  then have unfold: "order_groups repeats focus fillers = (?chunk @ take ?k fillers) @ ?reps @ ?rest"
    unfolding order_groups.simps[of repeats focus fillers] if_not_P[OF ne] Let_def by (simp add: map_filter_all)
  have k: "?k \<le> length fillers"
  proof (cases "4 \<le> length focus")
    case True
    then show ?thesis by simp
  next
    case False
    then have "\<not> 4 dvd length focus" using ne by (auto dest: dvd_imp_le)
    then have "3 \<le> length fillers" using 1(3) by blast
    moreover have "1 \<le> length ?chunk" using ne by (cases focus) simp_all
    ultimately show ?thesis by simp
  qed
  then have four: "length (?chunk @ take ?k fillers) = 4" by simp
  show ?case
  proof (cases "j < 4")
    case True
    then have j: "j < length ?chunk" "?chunk ! j = focus ! j" using 1(4) by simp_all
    have "order_groups repeats focus fillers ! j = focus ! j"
      unfolding unfold using j True four by (simp add: nth_append)
    moreover have "order_groups repeats focus fillers ! (j + 4) = (?reps @ ?rest) ! j"
      unfolding unfold nth_append[of "?chunk @ take ?k fillers"] four by simp
    moreover have "(?reps @ ?rest) ! j = the (repeats (mi_sha256 (focus ! j)))" using j by (simp add: nth_append)
    moreover have "j + 4 < length (order_groups repeats focus fillers)"
      unfolding unfold length_append[of "?chunk @ take ?k fillers"] four length_append[of ?reps] length_map
      using trans_less_add1[OF j(1), of "length ?rest"] by linarith
    ultimately show ?thesis by metis
  next
    case False
    have full: "4 \<le> length focus" using False 1(4) by simp
    have "\<exists>p. p + 4 < length ?rest \<and> ?rest ! p = drop 4 focus ! (j - 4) \<and>
        ?rest ! (p + 4) = the (repeats (mi_sha256 (drop 4 focus ! (j - 4))))"
    proof (rule 1(1)[OF ne refl refl])
      show "\<forall>i\<in>set (drop 4 focus). repeats (mi_sha256 i) \<noteq> None" using 1(2) by (auto dest: in_set_dropD)
      show "3 \<le> length (drop ?k fillers) \<or> 4 dvd length (drop 4 focus)" using 1(3) full by (auto simp: dvd_diff_nat)
      show "j - 4 < length (drop 4 focus)" using 1(4) False by simp
    qed
    then obtain p where p: "p + 4 < length ?rest" "?rest ! p = focus ! j" "?rest ! (p + 4) = the (repeats (mi_sha256 (focus ! j)))"
      using False full by auto
    have eight: "order_groups repeats focus fillers = ((?chunk @ take ?k fillers) @ ?reps) @ ?rest" unfolding unfold by simp
    have len: "length ((?chunk @ take ?k fillers) @ ?reps) = 8" unfolding length_append[of "?chunk @ take ?k fillers"] four using full by simp
    have "order_groups repeats focus fillers ! (8 + q) = ?rest ! q" for q
      unfolding eight nth_append[of "(?chunk @ take ?k fillers) @ ?reps"] len by simp
    from this[of p] this[of "p + 4"] p have "order_groups repeats focus fillers ! (8 + p) = focus ! j"
        "order_groups repeats focus fillers ! (8 + p + 4) = the (repeats (mi_sha256 (focus ! j)))"
      by (simp_all add: add.assoc)
    moreover have "8 + p + 4 < length (order_groups repeats focus fillers)"
      unfolding eight length_append[of "(?chunk @ take ?k fillers) @ ?reps"] len using p(1) by simp
    ultimately show ?thesis by blast
  qed
qed

text \<open>A focus chart is repeated exactly four entries after its first attempt, wherever it stands in the menu, provided every
  focus chart has a repeat and the last group of fewer than four can be filled up.\<close>

theorem repeats_four_apart:
  assumes "focus = filter (\<lambda>i. mi_attempt i = 1) (core ''02 FOCUS-A'' @ core ''04 FOCUS-B'')"
    and "later = filter (\<lambda>i. mi_attempt i \<noteq> 1) (core ''02 FOCUS-A'' @ core ''04 FOCUS-B'')"
    and "mi_sha256 ` set focus \<subseteq> mi_sha256 ` set later"
    and "3 \<le> length (concat (map core [''03 TRANSFER-A'', ''05 TRANSFER-B'', ''06 LAMP'', ''07 REVIEW'', ''08 PROBE'']))"
    and "i \<in> set focus"
  shows "\<exists>p. p + 4 < length (order_menu core) \<and> order_menu core ! p = i \<and>
     mi_sha256 (order_menu core ! (p + 4)) = mi_sha256 i \<and> order_menu core ! (p + 4) \<in> set later"
proof -
  let ?rep = "map_of (rev (map (\<lambda>i. (mi_sha256 i, i)) later))"
  let ?fill = "core ''03 TRANSFER-A'' @ core ''05 TRANSFER-B'' @ core ''06 LAMP'' @ core ''07 REVIEW'' @ core ''08 PROBE''"
  have menu: "order_menu core = core ''01 WARMUP'' @ order_groups ?rep focus ?fill"
    unfolding order_menu_def Let_def assms(1,2) ..
  have some: "\<exists>i'\<in>set later. ?rep h = Some i' \<and> mi_sha256 i' = h" if "h \<in> mi_sha256 ` set later" for h
  proof -
    have "?rep h \<noteq> None" using that by (auto simp: map_of_eq_None_iff image_image)
    then obtain i' where "?rep h = Some i'" by blast
    then show ?thesis by (auto dest!: map_of_SomeD)
  qed
  have all: "\<forall>i\<in>set focus. ?rep (mi_sha256 i) \<noteq> None"
  proof
    fix i
    assume "i \<in> set focus"
    then have "mi_sha256 i \<in> mi_sha256 ` set later" using assms(3) by blast
    from some[OF this] show "?rep (mi_sha256 i) \<noteq> None" by (metis option.distinct(1))
  qed
  obtain j where j: "j < length focus" "focus ! j = i" using assms(5) by (metis in_set_conv_nth)
  have "3 \<le> length ?fill \<or> 4 dvd length focus" using assms(4) by simp
  from order_groups_spacing[OF all this j(1)] obtain p where p: "p + 4 < length (order_groups ?rep focus ?fill)"
    "order_groups ?rep focus ?fill ! p = i" "order_groups ?rep focus ?fill ! (p + 4) = the (?rep (mi_sha256 i))"
    unfolding j(2) by blast
  obtain i' where "i' \<in> set later" "?rep (mi_sha256 i) = Some i'" "mi_sha256 i' = mi_sha256 i"
    using some[of "mi_sha256 i"] assms(3,5) by blast
  then show ?thesis using p unfolding menu
    by (intro exI[of _ "length (core ''01 WARMUP'') + p"]) (simp add: nth_append)
qed

definition sample_item :: "string \<Rightarrow> string \<Rightarrow> nat \<Rightarrow> menu_item" where
  "sample_item sha category attempt =
     to_item (sample_menu_candidate sha) category ''reason'' attempt False False None None None"

definition sample_core :: "string \<Rightarrow> menu_item list" where
  "sample_core category =
     (if category = ''02 FOCUS-A'' then [sample_item ''aa'' category 1, sample_item ''aa'' category 2]
      else if category = ''07 REVIEW'' then map (\<lambda>h. sample_item h category 1) [''bb'', ''cc'', ''dd'']
      else [])"

theorem repeats_four_apart_witness:
  "\<exists>p. p + 4 < length (order_menu sample_core) \<and> order_menu sample_core ! p = sample_item ''aa'' ''02 FOCUS-A'' 1 \<and>
     order_menu sample_core ! (p + 4) = sample_item ''aa'' ''02 FOCUS-A'' 2"
proof -
  have fields: "mi_attempt (sample_item h c k) = k" "mi_sha256 (sample_item h c k) = h" for h c k
    by (simp_all add: sample_item_def to_item_def sample_menu_candidate_def)
  have focus: "[sample_item ''aa'' ''02 FOCUS-A'' 1] =
      filter (\<lambda>i. mi_attempt i = 1) (sample_core ''02 FOCUS-A'' @ sample_core ''04 FOCUS-B'')"
    by (simp add: sample_core_def fields)
  have later: "[sample_item ''aa'' ''02 FOCUS-A'' 2] =
      filter (\<lambda>i. mi_attempt i \<noteq> 1) (sample_core ''02 FOCUS-A'' @ sample_core ''04 FOCUS-B'')"
    by (simp add: sample_core_def fields)
  have fill: "3 \<le> length (concat (map sample_core [''03 TRANSFER-A'', ''05 TRANSFER-B'', ''06 LAMP'', ''07 REVIEW'', ''08 PROBE'']))"
    by (simp add: sample_core_def)
  from repeats_four_apart[OF focus later _ fill, of "sample_item ''aa'' ''02 FOCUS-A'' 1"]
  have "\<exists>p. p + 4 < length (order_menu sample_core) \<and> order_menu sample_core ! p = sample_item ''aa'' ''02 FOCUS-A'' 1 \<and>
      mi_sha256 (order_menu sample_core ! (p + 4)) = ''aa'' \<and> order_menu sample_core ! (p + 4) = sample_item ''aa'' ''02 FOCUS-A'' 2"
    by (simp add: fields)
  then show ?thesis by blast
qed

subsection \<open>An empty reserve\<close>

text \<open>The loop of \<open>_select\<close> tests its quota only after a pick, so a reserve of zero notes still receives a chart.\<close>

lemma empty_reserve_receives_a_chart:
  assumes "rng_ok g" and "distinct (map mc_sha256 cs)" and "c \<in> set cs" and "selectable readiness used c"
    and "select g now readiness cs (reserve_selection readiness 0) (used, s) = (items, used', s')"
  shows "items \<noteq> []"
proof
  assume empty: "items = []"
  obtain ps s1 where run: "picks g now readiness cs (reserve_selection readiness 0) (used, s) = (ps, s1)" by (metis surj_pair)
  have "concat (map (\<lambda>(e, c). chart_items (reserve_selection readiness 0) e c) ps) = []"
    using assms(5) empty by (simp add: select_def run)
  then have "ps = []" by (cases ps) (auto simp: chart_items_def reserve_selection_def)
  obtain ordered s2 where r: "ranked g (reserve_selection readiness 0) now readiness
      (eligible_candidates (reserve_selection readiness 0) readiness used cs) s = (ordered, s2)" by (metis surj_pair)
  have "c \<in> set (eligible_candidates (reserve_selection readiness 0) readiness used cs) \<or>
      eligible_candidates (reserve_selection readiness 0) readiness used cs \<noteq> []"
    using assms(3,4) by (auto simp: eligible_candidates_def Let_def reserve_selection_def)
  then have "eligible_candidates (reserve_selection readiness 0) readiness used cs \<noteq> []" by auto
  then have "ordered \<noteq> []" using ranked_mset[of g "reserve_selection readiness 0" now readiness
      "eligible_candidates (reserve_selection readiness 0) readiness used cs" s] by (auto simp: r)
  then obtain n where n: "length ordered = Suc n" by (cases ordered) auto
  have "fst (pick_loop g (reserve_selection readiness 0) (Suc n) 0 0 ordered s2) \<noteq> []"
    using \<open>ordered \<noteq> []\<close> by (auto simp: Let_def split: prod.splits if_splits)
  then show False using run \<open>ps = []\<close> by (simp add: picks_def r n)
qed

end
