(* ===== verification/Histories.thy ===== *)
theory Histories
  imports Oraja_Prelude
begin

text \<open>
  Histories of operations: the two contracts that the long-lived states of the program satisfy, an invariant that every operation
  preserves and a relation between an old and a new state that every operation respects, with what follows for any sequence.
\<close>

locale preserved =
  fixes step :: "'s \<Rightarrow> 'r \<Rightarrow> 's" and ok :: "'s \<Rightarrow> bool"
  assumes step_ok: "ok s \<Longrightarrow> ok (step s r)"
begin

lemma run_ok: "ok s \<Longrightarrow> ok (foldl step s rs)"
  by (induction rs arbitrary: s) (simp_all add: step_ok)

end

locale history =
  fixes step :: "'s \<Rightarrow> 'r \<Rightarrow> 's" and keeps :: "'s \<Rightarrow> 's \<Rightarrow> bool"
  assumes keeps_refl: "keeps s s"
    and keeps_trans: "keeps s t \<Longrightarrow> keeps t u \<Longrightarrow> keeps s u"
    and step_keeps: "keeps s (step s r)"

sublocale history \<subseteq> kept: preserved step "keeps s" for s
  by unfold_locales (rule keeps_trans[OF _ step_keeps])

context history
begin

lemma run_keeps: "keeps s (foldl step s rs)"
  by (rule kept.run_ok[OF keeps_refl])

text \<open>A later state of a history keeps what an earlier one had.\<close>

lemma later_keeps: "m \<le> n \<Longrightarrow> keeps (foldl step s (take m rs)) (foldl step s (take n rs))"
  by (metis foldl_append le_Suc_ex run_keeps take_add)

end

end
