(* ===== verification/Menu_Publish.thy ===== *)
theory Menu_Publish
  imports Menu_Properties Histories
begin

text \<open>
  The publishing half of \<open>plan/menu.py\<close>: the table documents of a session, their content hash, and \<open>write_export\<close>,
  which writes them to an immutable revision directory and advances the pointer \<open>latest.json\<close>. A document is a
  \<open>pyval\<close>; the two JSON renderings and the parser are the record \<open>json_codec\<close>, the two fixed sentences of the review
  document the function \<open>jc_sentence\<close>. The directory is its revisions and its compatibility view, as bytes by
  path; failures of the operating system are not modelled.
\<close>

record json_codec =
  jc_indented :: "pyval \<Rightarrow> string"
  jc_canonical :: "pyval \<Rightarrow> string"
  jc_parse :: "string \<Rightarrow> pyval option"
  jc_sentence :: "bool \<Rightarrow> string"

record export_store =
  xs_revisions :: "(string \<times> (string \<times> string) list) list"
  xs_view :: "(string \<times> string) list"

record artifact_revision =
  ar_revision :: int
  ar_content_hash :: string
  ar_root :: string
  ar_published :: bool

subsection \<open>Documents\<close>

definition text_value :: "string option \<Rightarrow> pyval" where
  "text_value t = (case t of None \<Rightarrow> PNone | Some s \<Rightarrow> PStr s)"

definition texts :: "string list \<Rightarrow> pyval" where
  "texts ts = PList (map PStr ts)"

definition real_value :: "real \<Rightarrow> pyval" where
  "real_value x = PFloat (Fin x)"

fun join_with :: "string \<Rightarrow> string list \<Rightarrow> string" where
  "join_with sep [] = []"
| "join_with sep [t] = t"
| "join_with sep (t # u # ts) = t @ sep @ join_with sep (u # ts)"

definition header_document :: "string \<Rightarrow> string \<Rightarrow> string list \<Rightarrow> pyval" where
  "header_document name symbol order =
     PDict [(''name'', PStr name), (''symbol'', PStr symbol), (''data_url'', PStr ''score.json''),
            (''level_order'', texts order), (''mode'', PStr ''beat-7k'')]"

definition classification_comment :: "menu_candidate \<Rightarrow> string" where
  "classification_comment c =
     (if mc_classifications c = [] then []
      else '' / patterns '' @ join_with '', '' (map (\<lambda>v. cl_scale v @ cl_level v) (mc_classifications c)))"

definition recommend_entry :: "menu_candidate \<Rightarrow> pyval" where
  "recommend_entry c =
     PDict [(''sha256'', PStr (mc_sha256 c)), (''md5'', text_value (mc_md5 c)), (''level'', PStr (mc_tier c)),
            (''title'', PStr (mc_title c)), (''artist'', PStr (mc_artist c)),
            (''comment'', PStr (join_with '' + '' (map (\<lambda>r. ra_table_id r @ '' '' @ ra_source_level r) (mc_ratings c)) @
               '' / target '' @ mc_target c @ classification_comment c))]"

definition today_entry :: "menu_item \<Rightarrow> pyval" where
  "today_entry i =
     PDict [(''sha256'', PStr (mi_sha256 i)), (''md5'', text_value (mi_md5 i)), (''level'', PStr (mi_category i)),
            (''title'', PStr (mi_title i)), (''artist'', PStr (mi_artist i)),
            (''comment'', PStr (''#'' @ show_nat (mi_sequence i) @ '' / '' @ mi_target i @ '' / '' @ mi_reason i))]"

text \<open>The first entry of every chart, in queue order.\<close>

fun first_entries :: "string set \<Rightarrow> menu_item list \<Rightarrow> menu_item list" where
  "first_entries seen [] = []"
| "first_entries seen (i # is) =
     (if mi_sha256 i \<in> seen then first_entries seen is
      else i # first_entries (insert (mi_sha256 i) seen) is)"

definition recommend_levels :: "string list" where
  "recommend_levels = [''R0 RECOVERY'', ''R1 WARMUP'', ''R2 GROWTH'', ''R3 CHALLENGE'', ''R4 FUTURE'']"

definition table_payloads :: "session \<Rightarrow> (string \<times> pyval) list" where
  "table_payloads se =
     (let display = pc_display_name (se_profile se) in
      [(''table/recommend/header.json'', header_document (display @ '' Personal Recommend'') ''R'' recommend_levels),
       (''table/recommend/score.json'', PList (map recommend_entry (se_personal se))),
       (''table/today/header.json'', header_document (display @ '' Daily '' @ se_menu_date se) ''D'' level_order),
       (''table/today/score.json'', PList (map today_entry (first_entries {} (se_queue se))))])"

definition artifact_content_hash :: "runtime \<Rightarrow> json_codec \<Rightarrow> (string \<times> pyval) list \<Rightarrow> string" where
  "artifact_content_hash rt codec payloads =
     sha256_hex rt (concat (map (\<lambda>(name, v). name @ [CHR 0x00] @ jc_canonical codec v @ [CHR 0x0A])
       (sort_key fst payloads)))"

definition frontier_document :: "frontier \<Rightarrow> pyval" where
  "frontier_document f =
     PDict [(''table_id'', PStr (fo_table_id f)), (''easy'', real_value (fo_easy f)), (''normal'', real_value (fo_normal f)),
            (''hard'', real_value (fo_hard f)), (''warmup_anchor'', real_value (fo_warmup_anchor f)),
            (''observations'', PInt (int (fo_observations f))), (''hard_clears'', PInt (int (fo_hard_clears f)))]"

definition manifest_entries :: "session \<Rightarrow> int \<Rightarrow> string \<Rightarrow> row" where
  "manifest_entries se revision content_hash =
     [(''menu_date'', PStr (se_menu_date se)), (''generated_at'', PInt (se_generated_at se)), (''seed'', PStr (se_seed se)),
      (''readiness'', PStr (se_readiness se)), (''target_judged'', PInt (se_target_judged se)),
      (''baseline_judged'', PInt (se_baseline_judged se)), (''core_expected_judged'', PInt (se_core_expected_judged se)),
      (''reserve_expected_judged'', PInt (se_reserve_expected_judged se)), (''weakness_axes'', texts (se_weakness_axes se)),
      (''import_id'', PInt (se_import_id se)), (''model_version'', PInt (se_model_version se)),
      (''model_status'', PStr (se_model_status se)),
      (''table_frontiers'', PList (map frontier_document (se_table_frontiers se))),
      (''table_warnings'', texts (se_table_warnings se)), (''warmup_adjustment'', PInt (se_warmup_adjustment se)),
      (''revision'', PInt revision), (''content_hash'', PStr content_hash),
      (''timezone'', PStr (pc_timezone (se_profile se)))]"

definition item_document :: "menu_item \<Rightarrow> pyval" where
  "item_document i =
     PDict [(''sequence'', PInt (int (mi_sequence i))), (''sha256'', PStr (mi_sha256 i)), (''mode'', PInt (mi_mode i)),
            (''md5'', text_value (mi_md5 i)), (''title'', PStr (mi_title i)), (''artist'', PStr (mi_artist i)),
            (''notes'', PInt (mi_notes i)), (''expected_judged'', PInt (mi_expected_judged i)),
            (''category'', PStr (mi_category i)), (''table_id'', PStr (mi_table_id i)),
            (''source_level'', PStr (mi_source_level i)), (''band'', PStr (mi_band i)),
            (''p_complete'', real_value (mi_p_complete i)), (''target'', PStr (mi_target i)),
            (''reason'', PStr (mi_reason i)), (''attempt'', PInt (int (mi_attempt i))),
            (''optional'', PBool (mi_optional i)), (''is_exploration'', PBool (mi_is_exploration i))]"

definition revision_files :: "json_codec \<Rightarrow> session \<Rightarrow> int \<Rightarrow> string \<Rightarrow> (string \<times> pyval) list" where
  "revision_files codec se revision content_hash =
     table_payloads se @
     [(''manifest.json'', PDict (manifest_entries se revision content_hash)),
      (''session.json'', PDict (manifest_entries se revision content_hash @
         [(''queue'', PList (map item_document (se_queue se)))])),
      (''review/latest.json'', PDict
         [(''menu_date'', PStr (se_menu_date se)), (''status'', PStr (se_model_status se)),
          (''message'', PStr (jc_sentence codec (se_model_version se \<noteq> 0))),
          (''weakness_axes'', texts (se_weakness_axes se)), (''table_warnings'', texts (se_table_warnings se)),
          (''warmup_adjustment'', PInt (se_warmup_adjustment se))])]"

subsection \<open>Writing\<close>

text \<open>\<open>_immutable_json\<close> on the files of one directory: create, or insist on equal bytes.\<close>

definition immutable_json ::
    "json_codec \<Rightarrow> (string \<times> string) list \<Rightarrow> string \<times> pyval \<Rightarrow> unit py \<times> (string \<times> string) list" where
  "immutable_json codec files = (\<lambda>(path, v).
     case map_of files path of
       Some bytes \<Rightarrow>
         (if bytes \<noteq> jc_indented codec v then Inl (RevisionConflictError ''immutable artifact conflict'') else Inr (), files)
     | None \<Rightarrow> (Inr (), (path, jc_indented codec v) # files))"

fun immutable_files ::
    "json_codec \<Rightarrow> (string \<times> string) list \<Rightarrow> (string \<times> pyval) list \<Rightarrow> unit py \<times> (string \<times> string) list" where
  "immutable_files codec files [] = (Inr (), files)"
| "immutable_files codec files (d # ds) =
     (case immutable_json codec files d of
        (Inl e, files') \<Rightarrow> (Inl e, files')
      | (Inr u, files') \<Rightarrow> immutable_files codec files' ds)"

text \<open>A new revision is written beside its place and renamed; if that fails half way, nothing of it stays.\<close>

definition write_revision_directory ::
    "json_codec \<Rightarrow> string \<Rightarrow> (string \<times> pyval) list \<Rightarrow> export_store \<Rightarrow> unit py \<times> export_store" where
  "write_revision_directory codec name docs st =
     (case map_of (xs_revisions st) name of
        Some files \<Rightarrow>
          (let (r, files') = immutable_files codec files docs
           in (r, st\<lparr>xs_revisions := AList.update name files' (xs_revisions st)\<rparr>))
      | None \<Rightarrow>
          (case immutable_files codec [] docs of
             (Inl e, files) \<Rightarrow> (Inl e, st)
           | (Inr u, files) \<Rightarrow> (Inr (), st\<lparr>xs_revisions := AList.update name files (xs_revisions st)\<rparr>)))"

definition latest_pointer :: "json_codec \<Rightarrow> export_store \<Rightarrow> row" where
  "latest_pointer codec st =
     (case Option.bind (map_of (xs_view st) ''latest.json'') (jc_parse codec) of
        Some (PDict d) \<Rightarrow> d
      | _ \<Rightarrow> [])"

text \<open>\<open>int(pointer.get("revision", 0) or 0)\<close>.\<close>

definition pointer_revision :: "row \<Rightarrow> int py" where
  "pointer_revision d = int_or_zero d ''revision''"

definition revision_name :: "int \<Rightarrow> string \<Rightarrow> string" where
  "revision_name revision content_hash = show_int revision @ ''-'' @ content_hash"

definition pointer_document :: "int \<Rightarrow> string \<Rightarrow> row" where
  "pointer_document revision content_hash =
     [(''revision'', PInt revision), (''content_hash'', PStr content_hash),
      (''object_prefix'', PStr (''revisions/'' @ revision_name revision content_hash))]"

definition publish_view :: "json_codec \<Rightarrow> (string \<times> pyval) list \<Rightarrow> int \<Rightarrow> string \<Rightarrow> export_store \<Rightarrow> export_store" where
  "publish_view codec docs revision content_hash st =
     st\<lparr>xs_view := AList.update ''latest.json'' (jc_indented codec (PDict (pointer_document revision content_hash)))
          (foldl (\<lambda>view (path, v). AList.update path (jc_indented codec v) view) (xs_view st) docs)\<rparr>"

definition write_export ::
    "runtime \<Rightarrow> json_codec \<Rightarrow> session \<Rightarrow> int option \<Rightarrow> export_store \<Rightarrow> artifact_revision py \<times> export_store" where
  "write_export rt codec se requested st =
     (let content_hash = artifact_content_hash rt codec (table_payloads se);
          pointer = latest_pointer codec st
      in case pointer_revision pointer of
           Inl e \<Rightarrow> (Inl e, st)
         | Inr current \<Rightarrow>
             let revision = (case requested of None \<Rightarrow> current + 1 | Some r \<Rightarrow> r) in
             if revision \<le> 0 then (Inl (RevisionConflictError ''revision must be positive''), st)
             else if revision = current \<and> get_item pointer ''content_hash'' \<noteq> PStr content_hash
               then (Inl (RevisionConflictError ''revision already points to different content''), st)
             else
               let docs = revision_files codec se revision content_hash;
                   name = revision_name revision content_hash
               in case write_revision_directory codec name docs st of
                    (Inl e, st1) \<Rightarrow> (Inl e, st1)
                  | (Inr u, st1) \<Rightarrow>
                      let published = current < revision
                      in (Inr \<lparr>ar_revision = revision, ar_content_hash = content_hash, ar_root = ''revisions/'' @ name,
                               ar_published = published\<rparr>,
                          if published then publish_view codec docs revision content_hash st1 else st1))"

text \<open>A history of exports into one directory, each request a session and the revision asked for.\<close>

definition export_step :: "runtime \<Rightarrow> json_codec \<Rightarrow> export_store \<Rightarrow> session \<times> int option \<Rightarrow> export_store" where
  "export_step rt codec st = (\<lambda>(se, requested). snd (write_export rt codec se requested st))"

definition write_exports :: "runtime \<Rightarrow> json_codec \<Rightarrow> export_store \<Rightarrow> (session \<times> int option) list \<Rightarrow> export_store" where
  "write_exports rt codec = foldl (export_step rt codec)"

subsection \<open>Immutable files\<close>

lemma immutable_json_keeps:
  "immutable_json codec files d = (r, files') \<Longrightarrow> map_of files path = Some bytes \<Longrightarrow>
     map_of files' path = Some bytes"
  by (cases d) (auto simp: immutable_json_def split: option.splits if_splits)

lemma immutable_files_keeps:
  "immutable_files codec files ds = (r, files') \<Longrightarrow> map_of files path = Some bytes \<Longrightarrow>
     map_of files' path = Some bytes"
proof (induction ds arbitrary: files)
  case (Cons d ds)
  obtain r1 files1 where one: "immutable_json codec files d = (r1, files1)" by fastforce
  have "map_of files1 path = Some bytes" by (rule immutable_json_keeps[OF one Cons.prems(2)])
  with Cons one show ?case by (auto split: sum.splits)
qed simp

lemma immutable_files_written:
  "immutable_files codec files ds = (Inr u, files') \<Longrightarrow> (path, v) \<in> set ds \<Longrightarrow>
     map_of files' path = Some (jc_indented codec v)"
proof (induction ds arbitrary: files)
  case (Cons d ds)
  obtain r1 files1 where one: "immutable_json codec files d = (r1, files1)" by fastforce
  with Cons.prems(1) have rest: "immutable_files codec files1 ds = (Inr u, files')" and ok: "r1 = Inr ()"
    by (auto split: sum.splits)
  show ?case
  proof (cases "d = (path, v)")
    case True
    with one ok have "map_of files1 path = Some (jc_indented codec v)"
      by (auto simp: immutable_json_def split: option.splits if_splits)
    then show ?thesis by (rule immutable_files_keeps[OF rest])
  next
    case False
    with Cons.prems(2) show ?thesis by (auto intro: Cons.IH[OF rest])
  qed
qed simp

lemma write_revision_keeps:
  assumes "write_revision_directory codec name docs st = (r, st')"
    and "map_of (xs_revisions st) old = Some files" and "map_of files path = Some bytes"
  shows "\<exists>files'. map_of (xs_revisions st') old = Some files' \<and> map_of files' path = Some bytes"
  using assms
  apply (auto simp: write_revision_directory_def update_conv Let_def split: option.splits prod.splits sum.splits)
  by (rule immutable_files_keeps)

lemma write_revision_written:
  assumes "write_revision_directory codec name docs st = (Inr u, st')"
  shows "\<exists>files. map_of (xs_revisions st') name = Some files \<and>
           (\<forall>(path, v)\<in>set docs. map_of files path = Some (jc_indented codec v))"
  using assms
  by (auto simp: write_revision_directory_def update_conv Let_def dest: immutable_files_written
           split: option.splits prod.splits sum.splits)

lemma write_revision_view [simp]:
  "write_revision_directory codec name docs st = (r, st') \<Longrightarrow> xs_view st' = xs_view st"
  by (auto simp: write_revision_directory_def Let_def split: option.splits prod.splits sum.splits)

lemma publish_view_revisions [simp]:
  "xs_revisions (publish_view codec docs revision content_hash st) = xs_revisions st"
  by (simp add: publish_view_def)

text \<open>Every way an export can end.\<close>

lemma write_export_cases:
  assumes "write_export rt codec se requested st = (r, st')"
  obtains (refused) e where "r = Inl e" "st' = st"
    | (conflict) e name docs where "r = Inl e" "write_revision_directory codec name docs st = (Inl e, st')"
    | (written) current revision content_hash docs st1 where
        "content_hash = artifact_content_hash rt codec (table_payloads se)"
        "pointer_revision (latest_pointer codec st) = Inr current" "0 < revision"
        "revision = current \<Longrightarrow> get_item (latest_pointer codec st) ''content_hash'' = PStr content_hash"
        "revision = (case requested of None \<Rightarrow> current + 1 | Some r \<Rightarrow> r)"
        "docs = revision_files codec se revision content_hash"
        "write_revision_directory codec (revision_name revision content_hash) docs st = (Inr (), st1)"
        "r = Inr \<lparr>ar_revision = revision, ar_content_hash = content_hash,
                 ar_root = ''revisions/'' @ revision_name revision content_hash, ar_published = (current < revision)\<rparr>"
        "st' = (if current < revision then publish_view codec docs revision content_hash st1 else st1)"
proof (cases "pointer_revision (latest_pointer codec st)")
  case (Inl e)
  with assms refused show thesis by (auto simp: write_export_def Let_def)
next
  case (Inr current)
  let ?hash = "artifact_content_hash rt codec (table_payloads se)"
  let ?rev = "case requested of None \<Rightarrow> current + 1 | Some r \<Rightarrow> r"
  show thesis
  proof (cases "?rev \<le> 0 \<or> ?rev = current \<and> get_item (latest_pointer codec st) ''content_hash'' \<noteq> PStr ?hash")
    case True
    with assms Inr refused show thesis by (auto simp: write_export_def Let_def split: if_splits)
  next
    case False
    obtain r1 st1 where one: "write_revision_directory codec (revision_name ?rev ?hash)
        (revision_files codec se ?rev ?hash) st = (r1, st1)" by fastforce
    note body = assms[unfolded write_export_def Let_def Inr sum.case if_not_P[OF conjunct1[OF False[simplified de_Morgan_disj]]]
        if_not_P[OF conjunct2[OF False[simplified de_Morgan_disj]]] one prod.case]
    show thesis
    proof (cases r1)
      case (Inl e)
      with body one show thesis by (intro conflict) auto
    next
      case (Inr u)
      with body one False \<open>pointer_revision (latest_pointer codec st) = Inr current\<close> show thesis
        by (intro written[of ?hash current ?rev _ st1, OF refl _ _ _ refl refl]) auto
    qed
  qed
qed

lemma write_export_keeps:
  assumes "write_export rt codec se requested st = (r, st')"
    and "map_of (xs_revisions st) old = Some files" and "map_of files path = Some bytes"
  shows "\<exists>files'. map_of (xs_revisions st') old = Some files' \<and> map_of files' path = Some bytes"
  using assms(1)
proof (cases rule: write_export_cases)
  case refused
  with assms show ?thesis by simp
next
  case conflict
  then show ?thesis using write_revision_keeps assms(2,3) by blast
next
  case written
  from write_revision_keeps[OF written(7) assms(2,3)] written(9) show ?thesis by simp
qed

definition keeps_files :: "export_store \<Rightarrow> export_store \<Rightarrow> bool" where
  "keeps_files st st' \<longleftrightarrow>
     (\<forall>name files path bytes. map_of (xs_revisions st) name = Some files \<longrightarrow> map_of files path = Some bytes \<longrightarrow>
        (\<exists>files'. map_of (xs_revisions st') name = Some files' \<and> map_of files' path = Some bytes))"

interpretation exports: history "export_step rt codec" keeps_files for rt codec
proof
  fix st st' st'' :: export_store and r :: "session \<times> int option"
  show "keeps_files st st" by (simp add: keeps_files_def)
  show "keeps_files st st' \<Longrightarrow> keeps_files st' st'' \<Longrightarrow> keeps_files st st''" unfolding keeps_files_def by blast
  obtain se requested where r: "r = (se, requested)" by fastforce
  obtain a st1 where one: "write_export rt codec se requested st = (a, st1)" by fastforce
  show "keeps_files st (export_step rt codec st r)"
    unfolding keeps_files_def using write_export_keeps[OF one] by (simp add: export_step_def r one)
qed

text \<open>C10: Over any history of exports, a file of a published revision directory is never removed and its bytes never
  change, whatever sessions and revision numbers are exported later and whether they succeed or fail.\<close>

theorem revisions_are_immutable:
  assumes "map_of (xs_revisions st) name = Some files" and "map_of files path = Some bytes"
  shows "\<exists>files'. map_of (xs_revisions (write_exports rt codec st requests)) name = Some files' \<and>
           map_of files' path = Some bytes"
  using exports.run_keeps[where s = st] assms unfolding write_exports_def keeps_files_def by blast

subsection \<open>The published view\<close>

definition document_names :: "string list" where
  "document_names = [''table/recommend/header.json'', ''table/recommend/score.json'', ''table/today/header.json'',
     ''table/today/score.json'', ''manifest.json'', ''session.json'', ''review/latest.json'']"

lemma revision_files_names: "map fst (revision_files codec se revision content_hash) = document_names"
  by (simp add: revision_files_def table_payloads_def Let_def document_names_def)

lemma document_names_distinct: "distinct (''latest.json'' # document_names)"
  unfolding document_names_def by code_simp

lemma foldl_update_other:
  "path \<notin> fst ` set docs \<Longrightarrow>
     map_of (foldl (\<lambda>view (p, v). AList.update p (f v) view) view docs) path = map_of view path"
  by (induction docs arbitrary: view) (auto simp: update_conv)

lemma foldl_update_written:
  "distinct (map fst docs) \<Longrightarrow> (path, v) \<in> set docs \<Longrightarrow>
     map_of (foldl (\<lambda>view (p, v). AList.update p (f v) view) view docs) path = Some (f v)"
proof (induction docs arbitrary: view)
  case (Cons d docs)
  show ?case
  proof (cases "d = (path, v)")
    case True
    with Cons.prems(1) have "path \<notin> fst ` set docs" by auto
    with True show ?thesis by (simp add: foldl_update_other update_conv)
  next
    case False
    with Cons show ?thesis by auto
  qed
qed simp

lemma publish_view_pointer:
  "map_of (xs_view (publish_view codec docs revision content_hash st)) ''latest.json'' =
     Some (jc_indented codec (PDict (pointer_document revision content_hash)))"
  by (simp add: publish_view_def update_conv)

lemma publish_view_document:
  assumes "docs = revision_files codec se revision content_hash" and "(path, v) \<in> set docs"
  shows "map_of (xs_view (publish_view codec docs revision content_hash st)) path = Some (jc_indented codec v)"
proof -
  have names: "map fst docs = document_names" by (simp add: assms(1) revision_files_names)
  have "path \<in> set document_names" using assms(2) names by (metis fst_conv image_eqI list.set_map)
  then have "path \<noteq> ''latest.json''" using document_names_distinct by auto
  moreover have "distinct (map fst docs)" using document_names_distinct by (simp add: names)
  ultimately show ?thesis
    using assms(2) by (simp add: publish_view_def update_conv foldl_update_written del: list.inject)
qed

lemma pointer_after_publication:
  assumes "\<And>n h. jc_parse codec (jc_indented codec (PDict (pointer_document n h))) = Some (PDict (pointer_document n h))"
  shows "latest_pointer codec (publish_view codec docs revision content_hash st) = pointer_document revision content_hash"
  by (simp add: latest_pointer_def publish_view_pointer assms)

lemma pointer_document_fields [simp]:
  "pointer_revision (pointer_document revision content_hash) = Inr revision"
  "get_item (pointer_document revision content_hash) ''content_hash'' = PStr content_hash"
  by (simp_all add: pointer_revision_def pointer_document_def int_or_zero_def get_item_def)

lemma latest_pointer_view: "xs_view st' = xs_view st \<Longrightarrow> latest_pointer codec st' = latest_pointer codec st"
  by (simp add: latest_pointer_def)

text \<open>C9: A successful export leaves a complete revision directory, the pointer moves to the larger of its old revision
  and the exported one, and the compatibility view is the new revision byte for byte exactly when the export was
  the newest; an older export leaves the view alone. The parser of JSON is assumed to read back a pointer
  document that the writer wrote.\<close>

theorem newest_export_is_published:
  assumes codec: "\<And>n h. jc_parse codec (jc_indented codec (PDict (pointer_document n h))) =
                    Some (PDict (pointer_document n h))"
    and run: "write_export rt codec se requested st = (Inr a, st')"
  shows "\<exists>current files.
           pointer_revision (latest_pointer codec st) = Inr current \<and>
           pointer_revision (latest_pointer codec st') = Inr (max current (ar_revision a)) \<and>
           ar_published a = (current < ar_revision a) \<and>
           map_of (xs_revisions st') (revision_name (ar_revision a) (ar_content_hash a)) = Some files \<and>
           (\<forall>(path, v)\<in>set (revision_files codec se (ar_revision a) (ar_content_hash a)).
              map_of files path = Some (jc_indented codec v) \<and>
              (ar_published a \<longrightarrow> map_of (xs_view st') path = map_of files path)) \<and>
           (\<not> ar_published a \<longrightarrow> xs_view st' = xs_view st)"
  using run
proof (cases rule: write_export_cases)
  case (written current revision content_hash docs st1)
  then have a: "ar_revision a = revision" "ar_content_hash a = content_hash" "ar_published a = (current < revision)"
    by simp_all
  obtain files where files: "map_of (xs_revisions st1) (revision_name revision content_hash) = Some files"
      "\<forall>(path, v)\<in>set docs. map_of files path = Some (jc_indented codec v)"
    using write_revision_written[OF written(7)] by blast
  have view: "xs_view st1 = xs_view st" using written(7) by simp
  have pointer: "pointer_revision (latest_pointer codec st') = Inr (max current revision)"
    using written(2,9) latest_pointer_view[OF view] by (simp add: pointer_after_publication[OF codec])
  show ?thesis
    unfolding a
  proof (intro exI[of _ current] exI[of _ files] conjI written(2) pointer refl)
    show "map_of (xs_revisions st') (revision_name revision content_hash) = Some files" using files(1) written(9) by simp
    show "\<forall>(path, v)\<in>set (revision_files codec se revision content_hash).
            map_of files path = Some (jc_indented codec v) \<and>
            (current < revision \<longrightarrow> map_of (xs_view st') path = map_of files path)"
      using files(2) written(9) publish_view_document[OF written(6)] by (auto simp: written(6))
    show "\<not> current < revision \<longrightarrow> xs_view st' = xs_view st" using view written(9) by simp
  qed
qed simp_all

lemma update_same: "map_of al k = Some v \<Longrightarrow> AList.update k v al = al"
  by (induction al) (auto split: if_splits)

lemma immutable_files_present:
  "\<forall>(path, v)\<in>set docs. map_of files path = Some (jc_indented codec v) \<Longrightarrow>
     immutable_files codec files docs = (Inr (), files)"
  by (induction docs) (auto simp: immutable_json_def)

lemma write_revision_again:
  assumes "map_of (xs_revisions st) name = Some files"
    and "\<forall>(path, v)\<in>set docs. map_of files path = Some (jc_indented codec v)"
  shows "write_revision_directory codec name docs st = (Inr (), st)"
  using assms by (simp add: write_revision_directory_def immutable_files_present update_same)

text \<open>Exporting a session again under the revision it got is accepted, publishes nothing and changes no byte of
  the directory.\<close>

theorem repeated_export_changes_nothing:
  assumes codec: "\<And>n h. jc_parse codec (jc_indented codec (PDict (pointer_document n h))) =
                    Some (PDict (pointer_document n h))"
    and run: "write_export rt codec se requested st = (Inr a, st')"
  shows "write_export rt codec se (Some (ar_revision a)) st' = (Inr (a\<lparr>ar_published := False\<rparr>), st')"
  using run
proof (cases rule: write_export_cases)
  case (written current revision content_hash docs st1)
  have view: "xs_view st1 = xs_view st" using written(7) by simp
  obtain files where files: "map_of (xs_revisions st1) (revision_name revision content_hash) = Some files"
      "\<forall>(path, v)\<in>set docs. map_of files path = Some (jc_indented codec v)"
    using write_revision_written[OF written(7)] by blast
  have again: "write_revision_directory codec (revision_name revision content_hash) docs st' = (Inr (), st')"
    by (rule write_revision_again[OF _ files(2)]) (use files(1) written(9) in simp)
  have pointer: "pointer_revision (latest_pointer codec st') = Inr (max current revision)"
    using written(2,9) latest_pointer_view[OF view] by (simp add: pointer_after_publication[OF codec])
  have same: "revision = max current revision \<Longrightarrow> get_item (latest_pointer codec st') ''content_hash'' = PStr content_hash"
    using written(4,9) latest_pointer_view[OF view]
    by (cases "current < revision") (simp_all add: pointer_after_publication[OF codec])
  have a: "ar_revision a = revision" using written(8) by simp
  show ?thesis
    unfolding a
    using pointer same again written(3,6,8)
    by (auto simp: write_export_def Let_def written(1)[symmetric])
qed simp_all

subsection \<open>Examples\<close>

definition sample_published :: session where
  "sample_published = \<lparr>se_menu_date = ''2024-05-01'', se_generated_at = 1, se_seed = ''seed'', se_readiness = ''normal'',
     se_target_judged = 0, se_reserve_target = 0, se_core_expected_judged = 0, se_reserve_expected_judged = 0,
     se_weakness_axes = [], se_baseline_judged = 0, se_import_id = 1, se_model_version = 0, se_model_status = ''none'',
     se_table_frontiers = [], se_table_warnings = [], se_warmup_adjustment = 0, se_queue = [], se_personal = [],
     se_profile = default_profile_context\<rparr>"

text \<open>A codec that writes the number of a pointer in unary and every other document as the same text.\<close>

fun sample_indented :: "pyval \<Rightarrow> string" where
  "sample_indented (PDict [(a, PInt n), (b, PStr h), (c, PStr p)]) =
     (if n < 0 then CHR ''-'' else CHR ''+'') # replicate (nat \<bar>n\<bar>) (CHR ''i'') @ CHR ''.'' # h"
| "sample_indented v = []"

definition sample_parse :: "string \<Rightarrow> pyval option" where
  "sample_parse s =
     (case s of
        [] \<Rightarrow> None
      | c # t \<Rightarrow>
          let k = length (takeWhile (\<lambda>x. x = CHR ''i'') t)
          in Some (PDict (pointer_document (if c = CHR ''-'' then - int k else int k) (drop (Suc k) t))))"

definition sample_codec :: json_codec where
  "sample_codec = \<lparr>jc_indented = sample_indented, jc_canonical = (\<lambda>_. ''c''), jc_parse = sample_parse,
     jc_sentence = (\<lambda>_. ''m'')\<rparr>"

lemma sample_codec_law:
  "jc_parse sample_codec (jc_indented sample_codec (PDict (pointer_document n h))) = Some (PDict (pointer_document n h))"
proof -
  have prefix: "takeWhile (\<lambda>x. x = CHR ''i'') (replicate k (CHR ''i'') @ CHR ''.'' # h) = replicate k (CHR ''i'')" for k
    by (induction k) simp_all
  show ?thesis
    by (simp add: sample_codec_def sample_parse_def pointer_document_def prefix Let_def)
qed

definition sample_digest :: runtime where
  "sample_digest = sample_runtime\<lparr>sha256_hex := (\<lambda>_. ''h'')\<rparr>"

lemma immutable_files_fresh:
  "distinct (map fst docs) \<Longrightarrow> fst ` set docs \<inter> fst ` set files = {} \<Longrightarrow> fst (immutable_files codec files docs) = Inr ()"
proof (induction docs arbitrary: files)
  case (Cons d docs)
  obtain path v where d: "d = (path, v)" by fastforce
  have "map_of files path = None" using Cons.prems(2) by (auto simp: d map_of_eq_None_iff)
  then have "immutable_json codec files d = (Inr (), (path, jc_indented codec v) # files)"
    by (simp add: immutable_json_def d)
  moreover have "fst ` set docs \<inter> fst ` set ((path, jc_indented codec v) # files) = {}"
    using Cons.prems by (auto simp: d)
  ultimately show ?case using Cons by simp
qed simp

lemma sample_name: "revision_name 1 ''h'' = ''1-h''"
  by code_simp

lemma sample_export:
  "\<exists>st. write_export sample_digest sample_codec sample_published None \<lparr>xs_revisions = [], xs_view = []\<rparr> =
     (Inr \<lparr>ar_revision = 1, ar_content_hash = ''h'', ar_root = ''revisions/1-h'', ar_published = True\<rparr>, st)"
proof -
  let ?docs = "revision_files sample_codec sample_published 1 ''h''"
  have "distinct (map fst ?docs)" using document_names_distinct by (simp add: revision_files_names)
  then have "fst (immutable_files sample_codec [] ?docs) = Inr ()" by (rule immutable_files_fresh) simp
  then obtain files where files: "immutable_files sample_codec [] ?docs = (Inr (), files)"
    by (metis prod.collapse)
  have hash: "artifact_content_hash sample_digest sample_codec payloads = ''h''" for payloads
    by (simp add: artifact_content_hash_def sample_digest_def)
  show ?thesis
    by (simp add: write_export_def Let_def hash latest_pointer_def pointer_revision_def int_or_zero_def get_item_def
        write_revision_directory_def files sample_name)
qed

theorem newest_export_is_published_witness:
  "\<exists>st :: export_store. xs_view st \<noteq> [] \<and> map_of (xs_view st) ''manifest.json'' =
      Option.bind (map_of (xs_revisions st) ''1-h'') (\<lambda>files. map_of files ''manifest.json'')"
proof -
  obtain st where run: "write_export sample_digest sample_codec sample_published None \<lparr>xs_revisions = [], xs_view = []\<rparr> =
     (Inr \<lparr>ar_revision = 1, ar_content_hash = ''h'', ar_root = ''revisions/1-h'', ar_published = True\<rparr>, st)"
    using sample_export by blast
  have manifest: "(''manifest.json'', PDict (manifest_entries sample_published 1 ''h''))
      \<in> set (revision_files sample_codec sample_published 1 ''h'')"
    by (simp add: revision_files_def)
  from newest_export_is_published[OF sample_codec_law run] obtain files
    where "map_of (xs_revisions st) ''1-h'' = Some files" "map_of files ''manifest.json'' \<noteq> None"
      "map_of (xs_view st) ''manifest.json'' = map_of files ''manifest.json''"
    using manifest sample_name by fastforce
  then show ?thesis by (intro exI[of _ st]) auto
qed

theorem repeated_export_changes_nothing_witness:
  "\<exists>st. write_export sample_digest sample_codec sample_published (Some 1) st =
     (Inr \<lparr>ar_revision = 1, ar_content_hash = ''h'', ar_root = ''revisions/1-h'', ar_published = False\<rparr>, st)"
proof -
  obtain st where run: "write_export sample_digest sample_codec sample_published None \<lparr>xs_revisions = [], xs_view = []\<rparr> =
     (Inr \<lparr>ar_revision = 1, ar_content_hash = ''h'', ar_root = ''revisions/1-h'', ar_published = True\<rparr>, st)"
    using sample_export by blast
  from repeated_export_changes_nothing[OF sample_codec_law run] show ?thesis by auto
qed

theorem revisions_are_immutable_witness:
  "\<exists>files. map_of (xs_revisions (write_exports sample_digest sample_codec
       \<lparr>xs_revisions = [(''1-h'', [(''manifest.json'', ''old'')])], xs_view = []\<rparr>
       [(sample_published, Some 1), (sample_published, None)])) ''1-h'' = Some files \<and>
     map_of files ''manifest.json'' = Some ''old''"
  by (rule revisions_are_immutable[where files = "[(''manifest.json'', ''old'')]"]) simp_all

end
