(* ===== verification/Serve.thy ===== *)
theory Serve
  imports Progress Menu_Publish
begin

text \<open>
  The cockpit server of \<open>serve/app.py\<close>: the status it derives from the manifest, the received progress and the local
  \<open>score.db\<close>, and the routes it answers. A notice of the status is a constructor instead of its Japanese text; the body of a
  request is the value its JSON text denotes. Sockets, headers and the HTML page are not modelled.
\<close>

datatype notice =
    ManifestUnreadable
  | ClockSkewed string int
  | ProgressStopped string
  | StoredDayInconsistent string
  | ObservedInFuture string
  | TodayUnknown string
  | StateUnreadable
  | NothingReceived string
  | ScoreDbMissing
  | ScoreDbUnreadable
  | DerivedFromTotal

record server =
  sv_receiver :: receiver
  sv_token :: "string option"
  sv_stale_after :: int
  sv_target :: int
  sv_score_db :: bool
  sv_last_current :: "int option"
  sv_last_today :: "int option"
  sv_last_day :: "int option"

subsection \<open>Status\<close>

record status_acc =
  sa_current :: "int option"
  sa_daily :: "int option"
  sa_source :: string
  sa_observed_at :: "int option"
  sa_received_at :: "int option"
  sa_observed_day :: "int option"
  sa_skew :: "int option"
  sa_stale :: bool
  sa_errors :: "notice list"
  sa_warnings :: "notice list"

definition start_acc :: status_acc where
  "start_acc = \<lparr>sa_current = None, sa_daily = None, sa_source = ''baseline'', sa_observed_at = None,
     sa_received_at = None, sa_observed_day = None, sa_skew = None, sa_stale = False, sa_errors = [], sa_warnings = []\<rparr>"

definition warn_if :: "bool \<Rightarrow> notice \<Rightarrow> status_acc \<Rightarrow> status_acc" where
  "warn_if b w acc = (if b then acc\<lparr>sa_warnings := sa_warnings acc @ [w]\<rparr> else acc)"

definition fail_if :: "bool \<Rightarrow> notice \<Rightarrow> status_acc \<Rightarrow> status_acc" where
  "fail_if b e acc = (if b then acc\<lparr>sa_stale := True, sa_errors := sa_errors acc @ [e]\<rparr> else acc)"

definition progress_date :: "int \<Rightarrow> int py" where
  "progress_date t =
     (case civil_of_day (progress_day t) of (year, month, day) \<Rightarrow>
        if year < 1 \<or> 9999 < year then Inl (ValueError ''year is out of range'') else Inr (progress_day t))"

text \<open>The exceptions the handler of the status names.\<close>

fun handled :: "py_exn \<Rightarrow> bool" where
  "handled TypeError = True"
| "handled (ValueError s) = True"
| "handled (KeyError s) = True"
| "handled (OSError s) = True"
| "handled FileNotFoundError = True"
| "handled e = False"

text \<open>A statement that may raise, then the rest; what was assigned before a raise stays.\<close>

definition and_then :: "'a py \<Rightarrow> ('a \<Rightarrow> unit py \<times> 's) \<Rightarrow> 's \<Rightarrow> unit py \<times> 's" where
  "and_then r f s = (case r of Inl e \<Rightarrow> (Inl e, s) | Inr v \<Rightarrow> f v)"

definition baseline_of :: "pyval option \<Rightarrow> int py" where
  "baseline_of manifest =
     (case manifest of
        None \<Rightarrow> Inl (OSError ''manifest'')
      | Some (PDict d) \<Rightarrow> py_bind (int_item d ''baseline_judged'') (\<lambda>n. Inr (max 0 n))
      | Some v \<Rightarrow> Inl TypeError)"

text \<open>The daily count of a received state, by the day it was observed.\<close>

definition received_daily :: "int \<Rightarrow> int \<Rightarrow> int \<Rightarrow> pyval \<Rightarrow> status_acc \<Rightarrow> status_acc" where
  "received_daily today day current raw acc =
     (if day < today then acc\<lparr>sa_daily := Some 0\<rparr>
      else if today < day then warn_if True (ObservedInFuture (sa_source acc)) acc
      else case raw of
        PInt t \<Rightarrow> (if 0 \<le> t \<and> t \<le> current then acc\<lparr>sa_daily := Some t\<rparr>
                   else warn_if True (TodayUnknown (sa_source acc)) acc)
      | _ \<Rightarrow> warn_if True (TodayUnknown (sa_source acc)) acc)"

definition read_received :: "runtime \<Rightarrow> int \<Rightarrow> int \<Rightarrow> int \<Rightarrow> row \<Rightarrow> status_acc \<Rightarrow> unit py \<times> status_acc" where
  "read_received rt stale_after now today progress acc =
     and_then (int_item progress ''current_judged'') (\<lambda>current0.
       let current = max 0 current0; acc = acc\<lparr>sa_current := Some current\<rparr> in
     and_then (int_item progress ''observed_at'') (\<lambda>observed.
       let acc = acc\<lparr>sa_observed_at := Some observed\<rparr> in
     and_then (str_item rt progress ''source_id'') (\<lambda>source.
       let acc = acc\<lparr>sa_source := source\<rparr> in
     and_then (case map_of progress ''received_at'' of None \<Rightarrow> Inr observed | Some v \<Rightarrow> py_int v) (\<lambda>received.
       let skew = observed - received;
           acc = warn_if (stale_after < \<bar>skew\<bar>) (ClockSkewed source \<bar>skew\<bar>)
                   (acc\<lparr>sa_received_at := Some received, sa_skew := Some skew\<rparr>);
           acc = fail_if (stale_after < now - received) (ProgressStopped source) acc in
     and_then (progress_date observed) (\<lambda>day.
       let stored_day = get_item progress ''observed_date'';
           acc = warn_if (stored_day \<noteq> PNone \<and> stored_day \<noteq> PStr (iso_date day)) (StoredDayInconsistent source)
                   (acc\<lparr>sa_observed_day := Some day\<rparr>)
       in (Inr (), received_daily today day current (get_item progress ''today_judged'') acc)) acc) acc) acc) acc) acc"

definition read_state :: "runtime \<Rightarrow> server \<Rightarrow> int \<Rightarrow> int \<Rightarrow> status_acc \<Rightarrow> status_acc py" where
  "read_state rt sv now today acc =
     (case rv_state (sv_receiver sv) of
        None \<Rightarrow> Inr acc
      | Some NoFile \<Rightarrow> Inr acc
      | Some file \<Rightarrow>
          (case (case file of Holding (PDict d) \<Rightarrow> read_received rt (sv_stale_after sv) now today d acc
                 | Holding v \<Rightarrow> (Inl TypeError, acc) | _ \<Rightarrow> (Inl (ValueError ''json''), acc)) of
             (Inr u, acc') \<Rightarrow> Inr acc'
           | (Inl e, acc') \<Rightarrow>
               if e = FileNotFoundError then Inr acc'
               else if handled e then Inr (fail_if True StateUnreadable acc') else Inl e))"

text \<open>Without a received count the local \<open>score.db\<close> is read, or the last counts that could be read are shown.\<close>

definition score_db_fallback ::
    "int \<Rightarrow> progress_counts py \<Rightarrow> server \<Rightarrow> status_acc \<Rightarrow> (status_acc \<times> server) py" where
  "score_db_fallback today counts sv acc =
     (if sa_current acc \<noteq> None then Inr (acc, sv)
      else if \<not> sv_score_db sv then
        Inr (fail_if True (if rv_state (sv_receiver sv) \<noteq> None then NothingReceived (rv_source_id (sv_receiver sv))
                           else ScoreDbMissing) acc, sv)
      else case counts of
        Inr c \<Rightarrow>
          Inr (acc\<lparr>sa_current := Some (pg_current c), sa_daily := pg_today c, sa_source := ''local-score-db''\<rparr>,
               sv\<lparr>sv_last_current := Some (pg_current c), sv_last_today := pg_today c, sv_last_day := Some today\<rparr>)
      | Inl e \<Rightarrow>
          (case e of
             OverflowError s \<Rightarrow> Inl e
           | TypeError \<Rightarrow> Inl e
           | _ \<Rightarrow>
             let acc' = (fail_if True ScoreDbUnreadable acc)\<lparr>sa_current := sv_last_current sv\<rparr>
             in Inr (case sv_last_day sv of
                       None \<Rightarrow> acc'
                     | Some day \<Rightarrow>
                         (if day < today then acc'\<lparr>sa_daily := Some 0\<rparr>
                          else if day = today then acc'\<lparr>sa_daily := sv_last_today sv\<rparr> else acc'), sv)))"

record status_report =
  sr_target :: int
  sr_baseline :: int
  sr_current :: int
  sr_source :: string
  sr_observed_at :: "int option"
  sr_observed_day :: "int option"
  sr_received_at :: "int option"
  sr_skew :: "int option"
  sr_warnings :: "notice list"
  sr_live :: int
  sr_remaining :: int
  sr_progress :: real
  sr_complete :: bool
  sr_stale :: bool
  sr_errors :: "notice list"

definition status_report_of :: "int \<Rightarrow> int \<Rightarrow> status_acc \<Rightarrow> status_report" where
  "status_report_of target baseline acc =
     (let current = (case sa_current acc of Some c \<Rightarrow> c | None \<Rightarrow> baseline);
          derived = (sa_daily acc = None \<and> current \<noteq> baseline \<and> sa_warnings acc = []);
          live = (case sa_daily acc of None \<Rightarrow> max 0 (current - baseline) | Some d \<Rightarrow> max 0 d)
      in \<lparr>sr_target = target, sr_baseline = baseline, sr_current = current, sr_source = sa_source acc,
          sr_observed_at = sa_observed_at acc, sr_observed_day = sa_observed_day acc,
          sr_received_at = sa_received_at acc, sr_skew = sa_skew acc,
          sr_warnings = (if derived then [DerivedFromTotal] else sa_warnings acc), sr_live = live,
          sr_remaining = max 0 (target - live), sr_progress = min 1 (real_of_int live / real_of_int target),
          sr_complete = (target \<le> live), sr_stale = sa_stale acc, sr_errors = sa_errors acc\<rparr>)"

definition status :: "runtime \<Rightarrow> server \<Rightarrow> int \<Rightarrow> pyval option \<Rightarrow> progress_counts py \<Rightarrow> (status_report \<times> server) py" where
  "status rt sv now manifest counts =
     py_bind (progress_date now) (\<lambda>today.
     py_bind (case baseline_of manifest of
                Inr b \<Rightarrow> Inr (b, start_acc)
              | Inl e \<Rightarrow> if handled e then Inr (0, fail_if True ManifestUnreadable start_acc) else Inl e) (\<lambda>(baseline, acc0).
     py_bind (read_state rt sv now today acc0) (\<lambda>acc1.
     py_bind (score_db_fallback today counts sv acc1) (\<lambda>(acc2, sv').
       Inr (status_report_of (sv_target sv) baseline acc2, sv')))))"

subsection \<open>Routes\<close>

datatype reply_body = JsonBody row | StatusBody status_report | FileBody string | HealthBody | CockpitPage

type_synonym reply = "http_status \<times> reply_body"

definition export_routes :: "(string \<times> string) list" where
  "export_routes =
     [(''/table/recommend/header.json'', ''table/recommend/header.json''),
      (''/table/recommend/score.json'', ''table/recommend/score.json''),
      (''/table/today/header.json'', ''table/today/header.json''),
      (''/table/today/score.json'', ''table/today/score.json''),
      (''/api/session'', ''session.json''),
      (''/api/review/latest'', ''review/latest.json'')]"

text \<open>A file below the export directory: missing, not readable, or its bytes; and whether its resolved path stays inside.\<close>

datatype file_read = MissingFile | FailedRead | FileBytes string

record export_dir =
  ed_inside :: "string \<Rightarrow> bool"
  ed_read :: "string \<Rightarrow> file_read"

definition serve_export :: "export_dir \<Rightarrow> string \<Rightarrow> reply" where
  "serve_export dir relative =
     (if \<not> ed_inside dir relative then (NotFound, JsonBody (error_body ''not found''))
      else case ed_read dir relative of
        MissingFile \<Rightarrow> (NotFound, JsonBody (error_body ''export not found''))
      | FailedRead \<Rightarrow> (ServiceUnavailable, JsonBody (error_body ''export unavailable''))
      | FileBytes bytes \<Rightarrow> (HttpOk, FileBody bytes))"

text \<open>A \<open>GET\<close>: the path is \<open>None\<close> if it does not decode.\<close>

definition dispatch ::
    "runtime \<Rightarrow> export_dir \<Rightarrow> int \<Rightarrow> pyval option \<Rightarrow> progress_counts py \<Rightarrow> string option \<Rightarrow> server \<Rightarrow> (reply \<times> server) py" where
  "dispatch rt dir now manifest counts path sv =
     (case path of
        None \<Rightarrow> Inr ((BadRequest, JsonBody (error_body ''invalid path'')), sv)
      | Some p \<Rightarrow>
          if p = ''/'' then Inr ((HttpOk, CockpitPage), sv)
          else if p = ''/healthz'' then Inr ((HttpOk, HealthBody), sv)
          else if p = ''/api/status''
            then py_bind (status rt sv now manifest counts) (\<lambda>(report, sv'). Inr ((HttpOk, StatusBody report), sv'))
          else case map_of export_routes p of
            Some relative \<Rightarrow> Inr (serve_export dir relative, sv)
          | None \<Rightarrow> Inr ((NotFound, JsonBody (error_body ''not found'')), sv))"

definition max_progress_body :: int where
  "max_progress_body = 4096"

record post_request =
  rp_path :: "string option"
  rp_authorization :: string
  rp_content_length :: string
  rp_json :: "pyval option"

definition do_post :: "int \<Rightarrow> post_request \<Rightarrow> server \<Rightarrow> (http_status \<times> row) \<times> server" where
  "do_post now rq sv =
     (case rp_path rq of
        None \<Rightarrow> ((BadRequest, error_body ''invalid path''), sv)
      | Some p \<Rightarrow>
          if p \<noteq> ''/api/progress'' then ((NotFound, error_body ''not found''), sv)
          else if (case sv_token sv of None \<Rightarrow> True | Some t \<Rightarrow> t = [] \<or> rp_authorization rq \<noteq> ''Bearer '' @ t)
            then ((Unauthorized, error_body ''unauthorized''), sv)
          else
            let width = (case parse_int (rp_content_length rq) of None \<Rightarrow> - 1 | Some n \<Rightarrow> n) in
            if width < 0 \<or> max_progress_body < width then ((TooLarge, error_body ''invalid body size''), sv)
            else case rp_json rq of
              None \<Rightarrow> ((BadRequest, error_body ''invalid JSON''), sv)
            | Some payload \<Rightarrow>
                (let (answer, rv) = receive_progress (sv_receiver sv) now payload
                 in (answer, sv\<lparr>sv_receiver := rv\<rparr>)))"

text \<open>\<open>make_server\<close>: the receiver is configured completely or not at all.\<close>

definition make_server ::
    "string option \<Rightarrow> state_file option \<Rightarrow> string \<Rightarrow> int \<Rightarrow> int \<Rightarrow> bool \<Rightarrow> bool \<Rightarrow> server py" where
  "make_server token state source_id stale_after target score_db bind_ok =
     (if (state = None) \<noteq> (token = None)
        then Inl (ValueError ''progress_state and progress_token must be configured together'')
      else if token \<noteq> None \<and> \<not> bind_ok
        then Inl (ValueError ''progress receiver host must be a loopback or exact Tailscale IP'')
      else Inr \<lparr>sv_receiver = \<lparr>rv_source_id = source_id, rv_state = state\<rparr>, sv_token = token,
                sv_stale_after = max 1 stale_after, sv_target = max 1 target, sv_score_db = score_db,
                sv_last_current = None, sv_last_today = None, sv_last_day = None\<rparr>)"

end
