(* ===== verification/Monitor.thy ===== *)
theory Monitor
  imports Serve
begin

text \<open>
  The sender side: \<open>run_sender\<close> of \<open>serve/progress_sender.py\<close>, and \<open>serve/progress_monitor.py\<close>, the worker that polls and
  sends in the background and the controller that owns it. The operating system's paths and URL parser, the reader of
  \<open>score.db\<close>, the network and both clocks are parameters. The window is not modelled.
\<close>

subsection \<open>Settings\<close>

record monitor_settings =
  mo_score_db :: string
  mo_server_url :: string
  mo_token_file :: string
  mo_source_id :: string
  mo_poll_interval :: real
  mo_heartbeat :: real
  mo_send_enabled :: bool

definition default_settings :: monitor_settings where
  "default_settings = \<lparr>mo_score_db = [], mo_server_url = [], mo_token_file = [], mo_source_id = ''RYU-DESKTOP2'',
     mo_poll_interval = 5, mo_heartbeat = 30, mo_send_enabled = True\<rparr>"

record url_parts =
  up_scheme :: string
  up_hostname :: "string option"
  up_username :: "string option"
  up_password :: "string option"
  up_path :: string
  up_query :: string
  up_fragment :: string

record platform =
  pf_resolve :: "bool \<Rightarrow> string \<Rightarrow> string py"
  pf_is_file :: "string \<Rightarrow> bool"
  pf_read_text :: "string \<Rightarrow> string py"
  pf_urlsplit :: "string \<Rightarrow> url_parts py"

definition rstrip_slash :: "string \<Rightarrow> string" where
  "rstrip_slash s = rev (dropWhile (\<lambda>c. c = CHR ''/'') (rev s))"

definition url_ok :: "url_parts \<Rightarrow> bool" where
  "url_ok u \<longleftrightarrow> up_scheme u \<in> {''http'', ''https''} \<and> up_hostname u \<noteq> None \<and> up_username u = None \<and>
     up_password u = None \<and> up_path u \<in> {[], ''/''} \<and> up_query u = [] \<and> up_fragment u = []"

definition normalized :: "platform \<Rightarrow> monitor_settings \<Rightarrow> monitor_settings py" where
  "normalized pf m =
     py_bind (pf_resolve pf True (mo_score_db m)) (\<lambda>score_db.
     py_bind (pf_resolve pf True (mo_token_file m)) (\<lambda>token_file.
     py_bind (raise_if (\<not> pf_is_file pf score_db) (ValueError ''score.db'')) (\<lambda>_.
     py_bind (raise_if (\<not> pf_is_file pf token_file) (ValueError ''token'')) (\<lambda>_.
     let url = rstrip_slash (py_strip (mo_server_url m)) in
     py_bind (pf_urlsplit pf url) (\<lambda>parsed.
     py_bind (raise_if (\<not> url_ok parsed) (ValueError ''http(s)://host:port'')) (\<lambda>_.
     py_bind (raise_if (\<not> source_id_ok (mo_source_id m)) (ValueError ''source id'')) (\<lambda>_.
     py_bind (raise_if (mo_poll_interval m < 1 / 2) (ValueError ''poll interval'')) (\<lambda>_.
     py_bind (raise_if (mo_heartbeat m < 1) (ValueError ''heartbeat'')) (\<lambda>_.
     py_bind (pf_read_text pf token_file) (\<lambda>content.
     py_bind (raise_if (py_strip content = [] \<or> 4096 < length (py_strip content)) (ValueError ''token'')) (\<lambda>_.
       Inr (m\<lparr>mo_score_db := score_db, mo_server_url := url, mo_token_file := token_file\<rparr>))))))))))))"

definition for_storage :: "platform \<Rightarrow> monitor_settings \<Rightarrow> monitor_settings py" where
  "for_storage pf m =
     (if mo_send_enabled m then normalized pf m
      else
        let resolve_text = (\<lambda>t. if py_strip t = [] then Inr [] else pf_resolve pf False (py_strip t)) in
        py_bind (resolve_text (mo_score_db m)) (\<lambda>score_db.
        py_bind (resolve_text (mo_token_file m)) (\<lambda>token_file.
          Inr (m\<lparr>mo_score_db := score_db, mo_server_url := rstrip_slash (py_strip (mo_server_url m)),
                 mo_token_file := token_file, mo_source_id := py_strip (mo_source_id m)\<rparr>))))"

definition read_token :: "platform \<Rightarrow> monitor_settings \<Rightarrow> string py" where
  "read_token pf m =
     py_bind (pf_read_text pf (mo_token_file m)) (\<lambda>content.
     py_bind (raise_if (py_strip content = []) (ValueError ''progress token file is empty'')) (\<lambda>_.
       Inr (py_strip content)))"

subsection \<open>The worker\<close>

record worker =
  wk_settings :: monitor_settings
  wk_token :: string
  wk_last_sent_monotonic :: "real option"
  wk_last_sent_at :: "real option"
  wk_last_sent_counts :: "progress_counts option"
  wk_last_counts :: "progress_counts option"

definition new_worker :: "platform \<Rightarrow> monitor_settings \<Rightarrow> worker py" where
  "new_worker pf m =
     py_bind (normalized pf m) (\<lambda>settings.
     py_bind (read_token pf settings) (\<lambda>token.
       Inr \<lparr>wk_settings = settings, wk_token = token, wk_last_sent_monotonic = None, wk_last_sent_at = None,
            wk_last_sent_counts = None, wk_last_counts = None\<rparr>))"

datatype monitor_status = Live | Stale | Error

record monitor_snapshot =
  mn_status :: monitor_status
  mn_current :: "int option"
  mn_today :: "int option"
  mn_last_sent_at :: "real option"
  mn_next_send_at :: "real"
  mn_server_url :: string
  mn_error :: "py_exn option"

type_synonym 'n post = "'n \<Rightarrow> string \<Rightarrow> pyval \<Rightarrow> unit py \<times> 'n"

definition server_stale_after :: real where
  "server_stale_after = 90"

definition send_due :: "bool \<Rightarrow> real \<Rightarrow> progress_counts \<Rightarrow> worker \<Rightarrow> bool" where
  "send_due force ticks counts w \<longleftrightarrow>
     (case wk_last_sent_monotonic w of
        None \<Rightarrow> True
      | Some sent \<Rightarrow> force \<or> Some counts \<noteq> wk_last_sent_counts w \<or> mo_heartbeat (wk_settings w) \<le> ticks - sent)"

definition message_of :: "worker \<Rightarrow> real \<Rightarrow> progress_counts \<Rightarrow> progress_message" where
  "message_of w now counts =
     \<lparr>pm_source_id = mo_source_id (wk_settings w), pm_current = pg_current counts, pm_today = pg_today counts,
      pm_observed_at = truncate_real now\<rparr>"

definition error_snapshot :: "worker \<Rightarrow> real \<Rightarrow> py_exn \<Rightarrow> monitor_snapshot" where
  "error_snapshot w now e =
     \<lparr>mn_status = Error, mn_current = map_option pg_current (wk_last_counts w),
      mn_today = Option.bind (wk_last_counts w) pg_today, mn_last_sent_at = wk_last_sent_at w,
      mn_next_send_at = now + mo_poll_interval (wk_settings w), mn_server_url = mo_server_url (wk_settings w),
      mn_error = Some e\<rparr>"

definition live_snapshot :: "worker \<Rightarrow> real \<Rightarrow> real \<Rightarrow> progress_counts \<Rightarrow> monitor_snapshot" where
  "live_snapshot w now ticks counts =
     (let heartbeat = mo_heartbeat (wk_settings w);
          remaining = (case wk_last_sent_monotonic w of None \<Rightarrow> heartbeat | Some sent \<Rightarrow> max 0 (heartbeat - (ticks - sent)));
          fresh = (case wk_last_sent_monotonic w of None \<Rightarrow> False | Some sent \<Rightarrow> ticks - sent \<le> server_stale_after)
      in \<lparr>mn_status = (if fresh then Live else Stale), mn_current = Some (pg_current counts), mn_today = pg_today counts,
          mn_last_sent_at = wk_last_sent_at w, mn_next_send_at = now + remaining,
          mn_server_url = mo_server_url (wk_settings w), mn_error = None\<rparr>)"

definition poll_once ::
    "'n post \<Rightarrow> bool \<Rightarrow> real \<Rightarrow> real \<Rightarrow> progress_counts py \<Rightarrow> worker \<Rightarrow> 'n \<Rightarrow> monitor_snapshot \<times> worker \<times> 'n" where
  "poll_once post force now ticks reading w net =
     (case reading of
        Inl e \<Rightarrow> (error_snapshot w now e, w, net)
      | Inr counts \<Rightarrow>
          let w1 = w\<lparr>wk_last_counts := Some counts\<rparr> in
          if \<not> send_due force ticks counts w1 then (live_snapshot w1 now ticks counts, w1, net)
          else case send_progress_snapshot post (wk_token w1) (message_of w1 now counts) net of
            (Inl e, net') \<Rightarrow> (error_snapshot w1 now e, w1, net')
          | (Inr u, net') \<Rightarrow>
              let w2 = w1\<lparr>wk_last_sent_monotonic := Some ticks, wk_last_sent_at := Some now,
                          wk_last_sent_counts := Some counts\<rparr>
              in (live_snapshot w2 now ticks counts, w2, net'))"

text \<open>One turn of \<open>run\<close>: the flag of \<open>send_now\<close>, the two clocks and what the reader returns.\<close>

type_synonym turn = "bool \<times> real \<times> real \<times> progress_counts py"

fun run_worker :: "'n post \<Rightarrow> turn list \<Rightarrow> worker \<Rightarrow> 'n \<Rightarrow> monitor_snapshot list \<times> worker \<times> 'n" where
  "run_worker post [] w net = ([], w, net)"
| "run_worker post ((force, now, ticks, reading) # ts) w net =
     (case poll_once post force now ticks reading w net of
        (shown, w', net') \<Rightarrow>
          case run_worker post ts w' net' of (rest, w'', net'') \<Rightarrow> (shown # rest, w'', net''))"

subsection \<open>The sender without a window\<close>

text \<open>One turn of \<open>run_sender\<close>: the counts last sent and when, by the monotonic clock; an exception it names is reported
  and the loop goes on.\<close>

record plain_sender =
  sd_last_counts :: "progress_counts option"
  sd_last_sent :: real

fun sender_catches :: "py_exn \<Rightarrow> bool" where
  "sender_catches (OSError s) = True"
| "sender_catches FileNotFoundError = True"
| "sender_catches (RuntimeError s) = True"
| "sender_catches (SqliteError s) = True"
| "sender_catches (ValueError s) = True"
| "sender_catches e = False"

definition sender_turn ::
    "'n post \<Rightarrow> string \<Rightarrow> string \<Rightarrow> real \<Rightarrow> int \<Rightarrow> real \<Rightarrow> progress_counts py \<Rightarrow> plain_sender \<Rightarrow> 'n \<Rightarrow>
       unit py \<times> plain_sender \<times> 'n" where
  "sender_turn post token source_id heartbeat now ticks reading sd net =
     (let (r, sd', net') =
        (case reading of
           Inl e \<Rightarrow> (Inl e, sd, net)
         | Inr counts \<Rightarrow>
             if Some counts = sd_last_counts sd \<and> ticks - sd_last_sent sd < heartbeat then (Inr (), sd, net)
             else case send_progress_snapshot post token
                    \<lparr>pm_source_id = source_id, pm_current = pg_current counts, pm_today = pg_today counts,
                     pm_observed_at = now\<rparr> net of
               (Inl e, net') \<Rightarrow> (Inl e, sd, net')
             | (Inr u, net') \<Rightarrow> (Inr (), \<lparr>sd_last_counts = Some counts, sd_last_sent = ticks\<rparr>, net'))
      in case r of
           Inl e \<Rightarrow> (if sender_catches e then Inr () else Inl e, sd', net')
         | Inr u \<Rightarrow> (Inr (), sd', net'))"

subsection \<open>The controller\<close>

text \<open>Workers are numbered in the order they are made. A thread is alive from its start until it exits; the parameters of an
  operation are the outcomes it cannot know: whether the join returned in time, whether the thread could be started.\<close>

record controller =
  ct_worker :: "nat option"
  ct_thread :: "nat option"
  ct_alive :: "nat set"
  ct_stopping :: "nat set"
  ct_made :: nat

definition no_controller :: controller where
  "no_controller = \<lparr>ct_worker = None, ct_thread = None, ct_alive = {}, ct_stopping = {}, ct_made = 0\<rparr>"

definition stop_controller :: "bool \<Rightarrow> controller \<Rightarrow> unit py \<times> controller" where
  "stop_controller joined c =
     (let told = c\<lparr>ct_stopping := ct_stopping c \<union> set_option (ct_worker c)\<rparr>;
          dead = (if joined then told\<lparr>ct_alive := ct_alive told - set_option (ct_thread c)\<rparr> else told)
      in if set_option (ct_thread c) \<inter> ct_alive dead \<noteq> {} then (Inl (RuntimeError ''stop not confirmed''), dead)
         else (Inr (), dead\<lparr>ct_worker := None, ct_thread := None\<rparr>))"

definition start_controller ::
    "platform \<Rightarrow> bool \<Rightarrow> bool \<Rightarrow> monitor_settings \<Rightarrow> controller \<Rightarrow> monitor_settings py \<times> controller" where
  "start_controller pf joined started m c =
     (case py_bind (normalized pf m) (\<lambda>settings. py_bind (new_worker pf settings) (\<lambda>w. Inr settings)) of
        Inl e \<Rightarrow> (Inl e, c)
      | Inr settings \<Rightarrow>
          let replacement = ct_made c; c1 = c\<lparr>ct_made := Suc replacement\<rparr> in
          case stop_controller joined c1 of
            (Inl e, c2) \<Rightarrow> (Inl e, c2)
          | (Inr u, c2) \<Rightarrow>
              if started
              then (Inr settings, c2\<lparr>ct_worker := Some replacement, ct_thread := Some replacement,
                                     ct_alive := insert replacement (ct_alive c2)\<rparr>)
              else (Inl (RuntimeError ''can't start new thread''),
                    c2\<lparr>ct_worker := None, ct_thread := None, ct_stopping := insert replacement (ct_stopping c2)\<rparr>))"

definition active :: "controller \<Rightarrow> bool" where
  "active c \<longleftrightarrow> ct_worker c \<noteq> None"

text \<open>The calls of the window and the exits of threads, in any order. A worker's loop ends after \<open>stop\<close>, or when its
  callback raises.\<close>

inductive controller_step :: "platform \<Rightarrow> controller \<Rightarrow> controller \<Rightarrow> bool" for pf where
  start: "start_controller pf joined started m c = (r, c') \<Longrightarrow> controller_step pf c c'"
| stop: "stop_controller joined c = (r, c') \<Longrightarrow> controller_step pf c c'"
| thread_exit: "t \<in> ct_alive c \<Longrightarrow> controller_step pf c (c\<lparr>ct_alive := ct_alive c - {t}\<rparr>)"

inductive_cases controller_stepE: "controller_step pf c c'"

inductive controller_reaches :: "platform \<Rightarrow> controller \<Rightarrow> bool" for pf where
  initially: "controller_reaches pf no_controller"
| further: "controller_reaches pf c \<Longrightarrow> controller_step pf c c' \<Longrightarrow> controller_reaches pf c'"

end
