(* ===== verification/Progress_Proofs.thy ===== *)
theory Progress_Proofs
  imports Monitor Histories
begin

text \<open>
  The progress protocol end to end: what the receiver stores only moves forward, a repeated request is harmless, and the counts a
  worker believes to have sent are the counts the server holds.
\<close>

subsection \<open>The receiver\<close>

text \<open>The time and the count a receiver holds, if its file is one it wrote.\<close>

definition stored_progress :: "receiver \<Rightarrow> (int \<times> int) option" where
  "stored_progress rv =
     (case rv_state rv of
        Some (Holding (PDict d)) \<Rightarrow>
          (case (get_item d ''observed_at'', get_item d ''current_judged'', get_item d ''received_at'') of
             (PInt observed, PInt current, PInt received) \<Rightarrow>
               (if get_item d ''source_id'' = PStr (rv_source_id rv) then Some (observed, current) else None)
           | _ \<Rightarrow> None)
      | _ \<Rightarrow> None)"

definition receive_step :: "receiver \<Rightarrow> int \<times> pyval \<Rightarrow> receiver" where
  "receive_step rv = (\<lambda>(now, payload). snd (receive_progress rv now payload))"

definition receive_all :: "receiver \<Rightarrow> (int \<times> pyval) list \<Rightarrow> receiver" where
  "receive_all = foldl receive_step"

lemma accepted_payload_iff:
  "accepted_payload source now d = Some (current, observed) \<longleftrightarrow>
     (fst ` set d = required_keys \<or> fst ` set d = insert ''today_judged'' required_keys) \<and>
     get_item d ''source_id'' = PStr source \<and> get_item d ''current_judged'' = PInt current \<and>
     get_item d ''observed_at'' = PInt observed \<and> source_id_ok source \<and> 0 \<le> current \<and> 0 \<le> observed \<and>
     observed \<le> now + 300 \<and> today_ok current (get_item d ''today_judged'')"
proof (cases "fst ` set d = required_keys \<or> fst ` set d = insert ''today_judged'' required_keys")
  case True
  then have "\<not> (fst ` set d \<noteq> required_keys \<and> fst ` set d \<noteq> insert ''today_judged'' required_keys)" by blast
  then show ?thesis using True unfolding accepted_payload_def by (auto split: pyval.split)
qed (simp add: accepted_payload_def)

lemma accepted_payload_later:
  "accepted_payload source now d = Some (current, observed) \<Longrightarrow> now \<le> later \<Longrightarrow>
     accepted_payload source later d = Some (current, observed)"
  by (simp add: accepted_payload_iff)

text \<open>Every way a request can end: refused or answered from the state, with the state left alone, or stored.\<close>

lemma receive_progress_cases:
  assumes "receive_progress rv now payload = ((st, body), rv')"
  obtains (refused) "st \<noteq> HttpOk" "rv' = rv"
    | (answered) d previous current observed where "payload = PDict d"
        "accepted_payload (rv_source_id rv) now d = Some (current, observed)"
        "rv_state rv = Some (Holding (PDict previous))"
        "previous_answer (rv_source_id rv) d current observed previous = Some (HttpOk, body)" "st = HttpOk" "rv' = rv"
    | (stored) d current observed where "payload = PDict d"
        "accepted_payload (rv_source_id rv) now d = Some (current, observed)"
        "\<And>previous. rv_state rv = Some (Holding (PDict previous)) \<Longrightarrow>
           previous_answer (rv_source_id rv) d current observed previous = None"
        "st = HttpOk" "rv_state rv \<noteq> None"
        "body = accepted_body (stored_row (rv_source_id rv) current (get_item d ''today_judged'') observed now)"
        "rv' = rv\<lparr>rv_state := Some (Holding (PDict (stored_row (rv_source_id rv) current (get_item d ''today_judged'')
           observed now)))\<rparr>"
proof (cases payload)
  case (PDict d)
  show thesis
  proof (cases "accepted_payload (rv_source_id rv) now d")
    case None
    then show thesis using assms PDict refused by (simp add: receive_progress_def)
  next
    case (Some co)
    obtain current observed where co: "co = (current, observed)" by fastforce
    note body = assms[unfolded receive_progress_def PDict pyval.case Some co option.case prod.case Let_def]
    show thesis
    proof (cases "\<exists>previous. rv_state rv = Some (Holding (PDict previous))")
      case True
      then obtain previous where previous: "rv_state rv = Some (Holding (PDict previous))" by blast
      show thesis
      proof (cases "previous_answer (rv_source_id rv) d current observed previous")
        case None
        then show thesis using body previous Some co PDict by (intro stored) auto
      next
        case (Some answer)
        then show thesis
          using body previous \<open>accepted_payload _ _ d = Some co\<close> co PDict
          by (cases "st = HttpOk") (auto intro: refused answered)
      qed
    next
      case False
      then show thesis using body Some co PDict
        by (auto split: option.splits state_file.splits pyval.splits intro: refused stored)
    qed
  qed
qed (use assms refused in \<open>auto simp: receive_progress_def\<close>)

lemma stored_row_items [simp]:
  "get_item (stored_row s c t q n) ''source_id'' = PStr s" "get_item (stored_row s c t q n) ''current_judged'' = PInt c"
  "get_item (stored_row s c t q n) ''today_judged'' = t" "get_item (stored_row s c t q n) ''observed_at'' = PInt q"
  "get_item (stored_row s c t q n) ''observed_date'' = PStr (iso_date (progress_day q))"
  "get_item (stored_row s c t q n) ''received_at'' = PInt n"
  "map_of (stored_row s c t q n) ''today_judged'' = Some t"
  by (simp_all add: stored_row_def get_item_def)

lemma stored_progress_stored [simp]:
  "stored_progress (rv\<lparr>rv_state := Some (Holding (PDict (stored_row (rv_source_id rv) current t observed now)))\<rparr>) =
     Some (observed, current)"
  by (simp add: stored_progress_def)

lemma stored_progress_SomeE:
  assumes "stored_progress rv = Some (q, c)"
  obtains d n where "rv_state rv = Some (Holding (PDict d))" "get_item d ''observed_at'' = PInt q"
    "get_item d ''current_judged'' = PInt c" "get_item d ''received_at'' = PInt n"
    "get_item d ''source_id'' = PStr (rv_source_id rv)"
  using assms by (auto simp: stored_progress_def split: option.splits state_file.splits pyval.splits if_splits)

definition forward :: "int \<times> int \<Rightarrow> int \<times> int \<Rightarrow> bool" where
  "forward a b \<longleftrightarrow> fst a \<le> fst b \<and> snd a \<le> snd b \<and> (fst a = fst b \<longrightarrow> snd a = snd b)"

lemma forward_refl: "forward a a"
  by (simp add: forward_def)

lemma forward_trans: "forward a b \<Longrightarrow> forward b c \<Longrightarrow> forward a c"
  by (auto simp: forward_def)

lemma previous_answer_None:
  assumes "previous_answer source payload current observed previous = None"
    and "get_item previous ''observed_at'' = PInt q" "get_item previous ''current_judged'' = PInt c"
    and "get_item previous ''received_at'' = PInt n"
  shows "forward (q, c) (observed, current)"
  using assms by (auto simp: previous_answer_def forward_def split: if_splits)

lemma receive_progress_forward:
  assumes "receive_progress rv now payload = ((st, body), rv')" and "stored_progress rv = Some a"
  shows "\<exists>b. stored_progress rv' = Some b \<and> forward a b"
  using assms(1)
proof (cases rule: receive_progress_cases)
  case refused
  then show ?thesis using assms(2) forward_refl by auto
next
  case answered
  then show ?thesis using assms(2) forward_refl by auto
next
  case (stored d current observed)
  obtain q c where a: "a = (q, c)" by fastforce
  obtain previous n where previous: "rv_state rv = Some (Holding (PDict previous))" "get_item previous ''observed_at'' = PInt q"
    "get_item previous ''current_judged'' = PInt c" "get_item previous ''received_at'' = PInt n"
    using stored_progress_SomeE[OF assms(2)[unfolded a]] by blast
  then have "forward a (observed, current)"
    unfolding a by (intro previous_answer_None[OF stored(3)[OF previous(1)]])
  then show ?thesis using stored(7) by simp
qed

definition moves_forward :: "receiver \<Rightarrow> receiver \<Rightarrow> bool" where
  "moves_forward rv rv' \<longleftrightarrow>
     (\<forall>a. stored_progress rv = Some a \<longrightarrow> (\<exists>b. stored_progress rv' = Some b \<and> forward a b))"

interpretation receiving: history receive_step moves_forward
proof
  fix rv rv' rv'' :: receiver and r :: "int \<times> pyval"
  show "moves_forward rv rv" using forward_refl by (auto simp: moves_forward_def)
  show "moves_forward rv rv' \<Longrightarrow> moves_forward rv' rv'' \<Longrightarrow> moves_forward rv rv''"
    unfolding moves_forward_def by (meson forward_trans)
  obtain now payload where r: "r = (now, payload)" by fastforce
  obtain st body rv1 where one: "receive_progress rv now payload = ((st, body), rv1)" by (metis prod.exhaust)
  show "moves_forward rv (receive_step rv r)"
    unfolding moves_forward_def using receive_progress_forward[OF one] by (simp add: receive_step_def r one)
qed

text \<open>What the receiver stores never moves back. Over any sequence of requests at any times, valid or not, the stored observation
  time and judgement count only grow, and at one observation time there is only one count.\<close>

theorem received_progress_moves_forward:
  assumes "stored_progress rv = Some a"
  shows "\<exists>b. stored_progress (receive_all rv requests) = Some b \<and> forward a b"
  using receiving.run_keeps[where s = rv] assms unfolding receive_all_def moves_forward_def by blast

text \<open>A request that was accepted may be sent again, by a sender that did not see the answer: it is accepted with the same answer
  and the state stays as it is.\<close>

theorem retransmission_is_harmless:
  assumes "receive_progress rv now payload = ((HttpOk, body), rv')" and "now \<le> later"
  shows "receive_progress rv' later payload = ((HttpOk, body), rv')"
  using assms(1)
proof (cases rule: receive_progress_cases)
  case (answered d previous current observed)
  have "accepted_payload (rv_source_id rv) later d = Some (current, observed)"
    by (rule accepted_payload_later[OF answered(2) assms(2)])
  then show ?thesis using answered by (simp add: receive_progress_def)
next
  case (stored d current observed)
  have "accepted_payload (rv_source_id rv) later d = Some (current, observed)"
    by (rule accepted_payload_later[OF stored(2) assms(2)])
  then show ?thesis using stored by (simp add: receive_progress_def previous_answer_def)
qed simp

subsection \<open>The worker and the receiver\<close>

text \<open>The network between them: a \<open>POST\<close> of the rendered object with the bearer token; every status but OK is an exception of the
  sender.\<close>

definition deliver :: "(pyval \<Rightarrow> string) \<Rightarrow> int \<Rightarrow> server post" where
  "deliver render server_now sv token payload =
     (case do_post server_now \<lparr>rp_path = Some ''/api/progress'', rp_authorization = ''Bearer '' @ token,
          rp_content_length = show_int (int (length (render payload))), rp_json = Some payload\<rparr> sv of
        ((st, body), sv') \<Rightarrow> (if st = HttpOk then Inr () else Inl (OSError ''HTTP Error''), sv'))"

fun run_against :: "(pyval \<Rightarrow> string) \<Rightarrow> (int \<times> turn) list \<Rightarrow> worker \<Rightarrow> server \<Rightarrow> monitor_snapshot list \<times> worker \<times> server" where
  "run_against render [] w sv = ([], w, sv)"
| "run_against render ((server_now, force, now, ticks, reading) # ts) w sv =
     (case poll_once (deliver render server_now) force now ticks reading w sv of
        (shown, w', sv') \<Rightarrow>
          case run_against render ts w' sv' of (rest, w'', sv'') \<Rightarrow> (shown # rest, w'', sv''))"

lemma deliver_cases:
  assumes "deliver render server_now sv token payload = (r, sv')"
  obtains (failed) e where "r = Inl e" "sv' = sv"
    | (received) body rv where "r = Inr ()" "sv' = sv\<lparr>sv_receiver := rv\<rparr>"
        "receive_progress (sv_receiver sv) server_now payload = ((HttpOk, body), rv)"
proof -
  let ?rq = "\<lparr>rp_path = Some ''/api/progress'', rp_authorization = ''Bearer '' @ token,
      rp_content_length = show_int (int (length (render payload))), rp_json = Some payload\<rparr>"
  obtain st body sv1 where post: "do_post server_now ?rq sv = ((st, body), sv1)" by (metis prod.exhaust)
  obtain st' body' rv where answer: "receive_progress (sv_receiver sv) server_now payload = ((st', body'), rv)"
    by (metis prod.exhaust)
  show thesis
  proof (cases "st = HttpOk")
    case True
    then have "st' = HttpOk" "sv1 = sv\<lparr>sv_receiver := rv\<rparr>"
      using post answer by (auto simp: do_post_def Let_def split: if_splits)
    then show thesis using assms True post answer by (intro received) (auto simp: deliver_def)
  next
    case False
    have "sv1 = sv \<or> sv1 = sv\<lparr>sv_receiver := rv\<rparr> \<and> st = st'"
      using post answer by (auto simp: do_post_def Let_def split: if_splits)
    moreover have "rv = sv_receiver sv" if "st = st'"
      using answer False that by (cases rule: receive_progress_cases) auto
    ultimately have "sv1 = sv" by auto
    then show thesis using assms False post by (intro failed) (auto simp: deliver_def)
  qed
qed

lemma received_message_is_stored:
  assumes "receive_progress rv now (message_value m) = ((HttpOk, body), rv')"
  shows "stored_progress rv' = Some (pm_observed_at m, pm_current m)"
  using assms
proof (cases rule: receive_progress_cases)
  case (answered d previous current observed)
  have co: "current = pm_current m" "observed = pm_observed_at m"
    using answered(1,2) by (auto simp: message_value_def accepted_payload_iff get_item_def)
  obtain n where "get_item previous ''observed_at'' = PInt observed" "get_item previous ''current_judged'' = PInt current"
      "get_item previous ''received_at'' = PInt n" "get_item previous ''source_id'' = PStr (rv_source_id rv)"
    using answered(4) by (auto simp: previous_answer_def split: pyval.splits if_splits)
  then show ?thesis using answered(3,6) co by (simp add: stored_progress_def)
next
  case (stored d current observed)
  have "current = pm_current m" "observed = pm_observed_at m"
    using stored(1,2) by (auto simp: message_value_def accepted_payload_iff get_item_def)
  then show ?thesis using stored(7) by simp
qed simp

lemma send_progress_snapshot_cases:
  assumes "send_progress_snapshot post token m net = (r, net')"
  obtains (invalid) e where "r = Inl e" "net' = net" | (posted) "post net token (message_value m) = (r, net')"
  using assms by (auto simp: send_progress_snapshot_def split: if_splits)

definition agrees :: "worker \<Rightarrow> server \<Rightarrow> bool" where
  "agrees w sv \<longleftrightarrow> (\<forall>c. wk_last_sent_counts w = Some c \<longrightarrow> (\<exists>t. stored_progress (sv_receiver sv) = Some (t, pg_current c)))"

lemma poll_once_agrees:
  assumes "poll_once (deliver render server_now) force now ticks reading w sv = (shown, w', sv')" and "agrees w sv"
  shows "agrees w' sv'"
proof (cases reading)
  case (Inl e)
  then show ?thesis using assms by (simp add: poll_once_def)
next
  case (Inr counts)
  let ?w = "w\<lparr>wk_last_counts := Some counts\<rparr>"
  have still: "agrees ?w sv" using assms(2) by (simp add: agrees_def)
  show ?thesis
  proof (cases "send_due force ticks counts ?w")
    case False
    then show ?thesis using assms(1) Inr still by (simp add: poll_once_def Let_def)
  next
    case True
    obtain r sv1 where sent: "send_progress_snapshot (deliver render server_now) (wk_token ?w) (message_of ?w now counts) sv = (r, sv1)"
      by fastforce
    show ?thesis
    proof (cases r)
      case (Inl e)
      have "w' = ?w" "sv' = sv1" using assms(1) \<open>reading = Inr counts\<close> True sent Inl by (simp_all add: poll_once_def Let_def)
      moreover have "sv1 = sv" using sent Inl by (auto elim!: send_progress_snapshot_cases deliver_cases)
      ultimately show ?thesis using still by simp
    next
      case (Inr u)
      have w': "wk_last_sent_counts w' = Some counts" "sv' = sv1"
        using assms(1) \<open>reading = Inr counts\<close> True sent Inr by (auto simp: poll_once_def Let_def)
      have "stored_progress (sv_receiver sv1) = Some (truncate_real now, pg_current counts)"
        using sent Inr
        by (auto elim!: send_progress_snapshot_cases deliver_cases dest!: received_message_is_stored simp: message_of_def)
      then show ?thesis using w' by (simp add: agrees_def)
    qed
  qed
qed

definition turn_step :: "(pyval \<Rightarrow> string) \<Rightarrow> worker \<times> server \<Rightarrow> int \<times> turn \<Rightarrow> worker \<times> server" where
  "turn_step render = (\<lambda>(w, sv) (server_now, force, now, ticks, reading).
     snd (poll_once (deliver render server_now) force now ticks reading w sv))"

lemma run_against_state: "snd (run_against render turns w sv) = foldl (turn_step render) (w, sv) turns"
proof (induction turns arbitrary: w sv)
  case (Cons turn turns)
  obtain server_now force now ticks reading where "turn = (server_now, force, now, ticks, reading)"
    by (metis prod.exhaust)
  then show ?case using Cons.IH
    by (cases "poll_once (deliver render server_now) force now ticks reading w sv") (auto simp: turn_step_def split: prod.split, metis snd_conv)
qed simp

interpretation agreeing: preserved "turn_step render" "\<lambda>(w, sv). agrees w sv" for render
proof
  fix s :: "worker \<times> server" and r :: "int \<times> turn"
  obtain w sv where s: "s = (w, sv)" by fastforce
  obtain server_now force now ticks reading where r: "r = (server_now, force, now, ticks, reading)" by (metis prod.exhaust)
  obtain shown w' sv' where one: "poll_once (deliver render server_now) force now ticks reading w sv = (shown, w', sv')"
    by (metis prod.exhaust)
  assume "case s of (w, sv) \<Rightarrow> agrees w sv"
  then show "case turn_step render s r of (w, sv) \<Rightarrow> agrees w sv"
    using poll_once_agrees[OF one] by (simp add: turn_step_def s r one)
qed

end
