(* ===== verification/Progress_Properties.thy ===== *)
theory Progress_Properties
  imports Progress_Proofs
begin

text \<open>
  Properties of the whole progress path: the worker against the server, the controller's threads, the status the cockpit shows and
  the published menu it serves.
\<close>

subsection \<open>A worker and its server\<close>


text \<open>A server that waits for exactly this worker, and counts it can send.\<close>

definition configured_for :: "worker \<Rightarrow> server \<Rightarrow> bool" where
  "configured_for w sv \<longleftrightarrow> sv_token sv = Some (wk_token w) \<and> wk_token w \<noteq> [] \<and>
     rv_source_id (sv_receiver sv) = mo_source_id (wk_settings w) \<and> source_id_ok (mo_source_id (wk_settings w))"

definition valid_counts :: "progress_counts \<Rightarrow> bool" where
  "valid_counts c \<longleftrightarrow> 0 \<le> pg_current c \<and> (case pg_today c of None \<Rightarrow> True | Some t \<Rightarrow> 0 \<le> t \<and> t \<le> pg_current c)"

definition server_behind :: "server \<Rightarrow> int \<Rightarrow> int \<Rightarrow> bool" where
  "server_behind sv observed current \<longleftrightarrow>
     rv_state (sv_receiver sv) = Some NoFile \<or>
     (\<exists>t n. stored_progress (sv_receiver sv) = Some (t, n) \<and> t < observed \<and> n \<le> current)"

lemma message_items [simp]:
  "get_item [(''source_id'', PStr s), (''current_judged'', PInt c), (''today_judged'', t), (''observed_at'', PInt q)] ''source_id'' = PStr s"
  "get_item [(''source_id'', PStr s), (''current_judged'', PInt c), (''today_judged'', t), (''observed_at'', PInt q)] ''current_judged'' = PInt c"
  "get_item [(''source_id'', PStr s), (''current_judged'', PInt c), (''today_judged'', t), (''observed_at'', PInt q)] ''today_judged'' = t"
  "get_item [(''source_id'', PStr s), (''current_judged'', PInt c), (''today_judged'', t), (''observed_at'', PInt q)] ''observed_at'' = PInt q"
  by (simp_all add: get_item_def)

lemma message_accepted:
  assumes "valid_counts counts" and "source_id_ok source" and "0 \<le> observed" and "observed \<le> server_now + 300"
  shows "accepted_payload source server_now [(''source_id'', PStr source), (''current_judged'', PInt (pg_current counts)),
      (''today_judged'', option_value (pg_today counts)), (''observed_at'', PInt observed)] = Some (pg_current counts, observed)"
  using assms unfolding accepted_payload_iff
  by (auto simp: required_keys_def valid_counts_def option_value_def split: option.splits)

lemma newer_message_is_stored:
  assumes "source_id_ok (rv_source_id rv)" and "valid_counts counts" and "0 \<le> observed" and "observed \<le> server_now + 300"
    and "rv_state rv = Some NoFile \<or> (\<exists>t n. stored_progress rv = Some (t, n) \<and> t < observed \<and> n \<le> pg_current counts)"
  shows "\<exists>body rv'. receive_progress rv server_now (message_value \<lparr>pm_source_id = rv_source_id rv,
      pm_current = pg_current counts, pm_today = pg_today counts, pm_observed_at = observed\<rparr>) = ((HttpOk, body), rv')"
  using assms(5)
proof
  assume "rv_state rv = Some NoFile"
  then show ?thesis
    by (simp add: receive_progress_def message_value_def message_accepted[OF assms(2,1,3,4)] Let_def)
next
  assume "\<exists>t n. stored_progress rv = Some (t, n) \<and> t < observed \<and> n \<le> pg_current counts"
  then obtain t n where tn: "stored_progress rv = Some (t, n)" "t < observed" "n \<le> pg_current counts" by blast
  obtain d r where d: "rv_state rv = Some (Holding (PDict d))" "get_item d ''observed_at'' = PInt t"
      "get_item d ''current_judged'' = PInt n" "get_item d ''received_at'' = PInt r"
      "get_item d ''source_id'' = PStr (rv_source_id rv)"
    using stored_progress_SomeE[OF tn(1)] by blast
  have "previous_answer (rv_source_id rv) q (pg_current counts) observed d = None" for q
    using d(2-5) tn(2,3) by (simp add: previous_answer_def)
  then show ?thesis
    by (simp add: receive_progress_def message_value_def message_accepted[OF assms(2,1,3,4)] d(1) Let_def)
qed


subsection \<open>The controller\<close>

text \<open>A thread that is alive is the one the controller holds.\<close>

definition one_owner :: "controller \<Rightarrow> bool" where
  "one_owner c \<longleftrightarrow> ct_alive c \<subseteq> set_option (ct_thread c) \<and> ct_worker c = ct_thread c"

lemma stop_controller_owner:
  assumes "stop_controller joined c = (r, c')" and "one_owner c"
  shows "one_owner c'" and "r = Inr u \<Longrightarrow> ct_alive c' = {} \<and> ct_thread c' = None"
  using assms by (auto simp: stop_controller_def one_owner_def Let_def split: if_splits)

lemma start_controller_owner:
  assumes "start_controller pf joined started m c = (r, c')" and "one_owner c"
  shows "one_owner c'"
proof (cases "py_bind (normalized pf m) (\<lambda>settings. py_bind (new_worker pf settings) (\<lambda>w. Inr settings))")
  case (Inl e)
  then show ?thesis using assms by (simp add: start_controller_def)
next
  case (Inr settings)
  let ?c1 = "c\<lparr>ct_made := Suc (ct_made c)\<rparr>"
  have owner: "one_owner ?c1" using assms(2) by (simp add: one_owner_def)
  obtain r2 c2 where stop: "stop_controller joined ?c1 = (r2, c2)" by fastforce
  show ?thesis
  proof (cases r2)
    case (Inl e)
    then show ?thesis using assms(1) Inr stop stop_controller_owner(1)[OF stop owner]
      by (simp add: start_controller_def Let_def)
  next
    case (Inr u)
    then show ?thesis
      using assms(1) \<open>py_bind (normalized pf m) _ = Inr settings\<close> stop stop_controller_owner(2)[OF stop owner Inr]
      by (auto simp: start_controller_def Let_def one_owner_def split: if_splits)
  qed
qed

lemma controller_step_owner: "controller_step pf c c' \<Longrightarrow> one_owner c \<Longrightarrow> one_owner c'"
proof (erule controller_stepE)
  fix joined started m r
  show "start_controller pf joined started m c = (r, c') \<Longrightarrow> one_owner c \<Longrightarrow> one_owner c'" by (rule start_controller_owner)
  fix r'
  show "stop_controller joined c = (r', c') \<Longrightarrow> one_owner c \<Longrightarrow> one_owner c'" by (rule stop_controller_owner(1))
qed (auto simp: one_owner_def)

text \<open>C14: The controller owns exactly one sender. In every state it can reach, through any mixture of starts, stops, failed starts,
  joins that time out and threads that die, at most one sender thread is alive, it is the one the controller holds, and
  when the controller is not active none is alive.\<close>

theorem at_most_one_sender:
  assumes "controller_reaches pf c"
  shows "ct_alive c \<subseteq> set_option (ct_thread c) \<and> ct_worker c = ct_thread c \<and> card (ct_alive c) \<le> 1 \<and>
     (\<not> active c \<longrightarrow> ct_alive c = {})"
proof -
  have "one_owner c" using assms
  proof induction
    case initially
    show ?case by (simp add: one_owner_def no_controller_def)
  next
    case (further c c')
    from controller_step_owner[OF further.hyps(2) further.IH] show ?case .
  qed
  moreover have "card (ct_alive c) \<le> card (set_option (ct_thread c))" if "one_owner c"
    using that by (intro card_mono) (simp_all add: one_owner_def)
  moreover have "card (set_option (ct_thread c)) \<le> 1" by (cases "ct_thread c") simp_all
  ultimately show ?thesis by (auto simp: one_owner_def active_def)
qed

subsection \<open>What the cockpit shows\<close>

text \<open>A count that reaches the server is the count the cockpit shows. After a new message with a count for today was stored, a
  status asked for on the same day, within the staleness limit and with a readable manifest, reports exactly the
  message: its source, total and daily count, what remains of the target, no error, no warning and not stale.\<close>

theorem stored_message_is_shown:
  assumes "receive_progress (sv_receiver sv) server_now (message_value m) = ((HttpOk, body), rv)" and "rv \<noteq> sv_receiver sv"
    and "pm_today m = Some d" and "progress_date (pm_observed_at m) = Inr day" and "progress_date now = Inr day"
    and "now - server_now \<le> sv_stale_after sv" and "\<bar>pm_observed_at m - server_now\<bar> \<le> sv_stale_after sv"
    and "baseline_of manifest = Inr b"
  shows "\<exists>report. status rt (sv\<lparr>sv_receiver := rv\<rparr>) now manifest counts = Inr (report, sv\<lparr>sv_receiver := rv\<rparr>) \<and>
     sr_source report = rv_source_id (sv_receiver sv) \<and> sr_current report = pm_current m \<and> sr_live report = d \<and>
     sr_remaining report = max 0 (sv_target sv - d) \<and> (sr_complete report \<longleftrightarrow> sv_target sv \<le> d) \<and>
     \<not> sr_stale report \<and> sr_errors report = [] \<and> sr_warnings report = []"
  using assms(1)
proof (cases rule: receive_progress_cases)
  case (stored dict current observed)
  have m: "current = pm_current m" "observed = pm_observed_at m" "get_item dict ''today_judged'' = PInt d" "0 \<le> current"
      "0 \<le> d" "d \<le> current"
    using stored(1,2) assms(3) by (auto simp: message_value_def accepted_payload_iff option_value_def)
  have day: "day = progress_day (pm_observed_at m)"
    using assms(4) by (simp add: progress_date_def split: prod.splits if_splits)
  let ?row = "stored_row (rv_source_id (sv_receiver sv)) (pm_current m) (PInt d) (pm_observed_at m) server_now"
  have items: "int_item ?row ''current_judged'' = Inr (pm_current m)" "int_item ?row ''observed_at'' = Inr (pm_observed_at m)"
      "str_item rt ?row ''source_id'' = Inr (rv_source_id (sv_receiver sv))" "map_of ?row ''received_at'' = Some (PInt server_now)"
    by (simp_all add: int_item_def str_item_def item_def stored_row_def)
  have "read_received rt (sv_stale_after sv) now day ?row start_acc =
      (Inr (), start_acc\<lparr>sa_current := Some (pm_current m), sa_observed_at := Some (pm_observed_at m),
        sa_source := rv_source_id (sv_receiver sv), sa_received_at := Some server_now,
        sa_skew := Some (pm_observed_at m - server_now), sa_observed_day := Some day, sa_daily := Some d\<rparr>)"
    using m assms(4,6,7) day
    by (simp add: read_received_def items and_then_def warn_if_def fail_if_def received_daily_def Let_def)
  then show ?thesis
    using m assms(5,8) stored(7)
    by (simp add: status_def read_state_def score_db_fallback_def status_report_of_def Let_def start_acc_def)
qed (use assms(2) in simp_all)

text \<open>The export directory of a published store, as the server reads it.\<close>

definition exported :: "export_store \<Rightarrow> export_dir" where
  "exported st = \<lparr>ed_inside = (\<lambda>_. True),
     ed_read = (\<lambda>path. case map_of (xs_view st) path of None \<Rightarrow> MissingFile | Some bytes \<Rightarrow> FileBytes bytes)\<rparr>"

lemma export_routes_published: "(route, relative) \<in> set export_routes \<Longrightarrow> relative \<in> set document_names"
  by (auto simp: export_routes_def document_names_def)

lemma export_route_found:
  assumes "(route, relative) \<in> set export_routes"
  shows "route \<noteq> ''/''" "route \<noteq> ''/healthz''" "route \<noteq> ''/api/status''" "map_of export_routes route = Some relative"
  using assms by (auto simp: export_routes_def)

text \<open>The cockpit serves the menu that was published. After an export that became the newest, every route of the menu answers
  with the bytes of that session's document, for any state of the server.\<close>

theorem published_menu_is_served:
  assumes run: "write_export rt codec se requested st = (Inr a, st')" and published: "ar_published a"
    and route: "(route, relative) \<in> set export_routes"
  shows "\<exists>v. (relative, v) \<in> set (revision_files codec se (ar_revision a) (ar_content_hash a)) \<and>
     dispatch rt (exported st') now manifest counts (Some route) sv = Inr ((HttpOk, FileBody (jc_indented codec v)), sv)"
  using run
proof (cases rule: write_export_cases)
  case (written current revision content_hash docs st1)
  have "relative \<in> fst ` set docs"
    using export_routes_published[OF route] revision_files_names[of codec se revision content_hash] written(6)
    by (metis list.set_map)
  then obtain v where v: "(relative, v) \<in> set docs" by force
  have "current < revision" using published written(8) by simp
  then have "map_of (xs_view st') relative = Some (jc_indented codec v)"
    using publish_view_document[OF written(6) v] written(9) by simp
  then show ?thesis
    using v written(6,8) export_route_found[OF route] by (intro exI[of _ v]) (simp add: dispatch_def serve_export_def exported_def)
qed simp_all

subsection \<open>Examples\<close>

definition sample_receiver :: receiver where
  "sample_receiver = \<lparr>rv_source_id = ''PC'', rv_state = Some NoFile\<rparr>"

definition sample_message :: progress_message where
  "sample_message = \<lparr>pm_source_id = ''PC'', pm_current = 10, pm_today = Some 5, pm_observed_at = 1000\<rparr>"

definition sample_state :: row where
  "sample_state = stored_row ''PC'' 10 (PInt 5) 1000 1000"

lemma sample_source_ok: "source_id_ok ''PC''"
  by (simp add: source_id_ok_def is_alnum_def is_digit_def less_eq_char_def)

lemma sample_received:
  "receive_progress sample_receiver 1000 (message_value sample_message) =
     ((HttpOk, accepted_body sample_state), sample_receiver\<lparr>rv_state := Some (Holding (PDict sample_state))\<rparr>)"
proof -
  have "accepted_payload ''PC'' 1000 [(''source_id'', PStr ''PC''), (''current_judged'', PInt 10), (''today_judged'', PInt 5),
      (''observed_at'', PInt 1000)] = Some (10, 1000)"
    using message_accepted[of "\<lparr>pg_current = 10, pg_today = Some 5\<rparr>" "''PC''" 1000 1000]
    by (simp add: valid_counts_def option_value_def sample_source_ok)
  then show ?thesis
    by (simp add: receive_progress_def message_value_def sample_message_def sample_receiver_def option_value_def sample_state_def Let_def)
qed

theorem received_progress_moves_forward_witness:
  "\<exists>b. stored_progress (receive_all (sample_receiver\<lparr>rv_state := Some (Holding (PDict sample_state))\<rparr>)
     [(2000, message_value sample_message), (3000, PNone)]) = Some b \<and> forward (1000, 10) b"
  by (rule received_progress_moves_forward)
    (simp add: sample_receiver_def sample_state_def stored_progress_def)

theorem retransmission_is_harmless_witness:
  "receive_progress (sample_receiver\<lparr>rv_state := Some (Holding (PDict sample_state))\<rparr>) 1005 (message_value sample_message) =
     ((HttpOk, accepted_body sample_state), sample_receiver\<lparr>rv_state := Some (Holding (PDict sample_state))\<rparr>)"
  by (rule retransmission_is_harmless[OF sample_received]) simp

definition sample_server :: server where
  "sample_server = \<lparr>sv_receiver = sample_receiver, sv_token = Some ''t'', sv_stale_after = 90, sv_target = 100,
     sv_score_db = False, sv_last_current = None, sv_last_today = None, sv_last_day = None\<rparr>"

definition sample_worker :: worker where
  "sample_worker = \<lparr>wk_settings = default_settings\<lparr>mo_source_id := ''PC''\<rparr>, wk_token = ''t'', wk_last_sent_monotonic = None,
     wk_last_sent_at = None, wk_last_sent_counts = None, wk_last_counts = None\<rparr>"

definition sample_counts :: progress_counts where
  "sample_counts = \<lparr>pg_current = 10, pg_today = Some 5\<rparr>"



definition sample_platform :: platform where
  "sample_platform = \<lparr>pf_resolve = (\<lambda>_ t. Inr t), pf_is_file = (\<lambda>_. True), pf_read_text = (\<lambda>_. Inr ''t''),
     pf_urlsplit = (\<lambda>_. Inr \<lparr>up_scheme = ''http'', up_hostname = Some ''host'', up_username = None, up_password = None,
       up_path = [], up_query = [], up_fragment = []\<rparr>)\<rparr>"

definition sample_controller :: controller where
  "sample_controller = \<lparr>ct_worker = Some 0, ct_thread = Some 0, ct_alive = {0}, ct_stopping = {}, ct_made = 1\<rparr>"

lemma sample_started: "controller_reaches sample_platform sample_controller"
proof (rule controller_reaches.further[OF controller_reaches.initially])
  let ?m = "default_settings\<lparr>mo_source_id := ''PC''\<rparr>"
  have strip: "py_strip ''t'' = ''t''" "py_strip [] = []" by (simp_all add: py_strip_def is_space_def)
  have "normalized sample_platform ?m = Inr ?m"
    by (simp add: normalized_def sample_platform_def default_settings_def rstrip_slash_def url_ok_def sample_source_ok strip)
  moreover have "read_token sample_platform ?m = Inr ''t''" by (simp add: read_token_def sample_platform_def strip)
  ultimately have "start_controller sample_platform True True ?m no_controller = (Inr ?m, sample_controller)"
    by (simp add: start_controller_def new_worker_def stop_controller_def no_controller_def sample_controller_def)
  then show "controller_step sample_platform no_controller sample_controller" by (rule controller_step.start)
qed

theorem at_most_one_sender_witness: "active sample_controller \<and> card (ct_alive sample_controller) \<le> 1"
  using at_most_one_sender[OF sample_started] by (simp add: active_def sample_controller_def)

theorem stored_message_is_shown_witness:
  "\<exists>report sv. status sample_runtime sv 1050 (Some (PDict [(''baseline_judged'', PInt 5)])) (Inl TypeError) = Inr (report, sv) \<and>
     sr_current report = 10 \<and> sr_live report = 5 \<and> sr_remaining report = 95 \<and> \<not> sr_complete report \<and> \<not> sr_stale report"
proof -
  let ?rv = "sample_receiver\<lparr>rv_state := Some (Holding (PDict sample_state))\<rparr>"
  have "receive_progress (sv_receiver sample_server) 1000 (message_value sample_message) = ((HttpOk, accepted_body sample_state), ?rv)"
    using sample_received by (simp add: sample_server_def)
  moreover have "?rv \<noteq> sv_receiver sample_server" by (simp add: sample_server_def sample_receiver_def)
  moreover have "progress_date 1000 = Inr 0" "progress_date 1050 = Inr 0" by code_simp+
  ultimately show ?thesis
    using stored_message_is_shown[of sample_server 1000 sample_message "accepted_body sample_state" ?rv 5 0 1050
        "Some (PDict [(''baseline_judged'', PInt 5)])" 5 sample_runtime "Inl TypeError"]
    by (auto simp: sample_message_def sample_server_def baseline_of_def int_item_def item_def)
qed

theorem published_menu_is_served_witness:
  "\<exists>st v. dispatch sample_digest (exported st) 0 None (Inl TypeError) (Some ''/api/session'') sample_server =
     Inr ((HttpOk, FileBody (jc_indented sample_codec v)), sample_server)"
proof -
  obtain st where run: "write_export sample_digest sample_codec sample_published None \<lparr>xs_revisions = [], xs_view = []\<rparr> =
     (Inr \<lparr>ar_revision = 1, ar_content_hash = ''h'', ar_root = ''revisions/1-h'', ar_published = True\<rparr>, st)"
    using sample_export by blast
  have route: "(''/api/session'', ''session.json'') \<in> set export_routes" by (simp add: export_routes_def)
  show ?thesis using published_menu_is_served[OF run _ route] by (metis artifact_revision.select_convs(4))
qed

end
