(* ===== verification/Features.thy ===== *)
theory Features
  imports Normalize
begin

text \<open>
  The compact strings of beatoraja's SongInformation (\<open>features/songinfo.py\<close>) and the features derived from them
  (\<open>features/build.py\<close>). A value of the row is \<open>PNone\<close>, a text, or anything else, which is an error. Averages are exact.
\<close>

subsection \<open>Note distribution\<close>

definition base36_value :: "char \<Rightarrow> int option" where
  "base36_value c =
     (if is_digit c then Some (digit_of c)
      else if CHR ''a'' \<le> c \<and> c \<le> CHR ''z'' then Some (int (of_char c) - 87) else None)"

fun pair_values :: "string \<Rightarrow> int list option" where
  "pair_values (a # b # cs) =
     (case (base36_value a, base36_value b) of
        (Some x, Some y) \<Rightarrow> map_option (\<lambda>vs. (36 * x + y) # vs) (pair_values cs)
      | _ \<Rightarrow> None)"
| "pair_values [] = Some []"
| "pair_values [c] = None"

text \<open>Rows of seven values, one row a second.\<close>

function chunk7 :: "'a list \<Rightarrow> 'a list list" where
  "chunk7 xs = (if xs = [] then [] else take 7 xs # chunk7 (drop 7 xs))"
  by pat_completeness auto
termination
  by (relation "measure length") auto

declare chunk7.simps [simp del]

fun text_value_of :: "pyval \<Rightarrow> string option py" where
  "text_value_of PNone = Inr None"
| "text_value_of (PStr s) = Inr (if s = [] then None else Some s)"
| "text_value_of v = Inl (SongInfoDecodeError ''must be text'')"

definition decode_distribution :: "pyval \<Rightarrow> int list list py" where
  "decode_distribution v =
     py_bind (text_value_of v) (\<lambda>t.
       case t of None \<Rightarrow> Inr [] | Some s \<Rightarrow>
         let stripped = py_strip s;
             encoded = (case stripped of c # cs \<Rightarrow> if c = CHR ''#'' then cs else stripped | [] \<Rightarrow> [])
         in if encoded = [] then Inr []
            else if length encoded mod 14 \<noteq> 0 then Inl (SongInfoDecodeError ''distribution length is not divisible by 14'')
            else case pair_values (py_lower encoded) of
              None \<Rightarrow> Inl (SongInfoDecodeError ''distribution contains a non-base36 character'')
            | Some vs \<Rightarrow> Inr (chunk7 vs))"

subsection \<open>Lists of numbers\<close>

fun split_commas :: "string \<Rightarrow> string list" where
  "split_commas [] = [[]]"
| "split_commas (c # cs) =
     (if c = CHR '','' then [] # split_commas cs
      else case split_commas cs of t # ts \<Rightarrow> (c # t) # ts | [] \<Rightarrow> [[c]])"

definition csv_tokens :: "pyval \<Rightarrow> string list py" where
  "csv_tokens v =
     py_bind (text_value_of v) (\<lambda>t.
       case t of None \<Rightarrow> Inr [] | Some s \<Rightarrow>
         if py_strip s = [] then Inr []
         else
           let tokens = map py_strip (split_commas s) in
           if [] \<in> set tokens then Inl (SongInfoDecodeError ''contains an empty value'') else Inr tokens)"

fun finite_float :: "pyfloat option \<Rightarrow> real py" where
  "finite_float (Some (Fin x)) = Inr x"
| "finite_float (Some f) = Inl (SongInfoDecodeError ''speedchange contains a non-finite number'')"
| "finite_float None = Inl (SongInfoDecodeError ''speedchange contains a non-number'')"

text \<open>Both numbers of a pair are parsed before either is checked to be finite.\<close>

fun speed_pairs :: "runtime \<Rightarrow> real option \<Rightarrow> string list \<Rightarrow> (real \<times> real) list py" where
  "speed_pairs rt before [] = Inr []"
| "speed_pairs rt before [t] = Inl (SongInfoDecodeError ''speedchange must contain speed,time_ms pairs'')"
| "speed_pairs rt before (a # b # ts) =
     py_bind (raise_if (parse_float rt a = None \<or> parse_float rt b = None)
       (SongInfoDecodeError ''speedchange contains a non-number'')) (\<lambda>_.
     py_bind (finite_float (parse_float rt a)) (\<lambda>speed.
     py_bind (finite_float (parse_float rt b)) (\<lambda>time_ms.
     py_bind (raise_if (time_ms < 0) (SongInfoDecodeError ''speedchange contains a negative time'')) (\<lambda>_.
     py_bind (raise_if (case before of None \<Rightarrow> False | Some m \<Rightarrow> time_ms < m)
       (SongInfoDecodeError ''speedchange times are not monotonic'')) (\<lambda>_.
     py_bind (speed_pairs rt (Some time_ms) ts) (\<lambda>rest. Inr ((speed, time_ms) # rest)))))))"

definition decode_speedchange :: "runtime \<Rightarrow> pyval \<Rightarrow> (real \<times> real) list py" where
  "decode_speedchange rt v =
     py_bind (csv_tokens v) (\<lambda>tokens.
     py_bind (raise_if (odd (length tokens)) (SongInfoDecodeError ''speedchange must contain speed,time_ms pairs'')) (\<lambda>_.
       speed_pairs rt None tokens))"

definition lane_count :: "string \<Rightarrow> int py" where
  "lane_count t =
     (case parse_int t of None \<Rightarrow> Inl (SongInfoDecodeError ''lanenotes contains a non-integer'') | Some n \<Rightarrow> Inr n)"

fun lane_triples :: "string list \<Rightarrow> (int \<times> int \<times> int) list py" where
  "lane_triples (a # b # c # ts) =
     py_bind (py_mapM lane_count [a, b, c]) (\<lambda>ns.
     py_bind (raise_if (list_ex (\<lambda>n. n < 0) ns) (SongInfoDecodeError ''lanenotes contains a negative count'')) (\<lambda>_.
     py_bind (lane_triples ts) (\<lambda>rest. Inr ((ns ! 0, ns ! 1, ns ! 2) # rest))))"
| "lane_triples ts = Inr []"

definition decode_lanenotes :: "pyval \<Rightarrow> (int \<times> int \<times> int) list py" where
  "decode_lanenotes v =
     py_bind (csv_tokens v) (\<lambda>tokens.
     py_bind (raise_if (length tokens mod 3 \<noteq> 0) (SongInfoDecodeError ''lanenotes must contain normal,long,mine triples'')) (\<lambda>_.
       lane_triples tokens))"

subsection \<open>Features\<close>

record chart_features =
  cf_sha256 :: string
  cf_feature_version :: int
  cf_density_mean :: real
  cf_density_p90 :: real
  cf_density_p99 :: real
  cf_end_density :: real
  cf_burst_max :: real
  cf_scratch_rate :: real
  cf_scratch_p90 :: real
  cf_scratch_combo_rate :: real
  cf_ln_rate :: real
  cf_soflan_var :: real
  cf_soflan_changes :: nat
  cf_stop_count :: nat
  cf_chart_seconds :: real
  cf_total_notes :: int

definition nearest_rank :: "int list \<Rightarrow> real \<Rightarrow> real" where
  "nearest_rank vs percentile =
     (if vs = [] then 0
      else real_of_int (sort vs ! (nat (max 1 \<lceil>percentile * real (length vs)\<rceil>) - 1)))"

definition mean_or_zero :: "int list \<Rightarrow> real" where
  "mean_or_zero vs = (if vs = [] then 0 else real_of_int (sum_list vs) / real (length vs))"

definition ratio_or_zero :: "int \<Rightarrow> int \<Rightarrow> real" where
  "ratio_or_zero a b = (if b = 0 then 0 else real_of_int a / real_of_int b)"

definition variance_or_zero :: "real list \<Rightarrow> real" where
  "variance_or_zero vs =
     (if vs = [] then 0
      else let m = sum_list vs / real (length vs) in sum_list (map (\<lambda>v. (v - m)\<^sup>2) vs) / real (length vs))"

text \<open>A second of the chart: normal and long notes of the scratch lane and of the keys.\<close>

definition bucket_density :: "int list \<Rightarrow> int" where
  "bucket_density b = b ! 0 + b ! 2 + b ! 3 + b ! 5"

definition bucket_scratch :: "int list \<Rightarrow> int" where
  "bucket_scratch b = b ! 0 + b ! 2"

text \<open>The last five seconds up to the last note; trailing padding is cut.\<close>

definition end_window :: "int list \<Rightarrow> int list" where
  "end_window ds = (let played = rev (dropWhile (\<lambda>d. d = 0) (rev ds)) in drop (length played - 5) played)"

definition close :: "real \<Rightarrow> real \<Rightarrow> bool" where
  "close a b \<longleftrightarrow> \<bar>a - b\<bar> \<le> 1 / 10 ^ 12"

definition features_from ::
    "string \<Rightarrow> int \<Rightarrow> int list list \<Rightarrow> (real \<times> real) list \<Rightarrow> (int \<times> int \<times> int) list \<Rightarrow> chart_features" where
  "features_from sha256 version distribution speeds lanes =
     (let densities = map bucket_density distribution;
          scratches = map bucket_scratch distribution;
          active = length (filter (\<lambda>b. 0 < bucket_scratch b) distribution);
          combo = length (filter (\<lambda>b. 0 < bucket_scratch b \<and> 0 < b ! 3 + b ! 5) distribution);
          window = end_window densities;
          normal = sum_list (map fst lanes);
          long = sum_list (map (fst \<circ> snd) lanes);
          playable = normal + long;
          total = (if playable \<noteq> 0 then playable else sum_list densities);
          speed_values = map fst speeds
      in \<lparr>cf_sha256 = sha256, cf_feature_version = version, cf_density_mean = mean_or_zero densities,
          cf_density_p90 = nearest_rank densities (90 / 100), cf_density_p99 = nearest_rank densities (99 / 100),
          cf_end_density = mean_or_zero window,
          cf_burst_max = real_of_int (if densities = [] then 0 else Max (set densities)),
          cf_scratch_rate = ratio_or_zero (sum_list scratches) total,
          cf_scratch_p90 = nearest_rank scratches (90 / 100),
          cf_scratch_combo_rate = ratio_or_zero (int combo) (int active), cf_ln_rate = ratio_or_zero long playable,
          cf_soflan_var = variance_or_zero speed_values,
          cf_soflan_changes = length (filter (\<lambda>(a, b). \<not> close a b) (zip speed_values (tl speed_values))),
          cf_stop_count = length (filter (\<lambda>v. close v 0) speed_values),
          cf_chart_seconds =
            (if speeds \<noteq> [] \<and> 0 < snd (last speeds) then snd (last speeds) / 1000 else real (length distribution)),
          cf_total_notes = total\<rparr>)"

definition extract_features :: "runtime \<Rightarrow> int \<Rightarrow> row \<Rightarrow> chart_features py" where
  "extract_features rt version r =
     (let sha256 = py_lower (let v = get_item r ''sha256'' in if truthy v then py_str rt v else []) in
      py_bind (raise_if (length sha256 \<noteq> 64 \<or> \<not> list_all is_hex_lower sha256)
        (SongInfoDecodeError ''information row has an invalid sha256'')) (\<lambda>_.
      py_bind (decode_distribution (get_item r ''distribution'')) (\<lambda>distribution.
      py_bind (decode_speedchange rt (get_item r ''speedchange'')) (\<lambda>speeds.
      py_bind (decode_lanenotes (get_item r ''lanenotes'')) (\<lambda>lanes.
        Inr (features_from sha256 version distribution speeds lanes))))))"

text \<open>A row that does not decode is skipped.\<close>

fun build_feature_rows :: "runtime \<Rightarrow> int \<Rightarrow> row list \<Rightarrow> chart_features list py" where
  "build_feature_rows rt version [] = Inr []"
| "build_feature_rows rt version (r # rs) =
     (case extract_features rt version r of
        Inl (SongInfoDecodeError s) \<Rightarrow> build_feature_rows rt version rs
      | Inl e \<Rightarrow> Inl e
      | Inr f \<Rightarrow> py_bind (build_feature_rows rt version rs) (\<lambda>fs. Inr (f # fs)))"

subsection \<open>Round trip of the distribution\<close>

definition base36_char :: "nat \<Rightarrow> char" where
  "base36_char n = (if n < 10 then char_of (48 + n) else char_of (87 + n))"

definition encode_pair :: "int \<Rightarrow> string" where
  "encode_pair v = [base36_char (nat v div 36), base36_char (nat v mod 36)]"

definition encode_distribution :: "int list list \<Rightarrow> string" where
  "encode_distribution rows = CHR ''#'' # concat (map encode_pair (concat rows))"

lemma base36_char_value: "n < 36 \<Longrightarrow> base36_value (base36_char n) = Some (int n)"
  by (auto simp: base36_value_def base36_char_def is_digit_def digit_of_def less_eq_char_def)

lemma base36_char_lower: "n < 36 \<Longrightarrow> lower_char (base36_char n) = base36_char n"
  by (auto simp: base36_char_def lower_char_def less_eq_char_def)

lemma base36_char_space: "n < 36 \<Longrightarrow> \<not> is_space (base36_char n)"
proof
  assume n: "n < 36" and "is_space (base36_char n)"
  then have "(of_char (base36_char n) :: nat) < 48" by (auto simp: is_space_def)
  then show False using n by (simp add: base36_char_def split: if_splits)
qed

lemma pair_values_encoded:
  "\<forall>v\<in>set vs. 0 \<le> v \<and> v < 1296 \<Longrightarrow> pair_values (concat (map encode_pair vs)) = Some vs"
proof (induction vs)
  case (Cons v vs)
  have "nat v div 36 < 36" "nat v mod 36 < 36" using Cons.prems by (auto simp: nat_less_iff div_less_iff_less_mult)
  moreover have "36 * int (nat v div 36) + int (nat v mod 36) = v"
    using Cons.prems by (simp add: zdiv_int zmod_int)
  ultimately show ?case using Cons by (simp add: encode_pair_def base36_char_value)
qed simp

lemma chunk7_concat: "\<forall>r\<in>set rows. length r = 7 \<Longrightarrow> chunk7 (concat rows) = rows"
proof (induction rows)
  case Nil
  then show ?case by (simp add: chunk7.simps)
next
  case (Cons r rows)
  then have "r @ concat rows \<noteq> []" by auto
  then show ?case using Cons by (simp add: chunk7.simps[of "r @ concat rows"])
qed

definition distribution_ok :: "int list list \<Rightarrow> bool" where
  "distribution_ok rows \<longleftrightarrow> (\<forall>r\<in>set rows. length r = 7 \<and> (\<forall>v\<in>set r. 0 \<le> v \<and> v < 1296))"

lemma encoded_chars:
  assumes "\<forall>v\<in>set vs. 0 \<le> v \<and> v < 1296" and "c \<in> set (concat (map encode_pair vs))"
  shows "\<exists>n < 36. c = base36_char n"
proof -
  obtain v where v: "0 \<le> v" "v < 1296" "c = base36_char (nat v div 36) \<or> c = base36_char (nat v mod 36)"
    using assms by (auto simp: encode_pair_def)
  have "nat v div 36 < 36" "nat v mod 36 < 36" using v(1,2) by (auto simp: nat_less_iff div_less_iff_less_mult)
  then show ?thesis using v(3) by blast
qed

lemma py_lower_encoded:
  assumes "\<forall>v\<in>set vs. 0 \<le> v \<and> v < 1296"
  shows "py_lower (concat (map encode_pair vs)) = concat (map encode_pair vs)"
  unfolding py_lower_def using encoded_chars[OF assms] base36_char_lower by (intro map_idI) blast

lemma length_encoded: "length (concat (map encode_pair vs)) = 2 * length vs"
  by (induction vs) (simp_all add: encode_pair_def)

lemma length_concat_rows: "\<forall>r\<in>set rows. length r = 7 \<Longrightarrow> length (concat rows) = 7 * length rows"
  by (induction rows) simp_all

lemma py_strip_encoded:
  assumes "\<forall>v\<in>set vs. 0 \<le> v \<and> v < 1296"
  shows "py_strip (CHR ''#'' # concat (map encode_pair vs)) = CHR ''#'' # concat (map encode_pair vs)"
proof (rule py_strip_id)
  have hash: "\<not> is_space (CHR ''#'')" by (simp add: is_space_def)
  have plain: "\<not> is_space c" if c: "c \<in> set (concat (map encode_pair vs))" for c
    using encoded_chars[OF assms c] base36_char_space by blast
  show "\<not> is_space (hd (CHR ''#'' # concat (map encode_pair vs)))" using hash by simp
  show "\<not> is_space (last (CHR ''#'' # concat (map encode_pair vs)))"
    using hash plain[OF last_in_set] by (simp only: last.simps split: if_split) blast
qed simp

text \<open>A distribution survives its compact text: rows of seven values below 36 squared, written as pairs of base-36 digits behind a
  hash sign, are decoded to the same rows.\<close>

theorem distribution_round_trip:
  assumes "distribution_ok rows"
  shows "decode_distribution (PStr (encode_distribution rows)) = Inr rows"
proof -
  let ?vs = "concat rows" and ?text = "concat (map encode_pair (concat rows))"
  have vs: "\<forall>v\<in>set ?vs. 0 \<le> v \<and> v < 1296" and seven: "\<forall>r\<in>set rows. length r = 7"
    using assms by (auto simp: distribution_ok_def)
  have "length ?text = 14 * length rows" by (simp add: length_encoded length_concat_rows[OF seven])
  moreover have "rows = []" if "?text = []" using calculation that by simp
  ultimately show ?thesis
    using pair_values_encoded[OF vs] chunk7_concat[OF seven]
    by (auto simp: decode_distribution_def encode_distribution_def py_strip_encoded[OF vs] py_lower_encoded[OF vs] Let_def)
qed

subsection \<open>Bounds of the features\<close>

lemma sorted_nth_le_Max: "i < length vs \<Longrightarrow> sort vs ! i \<le> Max (set (vs :: int list))"
  by (metis List.finite_set Max_ge length_sort nth_mem set_sort)

lemma nearest_rank_index:
  assumes "vs \<noteq> []" and "p \<le> 1"
  shows "nat (max 1 \<lceil>p * real (length vs)\<rceil>) - 1 < length vs"
proof -
  have "p * real (length vs) \<le> real (length vs)" using assms(2) by (simp add: mult_left_le_one_le mult_right_le_one_le mult_le_cancel_right2)
  then have "\<lceil>p * real (length vs)\<rceil> \<le> int (length vs)" by (simp add: ceiling_le_iff)
  moreover have "1 \<le> int (length vs)" using assms(1) by (cases vs) simp_all
  ultimately show ?thesis by linarith
qed

lemma nearest_rank_mono:
  assumes "p \<le> q" and "q \<le> 1"
  shows "nearest_rank vs p \<le> nearest_rank vs q"
proof (cases "vs = []")
  case True
  then show ?thesis by (simp add: nearest_rank_def)
next
  case False
  have "\<lceil>p * real (length vs)\<rceil> \<le> \<lceil>q * real (length vs)\<rceil>"
    by (intro ceiling_mono mult_right_mono assms(1)) simp
  then have "nat (max 1 \<lceil>p * real (length vs)\<rceil>) - 1 \<le> nat (max 1 \<lceil>q * real (length vs)\<rceil>) - 1" by linarith
  then show ?thesis
    using False nearest_rank_index[OF False assms(2)] sorted_nth_mono[OF sorted_sort[of vs]] by (simp add: nearest_rank_def)
qed

lemma nearest_rank_le_Max: "vs \<noteq> [] \<Longrightarrow> p \<le> 1 \<Longrightarrow> nearest_rank vs p \<le> real_of_int (Max (set vs))"
  using sorted_nth_le_Max[OF nearest_rank_index] by (simp add: nearest_rank_def)

lemma sum_list_le_Max: "set ws \<subseteq> set vs \<Longrightarrow> sum_list ws \<le> int (length ws) * Max (set (vs :: int list))"
  by (induction ws) (auto simp: algebra_simps intro: add_mono)

lemma mean_le_Max:
  assumes "set ws \<subseteq> set vs" and "vs \<noteq> []" and "0 \<le> Max (set vs)"
  shows "mean_or_zero ws \<le> real_of_int (Max (set vs))"
proof (cases "ws = []")
  case True
  then show ?thesis using assms(3) by (simp add: mean_or_zero_def)
next
  case False
  have "real_of_int (sum_list ws) \<le> real (length ws) * real_of_int (Max (set vs))"
    using sum_list_le_Max[OF assms(1)] by (metis of_int_le_iff of_int_mult of_int_of_nat_eq)
  then show ?thesis using False by (simp add: mean_or_zero_def divide_le_eq mult.commute)
qed

lemma end_window_subset: "set (end_window ds) \<subseteq> set ds"
proof -
  have "set (end_window ds) \<subseteq> set (rev (dropWhile (\<lambda>d. d = 0) (rev ds)))"
    unfolding end_window_def Let_def by (rule set_drop_subset)
  also have "\<dots> \<subseteq> set ds" using set_dropWhileD by fastforce
  finally show ?thesis .
qed

lemma ratio_unit: "0 \<le> a \<Longrightarrow> a \<le> b \<Longrightarrow> 0 \<le> ratio_or_zero a b \<and> ratio_or_zero a b \<le> 1"
  by (simp add: ratio_or_zero_def)

lemma base36_nonneg: "base36_value c = Some v \<Longrightarrow> 0 \<le> v"
  by (auto simp: base36_value_def digit_of_def is_digit_def less_eq_char_def split: if_splits)

lemma pair_nonneg: "base36_value a = Some x \<Longrightarrow> base36_value b = Some y \<Longrightarrow> 0 \<le> 36 * x + y"
  using base36_nonneg[of a x] base36_nonneg[of b y] by simp

lemma pair_values_Some: "pair_values s = Some vs \<Longrightarrow> length s = 2 * length vs \<and> (\<forall>v\<in>set vs. 0 \<le> v)"
  by (induction s arbitrary: vs rule: pair_values.induct) (auto split: option.splits dest: pair_nonneg)

lemma chunk7_rows: "length xs mod 7 = 0 \<Longrightarrow> r \<in> set (chunk7 xs) \<Longrightarrow> length r = 7 \<and> set r \<subseteq> set xs"
proof (induction xs rule: chunk7.induct)
  case (1 xs)
  show ?case
  proof (cases "xs = []")
    case True
    then show ?thesis using "1.prems" by (simp add: chunk7.simps)
  next
    case False
    then have seven: "7 \<le> length xs" using "1.prems"(1) by (cases "length xs < 7") auto
    then have "length (drop 7 xs) mod 7 = 0" using "1.prems"(1) by (simp add: le_mod_geq)
    then show ?thesis
      using "1.IH"[OF False] "1.prems"(2) seven False set_drop_subset[of 7 xs] set_take_subset[of 7 xs]
      by (auto simp: chunk7.simps[of xs])
  qed
qed

definition bucket_ok :: "int list \<Rightarrow> bool" where
  "bucket_ok b \<longleftrightarrow> length b = 7 \<and> (\<forall>v\<in>set b. 0 \<le> v)"

lemma decode_distribution_cases:
  assumes "decode_distribution v = Inr d" and "d \<noteq> []"
  obtains encoded vs where "length encoded mod 14 = 0" "pair_values (py_lower encoded) = Some vs" "d = chunk7 vs"
proof -
  obtain s where "text_value_of v = Inr (Some s)"
    using assms by (cases "text_value_of v") (auto simp: decode_distribution_def split: option.splits)
  then show ?thesis
    using assms that by (auto simp: decode_distribution_def Let_def split: if_splits option.splits)
qed

lemma decoded_buckets: "decode_distribution v = Inr d \<Longrightarrow> b \<in> set d \<Longrightarrow> bucket_ok b"
proof -
  assume run: "decode_distribution v = Inr d" and b: "b \<in> set d"
  from b have ne: "d \<noteq> []" by auto
  obtain encoded vs where e: "length encoded mod 14 = 0" and vs: "pair_values (py_lower encoded) = Some vs" "d = chunk7 vs"
    by (rule decode_distribution_cases[OF run ne])
  then have "2 * length vs mod 14 = 0" using pair_values_Some[OF vs(1)] by (simp add: py_lower_def)
  then have "length vs mod 7 = 0" by presburger
  then show ?thesis using chunk7_rows[of vs b] b vs(2) pair_values_Some[OF vs(1)] by (auto simp: bucket_ok_def)
qed

lemma bucket_bounds:
  assumes "bucket_ok b"
  shows "0 \<le> bucket_scratch b" and "bucket_scratch b \<le> bucket_density b"
proof -
  have "0 \<le> b ! i" if "i < 7" for i using assms that by (auto simp: bucket_ok_def)
  from this[of 0] this[of 2] this[of 3] this[of 5]
  show "0 \<le> bucket_scratch b" "bucket_scratch b \<le> bucket_density b" by (simp_all add: bucket_scratch_def bucket_density_def)
qed

lemma lane_triples_nonneg:
  "lane_triples ts = Inr lanes \<Longrightarrow> t \<in> set lanes \<Longrightarrow> 0 \<le> fst t \<and> 0 \<le> fst (snd t) \<and> 0 \<le> snd (snd t)"
  by (induction ts arbitrary: lanes rule: lane_triples.induct) (auto simp: py_bind_Inr_iff raise_if_Inr)

lemma decoded_lanes: "decode_lanenotes v = Inr lanes \<Longrightarrow> t \<in> set lanes \<Longrightarrow> 0 \<le> fst t \<and> 0 \<le> fst (snd t)"
  by (auto simp: decode_lanenotes_def py_bind_Inr_iff dest: lane_triples_nonneg)

lemma speed_pairs_times:
  "speed_pairs rt before ts = Inr ps \<Longrightarrow> sorted (map snd ps) \<and> (\<forall>p\<in>set ps. 0 \<le> snd p \<and> (\<forall>m. before = Some m \<longrightarrow> m \<le> snd p))"
proof (induction rt before ts arbitrary: ps rule: speed_pairs.induct)
  case (3 rt before a b ts)
  then obtain speed t rest where r: "0 \<le> t" "\<forall>m. before = Some m \<longrightarrow> m \<le> t" "speed_pairs rt (Some t) ts = Inr rest"
      "ps = (speed, t) # rest"
    and IH: "sorted (map snd rest) \<and> (\<forall>p\<in>set rest. 0 \<le> snd p \<and> (\<forall>m. Some t = Some m \<longrightarrow> m \<le> snd p))"
    by (fastforce simp: py_bind_Inr_iff raise_if_Inr split: option.splits)
  then show ?case by fastforce
qed auto

lemma decoded_speeds: "decode_speedchange rt v = Inr speeds \<Longrightarrow> sorted (map snd speeds) \<and> (\<forall>p\<in>set speeds. 0 \<le> snd p)"
  using speed_pairs_times by (fastforce simp: decode_speedchange_def py_bind_Inr_iff)

lemma sum_list_nonneg_map: "(\<And>x. x \<in> set xs \<Longrightarrow> 0 \<le> f x) \<Longrightarrow> 0 \<le> sum_list (map f xs)" for f :: "'a \<Rightarrow> int"
  by (induction xs) auto

lemma sum_list_mono_map: "(\<And>x. x \<in> set xs \<Longrightarrow> f x \<le> g x) \<Longrightarrow> sum_list (map f xs) \<le> sum_list (map g xs)" for f :: "'a \<Rightarrow> int"
  by (induction xs) (auto intro: add_mono)

subsection \<open>What a feature row promises\<close>

definition feature_bounds :: "chart_features \<Rightarrow> bool" where
  "feature_bounds f \<longleftrightarrow>
     0 \<le> cf_density_p90 f \<and> cf_density_p90 f \<le> cf_density_p99 f \<and> cf_density_p99 f \<le> cf_burst_max f \<and>
     0 \<le> cf_density_mean f \<and> cf_density_mean f \<le> cf_burst_max f \<and>
     0 \<le> cf_end_density f \<and> cf_end_density f \<le> cf_burst_max f \<and>
     0 \<le> cf_scratch_rate f \<and> 0 \<le> cf_scratch_p90 f \<and> cf_scratch_p90 f \<le> cf_density_p90 f \<and>
     0 \<le> cf_scratch_combo_rate f \<and> cf_scratch_combo_rate f \<le> 1 \<and> 0 \<le> cf_ln_rate f \<and> cf_ln_rate f \<le> 1 \<and>
     0 \<le> cf_soflan_var f \<and> 0 \<le> cf_chart_seconds f \<and> 0 \<le> cf_total_notes f"

lemma nearest_rank_nonneg:
  assumes "\<And>v. v \<in> set vs \<Longrightarrow> 0 \<le> v" and "p \<le> 1"
  shows "0 \<le> nearest_rank vs p"
proof (cases "vs = []")
  case False
  have "sort vs ! (nat (max 1 \<lceil>p * real (length vs)\<rceil>) - 1) \<in> set (sort vs)"
    using nearest_rank_index[OF False assms(2)] by (intro nth_mem) simp
  then show ?thesis using False assms(1) by (simp add: nearest_rank_def)
qed (simp add: nearest_rank_def)

lemma sort_mono_nth:
  fixes xs ys :: "int list"
  assumes "length xs = length ys" and "\<And>i. i < length xs \<Longrightarrow> xs ! i \<le> ys ! i" and "k < length xs"
  shows "sort xs ! k \<le> sort ys ! k"
proof (rule ccontr)
  let ?c = "sort ys ! k"
  assume "\<not> ?thesis"
  then have gt: "?c < sort xs ! k" by simp
  have "Suc k \<le> length (filter (\<lambda>y. y \<le> ?c) (sort ys))"
  proof -
    have "{i. i \<le> k} \<subseteq> {i. i < length (sort ys) \<and> sort ys ! i \<le> ?c}"
      using assms(1,3) sorted_nth_mono[OF sorted_sort[of ys]] by auto
    then have "card {i. i \<le> k} \<le> card {i. i < length (sort ys) \<and> sort ys ! i \<le> ?c}" by (intro card_mono) auto
    then show ?thesis by (simp add: length_filter_conv_card)
  qed
  also have "\<dots> = length (filter (\<lambda>y. y \<le> ?c) ys)" by (metis filter_sort length_sort)
  also have "\<dots> \<le> length (filter (\<lambda>x. x \<le> ?c) xs)"
    unfolding length_filter_conv_card using assms(1,2) by (intro card_mono) (auto intro: order_trans)
  also have "\<dots> = length (filter (\<lambda>x. x \<le> ?c) (sort xs))" by (metis filter_sort length_sort)
  also have "\<dots> \<le> k"
  proof -
    have "{i. i < length (sort xs) \<and> sort xs ! i \<le> ?c} \<subseteq> {i. i < k}"
      using gt sorted_nth_mono[OF sorted_sort[of xs]] by (auto simp: not_less) (meson leD le_less_trans not_le)
    then have "card {i. i < length (sort xs) \<and> sort xs ! i \<le> ?c} \<le> card {i. i < k}" by (intro card_mono) auto
    then show ?thesis by (simp add: length_filter_conv_card)
  qed
  finally show False by simp
qed

lemma nearest_rank_pointwise:
  assumes "\<And>b. b \<in> set bs \<Longrightarrow> f b \<le> (g b :: int)" and "p \<le> 1"
  shows "nearest_rank (map f bs) p \<le> nearest_rank (map g bs) p"
proof (cases "bs = []")
  case False
  then have "nat (max 1 \<lceil>p * real (length bs)\<rceil>) - 1 < length bs" using nearest_rank_index[of bs p] nearest_rank_index[of "map f bs" p] assms(2) by simp
  then show ?thesis using False sort_mono_nth[of "map f bs" "map g bs"] assms(1) by (simp add: nearest_rank_def)
qed (simp add: nearest_rank_def)

lemma mean_nonneg: "(\<And>v. v \<in> set vs \<Longrightarrow> 0 \<le> v) \<Longrightarrow> 0 \<le> mean_or_zero vs"
  by (auto simp: mean_or_zero_def intro!: divide_nonneg_nonneg sum_list_nonneg)

lemma variance_nonneg: "0 \<le> variance_or_zero vs"
  by (auto simp: variance_or_zero_def Let_def intro!: divide_nonneg_nonneg sum_list_nonneg)

lemma ratio_nonneg: "0 \<le> a \<Longrightarrow> 0 \<le> b \<Longrightarrow> 0 \<le> ratio_or_zero a b"
  by (simp add: ratio_or_zero_def)

lemma density_bounds:
  assumes ok: "\<And>b. b \<in> set d \<Longrightarrow> bucket_ok b"
  defines "ds \<equiv> map bucket_density d"
  defines "peak \<equiv> real_of_int (if ds = [] then 0 else Max (set ds))"
  shows "nearest_rank ds (99 / 100) \<le> peak" and "mean_or_zero ds \<le> peak" and "mean_or_zero (end_window ds) \<le> peak"
    and "0 \<le> nearest_rank ds (90 / 100)" and "0 \<le> mean_or_zero ds" and "0 \<le> mean_or_zero (end_window ds)"
proof -
  have pos: "0 \<le> x" if "x \<in> set ds" for x
    using that bucket_bounds[OF ok] by (auto simp: ds_def intro: order_trans)
  have Max_pos: "0 \<le> Max (set ds)" if "ds \<noteq> []"
    using that pos[OF Max_in] by simp
  show "nearest_rank ds (99 / 100) \<le> peak"
    using nearest_rank_le_Max[of ds "99 / 100"] by (cases "ds = []") (simp_all add: peak_def nearest_rank_def)
  show "mean_or_zero ds \<le> peak"
    using mean_le_Max[of ds ds] Max_pos by (cases "ds = []") (simp_all add: peak_def mean_or_zero_def)
  show "mean_or_zero (end_window ds) \<le> peak"
    using mean_le_Max[OF end_window_subset, of ds] Max_pos
    by (cases "ds = []") (simp_all add: peak_def mean_or_zero_def end_window_def)
  show "0 \<le> nearest_rank ds (90 / 100)" by (rule nearest_rank_nonneg[OF pos]) simp_all
  show "0 \<le> mean_or_zero ds" by (rule mean_nonneg[OF pos])
  show "0 \<le> mean_or_zero (end_window ds)" by (rule mean_nonneg) (use pos end_window_subset in blast)
qed

lemma filter_count_le: "length (filter (\<lambda>b. P b \<and> Q b) xs) \<le> length (filter P xs)"
  by (induction xs) auto

lemma chart_seconds_nonneg:
  assumes "\<forall>p\<in>set speeds. 0 \<le> snd p"
  shows "0 \<le> (if speeds \<noteq> [] \<and> 0 < snd (last speeds) then snd (last speeds) / 1000 else real n)"
  using assms by simp

lemma features_from_bounds:
  assumes ok: "\<And>b. b \<in> set d \<Longrightarrow> bucket_ok b"
    and lanes: "\<And>t. t \<in> set lanes \<Longrightarrow> 0 \<le> fst t \<and> 0 \<le> fst (snd t)"
    and speeds: "\<forall>p\<in>set speeds. 0 \<le> snd p"
  shows "feature_bounds (features_from sha256 version d speeds lanes)"
proof -
  let ?n = "sum_list (map fst lanes)" and ?l = "sum_list (map (fst \<circ> snd) lanes)"
  let ?total = "if ?n + ?l \<noteq> 0 then ?n + ?l else sum_list (map bucket_density d)"
  have n: "0 \<le> ?n" and l: "0 \<le> ?l" using lanes by (auto intro!: sum_list_nonneg_map)
  have scr: "0 \<le> sum_list (map bucket_scratch d)" by (rule sum_list_nonneg_map) (rule bucket_bounds(1)[OF ok])
  have "0 \<le> bucket_density b" if b: "b \<in> set d" for b
    using bucket_bounds[OF ok[OF b]] by linarith
  then have den: "0 \<le> sum_list (map bucket_density d)" by (rule sum_list_nonneg_map)
  have tot: "0 \<le> ?total" using n l den by simp
  have s90: "nearest_rank (map bucket_scratch d) (90 / 100) \<le> nearest_rank (map bucket_density d) (90 / 100)"
    by (rule nearest_rank_pointwise) (auto simp: bucket_bounds ok)
  have s0: "0 \<le> nearest_rank (map bucket_scratch d) (90 / 100)"
    by (rule nearest_rank_nonneg) (auto simp: bucket_bounds ok)
  have combo: "0 \<le> ratio_or_zero (int c) (int a) \<and> ratio_or_zero (int c) (int a) \<le> 1" if "c \<le> a" for c a
    using that by (intro ratio_unit) simp_all
  have ln: "0 \<le> ratio_or_zero ?l (?n + ?l) \<and> ratio_or_zero ?l (?n + ?l) \<le> 1" using n l by (intro ratio_unit) simp_all
  show ?thesis
    unfolding feature_bounds_def features_from_def Let_def chart_features.simps
    using density_bounds[where d = d, OF ok, simplified] nearest_rank_mono[of "90 / 100" "99 / 100" "map bucket_density d"]
      ratio_nonneg[OF scr tot] s90 s0 combo[OF filter_count_le[of "\<lambda>b. 0 < bucket_scratch b" "\<lambda>b. 0 < b ! 3 + b ! 5" d]] ln variance_nonneg chart_seconds_nonneg[OF speeds] tot
    by (intro conjI) (simp_all)
qed


subsection \<open>Witnesses\<close>

lemma distribution_round_trip_witness:
  "decode_distribution (PStr (encode_distribution [[0, 0, 1, 2, 0, 35, 0], [1295, 0, 0, 36, 0, 0, 0]]))
     = Inr [[0, 0, 1, 2, 0, 35, 0], [1295, 0, 0, 36, 0, 0, 0]]"
  by (rule distribution_round_trip) (simp add: distribution_ok_def)

definition sample_information :: row where
  "sample_information =
     [(''sha256'', PStr (replicate 64 (CHR ''a''))), (''distribution'', PStr ''#0000010200030000000000000000''),
      (''speedchange'', PStr ''1.0,0''), (''lanenotes'', PStr ''3,2,0,1,0,0'')]"


end
