(* ===== verification/Actions.thy ===== *)
theory Actions
  imports Py_Values
begin

text \<open>
  Effects that may raise: an action maps a state to a result and the state it leaves, also when it raises. Components that talk
  to a server or to a directory are written in it.
\<close>

type_synonym ('w, 'a) action = "'w \<Rightarrow> 'a py \<times> 'w"

text \<open>A computation without effects.\<close>

definition act_of :: "'a py \<Rightarrow> ('w, 'a) action" where
  "act_of r = (\<lambda>w. (r, w))"

definition act_bind :: "('w, 'a) action \<Rightarrow> ('a \<Rightarrow> ('w, 'b) action) \<Rightarrow> ('w, 'b) action" where
  "act_bind m f = (\<lambda>w. case m w of (Inl e, w') \<Rightarrow> (Inl e, w') | (Inr x, w') \<Rightarrow> f x w')"

text \<open>\<open>try: m; except: handler\<close>; the effects of \<open>m\<close> stay.\<close>

definition act_catch :: "('w, 'a) action \<Rightarrow> (py_exn \<Rightarrow> ('w, 'a) action) \<Rightarrow> ('w, 'a) action" where
  "act_catch m h = (\<lambda>w. case m w of (Inl e, w') \<Rightarrow> h e w' | (Inr x, w') \<Rightarrow> (Inr x, w'))"

fun act_for :: "('s \<Rightarrow> 'a \<Rightarrow> ('w, 's) action) \<Rightarrow> 's \<Rightarrow> 'a list \<Rightarrow> ('w, 's) action" where
  "act_for f s [] = act_of (Inr s)"
| "act_for f s (x # xs) = act_bind (f s x) (\<lambda>s'. act_for f s' xs)"

named_theorems act_simps

lemma act_of_simp [simp]: "act_of r w = (r, w)"
  by (simp add: act_of_def)

lemma act_bind_Inr [act_simps]:
  "act_bind m f w = (Inr y, w'') \<longleftrightarrow> (\<exists>x w'. m w = (Inr x, w') \<and> f x w' = (Inr y, w''))"
  by (auto simp: act_bind_def split: prod.splits sum.splits)

lemma act_bind_Inl [act_simps]:
  "act_bind m f w = (Inl e, w'') \<longleftrightarrow> m w = (Inl e, w'') \<or> (\<exists>x w'. m w = (Inr x, w') \<and> f x w' = (Inl e, w''))"
  by (auto simp: act_bind_def split: prod.splits sum.splits)

lemma act_bind_of [simp]: "act_bind (act_of (Inr x)) f = f x" "act_bind (act_of (Inl e)) f = act_of (Inl e)"
  by (simp_all add: act_bind_def fun_eq_iff)

lemma act_bind_step: "m w = (Inr x, w') \<Longrightarrow> act_bind m f w = f x w'" "m w = (Inl e, w') \<Longrightarrow> act_bind m f w = (Inl e, w')"
  by (simp_all add: act_bind_def)

lemma act_catch_Inr [act_simps]:
  "act_catch m h w = (Inr y, w'') \<longleftrightarrow> m w = (Inr y, w'') \<or> (\<exists>e w'. m w = (Inl e, w') \<and> h e w' = (Inr y, w''))"
  by (auto simp: act_catch_def split: prod.splits sum.splits)

lemma act_catch_Inl [act_simps]:
  "act_catch m h w = (Inl e, w'') \<longleftrightarrow> (\<exists>e' w'. m w = (Inl e', w') \<and> h e' w' = (Inl e, w''))"
  by (auto simp: act_catch_def split: prod.splits sum.splits)

text \<open>An action keeps \<open>P\<close> when every run that starts in it ends in it, raising or not.\<close>

definition act_keeps :: "('w \<Rightarrow> 'k) \<Rightarrow> ('w, 'a) action \<Rightarrow> bool" where
  "act_keeps part m \<longleftrightarrow> (\<forall>w. part (snd (m w)) = part w)"

lemma act_keepsD: "act_keeps part m \<Longrightarrow> m w = (r, w') \<Longrightarrow> part w' = part w"
  by (metis act_keeps_def snd_conv)

lemma act_keeps_of [intro]: "act_keeps part (act_of r)"
  by (simp add: act_keeps_def)

lemma act_keeps_bind [intro]:
  assumes "act_keeps part m" and "\<And>x. act_keeps part (f x)"
  shows "act_keeps part (act_bind m f)"
  using assms by (auto simp: act_keeps_def act_bind_def split: prod.splits sum.splits) (metis snd_conv)+

text \<open>An action is atomic on a part of the state when a run that raises leaves that part alone.\<close>

definition act_atomic :: "('w \<Rightarrow> 'k) \<Rightarrow> ('w, 'a) action \<Rightarrow> bool" where
  "act_atomic part m \<longleftrightarrow> (\<forall>w e w'. m w = (Inl e, w') \<longrightarrow> part w' = part w)"

lemma act_atomicD: "act_atomic part m \<Longrightarrow> m w = (Inl e, w') \<Longrightarrow> part w' = part w"
  by (auto simp: act_atomic_def)

lemma act_atomic_keeps: "act_keeps part m \<Longrightarrow> act_atomic part m"
  by (auto simp: act_atomic_def dest: act_keepsD)

lemma act_atomic_bind:
  assumes "act_keeps part m" and "\<And>x. act_atomic part (f x)"
  shows "act_atomic part (act_bind m f)"
  using assms by (fastforce simp: act_atomic_def act_bind_Inl dest: act_keepsD)

lemma act_atomic_last: "act_atomic part m \<Longrightarrow> act_atomic part (act_bind m (\<lambda>x. act_of (Inr (f x))))"
  by (auto simp: act_atomic_def act_bind_Inl)

text \<open>Every result of the action has a property.\<close>

definition act_yields :: "('a \<Rightarrow> bool) \<Rightarrow> ('w, 'a) action \<Rightarrow> bool" where
  "act_yields P m \<longleftrightarrow> (\<forall>w x w'. m w = (Inr x, w') \<longrightarrow> P x)"

lemma act_yieldsD: "act_yields P m \<Longrightarrow> m w = (Inr x, w') \<Longrightarrow> P x"
  by (auto simp: act_yields_def)

lemma act_yields_bind: "(\<And>x. act_yields P (f x)) \<Longrightarrow> act_yields P (act_bind m f)"
  by (auto simp: act_yields_def act_bind_Inr)

lemma act_yields_of: "(\<And>x. r = Inr x \<Longrightarrow> P x) \<Longrightarrow> act_yields P (act_of r)"
  by (simp add: act_yields_def)

end
