(* ===== verification/Table_Fetch.thy ===== *)
theory Table_Fetch
  imports Actions
begin

text \<open>
  \<open>tables/fetch.py\<close>: validation of bmstable headers and entries, conditional requests, and the last-good cache. The HTTP
  opener, the disk, the JSON and HTML parsers and the URL functions of the standard library are the fields of
  \<open>table_ports\<close>; the state is the opener's world and the cache directory as bytes by file name, \<open>None\<close> without one.
  A validators member of a cache document is a JSON object or is refused, since only \<open>_save_cache\<close> writes it.
\<close>

subsection \<open>Tables\<close>

record table_entry =
  en_table_id :: string
  en_level :: string
  en_sha256 :: "string option"
  en_md5 :: "string option"
  en_title :: "string option"
  en_data :: row

record table_data =
  tb_table_id :: string
  tb_source_url :: string
  tb_header_url :: string
  tb_data_url :: string
  tb_header :: row
  tb_entries :: "table_entry list"
  tb_fetched_at :: int
  tb_from_cache :: bool
  tb_stale :: bool

definition is_hex_any :: "char \<Rightarrow> bool" where
  "is_hex_any c \<longleftrightarrow> is_hex_lower (lower_char c)"

definition validate_header :: "pyval \<Rightarrow> row py" where
  "validate_header v =
     (case v of PDict d \<Rightarrow>
        py_bind (raise_if (case get_item d ''data_url'' of PStr s \<Rightarrow> py_strip s = [] | _ \<Rightarrow> True)
          (TableFetchError ''header has no valid data_url'')) (\<lambda>_.
        py_bind (raise_if (list_ex (\<lambda>k. case map_of d k of None \<Rightarrow> False | Some (PStr s) \<Rightarrow> False | _ \<Rightarrow> True) [''name'', ''symbol''])
          (TableFetchError ''header field must be a string'')) (\<lambda>_.
        py_bind (raise_if (case map_of d ''level_order'' of None \<Rightarrow> False | Some (PList l) \<Rightarrow> False | _ \<Rightarrow> True)
          (TableFetchError ''header field level_order must be an array'')) (\<lambda>_. Inr d)))
      | _ \<Rightarrow> Inl (TableFetchError ''header must be a JSON object''))"

definition normal_hash :: "nat \<Rightarrow> pyval \<Rightarrow> string option" where
  "normal_hash n v =
     (case v of PStr s \<Rightarrow>
        if length (py_strip s) = n \<and> list_all is_hex_any (py_strip s) then Some (py_lower (py_strip s)) else None
      | _ \<Rightarrow> None)"

definition marked_unique :: "row \<Rightarrow> bool" where
  "marked_unique d \<longleftrightarrow> get_item d ''_match'' = PStr ''unique_title''"

definition validate_entry :: "runtime \<Rightarrow> string \<Rightarrow> bool \<Rightarrow> pyval \<Rightarrow> table_entry py" where
  "validate_entry rt table_id allow v =
     (case v of PDict raw \<Rightarrow>
        py_bind (raise_if (case get_item raw ''level'' of PStr _ \<Rightarrow> False | PInt _ \<Rightarrow> False | PFloat _ \<Rightarrow> False | _ \<Rightarrow> True)
          (TableFetchError ''entry has no valid level'')) (\<lambda>_.
        let sha256 = normal_hash 64 (get_item raw ''sha256'');
            md5 = normal_hash 32 (get_item raw ''md5'');
            title = get_item raw ''title'';
            by_title = (allow \<and> marked_unique raw)
        in py_bind (raise_if (sha256 = None \<and> md5 = None \<and> \<not> (by_title \<and> (case title of PStr s \<Rightarrow> py_strip s \<noteq> [] | _ \<Rightarrow> False)))
             (TableFetchError ''entry has no valid sha256 or md5'')) (\<lambda>_.
           py_bind (raise_if (case title of PNone \<Rightarrow> False | PStr s \<Rightarrow> False | _ \<Rightarrow> True)
             (TableFetchError ''entry title must be a string'')) (\<lambda>_.
             Inr \<lparr>en_table_id = table_id, en_level = py_str rt (get_item raw ''level''), en_sha256 = sha256, en_md5 = md5,
                  en_title = (case title of PStr s \<Rightarrow> Some s | _ \<Rightarrow> None),
                  en_data = (if by_title then raw else filter (\<lambda>(k, x). k \<noteq> ''_match'') raw)\<rparr>)))
      | _ \<Rightarrow> Inl (TableFetchError ''entry must be an object''))"

definition validate_entries :: "runtime \<Rightarrow> string \<Rightarrow> bool \<Rightarrow> pyval \<Rightarrow> table_entry list py" where
  "validate_entries rt table_id allow v =
     (case v of PList items \<Rightarrow> py_mapM (validate_entry rt table_id allow) items
      | _ \<Rightarrow> Inl (TableFetchError ''table data must be a JSON array''))"

subsection \<open>Requests\<close>

record http_request =
  hq_url :: string
  hq_headers :: "(string \<times> string) list"

text \<open>What the opener and reading the body come to.\<close>

datatype http_reply =
    Reply string "string option" "string option"
  | HttpStatus int
  | Raised py_exn

record http_response =
  hr_body :: string
  hr_etag :: "string option"
  hr_last_modified :: "string option"
  hr_not_modified :: bool

record 'w table_ports =
  tp_open :: "http_request \<Rightarrow> 'w \<Rightarrow> http_reply \<times> 'w"
  tp_clock :: "'w \<Rightarrow> int \<times> 'w"
  tp_replace :: "'w \<Rightarrow> unit py \<times> 'w"
  tp_json :: "string \<Rightarrow> pyval option"
  tp_load :: "string \<Rightarrow> pyval option"
  tp_dump :: "pyval \<Rightarrow> string"
  tp_tags :: "string \<Rightarrow> (string \<times> (string \<times> string option) list) list"
  tp_join :: "string \<Rightarrow> string \<Rightarrow> string py"
  tp_split :: "string \<Rightarrow> (string \<times> string option) py"
  tp_with_https :: "string \<Rightarrow> string"
  tp_legacy :: "string \<Rightarrow> (string \<times> string \<times> string) list py"
  tp_string :: "string \<Rightarrow> string option"
  tp_unescape :: "string \<Rightarrow> string"

type_synonym cache_dir = "(string \<times> string) list option"
type_synonym 'w fetch_state = "'w \<times> cache_dir"

definition in_world :: "('w \<Rightarrow> 'a \<times> 'w) \<Rightarrow> ('w fetch_state, 'a) action" where
  "in_world m = (\<lambda>(w, files). case m w of (x, w') \<Rightarrow> (Inr x, (w', files)))"

definition conditional_headers :: "runtime \<Rightarrow> pyval \<Rightarrow> (string \<times> string) list py" where
  "conditional_headers rt v =
     (if \<not> truthy v then Inr []
      else case v of PDict d \<Rightarrow>
             Inr ((if truthy (get_item d ''etag'') then [(''If-None-Match'', py_str rt (get_item d ''etag''))] else []) @
                  (if truthy (get_item d ''last_modified'') then [(''If-Modified-Since'', py_str rt (get_item d ''last_modified''))] else []))
           | _ \<Rightarrow> Inl (AttributeError ''get''))"

definition accept_header :: "string \<times> string" where
  "accept_header = (''Accept'', ''application/json, text/html;q=0.9, */*;q=0.1'')"

fun read_reply :: "http_reply \<Rightarrow> http_response py" where
  "read_reply (Reply body etag last_modified) =
     Inr \<lparr>hr_body = body, hr_etag = etag, hr_last_modified = last_modified, hr_not_modified = False\<rparr>"
| "read_reply (HttpStatus code) =
     (if code = 304 then Inr \<lparr>hr_body = [], hr_etag = None, hr_last_modified = None, hr_not_modified = True\<rparr>
      else Inl (TableFetchError ''HTTP status''))"
| "read_reply (Raised (OSError s)) = Inl (TableFetchError ''failed to fetch'')"
| "read_reply (Raised FileNotFoundError) = Inl (TableFetchError ''failed to fetch'')"
| "read_reply (Raised e) = Inl e"

definition send_request ::
    "runtime \<Rightarrow> 'w table_ports \<Rightarrow> string \<Rightarrow> pyval \<Rightarrow> ('w fetch_state, http_response) action" where
  "send_request rt ports url validators =
     act_bind (act_of (conditional_headers rt validators)) (\<lambda>headers.
     act_bind (in_world (tp_open ports \<lparr>hq_url = url, hq_headers = accept_header # headers\<rparr>)) (\<lambda>reply.
       act_of (read_reply reply)))"

definition decode_json :: "'w table_ports \<Rightarrow> string \<Rightarrow> pyval py" where
  "decode_json ports body =
     (case tp_json ports body of None \<Rightarrow> Inl (TableFetchError ''invalid JSON'') | Some v \<Rightarrow> Inr v)"

subsection \<open>Where the header is\<close>

text \<open>\<open>_BmstableMetaParser.handle_starttag\<close>: the first meta tag named bmstable with a content.\<close>

definition meta_content :: "string \<times> (string \<times> string option) list \<Rightarrow> string option" where
  "meta_content tag =
     (let attrs = rev (map (\<lambda>(k, v). (py_lower k, v)) (snd tag)) in
      if py_lower (fst tag) \<noteq> ''meta'' then None
      else case map_of attrs ''name'' of
          Some (Some name) \<Rightarrow>
            if py_lower name \<noteq> ''bmstable'' then None
            else (case map_of attrs ''content'' of
                Some (Some content) \<Rightarrow> if py_strip content = [] then None else Some (py_strip content)
              | _ \<Rightarrow> None)
        | _ \<Rightarrow> None)"

definition header_url_from_html :: "'w table_ports \<Rightarrow> string \<Rightarrow> string \<Rightarrow> string py" where
  "header_url_from_html ports body source_url =
     (case List.map_filter meta_content (tp_tags ports body) of
        [] \<Rightarrow> Inl (TableFetchError ''no bmstable meta tag found'')
      | url # _ \<Rightarrow> tp_join ports source_url url)"

text \<open>An escape JSON does not know keeps its backslash.\<close>

fun fix_escapes :: "string \<Rightarrow> string" where
  "fix_escapes (c # d # cs) =
     (if c = CHR 0x5C \<and> d \<notin> set [CHR 0x22, CHR ''/'', CHR 0x5C, CHR ''b'', CHR ''f'', CHR ''n'', CHR ''r'', CHR ''t'', CHR ''u'']
      then CHR 0x5C # CHR 0x5C # d # fix_escapes cs else c # fix_escapes (d # cs))"
| "fix_escapes cs = cs"

text \<open>The two stars a GENOCIDE level begins with, U+2605 and U+2606.\<close>

definition black_star :: string where "black_star = [CHR 0xE2, CHR 0x98, CHR 0x85]"
definition white_star :: string where "white_star = [CHR 0xE2, CHR 0x98, CHR 0x86]"

definition legacy_entry :: "'w table_ports \<Rightarrow> string \<times> string \<times> string \<Rightarrow> (string \<times> row) option" where
  "legacy_entry ports g =
     (case g of (a, b, c) \<Rightarrow>
        (case (tp_string ports (fix_escapes a), tp_string ports (fix_escapes b), tp_string ports (fix_escapes c)) of
           (Some level, Some title, Some bms_id) \<Rightarrow>
             if take 3 level \<noteq> black_star \<and> take 3 level \<noteq> white_star then None
             else if py_strip title = [] then None
             else Some (level, [(''level'', PStr level), (''title'', PStr (py_strip (tp_unescape ports title))),
                        (''lr2_bms_id'', PStr bms_id), (''_match'', PStr ''unique_title'')])
         | _ \<Rightarrow> None))"

definition parse_genocide_legacy :: "'w table_ports \<Rightarrow> string \<Rightarrow> string \<Rightarrow> (row \<times> row list) py" where
  "parse_genocide_legacy ports body source_url =
     py_bind (tp_legacy ports body) (\<lambda>groups.
       case List.map_filter (legacy_entry ports) groups of
         [] \<Rightarrow> Inl (TableFetchError ''no valid GENOCIDE entries'')
       | (level, e) # es \<Rightarrow>
           Inr ([(''name'', PStr ''GENOCIDE''), (''symbol'', PStr (take 3 level)), (''data_url'', PStr source_url),
                 (''format'', PStr ''genocide-legacy'')], e # map snd es))"

definition secure_same_host_url :: "'w table_ports \<Rightarrow> string \<Rightarrow> string \<Rightarrow> string py" where
  "secure_same_host_url ports base_url resolved_url =
     py_bind (tp_split ports base_url) (\<lambda>base.
     py_bind (tp_split ports resolved_url) (\<lambda>resolved.
       Inr (if fst base = ''https'' \<and> fst resolved = ''http'' \<and> snd base = snd resolved
            then tp_with_https ports resolved_url else resolved_url)))"

record source_document =
  sd_kind :: string
  sd_header_url :: string
  sd_header :: row
  sd_data :: pyval

definition cache_get :: "row option \<Rightarrow> string \<Rightarrow> pyval" where
  "cache_get cache k = (case cache of None \<Rightarrow> PNone | Some c \<Rightarrow> get_item c k)"

definition legacy_kind :: string where "legacy_kind = ''genocide-legacy''"

definition cached_kind :: "runtime \<Rightarrow> row option \<Rightarrow> string" where
  "cached_kind rt cache =
     (case cache of None \<Rightarrow> [] | Some c \<Rightarrow> (case map_of c ''source_kind'' of None \<Rightarrow> [] | Some v \<Rightarrow> py_str rt v))"

text \<open>The source of an HTML page is known before its header, which is requested next.\<close>

definition resolve_source ::
    "runtime \<Rightarrow> 'w table_ports \<Rightarrow> string \<Rightarrow> string \<Rightarrow> row option \<Rightarrow> http_response \<Rightarrow> source_document py" where
  "resolve_source rt ports table_id source_url cache response =
     (if hr_not_modified response then
        (case cache of None \<Rightarrow> Inl (TableFetchError ''received 304 without a cached source'')
         | Some c \<Rightarrow>
             py_bind (item c ''header_url'') (\<lambda>url.
             py_bind (validate_header (get_item c ''header'')) (\<lambda>header.
               Inr \<lparr>sd_kind = cached_kind rt cache, sd_header_url = py_str rt url, sd_header = header,
                    sd_data = (if cached_kind rt cache = legacy_kind then get_item c ''data'' else PNone)\<rparr>)))
      else case decode_json ports (hr_body response) of
          Inr v \<Rightarrow> py_bind (validate_header v) (\<lambda>header.
            Inr \<lparr>sd_kind = ''json'', sd_header_url = source_url, sd_header = header, sd_data = PNone\<rparr>)
        | Inl _ \<Rightarrow>
            (case header_url_from_html ports (hr_body response) source_url of
               Inr url \<Rightarrow> Inr \<lparr>sd_kind = ''html'', sd_header_url = url, sd_header = [], sd_data = PNone\<rparr>
             | Inl (TableFetchError s) \<Rightarrow>
                 if table_id \<noteq> ''genocide'' then Inl (TableFetchError s)
                 else py_bind (parse_genocide_legacy ports (hr_body response) source_url) (\<lambda>(header, entries).
                   Inr \<lparr>sd_kind = legacy_kind, sd_header_url = source_url, sd_header = header,
                        sd_data = PList (map PDict entries)\<rparr>)
             | Inl e \<Rightarrow> Inl e))"

subsection \<open>The cache\<close>

definition unsafe_char :: "char \<Rightarrow> bool" where
  "unsafe_char c \<longleftrightarrow> \<not> (is_digit c \<or> (CHR ''a'' \<le> lower_char c \<and> lower_char c \<le> CHR ''z'') \<or> c \<in> set ''_.-'')"

text \<open>A run of unsafe characters becomes one underscore.\<close>

fun squash :: "bool \<Rightarrow> string \<Rightarrow> string" where
  "squash inside [] = []"
| "squash inside (c # cs) =
     (if unsafe_char c then (if inside then squash True cs else CHR ''_'' # squash True cs) else c # squash False cs)"

definition strip_dots :: "string \<Rightarrow> string" where
  "strip_dots s = rev (dropWhile (\<lambda>c. c \<in> set ''._'') (rev (dropWhile (\<lambda>c. c \<in> set ''._'') s)))"

definition cache_name :: "runtime \<Rightarrow> string \<Rightarrow> string \<Rightarrow> string" where
  "cache_name rt table_id source_url =
     (let safe = strip_dots (squash False table_id) in
      (if safe = [] then ''table'' else safe) @ ''-'' @ take 12 (sha256_hex rt source_url) @ ''.json'')"

definition load_cache :: "'w table_ports \<Rightarrow> string \<Rightarrow> cache_dir \<Rightarrow> row option" where
  "load_cache ports name dir =
     (case dir of None \<Rightarrow> None
      | Some files \<Rightarrow>
          (case map_of files name of None \<Rightarrow> None
           | Some bytes \<Rightarrow> (case tp_load ports bytes of Some (PDict d) \<Rightarrow> Some d | _ \<Rightarrow> None)))"

definition save_cache :: "'w table_ports \<Rightarrow> string \<Rightarrow> pyval \<Rightarrow> ('w fetch_state, unit) action" where
  "save_cache ports name v =
     (\<lambda>(w, dir). case dir of None \<Rightarrow> (Inr (), (w, dir))
        | Some files \<Rightarrow>
            (case tp_replace ports w of (Inl e, w') \<Rightarrow> (Inl e, (w', dir))
             | (Inr u, w') \<Rightarrow> (Inr (), (w', Some (AList.update name (tp_dump ports v) files)))))"

definition response_validators :: "http_response \<Rightarrow> row" where
  "response_validators r =
     [(''etag'', case hr_etag r of None \<Rightarrow> PNone | Some t \<Rightarrow> PStr t),
      (''last_modified'', case hr_last_modified r of None \<Rightarrow> PNone | Some t \<Rightarrow> PStr t)]"

definition updated_validators :: "http_response option \<Rightarrow> pyval \<Rightarrow> row py" where
  "updated_validators response old =
     (if (case response of None \<Rightarrow> True | Some r \<Rightarrow> hr_not_modified r) then
        (if \<not> truthy old then Inr [] else case old of PDict d \<Rightarrow> Inr d | _ \<Rightarrow> Inl TypeError)
      else Inr (response_validators (the response)))"

definition cache_document :: "string \<Rightarrow> table_data \<Rightarrow> pyval \<Rightarrow> row \<Rightarrow> row \<Rightarrow> row \<Rightarrow> pyval" where
  "cache_document kind t data source_validators header_validators data_validators =
     PDict [(''table_id'', PStr (tb_table_id t)), (''source_url'', PStr (tb_source_url t)), (''source_kind'', PStr kind),
            (''header_url'', PStr (tb_header_url t)), (''data_url'', PStr (tb_data_url t)), (''header'', PDict (tb_header t)),
            (''data'', data), (''fetched_at'', PInt (tb_fetched_at t)), (''source_validators'', PDict source_validators),
            (''header_validators'', PDict header_validators), (''data_validators'', PDict data_validators)]"

definition cached_table :: "runtime \<Rightarrow> row \<Rightarrow> bool \<Rightarrow> table_data py" where
  "cached_table rt c stale =
     py_bind (validate_header (get_item c ''header'')) (\<lambda>header.
     py_bind (item c ''table_id'') (\<lambda>table_id.
     py_bind (validate_entries rt (py_str rt table_id) (get_item c ''source_kind'' = PStr legacy_kind) (get_item c ''data'')) (\<lambda>entries.
     py_bind (item c ''source_url'') (\<lambda>source_url.
     py_bind (item c ''header_url'') (\<lambda>header_url.
     py_bind (item c ''data_url'') (\<lambda>data_url.
     py_bind (int_item c ''fetched_at'') (\<lambda>fetched_at.
       Inr \<lparr>tb_table_id = py_str rt table_id, tb_source_url = py_str rt source_url, tb_header_url = py_str rt header_url,
            tb_data_url = py_str rt data_url, tb_header = header, tb_entries = entries, tb_fetched_at = fetched_at,
            tb_from_cache = True, tb_stale = stale\<rparr>)))))))"

subsection \<open>Fetching a table\<close>

record fetch_job =
  fj_table_id :: string
  fj_source_url :: string
  fj_name :: string
  fj_cache :: "row option"

definition clock_now :: "'w table_ports \<Rightarrow> ('w fetch_state, int) action" where
  "clock_now ports = in_world (tp_clock ports)"

definition table_of_job :: "fetch_job \<Rightarrow> string \<Rightarrow> string \<Rightarrow> row \<Rightarrow> table_entry list \<Rightarrow> int \<Rightarrow> bool \<Rightarrow> table_data" where
  "table_of_job job header_url data_url header entries fetched_at from_cache =
     \<lparr>tb_table_id = fj_table_id job, tb_source_url = fj_source_url job, tb_header_url = header_url, tb_data_url = data_url,
      tb_header = header, tb_entries = entries, tb_fetched_at = fetched_at, tb_from_cache = from_cache, tb_stale = False\<rparr>"

definition save_table ::
    "'w table_ports \<Rightarrow> fetch_job \<Rightarrow> string \<Rightarrow> table_data \<Rightarrow> pyval \<Rightarrow> (row \<times> row \<times> row) py \<Rightarrow> ('w fetch_state, table_data) action" where
  "save_table ports job kind t data validators =
     act_bind (act_of validators) (\<lambda>(sv, hv, dv).
     act_bind (save_cache ports (fj_name job) (cache_document kind t data sv hv dv)) (\<lambda>_. act_of (Inr t)))"

text \<open>The page itself holds the entries.\<close>

definition fetch_legacy ::
    "runtime \<Rightarrow> 'w table_ports \<Rightarrow> fetch_job \<Rightarrow> http_response \<Rightarrow> source_document \<Rightarrow> ('w fetch_state, table_data) action" where
  "fetch_legacy rt ports job response doc =
     act_bind (act_of (validate_entries rt (fj_table_id job) True (sd_data doc))) (\<lambda>entries.
     act_bind (clock_now ports) (\<lambda>now.
       save_table ports job legacy_kind
         (table_of_job job (sd_header_url doc) (fj_source_url job) (sd_header doc) entries now (hr_not_modified response))
         (sd_data doc)
         (py_bind (updated_validators (Some response) (cache_get (fj_cache job) ''source_validators'')) (\<lambda>sv. Inr (sv, [], [])))))"

definition fetch_header ::
    "runtime \<Rightarrow> 'w table_ports \<Rightarrow> fetch_job \<Rightarrow> source_document \<Rightarrow> ('w fetch_state, http_response option \<times> row) action" where
  "fetch_header rt ports job doc =
     (if sd_kind doc \<noteq> ''html'' then act_of (Inr (None, sd_header doc))
      else act_bind (send_request rt ports (sd_header_url doc) (cache_get (fj_cache job) ''header_validators'')) (\<lambda>response.
        act_of (py_bind
          (if hr_not_modified response then
             (case fj_cache job of None \<Rightarrow> Inl (TableFetchError ''received 304 without a cached header'')
              | Some c \<Rightarrow> validate_header (get_item c ''header''))
           else py_bind (decode_json ports (hr_body response)) validate_header)
          (\<lambda>header. Inr (Some response, header)))))"

definition header_data_url :: "runtime \<Rightarrow> 'w table_ports \<Rightarrow> string \<Rightarrow> row \<Rightarrow> string py" where
  "header_data_url rt ports header_url header =
     py_bind (item header ''data_url'') (\<lambda>v.
     py_bind (tp_join ports header_url (py_strip (py_str rt v))) (secure_same_host_url ports header_url))"

definition fetch_data ::
    "runtime \<Rightarrow> 'w table_ports \<Rightarrow> fetch_job \<Rightarrow> string \<Rightarrow> ('w fetch_state, http_response \<times> pyval) action" where
  "fetch_data rt ports job data_url =
     (let old_url = (case fj_cache job of None \<Rightarrow> []
        | Some c \<Rightarrow> (case map_of c ''data_url'' of None \<Rightarrow> [] | Some v \<Rightarrow> py_str rt v)) in
      act_bind (send_request rt ports data_url
        (if data_url = old_url then cache_get (fj_cache job) ''data_validators'' else PNone)) (\<lambda>response.
      act_of (py_bind
        (if hr_not_modified response then
           (case fj_cache job of None \<Rightarrow> Inl (TableFetchError ''received 304 without cached table data'')
            | Some c \<Rightarrow> Inr (get_item c ''data''))
         else decode_json ports (hr_body response)) (\<lambda>data. Inr (response, data)))))"

definition fetch_documents ::
    "runtime \<Rightarrow> 'w table_ports \<Rightarrow> fetch_job \<Rightarrow> http_response \<Rightarrow> source_document \<Rightarrow> ('w fetch_state, table_data) action" where
  "fetch_documents rt ports job response doc =
     act_bind (fetch_header rt ports job doc) (\<lambda>(header_response, header).
     act_bind (act_of (header_data_url rt ports (sd_header_url doc) header)) (\<lambda>data_url.
     act_bind (fetch_data rt ports job data_url) (\<lambda>(data_response, data).
     act_bind (act_of (validate_entries rt (fj_table_id job) False data)) (\<lambda>entries.
     act_bind (clock_now ports) (\<lambda>now.
       save_table ports job (sd_kind doc)
         (table_of_job job (sd_header_url doc) data_url header entries now
            (hr_not_modified response \<and> hr_not_modified data_response))
         data
         (py_bind (updated_validators (Some response) (cache_get (fj_cache job) ''source_validators'')) (\<lambda>sv.
          py_bind (updated_validators header_response (cache_get (fj_cache job) ''header_validators'')) (\<lambda>hv.
          py_bind (updated_validators (Some data_response) (cache_get (fj_cache job) ''data_validators'')) (\<lambda>dv.
            Inr (sv, hv, dv))))))))))"

definition fetch_fresh :: "runtime \<Rightarrow> 'w table_ports \<Rightarrow> fetch_job \<Rightarrow> ('w fetch_state, table_data) action" where
  "fetch_fresh rt ports job =
     act_bind (send_request rt ports (fj_source_url job) (cache_get (fj_cache job) ''source_validators'')) (\<lambda>response.
     act_bind (act_of (resolve_source rt ports (fj_table_id job) (fj_source_url job) (fj_cache job) response)) (\<lambda>doc.
       if sd_kind doc = legacy_kind then fetch_legacy rt ports job response doc
       else fetch_documents rt ports job response doc))"

fun caught_by_fetch :: "py_exn \<Rightarrow> bool" where
  "caught_by_fetch (TableFetchError s) = True"
| "caught_by_fetch (KeyError k) = True"
| "caught_by_fetch TypeError = True"
| "caught_by_fetch (ValueError s) = True"
| "caught_by_fetch e = False"

definition stale_or_raise ::
    "runtime \<Rightarrow> bool \<Rightarrow> row option \<Rightarrow> py_exn \<Rightarrow> ('w fetch_state, table_data) action" where
  "stale_or_raise rt allow_stale cache e =
     (let failure = (case e of TableFetchError s \<Rightarrow> Inl e | _ \<Rightarrow> Inl (TableFetchError ''invalid cache or table data'')) in
      act_of (if \<not> caught_by_fetch e then Inl e
        else if \<not> allow_stale then failure
        else case cache of None \<Rightarrow> failure
          | Some c \<Rightarrow>
              (case cached_table rt c True of Inr t \<Rightarrow> Inr t
               | Inl e' \<Rightarrow> if caught_by_fetch e' then failure else Inl e')))"

definition job_of :: "runtime \<Rightarrow> 'w table_ports \<Rightarrow> string \<Rightarrow> string \<Rightarrow> cache_dir \<Rightarrow> fetch_job" where
  "job_of rt ports table_id source_url dir =
     \<lparr>fj_table_id = table_id, fj_source_url = source_url, fj_name = cache_name rt table_id source_url,
      fj_cache = load_cache ports (cache_name rt table_id source_url) dir\<rparr>"

definition fetch_table ::
    "runtime \<Rightarrow> 'w table_ports \<Rightarrow> string \<Rightarrow> string \<Rightarrow> bool \<Rightarrow> ('w fetch_state, table_data) action" where
  "fetch_table rt ports table_id header_url allow_stale =
     (\<lambda>(w, dir).
        if table_id = [] then (Inl (ValueError ''table_id must be a non-empty string''), (w, dir))
        else if py_strip header_url = [] then (Inl (ValueError ''header_url must be a non-empty URL''), (w, dir))
        else
          let job = job_of rt ports table_id (py_strip header_url) dir in
          act_catch (fetch_fresh rt ports job) (stale_or_raise rt allow_stale (fj_cache job)) (w, dir))"

subsection \<open>What a fetch does to the cache\<close>

lemma in_world_keeps: "act_keeps snd (in_world m)"
  by (auto simp: act_keeps_def in_world_def split: prod.splits)

lemma send_request_keeps: "act_keeps snd (send_request rt ports url v)"
  unfolding send_request_def by (intro act_keeps_bind act_keeps_of in_world_keeps)

lemma clock_now_keeps: "act_keeps snd (clock_now ports)"
  unfolding clock_now_def by (rule in_world_keeps)

lemma fetch_header_keeps: "act_keeps snd (fetch_header rt ports job doc)"
  unfolding fetch_header_def by (cases "sd_kind doc = ''html''") (auto intro!: act_keeps_bind send_request_keeps)

lemma fetch_data_keeps: "act_keeps snd (fetch_data rt ports job url)"
  unfolding fetch_data_def Let_def by (intro act_keeps_bind act_keeps_of send_request_keeps)

lemma save_cache_atomic: "act_atomic snd (save_cache ports name v)"
  by (auto simp: act_atomic_def save_cache_def split: option.splits prod.splits sum.splits)

lemma save_table_atomic: "act_atomic snd (save_table ports job kind t data validators)"
  unfolding save_table_def
  by (intro act_atomic_bind act_keeps_of) (simp add: case_prod_unfold act_atomic_last save_cache_atomic)

lemma fetch_legacy_atomic: "act_atomic snd (fetch_legacy rt ports job r doc)"
  unfolding fetch_legacy_def by (intro act_atomic_bind act_keeps_of clock_now_keeps save_table_atomic)

lemma fetch_documents_atomic: "act_atomic snd (fetch_documents rt ports job r doc)"
  unfolding fetch_documents_def case_prod_unfold
  by (intro act_atomic_bind act_keeps_of clock_now_keeps fetch_header_keeps fetch_data_keeps save_table_atomic)

lemma fetch_fresh_atomic: "act_atomic snd (fetch_fresh rt ports job)"
  unfolding fetch_fresh_def
  by (intro act_atomic_bind act_keeps_of send_request_keeps) (simp add: fetch_legacy_atomic fetch_documents_atomic)

lemma stale_or_raise_keeps: "act_keeps snd (stale_or_raise rt allow cache e)"
  unfolding stale_or_raise_def Let_def by (rule act_keeps_of)

lemma validate_header_dict: "validate_header v = Inr h \<Longrightarrow> v = PDict h"
  by (cases v) (auto simp: validate_header_def py_bind_Inr_iff)

text \<open>What a fetch that did not fall back has in common with the document it saved.\<close>

definition saved_as :: "runtime \<Rightarrow> 'w table_ports \<Rightarrow> fetch_job \<Rightarrow> table_data \<Rightarrow> (string \<times> string) list \<Rightarrow> (string \<times> string) list \<Rightarrow> bool" where
  "saved_as rt ports job t files files' \<longleftrightarrow>
     (\<exists>kind data sv hv dv. files' = AList.update (fj_name job) (tp_dump ports (cache_document kind t data sv hv dv)) files \<and>
        validate_header (PDict (tb_header t)) = Inr (tb_header t) \<and>
        validate_entries rt (tb_table_id t) (kind = legacy_kind) data = Inr (tb_entries t))"

lemma save_cache_saved:
  assumes "save_cache ports name v (w, Some files) = (Inr u, (w', Some files'))"
  shows "files' = AList.update name (tp_dump ports v) files"
  using assms by (auto simp: save_cache_def split: prod.splits sum.splits)

lemma dir_of_kept: "act_keeps snd m \<Longrightarrow> m (w, dir) = (r, (w', dir')) \<Longrightarrow> dir' = dir"
  using act_keepsD[of snd m "(w, dir)" r "(w', dir')"] by simp

lemma legacy_header_valid:
  assumes "parse_genocide_legacy ports body url = Inr p" and "py_strip url \<noteq> []"
  shows "validate_header (PDict (fst p)) = Inr (fst p)"
proof -
  obtain groups where "tp_legacy ports body = Inr groups" using assms(1) by (auto simp: parse_genocide_legacy_def py_bind_Inr_iff)
  then show ?thesis
    using assms by (cases "List.map_filter (legacy_entry ports) groups")
      (auto simp: parse_genocide_legacy_def validate_header_def get_item_def split: prod.splits)
qed

lemma validated_again: "validate_header v = Inr h \<Longrightarrow> validate_header (PDict h) = Inr h"
  using validate_header_dict by blast

lemma resolve_not_modified:
  assumes "resolve_source rt ports table_id url cache r = Inr doc" and "hr_not_modified r"
  shows "validate_header (PDict (sd_header doc)) = Inr (sd_header doc)"
  using assms validated_again by (auto simp: resolve_source_def py_bind_Inr_iff split: option.splits)

lemma resolve_modified:
  assumes "resolve_source rt ports table_id url cache r = Inr doc" and "\<not> hr_not_modified r"
    and "sd_kind doc \<noteq> ''html''" and "py_strip url \<noteq> []"
  shows "validate_header (PDict (sd_header doc)) = Inr (sd_header doc)"
proof (cases "decode_json ports (hr_body r)")
  case (Inr v)
  then show ?thesis using assms(1,2) validated_again by (auto simp: resolve_source_def py_bind_Inr_iff)
next
  case (Inl e)
  show ?thesis
  proof (cases "header_url_from_html ports (hr_body r) url")
    case (Inr u)
    then show ?thesis using assms(1-3) Inl by (auto simp: resolve_source_def)
  next
    case (Inl e')
    obtain p where p: "parse_genocide_legacy ports (hr_body r) url = Inr p" and doc: "sd_header doc = fst p"
      using assms(1,2) \<open>decode_json ports (hr_body r) = Inl e\<close> Inl
      by (auto simp: resolve_source_def py_bind_Inr_iff split: py_exn.splits if_splits)
    show ?thesis using legacy_header_valid[OF p assms(4)] doc by simp
  qed
qed

lemma resolve_source_header:
  assumes "resolve_source rt ports table_id url cache r = Inr doc" and "py_strip url \<noteq> []" and "sd_kind doc \<noteq> ''html''"
  shows "validate_header (PDict (sd_header doc)) = Inr (sd_header doc)"
  using resolve_not_modified[OF assms(1)] resolve_modified[OF assms(1) _ assms(3,2)] by blast

lemma fetch_header_valid:
  assumes "fetch_header rt ports job doc w = (Inr (hr, header), w')"
    and "sd_kind doc \<noteq> ''html'' \<Longrightarrow> validate_header (PDict (sd_header doc)) = Inr (sd_header doc)"
  shows "validate_header (PDict header) = Inr header"
proof (cases "sd_kind doc = ''html''")
  case True
  then obtain v where "validate_header v = Inr header"
    using assms(1) by (auto simp: fetch_header_def act_bind_Inr py_bind_Inr_iff split: if_splits option.splits)
  then show ?thesis by (rule validated_again)
next
  case False
  then show ?thesis using assms by (simp add: fetch_header_def)
qed

lemma saved_asI:
  assumes "\<exists>sv hv dv. files' = AList.update (fj_name job) (tp_dump ports (cache_document kind t data sv hv dv)) files"
    and "validate_header (PDict (tb_header t)) = Inr (tb_header t)"
    and "validate_entries rt (tb_table_id t) (kind = legacy_kind) data = Inr (tb_entries t)"
  shows "saved_as rt ports job t files files'"
  using assms unfolding saved_as_def by blast

lemma save_table_saved:
  assumes "save_table ports job kind t data validators s = (Inr t', (w', Some files'))" and "snd s = Some files"
  shows "t' = t \<and> (\<exists>sv hv dv. files' = AList.update (fj_name job) (tp_dump ports (cache_document kind t data sv hv dv)) files)"
proof (cases validators)
  case (Inr v)
  obtain sv hv dv where v: "v = (sv, hv, dv)" by (metis prod.exhaust)
  have "t' = t \<and> (\<exists>u. save_cache ports (fj_name job) (cache_document kind t data sv hv dv) s = (Inr u, (w', Some files')))"
    using assms(1) Inr v by (auto simp: save_table_def act_bind_Inr)
  moreover obtain w where "s = (w, Some files)" using assms(2) by (cases s) auto
  ultimately show ?thesis using save_cache_saved by metis
qed (use assms in \<open>simp add: save_table_def\<close>)

lemma fetch_legacy_saved:
  assumes run: "fetch_legacy rt ports job r doc s = (Inr t, (w', Some files'))" and s: "snd s = Some files"
    and header: "validate_header (PDict (sd_header doc)) = Inr (sd_header doc)"
  shows "saved_as rt ports job t files files' \<and> \<not> tb_stale t \<and> tb_table_id t = fj_table_id job"
proof (cases "validate_entries rt (fj_table_id job) True (sd_data doc)")
  case (Inr entries)
  obtain now s1 where now: "clock_now ports s = (Inr now, s1)"
      and save: "save_table ports job legacy_kind
        (table_of_job job (sd_header_url doc) (fj_source_url job) (sd_header doc) entries now (hr_not_modified r)) (sd_data doc)
        (py_bind (updated_validators (Some r) (cache_get (fj_cache job) ''source_validators'')) (\<lambda>sv. Inr (sv, [], []))) s1
      = (Inr t, (w', Some files'))"
    using run Inr by (auto simp: fetch_legacy_def act_bind_Inr)
  have "snd s1 = Some files" using act_keepsD[OF clock_now_keeps now] s by simp
  from save_table_saved[OF save this] have t: "t = table_of_job job (sd_header_url doc) (fj_source_url job) (sd_header doc) entries now (hr_not_modified r)"
    and files: "\<exists>sv hv dv. files' = AList.update (fj_name job) (tp_dump ports (cache_document legacy_kind t (sd_data doc) sv hv dv)) files"
    by blast+
  from files have "saved_as rt ports job t files files'" by (rule saved_asI) (simp_all add: t table_of_job_def Inr header)
  then show ?thesis by (simp add: t table_of_job_def)
qed (use run in \<open>simp add: fetch_legacy_def\<close>)

lemma fetch_documents_saved:
  assumes run: "fetch_documents rt ports job r doc s = (Inr t, (w', Some files'))" and s: "snd s = Some files"
    and kind: "sd_kind doc \<noteq> legacy_kind"
    and header: "sd_kind doc \<noteq> ''html'' \<Longrightarrow> validate_header (PDict (sd_header doc)) = Inr (sd_header doc)"
  shows "saved_as rt ports job t files files' \<and> \<not> tb_stale t \<and> tb_table_id t = fj_table_id job"
proof -
  obtain hr header s1 where h: "fetch_header rt ports job doc s = (Inr (hr, header), s1)"
    using run by (cases "fetch_header rt ports job doc s") (auto simp: fetch_documents_def act_bind_Inr)
  obtain data_url where u: "header_data_url rt ports (sd_header_url doc) header = Inr data_url"
    using run by (cases "header_data_url rt ports (sd_header_url doc) header") (simp_all add: fetch_documents_def act_bind_def h)
  obtain dr data s2 where d: "fetch_data rt ports job data_url s1 = (Inr (dr, data), s2)"
    using run by (cases "fetch_data rt ports job data_url s1") (auto simp: fetch_documents_def act_bind_def h u split: sum.splits)
  obtain entries where ok: "validate_entries rt (fj_table_id job) False data = Inr entries"
    using run by (cases "validate_entries rt (fj_table_id job) False data")
      (simp_all add: fetch_documents_def act_bind_def h u d)
  obtain now s3 validators where now: "clock_now ports s2 = (Inr now, s3)"
      and save: "save_table ports job (sd_kind doc) (table_of_job job (sd_header_url doc) data_url header entries now
        (hr_not_modified r \<and> hr_not_modified dr)) data validators s3 = (Inr t, (w', Some files'))"
    using run by (auto simp: fetch_documents_def act_bind_def[of "fetch_header rt ports job doc"] h u act_bind_def[of "fetch_data rt ports job data_url"] d ok act_bind_Inr)
  have "snd s1 = Some files" using act_keepsD[OF fetch_header_keeps h] s by simp
  then have "snd s2 = Some files" using act_keepsD[OF fetch_data_keeps d] by simp
  then have "snd s3 = Some files" using act_keepsD[OF clock_now_keeps now] by simp
  from save_table_saved[OF save this] have t: "t = table_of_job job (sd_header_url doc) data_url header entries now
        (hr_not_modified r \<and> hr_not_modified dr)"
    and files: "\<exists>sv hv dv. files' = AList.update (fj_name job) (tp_dump ports (cache_document (sd_kind doc) t data sv hv dv)) files"
    by blast+
  from files have "saved_as rt ports job t files files'"
    by (rule saved_asI) (simp_all add: t table_of_job_def ok kind fetch_header_valid[OF h header])
  then show ?thesis by (simp add: t table_of_job_def)
qed

lemma fetch_fresh_saved:
  assumes "fetch_fresh rt ports job (w, Some files) = (Inr t, (w', Some files'))" and "py_strip (fj_source_url job) \<noteq> []"
  shows "saved_as rt ports job t files files' \<and> \<not> tb_stale t \<and> tb_table_id t = fj_table_id job"
proof -
  obtain r s1 doc where r: "send_request rt ports (fj_source_url job) (cache_get (fj_cache job) ''source_validators'') (w, Some files) = (Inr r, s1)"
      and doc: "resolve_source rt ports (fj_table_id job) (fj_source_url job) (fj_cache job) r = Inr doc"
      and run: "(if sd_kind doc = legacy_kind then fetch_legacy rt ports job r doc else fetch_documents rt ports job r doc) s1
        = (Inr t, (w', Some files'))"
    using assms(1) by (auto simp: fetch_fresh_def act_simps)
  have s1: "snd s1 = Some files" using act_keepsD[OF send_request_keeps r] by simp
  show ?thesis
  proof (cases "sd_kind doc = legacy_kind")
    case True
    then have "sd_kind doc \<noteq> ''html''" by (simp add: legacy_kind_def)
    then have h: "validate_header (PDict (sd_header doc)) = Inr (sd_header doc)" by (rule resolve_source_header[OF doc assms(2)])
    have "fetch_legacy rt ports job r doc s1 = (Inr t, (w', Some files'))" using run True by simp
    then show ?thesis using s1 h by (rule fetch_legacy_saved)
  next
    case False
    have "fetch_documents rt ports job r doc s1 = (Inr t, (w', Some files'))" using run False by simp
    then show ?thesis using s1 False resolve_source_header[OF doc assms(2)] by (rule fetch_documents_saved)
  qed
qed

lemma py_strip_not_space:
  assumes "py_strip s \<noteq> []"
  shows "\<not> is_space (hd (py_strip s))" and "\<not> is_space (last (py_strip s))"
proof -
  let ?d = "dropWhile is_space s"
  have ne: "dropWhile is_space (rev ?d) \<noteq> []" using assms unfolding py_strip_def rev_is_Nil_conv .
  then have "\<not> is_space (hd (dropWhile is_space (rev ?d)))" by (rule hd_dropWhile)
  then show "\<not> is_space (last (py_strip s))" using ne by (simp add: py_strip_def last_rev)
  have "?d \<noteq> []" using ne by (metis dropWhile.simps(1) rev.simps(1))
  then have "\<not> is_space (hd ?d)" by (rule hd_dropWhile)
  moreover have "hd (py_strip s) = hd ?d"
  proof -
    obtain ys where "rev ?d = ys @ dropWhile is_space (rev ?d)" by (metis takeWhile_dropWhile_id)
    then have "?d = py_strip s @ rev ys" by (metis py_strip_def rev_append rev_rev_ident)
    then show ?thesis using assms by (metis hd_append2)
  qed
  ultimately show "\<not> is_space (hd (py_strip s))" by simp
qed

lemma py_strip_idem [simp]: "py_strip (py_strip s) = py_strip s"
  by (cases "py_strip s = []") (simp_all add: py_strip_id py_strip_not_space, simp add: py_strip_def)

lemma save_table_yields: "\<not> tb_stale t \<Longrightarrow> act_yields (\<lambda>t. \<not> tb_stale t) (save_table ports job kind t data validators)"
  unfolding save_table_def case_prod_unfold by (intro act_yields_bind act_yields_of) simp

lemma fetch_fresh_yields: "act_yields (\<lambda>t. \<not> tb_stale t) (fetch_fresh rt ports job)"
  unfolding fetch_fresh_def fetch_legacy_def fetch_documents_def case_prod_unfold
  by (intro act_yields_bind) (auto simp: table_of_job_def intro!: act_yields_bind save_table_yields)

lemma fetch_table_fresh:
  assumes "fetch_table rt ports table_id url allow (w, dir) = (Inr t, s)" and "\<not> tb_stale t"
  shows "table_id \<noteq> [] \<and> py_strip url \<noteq> [] \<and>
    fetch_fresh rt ports (job_of rt ports table_id (py_strip url) dir) (w, dir) = (Inr t, s)"
proof -
  have "tb_stale t'" if "cached_table rt c True = Inr t'" for c t'
    using that by (auto simp: cached_table_def py_bind_Inr_iff)
  then have "stale_or_raise rt allow cache e w' \<noteq> (Inr t, s)" for cache e w'
    using assms(2) by (auto simp: stale_or_raise_def Let_def split: if_splits option.splits sum.splits py_exn.splits)
  then show ?thesis using assms(1) by (auto simp: fetch_table_def Let_def act_catch_Inr split: if_splits)
qed

text \<open>A run of \<open>fetch_table\<close> that raises, or that falls back to the last good table, leaves the cache directory as it was.\<close>

theorem failed_fetch_keeps_cache:
  assumes "fetch_table rt ports table_id url allow (w, dir) = (r, (w', dir'))"
    and "case r of Inl e \<Rightarrow> True | Inr t \<Rightarrow> tb_stale t"
  shows "dir' = dir"
proof (cases "table_id = [] \<or> py_strip url = []")
  case True
  then show ?thesis using assms(1) by (auto simp: fetch_table_def split: if_splits)
next
  case False
  define job where "job = job_of rt ports table_id (py_strip url) dir"
  have run: "act_catch (fetch_fresh rt ports job) (stale_or_raise rt allow (fj_cache job)) (w, dir) = (r, (w', dir'))"
    using assms(1) False by (simp add: fetch_table_def job_def Let_def)
  obtain x s where fresh: "fetch_fresh rt ports job (w, dir) = (x, s)" by (metis prod.exhaust)
  show ?thesis
  proof (cases x)
    case (Inl e)
    then have "snd s = dir" using act_atomicD[OF fetch_fresh_atomic] fresh by fastforce
    moreover have "stale_or_raise rt allow (fj_cache job) e s = (r, (w', dir'))" using run fresh Inl by (simp add: act_catch_def)
    ultimately show ?thesis using act_keepsD[OF stale_or_raise_keeps] by fastforce
  next
    case (Inr t)
    then have "r = Inr t" using run fresh by (simp add: act_catch_def)
    then show ?thesis using assms(2) act_yieldsD[OF fetch_fresh_yields] fresh Inr by fastforce
  qed
qed

text \<open>The same table with nothing but outages since.\<close>

definition outage :: "'w table_ports \<Rightarrow> 'w table_ports" where
  "outage ports = ports\<lparr>tp_open := \<lambda>request w. (Raised (OSError ''unreachable''), w)\<rparr>"

lemma cached_table_of_document:
  assumes "validate_header (PDict (tb_header t)) = Inr (tb_header t)"
    and "validate_entries rt (tb_table_id t) (kind = legacy_kind) data = Inr (tb_entries t)"
    and "cache_document kind t data sv hv dv = PDict c"
  shows "cached_table rt c True = Inr (t\<lparr>tb_from_cache := True, tb_stale := True\<rparr>)"
  using assms by (auto simp: cache_document_def cached_table_def get_item_def item_def int_item_def)

lemma outage_falls_back:
  assumes "load_cache ports (fj_name job) dir = Some c" and "fj_cache job = Some c" and "cached_table rt c True = Inr t"
    and "\<exists>sv. get_item c ''source_validators'' = PDict sv"
  shows "act_catch (fetch_fresh rt (outage ports) job) (stale_or_raise rt True (fj_cache job)) (w, dir) = (Inr t, (w, dir))"
proof -
  obtain sv where sv: "get_item c ''source_validators'' = PDict sv" using assms(4) by blast
  have "\<exists>headers. conditional_headers rt (PDict sv) = Inr headers" by (simp add: conditional_headers_def)
  then obtain headers where "conditional_headers rt (get_item c ''source_validators'') = Inr headers" using sv by auto
  then have "send_request rt (outage ports) (fj_source_url job) (cache_get (fj_cache job) ''source_validators'') (w, dir)
      = (Inl (TableFetchError ''failed to fetch''), (w, dir))"
    by (simp add: send_request_def assms(2) cache_get_def act_bind_def in_world_def outage_def)
  then show ?thesis by (simp add: act_catch_def fetch_fresh_def act_bind_def stale_or_raise_def assms(2,3))
qed

text \<open>C21: A table that was fetched and cached survives an outage: while the server is unreachable, the next fetch returns the same
  header, entries, addresses and time of fetching from the cache, marked as stale, provided that the cached bytes parse to what was written.\<close>

theorem cached_table_survives_outage:
  assumes "fetch_table rt ports table_id url allow (w, Some files) = (Inr t, (w', Some files'))" and "\<not> tb_stale t"
    and "map_of files' (cache_name rt table_id (py_strip url)) = Some bytes"
    and "\<forall>v. tp_dump ports v = bytes \<longrightarrow> tp_load ports bytes = Some v"
  shows "fetch_table rt (outage ports) table_id url True (v, Some files')
    = (Inr (t\<lparr>tb_from_cache := True, tb_stale := True\<rparr>), (v, Some files'))"
proof -
  define job where "job = job_of rt ports table_id (py_strip url) (Some files)"
  have ne: "table_id \<noteq> []" "py_strip url \<noteq> []" and fresh: "fetch_fresh rt ports job (w, Some files) = (Inr t, (w', Some files'))"
    using fetch_table_fresh[OF assms(1,2)] by (simp_all add: job_def)
  have "saved_as rt ports job t files files'" using fetch_fresh_saved[OF fresh] ne(2) by (simp add: job_def job_of_def)
  then obtain kind data sv hv dv where files': "files' = AList.update (fj_name job) (tp_dump ports (cache_document kind t data sv hv dv)) files"
      and header: "validate_header (PDict (tb_header t)) = Inr (tb_header t)"
      and entries: "validate_entries rt (tb_table_id t) (kind = legacy_kind) data = Inr (tb_entries t)"
    unfolding saved_as_def by blast
  have bytes: "tp_dump ports (cache_document kind t data sv hv dv) = bytes"
    using assms(3) by (simp add: files' job_def job_of_def update_conv)
  obtain c where c: "cache_document kind t data sv hv dv = PDict c" by (simp add: cache_document_def)
  have load: "load_cache ports (fj_name job) (Some files') = Some c"
    using assms(3,4) bytes c by (simp add: load_cache_def job_def job_of_def)
  have "\<exists>sv. get_item c ''source_validators'' = PDict sv" using c by (auto simp: cache_document_def get_item_def)
  note run = outage_falls_back[where job = "job_of rt (outage ports) table_id (py_strip url) (Some files')" and ports = ports and dir = "Some files'",
      OF _ _ cached_table_of_document[OF header entries c] this, of v]
  have "tp_load (outage ports) = tp_load ports" by (simp add: outage_def)
  then have "load_cache (outage ports) n d = load_cache ports n d" for n d unfolding load_cache_def by metis
  then show ?thesis using run load ne by (simp add: fetch_table_def job_of_def job_def Let_def)
qed

subsection \<open>Entries\<close>

definition identified :: "table_entry \<Rightarrow> bool" where
  "identified e \<longleftrightarrow>
     (\<exists>h. en_sha256 e = Some h \<and> length h = 64 \<and> list_all is_hex_lower h) \<or>
     (\<exists>h. en_md5 e = Some h \<and> length h = 32 \<and> list_all is_hex_lower h) \<or>
     (\<exists>s. en_title e = Some s \<and> py_strip s \<noteq> [] \<and> marked_unique (en_data e))"

lemma normal_hash_Some: "normal_hash n v = Some h \<Longrightarrow> length h = n \<and> list_all is_hex_lower h"
  by (auto simp: normal_hash_def py_lower_def is_hex_any_def list_all_iff split: pyval.splits if_splits)

lemma validate_entry_identified:
  assumes "validate_entry rt table_id allow v = Inr e"
  shows "identified e \<and> en_table_id e = table_id"
proof -
  obtain raw where v: "v = PDict raw" using assms by (cases v) (simp_all add: validate_entry_def)
  let ?s = "normal_hash 64 (get_item raw ''sha256'')" and ?m = "normal_hash 32 (get_item raw ''md5'')"
  have e: "en_sha256 e = ?s" "en_md5 e = ?m" "en_table_id e = table_id"
    using assms by (auto simp: v validate_entry_def py_bind_Inr_iff Let_def)
  show ?thesis
  proof (cases "?s = None \<and> ?m = None")
    case True
    then obtain s where "get_item raw ''title'' = PStr s" "py_strip s \<noteq> []" "allow \<and> marked_unique raw"
      using assms by (auto simp: v validate_entry_def py_bind_Inr_iff raise_if_Inr Let_def split: pyval.splits)
    then show ?thesis
      using assms by (auto simp: v validate_entry_def py_bind_Inr_iff raise_if_Inr Let_def identified_def)
  next
    case False
    then show ?thesis using e normal_hash_Some unfolding identified_def by (cases ?s; cases ?m) auto
  qed
qed

lemma validate_entries_identified:
  "validate_entries rt table_id allow v = Inr es \<Longrightarrow> e \<in> set es \<Longrightarrow> identified e \<and> en_table_id e = table_id"
  by (auto simp: validate_entries_def py_mapM_set dest: validate_entry_identified split: pyval.splits)

subsection \<open>Witnesses\<close>

definition sample_header :: row where
  "sample_header = [(''name'', PStr ''Satellite''), (''data_url'', PStr ''d'')]"

definition sample_entries :: pyval where
  "sample_entries = PList [PDict [(''level'', PInt 3), (''md5'', PStr (replicate 32 (CHR ''a'')))]]"

definition sample_table :: table_data where
  "sample_table = \<lparr>tb_table_id = ''t'', tb_source_url = ''h'', tb_header_url = ''h'', tb_data_url = ''d'', tb_header = sample_header,
     tb_entries = [\<lparr>en_table_id = ''t'', en_level = ''3'', en_sha256 = None, en_md5 = Some (replicate 32 (CHR ''a'')),
       en_title = None, en_data = [(''level'', PInt 3), (''md5'', PStr (replicate 32 (CHR ''a'')))]\<rparr>],
     tb_fetched_at = 7, tb_from_cache = False, tb_stale = False\<rparr>"

definition sample_document :: pyval where
  "sample_document = cache_document ''json'' sample_table sample_entries
     [(''etag'', PStr ''1''), (''last_modified'', PNone)] [] [(''etag'', PStr ''1''), (''last_modified'', PNone)]"

definition sample_ports :: "unit table_ports" where
  "sample_ports = \<lparr>tp_open = (\<lambda>q w. (Reply (hq_url q) (Some ''1'') None, w)), tp_clock = (\<lambda>w. (7, w)),
     tp_replace = (\<lambda>w. (Inr (), w)),
     tp_json = (\<lambda>body. if body = ''h'' then Some (PDict sample_header) else if body = ''d'' then Some sample_entries else None),
     tp_load = (\<lambda>bytes. if bytes = ''x'' then Some sample_document else None),
     tp_dump = (\<lambda>v. if v = sample_document then ''x'' else []), tp_tags = (\<lambda>_. []), tp_join = (\<lambda>base url. Inr url),
     tp_split = (\<lambda>url. Inr (''https'', None)), tp_with_https = (\<lambda>url. url), tp_legacy = (\<lambda>_. Inr []),
     tp_string = (\<lambda>_. None), tp_unescape = (\<lambda>s. s)\<rparr>"

lemma sample_fetch:
  "fetch_table sample_runtime sample_ports ''t'' ''h'' True ((), Some []) = (Inr sample_table, ((), Some [(''t-h.json'', ''x'')]))"
  by code_simp

lemma cached_table_survives_outage_witness:
  "fetch_table sample_runtime (outage sample_ports) ''t'' ''h'' True ((), Some [(''t-h.json'', ''x'')])
     = (Inr (sample_table\<lparr>tb_from_cache := True, tb_stale := True\<rparr>), ((), Some [(''t-h.json'', ''x'')]))"
proof (rule cached_table_survives_outage[OF sample_fetch])
  show "\<not> tb_stale sample_table" by (simp add: sample_table_def)
  show "map_of [(''t-h.json'', ''x'')] (cache_name sample_runtime ''t'' (py_strip ''h'')) = Some ''x''" by code_simp
  show "\<forall>v. tp_dump sample_ports v = ''x'' \<longrightarrow> tp_load sample_ports ''x'' = Some v" by (simp add: sample_ports_def)
qed

lemma failed_fetch_keeps_cache_witness:
  "snd (snd (fetch_table sample_runtime (outage sample_ports) ''t'' ''h'' True ((), Some [(''other'', ''y'')]))) = Some [(''other'', ''y'')]"
proof -
  obtain r w' dir' where run: "fetch_table sample_runtime (outage sample_ports) ''t'' ''h'' True ((), Some [(''other'', ''y'')]) = (r, (w', dir'))"
    by (metis prod.exhaust)
  have "fst (fetch_table sample_runtime (outage sample_ports) ''t'' ''h'' True ((), Some [(''other'', ''y'')])) = Inl (TableFetchError ''failed to fetch'')"
    by code_simp
  then have "case r of Inl e \<Rightarrow> True | Inr t \<Rightarrow> tb_stale t" using run by simp
  then show ?thesis using failed_fetch_keeps_cache[OF run] run by simp
qed

end
