(* ===== verification/Table_Match.thy ===== *)
theory Table_Match
  imports Table_Fetch "HOL-Library.Multiset"
begin

text \<open>
  \<open>tables/match.py\<close>: difficulty-table entries are resolved against the charts the player owns, by SHA-256, then by MD5, then,
  for tables that say so, by a title that is unique on both sides. A chart is a row; Unicode normalisation and case
  folding are the two functions of \<open>title_ports\<close>.
\<close>

record title_ports =
  ti_nfkc :: "string \<Rightarrow> string"
  ti_casefold :: "string \<Rightarrow> string"

datatype match_kind = By_Sha256 | By_Md5 | By_Title

datatype match_outcome =
    Matched table_entry row match_kind
  | Unmatched table_entry string

record table_summary =
  sm_table_id :: string
  sm_total :: nat
  sm_matched :: nat
  sm_unmatched :: nat
  sm_sha256 :: nat
  sm_md5 :: nat
  sm_title :: nat

record match_report =
  mr_matches :: "(table_entry \<times> row \<times> match_kind) list"
  mr_misses :: "(table_entry \<times> string) list"
  mr_tables :: "table_summary list"

text \<open>An entry as the tables have it, or a mapping that is not validated yet.\<close>

datatype entry_source = Table_Entry table_entry | Entry_Mapping row

subsection \<open>Keys\<close>

definition hash_key :: "nat \<Rightarrow> pyval \<Rightarrow> string option" where
  "hash_key n v =
     (case v of PStr s \<Rightarrow>
        let h = py_lower (py_strip s) in if length h = n \<and> list_all is_hex_lower h then Some h else None
      | _ \<Rightarrow> None)"

text \<open>\<open>str.split()\<close>: the maximal runs of characters that are not white space.\<close>

fun words_from :: "string \<Rightarrow> string \<Rightarrow> string list" where
  "words_from acc [] = (if acc = [] then [] else [acc])"
| "words_from acc (c # cs) =
     (if is_space c then (if acc = [] then words_from [] cs else acc # words_from [] cs) else words_from (acc @ [c]) cs)"

fun join_spaces :: "string list \<Rightarrow> string" where
  "join_spaces [] = []"
| "join_spaces [w] = w"
| "join_spaces (w # v # ws) = w @ CHR '' '' # join_spaces (v # ws)"

definition title_key :: "title_ports \<Rightarrow> pyval \<Rightarrow> string option" where
  "title_key tp v =
     (case v of PStr s \<Rightarrow>
        let t = ti_casefold tp (join_spaces (words_from [] (ti_nfkc tp s))) in if t = [] then None else Some t
      | _ \<Rightarrow> None)"

definition entry_title_key :: "title_ports \<Rightarrow> table_entry \<Rightarrow> string option" where
  "entry_title_key tp e = (case en_title e of None \<Rightarrow> None | Some s \<Rightarrow> title_key tp (PStr s))"

fun entry_of :: "runtime \<Rightarrow> entry_source \<Rightarrow> table_entry py" where
  "entry_of rt (Table_Entry e) = Inr e"
| "entry_of rt (Entry_Mapping d) =
     (case get_item d ''table_id'' of
        PStr table_id \<Rightarrow>
          if table_id = [] then Inl (ValueError ''every table entry must have a non-empty table_id'')
          else if get_item d ''level'' = PNone then Inl (ValueError ''every table entry must have a level'')
          else Inr \<lparr>en_table_id = table_id, en_level = py_str rt (get_item d ''level''),
                    en_sha256 = hash_key 64 (get_item d ''sha256''), en_md5 = hash_key 32 (get_item d ''md5''),
                    en_title = (if get_item d ''title'' = PNone then None else Some (py_str rt (get_item d ''title''))),
                    en_data = d\<rparr>
      | _ \<Rightarrow> Inl (ValueError ''every table entry must have a non-empty table_id''))"

subsection \<open>Resolution\<close>

definition charts_with :: "(row \<Rightarrow> string option) \<Rightarrow> string option \<Rightarrow> row list \<Rightarrow> row list" where
  "charts_with key wanted charts =
     (case wanted of None \<Rightarrow> [] | Some k \<Rightarrow> if k = [] then [] else filter (\<lambda>c. key c = Some k) charts)"

definition sha256_of :: "row \<Rightarrow> string option" where "sha256_of c = hash_key 64 (get_item c ''sha256'')"
definition md5_of :: "row \<Rightarrow> string option" where "md5_of c = hash_key 32 (get_item c ''md5'')"
definition title_of :: "title_ports \<Rightarrow> row \<Rightarrow> string option" where "title_of tp c = title_key tp (get_item c ''title'')"

text \<open>How often a title occurs among the entries that may be matched by it.\<close>

definition legacy_title_count :: "title_ports \<Rightarrow> table_entry list \<Rightarrow> string \<Rightarrow> nat" where
  "legacy_title_count tp entries t =
     length (filter (\<lambda>e. marked_unique (en_data e) \<and> entry_title_key tp e = Some t) entries)"

definition resolve_by_title :: "title_ports \<Rightarrow> table_entry list \<Rightarrow> row list \<Rightarrow> table_entry \<Rightarrow> match_outcome" where
  "resolve_by_title tp entries charts e =
     (case entry_title_key tp e of
        None \<Rightarrow> Unmatched e ''ambiguous_table_title''
      | Some t \<Rightarrow>
          if legacy_title_count tp entries t \<noteq> 1 then Unmatched e ''ambiguous_table_title''
          else (case charts_with (title_of tp) (Some t) charts of
              [] \<Rightarrow> Unmatched e ''not_owned''
            | [c] \<Rightarrow> Matched e c By_Title
            | _ \<Rightarrow> Unmatched e ''ambiguous_local_title''))"

definition resolve_entry :: "title_ports \<Rightarrow> table_entry list \<Rightarrow> row list \<Rightarrow> table_entry \<Rightarrow> match_outcome" where
  "resolve_entry tp entries charts e =
     (let by_sha = charts_with sha256_of (en_sha256 e) charts; by_md5 = charts_with md5_of (en_md5 e) charts in
      if length by_sha = 1 then Matched e (hd by_sha) By_Sha256
      else if length by_md5 = 1 then Matched e (hd by_md5) By_Md5
      else if 1 < length by_sha \<or> 1 < length by_md5 then Unmatched e ''ambiguous_local_hash''
      else if marked_unique (en_data e) then resolve_by_title tp entries charts e
      else Unmatched e ''not_owned'')"

fun outcome_entry :: "match_outcome \<Rightarrow> table_entry" where
  "outcome_entry (Matched e c k) = e"
| "outcome_entry (Unmatched e r) = e"

definition empty_summary :: "string \<Rightarrow> table_summary" where
  "empty_summary table_id = \<lparr>sm_table_id = table_id, sm_total = 0, sm_matched = 0, sm_unmatched = 0, sm_sha256 = 0, sm_md5 = 0,
     sm_title = 0\<rparr>"

text \<open>One turn of the counting loop; the unmatched ones are computed at the end.\<close>

fun count_outcome :: "table_summary \<Rightarrow> match_outcome \<Rightarrow> table_summary" where
  "count_outcome s (Unmatched e r) = s\<lparr>sm_total := Suc (sm_total s)\<rparr>"
| "count_outcome s (Matched e c k) =
     (let s' = s\<lparr>sm_total := Suc (sm_total s), sm_matched := Suc (sm_matched s)\<rparr> in
      case k of By_Sha256 \<Rightarrow> s'\<lparr>sm_sha256 := Suc (sm_sha256 s)\<rparr> | By_Md5 \<Rightarrow> s'\<lparr>sm_md5 := Suc (sm_md5 s)\<rparr>
      | By_Title \<Rightarrow> s'\<lparr>sm_title := Suc (sm_title s)\<rparr>)"

definition count_step :: "(string \<times> table_summary) list \<Rightarrow> match_outcome \<Rightarrow> (string \<times> table_summary) list" where
  "count_step counts out =
     (let t = en_table_id (outcome_entry out) in
      AList.update t (count_outcome (case map_of counts t of None \<Rightarrow> empty_summary t | Some s \<Rightarrow> s) out) counts)"

definition summaries_of :: "match_outcome list \<Rightarrow> table_summary list" where
  "summaries_of outs =
     map (\<lambda>(t, s). s\<lparr>sm_unmatched := sm_total s - sm_matched s\<rparr>) (sort_key fst (foldl count_step [] outs))"

definition report_of :: "match_outcome list \<Rightarrow> match_report" where
  "report_of outs =
     \<lparr>mr_matches = List.map_filter (\<lambda>out. case out of Matched e c k \<Rightarrow> Some (e, c, k) | Unmatched e r \<Rightarrow> None) outs,
      mr_misses = List.map_filter (\<lambda>out. case out of Matched e c k \<Rightarrow> None | Unmatched e r \<Rightarrow> Some (e, r)) outs,
      mr_tables = summaries_of outs\<rparr>"

definition resolve :: "runtime \<Rightarrow> title_ports \<Rightarrow> entry_source list \<Rightarrow> row list \<Rightarrow> match_report py" where
  "resolve rt tp sources charts =
     py_bind (py_mapM (entry_of rt) sources) (\<lambda>entries.
       Inr (report_of (map (resolve_entry tp entries charts) entries)))"

text \<open>The properties of a report.\<close>

definition report_total :: "match_report \<Rightarrow> nat" where
  "report_total r = length (mr_matches r) + length (mr_misses r)"

definition report_match_rate :: "match_report \<Rightarrow> real" where
  "report_match_rate r = (if report_total r = 0 then 0 else real (length (mr_matches r)) / real (report_total r))"

definition summary_match_rate :: "table_summary \<Rightarrow> real" where
  "summary_match_rate s = (if sm_total s = 0 then 0 else real (sm_matched s) / real (sm_total s))"

definition for_table :: "match_report \<Rightarrow> string \<Rightarrow> table_summary option" where
  "for_table r t = List.find (\<lambda>s. sm_table_id s = t) (mr_tables r)"

subsection \<open>Matches are unique owners\<close>

fun chart_key :: "title_ports \<Rightarrow> match_kind \<Rightarrow> row \<Rightarrow> string option" where
  "chart_key tp By_Sha256 = sha256_of"
| "chart_key tp By_Md5 = md5_of"
| "chart_key tp By_Title = title_of tp"

fun entry_key :: "title_ports \<Rightarrow> match_kind \<Rightarrow> table_entry \<Rightarrow> string option" where
  "entry_key tp By_Sha256 e = en_sha256 e"
| "entry_key tp By_Md5 e = en_md5 e"
| "entry_key tp By_Title e = entry_title_key tp e"

definition owners :: "title_ports \<Rightarrow> match_kind \<Rightarrow> table_entry \<Rightarrow> row list \<Rightarrow> row list" where
  "owners tp k e charts = charts_with (chart_key tp k) (entry_key tp k e) charts"

lemma resolve_entry_Matched:
  assumes "resolve_entry tp entries charts e = Matched e' c k"
  shows "e' = e \<and> owners tp k e charts = [c] \<and> (k \<noteq> By_Sha256 \<longrightarrow> length (owners tp By_Sha256 e charts) \<noteq> 1)"
proof -
  have one: "xs = [hd xs]" if "length xs = Suc 0" for xs :: "row list" using that by (cases xs) auto
  show ?thesis
    using assms one
    by (auto simp: resolve_entry_def resolve_by_title_def owners_def Let_def split: if_splits option.splits list.splits)
qed

lemma charts_with_mset: "mset charts = mset charts' \<Longrightarrow> mset (charts_with key w charts) = mset (charts_with key w charts')"
  by (simp add: charts_with_def split: option.splits)

lemma single_mset: "mset xs = mset ys \<Longrightarrow> length xs = 1 \<Longrightarrow> xs = ys"
  by (cases xs; cases ys) (auto dest: mset_eq_length)

lemma mset_shapes:
  assumes "mset xs = mset ys"
  shows "(case xs of [] \<Rightarrow> a | [c] \<Rightarrow> f c | _ \<Rightarrow> b) = (case ys of [] \<Rightarrow> a | [c] \<Rightarrow> f c | _ \<Rightarrow> b)"
proof (cases "length xs = 1")
  case True
  then show ?thesis using single_mset[OF assms] by simp
next
  case False
  then show ?thesis using mset_eq_length[OF assms] by (cases xs; cases ys) (auto split: list.splits)
qed

lemma resolve_entry_mset:
  assumes "mset charts = mset charts'"
  shows "resolve_entry tp entries charts e = resolve_entry tp entries charts' e"
proof -
  note same = charts_with_mset[OF assms]
  have len: "length (charts_with key w charts) = length (charts_with key w charts')" for key w
    using mset_eq_length[OF same] .
  have single: "length (charts_with key w charts') = 1 \<Longrightarrow> charts_with key w charts = charts_with key w charts'" for key w
    using single_mset[OF same] len by metis
  have "resolve_by_title tp entries charts e = resolve_by_title tp entries charts' e"
    unfolding resolve_by_title_def using mset_shapes[OF same] by (auto split: option.splits)
  then show ?thesis unfolding resolve_entry_def Let_def len using single by (simp cong: if_cong)
qed

lemma mapped_matches:
  "(e, c, k) \<in> set (mr_matches (report_of outs)) \<longleftrightarrow> Matched e c k \<in> set outs"
  by (induction outs) (auto simp: report_of_def List.map_filter_simps split: match_outcome.split option.splits)

text \<open>The report does not depend on the order in which the library lists its charts.\<close>

theorem resolution_ignores_chart_order:
  assumes "mset charts = mset charts'"
  shows "resolve rt tp sources charts = resolve rt tp sources charts'"
  unfolding resolve_def resolve_entry_mset[OF assms] ..

text \<open>C22: A match is never a guess: the chart is the only one of the library with the key the entry was matched by, an MD5 or title is used
  only where the SHA-256 has no single owner, and an entry whose SHA-256 has a single owner is matched to it.\<close>

theorem matches_are_unique_owners:
  assumes "py_mapM (entry_of rt) sources = Inr entries" and "resolve rt tp sources charts = Inr r"
  shows "((e, c, k) \<in> set (mr_matches r) \<longrightarrow>
      e \<in> set entries \<and> owners tp k e charts = [c] \<and> (k \<noteq> By_Sha256 \<longrightarrow> length (owners tp By_Sha256 e charts) \<noteq> 1)) \<and>
    (e \<in> set entries \<and> owners tp By_Sha256 e charts = [c] \<longrightarrow> (e, c, By_Sha256) \<in> set (mr_matches r))"
proof -
  have r: "r = report_of (map (resolve_entry tp entries charts) entries)"
    using assms by (simp add: resolve_def)
  have found: "resolve_entry tp entries charts e = Matched e c By_Sha256" if "owners tp By_Sha256 e charts = [c]"
    using that by (simp add: resolve_entry_def owners_def Let_def)
  have fwd: "e \<in> set entries \<and> owners tp k e charts = [c] \<and> (k \<noteq> By_Sha256 \<longrightarrow> length (owners tp By_Sha256 e charts) \<noteq> 1)"
    if "Matched e c k \<in> resolve_entry tp entries charts ` set entries"
    using that by (auto dest: sym resolve_entry_Matched[OF sym])
  show ?thesis
    unfolding r mapped_matches set_map using fwd found rev_image_eqI[of e "set entries" "Matched e c By_Sha256" "resolve_entry tp entries charts"]
    by fastforce
qed

subsection \<open>The counts add up\<close>

definition of_table :: "string \<Rightarrow> match_outcome \<Rightarrow> bool" where
  "of_table t out \<longleftrightarrow> en_table_id (outcome_entry out) = t"

fun matched_by :: "match_kind \<Rightarrow> match_outcome \<Rightarrow> bool" where
  "matched_by k (Matched e c k') = (k' = k)"
| "matched_by k (Unmatched e r) = False"

fun is_match :: "match_outcome \<Rightarrow> bool" where
  "is_match (Matched e c k) = True"
| "is_match (Unmatched e r) = False"

definition tally :: "string \<Rightarrow> match_outcome list \<Rightarrow> table_summary" where
  "tally t outs =
     (let count = (\<lambda>P. length (filter (\<lambda>out. of_table t out \<and> P out) outs)) in
      \<lparr>sm_table_id = t, sm_total = count (\<lambda>_. True), sm_matched = count is_match, sm_unmatched = 0,
       sm_sha256 = count (matched_by By_Sha256), sm_md5 = count (matched_by By_Md5), sm_title = count (matched_by By_Title)\<rparr>)"

lemma tally_step: "of_table t out \<Longrightarrow> count_outcome (tally t outs) out = tally t (outs @ [out])"
  by (cases out) (auto simp: tally_def Let_def split: match_kind.split)

lemma tally_other: "\<not> of_table t out \<Longrightarrow> tally t (outs @ [out]) = tally t outs"
  by (simp add: tally_def Let_def)

lemma tally_empty: "\<not> list_ex (of_table t) outs \<Longrightarrow> tally t outs = empty_summary t"
  by (simp add: tally_def Let_def empty_summary_def list_ex_iff filter_empty_conv)

lemma map_of_count_step:
  "map_of (count_step counts out) t =
     (if of_table t out then Some (count_outcome (case map_of counts t of None \<Rightarrow> empty_summary t | Some s \<Rightarrow> s) out)
      else map_of counts t)"
  by (auto simp: count_step_def of_table_def update_conv Let_def)

lemma counts_are_tallies:
  "map_of (foldl count_step [] outs) t = (if list_ex (of_table t) outs then Some (tally t outs) else None)"
proof (induction outs rule: rev_induct)
  case (snoc out outs)
  have "(case map_of (foldl count_step [] outs) t of None \<Rightarrow> empty_summary t | Some s \<Rightarrow> s) = tally t outs"
    using snoc tally_empty[of t outs] by simp
  then show ?case using snoc tally_step[of t out outs] tally_other[of t out outs] by (simp add: map_of_count_step)
qed simp

lemma counts_distinct: "distinct (map fst (foldl count_step [] outs))"
  by (induction outs rule: rev_induct) (simp_all add: count_step_def Let_def distinct_update)

definition summary_ok :: "table_entry list \<Rightarrow> match_report \<Rightarrow> table_summary \<Rightarrow> bool" where
  "summary_ok entries r s \<longleftrightarrow>
     sm_total s = length (filter (\<lambda>e. en_table_id e = sm_table_id s) entries) \<and>
     sm_matched s = length (filter (\<lambda>(e, c, k). en_table_id e = sm_table_id s) (mr_matches r)) \<and>
     sm_unmatched s = length (filter (\<lambda>(e, reason). en_table_id e = sm_table_id s) (mr_misses r)) \<and>
     sm_total s = sm_matched s + sm_unmatched s \<and> sm_matched s = sm_sha256 s + sm_md5 s + sm_title s"

lemma outcome_entry_resolve: "outcome_entry (resolve_entry tp entries charts e) = e"
  by (cases "resolve_entry tp entries charts e")
    (auto simp: resolve_entry_def resolve_by_title_def Let_def split: if_splits option.splits list.splits)

lemma report_lists:
  "length (mr_matches (report_of outs)) + length (mr_misses (report_of outs)) = length outs"
  "length (filter (\<lambda>(e, c, k). en_table_id e = t) (mr_matches (report_of outs))) = length (filter (\<lambda>out. of_table t out \<and> is_match out) outs)"
  "length (filter (\<lambda>(e, reason). en_table_id e = t) (mr_misses (report_of outs))) = length (filter (\<lambda>out. of_table t out \<and> \<not> is_match out) outs)"
  by (induction outs) (auto simp: report_of_def List.map_filter_simps of_table_def split: match_outcome.splits)

lemma tally_sums:
  "sm_matched (tally t outs) = sm_sha256 (tally t outs) + sm_md5 (tally t outs) + sm_title (tally t outs)"
  "length (filter (of_table t) outs) = length (filter (\<lambda>out. of_table t out \<and> is_match out) outs)
     + length (filter (\<lambda>out. of_table t out \<and> \<not> is_match out) outs)"
proof -
  show "sm_matched (tally t outs) = sm_sha256 (tally t outs) + sm_md5 (tally t outs) + sm_title (tally t outs)"
  proof (induction outs)
    case (Cons out outs)
    show ?case
    proof (cases out)
      case (Matched e c k)
      then show ?thesis using Cons by (cases k) (simp_all add: tally_def Let_def)
    qed (use Cons in \<open>simp add: tally_def Let_def\<close>)
  qed (simp add: tally_def)
  show "length (filter (of_table t) outs) = length (filter (\<lambda>out. of_table t out \<and> is_match out) outs)
     + length (filter (\<lambda>out. of_table t out \<and> \<not> is_match out) outs)"
    by (induction outs) auto
qed

text \<open>The report accounts for every entry: each is matched or missed once, there is one summary per table in the order of the table
  ids, and its counts are those of its entries, split by the key that matched.\<close>

theorem report_adds_up:
  assumes "py_mapM (entry_of rt) sources = Inr entries" and "resolve rt tp sources charts = Inr r"
  shows "report_total r = length entries \<and> sorted (map sm_table_id (mr_tables r)) \<and> distinct (map sm_table_id (mr_tables r)) \<and>
    set (map sm_table_id (mr_tables r)) = set (map en_table_id entries) \<and> list_all (summary_ok entries r) (mr_tables r)"
proof -
  define outs where "outs = map (resolve_entry tp entries charts) entries"
  define counts where "counts = foldl count_step [] outs"
  have r: "r = report_of outs" using assms by (simp add: resolve_def outs_def)
  have entries: "map outcome_entry outs = entries" by (simp add: outs_def outcome_entry_resolve o_def)
  have keys: "s = tally t outs \<and> list_ex (of_table t) outs" if "(t, s) \<in> set counts" for t s
    using map_of_is_SomeI[OF counts_distinct[of outs]] that counts_are_tallies[of outs t] unfolding counts_def
    by (auto split: if_splits)
  have ids: "map sm_table_id (mr_tables r) = map fst (sort_key fst counts)"
  proof -
    have "sm_table_id s = t" if "(t, s) \<in> set counts" for t s using keys[OF that] by (simp add: tally_def Let_def)
    then show ?thesis by (simp add: r report_of_def summaries_of_def counts_def[symmetric] case_prod_unfold)
  qed
  have mem: "t \<in> fst ` set counts \<longleftrightarrow> list_ex (of_table t) outs" for t
    using counts_are_tallies[of outs t] unfolding counts_def
    by (metis map_of_eq_None_iff option.distinct(1))
  have "set (map sm_table_id (mr_tables r)) = fst ` set counts" unfolding ids by simp
  also have "\<dots> = set (map en_table_id entries)"
  proof (rule set_eqI)
    show "t \<in> fst ` set counts \<longleftrightarrow> t \<in> set (map en_table_id entries)" for t
      unfolding mem list_ex_iff of_table_def entries[symmetric] by auto
  qed
  finally have ids_set: "set (map sm_table_id (mr_tables r)) = set (map en_table_id entries)" .
  have total: "sm_total (tally t outs) = length (filter (\<lambda>e. en_table_id e = t) entries)" for t
    by (simp add: tally_def entries[symmetric] filter_map o_def of_table_def)
  have "summary_ok entries r s" if s: "s \<in> set (mr_tables r)" for s
  proof -
    obtain t s' where "(t, s') \<in> set counts" and s: "s = s'\<lparr>sm_unmatched := sm_total s' - sm_matched s'\<rparr>"
      using s by (auto simp: r report_of_def summaries_of_def counts_def)
    then have s': "s' = tally t outs" using keys by blast
    have t: "sm_table_id s = t" by (simp add: s s' tally_def)
    have "sm_total s' = sm_matched s' + length (filter (\<lambda>out. of_table t out \<and> \<not> is_match out) outs)"
      using tally_sums(2)[of t outs] by (simp add: s' tally_def)
    moreover have "sm_matched s' = length (filter (\<lambda>out. of_table t out \<and> is_match out) outs)" by (simp add: s' tally_def)
    ultimately show ?thesis
      using total[of t] tally_sums(1)[of t outs] unfolding summary_ok_def t r report_lists by (simp add: s s')
  qed
  moreover have "report_total r = length entries" using report_lists(1)[of outs] by (simp add: report_total_def r outs_def)
  moreover have "sorted (map sm_table_id (mr_tables r))" "distinct (map sm_table_id (mr_tables r))"
    using counts_distinct[of outs] unfolding ids counts_def by (simp_all add: distinct_map)
  ultimately show ?thesis using ids_set by (simp add: list_all_iff)
qed

subsection \<open>Witnesses\<close>

definition sample_title_ports :: title_ports where
  "sample_title_ports = \<lparr>ti_nfkc = (\<lambda>s. s), ti_casefold = py_lower\<rparr>"

definition sample_sources :: "entry_source list" where
  "sample_sources = [Entry_Mapping [(''table_id'', PStr ''stella''), (''level'', PInt 3), (''md5'', PStr (replicate 32 (CHR ''a'')))],
     Entry_Mapping [(''table_id'', PStr ''satellite''), (''level'', PInt 7), (''md5'', PStr (replicate 32 (CHR ''b'')))]]"

definition sample_charts :: "row list" where
  "sample_charts = [[(''sha256'', PStr (replicate 64 (CHR ''c''))), (''md5'', PStr (replicate 32 (CHR ''a'')))],
     [(''sha256'', PStr (replicate 64 (CHR ''d''))), (''md5'', PStr (replicate 32 (CHR ''e'')))]]"

lemma resolution_ignores_chart_order_witness:
  "resolve sample_runtime sample_title_ports sample_sources sample_charts
     = resolve sample_runtime sample_title_ports sample_sources (rev sample_charts)"
  by (rule resolution_ignores_chart_order) simp

lemma sample_report:
  obtains entries r where "py_mapM (entry_of sample_runtime) sample_sources = Inr entries"
    and "resolve sample_runtime sample_title_ports sample_sources sample_charts = Inr r"
proof -
  have "\<exists>entries. py_mapM (entry_of sample_runtime) sample_sources = Inr entries" by (simp add: sample_sources_def get_item_def)
  then show ?thesis using that by (auto simp: resolve_def)
qed

lemma matches_are_unique_owners_witness:
  "\<exists>entries r. resolve sample_runtime sample_title_ports sample_sources sample_charts = Inr r \<and>
     (\<forall>e c k. (e, c, k) \<in> set (mr_matches r) \<longrightarrow> owners sample_title_ports k e sample_charts = [c])"
proof -
  obtain entries r where run: "py_mapM (entry_of sample_runtime) sample_sources = Inr entries"
      "resolve sample_runtime sample_title_ports sample_sources sample_charts = Inr r" by (rule sample_report)
  show ?thesis using matches_are_unique_owners[OF run] run(2) by blast
qed

lemma report_adds_up_witness:
  "\<exists>entries r. py_mapM (entry_of sample_runtime) sample_sources = Inr entries \<and>
     resolve sample_runtime sample_title_ports sample_sources sample_charts = Inr r \<and> report_total r = length entries"
proof -
  obtain entries r where run: "py_mapM (entry_of sample_runtime) sample_sources = Inr entries"
      "resolve sample_runtime sample_title_ports sample_sources sample_charts = Inr r" by (rule sample_report)
  show ?thesis using report_adds_up[OF run] run by blast
qed

end
