(* ===== verification/Classification.thy ===== *)
theory Classification
  imports Table_Match Features
begin

text \<open>
  \<open>tables/classification.py\<close> and \<open>db/classification_adapter.py\<close>: composite levels of the pattern tables are parsed into
  a base level and one level per technique scale, a table becomes one validated batch of rows, and a batch replaces the
  rows of its source in the assistant database. Digits are ASCII.
\<close>

subsection \<open>Sources\<close>

record source_spec =
  cx_source_id :: string
  cx_family :: string
  cx_url :: string
  cx_scales :: "string list"

text \<open>The Japanese scale names, as UTF-8.\<close>

definition scale_random :: string where
  "scale_random = [CHR 0xE4, CHR 0xB9, CHR 0xB1, CHR 0xE6, CHR 0x89, CHR 0x93]"
definition scale_heavy :: string where
  "scale_heavy = [CHR 0xE9, CHR 0x87, CHR 0x8D, CHR 0xE7, CHR 0x99, CHR 0xBA, CHR 0xE7, CHR 0x8B, CHR 0x82]"
definition scale_mini_jack :: string where
  "scale_mini_jack = [CHR 0xE5, CHR 0xBE, CHR 0xAE, CHR 0xE7, CHR 0xB8, CHR 0xA6, CHR 0xE9, CHR 0x80, CHR 0xA3]"
definition scale_mixed_jack :: string where
  "scale_mixed_jack = [CHR 0xE9, CHR 0x80, CHR 0xA3, CHR 0xE6, CHR 0x89, CHR 0x93, CHR 0xE8, CHR 0xA4, CHR 0x87,
     CHR 0xE5, CHR 0x90, CHR 0x88]"
definition scale_arm :: string where
  "scale_arm = [CHR 0xE8, CHR 0x85, CHR 0x95]"

definition source_url_of :: "string \<Rightarrow> string" where
  "source_url_of name = ''https://djhemorrhoid.github.io/tables/'' @ name @ ''/header.json''"

definition default_classification_sources :: "source_spec list" where
  "default_classification_sources =
     [\<lparr>cx_source_id = ''slst-code-stream'', cx_family = ''code_stream'', cx_url = source_url_of ''slst-code-stream'',
       cx_scales = [scale_random, scale_heavy]\<rparr>,
      \<lparr>cx_source_id = ''slst-mini-jack'', cx_family = ''mini_jack'', cx_url = source_url_of ''slst-mini-jack'',
       cx_scales = [scale_mini_jack, scale_mixed_jack]\<rparr>,
      \<lparr>cx_source_id = ''slst-arm'', cx_family = ''arm'', cx_url = source_url_of ''slst-arm'', cx_scales = [''Ude'', scale_arm]\<rparr>,
      \<lparr>cx_source_id = ''slst-delay'', cx_family = ''delay'', cx_url = source_url_of ''slst-delay'', cx_scales = [''///'', ''dl'']\<rparr>]"

subsection \<open>Composite levels\<close>

definition digits_value :: "string \<Rightarrow> int" where
  "digits_value s = foldl (\<lambda>a c. 10 * a + digit_of c) 0 s"

definition is_digits :: "string \<Rightarrow> bool" where
  "is_digits s \<longleftrightarrow> s \<noteq> [] \<and> list_all is_digit s"

definition signed_number :: "string \<Rightarrow> int option" where
  "signed_number s =
     (case s of [] \<Rightarrow> None
      | c # cs \<Rightarrow>
          if c = CHR ''-'' then (if is_digits cs then Some (- digits_value cs) else None)
          else if is_digits s then Some (digits_value s) else None)"

text \<open>\<open>^(sl|st)(\d+)$\<close>\<close>

definition base_level :: "string \<Rightarrow> (string \<times> int) option" where
  "base_level s =
     (if (take 2 s = ''sl'' \<or> take 2 s = ''st'') \<and> is_digits (drop 2 s) then Some (take 2 s, digits_value (drop 2 s)) else None)"

text \<open>\<open>^(.+?)(-?\d+)$\<close>: the shortest scale that leaves a number.\<close>

definition scale_level :: "string \<Rightarrow> (string \<times> int) option" where
  "scale_level s =
     (case List.find (\<lambda>k. CHR 0x0A \<notin> set (take k s) \<and> signed_number (drop k s) \<noteq> None) [1..<length s] of
        None \<Rightarrow> None
      | Some k \<Rightarrow> map_option (\<lambda>n. (take k s, n)) (signed_number (drop k s)))"

type_synonym axes = "(string \<times> int) list"

fun parse_axes :: "source_spec \<Rightarrow> string list \<Rightarrow> string list \<Rightarrow> axes py" where
  "parse_axes src seen [] = Inr []"
| "parse_axes src seen (v # vs) =
     (case scale_level v of
        None \<Rightarrow> Inl (ClassificationError ''unsupported classification'')
      | Some (scale, n) \<Rightarrow>
          if scale \<notin> set (cx_scales src) then Inl (ClassificationError ''unsupported classification'')
          else if scale \<in> set seen then Inl (ClassificationError ''repeats scale'')
          else py_bind (parse_axes src (scale # seen) vs) (\<lambda>rest. Inr ((scale, n) # rest)))"

definition parse_classification_level :: "string \<Rightarrow> source_spec \<Rightarrow> (string \<times> int \<times> axes) py" where
  "parse_classification_level raw src =
     (let parts = map py_strip (split_commas raw) in
      py_bind (raise_if (length parts < 2 \<or> [] \<in> set parts) (ClassificationError ''not a composite classification'')) (\<lambda>_.
        case base_level (hd parts) of
          None \<Rightarrow> Inl (ClassificationError ''no supported sl/st base'')
        | Some (scale, n) \<Rightarrow> py_bind (parse_axes src [] (tl parts)) (\<lambda>axes. Inr (scale, n, axes))))"

subsection \<open>Batches\<close>

record classification_entry =
  ck_source_id :: string
  ck_source_key :: string
  ck_sha256 :: "string option"
  ck_md5 :: "string option"
  ck_local_sha256 :: "string option"
  ck_family :: string
  ck_base_scale :: string
  ck_base_level :: int
  ck_scale :: string
  ck_level :: int
  ck_raw_level :: string
  ck_title :: "string option"
  ck_match_status :: string

record classification_batch =
  cb_source :: source_spec
  cb_table :: table_data
  cb_content_digest :: string
  cb_entry_count :: nat
  cb_classification_count :: nat
  cb_matched_count :: nat
  cb_rows :: "classification_entry list"

definition source_key :: "table_entry \<Rightarrow> string py" where
  "source_key e =
     (case (en_sha256 e, en_md5 e) of
        (Some h, _) \<Rightarrow> Inr (''sha256:'' @ h) | (None, Some h) \<Rightarrow> Inr (''md5:'' @ h)
      | (None, None) \<Rightarrow> Inl (ClassificationError ''classification entry has no hash''))"

text \<open>A hash that was given must be the one that was kept.\<close>

definition validate_hash :: "table_entry \<Rightarrow> string \<Rightarrow> string option \<Rightarrow> nat \<Rightarrow> unit py" where
  "validate_hash e name normalized n =
     (let raw = get_item (en_data e) name in
      if raw = PNone \<or> raw = PStr [] then Inr ()
      else case hash_key n raw of
          None \<Rightarrow> Inl (ClassificationError ''invalid hash'')
        | Some h \<Rightarrow> raise_if (normalized \<noteq> Some h) (ClassificationError ''invalid hash''))"

definition content_digest :: "runtime \<Rightarrow> (pyval \<Rightarrow> string) \<Rightarrow> table_data \<Rightarrow> string" where
  "content_digest rt dumps t =
     sha256_hex rt (dumps (PDict [(''header'', PDict (tb_header t)),
       (''entries'', PList (map (\<lambda>e. PDict (en_data e)) (tb_entries t)))]))"

fun kind_name :: "match_kind \<Rightarrow> string" where
  "kind_name By_Sha256 = ''sha256''"
| "kind_name By_Md5 = ''md5''"
| "kind_name By_Title = ''title''"

text \<open>The local chart of an entry and how it was found; the report lists the very entries of the table.\<close>

definition local_chart :: "runtime \<Rightarrow> match_report \<Rightarrow> table_entry \<Rightarrow> (string option \<times> string) py" where
  "local_chart rt r e =
     (case List.find (\<lambda>(e', c, k). e' = e) (mr_matches r) of
        Some (e', c, k) \<Rightarrow> py_bind (str_item rt c ''sha256'') (\<lambda>s. Inr (Some s, kind_name k))
      | None \<Rightarrow> Inr (None, case List.find (\<lambda>(e', reason). e' = e) (mr_misses r) of
            Some (e', reason) \<Rightarrow> reason | None \<Rightarrow> ''not_owned''))"

definition see_hash :: "string option \<Rightarrow> string list \<Rightarrow> string list py" where
  "see_hash h seen =
     (case h of None \<Rightarrow> Inr seen
      | Some v \<Rightarrow> if v \<in> set seen then Inl (ClassificationError ''repeats hash'') else Inr (v # seen))"

definition entry_rows ::
    "source_spec \<Rightarrow> table_entry \<Rightarrow> string option \<times> string \<Rightarrow> string \<times> int \<times> axes \<Rightarrow> string \<Rightarrow> classification_entry list" where
  "entry_rows src e local level key =
     (case level of (base, n, axes) \<Rightarrow>
        map (\<lambda>(scale, m).
          \<lparr>ck_source_id = cx_source_id src, ck_source_key = key, ck_sha256 = en_sha256 e, ck_md5 = en_md5 e,
           ck_local_sha256 = fst local, ck_family = cx_family src, ck_base_scale = base, ck_base_level = n, ck_scale = scale,
           ck_level = m, ck_raw_level = en_level e, ck_title = en_title e, ck_match_status = snd local\<rparr>) axes)"

fun batch_rows ::
    "runtime \<Rightarrow> source_spec \<Rightarrow> match_report \<Rightarrow> string list \<Rightarrow> string list \<Rightarrow> table_entry list \<Rightarrow> classification_entry list py" where
  "batch_rows rt src r seen_sha256 seen_md5 [] = Inr []"
| "batch_rows rt src r seen_sha256 seen_md5 (e # es) =
     py_bind (validate_hash e ''sha256'' (en_sha256 e) 64) (\<lambda>_.
     py_bind (validate_hash e ''md5'' (en_md5 e) 32) (\<lambda>_.
     py_bind (see_hash (en_sha256 e) seen_sha256) (\<lambda>seen_sha256'.
     py_bind (see_hash (en_md5 e) seen_md5) (\<lambda>seen_md5'.
     py_bind (parse_classification_level (en_level e) src) (\<lambda>level.
     py_bind (local_chart rt r e) (\<lambda>local.
     py_bind (source_key e) (\<lambda>key.
     py_bind (batch_rows rt src r seen_sha256' seen_md5' es) (\<lambda>rest.
       Inr (entry_rows src e local level key @ rest)))))))))"

definition build_classification_batch ::
    "runtime \<Rightarrow> title_ports \<Rightarrow> (pyval \<Rightarrow> string) \<Rightarrow> source_spec \<Rightarrow> table_data \<Rightarrow> row list \<Rightarrow> classification_batch py" where
  "build_classification_batch rt tp dumps src t charts =
     py_bind (resolve rt tp (map Table_Entry (tb_entries t)) charts) (\<lambda>r.
     py_bind (py_mapM (\<lambda>(e, c, k). str_item rt c ''sha256'') (mr_matches r)) (\<lambda>_.
     py_bind (batch_rows rt src r [] [] (tb_entries t)) (\<lambda>rows.
       Inr \<lparr>cb_source = src, cb_table = t, cb_content_digest = content_digest rt dumps t, cb_entry_count = length (tb_entries t),
            cb_classification_count = length rows, cb_matched_count = length (mr_matches r), cb_rows = rows\<rparr>)))"

subsection \<open>Round trip of composite levels\<close>

definition render_level :: "string \<Rightarrow> nat \<Rightarrow> axes \<Rightarrow> string" where
  "render_level base n axes = base @ show_nat n @ concat (map (\<lambda>(scale, m). CHR '','' # scale @ show_int m) axes)"

definition scale_ok :: "string \<Rightarrow> bool" where
  "scale_ok s \<longleftrightarrow> s \<noteq> [] \<and> CHR '','' \<notin> set s \<and> CHR 0x0A \<notin> set s \<and> \<not> is_space (hd s) \<and> \<not> is_digit (last s) \<and> last s \<noteq> CHR ''-''"

lemma split_commas_plain: "CHR '','' \<notin> set a \<Longrightarrow> split_commas a = [a]"
  by (induction a) auto

lemma split_commas_append: "CHR '','' \<notin> set a \<Longrightarrow> split_commas (a @ CHR '','' # b) = a # split_commas b"
  by (induction a) auto

lemma split_commas_concat:
  assumes "CHR '','' \<notin> set a" and "\<forall>b\<in>set bs. CHR '','' \<notin> set b"
  shows "split_commas (a @ concat (map (\<lambda>b. CHR '','' # b) bs)) = a # bs"
  using assms
proof (induction bs arbitrary: a)
  case Nil
  then show ?case by (simp add: split_commas_plain)
next
  case (Cons b bs)
  then show ?case using split_commas_append[of a "b @ concat (map (\<lambda>b. CHR '','' # b) bs)"] by simp
qed

lemma show_int_chars: "c \<in> set (show_int m) \<Longrightarrow> is_digit c \<or> c = CHR ''-''"
  by (auto simp: show_int_def show_nat_digits split: if_splits)

lemma is_digit_not_minus: "is_digit c \<Longrightarrow> c \<noteq> CHR ''-'' \<and> c \<noteq> CHR '','' \<and> c \<noteq> CHR 0x0A"
  by (auto simp: is_digit_def less_eq_char_def)

lemma is_digits_show_nat [simp]: "is_digits (show_nat n)"
  by (simp add: is_digits_def list_all_iff show_nat_digits)

lemma digits_value_show_nat [simp]: "digits_value (show_nat n) = int n"
  by (simp add: digits_value_def show_nat_value)

lemma signed_number_show_int: "signed_number (show_int m) = Some m"
proof (cases "m < 0")
  case False
  obtain c cs where c: "show_nat (nat m) = c # cs" by (cases "show_nat (nat m)") auto
  have "c \<noteq> CHR ''-''" using is_digit_not_minus show_nat_digits[of c "nat m"] c by simp
  moreover have "is_digits (c # cs)" "digits_value (c # cs) = m" using c False by (metis is_digits_show_nat, metis digits_value_show_nat int_nat_eq linorder_not_less)
  ultimately show ?thesis using False c by (simp add: show_int_def signed_number_def)
qed (simp add: show_int_def signed_number_def)

lemma signed_number_chars: "signed_number s = Some n \<Longrightarrow> c \<in> set s \<Longrightarrow> is_digit c \<or> c = CHR ''-''"
  by (cases s) (auto simp: signed_number_def is_digits_def list_all_iff split: if_splits)

lemma find_after: "P k \<Longrightarrow> (\<And>x. x \<in> set xs \<Longrightarrow> \<not> P x) \<Longrightarrow> List.find P (xs @ k # ys) = Some k"
  by (induction xs) auto

lemma find_first:
  assumes "P k" and "a \<le> k" and "k < b" and "\<And>j. a \<le> j \<Longrightarrow> j < k \<Longrightarrow> \<not> P j"
  shows "List.find P [a..<b] = Some k"
proof -
  have "[a..<b] = [a..<k] @ [k..<b]" using assms(2,3) upt_add_eq_append[of a k "b - k"] by simp
  then have "[a..<b] = [a..<k] @ k # [Suc k..<b]" using assms(3) by (simp add: upt_conv_Cons)
  moreover have "List.find P ([a..<k] @ k # [Suc k..<b]) = Some k" using assms(1,4) by (intro find_after) auto
  ultimately show ?thesis by simp
qed

lemma scale_level_rendered:
  assumes "scale_ok s"
  shows "scale_level (s @ show_int m) = Some (s, m)"
proof -
  let ?v = "s @ show_int m"
  have "show_int m \<noteq> []" by (simp add: show_int_def)
  then have len: "length s < length ?v" by simp
  have none: "signed_number (drop k ?v) = None" if k: "k < length s" for k
  proof -
    have "last (drop k s) = last s" "drop k s \<noteq> []" using k by (simp_all add: last_drop)
    then have "last s \<in> set (drop k ?v)" using last_in_set[of "drop k s"] by simp
    then have "signed_number (drop k ?v) \<noteq> Some n" for n
      using assms signed_number_chars[of "drop k ?v" n "last s"] by (auto simp only: scale_ok_def)
    then show ?thesis using not_None_eq by blast
  qed
  have first: "take (length s) ?v = s" "drop (length s) ?v = show_int m" by simp_all
  have "List.find (\<lambda>k. CHR 0x0A \<notin> set (take k ?v) \<and> signed_number (drop k ?v) \<noteq> None) [1..<length ?v] = Some (length s)"
  proof (rule find_first)
    show "CHR 0x0A \<notin> set (take (length s) ?v) \<and> signed_number (drop (length s) ?v) \<noteq> None"
      unfolding first signed_number_show_int using assms by (simp add: scale_ok_def)
    have "s \<noteq> []" using assms by (simp add: scale_ok_def)
    then show "1 \<le> length s" by (cases s) simp_all
    show "length s < length ?v" by (rule len)
    show "\<not> (CHR 0x0A \<notin> set (take j ?v) \<and> signed_number (drop j ?v) \<noteq> None)" if "j < length s" for j
      using none[OF that] by (simp only: simp_thms not_True_eq_False)
  qed
  then show ?thesis unfolding scale_level_def by (simp only: option.case first signed_number_show_int option.map)
qed

lemma parse_axes_rendered:
  assumes "\<forall>(scale, m)\<in>set axes. scale \<in> set (cx_scales src) \<and> scale_ok scale" and "distinct (map fst axes)"
    and "set seen \<inter> fst ` set axes = {}"
  shows "parse_axes src seen (map (\<lambda>(scale, m). scale @ show_int m) axes) = Inr axes"
  using assms by (induction axes arbitrary: seen) (auto simp: scale_level_rendered)

lemma show_int_ends: "\<not> is_space (last (show_int m))" "show_int m \<noteq> []"
  using is_digit_not_space[OF show_nat_ends(2)] by (simp_all add: show_int_def)

lemma py_strip_axis: "scale_ok scale \<Longrightarrow> py_strip (scale @ show_int m) = scale @ show_int m"
  by (rule py_strip_id) (simp_all add: scale_ok_def show_int_ends)

definition level_ok :: "source_spec \<Rightarrow> string \<Rightarrow> axes \<Rightarrow> bool" where
  "level_ok src base axes \<longleftrightarrow> (base = ''sl'' \<or> base = ''st'') \<and> axes \<noteq> [] \<and> distinct (map fst axes) \<and>
     list_all (\<lambda>(scale, m). scale \<in> set (cx_scales src) \<and> scale_ok scale) axes"

text \<open>A composite level survives its text: a base level and distinct scales of the source, written as the tables write them, are parsed
  to the same base, level and scales in the same order, also for negative levels.\<close>

theorem composite_level_round_trip:
  assumes "level_ok src base axes"
  shows "parse_classification_level (render_level base n axes) src = Inr (base, int n, axes)"
proof -
  let ?parts = "map (\<lambda>(scale, m). scale @ show_int m) axes"
  have base: "base = ''sl'' \<or> base = ''st''" and axes: "\<forall>(scale, m)\<in>set axes. scale \<in> set (cx_scales src) \<and> scale_ok scale"
    and ne: "axes \<noteq> []" and distinct: "distinct (map fst axes)"
    using assms by (auto simp: level_ok_def list_all_iff)
  have comma: "CHR '','' \<notin> set (show_int m)" for m using show_int_chars is_digit_not_minus by fastforce
  have plain: "CHR '','' \<notin> set (base @ show_nat n)" using base show_nat_digits is_digit_not_minus by auto
  have "render_level base n axes = (base @ show_nat n) @ concat (map (\<lambda>b. CHR '','' # b) ?parts)"
    by (simp add: render_level_def o_def case_prod_unfold)
  moreover have "\<forall>b\<in>set ?parts. CHR '','' \<notin> set b" using axes comma by (auto simp: scale_ok_def)
  ultimately have split: "split_commas (render_level base n axes) = (base @ show_nat n) # ?parts"
    using split_commas_concat[OF plain] by (simp only:)
  have "py_strip (base @ show_nat n) = base @ show_nat n"
    using base is_digit_not_space[OF show_nat_ends(2)] by (intro py_strip_id) (auto simp: is_space_def)
  moreover have "map py_strip ?parts = ?parts" using axes py_strip_axis by (auto intro!: map_idI)
  ultimately have parts: "map py_strip (split_commas (render_level base n axes)) = (base @ show_nat n) # ?parts"
    unfolding split by simp
  have "[] \<notin> set ((base @ show_nat n) # ?parts)" using show_int_ends(2) by auto
  moreover have "base_level (base @ show_nat n) = Some (base, int n)" using base by (auto simp: base_level_def)
  moreover have "\<not> length ((base @ show_nat n) # ?parts) < 2" using ne by (cases axes) simp_all
  ultimately show ?thesis
    using parse_axes_rendered[OF axes distinct, of "[]"] unfolding parse_classification_level_def parts Let_def by simp
qed

lemma composite_level_round_trip_witness:
  "parse_classification_level (render_level ''sl'' 7 [(''///'', -3), (''dl'', 12)]) (default_classification_sources ! 3)
     = Inr (''sl'', 7, [(''///'', -3), (''dl'', 12)])"
  by (subst composite_level_round_trip)
    (simp_all add: level_ok_def default_classification_sources_def scale_ok_def is_space_def is_digit_def less_eq_char_def)

subsection \<open>Rows of a batch\<close>

definition row_key :: "classification_entry \<Rightarrow> string \<times> string \<times> string" where
  "row_key r = (ck_source_id r, ck_source_key r, ck_scale r)"

lemma parse_axes_scales:
  "parse_axes src seen vs = Inr axes \<Longrightarrow> distinct (map fst axes) \<and> set seen \<inter> fst ` set axes = {} \<and> fst ` set axes \<subseteq> set (cx_scales src)"
proof (induction vs arbitrary: seen axes)
  case (Cons v vs)
  obtain scale n where v: "scale_level v = Some (scale, n)" using Cons.prems by (cases "scale_level v") auto
  then obtain rest where "scale \<in> set (cx_scales src)" "scale \<notin> set seen" "parse_axes src (scale # seen) vs = Inr rest"
      "axes = (scale, n) # rest"
    using Cons.prems by (auto simp: py_bind_Inr_iff split: if_splits)
  then show ?case using Cons.IH[of "scale # seen" rest] by auto
qed simp

lemma parse_level_scales:
  assumes "parse_classification_level raw src = Inr (base, n, axes)"
  shows "distinct (map fst axes) \<and> fst ` set axes \<subseteq> set (cx_scales src)"
proof -
  obtain vs where "parse_axes src [] vs = Inr axes"
    using assms by (auto simp: parse_classification_level_def Let_def py_bind_Inr_iff split: option.splits)
  then show ?thesis using parse_axes_scales by blast
qed

lemma entry_rows_keys:
  assumes "parse_classification_level raw src = Inr level"
  shows "distinct (map row_key (entry_rows src e local level key))"
proof -
  obtain base n axes where level: "level = (base, n, axes)" by (metis prod.exhaust)
  have "map row_key (entry_rows src e local level key) = map (\<lambda>scale. (cx_source_id src, key, scale)) (map fst axes)"
    by (simp add: level entry_rows_def row_key_def case_prod_unfold)
  moreover have "distinct (map fst axes)" using parse_level_scales assms level by blast
  ultimately show ?thesis by (simp only: distinct_map inj_on_def) simp
qed

text \<open>The source keys that are still free after some hashes were seen.\<close>

definition key_free :: "string list \<Rightarrow> string list \<Rightarrow> string \<Rightarrow> bool" where
  "key_free shas md5s key \<longleftrightarrow> (\<forall>h\<in>set shas. key \<noteq> ''sha256:'' @ h) \<and> (\<forall>h\<in>set md5s. key \<noteq> ''md5:'' @ h)"

lemma batch_rows_keys:
  assumes "batch_rows rt src r shas md5s es = Inr rows"
  shows "distinct (map row_key rows) \<and> (\<forall>x\<in>set rows. key_free shas md5s (ck_source_key x) \<and> ck_source_id x = cx_source_id src)"
  using assms
proof (induction es arbitrary: shas md5s rows)
  case (Cons e es)
  obtain shas' md5s' level local key rest where e: "see_hash (en_sha256 e) shas = Inr shas'" "see_hash (en_md5 e) md5s = Inr md5s'"
      "parse_classification_level (en_level e) src = Inr level" "source_key e = Inr key"
      "batch_rows rt src r shas' md5s' es = Inr rest" "rows = entry_rows src e local level key @ rest"
    using Cons.prems by (auto simp: py_bind_Inr_iff)
  note IH = Cons.IH[OF e(5)]
  have keys: "ck_source_key x = key \<and> ck_source_id x = cx_source_id src" if "x \<in> set (entry_rows src e local level key)" for x
    using that by (cases level) (auto simp: entry_rows_def)
  have free: "key_free shas md5s key" "\<not> key_free shas' md5s' key" "\<And>k. key_free shas' md5s' k \<Longrightarrow> key_free shas md5s k"
    using e(1,2,4) by (auto simp: key_free_def see_hash_def source_key_def split: option.splits if_splits)
  have "row_key x \<noteq> row_key y" if "x \<in> set (entry_rows src e local level key)" "y \<in> set rest" for x y
    using keys[OF that(1)] IH that(2) free(2) by (auto simp: row_key_def)
  then have "row_key ` set (entry_rows src e local level key) \<inter> row_key ` set rest = {}" by blast
  then have "distinct (map row_key rows)" using entry_rows_keys[OF e(3)] IH unfolding e(6) by simp
  moreover have "key_free shas md5s (ck_source_key x) \<and> ck_source_id x = cx_source_id src" if "x \<in> set rows" for x
    using that keys IH free(1,3) unfolding e(6) by auto
  ultimately show ?case by blast
qed simp

text \<open>No two rows of a batch have the same source, source key and scale, and every row belongs to the batch's source: inserting a batch
  never meets the primary key of the table.\<close>

theorem batch_rows_are_unique:
  assumes "build_classification_batch rt tp dumps src t charts = Inr b"
  shows "distinct (map row_key (cb_rows b)) \<and> list_all (\<lambda>x. ck_source_id x = cx_source_id src) (cb_rows b) \<and>
    cb_entry_count b = length (tb_entries t) \<and> cb_classification_count b = length (cb_rows b)"
  using assms batch_rows_keys by (fastforce simp: build_classification_batch_def py_bind_Inr_iff list_all_iff)

definition sample_pattern_table :: table_data where
  "sample_pattern_table = sample_table\<lparr>tb_entries :=
     [\<lparr>en_table_id = ''slst-delay'', en_level = ''sl3, dl12'', en_sha256 = None, en_md5 = Some ''a'',
       en_title = None, en_data = []\<rparr>]\<rparr>"

lemma batch_rows_are_unique_witness:
  "\<exists>b. build_classification_batch sample_runtime sample_title_ports (\<lambda>v. []) (default_classification_sources ! 3)
       sample_pattern_table [] = Inr b \<and> distinct (map row_key (cb_rows b)) \<and> length (cb_rows b) = 1"
proof -
  let ?run = "build_classification_batch sample_runtime sample_title_ports (\<lambda>v. []) (default_classification_sources ! 3)
       sample_pattern_table []"
  have "(case ?run of Inl e \<Rightarrow> False | Inr b \<Rightarrow> length (cb_rows b) = 1)" by code_simp
  then obtain b where b: "?run = Inr b" "length (cb_rows b) = 1" by (cases ?run) auto
  show ?thesis using batch_rows_are_unique[OF b(1)] b by blast
qed

end
