(* ===== verification/Formats.thy ===== *)
theory Formats
  imports Canonical "HOL-Library.Multiset"
begin

text \<open>
  The text formats the code checks with regular expressions, and the compact JSON of \<open>canonical_json\<close>
  (\<open>container/manifest.py\<close>): members sorted by name, no spaces, non-ASCII characters as they are. Every pattern is used with
  \<open>fullmatch\<close> unless it says otherwise; digits are ASCII.
\<close>

text \<open>Characters of a UTF-8 text: bytes that do not continue one.\<close>

definition utf8_length :: "string \<Rightarrow> nat" where
  "utf8_length s = length (filter (\<lambda>c. \<not> (128 \<le> (of_char c :: nat) \<and> of_char c < (192 :: nat))) s)"

definition is_alnum :: "char \<Rightarrow> bool" where
  "is_alnum c \<longleftrightarrow> is_digit c \<or> (CHR ''a'' \<le> lower_char c \<and> lower_char c \<le> CHR ''z'')"

subsection \<open>Patterns\<close>

definition is_sha256 :: "string \<Rightarrow> bool" where
  "is_sha256 s \<longleftrightarrow> length s = 64 \<and> list_all is_hex_lower s"

definition is_md5 :: "string \<Rightarrow> bool" where
  "is_md5 s \<longleftrightarrow> length s = 32 \<and> list_all is_hex_lower s"

definition uuid_char :: "nat \<Rightarrow> char \<Rightarrow> bool" where
  "uuid_char i c \<longleftrightarrow>
     (if i \<in> {8, 13, 18, 23} then c = CHR ''-''
      else if i = 14 then c = CHR ''7''
      else if i = 19 then c \<in> set ''89ab''
      else is_hex_lower c)"

definition is_uuid7 :: "string \<Rightarrow> bool" where
  "is_uuid7 s \<longleftrightarrow> length s = 36 \<and> list_all (\<lambda>(i, c). uuid_char i c) (zip [0..<36] s)"

definition is_idempotency_key :: "string \<Rightarrow> bool" where
  "is_idempotency_key s \<longleftrightarrow> (case s of [] \<Rightarrow> False | c # cs \<Rightarrow> is_alnum c \<and> length cs \<le> 127 \<and> list_all (\<lambda>d. is_alnum d \<or> d \<in> set ''._:-'') cs)"

fun split_slash :: "string \<Rightarrow> string list" where
  "split_slash [] = [[]]"
| "split_slash (c # cs) =
     (if c = CHR ''/'' then [] # split_slash cs else case split_slash cs of t # ts \<Rightarrow> (c # t) # ts | [] \<Rightarrow> [[c]])"

text \<open>The look-ahead refuses a path with a parent segment.\<close>

definition is_object_key :: "string \<Rightarrow> bool" where
  "is_object_key s \<longleftrightarrow>
     (case s of [] \<Rightarrow> False | c # cs \<Rightarrow> is_alnum c \<and> length cs \<le> 511 \<and> list_all (\<lambda>d. is_alnum d \<or> d \<in> set ''._/-'') cs) \<and>
     ''..'' \<notin> set (split_slash s)"

definition is_key_ref :: "string \<Rightarrow> bool" where
  "is_key_ref s \<longleftrightarrow> 1 \<le> length s \<and> length s \<le> 128 \<and> list_all (\<lambda>d. is_alnum d \<or> d \<in> set ''._:/-'') s"

text \<open>\<open>^\d{4}-\d{2}-\d{2}T\<close> with \<open>match\<close>: a prefix.\<close>

definition has_date_prefix :: "string \<Rightarrow> bool" where
  "has_date_prefix s \<longleftrightarrow> 11 \<le> length s \<and>
     list_all (\<lambda>(i, c). if i \<in> {4, 7} then c = CHR ''-'' else if i = 10 then c = CHR ''T'' else is_digit c) (zip [0..<11] s)"

subsection \<open>Canonical JSON\<close>

fun finite_value :: "pyval \<Rightarrow> bool" where
  "finite_value (PFloat (Fin x)) = True"
| "finite_value (PFloat f) = False"
| "finite_value (PList vs) = list_all finite_value vs"
| "finite_value (PDict d) = list_all (\<lambda>kv. finite_value (snd kv)) d"
| "finite_value v = True"

fun renderable :: "pyval \<Rightarrow> bool" where
  "renderable (PBytes b) = False"
| "renderable (PList vs) = list_all renderable vs"
| "renderable (PDict d) = list_all (\<lambda>kv. renderable (snd kv)) d"
| "renderable v = True"

text \<open>The text of a float is \<open>float.__repr__\<close>, a field of the runtime.\<close>

fun compact_json :: "runtime \<Rightarrow> pyval \<Rightarrow> string" where
  "compact_json rt PNone = ''null''"
| "compact_json rt (PBool b) = (if b then ''true'' else ''false'')"
| "compact_json rt (PInt i) = show_int i"
| "compact_json rt (PFloat f) = repr rt (PFloat f)"
| "compact_json rt (PBytes b) = []"
| "compact_json rt (PStr s) = json_string s"
| "compact_json rt (PList vs) = CHR ''['' # join_commas (map (compact_json rt) vs) @ '']''"
| "compact_json rt (PDict d) =
     CHR ''{'' # join_commas (map (\<lambda>(k, t). json_string k @ CHR '':'' # t)
       (sort_key fst (map (\<lambda>kv. (fst kv, compact_json rt (snd kv))) d))) @ ''}''"

definition canonical_json :: "runtime \<Rightarrow> pyval \<Rightarrow> string py" where
  "canonical_json rt v =
     (if \<not> finite_value v then Inl (ManifestError ''manifest contains a non-finite number'' ''invalid_contract'')
      else if \<not> renderable v then Inl (ManifestError ''manifest is not canonicalizable'' ''invalid_contract'')
      else Inr (compact_json rt v))"

text \<open>The order in which the members of an object were given does not matter.\<close>

lemma compact_json_members:
  assumes "mset d = mset d'" and "distinct (map fst d)"
  shows "compact_json rt (PDict d) = compact_json rt (PDict d')"
proof -
  let ?f = "\<lambda>kv. (fst kv, compact_json rt (snd kv))"
  have keys: "distinct (map fst (map ?f d))" using assms(2) by (simp add: o_def)
  have same: "mset (map ?f d) = mset (map ?f d')" by (simp only: mset_map assms(1))
  have "mset (map fst (map ?f d)) = mset (map fst (map ?f d'))" by (simp only: mset_map assms(1))
  then have keys': "distinct (map fst (map ?f d'))" using keys mset_eq_imp_distinct_iff by blast
  have sets: "set (map ?f d) = set (map ?f d')" using same by (rule mset_eq_setD)
  have "sort_key fst (map ?f d) = sort_key fst (map ?f d')"
  proof (rule map_sorted_distinct_set_unique[of fst])
    show "inj_on fst (set (sort_key fst (map ?f d)) \<union> set (sort_key fst (map ?f d')))"
      using keys sets by (simp only: set_sort distinct_map Un_absorb)
    show "distinct (map fst (sort_key fst (map ?f d)))" "distinct (map fst (sort_key fst (map ?f d')))"
      using keys keys' by (simp_all only: distinct_map set_sort distinct_sort)
    show "set (sort_key fst (map ?f d)) = set (sort_key fst (map ?f d'))" by (simp only: set_sort sets)
  qed (rule sorted_sort_key)+
  then show ?thesis by simp
qed

end
