(* ===== verification/Table_Refresh.thy ===== *)
theory Table_Refresh
  imports Classification Store Formats
begin

text \<open>
  Refreshing the difficulty tables and the classification sources: the handlers \<open>_refresh_tables\<close> and \<open>_refresh_classifications\<close>
  of \<open>cli.py\<close> with the adapter \<open>db/classification_adapter.py\<close>. Every source is fetched, validated and stored in a transaction
  of its own; a source that fails is recorded with its error. The columns of \<open>table_sources\<close> no query reads are left out.
\<close>

subsection \<open>Tables of the assistant database\<close>

record class_source_row =
  so_family :: string
  so_page_url :: string
  so_header_url :: "string option"
  so_data_url :: "string option"
  so_content_digest :: "string option"
  so_fetched_at :: "int option"
  so_stale :: bool
  so_entry_count :: "nat option"
  so_classification_count :: "nat option"
  so_matched_count :: "nat option"
  so_last_error :: "string option"

record table_entry_row =
  tr_table_id :: string
  tr_level :: string
  tr_sha256 :: string
  tr_md5 :: pyval
  tr_title :: pyval
  tr_fetched_at :: int

record table_source_row =
  ts_page_url :: string
  ts_header_url :: "string option"
  ts_data_url :: "string option"
  ts_fetched_at :: "int option"
  ts_last_error :: "string option"
  ts_entry_count :: "nat option"
  ts_matched_count :: "nat option"

record catalog_db =
  ca_charts :: "(string \<times> chart_row) list"
  ca_class_sources :: "(string \<times> class_source_row) list"
  ca_classifications :: "classification_entry list"
  ca_table_entries :: "table_entry_row list"
  ca_table_sources :: "(string \<times> table_source_row) list"

text \<open>\<open>with conn:\<close> commits, or rolls back and raises.\<close>

definition transaction :: "('s \<Rightarrow> 's py) \<Rightarrow> 's \<Rightarrow> unit py \<times> 's" where
  "transaction f db = (case f db of Inl e \<Rightarrow> (Inl e, db) | Inr db' \<Rightarrow> (Inr (), db'))"

subsection \<open>Classification adapter\<close>

definition insert_classification :: "catalog_db \<Rightarrow> classification_entry \<Rightarrow> catalog_db py" where
  "insert_classification db r =
     (if row_key r \<in> set (map row_key (ca_classifications db)) then Inl (SqliteError ''UNIQUE constraint failed'')
      else if ck_sha256 r = None \<and> ck_md5 r = None \<or> 80 < utf8_length (ck_source_key r) \<or> 128 < utf8_length (ck_raw_level r)
      then Inl (SqliteError ''CHECK constraint failed'')
      else if ck_source_id r \<notin> set (map fst (ca_class_sources db)) \<or>
              (case ck_local_sha256 r of None \<Rightarrow> False | Some h \<Rightarrow> h \<notin> set (map fst (ca_charts db)))
      then Inl (SqliteError ''FOREIGN KEY constraint failed'')
      else Inr (db\<lparr>ca_classifications := ca_classifications db @ [r]\<rparr>))"

definition stale_note :: "bool \<Rightarrow> string option" where
  "stale_note stale = (if stale then Some ''stale cache used after refresh failure'' else None)"

definition replace_classification_source :: "classification_batch \<Rightarrow> catalog_db \<Rightarrow> catalog_db py" where
  "replace_classification_source b db =
     (let t = cb_table b; s = cb_source b; id = cx_source_id s in
      if utf8_length (cb_content_digest b) \<noteq> 64 then Inl (SqliteError ''CHECK constraint failed'')
      else
        let source = \<lparr>so_family = cx_family s, so_page_url = cx_url s, so_header_url = Some (tb_header_url t),
              so_data_url = Some (tb_data_url t), so_content_digest = Some (cb_content_digest b),
              so_fetched_at = Some (tb_fetched_at t), so_stale = tb_stale t, so_entry_count = Some (cb_entry_count b),
              so_classification_count = Some (cb_classification_count b), so_matched_count = Some (cb_matched_count b),
              so_last_error = stale_note (tb_stale t)\<rparr>
        in py_for insert_classification
             (db\<lparr>ca_class_sources := AList.update id source (ca_class_sources db),
                 ca_classifications := filter (\<lambda>r. ck_source_id r \<noteq> id) (ca_classifications db)\<rparr>)
             (cb_rows b))"

definition record_classification_error :: "source_spec \<Rightarrow> string \<Rightarrow> catalog_db \<Rightarrow> catalog_db" where
  "record_classification_error s err db =
     (let row = (case map_of (ca_class_sources db) (cx_source_id s) of
          None \<Rightarrow> \<lparr>so_family = cx_family s, so_page_url = cx_url s, so_header_url = None, so_data_url = None,
            so_content_digest = None, so_fetched_at = None, so_stale = True, so_entry_count = None,
            so_classification_count = None, so_matched_count = None, so_last_error = Some err\<rparr>
        | Some old \<Rightarrow> old\<lparr>so_family := cx_family s, so_page_url := cx_url s, so_stale := True, so_last_error := Some err\<rparr>)
      in db\<lparr>ca_class_sources := AList.update (cx_source_id s) row (ca_class_sources db)\<rparr>)"

text \<open>The classifications of the owned charts, or of some of them; rows that tie in the order stay in insertion order.\<close>

definition load_chart_classifications :: "catalog_db \<Rightarrow> string list option \<Rightarrow> classification_entry list" where
  "load_chart_classifications db wanted =
     sort_key (\<lambda>r. (the (ck_local_sha256 r), ck_family r, ck_scale r, ck_source_id r))
       (filter (\<lambda>r. case ck_local_sha256 r of None \<Rightarrow> False
          | Some h \<Rightarrow> (case wanted of None \<Rightarrow> True | Some hs \<Rightarrow> h \<in> set hs)) (ca_classifications db))"

subsection \<open>Refreshing sources one by one\<close>

text \<open>What the handlers are called with: the runtime, the network and the cache, the two renderings, and the text of an exception.\<close>

record 'w refresh_env =
  re_runtime :: runtime
  re_ports :: "'w table_ports"
  re_titles :: title_ports
  re_dumps :: "pyval \<Rightarrow> string"
  re_describe :: "py_exn \<Rightarrow> string"

type_synonym 'w refresh_state = "'w fetch_state \<times> catalog_db"

fun refresh_all ::
    "('src \<Rightarrow> 's \<Rightarrow> (py_exn + 'r) \<times> 's) \<Rightarrow> 'src list \<Rightarrow> 's \<Rightarrow> ('src \<times> 'r) list \<times> ('src \<times> py_exn) list \<times> 's" where
  "refresh_all step [] s = ([], [], s)"
| "refresh_all step (src # srcs) s =
     (case step src s of
        (Inr r, s') \<Rightarrow> (case refresh_all step srcs s' of (done_list, failed, t) \<Rightarrow> ((src, r) # done_list, failed, t))
      | (Inl e, s') \<Rightarrow> (case refresh_all step srcs s' of (done_list, failed, t) \<Rightarrow> (done_list, (src, e) # failed, t)))"

text \<open>A run in which no source was refreshed raises.\<close>

definition raise_if_none :: "string \<Rightarrow> 'a list \<times> 'b list \<times> 's \<Rightarrow> ('a list \<times> 'b list) py \<times> 's" where
  "raise_if_none message run =
     (case run of (ok, failed, t) \<Rightarrow> (if ok = [] then Inl (RuntimeError message) else Inr (ok, failed), t))"

definition chart_mapping :: "string \<times> chart_row \<Rightarrow> row" where
  "chart_mapping kc =
     (case kc of (sha256, c) \<Rightarrow>
        [(''sha256'', PStr sha256), (''md5'', cr_md5 c), (''title'', cr_title c), (''artist'', cr_artist c), (''notes'', cr_notes c),
         (''song_mode'', cr_song_mode c), (''path'', case cr_path c of None \<Rightarrow> PNone | Some p \<Rightarrow> PStr p),
         (''updated_at'', PInt (cr_updated_at c))])"

subsection \<open>Classifications\<close>

record class_summary =
  us_source_id :: string
  us_family :: string
  us_entries :: nat
  us_classifications :: nat
  us_matched :: nat
  us_match_rate :: real
  us_content_digest :: string
  us_stale :: bool

definition class_summary_of :: "source_spec \<Rightarrow> table_data \<Rightarrow> classification_batch \<Rightarrow> class_summary" where
  "class_summary_of src t b =
     \<lparr>us_source_id = cx_source_id src, us_family = cx_family src, us_entries = cb_entry_count b,
      us_classifications = cb_classification_count b, us_matched = cb_matched_count b,
      us_match_rate = (if cb_entry_count b = 0 then 0 else real (cb_matched_count b) / real (cb_entry_count b)),
      us_content_digest = cb_content_digest b, us_stale = tb_stale t\<rparr>"

definition classification_of_table ::
    "'w refresh_env \<Rightarrow> row list \<Rightarrow> source_spec \<Rightarrow> table_data \<Rightarrow> catalog_db \<Rightarrow> class_summary py \<times> catalog_db" where
  "classification_of_table env charts src t db =
     (case build_classification_batch (re_runtime env) (re_titles env) (re_dumps env) src t charts of
        Inl e \<Rightarrow> (Inl e, db)
      | Inr b \<Rightarrow> (case transaction (replace_classification_source b) db of
            (Inl e, db') \<Rightarrow> (Inl e, db') | (Inr u, db') \<Rightarrow> (Inr (class_summary_of src t b), db')))"

definition refresh_classification ::
    "'w refresh_env \<Rightarrow> row list \<Rightarrow> source_spec \<Rightarrow> 'w refresh_state \<Rightarrow> class_summary py \<times> 'w refresh_state" where
  "refresh_classification env charts src s =
     (let failed = (\<lambda>e net db. (Inl e, (net, record_classification_error src (re_describe env e) db))) in
      case fetch_table (re_runtime env) (re_ports env) (cx_source_id src) (cx_url src) True (fst s) of
        (Inl e, net) \<Rightarrow> failed e net (snd s)
      | (Inr t, net) \<Rightarrow>
          (case classification_of_table env charts src t (snd s) of
             (Inl e, db) \<Rightarrow> failed e net db | (Inr r, db) \<Rightarrow> (Inr r, (net, db))))"

definition refresh_classifications ::
    "'w refresh_env \<Rightarrow> source_spec list \<Rightarrow> 'w refresh_state \<Rightarrow>
       ((source_spec \<times> class_summary) list \<times> (source_spec \<times> py_exn) list) py \<times> 'w refresh_state" where
  "refresh_classifications env specs s =
     (let charts = map chart_mapping (ca_charts (snd s)) in
      if charts = [] then (Inl (RuntimeError ''assistant DB has no charts''), s)
      else raise_if_none ''no classification source refreshed'' (refresh_all (refresh_classification env charts) specs s))"

text \<open>\<open>value.partition('=')\<close> with both halves stripped.\<close>

definition partition_spec :: "string \<Rightarrow> (string \<times> string) option" where
  "partition_spec v =
     (let ident = py_strip (takeWhile (\<lambda>c. c \<noteq> CHR ''='') v); url = py_strip (tl (dropWhile (\<lambda>c. c \<noteq> CHR ''='') v)) in
      if CHR ''='' \<notin> set v \<or> ident = [] \<or> url = [] then None else Some (ident, url))"

fun classification_specs :: "string list \<Rightarrow> string list \<Rightarrow> source_spec list py" where
  "classification_specs seen [] = Inr []"
| "classification_specs seen (v # vs) =
     (case partition_spec v of
        None \<Rightarrow> Inl (ValueError ''invalid --source'')
      | Some (ident, url) \<Rightarrow>
          (case List.find (\<lambda>s. cx_source_id s = ident) default_classification_sources of
             None \<Rightarrow> Inl (ValueError ''unsupported classification source'')
           | Some original \<Rightarrow>
               if ident \<in> set seen then Inl (ValueError ''duplicate classification source'')
               else py_bind (classification_specs (ident # seen) vs) (\<lambda>rest. Inr (original\<lparr>cx_url := url\<rparr> # rest))))"

definition classification_specs_of :: "string list \<Rightarrow> source_spec list py" where
  "classification_specs_of vs = (if vs = [] then Inr default_classification_sources else classification_specs [] vs)"

subsection \<open>Difficulty tables\<close>

definition default_tables :: "(string \<times> string) list" where
  "default_tables =
     [(''genocide'', ''https://nekokan.dyndns.info/~lobsak/genocide/insane.html''), (''overjoy'', ''https://lr2.sakura.ne.jp/data/header.json''),
      (''satellite'', ''https://stellabms.xyz/sl/table.html''), (''stella'', ''https://stellabms.xyz/st/table.html'')]"

definition table_specs :: "string list \<Rightarrow> (string \<times> string) list py" where
  "table_specs vs =
     (if vs = [] then Inr default_tables
      else py_mapM (\<lambda>v. case partition_spec v of None \<Rightarrow> Inl (ValueError ''invalid --table'') | Some p \<Rightarrow> Inr p) vs)"

text \<open>The unique index on table, level and chart.\<close>

definition insert_table_entry :: "catalog_db \<Rightarrow> table_entry_row \<Rightarrow> catalog_db py" where
  "insert_table_entry db r =
     (if list_ex (\<lambda>x. tr_table_id x = tr_table_id r \<and> tr_level x = tr_level r \<and> tr_sha256 x = tr_sha256 r) (ca_table_entries db)
      then Inl (SqliteError ''UNIQUE constraint failed'')
      else Inr (db\<lparr>ca_table_entries := ca_table_entries db @ [r]\<rparr>))"

definition table_entry_row_of ::
    "runtime \<Rightarrow> string \<Rightarrow> table_data \<Rightarrow> table_entry \<times> row \<times> match_kind \<Rightarrow> table_entry_row py" where
  "table_entry_row_of rt table_id t m =
     (case m of (e, c, k) \<Rightarrow>
        py_bind (str_item rt c ''sha256'') (\<lambda>sha256.
          Inr \<lparr>tr_table_id = table_id, tr_level = en_level e, tr_sha256 = sha256, tr_md5 = get_item c ''md5'',
               tr_title = (case en_title e of Some (x # xs) \<Rightarrow> PStr (x # xs) | _ \<Rightarrow> get_item c ''title''),
               tr_fetched_at = tb_fetched_at t\<rparr>))"

definition store_table :: "runtime \<Rightarrow> string \<Rightarrow> string \<Rightarrow> table_data \<Rightarrow> match_report \<Rightarrow> catalog_db \<Rightarrow> catalog_db py" where
  "store_table rt table_id url t r db =
     py_bind (py_for (\<lambda>db m. py_bind (table_entry_row_of rt table_id t m) (insert_table_entry db))
       (db\<lparr>ca_table_entries := filter (\<lambda>x. tr_table_id x \<noteq> table_id) (ca_table_entries db)\<rparr>) (mr_matches r)) (\<lambda>db'.
     Inr (db'\<lparr>ca_table_sources := AList.update table_id
       \<lparr>ts_page_url = url, ts_header_url = Some (tb_header_url t), ts_data_url = Some (tb_data_url t),
        ts_fetched_at = Some (tb_fetched_at t), ts_last_error = stale_note (tb_stale t), ts_entry_count = Some (length (tb_entries t)),
        ts_matched_count = Some (length (mr_matches r))\<rparr> (ca_table_sources db')\<rparr>))"

definition record_table_error :: "string \<Rightarrow> string \<Rightarrow> string \<Rightarrow> catalog_db \<Rightarrow> catalog_db" where
  "record_table_error table_id url err db =
     (let row = (case map_of (ca_table_sources db) table_id of
          None \<Rightarrow> \<lparr>ts_page_url = url, ts_header_url = None, ts_data_url = None, ts_fetched_at = None, ts_last_error = Some err,
                   ts_entry_count = None, ts_matched_count = None\<rparr>
        | Some old \<Rightarrow> old\<lparr>ts_page_url := url, ts_last_error := Some err\<rparr>)
      in db\<lparr>ca_table_sources := AList.update table_id row (ca_table_sources db)\<rparr>)"

record refresh_summary =
  ru_table_id :: string
  ru_entries :: nat
  ru_matched :: nat
  ru_match_rate :: real
  ru_stale :: bool

definition refresh_summary_of :: "string \<Rightarrow> table_data \<Rightarrow> match_report \<Rightarrow> refresh_summary" where
  "refresh_summary_of table_id t r =
     \<lparr>ru_table_id = table_id, ru_entries = length (tb_entries t),
      ru_matched = (case for_table r table_id of None \<Rightarrow> 0 | Some s \<Rightarrow> sm_matched s),
      ru_match_rate = (case for_table r table_id of None \<Rightarrow> 0 | Some s \<Rightarrow> summary_match_rate s), ru_stale = tb_stale t\<rparr>"

definition table_of_fetch ::
    "'w refresh_env \<Rightarrow> row list \<Rightarrow> string \<times> string \<Rightarrow> table_data \<Rightarrow> catalog_db \<Rightarrow> refresh_summary py \<times> catalog_db" where
  "table_of_fetch env charts spec t db =
     (case resolve (re_runtime env) (re_titles env) (map Table_Entry (tb_entries t)) charts of
        Inl e \<Rightarrow> (Inl e, db)
      | Inr r \<Rightarrow> (case transaction (store_table (re_runtime env) (fst spec) (snd spec) t r) db of
            (Inl e, db') \<Rightarrow> (Inl e, db') | (Inr u, db') \<Rightarrow> (Inr (refresh_summary_of (fst spec) t r), db')))"

definition refresh_table ::
    "'w refresh_env \<Rightarrow> row list \<Rightarrow> string \<times> string \<Rightarrow> 'w refresh_state \<Rightarrow> refresh_summary py \<times> 'w refresh_state" where
  "refresh_table env charts spec s =
     (let failed = (\<lambda>e net db. (Inl e, (net, record_table_error (fst spec) (snd spec) (re_describe env e) db))) in
      case fetch_table (re_runtime env) (re_ports env) (fst spec) (snd spec) True (fst s) of
        (Inl e, net) \<Rightarrow> failed e net (snd s)
      | (Inr t, net) \<Rightarrow>
          (case table_of_fetch env charts spec t (snd s) of
             (Inl e, db) \<Rightarrow> failed e net db | (Inr r, db) \<Rightarrow> (Inr r, (net, db))))"

definition refresh_tables ::
    "'w refresh_env \<Rightarrow> (string \<times> string) list \<Rightarrow> 'w refresh_state \<Rightarrow>
       (((string \<times> string) \<times> refresh_summary) list \<times> ((string \<times> string) \<times> py_exn) list) py \<times> 'w refresh_state" where
  "refresh_tables env specs s =
     (let charts = map chart_mapping (ca_charts (snd s)) in
      if charts = [] then (Inl (RuntimeError ''assistant DB has no charts''), s)
      else raise_if_none ''no difficulty table refreshed'' (refresh_all (refresh_table env charts) specs s))"

subsection \<open>The contract of a refresh\<close>

text \<open>What both handlers promise of one source: only its own rows change, and none when it fails.\<close>

locale source_refresh =
  fixes step :: "'src \<Rightarrow> 's \<Rightarrow> (py_exn + 'r) \<times> 's"
    and rows_of :: "'i \<Rightarrow> 's \<Rightarrow> 'row list"
    and id_of :: "'src \<Rightarrow> 'i"
  assumes step_other: "i \<noteq> id_of src \<Longrightarrow> rows_of i (snd (step src s)) = rows_of i s"
    and step_failed: "step src s = (Inl e, s') \<Longrightarrow> rows_of i s' = rows_of i s"
begin

lemma step_kept:
  assumes "step src s = (r, s')" and "r = Inl e \<or> i \<noteq> id_of src"
  shows "rows_of i s' = rows_of i s"
  using assms step_other[of i src s] step_failed[of src s e s' i] by auto

lemma refresh_all_kept:
  "refresh_all step srcs s = (ok, failed, t) \<Longrightarrow> i \<notin> id_of ` fst ` set ok \<Longrightarrow> rows_of i t = rows_of i s"
proof (induction srcs arbitrary: s ok failed t)
  case (Cons src srcs)
  obtain r s' where step: "step src s = (r, s')" by (metis prod.exhaust)
  obtain ok' failed' t' where rest: "refresh_all step srcs s' = (ok', failed', t')" by (metis prod.exhaust)
  have "t' = t" "set ok' \<subseteq> set ok" using Cons.prems(1) step rest by (auto split: sum.splits)
  then have "rows_of i t = rows_of i s'" using Cons.IH[OF rest] Cons.prems(2) by auto
  moreover have "rows_of i s' = rows_of i s"
  proof (cases r)
    case (Inl e)
    then show ?thesis using step_kept[OF step, of e] by simp
  next
    case (Inr x)
    then have "src \<in> fst ` set ok" using Cons.prems(1) step rest by auto
    then show ?thesis using step_kept[OF step] Cons.prems(2) by blast
  qed
  ultimately show ?case by simp
qed simp

lemma run_kept:
  assumes "raise_if_none message (refresh_all step srcs s) = (r, t)"
    and "case r of Inl e \<Rightarrow> True | Inr (ok, failed) \<Rightarrow> i \<notin> id_of ` fst ` set ok"
  shows "rows_of i t = rows_of i s"
proof -
  obtain ok failed t' where run: "refresh_all step srcs s = (ok, failed, t')" by (metis prod.exhaust)
  then have "t' = t" and r: "r = (if ok = [] then Inl (RuntimeError message) else Inr (ok, failed))"
    using assms(1) by (auto simp: raise_if_none_def)
  moreover have "i \<notin> id_of ` fst ` set ok" using assms(2) unfolding r by (cases "ok = []") simp_all
  ultimately show ?thesis using refresh_all_kept[OF run] by simp
qed

lemma refresh_all_accounts:
  "refresh_all step srcs s = (ok, failed, t) \<Longrightarrow> length ok + length failed = length srcs \<and>
     set srcs = fst ` set ok \<union> fst ` set failed"
  by (induction srcs arbitrary: s ok failed) (auto split: sum.splits prod.splits)

end

subsection \<open>Both handlers keep it\<close>

definition classifications_from :: "string \<Rightarrow> catalog_db \<Rightarrow> classification_entry list" where
  "classifications_from i db = filter (\<lambda>r. ck_source_id r = i) (ca_classifications db)"

definition entries_of_table :: "string \<Rightarrow> catalog_db \<Rightarrow> table_entry_row list" where
  "entries_of_table i db = filter (\<lambda>r. tr_table_id r = i) (ca_table_entries db)"

lemma insert_classifications_rows:
  "py_for insert_classification db rows = Inr db' \<Longrightarrow> ca_classifications db' = ca_classifications db @ rows"
proof (induction rows arbitrary: db)
  case (Cons r rows)
  then obtain db1 where db1: "insert_classification db r = Inr db1" "py_for insert_classification db1 rows = Inr db'"
    by (auto simp: py_bind_Inr_iff)
  have "ca_classifications db1 = ca_classifications db @ [r]" using db1(1) by (auto simp: insert_classification_def split: if_splits)
  then show ?case using Cons.IH[OF db1(2)] by simp
qed simp

lemma replaced_rows:
  assumes "replace_classification_source b db = Inr db'"
  shows "ca_classifications db' = filter (\<lambda>r. ck_source_id r \<noteq> cx_source_id (cb_source b)) (ca_classifications db) @ cb_rows b"
  using assms insert_classifications_rows by (fastforce simp: replace_classification_source_def Let_def split: if_splits)

lemma transaction_cases:
  "transaction f db = (r, db') \<Longrightarrow> (case r of Inl e \<Rightarrow> db' = db | Inr u \<Rightarrow> f db = Inr db')"
  by (auto simp: transaction_def split: sum.splits)

lemma batch_source:
  "build_classification_batch rt tp dumps src t charts = Inr b \<Longrightarrow> cb_source b = src \<and> (\<forall>x\<in>set (cb_rows b). ck_source_id x = cx_source_id src)"
  using batch_rows_keys by (fastforce simp: build_classification_batch_def py_bind_Inr_iff)

lemma classification_of_table_rows:
  assumes "classification_of_table env charts src t db = (r, db')"
  shows "(case r of Inl e \<Rightarrow> db' = db
    | Inr x \<Rightarrow> \<exists>b. build_classification_batch (re_runtime env) (re_titles env) (re_dumps env) src t charts = Inr b \<and>
        classifications_from (cx_source_id src) db' = cb_rows b \<and> us_matched x = cb_matched_count b \<and>
        (\<forall>i. i \<noteq> cx_source_id src \<longrightarrow> classifications_from i db' = classifications_from i db))"
proof (cases "build_classification_batch (re_runtime env) (re_titles env) (re_dumps env) src t charts")
  case (Inl e)
  then show ?thesis using assms by (auto simp: classification_of_table_def)
next
  case (Inr b)
  obtain q db1 where tx: "transaction (replace_classification_source b) db = (q, db1)" by (metis prod.exhaust)
  show ?thesis
  proof (cases q)
    case (Inl e)
    then show ?thesis using assms Inr tx transaction_cases[OF tx] by (auto simp: classification_of_table_def)
  next
    case (Inr u)
    then have "ca_classifications db1 = filter (\<lambda>r. ck_source_id r \<noteq> cx_source_id src) (ca_classifications db) @ cb_rows b"
      using transaction_cases[OF tx] replaced_rows batch_source[OF \<open>_ = Inr b\<close>] by auto
    moreover have "db' = db1" "r = Inr (class_summary_of src t b)"
      using assms \<open>_ = Inr b\<close> tx Inr by (auto simp: classification_of_table_def)
    ultimately show ?thesis
      using batch_source[OF \<open>_ = Inr b\<close>] \<open>_ = Inr b\<close>
      by (auto simp: classifications_from_def class_summary_of_def filter_empty_conv filter_id_conv
          intro!: filter_cong)
  qed
qed

lemma refresh_classification_rows:
  assumes "refresh_classification env charts src s = (r, s')"
  shows "(case r of Inl e \<Rightarrow> ca_classifications (snd s') = ca_classifications (snd s)
    | Inr x \<Rightarrow> \<exists>t net. fetch_table (re_runtime env) (re_ports env) (cx_source_id src) (cx_url src) True (fst s) = (Inr t, net) \<and>
        classification_of_table env charts src t (snd s) = (Inr x, snd s'))"
proof -
  obtain f net where fetch: "fetch_table (re_runtime env) (re_ports env) (cx_source_id src) (cx_url src) True (fst s) = (f, net)"
    by (metis prod.exhaust)
  show ?thesis
  proof (cases f)
    case (Inl e)
    then show ?thesis using assms fetch by (auto simp: refresh_classification_def Let_def record_classification_error_def)
  next
    case (Inr t)
    obtain q db where c: "classification_of_table env charts src t (snd s) = (q, db)" by (metis prod.exhaust)
    then show ?thesis using assms fetch Inr classification_of_table_rows[OF c]
      by (cases q) (auto simp: refresh_classification_def Let_def record_classification_error_def)
  qed
qed

interpretation classes: source_refresh "refresh_classification env charts" "\<lambda>i s. classifications_from i (snd s)" cx_source_id for env charts
proof
  fix i src s e s'
  show "classifications_from i (snd (snd (refresh_classification env charts src s))) = classifications_from i (snd s)"
    if "i \<noteq> cx_source_id src"
    using refresh_classification_rows[OF prod.collapse[symmetric], of env charts src s] that classification_of_table_rows
    by (fastforce simp: classifications_from_def split: sum.splits)
  show "classifications_from i (snd s') = classifications_from i (snd s)" if "refresh_classification env charts src s = (Inl e, s')"
    using refresh_classification_rows[OF that] by (simp add: classifications_from_def)
qed

definition entry_row_key :: "table_entry_row \<Rightarrow> string \<times> string \<times> string" where
  "entry_row_key r = (tr_table_id r, tr_level r, tr_sha256 r)"

lemma insert_table_entry_Inr:
  "insert_table_entry db r = Inr db' \<longleftrightarrow>
     entry_row_key r \<notin> entry_row_key ` set (ca_table_entries db) \<and> db' = db\<lparr>ca_table_entries := ca_table_entries db @ [r]\<rparr>"
  by (simp add: insert_table_entry_def entry_row_key_def list_ex_iff image_iff) metis

lemma insert_entries_rows:
  "py_for (\<lambda>db m. py_bind (table_entry_row_of rt table_id t m) (insert_table_entry db)) db ms = Inr db' \<Longrightarrow>
     \<exists>rows. map (table_entry_row_of rt table_id t) ms = map Inr rows \<and> ca_table_entries db' = ca_table_entries db @ rows \<and>
       distinct (map entry_row_key rows) \<and> entry_row_key ` set rows \<inter> entry_row_key ` set (ca_table_entries db) = {}"
proof (induction ms arbitrary: db)
  case (Cons m ms)
  then obtain row db1 where m: "table_entry_row_of rt table_id t m = Inr row"
      "entry_row_key row \<notin> entry_row_key ` set (ca_table_entries db)" "db1 = db\<lparr>ca_table_entries := ca_table_entries db @ [row]\<rparr>"
      and rest: "py_for (\<lambda>db m. py_bind (table_entry_row_of rt table_id t m) (insert_table_entry db)) db1 ms = Inr db'"
    by (auto simp: py_bind_Inr_iff insert_table_entry_Inr)
  obtain rows where rows: "map (table_entry_row_of rt table_id t) ms = map Inr rows" "ca_table_entries db' = ca_table_entries db1 @ rows"
      "distinct (map entry_row_key rows)" "entry_row_key ` set rows \<inter> entry_row_key ` set (ca_table_entries db1) = {}"
    using Cons.IH[OF rest] by blast
  have "map (table_entry_row_of rt table_id t) (m # ms) = map Inr (row # rows)" "ca_table_entries db' = ca_table_entries db @ row # rows"
    using m(1,3) rows(1,2) by simp_all
  moreover have "distinct (map entry_row_key (row # rows))"
    "entry_row_key ` set (row # rows) \<inter> entry_row_key ` set (ca_table_entries db) = {}"
    using m(2,3) rows(3,4) by auto
  ultimately show ?case by blast
qed simp

lemma entry_row_keys:
  "table_entry_row_of rt table_id t (e, c, k) = Inr row \<Longrightarrow> \<exists>sha256. str_item rt c ''sha256'' = Inr sha256 \<and>
     entry_row_key row = (table_id, en_level e, sha256)"
  by (auto simp: table_entry_row_of_def py_bind_Inr_iff entry_row_key_def)

lemma stored_table_rows:
  assumes "store_table rt table_id url t r db = Inr db'"
  shows "\<exists>rows. map (table_entry_row_of rt table_id t) (mr_matches r) = map Inr rows \<and>
    ca_table_entries db' = filter (\<lambda>x. tr_table_id x \<noteq> table_id) (ca_table_entries db) @ rows \<and> distinct (map entry_row_key rows)"
proof -
  obtain db1 where run: "py_for (\<lambda>db m. py_bind (table_entry_row_of rt table_id t m) (insert_table_entry db))
        (db\<lparr>ca_table_entries := filter (\<lambda>x. tr_table_id x \<noteq> table_id) (ca_table_entries db)\<rparr>) (mr_matches r) = Inr db1"
      and "ca_table_entries db' = ca_table_entries db1"
    using assms by (auto simp: store_table_def py_bind_Inr_iff)
  then show ?thesis using insert_entries_rows[OF run] by auto
qed

lemma table_entry_row_id: "table_entry_row_of rt table_id t m = Inr row \<Longrightarrow> tr_table_id row = table_id"
  by (auto simp: table_entry_row_of_def py_bind_Inr_iff split: prod.splits)

lemma table_of_fetch_rows:
  assumes "table_of_fetch env charts spec t db = (r, db')"
  shows "(case r of Inl e \<Rightarrow> db' = db
    | Inr x \<Rightarrow> \<exists>report. resolve (re_runtime env) (re_titles env) (map Table_Entry (tb_entries t)) charts = Inr report \<and>
        map Inr (entries_of_table (fst spec) db') = map (table_entry_row_of (re_runtime env) (fst spec) t) (mr_matches report) \<and>
        (\<forall>i. i \<noteq> fst spec \<longrightarrow> entries_of_table i db' = entries_of_table i db))"
proof (cases "resolve (re_runtime env) (re_titles env) (map Table_Entry (tb_entries t)) charts")
  case (Inl e)
  then show ?thesis using assms by (auto simp: table_of_fetch_def)
next
  case (Inr report)
  obtain q db1 where tx: "transaction (store_table (re_runtime env) (fst spec) (snd spec) t report) db = (q, db1)"
    by (metis prod.exhaust)
  show ?thesis
  proof (cases q)
    case (Inl e)
    then show ?thesis using assms \<open>_ = Inr report\<close> tx transaction_cases[OF tx] by (auto simp: table_of_fetch_def)
  next
    case (Inr u)
    then obtain rows where rows: "map (table_entry_row_of (re_runtime env) (fst spec) t) (mr_matches report) = map Inr rows"
        "ca_table_entries db1 = filter (\<lambda>x. tr_table_id x \<noteq> fst spec) (ca_table_entries db) @ rows"
      using transaction_cases[OF tx] stored_table_rows by fastforce
    have "x \<in> set rows \<Longrightarrow> tr_table_id x = fst spec" for x
      using rows(1) table_entry_row_id by (metis (no_types, lifting) imageE image_eqI list.set_map)
    then have "entries_of_table (fst spec) db1 = rows" "i \<noteq> fst spec \<Longrightarrow> entries_of_table i db1 = entries_of_table i db" for i
      unfolding entries_of_table_def rows(2) by (auto simp: filter_empty_conv filter_id_conv intro!: filter_cong)
    moreover have "db' = db1" "\<exists>x. r = Inr x" using assms \<open>_ = Inr report\<close> tx Inr by (auto simp: table_of_fetch_def)
    ultimately show ?thesis using rows(1) \<open>_ = Inr report\<close> by auto
  qed
qed

lemma refresh_table_rows:
  assumes "refresh_table env charts spec s = (r, s')"
  shows "(case r of Inl e \<Rightarrow> ca_table_entries (snd s') = ca_table_entries (snd s)
    | Inr x \<Rightarrow> \<exists>t net. fetch_table (re_runtime env) (re_ports env) (fst spec) (snd spec) True (fst s) = (Inr t, net) \<and>
        table_of_fetch env charts spec t (snd s) = (Inr x, snd s'))"
proof -
  obtain f net where fetch: "fetch_table (re_runtime env) (re_ports env) (fst spec) (snd spec) True (fst s) = (f, net)"
    by (metis prod.exhaust)
  show ?thesis
  proof (cases f)
    case (Inl e)
    then show ?thesis using assms fetch by (auto simp: refresh_table_def Let_def record_table_error_def)
  next
    case (Inr t)
    obtain q db where c: "table_of_fetch env charts spec t (snd s) = (q, db)" by (metis prod.exhaust)
    then show ?thesis using assms fetch Inr table_of_fetch_rows[OF c]
      by (cases q) (auto simp: refresh_table_def Let_def record_table_error_def)
  qed
qed

interpretation tables: source_refresh "refresh_table env charts" "\<lambda>i s. entries_of_table i (snd s)" fst for env charts
proof
  fix i :: string and src :: "string \<times> string" and s e s'
  show "entries_of_table i (snd (snd (refresh_table env charts src s))) = entries_of_table i (snd s)" if "i \<noteq> fst src"
    using refresh_table_rows[OF prod.collapse[symmetric], of env charts src s] that table_of_fetch_rows
    by (fastforce simp: entries_of_table_def split: sum.splits)
  show "entries_of_table i (snd s') = entries_of_table i (snd s)" if "refresh_table env charts src s = (Inl e, s')"
    using refresh_table_rows[OF that] by (simp add: entries_of_table_def)
qed

text \<open>A refresh keeps the last good rows: whatever happens to the others, the classifications of a source that was not refreshed, because it
  failed to arrive, to validate or to be stored, or because it was not asked for, are the ones stored before.\<close>

theorem unrefreshed_classifications_are_kept:
  assumes "refresh_classifications env specs s = (r, s')"
    and "case r of Inl e \<Rightarrow> True | Inr (ok, failed) \<Rightarrow> i \<notin> cx_source_id ` fst ` set ok"
  shows "classifications_from i (snd s') = classifications_from i (snd s)"
  using assms classes.run_kept[OF _ assms(2), where srcs = specs and s = s and t = s']
  by (auto simp: refresh_classifications_def Let_def split: if_splits)

text \<open>The same for the difficulty tables: the entries of a table that was not refreshed stay.\<close>

theorem unrefreshed_tables_are_kept:
  assumes "refresh_tables env specs s = (r, s')"
    and "case r of Inl e \<Rightarrow> True | Inr (ok, failed) \<Rightarrow> i \<notin> fst ` fst ` set ok"
  shows "entries_of_table i (snd s') = entries_of_table i (snd s)"
  using assms tables.run_kept[OF _ assms(2), where srcs = specs and s = s and t = s']
  by (auto simp: refresh_tables_def Let_def split: if_splits)

text \<open>A refreshed source shows exactly its new batch: its rows are the rows of the batch that was built from the table that was fetched, and the
  rows of every other source are untouched.\<close>

theorem refreshed_classification_is_its_batch:
  assumes "refresh_classification env charts src s = (Inr x, s')"
  shows "\<exists>t net b. fetch_table (re_runtime env) (re_ports env) (cx_source_id src) (cx_url src) True (fst s) = (Inr t, net) \<and>
    build_classification_batch (re_runtime env) (re_titles env) (re_dumps env) src t charts = Inr b \<and>
    classifications_from (cx_source_id src) (snd s') = cb_rows b \<and>
    (\<forall>i. i \<noteq> cx_source_id src \<longrightarrow> classifications_from i (snd s') = classifications_from i (snd s))"
  using refresh_classification_rows[OF assms] classification_of_table_rows by fastforce

text \<open>A table that leads twice to one chart at one level is not refreshed at all: the second row meets the unique index and the transaction of
  the table is rolled back.\<close>

theorem twice_matched_chart_fails_table:
  assumes "resolve (re_runtime env) (re_titles env) (map Table_Entry (tb_entries t)) charts = Inr report"
    and "mr_matches report ! i = (e, c, k)" and "mr_matches report ! j = (e', c, k')" and "i < j" and "j < length (mr_matches report)"
    and "en_level e = en_level e'"
  shows "\<exists>err. table_of_fetch env charts spec t db = (Inl err, db)"
proof -
  let ?store = "store_table (re_runtime env) (fst spec) (snd spec) t report"
  have "?store db \<noteq> Inr db'" for db'
  proof
    assume "?store db = Inr db'"
    then obtain rows where rows: "map (table_entry_row_of (re_runtime env) (fst spec) t) (mr_matches report) = map Inr rows"
        and distinct: "distinct (map entry_row_key rows)"
      using stored_table_rows by blast
    have len: "length rows = length (mr_matches report)" using rows by (metis length_map)
    have at_pos: "table_entry_row_of (re_runtime env) (fst spec) t (mr_matches report ! n) = Inr (rows ! n)" if "n < length rows" for n
      using rows that len by (metis nth_map)
    have "entry_row_key (rows ! i) = entry_row_key (rows ! j)"
      using entry_row_keys[of _ _ _ e c k "rows ! i"] entry_row_keys[of _ _ _ e' c k' "rows ! j"] at_pos[of i] at_pos[of j]
        assms(2-6) len by fastforce
    then show False using distinct assms(4,5) len by (simp add: distinct_conv_nth)
  qed
  then obtain err where "?store db = Inl err" by (cases "?store db") auto
  then show ?thesis using assms(1) by (simp add: table_of_fetch_def transaction_def)
qed

subsection \<open>Witnesses\<close>

definition sample_pattern_ports :: "unit table_ports" where
  "sample_pattern_ports = sample_ports\<lparr>tp_json := \<lambda>body. if body = ''d'' then
       Some (PList [PDict [(''level'', PStr ''sl3, dl12''), (''md5'', PStr (replicate 32 (CHR ''a'')))]])
     else Some (PDict sample_header)\<rparr>"

definition sample_env :: "unit table_ports \<Rightarrow> unit refresh_env" where
  "sample_env ports = \<lparr>re_runtime = sample_runtime, re_ports = ports, re_titles = sample_title_ports,
     re_dumps = (\<lambda>_. replicate 64 (CHR ''0'')), re_describe = (\<lambda>_. ''error'')\<rparr>"

definition sample_spec :: source_spec where
  "sample_spec = \<lparr>cx_source_id = ''p'', cx_family = ''delay'', cx_url = ''h'', cx_scales = [''///'', ''dl'']\<rparr>"

definition sample_chart_row :: chart_row where
  "sample_chart_row = \<lparr>cr_md5 = PStr (replicate 32 (CHR ''a'')), cr_title = PNone, cr_artist = PNone, cr_notes = PNone,
     cr_song_mode = PNone, cr_path = None, cr_updated_at = 0\<rparr>"

definition sample_catalog :: catalog_db where
  "sample_catalog = \<lparr>ca_charts = [(''c'', sample_chart_row)], ca_class_sources = [], ca_classifications = [],
     ca_table_entries = [], ca_table_sources = []\<rparr>"

lemma refreshed_classification_is_its_batch_witness:
  "\<exists>x s'. refresh_classification (sample_env sample_pattern_ports) [] sample_spec (((), None), sample_catalog) = (Inr x, s') \<and>
     length (classifications_from ''p'' (snd s')) = us_classifications x"
proof -
  let ?run = "refresh_classification (sample_env sample_pattern_ports) [] sample_spec (((), None), sample_catalog)"
  have "(case fst ?run of Inl e \<Rightarrow> False | Inr x \<Rightarrow> us_classifications x = 1 \<and> length (ca_classifications (snd (snd ?run))) = 1)"
    by code_simp
  then obtain x s' where run: "?run = (Inr x, s')" and one: "us_classifications x = 1" "length (ca_classifications (snd s')) = 1"
    by (cases ?run) (auto split: sum.splits)
  obtain t net b where t: "fetch_table (re_runtime (sample_env sample_pattern_ports)) (re_ports (sample_env sample_pattern_ports))
        (cx_source_id sample_spec) (cx_url sample_spec) True (fst (((), None), sample_catalog)) = (Inr t, net)"
      and b: "build_classification_batch (re_runtime (sample_env sample_pattern_ports)) (re_titles (sample_env sample_pattern_ports))
        (re_dumps (sample_env sample_pattern_ports)) sample_spec t [] = Inr b"
      and rows: "classifications_from (cx_source_id sample_spec) (snd s') = cb_rows b"
    using refreshed_classification_is_its_batch[OF run] by blast
  have "classification_of_table (sample_env sample_pattern_ports) [] sample_spec t sample_catalog = (Inr x, snd s')"
    using refresh_classification_rows[OF run] t by simp
  then have "us_classifications x = length (cb_rows b)"
    using b by (auto simp: classification_of_table_def class_summary_of_def build_classification_batch_def py_bind_Inr_iff split: prod.splits sum.splits)
  then show ?thesis using run rows by (auto simp: sample_spec_def)
qed

lemma unrefreshed_classifications_are_kept_witness:
  "classifications_from ''p'' (snd (snd (refresh_classifications (sample_env (outage sample_ports)) [sample_spec] (((), None), sample_catalog))))
     = classifications_from ''p'' sample_catalog"
proof -
  let ?run = "refresh_classifications (sample_env (outage sample_ports)) [sample_spec] (((), None), sample_catalog)"
  have "case fst ?run of Inl e \<Rightarrow> True | Inr (ok, failed) \<Rightarrow> ok = []" by code_simp
  then have "case fst ?run of Inl e \<Rightarrow> True | Inr (ok, failed) \<Rightarrow> ''p'' \<notin> cx_source_id ` fst ` set ok" by (cases "fst ?run") auto
  from unrefreshed_classifications_are_kept[OF prod.collapse[symmetric] this] show ?thesis by simp
qed

lemma unrefreshed_tables_are_kept_witness:
  "entries_of_table ''t'' (snd (snd (refresh_tables (sample_env (outage sample_ports)) [(''t'', ''h'')] (((), None), sample_catalog))))
     = entries_of_table ''t'' sample_catalog"
proof -
  let ?run = "refresh_tables (sample_env (outage sample_ports)) [(''t'', ''h'')] (((), None), sample_catalog)"
  have "case fst ?run of Inl e \<Rightarrow> True | Inr (ok, failed) \<Rightarrow> ok = []" by code_simp
  then have "case fst ?run of Inl e \<Rightarrow> True | Inr (ok, failed) \<Rightarrow> ''t'' \<notin> fst ` fst ` set ok" by (cases "fst ?run") auto
  from unrefreshed_tables_are_kept[OF prod.collapse[symmetric] this] show ?thesis by simp
qed

definition twice_listed :: table_data where
  "twice_listed = sample_table\<lparr>tb_entries :=
     [\<lparr>en_table_id = ''t'', en_level = ''3'', en_sha256 = Some (replicate 64 (CHR ''c'')), en_md5 = None, en_title = None, en_data = []\<rparr>,
      \<lparr>en_table_id = ''t'', en_level = ''3'', en_sha256 = None, en_md5 = Some (replicate 32 (CHR ''a'')), en_title = None, en_data = []\<rparr>]\<rparr>"

lemma twice_matched_chart_fails_table_witness:
  "\<exists>err. table_of_fetch (sample_env sample_ports) sample_charts (''t'', ''h'') twice_listed sample_catalog = (Inl err, sample_catalog)"
proof -
  let ?env = "sample_env sample_ports"
  let ?report = "report_of (map (resolve_entry sample_title_ports (tb_entries twice_listed) sample_charts) (tb_entries twice_listed))"
  have r: "resolve (re_runtime ?env) (re_titles ?env) (map Table_Entry (tb_entries twice_listed)) sample_charts = Inr ?report"
    by (simp add: resolve_def sample_env_def twice_listed_def)
  have m: "mr_matches ?report = [(tb_entries twice_listed ! 0, sample_charts ! 0, By_Sha256), (tb_entries twice_listed ! 1, sample_charts ! 0, By_Md5)]"
    by code_simp
  show ?thesis
  proof (rule twice_matched_chart_fails_table[OF r])
    show "mr_matches ?report ! 0 = (tb_entries twice_listed ! 0, sample_charts ! 0, By_Sha256)" by (simp only: m nth_Cons_0)
    show "mr_matches ?report ! 1 = (tb_entries twice_listed ! 1, sample_charts ! 0, By_Md5)" by (simp only: m nth_Cons_0 nth_Cons_Suc One_nat_def)
    show "1 < length (mr_matches ?report)" by (simp only: m) simp
    show "en_level (tb_entries twice_listed ! 0) = en_level (tb_entries twice_listed ! 1)" by (simp add: twice_listed_def)
  qed simp
qed

end
