(* ===== verification/Manifest.thy ===== *)
theory Manifest
  imports Formats
begin

text \<open>
  The manifests of container jobs (\<open>container/manifest.py\<close>). A manifest is a JSON value; a validator is the list of its checks in the
  order of the code, the first that fails raises. \<open>datetime.fromisoformat\<close> and the JSON parser are \<open>manifest_ports\<close>: the first tells
  whether a text is a timestamp and whether it names a zone, the second also whether it met a constant like NaN, and keeps
  the members of an object as they were written. Of an exception only its code matters to the callers; the field name in a
  message is left out.
\<close>

record manifest_ports =
  mp_fromiso :: "string \<Rightarrow> bool option"
  mp_loads :: "string \<Rightarrow> (pyval \<times> bool) option"

subsection \<open>Checks\<close>

fun all_of :: "unit py list \<Rightarrow> unit py" where
  "all_of [] = Inr ()"
| "all_of (c # cs) = py_bind c (\<lambda>_. all_of cs)"

abbreviation invalid :: "string \<Rightarrow> py_exn" where
  "invalid message \<equiv> ManifestError message ''invalid_contract''"

definition members :: "pyval \<Rightarrow> row" where
  "members v = (case v of PDict d \<Rightarrow> d | _ \<Rightarrow> [])"

definition elements :: "pyval \<Rightarrow> pyval list" where
  "elements v = (case v of PList vs \<Rightarrow> vs | _ \<Rightarrow> [])"

definition text_in :: "row \<Rightarrow> string \<Rightarrow> string" where
  "text_in d k = (case get_item d k of PStr s \<Rightarrow> s | _ \<Rightarrow> [])"

definition check_object :: "pyval \<Rightarrow> unit py" where
  "check_object v = raise_if (case v of PDict d \<Rightarrow> False | _ \<Rightarrow> True) (invalid ''must be an object'')"

definition check_keys :: "string list \<Rightarrow> row \<Rightarrow> unit py" where
  "check_keys names d = raise_if (set (map fst d) \<noteq> set names) (invalid ''keys are invalid'')"

definition check_string :: "(string \<Rightarrow> bool) \<Rightarrow> pyval \<Rightarrow> unit py" where
  "check_string p v =
     (case v of PStr s \<Rightarrow> if s = [] then Inl (invalid ''must be a non-empty string'') else raise_if (\<not> p s) (invalid ''has an invalid format'')
      | _ \<Rightarrow> Inl (invalid ''must be a non-empty string''))"

definition check_integer :: "int \<Rightarrow> int option \<Rightarrow> pyval \<Rightarrow> unit py" where
  "check_integer low high v =
     raise_if (case v of PInt n \<Rightarrow> n < low \<or> (case high of None \<Rightarrow> False | Some h \<Rightarrow> h < n) | _ \<Rightarrow> True) (invalid ''must be an integer'')"

text \<open>\<open>v not in {...}\<close> of a set of texts: an unhashable value raises \<open>TypeError\<close>.\<close>

definition check_member :: "string list \<Rightarrow> pyval \<Rightarrow> unit py" where
  "check_member names v =
     (case v of PList _ \<Rightarrow> Inl TypeError | PDict _ \<Rightarrow> Inl TypeError
      | PStr s \<Rightarrow> raise_if (s \<notin> set names) (invalid ''is invalid'') | _ \<Rightarrow> Inl (invalid ''is invalid''))"

definition check_equal :: "pyval \<Rightarrow> pyval \<Rightarrow> unit py" where
  "check_equal expected v = raise_if (v \<noteq> expected) (invalid ''is invalid'')"

definition check_game_mode :: "pyval \<Rightarrow> unit py" where
  "check_game_mode v = raise_if (v \<noteq> PStr ''SP7'') (ManifestError ''only SP7 jobs are supported'' ''unsupported_game_mode'')"

definition five_gib :: int where "five_gib = 5 * 1024 * 1024 * 1024"

definition check_size :: "pyval \<Rightarrow> unit py" where
  "check_size v = py_bind (check_integer 1 None v) (\<lambda>_.
     raise_if (case v of PInt n \<Rightarrow> five_gib < n | _ \<Rightarrow> False) (ManifestError ''is too large'' ''payload_too_large''))"

fun replace_zulu :: "string \<Rightarrow> string" where
  "replace_zulu [] = []"
| "replace_zulu (c # cs) = (if c = CHR ''Z'' then ''+00:00'' @ replace_zulu cs else c # replace_zulu cs)"

definition check_timestamp :: "manifest_ports \<Rightarrow> pyval \<Rightarrow> unit py" where
  "check_timestamp mp v = check_string (\<lambda>s. has_date_prefix s \<and> mp_fromiso mp (replace_zulu s) = Some True) v"

definition profile_prefix :: "string \<Rightarrow> string" where
  "profile_prefix profile_id = ''profiles/'' @ profile_id @ ''/''"

definition starts_with :: "string \<Rightarrow> string \<Rightarrow> bool" where
  "starts_with prefix s \<longleftrightarrow> take (length prefix) s = prefix"

definition check_object_key :: "string \<Rightarrow> pyval \<Rightarrow> unit py" where
  "check_object_key profile_id v =
     all_of [check_string is_object_key v,
       raise_if (case v of PStr s \<Rightarrow> \<not> starts_with (profile_prefix profile_id) s | _ \<Rightarrow> True) (invalid ''must stay inside the profile partition'')]"

subsection \<open>Parsing\<close>

fun no_duplicates :: "pyval \<Rightarrow> bool" where
  "no_duplicates (PList vs) = list_all no_duplicates vs"
| "no_duplicates (PDict d) = (distinct (map fst d) \<and> list_all (\<lambda>kv. no_duplicates (snd kv)) d)"
| "no_duplicates v = True"

definition parse_json :: "manifest_ports \<Rightarrow> string \<Rightarrow> pyval py" where
  "parse_json mp payload =
     (case mp_loads mp payload of
        None \<Rightarrow> Inl (ManifestError ''invalid JSON'' ''invalid_json'')
      | Some (v, constant) \<Rightarrow>
          if constant \<or> \<not> no_duplicates v then Inl (ManifestError ''duplicate member or non-finite number'' ''invalid_json'') else Inr v)"

definition manifest_sha256 :: "runtime \<Rightarrow> row \<Rightarrow> string py" where
  "manifest_sha256 rt m = py_bind (canonical_json rt (PDict m)) (\<lambda>s. Inr (sha256_hex rt s))"

subsection \<open>Input manifests\<close>

definition input_keys :: "string list" where
  "input_keys = [''contract'', ''schema_version'', ''job_id'', ''idempotency_key'', ''account_id'', ''profile_id'', ''trust_domain'',
     ''source_manifest_sha256'', ''input_bundle'', ''requested_at'', ''game_mode'', ''policy'']"

definition eligibility_values :: "string list" where
  "eligibility_values = [''pending'', ''eligible'', ''ineligible'', ''revoked'']"

definition bundle_checks :: "string \<Rightarrow> pyval \<Rightarrow> unit py list" where
  "bundle_checks profile_id v =
     (let b = members v in
      [check_object v,
       check_keys [''object_key'', ''sha256'', ''size_bytes'', ''encryption'', ''key_ref''] b,
       check_object_key profile_id (get_item b ''object_key''),
       check_string is_sha256 (get_item b ''sha256''),
       check_size (get_item b ''size_bytes''),
       check_equal (PStr ''envelope-v1'') (get_item b ''encryption''),
       check_string is_key_ref (get_item b ''key_ref''),
       raise_if (starts_with ''profile-key:'' (text_in b ''key_ref'') \<and> drop 12 (text_in b ''key_ref'') \<noteq> profile_id)
         (invalid ''input key reference crosses the profile partition'')])"

definition policy_checks :: "pyval \<Rightarrow> unit py list" where
  "policy_checks v =
     (let p = members v in
      [check_object v,
       check_keys [''eligibility_status'', ''eligibility_reason_code'', ''eligibility_policy_version'', ''include_raw_db_in_model''] p,
       check_member eligibility_values (get_item p ''eligibility_status''),
       raise_if (case get_item p ''eligibility_reason_code'' of PNone \<Rightarrow> False | PStr s \<Rightarrow> 64 < utf8_length s | _ \<Rightarrow> True)
         (invalid ''policy.eligibility_reason_code is invalid''),
       raise_if (case get_item p ''eligibility_policy_version'' of PStr s \<Rightarrow> utf8_length s < 1 \<or> 32 < utf8_length s | _ \<Rightarrow> True)
         (invalid ''policy.eligibility_policy_version is invalid''),
       raise_if (get_item p ''include_raw_db_in_model'' \<noteq> PBool False) (invalid ''raw databases cannot be passed directly to the model'')])"

definition input_checks :: "manifest_ports \<Rightarrow> row \<Rightarrow> unit py list" where
  "input_checks mp m =
     [check_keys input_keys m,
      check_equal (PStr ''container-input-manifest'') (get_item m ''contract''),
      check_equal (PStr ''1'') (get_item m ''schema_version''),
      check_string is_uuid7 (get_item m ''job_id''),
      check_string is_uuid7 (get_item m ''profile_id''),
      check_string is_uuid7 (get_item m ''account_id''),
      check_string is_idempotency_key (get_item m ''idempotency_key''),
      check_equal (PStr ''official'') (get_item m ''trust_domain''),
      check_string is_sha256 (get_item m ''source_manifest_sha256''),
      check_timestamp mp (get_item m ''requested_at''),
      check_game_mode (get_item m ''game_mode'')] @
     bundle_checks (text_in m ''profile_id'') (get_item m ''input_bundle'') @
     policy_checks (get_item m ''policy'')"

definition validate_input_manifest :: "manifest_ports \<Rightarrow> pyval \<Rightarrow> row py" where
  "validate_input_manifest mp v =
     py_bind (all_of ([raise_if (\<not> finite_value v) (invalid ''manifest contains a non-finite number''), check_object v] @
       input_checks mp (members v))) (\<lambda>_. Inr (members v))"

text \<open>The accessors of \<open>InputManifest\<close>.\<close>

definition eligibility_status :: "row \<Rightarrow> string" where
  "eligibility_status m = text_in (members (get_item m ''policy'')) ''eligibility_status''"

definition bundle_of :: "row \<Rightarrow> row" where
  "bundle_of m = members (get_item m ''input_bundle'')"

subsection \<open>Upload manifests\<close>

definition database_names :: "string list" where
  "database_names = [''score.db'', ''scoredatalog.db'', ''scorelog.db'', ''songdata.db'', ''songinfo.db'']"

definition upload_keys :: "string list" where
  "upload_keys = [''contract'', ''schema_version'', ''manifest_id'', ''account_id'', ''profile_id'', ''created_at'', ''game_mode'',
     ''trust_domain'', ''files'', ''snapshot'', ''encryption'', ''privacy'']"

definition file_checks :: "string \<Rightarrow> string list \<Rightarrow> pyval \<Rightarrow> unit py list" where
  "file_checks profile_id names v =
     (let e = members v in
      [check_object v,
       check_keys [''file_name'', ''sha256'', ''size_bytes'', ''object_key''] e,
       check_string (\<lambda>s. True) (get_item e ''file_name''),
       raise_if (text_in e ''file_name'' \<notin> set database_names \<or> text_in e ''file_name'' \<in> set names)
         (invalid ''upload database file allowlist is invalid''),
       check_string is_sha256 (get_item e ''sha256''),
       check_size (get_item e ''size_bytes''),
       check_object_key profile_id (get_item e ''object_key'')])"

fun files_checks :: "string \<Rightarrow> string list \<Rightarrow> pyval list \<Rightarrow> unit py list" where
  "files_checks profile_id names [] = []"
| "files_checks profile_id names (v # vs) =
     file_checks profile_id names v @ files_checks profile_id (names @ [text_in (members v) ''file_name'']) vs"

definition file_names :: "pyval \<Rightarrow> string list" where
  "file_names v = map (\<lambda>f. text_in (members f) ''file_name'') (elements v)"

definition flags_checks :: "pyval \<Rightarrow> (string \<times> bool) list \<Rightarrow> string list \<Rightarrow> unit py list" where
  "flags_checks v flags extra =
     [check_object v, check_keys (map fst flags @ extra) (members v),
      raise_if (list_ex (\<lambda>(k, b). get_item (members v) k \<noteq> PBool b) flags) (invalid ''flags are not allowed'')]"

definition upload_checks :: "manifest_ports \<Rightarrow> row \<Rightarrow> unit py list" where
  "upload_checks mp m =
     [check_keys upload_keys m,
      check_equal (PStr ''five-db-upload-manifest'') (get_item m ''contract''),
      check_equal (PStr ''1'') (get_item m ''schema_version''),
      check_string is_uuid7 (get_item m ''manifest_id''),
      check_string is_uuid7 (get_item m ''account_id''),
      check_string is_uuid7 (get_item m ''profile_id''),
      check_timestamp mp (get_item m ''created_at''),
      check_game_mode (get_item m ''game_mode''),
      check_member [''official'', ''self_hosted''] (get_item m ''trust_domain''),
      raise_if (case get_item m ''files'' of PList vs \<Rightarrow> length vs \<noteq> length database_names | _ \<Rightarrow> True)
        (invalid ''upload must contain exactly five database files'')] @
     files_checks (text_in m ''profile_id'') [] (elements (get_item m ''files'')) @
     [raise_if (set (file_names (get_item m ''files'')) \<noteq> set database_names)
        (invalid ''upload must contain every required database exactly once'')] @
     flags_checks (get_item m ''snapshot'') [(''static_snapshot'', True), (''wal_present'', False), (''shm_present'', False)] [''source_generation''] @
     [check_string is_uuid7 (get_item (members (get_item m ''snapshot'')) ''source_generation''),
      check_object (get_item m ''encryption''),
      check_keys [''scheme'', ''scope''] (members (get_item m ''encryption'')),
      check_equal (PStr ''envelope-v1'') (get_item (members (get_item m ''encryption'')) ''scheme''),
      check_equal (PStr ''profile'') (get_item (members (get_item m ''encryption'')) ''scope'')] @
     flags_checks (get_item m ''privacy'') [(''contains_bms'', False), (''contains_replay'', False), (''aggregate_eligible'', False)] []"

definition validate_upload_manifest :: "manifest_ports \<Rightarrow> pyval \<Rightarrow> row py" where
  "validate_upload_manifest mp v =
     py_bind (all_of (check_object v # upload_checks mp (members v))) (\<lambda>_. Inr (members v))"

subsection \<open>Output manifests\<close>

definition output_keys :: "string list" where
  "output_keys = [''contract'', ''schema_version'', ''job_id'', ''idempotency_key'', ''account_id'', ''profile_id'', ''trust_domain'',
     ''eligibility_status'', ''input_manifest_sha256'', ''output_revision'', ''generated_at'', ''normalization'', ''counters'',
     ''artifacts'', ''raw_db_exported'']"

definition artifact_kinds :: "string list" where
  "artifact_kinds = [''normalized_events'', ''feature_input'', ''model_input'', ''recommend_header'', ''recommend_score'',
     ''daily_menu_header'', ''daily_menu_score'']"

definition artifact_checks :: "string \<Rightarrow> pyval \<Rightarrow> unit py list" where
  "artifact_checks profile_id v =
     (let a = members v in
      [check_object v,
       check_keys [''kind'', ''object_key'', ''sha256'', ''size_bytes'', ''content_type''] a,
       check_member artifact_kinds (get_item a ''kind''),
       check_object_key profile_id (get_item a ''object_key''),
       check_string is_sha256 (get_item a ''sha256''),
       check_integer 0 None (get_item a ''size_bytes''),
       check_member [''application/json'', ''application/zstd''] (get_item a ''content_type'')])"

definition max_revision :: int where "max_revision = 2 ^ 63 - 1"

definition normalization_value :: pyval where
  "normalization_value = PDict [(''version'', PStr ''normalization-v1''), (''event_contract'', PStr ''play-event.v1'')]"

text \<open>The checks that compare the output with its input, when one is given.\<close>

definition chain_checks :: "row \<Rightarrow> row option \<Rightarrow> unit py list" where
  "chain_checks m input =
     (case input of None \<Rightarrow> []
      | Some source \<Rightarrow>
          map (\<lambda>k. raise_if (get_item m k \<noteq> get_item source k) (invalid ''output does not match input manifest''))
            [''job_id'', ''idempotency_key'', ''account_id'', ''profile_id'', ''trust_domain''] @
          [raise_if (get_item m ''eligibility_status'' \<noteq> PStr (eligibility_status source))
             (invalid ''output eligibility_status does not match input manifest'')])"

definition output_checks :: "manifest_ports \<Rightarrow> row option \<Rightarrow> row \<Rightarrow> unit py list" where
  "output_checks mp input m =
     [check_keys output_keys m,
      check_equal (PStr ''container-output-manifest'') (get_item m ''contract''),
      check_equal (PStr ''1'') (get_item m ''schema_version''),
      check_string is_uuid7 (get_item m ''job_id''),
      check_string is_idempotency_key (get_item m ''idempotency_key''),
      check_string is_uuid7 (get_item m ''account_id''),
      check_string is_uuid7 (get_item m ''profile_id''),
      check_string is_sha256 (get_item m ''input_manifest_sha256''),
      check_integer 1 (Some max_revision) (get_item m ''output_revision''),
      check_timestamp mp (get_item m ''generated_at''),
      check_equal (PStr ''official'') (get_item m ''trust_domain''),
      check_member eligibility_values (get_item m ''eligibility_status''),
      check_object (get_item m ''normalization''),
      check_keys [''version'', ''event_contract''] (members (get_item m ''normalization'')),
      check_equal (PStr ''normalization-v1'') (get_item (members (get_item m ''normalization'')) ''version''),
      check_equal (PStr ''play-event.v1'') (get_item (members (get_item m ''normalization'')) ''event_contract''),
      check_object (get_item m ''counters''),
      check_keys [''accepted_events'', ''rejected_events''] (members (get_item m ''counters''))] @
     map (\<lambda>(k, v). check_integer 0 None v) (members (get_item m ''counters'')) @
     [raise_if (elements (get_item m ''artifacts'') = []) (invalid ''output artifacts must be a non-empty array'')] @
     concat (map (artifact_checks (text_in m ''profile_id'')) (elements (get_item m ''artifacts''))) @
     [check_equal (PBool False) (get_item m ''raw_db_exported'')] @
     chain_checks m input"

definition validate_output_manifest :: "manifest_ports \<Rightarrow> row option \<Rightarrow> pyval \<Rightarrow> row py" where
  "validate_output_manifest mp input v =
     py_bind (all_of (check_object v # output_checks mp input (members v))) (\<lambda>_. Inr (members v))"

text \<open>The arguments of \<open>build_output_manifest\<close> beside the input manifest.\<close>

record output_arguments =
  oa_input_sha256 :: string
  oa_revision :: int
  oa_generated_at :: string
  oa_counters :: row
  oa_artifacts :: "pyval list"

definition output_document :: "row \<Rightarrow> output_arguments \<Rightarrow> row" where
  "output_document source a =
     [(''contract'', PStr ''container-output-manifest''), (''schema_version'', PStr ''1''),
      (''job_id'', PStr (text_in source ''job_id'')), (''idempotency_key'', get_item source ''idempotency_key''),
      (''account_id'', PStr (text_in source ''account_id'')), (''profile_id'', PStr (text_in source ''profile_id'')),
      (''trust_domain'', PStr (text_in source ''trust_domain'')), (''eligibility_status'', PStr (eligibility_status source)),
      (''input_manifest_sha256'', PStr (oa_input_sha256 a)), (''output_revision'', PInt (oa_revision a)),
      (''generated_at'', PStr (oa_generated_at a)), (''normalization'', normalization_value),
      (''counters'', PDict (map (\<lambda>k. (k, get_item (oa_counters a) k)) [''accepted_events'', ''rejected_events''])),
      (''artifacts'', PList (oa_artifacts a)), (''raw_db_exported'', PBool False)]"

definition argument_checks :: "manifest_ports \<Rightarrow> row \<Rightarrow> output_arguments \<Rightarrow> unit py list" where
  "argument_checks mp source a =
     [check_string is_sha256 (PStr (oa_input_sha256 a)),
      check_integer 1 (Some max_revision) (PInt (oa_revision a)),
      check_timestamp mp (PStr (oa_generated_at a)),
      check_keys [''accepted_events'', ''rejected_events''] (oa_counters a),
      check_integer 0 None (get_item (oa_counters a) ''accepted_events''),
      check_integer 0 None (get_item (oa_counters a) ''rejected_events''),
      raise_if (oa_artifacts a = []) (invalid ''output must contain at least one artifact'')] @
     concat (map (artifact_checks (text_in source ''profile_id'')) (oa_artifacts a))"

definition build_output_manifest :: "manifest_ports \<Rightarrow> pyval \<Rightarrow> output_arguments \<Rightarrow> row py" where
  "build_output_manifest mp input a =
     py_bind (validate_input_manifest mp input) (\<lambda>source.
     py_bind (all_of (argument_checks mp source a)) (\<lambda>_.
     py_bind (validate_output_manifest mp (Some source) (PDict (output_document source a))) (\<lambda>_.
       Inr (output_document source a))))"

subsection \<open>Reading a validated manifest\<close>

named_theorems check_simps

lemma all_of_Inr: "all_of cs = Inr u \<longleftrightarrow> (\<forall>c\<in>set cs. c = Inr ())"
  by (induction cs) (auto simp: py_bind_Inr_iff)

lemma all_of_append: "all_of (cs @ ds) = py_bind (all_of cs) (\<lambda>_. all_of ds)"
proof (induction cs)
  case (Cons c cs)
  then show ?case by (cases c) simp_all
qed simp

lemma all_of_Inl: "all_of cs = Inl e \<Longrightarrow> Inl e \<in> set cs"
  by (induction cs) (auto simp: py_bind_Inl_iff)

lemma check_equal_Inr [check_simps]: "check_equal expected v = Inr u \<longleftrightarrow> v = expected"
  by (auto simp: check_equal_def raise_if_def)

lemma check_string_Inr [check_simps]: "check_string p v = Inr u \<longleftrightarrow> (\<exists>s. v = PStr s \<and> s \<noteq> [] \<and> p s)"
  by (auto simp: check_string_def raise_if_def split: pyval.splits)

lemma check_object_Inr [check_simps]: "check_object v = Inr u \<longleftrightarrow> v = PDict (members v)"
  by (cases v) (auto simp: check_object_def raise_if_def members_def)

lemma check_keys_Inr [check_simps]: "check_keys names d = Inr u \<longleftrightarrow> set (map fst d) = set names"
  by (simp add: check_keys_def raise_if_def)

lemma check_integer_Inr [check_simps]:
  "check_integer low high v = Inr u \<longleftrightarrow> (\<exists>n. v = PInt n \<and> low \<le> n \<and> (\<forall>h. high = Some h \<longrightarrow> n \<le> h))"
  by (auto simp: check_integer_def raise_if_def split: pyval.splits option.splits)

lemma check_member_Inr [check_simps]: "check_member names v = Inr u \<longleftrightarrow> (\<exists>s. v = PStr s \<and> s \<in> set names)"
  by (auto simp: check_member_def raise_if_def split: pyval.splits)

lemma check_object_key_Inr [check_simps]:
  "check_object_key profile_id v = Inr u \<longleftrightarrow>
     (\<exists>s. v = PStr s \<and> s \<noteq> [] \<and> is_object_key s \<and> starts_with (profile_prefix profile_id) s)"
  unfolding check_object_key_def all_of_Inr by (cases v) (auto simp: check_string_Inr raise_if_def)

lemma check_timestamp_Inr [check_simps]:
  "check_timestamp mp v = Inr u \<longleftrightarrow> (\<exists>s. v = PStr s \<and> s \<noteq> [] \<and> has_date_prefix s \<and> mp_fromiso mp (replace_zulu s) = Some True)"
  by (simp add: check_timestamp_def check_string_Inr)

lemma raise_if_unit [check_simps]: "raise_if b e = Inr u \<longleftrightarrow> \<not> b"
  by (simp add: raise_if_def)

subsection \<open>Segments of an object key\<close>

lemma split_slash_plain: "CHR ''/'' \<notin> set a \<Longrightarrow> split_slash a = [a]"
  by (induction a) auto

lemma split_slash_append: "CHR ''/'' \<notin> set a \<Longrightarrow> split_slash (a @ CHR ''/'' # b) = a # split_slash b"
  by (induction a) auto

lemma uuid_plain:
  assumes "is_uuid7 s"
  shows "CHR ''/'' \<notin> set s"
proof
  assume "CHR ''/'' \<in> set s"
  then obtain i where i: "i < length s" "s ! i = CHR ''/''" by (metis in_set_conv_nth)
  have "(i, s ! i) \<in> set (zip [0..<36] s)"
    using i(1) assms by (auto simp: set_zip is_uuid7_def intro!: exI[of _ i])
  then have "uuid_char i (CHR ''/'')" using assms i(2) by (auto simp: is_uuid7_def list_all_iff)
  then show False by (auto simp: uuid_char_def is_hex_lower_def is_digit_def less_eq_char_def split: if_splits)
qed

definition inside_profile :: "string \<Rightarrow> string \<Rightarrow> bool" where
  "inside_profile profile_id key \<longleftrightarrow>
     (\<exists>rest. split_slash key = ''profiles'' # profile_id # rest \<and> rest \<noteq> []) \<and> ''..'' \<notin> set (split_slash key)"

lemma split_slash_nonempty: "split_slash s \<noteq> []"
  by (cases s) (auto split: list.splits)

lemma object_key_inside:
  assumes "is_uuid7 profile_id" and "is_object_key key" and "starts_with (profile_prefix profile_id) key"
  shows "inside_profile profile_id key"
proof -
  obtain rest where "key = profile_prefix profile_id @ rest"
    using assms(3) unfolding starts_with_def by (metis append_take_drop_id)
  then have "split_slash key = ''profiles'' # profile_id # split_slash rest"
    using split_slash_append[of "''profiles''" "profile_id @ CHR ''/'' # rest"] split_slash_append[OF uuid_plain[OF assms(1)], of rest]
    by (simp add: profile_prefix_def)
  then show ?thesis using assms(2) split_slash_nonempty by (simp add: inside_profile_def is_object_key_def)
qed

lemma inside_one_profile: "inside_profile p key \<Longrightarrow> inside_profile q key \<Longrightarrow> p = q"
  by (auto simp: inside_profile_def)

subsection \<open>Properties of validated manifests\<close>

lemma validated_input:
  assumes "validate_input_manifest mp v = Inr m"
  shows "v = PDict m" and "c \<in> set (input_checks mp m) \<Longrightarrow> c = Inr ()"
  using assms by (auto simp: validate_input_manifest_def py_bind_Inr_iff all_of_append all_of_Inr check_object_Inr)

lemma input_fields:
  assumes "validate_input_manifest mp v = Inr m"
  shows "\<exists>p. get_item m ''profile_id'' = PStr p \<and> is_uuid7 p"
    and "\<exists>s. get_item (bundle_of m) ''object_key'' = PStr s \<and> is_object_key s \<and> starts_with (profile_prefix (text_in m ''profile_id'')) s"
    and "\<exists>s. get_item (bundle_of m) ''sha256'' = PStr s \<and> is_sha256 s"
    and "\<exists>n. get_item (bundle_of m) ''size_bytes'' = PInt n \<and> 1 \<le> n \<and> n \<le> five_gib"
proof -
  let ?b = "members (get_item m ''input_bundle'')"
  have "check_string is_uuid7 (get_item m ''profile_id'') \<in> set (input_checks mp m)"
    "check_object_key (text_in m ''profile_id'') (get_item ?b ''object_key'') \<in> set (input_checks mp m)"
    "check_string is_sha256 (get_item ?b ''sha256'') \<in> set (input_checks mp m)"
    "check_size (get_item ?b ''size_bytes'') \<in> set (input_checks mp m)"
    by (simp_all add: input_checks_def bundle_checks_def Let_def)
  then have "check_string is_uuid7 (get_item m ''profile_id'') = Inr ()"
    "check_object_key (text_in m ''profile_id'') (get_item ?b ''object_key'') = Inr ()"
    "check_string is_sha256 (get_item ?b ''sha256'') = Inr ()" "check_size (get_item ?b ''size_bytes'') = Inr ()"
    using validated_input(2)[OF assms] by blast+
  then show "\<exists>p. get_item m ''profile_id'' = PStr p \<and> is_uuid7 p"
    "\<exists>s. get_item (bundle_of m) ''object_key'' = PStr s \<and> is_object_key s \<and> starts_with (profile_prefix (text_in m ''profile_id'')) s"
    "\<exists>s. get_item (bundle_of m) ''sha256'' = PStr s \<and> is_sha256 s"
    "\<exists>n. get_item (bundle_of m) ''size_bytes'' = PInt n \<and> 1 \<le> n \<and> n \<le> five_gib"
    by (auto simp: check_simps bundle_of_def check_size_def py_bind_Inr_iff)
qed

text \<open>The object keys a manifest names.\<close>

definition input_object_key :: "row \<Rightarrow> string" where
  "input_object_key m = text_in (bundle_of m) ''object_key''"

definition output_object_keys :: "row \<Rightarrow> string list" where
  "output_object_keys m = map (\<lambda>a. text_in (members a) ''object_key'') (elements (get_item m ''artifacts''))"

lemma input_key_inside:
  assumes "validate_input_manifest mp v = Inr m"
  shows "inside_profile (text_in m ''profile_id'') (input_object_key m)"
  using input_fields(1,2)[OF assms] object_key_inside by (auto simp: text_in_def input_object_key_def)

lemma validated_output:
  assumes "validate_output_manifest mp input v = Inr m"
  shows "v = PDict m" and "c \<in> set (output_checks mp input m) \<Longrightarrow> c = Inr ()"
  using assms by (auto simp: validate_output_manifest_def py_bind_Inr_iff all_of_Inr check_object_Inr)

lemma output_key_inside:
  assumes "validate_output_manifest mp input v = Inr m" and "key \<in> set (output_object_keys m)"
  shows "inside_profile (text_in m ''profile_id'') key"
proof -
  obtain a where a: "a \<in> set (elements (get_item m ''artifacts''))" and key: "key = text_in (members a) ''object_key''"
    using assms(2) by (auto simp: output_object_keys_def)
  have "check_object_key (text_in m ''profile_id'') (get_item (members a) ''object_key'') \<in> set (output_checks mp input m)"
    using a by (auto simp: output_checks_def artifact_checks_def Let_def)
  moreover have "check_string is_uuid7 (get_item m ''profile_id'') \<in> set (output_checks mp input m)" by (simp add: output_checks_def)
  ultimately have "check_object_key (text_in m ''profile_id'') (get_item (members a) ''object_key'') = Inr ()"
      and "check_string is_uuid7 (get_item m ''profile_id'') = Inr ()"
    using validated_output(2)[OF assms(1)] by blast+
  then show ?thesis using object_key_inside by (auto simp: check_simps key text_in_def)
qed

text \<open>C23: Profiles are isolated in the object store: the bundle of a validated input and the artifacts of a validated output lie below the
  directory of their profile, with no way up, so two profiles never name the same object.\<close>

theorem profiles_share_no_object:
  assumes "validate_input_manifest mp v = Inr m" and "validate_output_manifest mp input w = Inr out"
    and "validate_output_manifest mp input' w' = Inr out'"
    and "text_in m ''profile_id'' = text_in out ''profile_id''" and "text_in out ''profile_id'' \<noteq> text_in out' ''profile_id''"
  shows "insert (input_object_key m) (set (output_object_keys out)) \<inter> set (output_object_keys out') = {}
    \<and> (\<forall>key. key = input_object_key m \<or> key \<in> set (output_object_keys out) \<longrightarrow> inside_profile (text_in out ''profile_id'') key)"
proof -
  let ?keys = "insert (input_object_key m) (set (output_object_keys out))"
  have own: "inside_profile (text_in out ''profile_id'') key" if "key \<in> ?keys" for key
    using that input_key_inside[OF assms(1)] output_key_inside[OF assms(2)] assms(4) by auto
  have "key \<notin> set (output_object_keys out')" if "key \<in> ?keys" for key
    using inside_one_profile[OF own[OF that]] output_key_inside[OF assms(3), of key] assms(5) by blast
  then show ?thesis using own by blast
qed

text \<open>An accepted upload has every database exactly once, each below the directory of its profile.\<close>

theorem upload_has_each_database_once:
  assumes "validate_upload_manifest mp v = Inr m"
  shows "mset (file_names (get_item m ''files'')) = mset database_names"
proof -
  have ok: "c = Inr ()" if "c \<in> set (upload_checks mp m)" for c
    using assms that by (auto simp: validate_upload_manifest_def py_bind_Inr_iff all_of_Inr)
  let ?files = "get_item m ''files''"
  have "raise_if (case ?files of PList vs \<Rightarrow> length vs \<noteq> length database_names | _ \<Rightarrow> True)
        (invalid ''upload must contain exactly five database files'') = Inr ()"
    by (rule ok) (simp add: upload_checks_def)
  then have len: "length (file_names ?files) = length database_names"
    by (cases ?files) (auto simp: raise_if_unit file_names_def elements_def)
  have "raise_if (set (file_names ?files) \<noteq> set database_names)
        (invalid ''upload must contain every required database exactly once'') = Inr ()"
    by (rule ok) (simp add: upload_checks_def)
  then have sets: "set (file_names ?files) = set database_names" by (simp add: raise_if_unit)
  have distinct: "distinct database_names" by code_simp
  then have "card (set (file_names ?files)) = length (file_names ?files)" using sets len by (simp add: distinct_card)
  then have "distinct (file_names ?files)" by (rule card_distinct)
  then show ?thesis using sets distinct by (simp add: set_eq_iff_mset_eq_distinct)
qed

lemma validated_fields:
  assumes "validate_input_manifest mp v = Inr m"
  shows "\<exists>s. get_item m ''job_id'' = PStr s \<and> s \<noteq> [] \<and> is_uuid7 s" and "\<exists>s. get_item m ''account_id'' = PStr s \<and> s \<noteq> [] \<and> is_uuid7 s"
    and "\<exists>s. get_item m ''profile_id'' = PStr s \<and> s \<noteq> [] \<and> is_uuid7 s"
    and "\<exists>s. get_item m ''idempotency_key'' = PStr s \<and> s \<noteq> [] \<and> is_idempotency_key s"
    and "get_item m ''trust_domain'' = PStr ''official''"
    and "\<exists>s\<in>set eligibility_values. get_item (members (get_item m ''policy'')) ''eligibility_status'' = PStr s"
proof -
  let ?checks = "[check_string is_uuid7 (get_item m ''job_id''), check_string is_uuid7 (get_item m ''account_id''),
    check_string is_uuid7 (get_item m ''profile_id''), check_string is_idempotency_key (get_item m ''idempotency_key''),
    check_equal (PStr ''official'') (get_item m ''trust_domain''),
    check_member eligibility_values (get_item (members (get_item m ''policy'')) ''eligibility_status'')]"
  have "set ?checks \<subseteq> set (input_checks mp m)" by (simp add: input_checks_def policy_checks_def Let_def)
  then have "c = Inr ()" if "c \<in> set ?checks" for c using that validated_input(2)[OF assms] by blast
  then have "list_all (\<lambda>c. c = Inr ()) ?checks" unfolding list_all_iff by blast
  then show "\<exists>s. get_item m ''job_id'' = PStr s \<and> s \<noteq> [] \<and> is_uuid7 s" "\<exists>s. get_item m ''account_id'' = PStr s \<and> s \<noteq> [] \<and> is_uuid7 s"
    "\<exists>s. get_item m ''profile_id'' = PStr s \<and> s \<noteq> [] \<and> is_uuid7 s"
    "\<exists>s. get_item m ''idempotency_key'' = PStr s \<and> s \<noteq> [] \<and> is_idempotency_key s"
    "get_item m ''trust_domain'' = PStr ''official''"
    "\<exists>s\<in>set eligibility_values. get_item (members (get_item m ''policy'')) ''eligibility_status'' = PStr s"
    by (auto simp: check_simps)
qed

lemma document_keys: "map fst (output_document source a) = output_keys"
  by (simp add: output_document_def output_keys_def)

lemma document_items:
  "get_item (output_document source a) ''contract'' = PStr ''container-output-manifest''"
  "get_item (output_document source a) ''schema_version'' = PStr ''1''"
  "get_item (output_document source a) ''job_id'' = PStr (text_in source ''job_id'')"
  "get_item (output_document source a) ''idempotency_key'' = get_item source ''idempotency_key''"
  "get_item (output_document source a) ''account_id'' = PStr (text_in source ''account_id'')"
  "get_item (output_document source a) ''profile_id'' = PStr (text_in source ''profile_id'')"
  "get_item (output_document source a) ''trust_domain'' = PStr (text_in source ''trust_domain'')"
  "get_item (output_document source a) ''eligibility_status'' = PStr (eligibility_status source)"
  "get_item (output_document source a) ''input_manifest_sha256'' = PStr (oa_input_sha256 a)"
  "get_item (output_document source a) ''output_revision'' = PInt (oa_revision a)"
  "get_item (output_document source a) ''generated_at'' = PStr (oa_generated_at a)"
  "get_item (output_document source a) ''normalization'' = normalization_value"
  "get_item (output_document source a) ''counters'' = PDict (map (\<lambda>k. (k, get_item (oa_counters a) k)) [''accepted_events'', ''rejected_events''])"
  "get_item (output_document source a) ''artifacts'' = PList (oa_artifacts a)"
  "get_item (output_document source a) ''raw_db_exported'' = PBool False"
  by (simp_all add: output_document_def get_item_def)

lemma normalization_items:
  "check_object normalization_value = Inr ()"
  "map fst (members normalization_value) = [''version'', ''event_contract'']"
  "get_item (members normalization_value) ''version'' = PStr ''normalization-v1''"
  "get_item (members normalization_value) ''event_contract'' = PStr ''play-event.v1''"
  by (simp_all add: normalization_value_def members_def get_item_def check_object_def)

lemma members_counters: "members (PDict d) = d"
  by (simp add: members_def)

text \<open>C24: Whatever \<open>build_output_manifest\<close> assembles from a valid input and valid arguments passes the validation of outputs, its comparison
  with the input included: that last validation never raises, and the only failures are those of the input and of the arguments.\<close>

theorem built_output_is_valid:
  "build_output_manifest mp input a =
     py_bind (validate_input_manifest mp input) (\<lambda>source.
     py_bind (all_of (argument_checks mp source a)) (\<lambda>_. Inr (output_document source a)))"
proof (cases "validate_input_manifest mp input")
  case (Inr source)
  show ?thesis
  proof (cases "all_of (argument_checks mp source a)")
    case (Inr u)
    let ?doc = "output_document source a"
    have ok: "c = Inr ()" if "c \<in> set (argument_checks mp source a)" for c using Inr that by (simp add: all_of_Inr)
    note input = validated_fields[OF \<open>validate_input_manifest mp input = Inr source\<close>]
    have own: "check_string is_sha256 (PStr (oa_input_sha256 a)) = Inr ()" "check_integer 1 (Some max_revision) (PInt (oa_revision a)) = Inr ()"
      "check_timestamp mp (PStr (oa_generated_at a)) = Inr ()" "check_integer 0 None (get_item (oa_counters a) ''accepted_events'') = Inr ()"
      "check_integer 0 None (get_item (oa_counters a) ''rejected_events'') = Inr ()"
      "raise_if (oa_artifacts a = []) (invalid ''output must contain at least one artifact'') = Inr ()"
      by (rule ok, simp add: argument_checks_def)+
    have artifacts: "\<forall>c\<in>set (concat (map (artifact_checks (text_in source ''profile_id'')) (oa_artifacts a))). c = Inr ()"
      using ok by (auto simp: argument_checks_def)
    have pid: "text_in ?doc ''profile_id'' = text_in source ''profile_id''" by (simp add: text_in_def document_items)
    have status: "eligibility_status source \<in> set eligibility_values"
      using input(6) by (auto simp: eligibility_status_def text_in_def)
    have "\<forall>c\<in>set (chain_checks ?doc (Some source)). c = Inr ()"
      using input(1-5) by (auto simp: chain_checks_def document_items text_in_def raise_if_def)
    moreover have "\<forall>c\<in>set (output_checks mp None ?doc). c = Inr ()"
    proof -
      have fields: "check_string is_uuid7 (PStr (text_in source ''job_id'')) = Inr ()"
        "check_string is_idempotency_key (get_item source ''idempotency_key'') = Inr ()"
        "check_string is_uuid7 (PStr (text_in source ''account_id'')) = Inr ()"
        "check_string is_uuid7 (PStr (text_in source ''profile_id'')) = Inr ()"
        "check_equal (PStr ''official'') (PStr (text_in source ''trust_domain'')) = Inr ()"
        "check_member eligibility_values (PStr (eligibility_status source)) = Inr ()"
        using input(1-5) status by (auto simp: check_simps text_in_def)
      have keys: "check_keys output_keys ?doc = Inr ()" by (simp add: check_keys_Inr document_keys)
      show ?thesis
        unfolding output_checks_def document_items chain_checks_def pid
        using own artifacts fields keys
        by (simp add: ball_Un check_equal_Inr check_keys_Inr check_object_Inr raise_if_unit normalization_items members_counters
            elements_def text_in_def del: list.set_map)
    qed
    moreover have "output_checks mp (Some source) ?doc = output_checks mp None ?doc @ chain_checks ?doc (Some source)"
      by (simp add: output_checks_def chain_checks_def)
    ultimately have "all_of (check_object (PDict ?doc) # output_checks mp (Some source) ?doc) = Inr ()"
      unfolding all_of_Inr by (auto simp: check_object_Inr members_def)
    then have "validate_output_manifest mp (Some source) (PDict ?doc) = Inr ?doc"
      by (simp add: validate_output_manifest_def members_def)
    then show ?thesis using \<open>_ = Inr source\<close> Inr by (simp add: build_output_manifest_def)
  qed (simp add: build_output_manifest_def Inr)
qed (simp add: build_output_manifest_def)

subsection \<open>Refusals\<close>

definition unhashable :: "pyval \<Rightarrow> bool" where
  "unhashable v = (case v of PList _ \<Rightarrow> True | PDict _ \<Rightarrow> True | _ \<Rightarrow> False)"

definition refuses :: "unit py \<Rightarrow> bool" where
  "refuses c = (case c of Inl (ManifestError message code) \<Rightarrow> True | Inl _ \<Rightarrow> False | Inr _ \<Rightarrow> True)"

lemma refuses_raise_if [simp]: "refuses (raise_if b (ManifestError message code))"
  by (simp add: raise_if_def refuses_def)

lemma refuses_check [simp]:
  "refuses (check_object v)" "refuses (check_keys names d)" "refuses (check_string p v)" "refuses (check_integer low high v)"
  "refuses (check_equal expected v)" "refuses (check_game_mode v)" "refuses (check_timestamp mp v)"
proof -
  show string: "refuses (check_string p v)" for p by (auto simp: check_string_def raise_if_def refuses_def split: pyval.splits)
  show "refuses (check_timestamp mp v)" unfolding check_timestamp_def by (rule string)
qed (simp_all add: check_object_def check_keys_def check_integer_def check_equal_def check_game_mode_def)

lemma refuses_bind: "refuses c \<Longrightarrow> refuses d \<Longrightarrow> refuses (py_bind c (\<lambda>_. d))"
  by (cases c) (auto simp: refuses_def)

lemma refuses_all_of: "\<forall>c\<in>set cs. refuses c \<Longrightarrow> refuses (all_of cs)"
  by (induction cs) (auto simp: refuses_bind, simp add: refuses_def)

lemma refuses_more [simp]: "refuses (check_size v)" "refuses (check_object_key profile_id v)"
  unfolding check_size_def check_object_key_def by (auto intro!: refuses_bind refuses_all_of simp del: all_of.simps)

lemma refuses_member: "\<not> unhashable v \<Longrightarrow> refuses (check_member names v)"
  by (auto simp: check_member_def unhashable_def raise_if_def refuses_def split: pyval.splits)

lemma check_member_unhashable: "unhashable v \<Longrightarrow> check_member names v = Inl TypeError"
  by (auto simp: check_member_def unhashable_def split: pyval.splits)

lemma refuses_input:
  assumes "c \<in> set (input_checks mp m)"
  shows "refuses c \<or> c = check_member eligibility_values (get_item (members (get_item m ''policy'')) ''eligibility_status'')"
  using assms by (auto simp: input_checks_def bundle_checks_def policy_checks_def Let_def)

text \<open>A refused input is a \<open>ManifestError\<close>, with one exception: an \<open>eligibility_status\<close> that is an array or an object is looked up in a
  set and raises \<open>TypeError\<close>, which the callers do not expect.\<close>

theorem refused_input_is_manifest_error:
  assumes "validate_input_manifest mp v = Inl e"
  shows "(\<exists>message code. e = ManifestError message code)
    \<or> e = TypeError \<and> unhashable (get_item (members (get_item (members v) ''policy'')) ''eligibility_status'')"
proof -
  let ?status = "get_item (members (get_item (members v) ''policy'')) ''eligibility_status''"
  have "Inl e \<in> set ([raise_if (\<not> finite_value v) (invalid ''manifest contains a non-finite number''), check_object v] @ input_checks mp (members v))"
    using assms all_of_Inl unfolding validate_input_manifest_def py_bind_Inl_iff by blast
  then have "refuses (Inl e) \<or> Inl e = check_member eligibility_values ?status"
    using refuses_input[of "Inl e" mp "members v"] refuses_raise_if refuses_check(1)[of v] by auto
  then consider "refuses (Inl e)" | "Inl e = check_member eligibility_values ?status" "unhashable ?status"
    using refuses_member by metis
  then show ?thesis
  proof cases
    case 2
    then show ?thesis by (simp add: check_member_unhashable)
  qed (auto simp: refuses_def split: py_exn.splits)
qed

subsection \<open>Examples\<close>

definition example_profile :: string where "example_profile = ''0190a000-0000-7000-8000-000000000001''"
definition example_job :: string where "example_job = ''0190a000-0000-7000-9000-0000000000ff''"
definition example_hash :: string where "example_hash = concat (replicate 8 ''0123abcd'')"

definition example_ports :: manifest_ports where
  "example_ports = \<lparr>mp_fromiso = (\<lambda>s. Some True), mp_loads = (\<lambda>s. Some (PStr s, False))\<rparr>"

definition example_input :: "pyval \<Rightarrow> pyval" where
  "example_input status = PDict
     [(''contract'', PStr ''container-input-manifest''), (''schema_version'', PStr ''1''), (''job_id'', PStr example_job),
      (''idempotency_key'', PStr ''job-1''), (''account_id'', PStr example_job), (''profile_id'', PStr example_profile),
      (''trust_domain'', PStr ''official''), (''source_manifest_sha256'', PStr example_hash),
      (''input_bundle'', PDict [(''object_key'', PStr (profile_prefix example_profile @ ''in.zip'')), (''sha256'', PStr example_hash),
        (''size_bytes'', PInt 10), (''encryption'', PStr ''envelope-v1''), (''key_ref'', PStr ''k1'')]),
      (''requested_at'', PStr ''2026-01-01T00:00:00Z''), (''game_mode'', PStr ''SP7''),
      (''policy'', PDict [(''eligibility_status'', status), (''eligibility_reason_code'', PNone),
        (''eligibility_policy_version'', PStr ''1''), (''include_raw_db_in_model'', PBool False)])]"

definition example_artifact :: "string \<Rightarrow> pyval" where
  "example_artifact profile_id = PDict [(''kind'', PStr ''model_input''), (''object_key'', PStr (profile_prefix profile_id @ ''out.json'')),
     (''sha256'', PStr example_hash), (''size_bytes'', PInt 3), (''content_type'', PStr ''application/json'')]"

definition example_arguments :: "string \<Rightarrow> output_arguments" where
  "example_arguments profile_id = \<lparr>oa_input_sha256 = example_hash, oa_revision = 1, oa_generated_at = ''2026-01-01T00:00:01Z'',
     oa_counters = [(''accepted_events'', PInt 1), (''rejected_events'', PInt 0)], oa_artifacts = [example_artifact profile_id]\<rparr>"

definition example_output :: "string \<Rightarrow> row" where
  "example_output profile_id =
     output_document ((''profile_id'', PStr profile_id) # members (example_input (PStr ''eligible''))) (example_arguments profile_id)"

definition example_upload :: pyval where
  "example_upload = PDict
     [(''contract'', PStr ''five-db-upload-manifest''), (''schema_version'', PStr ''1''), (''manifest_id'', PStr example_job),
      (''account_id'', PStr example_job), (''profile_id'', PStr example_profile), (''created_at'', PStr ''2026-01-01T00:00:00Z''),
      (''game_mode'', PStr ''SP7''), (''trust_domain'', PStr ''self_hosted''),
      (''files'', PList (map (\<lambda>name. PDict [(''file_name'', PStr name), (''sha256'', PStr example_hash), (''size_bytes'', PInt 1),
        (''object_key'', PStr (profile_prefix example_profile @ name))]) (rev database_names))),
      (''snapshot'', PDict [(''static_snapshot'', PBool True), (''wal_present'', PBool False), (''shm_present'', PBool False),
        (''source_generation'', PStr example_job)]),
      (''encryption'', PDict [(''scheme'', PStr ''envelope-v1''), (''scope'', PStr ''profile'')]),
      (''privacy'', PDict [(''contains_bms'', PBool False), (''contains_replay'', PBool False), (''aggregate_eligible'', PBool False)])]"

lemma example_input_validates:
  "validate_input_manifest example_ports (example_input (PStr ''eligible'')) = Inr (members (example_input (PStr ''eligible'')))"
  by code_simp

lemma example_output_validates:
  "validate_output_manifest example_ports None (PDict (example_output example_profile)) = Inr (example_output example_profile)"
  "validate_output_manifest example_ports None (PDict (example_output example_job)) = Inr (example_output example_job)"
  by code_simp+

theorem profiles_share_no_object_witness:
  "insert (input_object_key (members (example_input (PStr ''eligible'')))) (set (output_object_keys (example_output example_profile)))
     \<inter> set (output_object_keys (example_output example_job)) = {}"
proof -
  have "text_in (members (example_input (PStr ''eligible''))) ''profile_id'' = text_in (example_output example_profile) ''profile_id''"
    "text_in (example_output example_profile) ''profile_id'' \<noteq> text_in (example_output example_job) ''profile_id''"
    by code_simp+
  then show ?thesis using profiles_share_no_object[OF example_input_validates example_output_validates] by simp
qed

theorem upload_has_each_database_once_witness:
  "mset (file_names (get_item (members example_upload) ''files'')) = mset database_names"
proof -
  have "validate_upload_manifest example_ports example_upload = Inr (members example_upload)" by code_simp
  then show ?thesis by (rule upload_has_each_database_once)
qed

theorem refused_input_is_manifest_error_witness:
  "validate_input_manifest example_ports (example_input (PList [])) = Inl TypeError
    \<and> unhashable (get_item (members (get_item (members (example_input (PList []))) ''policy'')) ''eligibility_status'')"
proof -
  have "validate_input_manifest example_ports (example_input (PList [])) = Inl TypeError" by code_simp
  then show ?thesis using refused_input_is_manifest_error by blast
qed

end
