(* ===== verification/Framed.thy ===== *)
theory Framed
  imports Manifest
begin

text \<open>
  The framed transport of the container (\<open>cloudflare/container/entrypoint.py\<close>): the request body is a magic, five files each with
  a JSON header, and in the second version a table context. The bytes come from a socket in pieces of any size, so both reading
  loops are partial functions: that they return is proved. The temporary directory is the list of the files that were written.
\<close>

subsection \<open>The body of a request\<close>

text \<open>\<open>by_bytes\<close> is what the client still sends before it closes; \<open>by_chops\<close> says how many bytes beyond the first the next reads return
  at most, and a read returns all it was asked for when the list has ended.\<close>

record body =
  by_bytes :: string
  by_chops :: "nat list"
  by_remaining :: nat

definition body_read :: "int \<Rightarrow> body \<Rightarrow> string \<times> body" where
  "body_read wanted b =
     (if by_remaining b = 0 then ([], b)
      else
        let requested = (if wanted < 0 then by_remaining b else min (nat wanted) (by_remaining b));
            n = (case by_chops b of [] \<Rightarrow> requested | c # cs \<Rightarrow> min requested (Suc c));
            chunk = take n (by_bytes b)
        in (chunk, b\<lparr>by_bytes := drop n (by_bytes b), by_chops := tl (by_chops b), by_remaining := by_remaining b - length chunk\<rparr>))"

abbreviation bad_input :: "string \<Rightarrow> py_exn" where
  "bad_input message \<equiv> ManifestError message ''invalid_input''"

partial_function (option) read_exact :: "nat \<Rightarrow> string \<Rightarrow> body \<Rightarrow> (string py \<times> body) option" where
  [code]: "read_exact remaining acc b =
     (if remaining = 0 then Some (Inr acc, b)
      else
        let (chunk, b') = body_read (int remaining) b in
        if chunk = [] then Some (Inl (bad_input ''framed input ended early''), b')
        else read_exact (remaining - length chunk) (acc @ chunk) b')"

definition mebibyte :: nat where "mebibyte = 1024 * 1024"

text \<open>The copy of one file, by pieces of a mebibyte.\<close>

partial_function (option) read_file :: "nat \<Rightarrow> string \<Rightarrow> body \<Rightarrow> (string py \<times> body) option" where
  [code]: "read_file remaining acc b =
     (if remaining = 0 then Some (Inr acc, b)
      else case read_exact (min mebibyte remaining) [] b of
          None \<Rightarrow> None
        | Some (Inl e, b') \<Rightarrow> Some (Inl e, b')
        | Some (Inr chunk, b') \<Rightarrow> read_file (remaining - length chunk) (acc @ chunk) b')"

text \<open>A sequence of reads; \<open>None\<close> is a read that never returns.\<close>

type_synonym 'a reading = "body \<Rightarrow> ('a py \<times> body) option"

definition rd_of :: "'a py \<Rightarrow> 'a reading" where
  "rd_of r = (\<lambda>b. Some (r, b))"

definition rd_bind :: "'a reading \<Rightarrow> ('a \<Rightarrow> 'b reading) \<Rightarrow> 'b reading" where
  "rd_bind m f = (\<lambda>b. case m b of None \<Rightarrow> None | Some (Inl e, b') \<Rightarrow> Some (Inl e, b') | Some (Inr x, b') \<Rightarrow> f x b')"

subsection \<open>Headers\<close>

record frame_ports =
  fp_runtime :: runtime
  fp_loads :: "string \<Rightarrow> pyval option"
  fp_manifest :: manifest_ports

definition magic1 :: string where "magic1 = ''ORAJA5DB1'' @ [CHR 0x0A]"
definition magic2 :: string where "magic2 = ''ORAJA5DB2'' @ [CHR 0x0A]"

text \<open>\<open>struct.unpack('>I', ...)\<close>\<close>

definition big_endian :: "string \<Rightarrow> nat" where
  "big_endian cs = foldl (\<lambda>a c. 256 * a + of_char c) 0 cs"

text \<open>\<open>isinstance(v, int)\<close> also holds of the booleans.\<close>

definition int_like :: "pyval \<Rightarrow> int option" where
  "int_like v = (case v of PInt n \<Rightarrow> Some n | PBool b \<Rightarrow> Some (of_bool b) | _ \<Rightarrow> None)"

definition header_keys :: "string list" where
  "header_keys = [''file_name'', ''sha256'', ''size_bytes'']"

definition read_header :: "frame_ports \<Rightarrow> string \<Rightarrow> row reading" where
  "read_header fp message =
     rd_bind (read_exact 4 []) (\<lambda>prefix.
     rd_bind (rd_of (raise_if (big_endian prefix < 1 \<or> 4096 < big_endian prefix) (bad_input message))) (\<lambda>_.
     rd_bind (read_exact (big_endian prefix) []) (\<lambda>bytes.
       rd_of (case fp_loads fp bytes of
           Some (PDict d) \<Rightarrow> if set (map fst d) = set header_keys then Inr d else Inl (bad_input message)
         | _ \<Rightarrow> Inl (bad_input message)))))"

text \<open>\<open>name not in DATABASE_NAMES or name in seen\<close>: a list or an object raises \<open>TypeError\<close>.\<close>

definition frame_name :: "string list \<Rightarrow> pyval \<Rightarrow> string py" where
  "frame_name seen v =
     (case v of PList _ \<Rightarrow> Inl TypeError | PDict _ \<Rightarrow> Inl TypeError
      | PStr s \<Rightarrow> if s \<notin> set database_names \<or> s \<in> set seen then Inl (bad_input ''framed file allowlist is invalid'') else Inr s
      | _ \<Rightarrow> Inl (bad_input ''framed file allowlist is invalid''))"

definition digest_field :: "string \<Rightarrow> pyval \<Rightarrow> string py" where
  "digest_field message v =
     (case v of PStr s \<Rightarrow> if is_sha256 s then Inr s else Inl (bad_input message) | _ \<Rightarrow> Inl (bad_input message))"

definition frame_size :: "pyval \<Rightarrow> nat py" where
  "frame_size v =
     (case int_like v of
        None \<Rightarrow> Inl (ManifestError ''framed file size is invalid'' ''payload_too_large'')
      | Some n \<Rightarrow> if n < 1 \<or> five_gib < n then Inl (ManifestError ''framed file size is invalid'' ''payload_too_large'') else Inr (nat n))"

subsection \<open>Files and table context\<close>

definition read_frame :: "frame_ports \<Rightarrow> string list \<Rightarrow> (string \<times> string) reading" where
  "read_frame fp seen =
     rd_bind (read_header fp ''framed file header is invalid'') (\<lambda>header.
     rd_bind (rd_of (frame_name seen (get_item header ''file_name''))) (\<lambda>name.
     rd_bind (rd_of (digest_field ''framed file digest is invalid'' (get_item header ''sha256''))) (\<lambda>digest.
     rd_bind (rd_of (frame_size (get_item header ''size_bytes''))) (\<lambda>n.
     rd_bind (read_file n []) (\<lambda>content.
     rd_bind (rd_of (raise_if (sha256_hex (fp_runtime fp) content \<noteq> digest) (bad_input ''framed file digest does not match''))) (\<lambda>_.
       rd_of (Inr (name, content))))))))"

fun read_frames :: "frame_ports \<Rightarrow> nat \<Rightarrow> (string \<times> string) list \<Rightarrow> (string \<times> string) list reading" where
  "read_frames fp 0 files = rd_of (Inr files)"
| "read_frames fp (Suc n) files = rd_bind (read_frame fp (map fst files)) (\<lambda>f. read_frames fp n (files @ [f]))"

definition max_table_context :: int where "max_table_context = 16 * 1024 * 1024"

definition body_remaining :: "nat reading" where
  "body_remaining = (\<lambda>b. Some (Inr (by_remaining b), b))"

definition context_size :: "row \<Rightarrow> nat \<Rightarrow> nat py" where
  "context_size header remaining =
     (case int_like (get_item header ''size_bytes'') of
        None \<Rightarrow> Inl (bad_input ''table context header is invalid'')
      | Some n \<Rightarrow>
          if get_item header ''file_name'' \<noteq> PStr ''table-context.json'' \<or> n < 1 \<or> max_table_context < n \<or> int remaining \<noteq> n
          then Inl (bad_input ''table context header is invalid'') else Inr (nat n))"

definition read_table_context :: "frame_ports \<Rightarrow> row reading" where
  "read_table_context fp =
     rd_bind (read_header fp ''table context header is invalid'') (\<lambda>header.
     rd_bind body_remaining (\<lambda>remaining.
     rd_bind (rd_of (context_size header remaining)) (\<lambda>n.
     rd_bind (rd_of (digest_field ''table context header is invalid'' (get_item header ''sha256''))) (\<lambda>digest.
     rd_bind (read_exact n []) (\<lambda>payload.
     rd_bind body_remaining (\<lambda>left.
     rd_bind (rd_of (raise_if (sha256_hex (fp_runtime fp) payload \<noteq> digest \<or> left \<noteq> 0) (bad_input ''table context digest does not match''))) (\<lambda>_.
       rd_of (py_bind (parse_json (fp_manifest fp) payload) (\<lambda>v.
         case v of PDict d \<Rightarrow> Inr d | _ \<Rightarrow> Inl (ManifestError ''table context must contain an object'' ''invalid_contract''))))))))))"

definition materialize_framed_input :: "frame_ports \<Rightarrow> (row option \<times> (string \<times> string) list) reading" where
  "materialize_framed_input fp =
     rd_bind (read_exact (length magic1) []) (\<lambda>magic.
     rd_bind (rd_of (raise_if (magic \<notin> {magic1, magic2}) (bad_input ''framed input magic is invalid''))) (\<lambda>_.
     rd_bind (read_frames fp (length database_names) []) (\<lambda>files.
     rd_bind (rd_of (raise_if (set (map fst files) \<noteq> set database_names) (bad_input ''framed input file set is invalid''))) (\<lambda>_.
       if magic = magic1 then
         rd_bind body_remaining (\<lambda>left.
         rd_bind (rd_of (raise_if (left \<noteq> 0) (bad_input ''framed input file set is invalid''))) (\<lambda>_.
           rd_of (Inr (None, files))))
       else rd_bind (read_table_context fp) (\<lambda>context. rd_of (Inr (Some context, files)))))))"

subsection \<open>What a read returns\<close>

text \<open>The bytes a reader can still get: no more than the announced length.\<close>

definition visible :: "body \<Rightarrow> string" where
  "visible b = take (by_remaining b) (by_bytes b)"

lemma body_read_visible:
  assumes "body_read (int n) b = (chunk, b')" and "n \<noteq> 0"
  shows "visible b = chunk @ visible b'" and "length chunk \<le> n" and "by_remaining b' = by_remaining b - length chunk"
    and "length chunk \<le> by_remaining b" and "chunk = [] \<Longrightarrow> visible b = []"
proof -
  have one: "take k (s :: string) @ take (r - length (take k s)) (drop k s) = take r s" if "k \<le> r" for k r s
  proof (cases "k \<le> length s")
    case True
    then show ?thesis using that by (metis append_take_drop_id diff_is_0_eq le_add_diff_inverse length_take min.absorb2 take_add)
  qed (use that in simp)
  show "visible b = chunk @ visible b'" "length chunk \<le> n" "by_remaining b' = by_remaining b - length chunk"
    "length chunk \<le> by_remaining b" "chunk = [] \<Longrightarrow> visible b = []"
    using assms one by (auto simp: body_read_def visible_def Let_def split: if_splits list.splits)
qed

lemma read_exact_visible:
  "if n \<le> length (visible b)
   then \<exists>b'. read_exact n acc b = Some (Inr (acc @ take n (visible b)), b') \<and> visible b' = drop n (visible b) \<and>
      by_remaining b' = by_remaining b - n
   else \<exists>b'. read_exact n acc b = Some (Inl (bad_input ''framed input ended early''), b')"
proof (induction n arbitrary: acc b rule: less_induct)
  case (less n)
  show ?case
  proof (cases "n = 0")
    case True
    then show ?thesis by (simp add: read_exact.simps)
  next
    case False
    obtain chunk c where read: "body_read (int n) b = (chunk, c)" by (metis prod.exhaust)
    note step = body_read_visible[OF read False]
    show ?thesis
    proof (cases "chunk = []")
      case True
      then show ?thesis using False read step(5) by (simp add: read_exact.simps[of n])
    next
      case more: False
      then have "n - length chunk < n" using False by (cases chunk) simp_all
      note IH = less.IH[OF this, of c "acc @ chunk"]
      have "read_exact n acc b = read_exact (n - length chunk) (acc @ chunk) c"
        using False read more by (simp add: read_exact.simps[of n])
      then show ?thesis using IH step(1-3) by (auto split: if_splits)
    qed
  qed
qed

lemma read_file_visible:
  "if n \<le> length (visible b)
   then \<exists>b'. read_file n acc b = Some (Inr (acc @ take n (visible b)), b') \<and> visible b' = drop n (visible b) \<and>
      by_remaining b' = by_remaining b - n
   else \<exists>b'. read_file n acc b = Some (Inl (bad_input ''framed input ended early''), b')"
proof (induction n arbitrary: acc b rule: less_induct)
  case (less n)
  show ?case
  proof (cases "n = 0")
    case True
    then show ?thesis by (simp add: read_file.simps)
  next
    case False
    let ?m = "min mebibyte n"
    have m: "?m \<noteq> 0" "?m \<le> n" using False by (simp_all add: mebibyte_def)
    show ?thesis
    proof (cases "?m \<le> length (visible b)")
      case short: False
      obtain c where "read_exact ?m [] b = Some (Inl (bad_input ''framed input ended early''), c)"
        using read_exact_visible[of ?m b "[]"] short by auto
      then have "read_file n acc b = Some (Inl (bad_input ''framed input ended early''), c)"
        using False by (subst read_file.simps) simp
      then show ?thesis using short m(2) by auto
    next
      case True
      then obtain c where c: "read_exact ?m [] b = Some (Inr (take ?m (visible b)), c)" "visible c = drop ?m (visible b)"
        "by_remaining c = by_remaining b - ?m"
        using read_exact_visible[of ?m b "[]"] by auto
      have chunk: "length (take ?m (visible b)) = ?m" using True by simp
      have "n - ?m < n" using m False by simp
      note IH = less.IH[OF this, of c "acc @ take ?m (visible b)"]
      have step: "read_file n acc b = read_file (n - ?m) (acc @ take ?m (visible b)) c"
        using False c(1) chunk by (simp add: read_file.simps[of n] del: length_take)
      have pieces: "take ?m s @ take (n - ?m) (drop ?m s) = take n s" "drop (n - ?m) (drop ?m s) = drop n s" for s :: string
        using m(2) by (simp_all add: take_drop[symmetric] append_take_drop_id flip: take_add)
      have lengths: "n - ?m \<le> length (drop ?m (visible b)) \<longleftrightarrow> n \<le> length (visible b)" using True m(2) by auto
      have remaining: "by_remaining c - (n - ?m) = by_remaining b - n" using c(3) m(2) by simp
      show ?thesis using IH unfolding step c(2) lengths remaining append_assoc pieces .
    qed
  qed
qed

subsection \<open>Readings return, and see only the bytes\<close>

definition view :: "body \<Rightarrow> string \<times> nat" where
  "view b = (visible b, by_remaining b)"

text \<open>A reading that always returns, with a result that does not depend on the pieces.\<close>

definition rd_pure :: "'a reading \<Rightarrow> bool" where
  "rd_pure m \<longleftrightarrow> (\<exists>f. \<forall>b. \<exists>b'. m b = Some (fst (f (view b)), b') \<and> (\<forall>x. fst (f (view b)) = Inr x \<longrightarrow> view b' = snd (f (view b))))"

named_theorems pure

lemma rd_pureI:
  assumes "\<And>b. \<exists>b'. m b = Some (r (view b), b') \<and> (\<forall>x. r (view b) = Inr x \<longrightarrow> view b' = t (view b))"
  shows "rd_pure m"
  unfolding rd_pure_def using assms by (intro exI[of _ "\<lambda>v. (r v, t v)"]) simp

lemma rd_pure_of [pure]: "rd_pure (rd_of r)"
  by (rule rd_pureI[where t = "\<lambda>v. v"]) (simp add: rd_of_def)

lemma rd_pure_remaining [pure]: "rd_pure body_remaining"
  by (rule rd_pureI[where r = "\<lambda>v. Inr (snd v)" and t = "\<lambda>v. v"]) (simp add: body_remaining_def view_def)

lemma rd_pure_read [pure]: "rd_pure (read_exact n acc)" "rd_pure (read_file n acc)"
proof -
  let ?r = "\<lambda>v. if n \<le> length (fst v) then Inr (acc @ take n (fst v)) else Inl (bad_input ''framed input ended early'')"
  let ?t = "\<lambda>v. (drop n (fst v), snd v - n)"
  show "rd_pure (read_exact n acc)"
    by (rule rd_pureI[where r = ?r and t = ?t]) (use read_exact_visible[of n _ acc] in \<open>auto simp: view_def split: if_splits\<close>)
  show "rd_pure (read_file n acc)"
    by (rule rd_pureI[where r = ?r and t = ?t]) (use read_file_visible[of n _ acc] in \<open>auto simp: view_def split: if_splits\<close>)
qed

lemma rd_pure_bind [pure]:
  assumes "rd_pure m" and "\<And>x. rd_pure (f x)"
  shows "rd_pure (rd_bind m f)"
proof -
  obtain g where g: "\<And>b. \<exists>b'. m b = Some (fst (g (view b)), b') \<and> (\<forall>x. fst (g (view b)) = Inr x \<longrightarrow> view b' = snd (g (view b)))"
    using assms(1) unfolding rd_pure_def by (elim exE) blast
  obtain h where h: "\<And>x b. \<exists>b'. f x b = Some (fst (h x (view b)), b') \<and> (\<forall>y. fst (h x (view b)) = Inr y \<longrightarrow> view b' = snd (h x (view b)))"
    using assms(2) unfolding rd_pure_def by metis
  let ?k = "\<lambda>v. case g v of (Inl e, w) \<Rightarrow> (Inl e, w) | (Inr x, w) \<Rightarrow> h x w"
  have "\<exists>b'. rd_bind m f b = Some (fst (?k (view b)), b') \<and> (\<forall>y. fst (?k (view b)) = Inr y \<longrightarrow> view b' = snd (?k (view b)))" for b
  proof -
    obtain r w where v: "g (view b) = (r, w)" by (metis prod.exhaust)
    obtain c where c: "m b = Some (r, c)" "\<forall>x. r = Inr x \<longrightarrow> view c = w" using g[of b] v by auto
    show ?thesis
    proof (cases r)
      case (Inl e)
      then show ?thesis using c v by (simp add: rd_bind_def)
    next
      case (Inr x)
      then have "view c = w" using c(2) by simp
      then show ?thesis using h[where x = x and b = c] c v Inr by (simp add: rd_bind_def)
    qed
  qed
  then show ?thesis unfolding rd_pure_def by (intro exI[of _ ?k] allI)
qed

lemma rd_pure_if [pure]: "rd_pure m \<Longrightarrow> rd_pure n \<Longrightarrow> rd_pure (if c then m else n)"
  by simp

lemma rd_pure_header [pure]: "rd_pure (read_header fp message)"
  unfolding read_header_def by (intro pure)

lemma rd_pure_frames [pure]: "rd_pure (read_frames fp n files)"
  by (induction n arbitrary: files) (simp_all add: pure read_frame_def)

lemma rd_pure_framed: "rd_pure (materialize_framed_input fp)"
  unfolding materialize_framed_input_def read_table_context_def by (intro pure)

text \<open>C26: The reader of a framed request always returns, whatever the client sends, and what it returns does not depend on the pieces in which
  the network delivers the bytes.\<close>

theorem framed_input_returns:
  "\<exists>r. \<forall>pieces. \<exists>b'. materialize_framed_input fp \<lparr>by_bytes = bytes, by_chops = pieces, by_remaining = announced\<rparr> = Some (r, b')"
proof -
  obtain f where f: "\<forall>b. \<exists>b'. materialize_framed_input fp b = Some (fst (f (view b)), b') \<and>
      (\<forall>x. fst (f (view b)) = Inr x \<longrightarrow> view b' = snd (f (view b)))"
    using rd_pure_framed[of fp] unfolding rd_pure_def by (elim exE) blast
  have "view \<lparr>by_bytes = bytes, by_chops = pieces, by_remaining = announced\<rparr> = (take announced bytes, announced)" for pieces
    by (simp add: view_def visible_def)
  then show ?thesis using f by metis
qed

subsection \<open>What a client sends\<close>

definition big_endian_bytes :: "nat \<Rightarrow> string" where
  "big_endian_bytes n = [char_of (n div 256 ^ 3), char_of (n div 256 ^ 2), char_of (n div 256), char_of n]"

definition frame_header :: "runtime \<Rightarrow> string \<Rightarrow> string \<Rightarrow> row" where
  "frame_header rt name content =
     [(''file_name'', PStr name), (''sha256'', PStr (sha256_hex rt content)), (''size_bytes'', PInt (int (length content)))]"

definition frame_bytes :: "runtime \<Rightarrow> (pyval \<Rightarrow> string) \<Rightarrow> string \<times> string \<Rightarrow> string" where
  "frame_bytes rt dumps f =
     (let h = dumps (PDict (frame_header rt (fst f) (snd f))) in big_endian_bytes (length h) @ h @ snd f)"

definition framed_bytes :: "runtime \<Rightarrow> (pyval \<Rightarrow> string) \<Rightarrow> (string \<times> string) list \<Rightarrow> string option \<Rightarrow> string" where
  "framed_bytes rt dumps files context =
     (case context of
        None \<Rightarrow> magic1 @ concat (map (frame_bytes rt dumps) files)
      | Some payload \<Rightarrow> magic2 @ concat (map (frame_bytes rt dumps) files) @ frame_bytes rt dumps (''table-context.json'', payload))"

text \<open>What the client's JSON and sizes have to satisfy for one frame.\<close>

definition frame_ok :: "frame_ports \<Rightarrow> (pyval \<Rightarrow> string) \<Rightarrow> int \<Rightarrow> string \<times> string \<Rightarrow> bool" where
  "frame_ok fp dumps limit f \<longleftrightarrow>
     (let v = PDict (frame_header (fp_runtime fp) (fst f) (snd f)) in
      fp_loads fp (dumps v) = Some v \<and> dumps v \<noteq> [] \<and> length (dumps v) \<le> 4096 \<and> snd f \<noteq> [] \<and> int (length (snd f)) \<le> limit \<and>
      is_sha256 (sha256_hex (fp_runtime fp) (snd f)))"

lemma big_endian_bytes: "n < 256 ^ 4 \<Longrightarrow> big_endian (big_endian_bytes n) = n"
proof -
  assume n: "n < 256 ^ 4"
  define a where "a = n div 256"
  define b where "b = n div 256 ^ 2"
  have "b = a div 256" "n div 256 ^ 3 = b div 256" unfolding a_def b_def by (simp_all flip: div_mult2_eq)
  moreover have "b div 256 < 256" using n unfolding b_def by (simp flip: div_mult2_eq add: less_mult_imp_div_less)
  ultimately have "256 * (256 * (256 * (b div 256) + b mod 256) + a mod 256) + n mod 256 = n"
    unfolding a_def by (metis mult_div_mod_eq)
  then show ?thesis
    using \<open>b div 256 < 256\<close> \<open>n div 256 ^ 3 = b div 256\<close> unfolding big_endian_def big_endian_bytes_def
    by (simp add: a_def b_def of_char_of[where ?'a = nat])
qed

text \<open>A reading that takes exactly the bytes \<open>s\<close> and gives \<open>x\<close>.\<close>

definition rd_gives :: "'a reading \<Rightarrow> string \<Rightarrow> 'a \<Rightarrow> bool" where
  "rd_gives m s x \<longleftrightarrow>
     (\<forall>b rest. visible b = s @ rest \<longrightarrow> (\<exists>b'. m b = Some (Inr x, b') \<and> visible b' = rest \<and> by_remaining b' = by_remaining b - length s))"

lemma rd_bind_step: "m b = Some (Inr x, c) \<Longrightarrow> rd_bind m f b = f x c"
  by (simp add: rd_bind_def)

lemma rd_bind_of: "rd_bind (rd_of (Inr x)) f b = f x b"
  by (simp add: rd_bind_def rd_of_def)

lemma rd_of_run: "rd_of r b = Some (r, b)"
  by (simp add: rd_of_def)

lemma rd_bind_remaining: "rd_bind body_remaining f b = f (by_remaining b) b"
  by (simp add: rd_bind_def body_remaining_def)

lemmas rd_run = rd_bind_of rd_of_run rd_bind_remaining

lemma rd_gives_of: "r = Inr x \<Longrightarrow> rd_gives (rd_of r) [] x"
  by (simp add: rd_gives_def rd_of_def)

lemma rd_gives_bind:
  assumes "rd_gives m s x" and "rd_gives (f x) t y"
  shows "rd_gives (rd_bind m f) (s @ t) y"
  unfolding rd_gives_def
proof (intro allI impI)
  fix b rest
  assume "visible b = (s @ t) @ rest"
  then have "visible b = s @ (t @ rest)" by simp
  then obtain c where c: "m b = Some (Inr x, c)" "visible c = t @ rest" "by_remaining c = by_remaining b - length s"
    using assms(1) unfolding rd_gives_def by blast
  obtain d where "f x c = Some (Inr y, d)" "visible d = rest" "by_remaining d = by_remaining c - length t"
    using assms(2) c(2) unfolding rd_gives_def by blast
  then show "\<exists>b'. rd_bind m f b = Some (Inr y, b') \<and> visible b' = rest \<and> by_remaining b' = by_remaining b - length (s @ t)"
    using c by (simp add: rd_bind_def)
qed

lemma rd_gives_seq: "rd_gives m s x \<Longrightarrow> rd_gives (f x) t y \<Longrightarrow> u = s @ t \<Longrightarrow> rd_gives (rd_bind m f) u y"
  by (simp add: rd_gives_bind)

lemma rd_givesD:
  assumes "rd_gives m s x" and "visible b = s @ rest" and "by_remaining b = length (visible b)"
  obtains b' where "m b = Some (Inr x, b')" and "visible b' = rest" and "by_remaining b' = length rest"
proof -
  obtain b' where "m b = Some (Inr x, b')" "visible b' = rest" "by_remaining b' = by_remaining b - length s"
    using assms(1,2) unfolding rd_gives_def by blast
  then show thesis using assms(2,3) by (intro that) simp_all
qed

lemma rd_gives_pure: "r = Inr x \<Longrightarrow> rd_gives (f x) t y \<Longrightarrow> rd_gives (rd_bind (rd_of r) f) t y"
  using rd_gives_bind[OF rd_gives_of] by fastforce

lemma rd_gives_read: "rd_gives (read_exact (length s) []) s s" "rd_gives (read_file (length s) []) s s"
proof -
  have "\<exists>b'. read_exact (length s) [] b = Some (Inr s, b') \<and> visible b' = rest \<and> by_remaining b' = by_remaining b - length s"
    "\<exists>b'. read_file (length s) [] b = Some (Inr s, b') \<and> visible b' = rest \<and> by_remaining b' = by_remaining b - length s"
    if "visible b = s @ rest" for b rest
    using read_exact_visible[of "length s" b "[]"] read_file_visible[of "length s" b "[]"] that by simp_all
  then show "rd_gives (read_exact (length s) []) s s" "rd_gives (read_file (length s) []) s s" unfolding rd_gives_def by blast+
qed

lemma frame_header_items:
  "get_item (frame_header rt name content) ''file_name'' = PStr name"
  "get_item (frame_header rt name content) ''sha256'' = PStr (sha256_hex rt content)"
  "get_item (frame_header rt name content) ''size_bytes'' = PInt (int (length content))"
  "set (map fst (frame_header rt name content)) = set header_keys"
  by (simp_all add: frame_header_def get_item_def header_keys_def)

lemma read_header_gives:
  assumes "frame_ok fp dumps limit f" and "h = dumps (PDict (frame_header (fp_runtime fp) (fst f) (snd f)))"
  shows "rd_gives (read_header fp message) (big_endian_bytes (length h) @ h) (frame_header (fp_runtime fp) (fst f) (snd f))"
proof -
  have h: "h \<noteq> []" "length h \<le> 4096" "fp_loads fp h = Some (PDict (frame_header (fp_runtime fp) (fst f) (snd f)))"
    using assms by (simp_all add: frame_ok_def Let_def)
  have n: "big_endian (big_endian_bytes (length h)) = length h" using h(2) by (intro big_endian_bytes) simp
  have prefix: "rd_gives (read_exact 4 []) (big_endian_bytes (length h)) (big_endian_bytes (length h))"
  proof -
    have "length (big_endian_bytes (length h)) = 4" by (simp add: big_endian_bytes_def)
    then show ?thesis using rd_gives_read(1)[of "big_endian_bytes (length h)"] by metis
  qed
  show ?thesis
    unfolding read_header_def
  proof (rule rd_gives_seq[OF prefix _ refl], rule rd_gives_pure[of _ "()"], goal_cases)
    case 1
    then show ?case using h n by (cases h) (simp_all add: raise_if_def)
  next
    case 2
    show ?case
      unfolding n
      by (rule rd_gives_seq[OF rd_gives_read(1)[of h]], rule rd_gives_of) (simp_all add: h(3) frame_header_items del: set_map)
  qed
qed

lemma read_frame_gives:
  assumes "frame_ok fp dumps five_gib (name, content)" and "name \<in> set database_names" and "name \<notin> set seen"
  shows "rd_gives (read_frame fp seen) (frame_bytes (fp_runtime fp) dumps (name, content)) (name, content)"
proof -
  let ?rt = "fp_runtime fp"
  let ?h = "dumps (PDict (frame_header ?rt name content))"
  have ok: "content \<noteq> []" "int (length content) \<le> five_gib" "is_sha256 (sha256_hex ?rt content)"
    using assms(1) by (simp_all add: frame_ok_def Let_def)
  have header: "rd_gives (read_header fp ''framed file header is invalid'') (big_endian_bytes (length ?h) @ ?h) (frame_header ?rt name content)"
    using read_header_gives[OF assms(1)] by simp
  have n: "frame_size (PInt (int (length content))) = Inr (length content)"
    using ok by (cases content) (simp_all add: frame_size_def int_like_def)
  show ?thesis
    unfolding read_frame_def
    apply (rule rd_gives_seq[OF header, where t = content])
     apply (unfold frame_header_items)
     apply (rule rd_gives_pure, simp add: frame_name_def assms(2,3))
     apply (rule rd_gives_pure, simp add: digest_field_def ok(3))
     apply (rule rd_gives_pure, rule n)
     apply (rule rd_gives_seq[OF rd_gives_read(2), where t = "[]"])
      apply (rule rd_gives_pure, simp add: raise_if_def)
      apply (rule rd_gives_of, simp)
     apply simp
    apply (simp add: frame_bytes_def Let_def)
    done
qed

lemma read_frames_gives:
  assumes "\<forall>f\<in>set files. frame_ok fp dumps five_gib f" and "set (map fst files) \<subseteq> set database_names"
    and "distinct (map fst (before @ files))"
  shows "rd_gives (read_frames fp (length files) before) (concat (map (frame_bytes (fp_runtime fp) dumps) files)) (before @ files)"
  using assms
proof (induction files arbitrary: before)
  case Nil
  show ?case by (simp add: rd_gives_of)
next
  case (Cons f files)
  obtain name content where f: "f = (name, content)" by (metis prod.exhaust)
  have one: "rd_gives (read_frame fp (map fst before)) (frame_bytes (fp_runtime fp) dumps f) f"
    unfolding f using Cons.prems by (intro read_frame_gives) (auto simp: f)
  have more: "rd_gives (read_frames fp (length files) (before @ [f])) (concat (map (frame_bytes (fp_runtime fp) dumps) files)) (before @ f # files)"
    using Cons.IH[of "before @ [f]"] Cons.prems by simp
  show ?case using rd_gives_bind[where f = "\<lambda>f. read_frames fp (length files) (before @ [f])", OF one more] by simp
qed

lemma read_table_context_gives:
  assumes "frame_ok fp dumps max_table_context (''table-context.json'', payload)" and "parse_json (fp_manifest fp) payload = Inr (PDict d)"
    and "visible b = frame_bytes (fp_runtime fp) dumps (''table-context.json'', payload)" and "by_remaining b = length (visible b)"
  shows "\<exists>b'. read_table_context fp b = Some (Inr d, b')"
proof -
  let ?rt = "fp_runtime fp"
  let ?header = "frame_header ?rt ''table-context.json'' payload"
  let ?h = "dumps (PDict ?header)"
  have ok: "payload \<noteq> []" "int (length payload) \<le> max_table_context" "is_sha256 (sha256_hex ?rt payload)"
    using assms(1) by (simp_all add: frame_ok_def Let_def)
  have bytes: "visible b = (big_endian_bytes (length ?h) @ ?h) @ payload" using assms(3) by (simp add: frame_bytes_def Let_def)
  have header: "rd_gives (read_header fp ''table context header is invalid'') (big_endian_bytes (length ?h) @ ?h) ?header"
    using read_header_gives[OF assms(1)] by simp
  obtain c where c: "read_header fp ''table context header is invalid'' b = Some (Inr ?header, c)" "visible c = payload"
      "by_remaining c = length payload"
    using rd_givesD[OF header bytes assms(4)] by blast
  obtain e where e: "read_exact (length payload) [] c = Some (Inr payload, e)" "by_remaining e = 0"
    using rd_givesD[OF rd_gives_read(1)[of payload], of c "[]"] c(2,3) by auto
  have n: "context_size ?header (length payload) = Inr (length payload)"
    using ok(1,2) by (cases payload) (simp_all add: context_size_def frame_header_items int_like_def)
  have digest: "digest_field ''table context header is invalid'' (get_item ?header ''sha256'') = Inr (sha256_hex ?rt payload)"
    by (simp add: frame_header_items digest_field_def ok(3))
  have header_read: "rd_bind (read_header fp ''table context header is invalid'') f b = f ?header c" for f :: "row \<Rightarrow> row reading"
    using c(1) by (rule rd_bind_step)
  have payload_read: "rd_bind (read_exact (length payload) []) f c = f payload e" for f :: "string \<Rightarrow> row reading"
    using e(1) by (rule rd_bind_step)
  have n: "rd_of (context_size ?header (length payload)) = rd_of (Inr (length payload))" using n by simp
  show ?thesis
    unfolding read_table_context_def header_read rd_bind_remaining c(3) n digest e(2) rd_bind_of payload_read
    by (simp only: raise_if_def if_False rd_run e(2) payload_read assms(2) py_bind_simps pyval.case simp_thms not_False_eq_True, simp)
qed

lemma framed_files_gives:
  assumes "mset (map fst files) = mset database_names" and "\<forall>f\<in>set files. frame_ok fp dumps five_gib f"
  shows "rd_gives (read_frames fp (length database_names) []) (concat (map (frame_bytes (fp_runtime fp) dumps) files)) files"
    and "set (map fst files) = set database_names"
proof -
  show same: "set (map fst files) = set database_names" using assms(1) by (rule mset_eq_setD)
  have "distinct database_names" by code_simp
  then have "distinct (map fst ([] @ files))" using mset_eq_imp_distinct_iff[OF assms(1)] by simp
  moreover have "length files = length database_names" using assms(1) by (metis length_map mset_eq_length)
  ultimately show "rd_gives (read_frames fp (length database_names) []) (concat (map (frame_bytes (fp_runtime fp) dumps) files)) files"
    using read_frames_gives[OF assms(2), of "[]"] same by simp
qed

lemma framed_materialised:
  assumes "mset (map fst files) = mset database_names" and "\<forall>f\<in>set files. frame_ok fp dumps five_gib f"
    and "\<forall>p. payload = Some p \<longrightarrow> frame_ok fp dumps max_table_context (''table-context.json'', p)"
    and "map_option (parse_json (fp_manifest fp)) payload = map_option (\<lambda>d. Inr (PDict d)) context"
    and "bytes = framed_bytes (fp_runtime fp) dumps files payload"
  shows "\<exists>b'. materialize_framed_input fp \<lparr>by_bytes = bytes, by_chops = pieces, by_remaining = length bytes\<rparr> = Some (Inr (context, files), b')"
proof -
  let ?rt = "fp_runtime fp"
  let ?frames = "concat (map (frame_bytes ?rt dumps) files)"
  let ?b = "\<lparr>by_bytes = bytes, by_chops = pieces, by_remaining = length bytes\<rparr>"
  note files = framed_files_gives[OF assms(1,2)]
  have b: "visible ?b = bytes" "by_remaining ?b = length bytes" by (simp_all add: visible_def)
  have step: "\<exists>d. read_exact (length magic1) [] ?b = Some (Inr magic, c) \<and> read_frames fp (length database_names) [] c = Some (Inr files, d) \<and>
      visible d = rest \<and> by_remaining d = length rest" if "visible c = ?frames @ rest" "by_remaining c = length (visible c)"
      "read_exact (length magic1) [] ?b = Some (Inr magic, c)" for magic rest c
    using rd_givesD[OF files(1) that(1,2)] that(3) by metis
  have first: "\<exists>c. read_exact (length magic1) [] ?b = Some (Inr magic, c) \<and> visible c = rest \<and> by_remaining c = length rest"
    if "bytes = magic @ rest" "length magic = length magic1" for magic rest
    using rd_givesD[OF rd_gives_read(1)[of magic], of ?b rest] b that by metis
  show ?thesis
  proof (cases payload)
    case None
    then have "bytes = magic1 @ ?frames @ []" using assms(5) by (simp add: framed_bytes_def)
    then obtain c where c: "read_exact (length magic1) [] ?b = Some (Inr magic1, c)" "visible c = ?frames @ []" "by_remaining c = length (?frames @ [])"
      using first[of magic1 "?frames @ []"] by blast
    then obtain d where d: "read_frames fp (length database_names) [] c = Some (Inr files, d)" "by_remaining d = 0"
      using step[of c "[]" magic1] by auto
    have "context = None" using None assms(4) by (cases "context") simp_all
    then show ?thesis
      unfolding materialize_framed_input_def rd_bind_step[of "read_exact (length magic1) []", OF c(1)]
      by (simp add: rd_run raise_if_def rd_bind_step[of "read_frames fp (length database_names) []", OF d(1)] d(2) files(2) del: set_map)
  next
    case (Some p)
    then obtain x where x: "context = Some x" "parse_json (fp_manifest fp) p = Inr (PDict x)" using assms(4) by (cases "context") auto
    have p: "frame_ok fp dumps max_table_context (''table-context.json'', p)" using Some assms(3) by blast
    let ?last = "frame_bytes ?rt dumps (''table-context.json'', p)"
    have "bytes = magic2 @ ?frames @ ?last" using assms(5) Some by (simp add: framed_bytes_def)
    moreover have magic2: "length magic2 = length magic1" "magic2 \<noteq> magic1" by (simp_all add: magic1_def magic2_def)
    ultimately obtain c where c: "read_exact (length magic1) [] ?b = Some (Inr magic2, c)" "visible c = ?frames @ ?last"
        "by_remaining c = length (?frames @ ?last)"
      using first[of magic2 "?frames @ ?last"] by blast
    then obtain d where d: "read_frames fp (length database_names) [] c = Some (Inr files, d)" "visible d = ?last" "by_remaining d = length ?last"
      using step[of c ?last magic2] by auto
    obtain e where "read_table_context fp d = Some (Inr x, e)"
      using read_table_context_gives[OF p x(2) d(2)] d(2,3) by auto
    then show ?thesis
      unfolding materialize_framed_input_def rd_bind_step[of "read_exact (length magic1) []", OF c(1)]
      by (simp add: rd_run raise_if_def rd_bind_step[of "read_frames fp (length database_names) []", OF d(1)] rd_bind_step[of "read_table_context fp"] files(2) magic2(2) x(1) del: set_map)
  qed
qed

text \<open>C27: The framed transport is lossless: five databases in any order, with or without a table context, are materialised exactly as the client framed
  them, in whatever pieces the network delivers the bytes.\<close>

theorem framed_round_trip:
  assumes "mset (map fst files) = mset database_names" and "\<forall>f\<in>set files. frame_ok fp dumps five_gib f"
    and "\<forall>p. payload = Some p \<longrightarrow> frame_ok fp dumps max_table_context (''table-context.json'', p)"
    and "map_option (parse_json (fp_manifest fp)) payload = map_option (\<lambda>d. Inr (PDict d)) context"
    and "bytes = framed_bytes (fp_runtime fp) dumps files payload"
  shows "\<exists>b'. materialize_framed_input fp \<lparr>by_bytes = bytes, by_chops = pieces, by_remaining = length bytes\<rparr> = Some (Inr (context, files), b')"
  by (rule framed_materialised[OF assms])

subsection \<open>What is accepted\<close>

lemma rd_bind_Inr: "rd_bind m f b = Some (Inr y, d) \<longleftrightarrow> (\<exists>x c. m b = Some (Inr x, c) \<and> f x c = Some (Inr y, d))"
  by (auto simp: rd_bind_def split: option.splits sum.splits)

lemma rd_of_Inr: "rd_of r b = Some (Inr x, c) \<longleftrightarrow> r = Inr x \<and> c = b"
  by (auto simp: rd_of_def)

lemma frame_name_Inr: "frame_name seen v = Inr s \<Longrightarrow> s \<in> set database_names \<and> s \<notin> set seen"
  by (auto simp: frame_name_def split: pyval.splits if_splits)

lemma frame_size_Inr: "frame_size v = Inr n \<Longrightarrow> 1 \<le> n \<and> int n \<le> five_gib"
  by (auto simp: frame_size_def split: option.splits if_splits)

lemma read_file_length: "read_file n [] b = Some (Inr content, c) \<Longrightarrow> length content = n"
  using read_file_visible[of n b "[]"] by (auto split: if_splits)

lemma read_frame_accepts:
  assumes "read_frame fp seen b = Some (Inr (name, content), c)"
  shows "name \<in> set database_names" and "name \<notin> set seen" and "content \<noteq> []" and "int (length content) \<le> five_gib"
proof -
  obtain header b1 n b2 where steps: "frame_name seen (get_item header ''file_name'') = Inr name"
      "frame_size (get_item header ''size_bytes'') = Inr n" "read_file n [] b1 = Some (Inr content, b2)"
    using assms unfolding read_frame_def rd_bind_Inr rd_of_Inr by auto
  then show "name \<in> set database_names" "name \<notin> set seen" "content \<noteq> []" "int (length content) \<le> five_gib"
    using frame_name_Inr[OF steps(1)] frame_size_Inr[OF steps(2)] read_file_length[OF steps(3)] by auto
qed

lemma read_frames_accepts:
  assumes "read_frames fp n before b = Some (Inr files, c)"
  shows "\<exists>new. files = before @ new \<and> (\<forall>f\<in>set new. snd f \<noteq> [] \<and> int (length (snd f)) \<le> five_gib) \<and>
    (distinct (map fst before) \<longrightarrow> distinct (map fst files))"
  using assms
proof (induction n arbitrary: before b)
  case (Suc n)
  then obtain name content b1 where f: "read_frame fp (map fst before) b = Some (Inr (name, content), b1)"
      "read_frames fp n (before @ [(name, content)]) b1 = Some (Inr files, c)"
    by (auto simp: rd_bind_Inr)
  obtain new where new: "files = (before @ [(name, content)]) @ new" "\<forall>f\<in>set new. snd f \<noteq> [] \<and> int (length (snd f)) \<le> five_gib"
      "distinct (map fst (before @ [(name, content)])) \<longrightarrow> distinct (map fst files)"
    using Suc.IH[OF f(2)] by blast
  note read_frame_accepts[OF f(1)]
  then show ?case using new by (intro exI[of _ "(name, content) # new"]) auto
qed (simp add: rd_of_Inr)

text \<open>A framed request that is accepted has every database exactly once and within its bounds; anything else is refused.\<close>

lemma framed_files_complete:
  assumes "materialize_framed_input fp b = Some (Inr (ctx, files), b')"
  shows "mset (map fst files) = mset database_names \<and> (\<forall>f\<in>set files. snd f \<noteq> [] \<and> int (length (snd f)) \<le> five_gib)"
proof -
  obtain c d where frames: "read_frames fp (length database_names) [] c = Some (Inr files, d)"
      and all: "set (map fst files) = set database_names"
    using assms unfolding materialize_framed_input_def rd_bind_Inr rd_of_Inr raise_if_Inr
    by (auto simp: rd_bind_Inr rd_of_Inr raise_if_def split: if_splits)
  have "distinct (map fst files)" "\<forall>f\<in>set files. snd f \<noteq> [] \<and> int (length (snd f)) \<le> five_gib"
    using read_frames_accepts[OF frames] by auto
  moreover have "distinct database_names" by code_simp
  ultimately show ?thesis using all set_eq_iff_mset_eq_distinct[of "map fst files" database_names] by blast
qed

subsection \<open>Examples\<close>

definition sample_files :: "(string \<times> string) list" where
  "sample_files = map (\<lambda>name. (name, ''x'')) (rev database_names)"

definition sample_frame_runtime :: runtime where
  "sample_frame_runtime = sample_runtime\<lparr>sha256_hex := (\<lambda>s. example_hash)\<rparr>"

definition sample_dumps :: "pyval \<Rightarrow> string" where
  "sample_dumps v = text_in (members v) ''file_name''"

definition sample_frame_ports :: frame_ports where
  "sample_frame_ports = \<lparr>fp_runtime = sample_frame_runtime,
     fp_loads = (\<lambda>s. Some (PDict (frame_header sample_frame_runtime s ''x''))),
     fp_manifest = \<lparr>mp_fromiso = (\<lambda>s. Some True), mp_loads = (\<lambda>s. Some (PDict [(s, PNone)], False))\<rparr>\<rparr>"

lemma sample_frames_ok:
  "mset (map fst sample_files) = mset database_names" "\<forall>f\<in>set sample_files. frame_ok sample_frame_ports sample_dumps five_gib f"
  "frame_ok sample_frame_ports sample_dumps max_table_context (''table-context.json'', ''x'')"
  "fp_runtime sample_frame_ports = sample_frame_runtime"
proof -
  have one: "frame_ok sample_frame_ports sample_dumps limit (name, ''x'')" if "name \<noteq> []" "length name \<le> 4096" "1 \<le> limit" for name limit
  proof -
    have "is_sha256 example_hash" by code_simp
    then show ?thesis using that
      by (simp add: frame_ok_def sample_frame_ports_def sample_dumps_def members_def text_in_def frame_header_items
          sample_frame_runtime_def)
  qed
  show "mset (map fst sample_files) = mset database_names" by (simp add: sample_files_def database_names_def)
  show "\<forall>f\<in>set sample_files. frame_ok sample_frame_ports sample_dumps five_gib f"
    using one by (simp add: sample_files_def database_names_def five_gib_def)
  show "frame_ok sample_frame_ports sample_dumps max_table_context (''table-context.json'', ''x'')"
    using one by (simp add: max_table_context_def)
  show "fp_runtime sample_frame_ports = sample_frame_runtime" by (simp add: sample_frame_ports_def)
qed

definition sample_body :: "string option \<Rightarrow> body" where
  "sample_body payload = \<lparr>by_bytes = framed_bytes sample_frame_runtime sample_dumps sample_files payload, by_chops = [0, 3, 1],
     by_remaining = length (framed_bytes sample_frame_runtime sample_dumps sample_files payload)\<rparr>"

theorem framed_round_trip_witness:
  "\<exists>b'. materialize_framed_input sample_frame_ports (sample_body (Some ''x'')) = Some (Inr (Some [(''x'', PNone)], sample_files), b')"
proof -
  have "map_option (parse_json (fp_manifest sample_frame_ports)) (Some ''x'') = map_option (\<lambda>d. Inr (PDict d)) (Some [(''x'', PNone)])"
    by (simp add: sample_frame_ports_def parse_json_def)
  then show ?thesis
    unfolding sample_body_def sample_frames_ok(4)[symmetric]
    by (intro framed_round_trip[OF sample_frames_ok(1,2)]) (use sample_frames_ok(3) in simp_all)
qed

end
