(* ===== verification/Bundle.thy ===== *)
theory Bundle
  imports Manifest
begin

text \<open>
  The input bundle of a container job (\<open>container/adapter.py\<close>): bounded copies, the archive with its five databases, and the check of
  the directory that the job works on. Cancellation is a list that says what the next checks of the token see. A file is its bytes;
  symbolic links inside the working directory do not occur.
\<close>

subsection \<open>Failures and limits\<close>

definition integrity_error :: py_exn where
  "integrity_error = ContainerError ''invalid_input'' False 422"

definition job_cancelled :: py_exn where
  "job_cancelled = ContainerError ''job_cancelled'' False 409"

definition limit_exceeded :: py_exn where
  "limit_exceeded = ContainerError ''resource_limit_exceeded'' False 413"

definition unavailable :: py_exn where
  "unavailable = ContainerError ''temporary_unavailable'' True 503"

record job_limits =
  jl_max_input_bytes :: nat
  jl_max_database_bytes :: nat
  jl_max_temp_bytes :: nat
  jl_max_output_bytes :: nat
  jl_max_runtime_seconds :: real

definition check_limits :: "job_limits \<Rightarrow> job_limits py" where
  "check_limits l =
     py_bind (raise_if (jl_max_input_bytes l = 0 \<or> jl_max_database_bytes l = 0 \<or> jl_max_temp_bytes l = 0 \<or> jl_max_output_bytes l = 0)
       (ValueError ''Container byte limits must be positive'')) (\<lambda>_.
     py_bind (raise_if (jl_max_runtime_seconds l \<le> 0) (ValueError ''max_runtime_seconds must be positive'')) (\<lambda>_. Inr l))"

type_synonym cancels = "bool list"

definition check_token :: "cancels \<Rightarrow> unit py \<times> cancels" where
  "check_token cs = (case cs of [] \<Rightarrow> (Inr (), []) | c # rest \<Rightarrow> (raise_if c job_cancelled, rest))"

subsection \<open>Copies\<close>

text \<open>What \<open>_iter_chunks\<close> accepts: bytes, a file, a reader by its successive answers, or an iterable; \<open>None\<close> is an object that is not bytes.\<close>

datatype byte_source = Whole string | Reader "string option list" | Chunks "string option list"

fun take_reads :: "string option list \<Rightarrow> string option list" where
  "take_reads [] = []"
| "take_reads (c # cs) = (if c = Some [] then [] else c # take_reads cs)"

fun iter_chunks :: "byte_source \<Rightarrow> string option list" where
  "iter_chunks (Whole s) = [Some s]"
| "iter_chunks (Reader cs) = take_reads cs"
| "iter_chunks (Chunks cs) = filter (\<lambda>c. c \<noteq> Some []) cs"

text \<open>The copied bytes stand for the digest and the total of the code; both are computed from them.\<close>

fun copy_chunks :: "nat \<Rightarrow> string \<Rightarrow> string option list \<Rightarrow> cancels \<Rightarrow> string py \<times> cancels" where
  "copy_chunks limit copied [] cs = (Inr copied, cs)"
| "copy_chunks limit copied (None # rest) cs = (Inl integrity_error, cs)"
| "copy_chunks limit copied (Some chunk # rest) cs =
     (case check_token cs of
        (Inl e, cs') \<Rightarrow> (Inl e, cs')
      | (Inr u, cs') \<Rightarrow>
          if limit < length copied + length chunk then (Inl limit_exceeded, cs')
          else copy_chunks limit (copied @ chunk) rest cs')"

definition copy_limited :: "nat \<Rightarrow> byte_source \<Rightarrow> cancels \<Rightarrow> string py \<times> cancels" where
  "copy_limited limit source cs = copy_chunks limit [] (iter_chunks source) cs"

subsection \<open>The archive\<close>

text \<open>The segments of a \<open>PurePosixPath\<close>: empty ones and dots are dropped.\<close>

definition path_parts :: "string \<Rightarrow> string list" where
  "path_parts s = filter (\<lambda>p. p \<noteq> [] \<and> p \<noteq> ''.'') (split_slash s)"

definition is_absolute :: "string \<Rightarrow> bool" where
  "is_absolute s \<longleftrightarrow> starts_with ''/'' s"

definition safe_member_name :: "string \<Rightarrow> string py" where
  "safe_member_name name =
     (if is_absolute name \<or> ''..'' \<in> set (path_parts name) then Inl integrity_error
      else case path_parts name of [p] \<Rightarrow> (if p \<in> set database_names then Inr p else Inl integrity_error) | _ \<Rightarrow> Inl integrity_error)"

record archive_member =
  am_name :: string
  am_regular :: bool
  am_declared_size :: nat
  am_content :: byte_source

text \<open>An archive that neither library can open, or that turns out broken at a member, raises an error the code translates.\<close>

datatype archive = Archive "archive_member list" | Broken_Archive

fun extract_members ::
    "job_limits \<Rightarrow> (string \<times> string) list \<Rightarrow> archive_member list \<Rightarrow> cancels \<Rightarrow> (string \<times> string) list py \<times> cancels" where
  "extract_members limits files [] cs = (Inr files, cs)"
| "extract_members limits files (m # ms) cs =
     (case safe_member_name (am_name m) of
        Inl e \<Rightarrow> (Inl e, cs)
      | Inr name \<Rightarrow>
          if \<not> am_regular m \<or> name \<in> set (map fst files) then (Inl integrity_error, cs)
          else if jl_max_database_bytes limits < am_declared_size m then (Inl limit_exceeded, cs)
          else
            (case copy_limited (jl_max_database_bytes limits) (am_content m) cs of
               (Inl e, cs') \<Rightarrow> (Inl e, cs')
             | (Inr content, cs') \<Rightarrow> extract_members limits (files @ [(name, content)]) ms cs'))"

definition extract_archive :: "job_limits \<Rightarrow> archive \<Rightarrow> cancels \<Rightarrow> (string \<times> string) list py \<times> cancels" where
  "extract_archive limits a cs =
     (case a of
        Broken_Archive \<Rightarrow> (Inl integrity_error, cs)
      | Archive ms \<Rightarrow>
          (case extract_members limits [] ms cs of
             (Inl e, cs') \<Rightarrow> (Inl e, cs')
           | (Inr files, cs') \<Rightarrow>
               (if set (map fst files) \<noteq> set database_names then Inl integrity_error else Inr files, cs')))"

subsection \<open>The directory of the job\<close>

datatype dir_entry = File string | Directory

type_synonym directory = "(string \<times> dir_entry) list"

definition check_database :: "runtime \<Rightarrow> job_limits \<Rightarrow> (string \<times> row) list \<Rightarrow> directory \<Rightarrow> string \<Rightarrow> unit py" where
  "check_database rt limits expected dir name =
     (case map_of dir name of
        Some (File content) \<Rightarrow>
          if content = [] then Inl integrity_error
          else if jl_max_database_bytes limits < length content then Inl limit_exceeded
          else (case map_of expected name of
              None \<Rightarrow> Inr ()
            | Some e \<Rightarrow>
                py_bind (int_item e ''size_bytes'') (\<lambda>n.
                  raise_if (int (length content) \<noteq> n \<or> PStr (sha256_hex rt content) \<noteq> get_item e ''sha256'') integrity_error))
      | _ \<Rightarrow> Inl integrity_error)"

definition expected_files :: "row \<Rightarrow> (string \<times> row) list" where
  "expected_files upload = map (\<lambda>f. (text_in (members f) ''file_name'', members f)) (elements (get_item upload ''files''))"

definition verify_bundle_directory ::
    "runtime \<Rightarrow> manifest_ports \<Rightarrow> job_limits \<Rightarrow> pyval option \<Rightarrow> directory option \<Rightarrow> unit py" where
  "verify_bundle_directory rt mp limits upload dir =
     (case dir of
        None \<Rightarrow> Inl integrity_error
      | Some d \<Rightarrow>
          py_bind (raise_if (list_ex (\<lambda>name. list_ex (\<lambda>suffix. map_of d (name @ suffix) \<noteq> None) [''-wal'', ''-shm'', ''-journal''])
            database_names) integrity_error) (\<lambda>_.
          py_bind (raise_if (list_ex (\<lambda>(name, e). e = Directory) d) integrity_error) (\<lambda>_.
          py_bind (raise_if (list_ex (\<lambda>(name, e). name \<notin> set database_names) d) integrity_error) (\<lambda>_.
          py_bind (case upload of None \<Rightarrow> Inr [] | Some u \<Rightarrow> py_bind (validate_upload_manifest mp u) (\<lambda>m. Inr (expected_files m))) (\<lambda>expected.
            all_of (map (check_database rt limits expected d) database_names))))))"

subsection \<open>Materialising the bundle\<close>

text \<open>What the caller hands over, and the two ports of the adapter: the object store by the object under the key of the manifest, and the decryptor.
  The archive of a decrypted file is what \<open>zipfile\<close> and \<open>tarfile\<close> find in it.\<close>

datatype job_bundle = From_Directory directory | From_Source byte_source | From_Store

record bundle_ports =
  bp_store :: "(string \<Rightarrow> byte_source option) option"
  bp_decrypt :: "(string \<Rightarrow> string \<Rightarrow> string \<Rightarrow> byte_source option) option"
  bp_archive :: "string \<Rightarrow> archive"

definition source_from_store :: "bundle_ports \<Rightarrow> row \<Rightarrow> byte_source py" where
  "source_from_store bp m =
     (case bp_store bp of
        None \<Rightarrow> Inl unavailable
      | Some get \<Rightarrow> (case get (text_in (bundle_of m) ''object_key'') of None \<Rightarrow> Inl unavailable | Some s \<Rightarrow> Inr s))"

definition decrypted_bundle :: "bundle_ports \<Rightarrow> job_limits \<Rightarrow> row \<Rightarrow> string \<Rightarrow> cancels \<Rightarrow> string py \<times> cancels" where
  "decrypted_bundle bp limits m encrypted cs =
     (case bp_decrypt bp of
        None \<Rightarrow> (Inl unavailable, cs)
      | Some decrypt \<Rightarrow>
          (case decrypt encrypted (text_in m ''profile_id'') (text_in (bundle_of m) ''key_ref'') of
             None \<Rightarrow> (Inl integrity_error, cs)
           | Some plain \<Rightarrow> copy_limited (jl_max_temp_bytes limits) plain cs))"

definition materialize_bundle ::
    "runtime \<Rightarrow> manifest_ports \<Rightarrow> bundle_ports \<Rightarrow> job_limits \<Rightarrow> row \<Rightarrow> job_bundle \<Rightarrow> pyval option \<Rightarrow> cancels \<Rightarrow> directory py \<times> cancels" where
  "materialize_bundle rt mp bp limits m given upload cs =
     (case given of
        From_Directory d \<Rightarrow> (py_bind (verify_bundle_directory rt mp limits upload (Some d)) (\<lambda>_. Inr d), cs)
      | _ \<Rightarrow>
          (case (case given of From_Source s \<Rightarrow> Inr s | _ \<Rightarrow> source_from_store bp m) of
             Inl e \<Rightarrow> (Inl e, cs)
           | Inr source \<Rightarrow>
               let size_bytes = (case get_item (bundle_of m) ''size_bytes'' of PInt n \<Rightarrow> nat n | _ \<Rightarrow> 0) in
               (case copy_limited (min size_bytes (jl_max_input_bytes limits)) source cs of
                  (Inl e, cs1) \<Rightarrow> (Inl e, cs1)
                | (Inr encrypted, cs1) \<Rightarrow>
                    if length encrypted \<noteq> size_bytes \<or> sha256_hex rt encrypted \<noteq> text_in (bundle_of m) ''sha256'' then (Inl integrity_error, cs1)
                    else
                      (case decrypted_bundle bp limits m encrypted cs1 of
                         (Inl e, cs2) \<Rightarrow> (Inl e, cs2)
                       | (Inr plain, cs2) \<Rightarrow>
                           (case extract_archive limits (bp_archive bp plain) cs2 of
                              (Inl e, cs3) \<Rightarrow> (Inl e, cs3)
                            | (Inr files, cs3) \<Rightarrow>
                                let d = map (\<lambda>(name, content). (name, File content)) files in
                                (py_bind (verify_bundle_directory rt mp limits upload (Some d)) (\<lambda>_. Inr d), cs3))))))"

subsection \<open>What the job works on\<close>

lemma copy_chunks_bounded: "copy_chunks limit copied chunks cs = (Inr s, cs') \<Longrightarrow> length copied \<le> limit \<Longrightarrow> length s \<le> limit"
  by (induction limit copied chunks cs rule: copy_chunks.induct) (auto split: prod.splits sum.splits if_splits)

text \<open>A copy that succeeds has copied every byte of its source.\<close>

lemma copy_chunks_whole:
  "copy_chunks limit copied chunks cs = (Inr s, cs') \<Longrightarrow> s = copied @ concat (map the chunks) \<and> None \<notin> set chunks"
  by (induction limit copied chunks cs rule: copy_chunks.induct) (auto split: prod.splits sum.splits if_splits)

lemma check_database_Inr:
  assumes "check_database rt limits expected dir name = Inr u"
  shows "\<exists>content. map_of dir name = Some (File content) \<and> content \<noteq> [] \<and> length content \<le> jl_max_database_bytes limits \<and>
    (\<forall>e. map_of expected name = Some e \<longrightarrow> int_item e ''size_bytes'' = Inr (int (length content)) \<and>
       get_item e ''sha256'' = PStr (sha256_hex rt content))"
  using assms
  by (auto simp: check_database_def py_bind_Inr_iff raise_if_Inr split: option.splits dir_entry.splits if_splits)

lemma verified_directory:
  assumes "verify_bundle_directory rt mp limits upload (Some d) = Inr u"
  shows "set (map fst d) = set database_names" and "name \<in> set database_names \<Longrightarrow> \<exists>content. map_of d name = Some (File content) \<and>
      content \<noteq> [] \<and> length content \<le> jl_max_database_bytes limits"
    and "upload = Some v \<Longrightarrow> \<exists>m. validate_upload_manifest mp v = Inr m \<and>
      (\<forall>name\<in>set database_names. check_database rt limits (expected_files m) d name = Inr ())"
proof -
  obtain expected where step: "(case upload of None \<Rightarrow> Inr [] | Some u \<Rightarrow> py_bind (validate_upload_manifest mp u) (\<lambda>m. Inr (expected_files m))) = Inr expected"
      and checks: "\<forall>name\<in>set database_names. check_database rt limits expected d name = Inr ()"
      and names: "\<not> list_ex (\<lambda>(name, e). name \<notin> set database_names) d"
    using assms by (auto simp: verify_bundle_directory_def py_bind_Inr_iff raise_if_Inr all_of_Inr)
  have found: "\<exists>content. map_of d name = Some (File content) \<and> content \<noteq> [] \<and> length content \<le> jl_max_database_bytes limits"
    if "name \<in> set database_names" for name
    using check_database_Inr checks that by blast
  have "name \<in> set (map fst d)" if "name \<in> set database_names" for name
    using found[OF that] by (auto dest!: map_of_SomeD intro: rev_image_eqI)
  moreover have "name \<in> set database_names" if "name \<in> set (map fst d)" for name
    using names that by (auto simp: list_ex_iff)
  ultimately show "set (map fst d) = set database_names" by blast
  show "\<exists>content. map_of d name = Some (File content) \<and> content \<noteq> [] \<and> length content \<le> jl_max_database_bytes limits"
    if "name \<in> set database_names" using found[OF that] .
  show "\<exists>m. validate_upload_manifest mp v = Inr m \<and> (\<forall>name\<in>set database_names. check_database rt limits (expected_files m) d name = Inr ())"
    if "upload = Some v" using step checks that by (auto simp: py_bind_Inr_iff)
qed

lemma materialized_verified:
  assumes "materialize_bundle rt mp bp limits m given upload cs = (Inr d, cs')"
  shows "verify_bundle_directory rt mp limits upload (Some d) = Inr ()"
  using assms by (auto simp: materialize_bundle_def Let_def py_bind_Inr_iff split: job_bundle.splits sum.splits prod.splits if_splits)

lemma upload_sizes:
  assumes "validate_upload_manifest mp v = Inr m" and "f \<in> set (elements (get_item m ''files''))"
  shows "\<exists>n. get_item (members f) ''size_bytes'' = PInt n"
proof -
  have "\<exists>names. set (file_checks p names f) \<subseteq> set (files_checks p ns fs)" if "f \<in> set fs" for p ns fs
    using that
  proof (induction fs arbitrary: ns)
    case (Cons g fs)
    show ?case
    proof (cases "f = g")
      case False
      then obtain names where "set (file_checks p names f) \<subseteq> set (files_checks p (ns @ [text_in (members g) ''file_name'']) fs)"
        using Cons by (metis set_ConsD)
      then show ?thesis by (intro exI[of _ names]) auto
    qed auto
  qed simp
  then obtain names where "set (file_checks (text_in m ''profile_id'') names f) \<subseteq>
      set (files_checks (text_in m ''profile_id'') [] (elements (get_item m ''files'')))"
    using assms(2) by blast
  moreover have "check_size (get_item (members f) ''size_bytes'') \<in> set (file_checks (text_in m ''profile_id'') names f)"
    by (simp add: file_checks_def Let_def)
  moreover have "set (files_checks (text_in m ''profile_id'') [] (elements (get_item m ''files''))) \<subseteq> set (upload_checks mp m)"
    by (auto simp: upload_checks_def)
  moreover have "\<forall>c\<in>set (upload_checks mp m). c = Inr ()"
    using assms(1) by (auto simp: validate_upload_manifest_def py_bind_Inr_iff all_of_Inr)
  ultimately have "check_size (get_item (members f) ''size_bytes'') = Inr ()" by blast
  then show ?thesis by (auto simp: check_size_def py_bind_Inr_iff check_integer_Inr)
qed

lemma expected_file:
  assumes "validate_upload_manifest mp v = Inr m" and "f \<in> set (elements (get_item m ''files''))"
  shows "map_of (expected_files m) (text_in (members f) ''file_name'') = Some (members f)"
    and "text_in (members f) ''file_name'' \<in> set database_names"
proof -
  have names: "mset (file_names (get_item m ''files'')) = mset database_names" by (rule upload_has_each_database_once[OF assms(1)])
  have keys: "map fst (expected_files m) = file_names (get_item m ''files'')" by (simp add: expected_files_def file_names_def o_def)
  have "distinct database_names" by code_simp
  then have "distinct (map fst (expected_files m))" unfolding keys using mset_eq_imp_distinct_iff[OF names] by simp
  moreover have "(text_in (members f) ''file_name'', members f) \<in> set (expected_files m)" using assms(2) by (simp add: expected_files_def)
  ultimately show "map_of (expected_files m) (text_in (members f) ''file_name'') = Some (members f)" by simp
  have "text_in (members f) ''file_name'' \<in> set (file_names (get_item m ''files''))" using assms(2) by (simp add: file_names_def)
  then show "text_in (members f) ''file_name'' \<in> set database_names" using mset_eq_setD[OF names] by blast
qed

lemma materialized_source:
  assumes "materialize_bundle rt mp bp limits m (From_Source source) upload cs = (Inr d, cs')"
  shows "let bytes = concat (map the (iter_chunks source)) in
    sha256_hex rt bytes = text_in (bundle_of m) ''sha256'' \<and> length bytes \<le> jl_max_input_bytes limits"
proof -
  obtain encrypted cs1 where copy: "copy_limited (min (case get_item (bundle_of m) ''size_bytes'' of PInt n \<Rightarrow> nat n | _ \<Rightarrow> 0) (jl_max_input_bytes limits))
        source cs = (Inr encrypted, cs1)" and digest: "sha256_hex rt encrypted = text_in (bundle_of m) ''sha256''"
    using assms unfolding materialize_bundle_def Let_def job_bundle.case sum.case
    by (auto split: prod.splits sum.splits if_splits)
  then show ?thesis
    using copy_chunks_whole copy_chunks_bounded unfolding copy_limited_def Let_def by fastforce
qed


definition sample_hash_runtime :: runtime where
  "sample_hash_runtime = sample_runtime\<lparr>sha256_hex := (\<lambda>s. example_hash)\<rparr>"

definition sample_limits :: job_limits where
  "sample_limits = \<lparr>jl_max_input_bytes = 100, jl_max_database_bytes = 100, jl_max_temp_bytes = 100, jl_max_output_bytes = 100, jl_max_runtime_seconds = 1\<rparr>"

definition sample_bundle_ports :: bundle_ports where
  "sample_bundle_ports = \<lparr>bp_store = None, bp_decrypt = None, bp_archive = (\<lambda>s. Broken_Archive)\<rparr>"

definition sample_directory :: directory where
  "sample_directory = map (\<lambda>name. (name, File ''x'')) database_names"


end
