(* ===== verification/Catalog.thy ===== *)
theory Catalog
  imports Table_Refresh Manifest Domain
begin

text \<open>
  The table context of a container job (\<open>container/adapter.py\<close>): the settings of the profile, the difficulty tables and the
  classifications that the caller sends along, checked against their digests and stored in the assistant database of the job.
\<close>

abbreviation contract_error :: py_exn where
  "contract_error \<equiv> ContainerError ''invalid_contract'' False 422"

abbreviation tables_unavailable :: py_exn where
  "tables_unavailable \<equiv> ContainerError ''table_input_unavailable'' False 422"

definition is_text :: "(string \<Rightarrow> bool) \<Rightarrow> pyval \<Rightarrow> bool" where
  "is_text p v = (case v of PStr s \<Rightarrow> p s | _ \<Rightarrow> False)"

definition none_or :: "(pyval \<Rightarrow> bool) \<Rightarrow> pyval \<Rightarrow> bool" where
  "none_or p v \<longleftrightarrow> v = PNone \<or> p v"

definition text_between :: "nat \<Rightarrow> nat \<Rightarrow> pyval \<Rightarrow> bool" where
  "text_between low high = is_text (\<lambda>s. low \<le> utf8_length s \<and> utf8_length s \<le> high)"

definition int_between :: "int \<Rightarrow> int \<Rightarrow> pyval \<Rightarrow> bool" where
  "int_between low high v = (case v of PInt n \<Rightarrow> low \<le> n \<and> n \<le> high | _ \<Rightarrow> False)"

definition rows_up_to :: "nat \<Rightarrow> pyval \<Rightarrow> bool" where
  "rows_up_to n v = (case v of PList vs \<Rightarrow> 1 \<le> length vs \<and> length vs \<le> n | _ \<Rightarrow> False)"

definition text_option :: "pyval \<Rightarrow> string option" where
  "text_option v = (case v of PStr s \<Rightarrow> Some s | _ \<Rightarrow> None)"

subsection \<open>Settings\<close>

fun settings_error :: "py_exn \<Rightarrow> py_exn" where
  "settings_error (KeyError k) = contract_error"
| "settings_error TypeError = contract_error"
| "settings_error (ValueError m) = contract_error"
| "settings_error e = e"

text \<open>\<open>DomainValidationError\<close> is a \<open>RuntimeError\<close>, so the handler does not catch it.\<close>

definition parse_settings :: "runtime \<Rightarrow> (string \<Rightarrow> bool) \<Rightarrow> row \<Rightarrow> row \<Rightarrow> profile_settings py" where
  "parse_settings rt zone_ok ctx settings =
     py_bind (case map_of ctx ''settings_revision'' of None \<Rightarrow> Inr 0 | Some v \<Rightarrow> py_int v) (\<lambda>revision.
     py_bind (raise_if (revision < 1) (ValueError '''')) (\<lambda>_.
     py_bind (str_item rt settings ''timezone'') (\<lambda>zone.
     py_bind (int_item settings ''target_judged'') (\<lambda>target.
     py_bind (int_item settings ''reserve_judged'') (\<lambda>reserve.
     py_bind (str_item rt settings ''readiness'') (\<lambda>readiness.
     py_bind (check_profile_settings zone_ok
       \<lparr>ps_timezone = zone, ps_target_judged = target, ps_reserve_judged = reserve, ps_readiness = readiness\<rparr>) (\<lambda>s.
     py_bind (raise_if (target < 10000 \<or> 1000000 < target) (ValueError '''')) (\<lambda>_.
     py_bind (raise_if (reserve < 0 \<or> min 500000 target < reserve) (ValueError '''')) (\<lambda>_.
       Inr s)))))))))"

definition table_settings :: "runtime \<Rightarrow> (string \<Rightarrow> bool) \<Rightarrow> row option \<Rightarrow> profile_settings option py" where
  "table_settings rt zone_ok ctx =
     (case ctx of
        None \<Rightarrow> Inr None
      | Some c \<Rightarrow>
          (case get_item c ''settings'' of
             PDict settings \<Rightarrow>
               (case parse_settings rt zone_ok c settings of Inl e \<Rightarrow> Inl (settings_error e) | Inr s \<Rightarrow> Inr (Some s))
           | _ \<Rightarrow> Inl tables_unavailable))"

subsection \<open>Difficulty tables\<close>

definition table_row_ok :: "row \<Rightarrow> bool" where
  "table_row_ok r \<longleftrightarrow>
     text_between 1 64 (get_item r ''table_id'') \<and> text_between 1 64 (get_item r ''level'') \<and> is_text is_sha256 (get_item r ''sha256'') \<and>
     none_or (is_text is_md5) (get_item r ''md5'') \<and> text_between 0 512 (get_item r ''title'')"

definition table_row_of :: "int \<Rightarrow> pyval \<Rightarrow> table_entry_row py" where
  "table_row_of fetched_at v =
     (case v of
        PDict r \<Rightarrow>
          if table_row_ok r then
            Inr \<lparr>tr_table_id = text_in r ''table_id'', tr_level = text_in r ''level'', tr_sha256 = text_in r ''sha256'',
              tr_md5 = get_item r ''md5'', tr_title = get_item r ''title'', tr_fetched_at = fetched_at\<rparr>
          else Inl contract_error
      | _ \<Rightarrow> Inl contract_error)"

definition accept_tables :: "runtime \<Rightarrow> row \<Rightarrow> int \<Rightarrow> table_entry_row list py" where
  "accept_tables rt ctx fetched_at =
     (let rows = get_item ctx ''catalog_entries''; digest = get_item ctx ''catalog_manifest_sha256'' in
      py_bind (raise_if (\<not> rows_up_to 20000 rows \<or> \<not> is_text is_sha256 digest) tables_unavailable) (\<lambda>_.
      py_bind (canonical_json rt rows) (\<lambda>json.
      py_bind (raise_if (PStr (sha256_hex rt json) \<noteq> digest) contract_error) (\<lambda>_.
        py_mapM (table_row_of fetched_at) (elements rows)))))"

definition seed_table_catalog :: "runtime \<Rightarrow> row \<Rightarrow> int \<Rightarrow> catalog_db \<Rightarrow> unit py \<times> catalog_db" where
  "seed_table_catalog rt ctx fetched_at db =
     (case accept_tables rt ctx fetched_at of
        Inl e \<Rightarrow> (Inl e, db)
      | Inr rows \<Rightarrow> transaction (\<lambda>db. py_for insert_table_entry (db\<lparr>ca_table_entries := []\<rparr>) rows) db)"

subsection \<open>Classification sources\<close>

text \<open>An accepted source: the row it will get, without its counts, and the specification of its scales.\<close>

record accepted_source =
  ac_spec :: source_spec
  ac_page_url :: string
  ac_header_url :: "string option"
  ac_data_url :: "string option"
  ac_digest :: string

definition https_url :: "string \<Rightarrow> bool" where
  "https_url s \<longleftrightarrow> starts_with ''https://'' s \<and> utf8_length s \<le> 2048"

definition supported_source :: "pyval \<Rightarrow> source_spec option" where
  "supported_source v = (case v of PStr s \<Rightarrow> List.find (\<lambda>x. cx_source_id x = s) default_classification_sources | _ \<Rightarrow> None)"

text \<open>Every supported identifier and family matches the two patterns of the code.\<close>

definition source_ok :: "(string \<times> accepted_source) list \<Rightarrow> row \<Rightarrow> bool" where
  "source_ok accepted r \<longleftrightarrow>
     (case supported_source (get_item r ''source_id'') of
        None \<Rightarrow> False
      | Some spec \<Rightarrow>
          cx_source_id spec \<notin> set (map fst accepted) \<and> get_item r ''family'' = PStr (cx_family spec) \<and>
          is_text https_url (get_item r ''page_url'') \<and> none_or (is_text https_url) (get_item r ''header_url'') \<and>
          none_or (is_text https_url) (get_item r ''data_url'') \<and> is_text is_sha256 (get_item r ''content_digest''))"

definition accepted_source_of :: "row \<Rightarrow> accepted_source" where
  "accepted_source_of r =
     \<lparr>ac_spec = the (supported_source (get_item r ''source_id'')), ac_page_url = text_in r ''page_url'',
      ac_header_url = text_option (get_item r ''header_url''), ac_data_url = text_option (get_item r ''data_url''),
      ac_digest = text_in r ''content_digest''\<rparr>"

fun accept_sources :: "(string \<times> accepted_source) list \<Rightarrow> pyval list \<Rightarrow> (string \<times> accepted_source) list py" where
  "accept_sources accepted [] = Inr accepted"
| "accept_sources accepted (v # vs) =
     (case v of
        PDict r \<Rightarrow>
          if source_ok accepted r then accept_sources (accepted @ [(text_in r ''source_id'', accepted_source_of r)]) vs
          else Inl contract_error
      | _ \<Rightarrow> Inl contract_error)"

subsection \<open>Classification rows\<close>

definition row_fields_ok :: "(string \<times> accepted_source) list \<Rightarrow> row \<Rightarrow> bool" where
  "row_fields_ok accepted r \<longleftrightarrow>
     is_text (\<lambda>s. s \<in> set (map fst accepted)) (get_item r ''source_id'') \<and>
     none_or (is_text is_sha256) (get_item r ''sha256'') \<and> none_or (is_text is_md5) (get_item r ''md5'') \<and>
     \<not> (get_item r ''sha256'' = PNone \<and> get_item r ''md5'' = PNone)"

definition row_values_ok :: "row \<Rightarrow> bool" where
  "row_values_ok r \<longleftrightarrow>
     is_text (\<lambda>s. s \<in> {''sl'', ''st''}) (get_item r ''base_scale'') \<and> int_between 0 99 (get_item r ''base_level'') \<and>
     text_between 1 32 (get_item r ''classification_scale'') \<and> int_between (- 99) 99 (get_item r ''classification_level'') \<and>
     text_between 1 128 (get_item r ''raw_level'') \<and> none_or (text_between 0 512) (get_item r ''title'')"

text \<open>\<open>base_scale not in {...}\<close> is reached only when the fields before it were accepted.\<close>

definition check_row_fields :: "(string \<times> accepted_source) list \<Rightarrow> row \<Rightarrow> unit py" where
  "check_row_fields accepted r =
     py_bind (raise_if (\<not> row_fields_ok accepted r) contract_error) (\<lambda>_.
     py_bind (raise_if (unhashable (get_item r ''base_scale'')) TypeError) (\<lambda>_.
       raise_if (\<not> row_values_ok r) contract_error))"

text \<open>The local chart of a row, by its SHA-256 and then by a unique MD5.\<close>

definition local_match :: "runtime \<Rightarrow> catalog_db \<Rightarrow> string option \<Rightarrow> string option \<Rightarrow> string option \<times> string" where
  "local_match rt db sha256 md5 =
     (let found = (case md5 of None \<Rightarrow> []
        | Some m \<Rightarrow> map fst (filter (\<lambda>(h, c). cr_md5 c \<noteq> PNone \<and> py_str rt (cr_md5 c) = m) (ca_charts db))) in
      if (case sha256 of None \<Rightarrow> False | Some h \<Rightarrow> h \<in> set (map fst (ca_charts db))) then (sha256, ''sha256'')
      else (case found of [] \<Rightarrow> (None, ''not_owned'') | [h] \<Rightarrow> (Some h, ''md5'') | _ \<Rightarrow> (None, ''ambiguous_local_hash'')))"

text \<open>What the first row of an entry says of it; every other row of the entry must say the same.\<close>

record entry_axes =
  ea_base :: string
  ea_level :: int
  ea_raw_level :: string
  ea_axes :: "(string \<times> int) set"
  ea_sha256 :: "string option"
  ea_md5 :: "string option"
  ea_title :: "string option"

type_synonym entry_id = "string \<times> string"

text \<open>The rows accepted so far and their entries; the sets of the code that only collect are read off the rows.\<close>

record row_scan =
  rs_rows :: "classification_entry list"
  rs_entries :: "(entry_id \<times> entry_axes) list"

definition entry_id_of :: "classification_entry \<Rightarrow> entry_id" where
  "entry_id_of r = (ck_source_id r, ck_source_key r)"

definition supplied_axes :: "classification_entry list \<Rightarrow> entry_id \<Rightarrow> (string \<times> int) set" where
  "supplied_axes rows i = set (map (\<lambda>r. (ck_scale r, ck_level r)) (filter (\<lambda>r. entry_id_of r = i) rows))"

definition hash_source_key :: "string option \<Rightarrow> string option \<Rightarrow> string" where
  "hash_source_key sha256 md5 = (case sha256 of Some h \<Rightarrow> ''sha256:'' @ h | None \<Rightarrow> ''md5:'' @ the md5)"

definition classification_row_of ::
    "runtime \<Rightarrow> catalog_db \<Rightarrow> source_spec \<Rightarrow> row \<Rightarrow> classification_entry" where
  "classification_row_of rt db spec r =
     (let sha256 = text_option (get_item r ''sha256''); md5 = text_option (get_item r ''md5''); local = local_match rt db sha256 md5 in
      \<lparr>ck_source_id = text_in r ''source_id'', ck_source_key = hash_source_key sha256 md5, ck_sha256 = sha256, ck_md5 = md5,
       ck_local_sha256 = fst local, ck_family = cx_family spec, ck_base_scale = text_in r ''base_scale'',
       ck_base_level = (case get_item r ''base_level'' of PInt n \<Rightarrow> n | _ \<Rightarrow> 0), ck_scale = text_in r ''classification_scale'',
       ck_level = (case get_item r ''classification_level'' of PInt n \<Rightarrow> n | _ \<Rightarrow> 0), ck_raw_level = text_in r ''raw_level'',
       ck_title = text_option (get_item r ''title''), ck_match_status = snd local\<rparr>)"

definition add_row :: "classification_entry \<Rightarrow> string \<times> int \<times> axes \<Rightarrow> row_scan \<Rightarrow> row_scan py" where
  "add_row c level st =
     (case level of (base, n, axes) \<Rightarrow>
        let expected = \<lparr>ea_base = base, ea_level = n, ea_raw_level = ck_raw_level c, ea_axes = set axes, ea_sha256 = ck_sha256 c,
              ea_md5 = ck_md5 c, ea_title = ck_title c\<rparr>;
            i = entry_id_of c
        in if (case map_of (rs_entries st) i of None \<Rightarrow> False | Some before \<Rightarrow> before \<noteq> expected) \<or> ck_base_scale c \<noteq> base \<or>
              ck_base_level c \<noteq> n \<or> (ck_scale c, ck_level c) \<notin> set axes \<or> row_key c \<in> set (map row_key (rs_rows st))
           then Inl contract_error
           else Inr \<lparr>rs_rows = rs_rows st @ [c],
             rs_entries = (if i \<in> set (map fst (rs_entries st)) then rs_entries st else rs_entries st @ [(i, expected)])\<rparr>)"

definition accept_row ::
    "runtime \<Rightarrow> catalog_db \<Rightarrow> (string \<times> accepted_source) list \<Rightarrow> row_scan \<Rightarrow> pyval \<Rightarrow> row_scan py" where
  "accept_row rt db accepted st v =
     (case v of
        PDict r \<Rightarrow>
          py_bind (check_row_fields accepted r) (\<lambda>_.
            case map_of accepted (text_in r ''source_id'') of
              None \<Rightarrow> Inl contract_error
            | Some s \<Rightarrow>
                (case parse_classification_level (text_in r ''raw_level'') (ac_spec s) of
                   Inl (ClassificationError m) \<Rightarrow> Inl contract_error
                 | Inl e \<Rightarrow> Inl e
                 | Inr level \<Rightarrow> add_row (classification_row_of rt db (ac_spec s) r) level st))
      | _ \<Rightarrow> Inl contract_error)"

definition accept_rows ::
    "runtime \<Rightarrow> catalog_db \<Rightarrow> (string \<times> accepted_source) list \<Rightarrow> pyval list \<Rightarrow> classification_entry list py" where
  "accept_rows rt db accepted vs =
     py_bind (py_for (accept_row rt db accepted) \<lparr>rs_rows = [], rs_entries = []\<rparr> vs) (\<lambda>st.
     py_bind (raise_if (list_ex (\<lambda>(i, e). supplied_axes (rs_rows st) i \<noteq> ea_axes e) (rs_entries st)) contract_error) (\<lambda>_.
       Inr (rs_rows st)))"

definition accept_classifications ::
    "runtime \<Rightarrow> row \<Rightarrow> catalog_db \<Rightarrow> ((string \<times> accepted_source) list \<times> classification_entry list) option py" where
  "accept_classifications rt ctx db =
     (let sources = get_item ctx ''classification_sources''; rows = get_item ctx ''classification_entries'';
          digest = get_item ctx ''classification_manifest_sha256'' in
      if sources = PNone \<and> rows = PNone \<and> digest = PNone then Inr None
      else
        py_bind (raise_if (\<not> rows_up_to 16 sources \<or> \<not> rows_up_to 20000 rows \<or> \<not> is_text is_sha256 digest) contract_error) (\<lambda>_.
        py_bind (canonical_json rt (PDict [(''sources'', sources), (''entries'', rows)])) (\<lambda>json.
        py_bind (raise_if (PStr (sha256_hex rt json) \<noteq> digest) contract_error) (\<lambda>_.
        py_bind (accept_sources [] (elements sources)) (\<lambda>accepted.
        py_bind (accept_rows rt db accepted (elements rows)) (\<lambda>accepted_rows. Inr (Some (accepted, accepted_rows))))))))"

subsection \<open>Storing the classifications\<close>

definition seeded_source :: "int \<Rightarrow> classification_entry list \<Rightarrow> string \<times> accepted_source \<Rightarrow> class_source_row" where
  "seeded_source fetched_at rows s =
     (let own = filter (\<lambda>r. ck_source_id r = fst s) rows; spec = ac_spec (snd s) in
      \<lparr>so_family = cx_family spec, so_page_url = ac_page_url (snd s), so_header_url = ac_header_url (snd s),
       so_data_url = ac_data_url (snd s), so_content_digest = Some (ac_digest (snd s)), so_fetched_at = Some fetched_at,
       so_stale = False, so_entry_count = Some (length (remdups (map ck_source_key own))),
       so_classification_count = Some (length own),
       so_matched_count = Some (length (remdups (map ck_source_key (filter (\<lambda>r. ck_local_sha256 r \<noteq> None) own)))),
       so_last_error = None\<rparr>)"

definition store_classifications ::
    "int \<Rightarrow> (string \<times> accepted_source) list \<Rightarrow> classification_entry list \<Rightarrow> catalog_db \<Rightarrow> catalog_db py" where
  "store_classifications fetched_at accepted rows db =
     py_for insert_classification
       (db\<lparr>ca_class_sources := fold (\<lambda>s. AList.update (fst s) (seeded_source fetched_at rows s)) accepted (ca_class_sources db),
           ca_classifications := filter (\<lambda>r. ck_source_id r \<notin> set (map fst accepted)) (ca_classifications db)\<rparr>)
       rows"

definition seed_classification_catalog :: "runtime \<Rightarrow> row \<Rightarrow> int \<Rightarrow> catalog_db \<Rightarrow> unit py \<times> catalog_db" where
  "seed_classification_catalog rt ctx fetched_at db =
     (case accept_classifications rt ctx db of
        Inl e \<Rightarrow> (Inl e, db)
      | Inr None \<Rightarrow> (Inr (), db)
      | Inr (Some (accepted, rows)) \<Rightarrow> transaction (store_classifications fetched_at accepted rows) db)"

subsection \<open>Accepted rows\<close>

text \<open>What the scan has established of a row: its level is understood, agrees with its entry and meets the constraints of the table.\<close>

definition row_good ::
    "catalog_db \<Rightarrow> (string \<times> accepted_source) list \<Rightarrow> (entry_id \<times> entry_axes) list \<Rightarrow> classification_entry \<Rightarrow> bool" where
  "row_good db accepted entries r \<longleftrightarrow>
     (\<exists>s base n axes e. map_of accepted (ck_source_id r) = Some s \<and>
        parse_classification_level (ck_raw_level r) (ac_spec s) = Inr (base, n, axes) \<and> ck_base_scale r = base \<and> ck_base_level r = n \<and>
        map_of entries (entry_id_of r) = Some e \<and> ea_raw_level e = ck_raw_level r \<and> ea_axes e = set axes) \<and>
     (ck_sha256 r \<noteq> None \<or> ck_md5 r \<noteq> None) \<and> utf8_length (ck_source_key r) \<le> 80 \<and> utf8_length (ck_raw_level r) \<le> 128 \<and>
     (\<forall>h. ck_local_sha256 r = Some h \<longrightarrow> h \<in> set (map fst (ca_charts db)))"

definition scan_good :: "catalog_db \<Rightarrow> (string \<times> accepted_source) list \<Rightarrow> row_scan \<Rightarrow> bool" where
  "scan_good db accepted st \<longleftrightarrow>
     distinct (map row_key (rs_rows st)) \<and> (\<forall>r\<in>set (rs_rows st). row_good db accepted (rs_entries st) r)"

lemma utf8_length_le: "utf8_length s \<le> length s"
  by (simp add: utf8_length_def)

lemma is_text_cases: "is_text p v \<Longrightarrow> \<exists>s. v = PStr s \<and> p s"
  by (cases v) (simp_all add: is_text_def)

lemma none_or_text: "none_or (is_text p) v \<Longrightarrow> text_option v = Some s \<Longrightarrow> p s"
  by (cases v) (auto simp: none_or_def is_text_def text_option_def)

lemma none_or_none: "none_or (is_text p) v \<Longrightarrow> v \<noteq> PNone \<Longrightarrow> \<exists>s. text_option v = Some s"
  by (cases v) (auto simp: none_or_def is_text_def text_option_def)

lemma local_match_owned:
  "local_match rt db sha256 md5 = (Some h, status) \<Longrightarrow> h \<in> set (map fst (ca_charts db))"
proof -
  have "h \<in> set (map fst (ca_charts db))" if "map fst (filter P (ca_charts db)) = [h]" for P
    using that by (auto simp: filter_eq_Cons_iff map_eq_Cons_conv)
  then show "local_match rt db sha256 md5 = (Some h, status) \<Longrightarrow> h \<in> set (map fst (ca_charts db))"
    by (auto simp: local_match_def Let_def split: option.splits list.splits if_splits)
qed

lemma checked_row:
  assumes "check_row_fields accepted r = Inr u" and "c = classification_row_of rt db spec r"
  shows "ck_source_id c \<in> set (map fst accepted)" and "ck_sha256 c \<noteq> None \<or> ck_md5 c \<noteq> None" and "utf8_length (ck_source_key c) \<le> 80"
    and "utf8_length (ck_raw_level c) \<le> 128" and "\<forall>h. ck_local_sha256 c = Some h \<longrightarrow> h \<in> set (map fst (ca_charts db))"
    and "ck_source_id c = text_in r ''source_id''" and "ck_raw_level c = text_in r ''raw_level''"
proof -
  have ok: "row_fields_ok accepted r" "row_values_ok r"
    using assms(1) by (auto simp: check_row_fields_def py_bind_Inr_iff raise_if_def split: if_splits)
  note c = assms(2)[unfolded classification_row_of_def Let_def]
  obtain sid raw where texts: "get_item r ''source_id'' = PStr sid" "sid \<in> set (map fst accepted)" "get_item r ''raw_level'' = PStr raw"
      "utf8_length raw \<le> 128"
    using ok is_text_cases[of _ "get_item r ''source_id''"] is_text_cases[of _ "get_item r ''raw_level''"]
    unfolding row_fields_ok_def row_values_ok_def text_between_def by blast
  show "ck_source_id c \<in> set (map fst accepted)" "utf8_length (ck_raw_level c) \<le> 128"
    "ck_source_id c = text_in r ''source_id''" "ck_raw_level c = text_in r ''raw_level''"
    using texts by (simp_all add: c text_in_def del: set_map)
  have hashes: "none_or (is_text is_sha256) (get_item r ''sha256'')" "none_or (is_text is_md5) (get_item r ''md5'')"
    "get_item r ''sha256'' \<noteq> PNone \<or> get_item r ''md5'' \<noteq> PNone"
    using ok(1) by (simp_all add: row_fields_ok_def)
  show known: "ck_sha256 c \<noteq> None \<or> ck_md5 c \<noteq> None"
    using hashes none_or_none by (auto simp: c)
  have "length (hash_source_key (ck_sha256 c) (ck_md5 c)) \<le> 80"
  proof (cases "ck_sha256 c")
    case None
    then obtain m where "ck_md5 c = Some m" using known by auto
    then show ?thesis using None none_or_text[OF hashes(2)] by (simp add: c hash_source_key_def is_md5_def)
  next
    case (Some h)
    then show ?thesis using none_or_text[OF hashes(1)] by (simp add: c hash_source_key_def is_sha256_def)
  qed
  then show "utf8_length (ck_source_key c) \<le> 80" using utf8_length_le[of "ck_source_key c"] by (simp add: c)
  show "\<forall>h. ck_local_sha256 c = Some h \<longrightarrow> h \<in> set (map fst (ca_charts db))"
  proof (intro allI impI)
    fix h
    let ?local = "local_match rt db (text_option (get_item r ''sha256'')) (text_option (get_item r ''md5''))"
    assume "ck_local_sha256 c = Some h"
    then have "?local = (Some h, snd ?local)" by (simp add: c prod_eq_iff)
    then show "h \<in> set (map fst (ca_charts db))" by (rule local_match_owned)
  qed
qed

lemma row_good_more:
  assumes "row_good db accepted entries r" and "\<And>i e. map_of entries i = Some e \<Longrightarrow> map_of entries' i = Some e"
  shows "row_good db accepted entries' r"
  using assms unfolding row_good_def by blast

lemma accept_row_good:
  assumes "accept_row rt db accepted st v = Inr st'" and "scan_good db accepted st"
  shows "scan_good db accepted st'"
proof -
  obtain r where v: "v = PDict r" using assms(1) by (cases v) (simp_all add: accept_row_def)
  obtain s base n axes where checked: "check_row_fields accepted r = Inr ()"
      and s: "map_of accepted (text_in r ''source_id'') = Some s"
      and level: "parse_classification_level (text_in r ''raw_level'') (ac_spec s) = Inr (base, n, axes)"
      and add: "add_row (classification_row_of rt db (ac_spec s) r) (base, n, axes) st = Inr st'"
    using assms(1) unfolding v accept_row_def
    by (auto simp: py_bind_Inr_iff split: option.splits sum.splits py_exn.splits)
  define c where "c = classification_row_of rt db (ac_spec s) r"
  note row = checked_row[OF checked c_def]
  define e where "e = \<lparr>ea_base = base, ea_level = n, ea_raw_level = ck_raw_level c, ea_axes = set axes, ea_sha256 = ck_sha256 c,
    ea_md5 = ck_md5 c, ea_title = ck_title c\<rparr>"
  let ?i = "entry_id_of c"
  let ?entries = "if ?i \<in> set (map fst (rs_entries st)) then rs_entries st else rs_entries st @ [(?i, e)]"
  let ?bad = "(case map_of (rs_entries st) ?i of None \<Rightarrow> False | Some before \<Rightarrow> before \<noteq> e) \<or> ck_base_scale c \<noteq> base \<or>
    ck_base_level c \<noteq> n \<or> (ck_scale c, ck_level c) \<notin> set axes \<or> row_key c \<in> set (map row_key (rs_rows st))"
  have "add_row c (base, n, axes) st = (if ?bad then Inl contract_error else Inr \<lparr>rs_rows = rs_rows st @ [c], rs_entries = ?entries\<rparr>)"
    unfolding add_row_def e_def Let_def by simp
  then have ok: "\<not> ?bad" and st': "st' = \<lparr>rs_rows = rs_rows st @ [c], rs_entries = ?entries\<rparr>"
    using add unfolding c_def[symmetric] by (metis Inl_Inr_False Inr_inject)+
  then have new: "\<not> (case map_of (rs_entries st) ?i of None \<Rightarrow> False | Some before \<Rightarrow> before \<noteq> e)" "ck_base_scale c = base" "ck_base_level c = n"
    "row_key c \<notin> set (map row_key (rs_rows st))" "st' = \<lparr>rs_rows = rs_rows st @ [c], rs_entries = ?entries\<rparr>"
    by blast+
  have kept: "map_of ?entries i = Some x" if "map_of (rs_entries st) i = Some x" for i x
    using that by (auto simp: map_of_append map_add_def)
  have own: "map_of ?entries ?i = Some e"
  proof (cases "?i \<in> set (map fst (rs_entries st))")
    case True
    then obtain before where "map_of (rs_entries st) ?i = Some before" by (metis list.set_map map_of_eq_None_iff option.exhaust)
    then show ?thesis using new(1) True by simp
  next
    case False
    then have "map_of (rs_entries st) ?i = None" by (simp add: map_of_eq_None_iff)
    then show ?thesis using False by (simp add: map_add_def)
  qed
  have "row_good db accepted ?entries c"
    unfolding row_good_def using row(2-5) s level own new(2,3) row(6,7) by (auto simp: e_def)
  moreover have "row_good db accepted ?entries x" if "x \<in> set (rs_rows st)" for x
    using assms(2) that kept row_good_more unfolding scan_good_def by blast
  ultimately show ?thesis using assms(2) new(4,5) by (auto simp: scan_good_def)
qed

lemma accepted_rows_good:
  assumes "accept_rows rt db accepted vs = Inr rows"
  shows "distinct (map row_key rows)"
    and "r \<in> set rows \<Longrightarrow> \<exists>s base n axes. map_of accepted (ck_source_id r) = Some s \<and>
      parse_classification_level (ck_raw_level r) (ac_spec s) = Inr (base, n, axes) \<and> ck_base_scale r = base \<and> ck_base_level r = n \<and>
      supplied_axes rows (entry_id_of r) = set axes"
    and "r \<in> set rows \<Longrightarrow> \<exists>entries. row_good db accepted entries r"
proof -
  obtain st where st: "py_for (accept_row rt db accepted) \<lparr>rs_rows = [], rs_entries = []\<rparr> vs = Inr st" "rows = rs_rows st"
      "\<not> list_ex (\<lambda>(i, e). supplied_axes (rs_rows st) i \<noteq> ea_axes e) (rs_entries st)"
    using assms by (auto simp: accept_rows_def py_bind_Inr_iff raise_if_def split: if_splits)
  have good: "scan_good db accepted st"
    by (rule py_for_invariant[OF st(1), where P = "scan_good db accepted"]) (simp add: scan_good_def, rule accept_row_good)
  show "distinct (map row_key rows)" using good st(2) by (simp add: scan_good_def)
  show ex: "\<exists>entries. row_good db accepted entries r" if "r \<in> set rows" using good that st(2) by (auto simp: scan_good_def)
  show "\<exists>s base n axes. map_of accepted (ck_source_id r) = Some s \<and>
      parse_classification_level (ck_raw_level r) (ac_spec s) = Inr (base, n, axes) \<and> ck_base_scale r = base \<and> ck_base_level r = n \<and>
      supplied_axes rows (entry_id_of r) = set axes" if r_in: "r \<in> set rows"
  proof -
    obtain s base n axes e where r: "map_of accepted (ck_source_id r) = Some s"
        "parse_classification_level (ck_raw_level r) (ac_spec s) = Inr (base, n, axes)" "ck_base_scale r = base" "ck_base_level r = n"
        "map_of (rs_entries st) (entry_id_of r) = Some e" "ea_axes e = set axes"
    proof -
      have "row_good db accepted (rs_entries st) r" using good r_in st(2) by (simp add: scan_good_def)
      then show thesis using that by (auto simp: row_good_def)
    qed
    have "supplied_axes rows (entry_id_of r) = ea_axes e"
      using st(2,3) map_of_SomeD[OF r(5)] by (auto simp: list_ex_iff)
    then show ?thesis using r by auto
  qed
qed

subsection \<open>What is accepted is stored\<close>

lemma insert_rows_total:
  assumes "distinct (map row_key rows)" and "set (map row_key rows) \<inter> set (map row_key (ca_classifications db)) = {}"
    and "\<And>r. r \<in> set rows \<Longrightarrow> (ck_sha256 r \<noteq> None \<or> ck_md5 r \<noteq> None) \<and> utf8_length (ck_source_key r) \<le> 80 \<and>
      utf8_length (ck_raw_level r) \<le> 128 \<and> ck_source_id r \<in> set (map fst (ca_class_sources db)) \<and>
      (\<forall>h. ck_local_sha256 r = Some h \<longrightarrow> h \<in> set (map fst (ca_charts db)))"
  shows "py_for insert_classification db rows = Inr (db\<lparr>ca_classifications := ca_classifications db @ rows\<rparr>)"
  using assms
proof (induction rows arbitrary: db)
  case (Cons r rows)
  have "insert_classification db r = Inr (db\<lparr>ca_classifications := ca_classifications db @ [r]\<rparr>)"
    using Cons.prems(2) Cons.prems(3)[of r]
    by (auto simp: insert_classification_def not_less[symmetric] split: option.splits)
  moreover have "py_for insert_classification (db\<lparr>ca_classifications := ca_classifications db @ [r]\<rparr>) rows =
      Inr (db\<lparr>ca_classifications := (ca_classifications db @ [r]) @ rows\<rparr>)"
    using Cons.IH[of "db\<lparr>ca_classifications := ca_classifications db @ [r]\<rparr>"] Cons.prems by auto
  ultimately show ?case by simp
qed simp

lemma fold_update_keys:
  "set (map fst (fold (\<lambda>s. AList.update (fst s) (f s)) ss al)) = fst ` set ss \<union> set (map fst al)"
  by (induction ss arbitrary: al) (auto simp: dom_update)

lemma accepted_rows_stored:
  assumes "accept_rows rt db accepted vs = Inr rows"
  shows "\<exists>db'. store_classifications fetched_at accepted rows db = Inr db' \<and>
    ca_classifications db' = filter (\<lambda>r. ck_source_id r \<notin> set (map fst accepted)) (ca_classifications db) @ rows"
proof -
  note good = accepted_rows_good[OF assms]
  let ?db = "db\<lparr>ca_class_sources := fold (\<lambda>s. AList.update (fst s) (seeded_source fetched_at rows s)) accepted (ca_class_sources db),
    ca_classifications := filter (\<lambda>r. ck_source_id r \<notin> set (map fst accepted)) (ca_classifications db)\<rparr>"
  have known: "ck_source_id r \<in> set (map fst accepted)" if "r \<in> set rows" for r
    using good(2)[OF that] by (auto dest: map_of_SomeD intro: rev_image_eqI)
  have "py_for insert_classification ?db rows = Inr (?db\<lparr>ca_classifications := ca_classifications ?db @ rows\<rparr>)"
  proof (rule insert_rows_total)
    show "distinct (map row_key rows)" by (rule good(1))
    show "set (map row_key rows) \<inter> set (map row_key (ca_classifications ?db)) = {}"
      by (auto simp: row_key_def simp del: list.set_map dest!: known)
    show "(ck_sha256 r \<noteq> None \<or> ck_md5 r \<noteq> None) \<and> utf8_length (ck_source_key r) \<le> 80 \<and>
      utf8_length (ck_raw_level r) \<le> 128 \<and> ck_source_id r \<in> set (map fst (ca_class_sources ?db)) \<and>
      (\<forall>h. ck_local_sha256 r = Some h \<longrightarrow> h \<in> set (map fst (ca_charts ?db)))" if r_in: "r \<in> set rows" for r
    proof -
      obtain entries where "row_good db accepted entries r" using good(3)[OF r_in] by blast
      moreover have "ck_source_id r \<in> set (map fst (ca_class_sources ?db))"
        using known[OF r_in] fold_update_keys[of "seeded_source fetched_at rows" accepted "ca_class_sources db"] by simp
      ultimately show ?thesis by (auto simp: row_good_def)
    qed
  qed
  then show ?thesis unfolding store_classifications_def by simp
qed

text \<open>A classification catalog is stored whole or not at all. If its validation succeeds, no constraint of the tables refuses it: the accepted
  sources have exactly the accepted rows, the other sources keep theirs, and every entry has all the axes its level text names. If it
  fails, nothing changes.\<close>

theorem seeded_catalog_is_whole:
  "case accept_classifications rt ctx db of
     Inl e \<Rightarrow> seed_classification_catalog rt ctx fetched_at db = (Inl e, db)
   | Inr None \<Rightarrow> seed_classification_catalog rt ctx fetched_at db = (Inr (), db)
   | Inr (Some (accepted, rows)) \<Rightarrow>
       fst (seed_classification_catalog rt ctx fetched_at db) = Inr () \<and>
       ca_classifications (snd (seed_classification_catalog rt ctx fetched_at db)) =
         filter (\<lambda>r. ck_source_id r \<notin> set (map fst accepted)) (ca_classifications db) @ rows \<and>
       list_all (\<lambda>r. list_ex (\<lambda>(i, s). i = ck_source_id r \<and>
         (case parse_classification_level (ck_raw_level r) (ac_spec s) of
            Inl e \<Rightarrow> False
          | Inr (base, n, axes) \<Rightarrow> base = ck_base_scale r \<and> n = ck_base_level r \<and> supplied_axes rows (entry_id_of r) = set axes)) accepted) rows"
proof (cases "accept_classifications rt ctx db")
  case (Inr result)
  show ?thesis
  proof (cases result)
    case (Some pair)
    obtain accepted rows where pair: "pair = (accepted, rows)" by (metis prod.exhaust)
    have "accept_rows rt db accepted (elements (get_item ctx ''classification_entries'')) = Inr rows"
      using Inr unfolding Some pair accept_classifications_def by (auto simp: Let_def py_bind_Inr_iff split: if_splits)
    note stored = accepted_rows_stored[OF this, of fetched_at] and good = accepted_rows_good(2)[OF this]
    have "list_ex (\<lambda>(i, s). i = ck_source_id r \<and>
         (case parse_classification_level (ck_raw_level r) (ac_spec s) of
            Inl e \<Rightarrow> False
          | Inr (base, n, axes) \<Rightarrow> base = ck_base_scale r \<and> n = ck_base_level r \<and> supplied_axes rows (entry_id_of r) = set axes)) accepted"
      if r_in: "r \<in> set rows" for r
    proof -
      obtain s base n axes where r: "map_of accepted (ck_source_id r) = Some s"
          "parse_classification_level (ck_raw_level r) (ac_spec s) = Inr (base, n, axes)" "ck_base_scale r = base" "ck_base_level r = n"
          "supplied_axes rows (entry_id_of r) = set axes"
        using good[OF r_in] by blast
      show ?thesis unfolding list_ex_iff using map_of_SomeD[OF r(1)] r(2-5) by (intro bexI[of _ "(ck_source_id r, s)"]) simp_all
    qed
    then show ?thesis
      using stored unfolding Inr Some pair seed_classification_catalog_def by (auto simp: transaction_def list_all_iff)
  qed (simp add: Inr seed_classification_catalog_def)
qed (simp add: seed_classification_catalog_def)

subsection \<open>The two matchings agree\<close>

text \<open>A library as the readers leave it: charts are keyed by a SHA-256 and have an MD5 in lower case or none.\<close>

definition clean_charts :: "catalog_db \<Rightarrow> bool" where
  "clean_charts db \<longleftrightarrow> distinct (map fst (ca_charts db)) \<and>
     list_all (\<lambda>(h, c). is_sha256 h \<and> none_or (is_text is_md5) (cr_md5 c)) (ca_charts db)"

lemma hex_lower:
  assumes "is_hex_lower c"
  shows "lower_char c = c" and "\<not> is_space c"
  using assms by (auto simp: is_hex_lower_def is_digit_def lower_char_def is_space_def less_eq_char_def)

lemma hash_key_clean:
  assumes "list_all is_hex_lower h" and "length h = n" and "0 < n"
  shows "hash_key n (PStr h) = Some h"
proof -
  have h: "h \<noteq> []" using assms(2,3) by auto
  have "py_strip h = h"
  proof (rule py_strip_id[OF h])
    show "\<not> is_space (hd h)" using assms(1) h hex_lower(2) hd_in_set unfolding list_all_iff by blast
    show "\<not> is_space (last h)" using assms(1) h hex_lower(2) last_in_set unfolding list_all_iff by blast
  qed
  moreover have "py_lower h = h"
    using assms(1) hex_lower(1) by (simp add: py_lower_def list_all_iff map_idI)
  ultimately show ?thesis using assms(1,2) by (simp add: hash_key_def)
qed

lemma chart_keys:
  assumes "is_sha256 h" and "none_or (is_text is_md5) (cr_md5 c)"
  shows "sha256_of (chart_mapping (h, c)) = Some h"
    and "md5_of (chart_mapping (h, c)) = text_option (cr_md5 c)"
    and "get_item (chart_mapping (h, c)) ''sha256'' = PStr h"
proof -
  have items: "get_item (chart_mapping (h, c)) ''sha256'' = PStr h" "get_item (chart_mapping (h, c)) ''md5'' = cr_md5 c"
    by (simp_all add: chart_mapping_def get_item_def)
  then show "get_item (chart_mapping (h, c)) ''sha256'' = PStr h" by simp
  show "sha256_of (chart_mapping (h, c)) = Some h"
    using assms(1) items hash_key_clean by (simp add: sha256_of_def is_sha256_def)
  show "md5_of (chart_mapping (h, c)) = text_option (cr_md5 c)"
    using assms(2) items hash_key_clean
    by (auto simp: md5_of_def is_md5_def none_or_def text_option_def hash_key_def dest: is_text_cases)
qed

lemma clean_chart: "clean_charts db \<Longrightarrow> (h, c) \<in> set (ca_charts db) \<Longrightarrow> is_sha256 h \<and> none_or (is_text is_md5) (cr_md5 c)"
  unfolding clean_charts_def list_all_iff by auto

lemma filter_distinct_key:
  assumes "distinct (map fst al)"
  shows "filter (\<lambda>x. fst x = k) al = (case map_of al k of None \<Rightarrow> [] | Some v \<Rightarrow> [(k, v)])"
  using assms
proof (induction al)
  case (Cons x al)
  obtain a v where x: "x = (a, v)" by (metis prod.exhaust)
  have "k = a \<Longrightarrow> map_of al k = None" using Cons.prems by (simp add: x map_of_eq_None_iff)
  then show ?case using Cons by (auto simp: x split: option.splits)
qed simp

text \<open>The matching of the container and that of the local refresh agree: on a clean library, a row of the catalog gets the chart and the status that
  \<open>resolve\<close> of \<open>tables/match.py\<close> gives the entry it was exported from.\<close>

theorem container_matches_as_resolve:
  assumes "clean_charts db" and "\<not> marked_unique (en_data e)"
    and "en_sha256 e \<noteq> Some []" and "en_md5 e \<noteq> Some []"
  shows "local_match rt db (en_sha256 e) (en_md5 e) =
    (case resolve_entry tp entries (map chart_mapping (ca_charts db)) e of
       Matched e' c k \<Rightarrow> (text_option (get_item c ''sha256''), kind_name k)
     | Unmatched e' reason \<Rightarrow> (None, reason))"
proof -
  let ?charts = "map chart_mapping (ca_charts db)"
  have distinct: "distinct (map fst (ca_charts db))" using assms(1) by (simp add: clean_charts_def)
  have sha: "charts_with sha256_of (Some k) ?charts = map chart_mapping (filter (\<lambda>x. fst x = k) (ca_charts db))" if "k \<noteq> []" for k
    using that chart_keys(1) clean_chart[OF assms(1)]
    by (auto simp: charts_with_def filter_map o_def intro!: arg_cong[where f = "map chart_mapping"] filter_cong)
  have md5: "charts_with md5_of (Some m) ?charts =
      map chart_mapping (filter (\<lambda>(h, c). cr_md5 c \<noteq> PNone \<and> py_str rt (cr_md5 c) = m) (ca_charts db))" if "m \<noteq> []" for m
  proof -
    have "(md5_of (chart_mapping (h, c)) = Some m) = (cr_md5 c \<noteq> PNone \<and> py_str rt (cr_md5 c) = m)" if "(h, c) \<in> set (ca_charts db)" for h c
      using chart_keys(2)[of h c] clean_chart[OF assms(1) that]
      by (auto simp: none_or_def text_option_def dest: is_text_cases)
    then show ?thesis using that
      by (auto simp: charts_with_def filter_map o_def intro!: arg_cong[where f = "map chart_mapping"] filter_cong)
  qed
  have names: "text_option (get_item (chart_mapping x) ''sha256'') = Some (fst x)" for x
    by (cases x) (simp add: chart_mapping_def get_item_def text_option_def)
  let ?owned = "case en_sha256 e of None \<Rightarrow> False | Some h \<Rightarrow> h \<in> set (map fst (ca_charts db))"
  show ?thesis
  proof (cases ?owned)
    case True
    then obtain h c where h: "en_sha256 e = Some h" "map_of (ca_charts db) h = Some c"
      by (cases "en_sha256 e") (auto dest: weak_map_of_SomeI)
    then have "charts_with sha256_of (en_sha256 e) ?charts = [chart_mapping (h, c)]"
      using sha[of h] assms(3) filter_distinct_key[OF distinct, of h] by simp
    then show ?thesis using True h(1) by (simp add: local_match_def resolve_entry_def names del: list.set_map)
  next
    case False
    have none: "charts_with sha256_of (en_sha256 e) ?charts = []"
    proof (cases "en_sha256 e")
      case (Some h)
      then have "map_of (ca_charts db) h = None" using False by (simp add: map_of_eq_None_iff)
      then show ?thesis using Some sha[of h] assms(3) filter_distinct_key[OF distinct, of h] by simp
    qed (simp add: charts_with_def)
    show ?thesis
    proof (cases "en_md5 e")
      case None
      then show ?thesis using False none assms(2) by (simp add: local_match_def resolve_entry_def charts_with_def del: list.set_map)
    next
      case (Some m)
      define found where "found = filter (\<lambda>(h, c). cr_md5 c \<noteq> PNone \<and> py_str rt (cr_md5 c) = m) (ca_charts db)"
      have by_md5: "charts_with md5_of (en_md5 e) ?charts = map chart_mapping found" unfolding found_def using Some md5 assms(4) by simp
      have local: "local_match rt db (en_sha256 e) (en_md5 e) =
          (case map fst found of [] \<Rightarrow> (None, ''not_owned'') | [h] \<Rightarrow> (Some h, ''md5'') | _ \<Rightarrow> (None, ''ambiguous_local_hash''))"
        unfolding local_match_def Let_def Some option.case found_def using False by (simp only: if_False)
      have resolved: "resolve_entry tp entries ?charts e =
          (if length found = 1 then Matched e (hd (map chart_mapping found)) By_Md5
           else if 1 < length found then Unmatched e ''ambiguous_local_hash'' else Unmatched e ''not_owned'')"
        unfolding resolve_entry_def Let_def none by_md5 using assms(2) by simp
      show ?thesis
        unfolding local resolved by (cases found rule: remdups_adj.cases) (simp_all add: names)
    qed
  qed
qed

subsection \<open>Settings\<close>

text \<open>Settings that are accepted are within the limits of the service, with a known time zone; settings that are refused raise one of the two errors of
  the contract, an overflow, or an error of the domain that the handler lets through.\<close>

theorem accepted_settings_are_bounded:
  "case table_settings rt zone_ok (Some ctx) of
     Inr None \<Rightarrow> False
   | Inr (Some s) \<Rightarrow> zone_ok (ps_timezone s) \<and> ps_readiness s \<in> {''normal'', ''tired''} \<and> 10000 \<le> ps_target_judged s \<and>
       ps_target_judged s \<le> 1000000 \<and> 0 \<le> ps_reserve_judged s \<and> ps_reserve_judged s \<le> min 500000 (ps_target_judged s)
   | Inl e \<Rightarrow> e = contract_error \<or> e = tables_unavailable \<or> (\<exists>m. e = OverflowError m) \<or> (\<exists>m. e = DomainValidationError m)"
proof -
  have bounds: "zone_ok (ps_timezone s) \<and> ps_readiness s \<in> {''normal'', ''tired''} \<and> 10000 \<le> ps_target_judged s \<and>
       ps_target_judged s \<le> 1000000 \<and> 0 \<le> ps_reserve_judged s \<and> ps_reserve_judged s \<le> min 500000 (ps_target_judged s)"
    if "parse_settings rt zone_ok c d = Inr s" for c d s
    using that by (auto simp: parse_settings_def py_bind_Inr_iff raise_if_Inr check_profile_settings_def)
  have int_errors: "e = TypeError \<or> (\<exists>m. e = ValueError m) \<or> (\<exists>m. e = OverflowError m)" if "py_int v = Inl e" for v e
    using that by (cases v rule: py_int.cases) (auto split: option.splits)
  have items: "(\<exists>k. e = KeyError k) \<or> e = TypeError \<or> (\<exists>m. e = ValueError m) \<or> (\<exists>m. e = OverflowError m)"
    if "int_item d k = Inl e \<or> str_item rt d k = Inl e" for d k e
    using that int_errors by (auto simp: int_item_def str_item_def item_def py_bind_Inl_iff split: option.splits)
  have errors: "settings_error e = contract_error \<or> (\<exists>m. settings_error e = OverflowError m) \<or> (\<exists>m. settings_error e = DomainValidationError m)"
    if "parse_settings rt zone_ok c d = Inl e" for c d e
  proof -
    have "(\<exists>k. e = KeyError k) \<or> e = TypeError \<or> (\<exists>m. e = ValueError m) \<or> (\<exists>m. e = OverflowError m) \<or> (\<exists>m. e = DomainValidationError m)"
      using that items int_errors
      unfolding parse_settings_def py_bind_Inl_iff raise_if_Inl check_profile_settings_def
      by (elim disjE exE conjE) (auto split: option.splits dest: int_errors)
    then show ?thesis by auto
  qed
  show ?thesis
    using bounds by (auto simp: table_settings_def split: pyval.splits sum.splits dest!: errors)
qed

text \<open>An unknown time zone is not refused as a contract error: whatever else the settings hold, the \<open>DomainValidationError\<close> of the constructor, which is a
  \<open>RuntimeError\<close>, leaves the handler.\<close>

theorem unknown_timezone_escapes:
  assumes "get_item ctx ''settings'' = PDict d" and "map_of ctx ''settings_revision'' = Some (PInt n)" and "1 \<le> n"
    and "map_of d ''timezone'' = Some (PStr zone)" and "\<not> zone_ok zone" and "map_of d ''target_judged'' = Some (PInt target)"
    and "map_of d ''reserve_judged'' = Some (PInt reserve)" and "map_of d ''readiness'' = Some readiness"
  shows "\<exists>m. table_settings rt zone_ok (Some ctx) = Inl (DomainValidationError m)"
proof -
  have "\<exists>m. parse_settings rt zone_ok ctx d = Inl (DomainValidationError m)"
    using assms(2-8) by (auto simp: parse_settings_def int_item_def str_item_def item_def check_profile_settings_def raise_if_def)
  then show ?thesis using assms(1) by (auto simp: table_settings_def)
qed

subsection \<open>Examples\<close>

definition sample_settings :: row where
  "sample_settings = [(''timezone'', PStr ''Mars/Base''), (''target_judged'', PInt 100000), (''reserve_judged'', PInt 0),
     (''readiness'', PStr ''normal'')]"

definition sample_settings_context :: row where
  "sample_settings_context = [(''settings_revision'', PInt 1), (''settings'', PDict sample_settings)]"

theorem unknown_timezone_escapes_witness:
  "\<exists>m. table_settings sample_runtime (\<lambda>z. z = ''Asia/Tokyo'') (Some sample_settings_context) = Inl (DomainValidationError m)"
  by (rule unknown_timezone_escapes[where d = sample_settings and n = 1 and zone = "''Mars/Base''" and target = 100000 and reserve = 0 and readiness = "PStr ''normal''"])
    (simp_all add: sample_settings_context_def get_item_def, simp_all add: sample_settings_def)

definition sample_seed_chart :: "pyval \<Rightarrow> chart_row" where
  "sample_seed_chart md5 = \<lparr>cr_md5 = md5, cr_title = PNone, cr_artist = PNone, cr_notes = PNone, cr_song_mode = PNone, cr_path = None, cr_updated_at = 0\<rparr>"

definition sample_md5 :: string where "sample_md5 = concat (replicate 4 ''0123abcd'')"

definition sample_seed_db :: catalog_db where
  "sample_seed_db = \<lparr>ca_charts = [(example_hash, sample_seed_chart (PStr sample_md5))], ca_class_sources = [], ca_classifications = [],
     ca_table_entries = [], ca_table_sources = []\<rparr>"

definition sample_md5_entry :: table_entry where
  "sample_md5_entry = \<lparr>en_table_id = ''t'', en_level = ''sl1'', en_sha256 = None, en_md5 = Some sample_md5, en_title = None, en_data = []\<rparr>"

theorem container_matches_as_resolve_witness:
  "local_match sample_runtime sample_seed_db None (Some sample_md5) = (Some example_hash, ''md5'') \<and>
   (case resolve_entry sample_title_ports [] (map chart_mapping (ca_charts sample_seed_db)) sample_md5_entry of
      Matched e' c k \<Rightarrow> (text_option (get_item c ''sha256''), kind_name k) | Unmatched e' reason \<Rightarrow> (None, reason)) = (Some example_hash, ''md5'')"
proof -
  have match: "local_match sample_runtime sample_seed_db None (Some sample_md5) = (Some example_hash, ''md5'')"
    by (simp add: local_match_def sample_seed_db_def sample_seed_chart_def)
  have "is_sha256 example_hash" "is_md5 sample_md5" by code_simp+
  then have "clean_charts sample_seed_db"
    by (simp add: clean_charts_def sample_seed_db_def sample_seed_chart_def none_or_def is_text_def)
  moreover have "\<not> marked_unique (en_data sample_md5_entry)" by (simp add: marked_unique_def sample_md5_entry_def get_item_def)
  moreover have "en_sha256 sample_md5_entry \<noteq> Some []" "en_md5 sample_md5_entry \<noteq> Some []"
    by (simp_all add: sample_md5_entry_def sample_md5_def)
  ultimately have "local_match sample_runtime sample_seed_db (en_sha256 sample_md5_entry) (en_md5 sample_md5_entry) =
    (case resolve_entry sample_title_ports [] (map chart_mapping (ca_charts sample_seed_db)) sample_md5_entry of
      Matched e' c k \<Rightarrow> (text_option (get_item c ''sha256''), kind_name k) | Unmatched e' reason \<Rightarrow> (None, reason))"
    by (rule container_matches_as_resolve)
  then show ?thesis using match by (simp add: sample_md5_entry_def)
qed

end
