(* ===== verification/Container_Job.thy ===== *)
theory Container_Job
  imports Bundle Catalog
begin

text \<open>
  A container job (\<open>container/adapter.py\<close>): the two artifact stores, the binding of a request to its upload and profile, and the publication
  of the artifacts with the output manifest. The store is a port of the adapter, so the publication takes \<open>put\<close> as an argument and its
  lemmas stand in the locale \<open>artifact_store\<close>. The pipeline between the bundle and the artifacts is an argument of the run: its steps are
  the backfill, the snapshot, the features, the model, the catalog and the menu of the other theories.
\<close>

subsection \<open>Artifact stores\<close>

record artifact =
  af_kind :: string
  af_key :: string
  af_sha256 :: string
  af_size :: nat
  af_type :: string

definition artifact_conflict :: py_exn where
  "artifact_conflict = ContainerError ''idempotency_conflict'' False 409"

text \<open>\<open>PurePosixPath(key).stem\<close>: the last segment without its last suffix.\<close>

definition path_stem :: "string \<Rightarrow> string" where
  "path_stem key =
     (case rev (path_parts key) of
        [] \<Rightarrow> []
      | name # _ \<Rightarrow>
          let tail = takeWhile (\<lambda>c. c \<noteq> CHR ''.'') (rev name); head = take (length name - length tail - 1) name in
          if CHR ''.'' \<in> set name \<and> head \<noteq> [] \<and> tail \<noteq> [] then head else name)"

definition artifact_of :: "runtime \<Rightarrow> string \<Rightarrow> string \<Rightarrow> string \<Rightarrow> artifact" where
  "artifact_of rt key content ctype =
     \<lparr>af_kind = path_stem key, af_key = key, af_sha256 = sha256_hex rt content, af_size = length content, af_type = ctype\<rparr>"

definition as_manifest :: "artifact \<Rightarrow> pyval" where
  "as_manifest a = PDict [(''kind'', PStr (af_kind a)), (''object_key'', PStr (af_key a)), (''sha256'', PStr (af_sha256 a)),
     (''size_bytes'', PInt (int (af_size a))), (''content_type'', PStr (af_type a))]"

type_synonym objects = "(string \<times> string) list"

definition memory_put :: "runtime \<Rightarrow> string \<Rightarrow> string \<Rightarrow> string \<Rightarrow> objects \<Rightarrow> artifact py \<times> objects" where
  "memory_put rt ctype key content objects =
     (case map_of objects key of
        None \<Rightarrow> (Inr (artifact_of rt key content ctype), objects @ [(key, content)])
      | Some previous \<Rightarrow>
          if previous \<noteq> content then (Inl artifact_conflict, objects) else (Inr (artifact_of rt key content ctype), objects))"

text \<open>The files below the root of the file store, by the segments of their paths. A file in the place of a directory, or a directory in the
  place of the file, makes the operating system raise.\<close>

type_synonym file_tree = "(string list \<times> string) list"

definition below :: "string list \<Rightarrow> string list \<Rightarrow> bool" where
  "below p q \<longleftrightarrow> length p < length q \<and> take (length p) q = p"

definition file_put :: "runtime \<Rightarrow> string \<Rightarrow> string \<Rightarrow> string \<Rightarrow> file_tree \<Rightarrow> artifact py \<times> file_tree" where
  "file_put rt ctype key content files =
     (let parts = path_parts key in
      if is_absolute key \<or> ''..'' \<in> set parts then (Inl contract_error, files)
      else if list_ex (\<lambda>(p, c). below p parts) files then (Inl (OSError ''not a directory''), files)
      else if parts = [] \<or> list_ex (\<lambda>(p, c). below parts p) files then (Inl (OSError ''is a directory''), files)
      else (case map_of files parts of
          Some previous \<Rightarrow>
            if previous \<noteq> content then (Inl artifact_conflict, files) else (Inr (artifact_of rt key content ctype), files)
        | None \<Rightarrow> (Inr (artifact_of rt key content ctype), files @ [(parts, content)])))"

subsection \<open>Admission\<close>

record job_request =
  jq_manifest :: pyval
  jq_upload :: "pyval option"
  jq_context :: "row option"
  jq_display_name :: string
  jq_timezone :: string
  jq_recommendation_profile :: "string option"
  jq_has_repository :: bool
  jq_revision :: int

text \<open>\<open>except ManifestError\<close>: the code of the error is kept.\<close>

fun contract_of :: "'a py \<Rightarrow> 'a py" where
  "contract_of (Inl (ManifestError message code)) = Inl (ContainerError code False 422)"
| "contract_of r = r"

definition check_upload_binding :: "runtime \<Rightarrow> manifest_ports \<Rightarrow> row \<Rightarrow> pyval option \<Rightarrow> unit py" where
  "check_upload_binding rt mp m upload =
     (case upload of
        None \<Rightarrow> Inr ()
      | Some u \<Rightarrow>
          py_bind (contract_of (validate_upload_manifest mp u)) (\<lambda>accepted.
          py_bind (raise_if (list_ex (\<lambda>k. get_item accepted k \<noteq> PStr (text_in m k)) [''profile_id'', ''account_id'', ''trust_domain'']) contract_error) (\<lambda>_.
          py_bind (manifest_sha256 rt accepted) (\<lambda>digest.
            raise_if (PStr digest \<noteq> get_item m ''source_manifest_sha256'') contract_error))))"

definition profile_of_job :: "runtime \<Rightarrow> row \<Rightarrow> profile_settings option \<Rightarrow> job_request \<Rightarrow> profile_context" where
  "profile_of_job rt m settings q =
     default_profile_context\<lparr>pc_profile_id := text_in m ''profile_id'',
       pc_display_name := (case jq_context q of None \<Rightarrow> jq_display_name q
         | Some c \<Rightarrow> (case map_of c ''display_name'' of None \<Rightarrow> jq_display_name q | Some v \<Rightarrow> py_str rt v)),
       pc_timezone := (case settings of Some s \<Rightarrow> ps_timezone s | None \<Rightarrow> jq_timezone q), pc_settings := settings\<rparr>"

definition admit_job :: "runtime \<Rightarrow> manifest_ports \<Rightarrow> (string \<Rightarrow> bool) \<Rightarrow> job_request \<Rightarrow> (row \<times> profile_context) py" where
  "admit_job rt mp zone_ok q =
     py_bind (contract_of (validate_input_manifest mp (jq_manifest q))) (\<lambda>m.
     py_bind (check_upload_binding rt mp m (jq_upload q)) (\<lambda>_.
     py_bind (raise_if (case jq_context q of None \<Rightarrow> False | Some c \<Rightarrow> get_item c ''profile_id'' \<noteq> PStr (text_in m ''profile_id'')) contract_error) (\<lambda>_.
     py_bind (table_settings rt zone_ok (jq_context q)) (\<lambda>settings.
     py_bind (check_profile_context zone_ok (profile_of_job rt m settings q)) (\<lambda>profile.
     py_bind (raise_if (case jq_recommendation_profile q of None \<Rightarrow> False | Some p \<Rightarrow> p \<noteq> pc_profile_id profile) contract_error) (\<lambda>_.
     py_bind (raise_if (jq_recommendation_profile q \<noteq> None \<and> jq_has_repository q) contract_error) (\<lambda>_.
     py_bind (raise_if (jq_revision q < 1) contract_error) (\<lambda>_. Inr (m, profile)))))))))"

text \<open>\<open>run_job\<close>: the entry point of a kind of job; a play event is a mapping or something else.\<close>

definition job_entrypoint :: "string \<Rightarrow> pyval option \<Rightarrow> string py" where
  "job_entrypoint kind play_event =
     (case map_of [(''initial'', ''five_db_backfill''), (''monthly'', ''monthly_audit''), (''play'', ''single_play_incremental''),
         (''regenerate'', ''monthly_audit'')] kind of
        None \<Rightarrow> Inl (ContainerError ''unsupported_job_type'' False 422)
      | Some entrypoint \<Rightarrow>
          let given = (case play_event of None \<Rightarrow> False | Some v \<Rightarrow> v \<noteq> PNone);
              mapping = (case play_event of Some (PDict d) \<Rightarrow> True | _ \<Rightarrow> False) in
          py_bind (raise_if (if kind = ''play'' then \<not> mapping else given) contract_error) (\<lambda>_. Inr entrypoint))"

subsection \<open>Publication\<close>

definition json_artifact :: "runtime \<Rightarrow> job_limits \<Rightarrow> pyval \<Rightarrow> string py" where
  "json_artifact rt limits v =
     py_bind (canonical_json rt v) (\<lambda>content.
     py_bind (raise_if (jl_max_output_bytes limits < length content) limit_exceeded) (\<lambda>_. Inr content))"

type_synonym artifact_payload = "string \<times> string \<times> pyval"

definition job_prefix :: "row \<Rightarrow> int \<Rightarrow> string" where
  "job_prefix m revision =
     profile_prefix (text_in m ''profile_id'') @ ''jobs/'' @ text_in m ''job_id'' @ ''/revisions/'' @ show_int revision @ ''/''"

type_synonym 's put = "string \<Rightarrow> string \<Rightarrow> 's \<Rightarrow> artifact py \<times> 's"

fun publish_artifacts ::
    "runtime \<Rightarrow> 's put \<Rightarrow> job_limits \<Rightarrow> string \<Rightarrow> artifact_payload list \<Rightarrow> cancels \<Rightarrow> 's \<Rightarrow> artifact list py \<times> cancels \<times> 's" where
  "publish_artifacts rt put limits prefix [] cs s = (Inr [], cs, s)"
| "publish_artifacts rt put limits prefix ((kind, name, payload) # rest) cs s =
     (case check_token cs of
        (Inl e, cs') \<Rightarrow> (Inl e, cs', s)
      | (Inr u, cs') \<Rightarrow>
          (case json_artifact rt limits payload of
             Inl e \<Rightarrow> (Inl e, cs', s)
           | Inr content \<Rightarrow>
               (case put (prefix @ name) content s of
                  (Inl e, s') \<Rightarrow> (Inl e, cs', s')
                | (Inr a, s') \<Rightarrow>
                    (case publish_artifacts rt put limits prefix rest cs' s' of
                       (Inl e, r) \<Rightarrow> (Inl e, r)
                     | (Inr artifacts, r) \<Rightarrow> (Inr (a\<lparr>af_kind := kind\<rparr> # artifacts), r)))))"

record job_result =
  jr_manifest :: row
  jr_manifest_sha256 :: string
  jr_artifacts :: "artifact list"

definition output_arguments_of :: "string \<Rightarrow> int \<Rightarrow> string \<Rightarrow> row \<Rightarrow> artifact list \<Rightarrow> output_arguments" where
  "output_arguments_of digest revision generated_at counters artifacts =
     \<lparr>oa_input_sha256 = digest, oa_revision = revision, oa_generated_at = generated_at,
      oa_counters = map (\<lambda>k. (k, get_item counters k)) [''accepted_events'', ''rejected_events''], oa_artifacts = map as_manifest artifacts\<rparr>"

definition output_of_job ::
    "runtime \<Rightarrow> manifest_ports \<Rightarrow> row \<Rightarrow> int \<Rightarrow> string \<Rightarrow> row \<Rightarrow> artifact list \<Rightarrow> job_result py" where
  "output_of_job rt mp m revision generated_at counters artifacts =
     py_bind (manifest_sha256 rt m) (\<lambda>digest.
     py_bind (build_output_manifest mp (PDict m) (output_arguments_of digest revision generated_at counters artifacts)) (\<lambda>output.
     py_bind (validate_output_manifest mp (Some m) (PDict output)) (\<lambda>_.
     py_bind (manifest_sha256 rt output) (\<lambda>output_digest.
       Inr \<lparr>jr_manifest = output, jr_manifest_sha256 = output_digest, jr_artifacts = artifacts\<rparr>))))"

definition publish_job ::
    "runtime \<Rightarrow> manifest_ports \<Rightarrow> 's put \<Rightarrow> job_limits \<Rightarrow> row \<Rightarrow> int \<Rightarrow> string \<Rightarrow> row \<Rightarrow> artifact_payload list \<Rightarrow> cancels \<Rightarrow> 's \<Rightarrow>
       job_result py \<times> cancels \<times> 's" where
  "publish_job rt mp put limits m revision generated_at counters payloads cs s =
     (case publish_artifacts rt put limits (job_prefix m revision) payloads cs s of
        (Inl e, r) \<Rightarrow> (Inl e, r)
      | (Inr artifacts, r) \<Rightarrow> (output_of_job rt mp m revision generated_at counters artifacts, r))"

text \<open>What the pipeline leaves for publication: the counters and the payloads with their kinds and names.\<close>

type_synonym pipeline = "row \<Rightarrow> profile_context \<Rightarrow> directory \<Rightarrow> (row \<times> artifact_payload list) py"

definition run_container ::
    "runtime \<Rightarrow> manifest_ports \<Rightarrow> (string \<Rightarrow> bool) \<Rightarrow> bundle_ports \<Rightarrow> 's put \<Rightarrow> job_limits \<Rightarrow> pipeline \<Rightarrow> job_request \<Rightarrow> job_bundle \<Rightarrow> string \<Rightarrow>
       cancels \<Rightarrow> 's \<Rightarrow> job_result py \<times> cancels \<times> 's" where
  "run_container rt mp zone_ok bp put limits pipeline q given generated_at cs s =
     (case admit_job rt mp zone_ok q of
        Inl e \<Rightarrow> (Inl e, cs, s)
      | Inr (m, profile) \<Rightarrow>
          (case materialize_bundle rt mp bp limits m given (jq_upload q) cs of
             (Inl e, cs1) \<Rightarrow> (Inl e, cs1, s)
           | (Inr d, cs1) \<Rightarrow>
               (case pipeline m profile d of
                  Inl e \<Rightarrow> (Inl e, cs1, s)
                | Inr (counters, payloads) \<Rightarrow> publish_job rt mp put limits m (jq_revision q) generated_at counters payloads cs1 s)))"

subsection \<open>The contract of an artifact store\<close>

text \<open>What the publication needs of a store: an accepted object can be read back, no object is ever changed or removed, and storing an
  object again that is there already is accepted and changes nothing.\<close>

locale artifact_store =
  fixes hash :: "string \<Rightarrow> string" and put :: "string \<Rightarrow> string \<Rightarrow> 's \<Rightarrow> artifact py \<times> 's" and get :: "'s \<Rightarrow> string \<Rightarrow> string option"
    and sound :: "'s \<Rightarrow> bool"
  assumes sound_put: "sound s \<Longrightarrow> sound (snd (put k c s))"
    and stored: "sound s \<Longrightarrow> put k c s = (Inr a, s') \<Longrightarrow> get s' k = Some c \<and> af_key a = k \<and> af_sha256 a = hash c \<and> af_size a = length c"
    and kept: "sound s \<Longrightarrow> get s j = Some x \<Longrightarrow> get (snd (put k c s)) j = Some x"
    and again: "sound s \<Longrightarrow> get s k = Some c \<Longrightarrow> put k c t = (Inr a, t') \<Longrightarrow> put k c s = (Inr a, s)"
begin

text \<open>A store has every object of another.\<close>

definition extends :: "'s \<Rightarrow> 's \<Rightarrow> bool" where
  "extends t s \<longleftrightarrow> (\<forall>k x. get s k = Some x \<longrightarrow> get t k = Some x)"

lemma publish_extends:
  "sound s \<Longrightarrow> publish_artifacts rt put limits prefix payloads cs s = (r, cs', s') \<Longrightarrow> sound s' \<and> extends s' s"
proof (induction payloads arbitrary: cs s r)
  case Nil
  then show ?case by (simp add: extends_def)
next
  case (Cons p rest)
  obtain kind name payload where p: "p = (kind, name, payload)" by (metis prod.exhaust)
  obtain t cs1 where token: "check_token cs = (t, cs1)" by (metis prod.exhaust)
  show ?case
  proof (cases "t = Inr () \<and> (\<exists>content. json_artifact rt limits payload = Inr content)")
    case False
    then show ?thesis using Cons.prems by (cases t; cases "json_artifact rt limits payload") (auto simp: p token extends_def)
  next
    case True
    then obtain content where content: "json_artifact rt limits payload = Inr content" and t: "t = Inr ()" by blast
    obtain x s1 where put: "put (prefix @ name) content s = (x, s1)" by (metis prod.exhaust)
    have "s1 = snd (put (prefix @ name) content s)" using put by simp
    then have s1: "sound s1" "extends s1 s" using sound_put[OF Cons.prems(1)] kept[OF Cons.prems(1)] by (simp_all add: extends_def)
    show ?thesis
    proof (cases x)
      case (Inl e)
      then show ?thesis using Cons.prems(2) s1 by (simp add: p token t content put)
    next
      case (Inr a)
      obtain r2 cs2 s2 where rest: "publish_artifacts rt put limits prefix rest cs1 s1 = (r2, cs2, s2)" by (metis prod.exhaust)
      have "s2 = s'" "cs2 = cs'" using Cons.prems(2) by (cases r2, simp_all add: p token t content put Inr rest)+
      then show ?thesis using Cons.IH[OF s1(1)] rest s1(2) by (auto simp: extends_def)
    qed
  qed
qed

lemma publish_steps:
  assumes "publish_artifacts rt put limits prefix ((kind, name, payload) # rest) cs s = (Inr artifacts, cs', s')"
  obtains cs1 content a s1 later where "check_token cs = (Inr (), cs1)" and "json_artifact rt limits payload = Inr content"
    and "put (prefix @ name) content s = (Inr a, s1)" and "publish_artifacts rt put limits prefix rest cs1 s1 = (Inr later, cs', s')"
    and "artifacts = a\<lparr>af_kind := kind\<rparr> # later"
  using assms by (auto split: prod.splits sum.splits)

text \<open>Every published artifact is in the store with its digest and size.\<close>

lemma publish_backed:
  "sound s \<Longrightarrow> publish_artifacts rt put limits prefix payloads cs s = (Inr artifacts, cs', s') \<Longrightarrow> a \<in> set artifacts \<Longrightarrow>
     \<exists>content. get s' (af_key a) = Some content \<and> af_sha256 a = hash content \<and> af_size a = length content"
proof (induction payloads arbitrary: cs s artifacts)
  case (Cons p rest)
  obtain kind name payload where p: "p = (kind, name, payload)" by (metis prod.exhaust)
  obtain cs1 content b s1 later where steps: "check_token cs = (Inr (), cs1)" "json_artifact rt limits payload = Inr content"
      "put (prefix @ name) content s = (Inr b, s1)" "publish_artifacts rt put limits prefix rest cs1 s1 = (Inr later, cs', s')"
      "artifacts = b\<lparr>af_kind := kind\<rparr> # later"
    using publish_steps[OF Cons.prems(2)[unfolded p]] by blast
  have s1: "sound s1" using sound_put[OF Cons.prems(1), of "prefix @ name" content] steps(3) by simp
  have "get s' (prefix @ name) = Some content" "af_key b = prefix @ name" "af_sha256 b = hash content" "af_size b = length content"
    using stored[OF Cons.prems(1) steps(3)] publish_extends[OF s1 steps(4)] by (auto simp: extends_def)
  then show ?case using Cons.IH[OF s1 steps(4)] Cons.prems(3) steps(5) by auto
qed simp

text \<open>Publishing the same payloads again into a store that has them gives the same artifacts and changes nothing.\<close>

lemma publish_again:
  "sound s \<Longrightarrow> publish_artifacts rt put limits prefix payloads cs s = (Inr artifacts, cs', s') \<Longrightarrow> sound t \<Longrightarrow> extends t s' \<Longrightarrow>
     publish_artifacts rt put limits prefix payloads [] t = (Inr artifacts, [], t)"
proof (induction payloads arbitrary: cs s artifacts)
  case (Cons p rest)
  obtain kind name payload where p: "p = (kind, name, payload)" by (metis prod.exhaust)
  obtain cs1 content b s1 later where steps: "check_token cs = (Inr (), cs1)" "json_artifact rt limits payload = Inr content"
      "put (prefix @ name) content s = (Inr b, s1)" "publish_artifacts rt put limits prefix rest cs1 s1 = (Inr later, cs', s')"
      "artifacts = b\<lparr>af_kind := kind\<rparr> # later"
    using publish_steps[OF Cons.prems(2)[unfolded p]] by blast
  have s1: "sound s1" using sound_put[OF Cons.prems(1), of "prefix @ name" content] steps(3) by simp
  have "get t (prefix @ name) = Some content"
    using stored[OF Cons.prems(1) steps(3)] publish_extends[OF s1 steps(4)] Cons.prems(4) by (auto simp: extends_def)
  then have "put (prefix @ name) content t = (Inr b, t)" using again[OF Cons.prems(3)] steps(3) by blast
  then show ?case using Cons.IH[OF s1 steps(4) Cons.prems(3,4)] steps(2,5) by (simp add: p check_token_def)
qed simp

end

subsection \<open>Both stores keep it\<close>

interpretation memory: artifact_store "sha256_hex rt" "memory_put rt ctype" map_of "\<lambda>s. True" for rt ctype
  by unfold_locales (auto simp: memory_put_def artifact_of_def map_add_def split: option.splits if_splits)

definition tree_sound :: "file_tree \<Rightarrow> bool" where
  "tree_sound files \<longleftrightarrow> \<not> list_ex (\<lambda>(p, c). list_ex (\<lambda>(q, d). below p q) files) files \<and> \<not> list_ex (\<lambda>(p, c). p = []) files"

definition tree_get :: "file_tree \<Rightarrow> string \<Rightarrow> string option" where
  "tree_get files key = (if is_absolute key \<or> ''..'' \<in> set (path_parts key) then None else map_of files (path_parts key))"

lemma below_irrefl [simp]: "\<not> below p p"
  by (simp add: below_def)

interpretation files: artifact_store "sha256_hex rt" "file_put rt ctype" tree_get tree_sound for rt ctype
proof
  fix s k c
  assume "tree_sound s"
  then show "tree_sound (snd (file_put rt ctype k c s))"
    by (auto simp: file_put_def Let_def tree_sound_def list_ex_iff split: option.splits)
next
  fix s k c a s'
  assume "file_put rt ctype k c s = (Inr a, s')"
  then show "tree_get s' k = Some c \<and> af_key a = k \<and> af_sha256 a = sha256_hex rt c \<and> af_size a = length c"
    by (auto simp: file_put_def Let_def tree_get_def artifact_of_def map_add_def split: option.splits if_splits)
next
  fix s j x k c
  assume "tree_get s j = Some x"
  then show "tree_get (snd (file_put rt ctype k c s)) j = Some x"
    by (auto simp: file_put_def Let_def tree_get_def map_add_def split: option.splits if_splits)
next
  fix s k c t a t'
  assume sound: "tree_sound s" and found: "tree_get s k = Some c" and put: "file_put rt ctype k c t = (Inr a, t')"
  have key: "\<not> (is_absolute k \<or> ''..'' \<in> set (path_parts k))" "map_of s (path_parts k) = Some c"
    using found by (auto simp: tree_get_def split: if_splits)
  then have "(path_parts k, c) \<in> set s" by (blast dest: map_of_SomeD)
  then have "path_parts k \<noteq> []" "\<not> list_ex (\<lambda>(p, c). below p (path_parts k)) s" "\<not> list_ex (\<lambda>(p, c). below (path_parts k) p) s"
    using sound by (auto simp: tree_sound_def list_ex_iff)
  moreover have "a = artifact_of rt k c ctype" using put by (auto simp: file_put_def Let_def split: option.splits if_splits)
  ultimately show "file_put rt ctype k c s = (Inr a, s)" using key by (simp add: file_put_def)
qed

subsection \<open>Runs\<close>

lemma output_of_job_Inr:
  assumes "output_of_job rt mp m revision generated_at counters artifacts = Inr result"
  shows "validate_output_manifest mp (Some m) (PDict (jr_manifest result)) = Inr (jr_manifest result)" and "jr_artifacts result = artifacts"
    and "get_item (jr_manifest result) ''artifacts'' = PList (map as_manifest artifacts)"
    and "text_in (jr_manifest result) ''profile_id'' = text_in m ''profile_id''"
proof -
  obtain digest source out where steps: "build_output_manifest mp (PDict m) (output_arguments_of digest revision generated_at counters artifacts) = Inr out"
      and valid: "validate_output_manifest mp (Some m) (PDict out) = Inr source"
      and result: "jr_manifest result = out" "jr_artifacts result = artifacts"
    using assms by (auto simp: output_of_job_def py_bind_Inr_iff)
  obtain src where "validate_input_manifest mp (PDict m) = Inr src"
      "out = output_document src (output_arguments_of digest revision generated_at counters artifacts)"
    using steps by (auto simp: build_output_manifest_def py_bind_Inr_iff)
  moreover have "src = m" using validated_input(1)[OF calculation(1)] by simp
  ultimately have out: "out = output_document m (output_arguments_of digest revision generated_at counters artifacts)" by simp
  have "source = out" using validated_output(1)[OF valid] by simp
  then show "validate_output_manifest mp (Some m) (PDict (jr_manifest result)) = Inr (jr_manifest result)" using valid result by simp
  show "jr_artifacts result = artifacts" by (rule result)
  show "get_item (jr_manifest result) ''artifacts'' = PList (map as_manifest artifacts)"
    by (simp add: result out document_items output_arguments_of_def)
  show "text_in (jr_manifest result) ''profile_id'' = text_in m ''profile_id''"
    by (simp add: result out text_in_def[of "output_document _ _"] document_items)
qed

lemma artifact_keys: "PList (map as_manifest artifacts) = v \<Longrightarrow> map (\<lambda>a. text_in (members a) ''object_key'') (elements v) = map af_key artifacts"
  by (auto simp: elements_def as_manifest_def members_def text_in_def get_item_def)

lemma run_steps:
  assumes "run_container rt mp zone_ok bp put limits pipeline q given generated_at cs s = (Inr result, cs', s')"
  obtains m profile d cs1 counters payloads artifacts where "admit_job rt mp zone_ok q = Inr (m, profile)"
    and "materialize_bundle rt mp bp limits m given (jq_upload q) cs = (Inr d, cs1)" and "pipeline m profile d = Inr (counters, payloads)"
    and "publish_artifacts rt put limits (job_prefix m (jq_revision q)) payloads cs1 s = (Inr artifacts, cs', s')"
    and "output_of_job rt mp m (jq_revision q) generated_at counters artifacts = Inr result"
  using assms by (auto simp: run_container_def publish_job_def split: sum.splits prod.splits)

lemma admitted:
  assumes "admit_job rt mp zone_ok q = Inr (m, profile)"
  shows "validate_input_manifest mp (jq_manifest q) = Inr m"
proof -
  have "validate_input_manifest mp (jq_manifest q) = Inr x" if "contract_of (validate_input_manifest mp (jq_manifest q)) = Inr x" for x
    using that by (cases "validate_input_manifest mp (jq_manifest q)" rule: contract_of.cases) simp_all
  then show ?thesis using assms by (auto simp: admit_job_def py_bind_Inr_iff)
qed

text \<open>C29: A job that succeeds has published what it says: its output manifest is valid for its input, every artifact it lists lies in the directory of its
  profile and is in the store with the digest and the size it lists, and no object that was there before was changed.\<close>

theorem successful_job_is_published:
  assumes "run_container rt mp zone_ok bp (memory_put rt ctype) limits pipeline q given generated_at cs s = (Inr result, cs', s')"
  shows "\<exists>m. validate_input_manifest mp (jq_manifest q) = Inr m \<and>
    validate_output_manifest mp (Some m) (PDict (jr_manifest result)) = Inr (jr_manifest result) \<and>
    (\<forall>a\<in>set (jr_artifacts result). inside_profile (text_in m ''profile_id'') (af_key a) \<and>
       (\<exists>content. map_of s' (af_key a) = Some content \<and> af_sha256 a = sha256_hex rt content \<and> af_size a = length content)) \<and>
    (\<forall>k x. map_of s k = Some x \<longrightarrow> map_of s' k = Some x)"
proof -
  obtain m profile d cs1 counters payloads artifacts where steps: "admit_job rt mp zone_ok q = Inr (m, profile)"
      "publish_artifacts rt (memory_put rt ctype) limits (job_prefix m (jq_revision q)) payloads cs1 s = (Inr artifacts, cs', s')"
      "output_of_job rt mp m (jq_revision q) generated_at counters artifacts = Inr result"
    using run_steps[OF assms] by metis
  note out = output_of_job_Inr[OF steps(3)]
  have "inside_profile (text_in m ''profile_id'') (af_key a)" if "a \<in> set artifacts" for a
    using output_key_inside[OF out(1), of "af_key a"] out(4) artifact_keys[OF out(3)[symmetric]] that
    by (simp add: output_object_keys_def)
  moreover have "\<exists>content. map_of s' (af_key a) = Some content \<and> af_sha256 a = sha256_hex rt content \<and> af_size a = length content"
    if "a \<in> set artifacts" for a
    using memory.publish_backed[OF TrueI steps(2) that] .
  moreover have "\<forall>k x. map_of s k = Some x \<longrightarrow> map_of s' k = Some x"
    using memory.publish_extends[OF TrueI steps(2)] by (simp add: memory.extends_def)
  ultimately show ?thesis using admitted[OF steps(1)] out(1,2) by auto
qed

lemma copy_without_cancel: "copy_chunks limit copied chunks cs = (Inr x, cs') \<Longrightarrow> copy_chunks limit copied chunks [] = (Inr x, [])"
  by (induction limit copied chunks cs rule: copy_chunks.induct)
    (auto simp: check_token_def split: prod.splits sum.splits if_splits list.splits)

lemma copy_limited_without_cancel: "copy_limited limit source cs = (Inr x, cs') \<Longrightarrow> copy_limited limit source [] = (Inr x, [])"
  unfolding copy_limited_def by (rule copy_without_cancel)

lemma extract_members_without_cancel:
  "extract_members limits files ms cs = (Inr x, cs') \<Longrightarrow> extract_members limits files ms [] = (Inr x, [])"
proof (induction ms arbitrary: files cs)
  case (Cons m ms)
  obtain name where name: "safe_member_name (am_name m) = Inr name" using Cons.prems by (cases "safe_member_name (am_name m)") auto
  obtain r cs1 where copy: "copy_limited (jl_max_database_bytes limits) (am_content m) cs = (r, cs1)" by (metis prod.exhaust)
  have run: "extract_members limits files (m # ms) cs =
      (if \<not> am_regular m \<or> name \<in> set (map fst files) then (Inl integrity_error, cs)
       else if jl_max_database_bytes limits < am_declared_size m then (Inl limit_exceeded, cs)
       else case r of Inl e \<Rightarrow> (Inl e, cs1) | Inr content \<Rightarrow> extract_members limits (files @ [(name, content)]) ms cs1)"
    by (simp only: extract_members.simps name copy sum.case prod.case)
  have ok: "\<not> (\<not> am_regular m \<or> name \<in> set (map fst files))" "\<not> jl_max_database_bytes limits < am_declared_size m"
    using Cons.prems unfolding run by (simp_all only: split: if_splits) simp_all
  obtain content where r: "r = Inr content" and rest: "extract_members limits (files @ [(name, content)]) ms cs1 = (Inr x, cs')"
    using Cons.prems unfolding run if_not_P[OF ok(1)] if_not_P[OF ok(2)] by (cases r) simp_all
  show ?case
    by (simp only: extract_members.simps name sum.case copy_limited_without_cancel[OF copy[unfolded r]] prod.case if_not_P[OF ok(1)]
        if_not_P[OF ok(2)] Cons.IH[OF rest])
qed simp

lemma extract_without_cancel:
  assumes "extract_archive limits a cs = (Inr x, cs')"
  shows "extract_archive limits a [] = (Inr x, [])"
proof (cases a)
  case (Archive ms)
  obtain files cs1 where "extract_members limits [] ms cs = (Inr files, cs1)"
    using assms by (auto simp: extract_archive_def Archive split: prod.splits sum.splits)
  then show ?thesis using assms extract_members_without_cancel[of limits "[]" ms cs files cs1] by (simp add: extract_archive_def Archive)
qed (use assms in \<open>simp add: extract_archive_def\<close>)

lemma decrypt_without_cancel:
  assumes "decrypted_bundle bp limits m e cs = (Inr x, cs')"
  shows "decrypted_bundle bp limits m e [] = (Inr x, [])"
proof -
  obtain decrypt where decrypt: "bp_decrypt bp = Some decrypt" using assms by (cases "bp_decrypt bp") (simp_all add: decrypted_bundle_def)
  obtain plain where plain: "decrypt e (text_in m ''profile_id'') (text_in (bundle_of m) ''key_ref'') = Some plain"
    using assms by (cases "decrypt e (text_in m ''profile_id'') (text_in (bundle_of m) ''key_ref'')") (simp_all add: decrypted_bundle_def decrypt)
  show ?thesis
    using assms copy_limited_without_cancel[of "jl_max_temp_bytes limits" plain cs x cs'] by (simp add: decrypted_bundle_def decrypt plain)
qed

lemma materialize_without_cancel:
  assumes "materialize_bundle rt mp bp limits m given upload cs = (Inr d, cs')"
  shows "materialize_bundle rt mp bp limits m given upload [] = (Inr d, [])"
proof (cases "\<exists>x. given = From_Directory x")
  case True
  then show ?thesis using assms by (auto simp: materialize_bundle_def)
next
  case False
  define source where "source = (case given of From_Source s \<Rightarrow> Inr s | _ \<Rightarrow> source_from_store bp m)"
  define n where "n = (case get_item (bundle_of m) ''size_bytes'' of PInt n \<Rightarrow> nat n | _ \<Rightarrow> 0)"
  have run: "materialize_bundle rt mp bp limits m given upload cs =
      (case source of Inl e \<Rightarrow> (Inl e, cs)
       | Inr source \<Rightarrow>
           (case copy_limited (min n (jl_max_input_bytes limits)) source cs of
              (Inl e, cs1) \<Rightarrow> (Inl e, cs1)
            | (Inr encrypted, cs1) \<Rightarrow>
                if length encrypted \<noteq> n \<or> sha256_hex rt encrypted \<noteq> text_in (bundle_of m) ''sha256'' then (Inl integrity_error, cs1)
                else
                  (case decrypted_bundle bp limits m encrypted cs1 of
                     (Inl e, cs2) \<Rightarrow> (Inl e, cs2)
                   | (Inr plain, cs2) \<Rightarrow>
                       (case extract_archive limits (bp_archive bp plain) cs2 of
                          (Inl e, cs3) \<Rightarrow> (Inl e, cs3)
                        | (Inr files, cs3) \<Rightarrow>
                            let d = map (\<lambda>(name, content). (name, File content)) files in
                            (py_bind (verify_bundle_directory rt mp limits upload (Some d)) (\<lambda>_. Inr d), cs3)))))" for cs
    using False unfolding materialize_bundle_def source_def n_def Let_def by (cases given) simp_all
  obtain s where s: "source = Inr s" using assms unfolding run by (cases source) auto
  obtain e cs1 where e: "copy_limited (min n (jl_max_input_bytes limits)) s cs = (Inr e, cs1)"
    using assms unfolding run s sum.case by (auto split: prod.splits sum.splits)
  have ok: "\<not> (length e \<noteq> n \<or> sha256_hex rt e \<noteq> text_in (bundle_of m) ''sha256'')"
    using assms unfolding run s sum.case e prod.case by (auto split: if_splits)
  obtain plain cs2 where plain: "decrypted_bundle bp limits m e cs1 = (Inr plain, cs2)"
    using assms unfolding run s sum.case e prod.case if_not_P[OF ok] by (auto split: prod.splits sum.splits)
  obtain files cs3 where files: "extract_archive limits (bp_archive bp plain) cs2 = (Inr files, cs3)"
    using assms unfolding run s sum.case e prod.case if_not_P[OF ok] plain by (auto split: prod.splits sum.splits)
  show ?thesis
    using assms unfolding run s sum.case e prod.case if_not_P[OF ok] plain files copy_limited_without_cancel[OF e]
      decrypt_without_cancel[OF plain] extract_without_cancel[OF files] Let_def by simp
qed


subsection \<open>An example\<close>

definition sample_request :: job_request where
  "sample_request = \<lparr>jq_manifest = example_input (PStr ''eligible''), jq_upload = None, jq_context = None, jq_display_name = ''Personal'',
     jq_timezone = ''Asia/Tokyo'', jq_recommendation_profile = None, jq_has_repository = False, jq_revision = 1\<rparr>"

definition sample_pipeline :: pipeline where
  "sample_pipeline m profile d =
     Inr ([(''accepted_events'', PInt 1), (''rejected_events'', PInt 0)], [(''model_input'', ''model_input.json'', PDict [])])"

definition sample_run :: "'s put \<Rightarrow> 's \<Rightarrow> job_result py \<times> cancels \<times> 's" where
  "sample_run put = run_container sample_hash_runtime example_ports (\<lambda>z. True) sample_bundle_ports put sample_limits sample_pipeline sample_request
     (From_Directory sample_directory) ''2026-01-01T00:00:01Z'' []"

definition sample_key :: string where
  "sample_key = job_prefix (members (example_input (PStr ''eligible''))) 1 @ ''model_input.json''"

definition sample_artifact :: artifact where
  "sample_artifact = artifact_of sample_hash_runtime sample_key ''{}'' ''application/json''"

definition sample_result :: job_result where
  "sample_result =
     \<lparr>jr_manifest = output_document (members (example_input (PStr ''eligible'')))
         (output_arguments_of example_hash 1 ''2026-01-01T00:00:01Z'' [(''accepted_events'', PInt 1), (''rejected_events'', PInt 0)] [sample_artifact]),
      jr_manifest_sha256 = example_hash, jr_artifacts = [sample_artifact]\<rparr>"

lemma sample_admitted: "\<exists>profile. admit_job sample_hash_runtime example_ports (\<lambda>z. True) sample_request =
    Inr (members (example_input (PStr ''eligible'')), profile)"
proof -
  have "map_sum id fst (admit_job sample_hash_runtime example_ports (\<lambda>z. True) sample_request) = Inr (members (example_input (PStr ''eligible'')))"
    by code_simp
  then show ?thesis by (cases "admit_job sample_hash_runtime example_ports (\<lambda>z. True) sample_request") auto
qed

lemma sample_output: "output_of_job sample_hash_runtime example_ports (members (example_input (PStr ''eligible''))) 1 ''2026-01-01T00:00:01Z''
    [(''accepted_events'', PInt 1), (''rejected_events'', PInt 0)] [sample_artifact] = Inr sample_result"
  by code_simp

lemma sample_run_any:
  assumes "put sample_key ''{}'' s = (Inr sample_artifact, s')"
  shows "sample_run put s = (Inr sample_result, [], s')"
proof -
  let ?m = "members (example_input (PStr ''eligible''))"
  obtain profile where admitted: "admit_job sample_hash_runtime example_ports (\<lambda>z. True) sample_request = Inr (?m, profile)"
    using sample_admitted by blast
  have "verify_bundle_directory sample_hash_runtime example_ports sample_limits None (Some sample_directory) = Inr ()" by code_simp
  then have bundled: "materialize_bundle sample_hash_runtime example_ports sample_bundle_ports sample_limits ?m (From_Directory sample_directory) None [] =
      (Inr sample_directory, [])"
    by (simp add: materialize_bundle_def)
  have "json_artifact sample_hash_runtime sample_limits (PDict []) = Inr ''{}''" by code_simp
  moreover have "sample_artifact\<lparr>af_kind := ''model_input''\<rparr> = sample_artifact" by code_simp
  ultimately have "publish_artifacts sample_hash_runtime put sample_limits (job_prefix ?m 1) [(''model_input'', ''model_input.json'', PDict [])] [] s =
      (Inr [sample_artifact], [], s')"
    using assms by (simp add: check_token_def sample_key_def)
  then show ?thesis
    using admitted bundled sample_output
    by (simp add: sample_run_def run_container_def sample_pipeline_def publish_job_def sample_request_def)
qed

lemma sample_run_memory: "sample_run (memory_put sample_hash_runtime ''application/json'') [] = (Inr sample_result, [], [(sample_key, ''{}'')])"
  by (rule sample_run_any) (simp add: memory_put_def sample_artifact_def)

lemma sample_run_files: "sample_run (file_put sample_hash_runtime ''application/json'') [] =
    (Inr sample_result, [], [(path_parts sample_key, ''{}'')])"
proof (rule sample_run_any)
  have "\<not> is_absolute sample_key" "''..'' \<notin> set (path_parts sample_key)" "path_parts sample_key \<noteq> []" by code_simp+
  then show "file_put sample_hash_runtime ''application/json'' sample_key ''{}'' [] = (Inr sample_artifact, [(path_parts sample_key, ''{}'')])"
    by (simp add: file_put_def sample_artifact_def)
qed

theorem successful_job_is_published_witness:
  "list_all (\<lambda>a. map_of [(sample_key, ''{}'')] (af_key a) \<noteq> None) (jr_artifacts sample_result)"
proof -
  obtain m where "validate_input_manifest example_ports (jq_manifest sample_request) = Inr m"
      "\<forall>a\<in>set (jr_artifacts sample_result). \<exists>content. map_of [(sample_key, ''{}'')] (af_key a) = Some content"
    using successful_job_is_published[OF sample_run_memory[unfolded sample_run_def]] by blast
  then show ?thesis by (auto simp: list_all_iff)
qed


end
