(* ===== verification/Entrypoint.thy ===== *)
theory Entrypoint
  imports Framed Container_Job
begin

text \<open>
  The HTTP entry point of the container (\<open>cloudflare/container/entrypoint.py\<close>): the headers of a request, the three ways in which a
  bundle arrives, and the answer. The adapter is the argument \<open>run\<close>: from a call to its result and the objects of its memory store.
  The answer to a request is an option, since reading the body might not return; that it does is proved. A client that goes away while the
  answer is written is not modelled.
\<close>

subsection \<open>Answers\<close>

record reply =
  rp_status :: int
  rp_body :: row

definition error_messages :: "(string \<times> string) list" where
  "error_messages =
     [(''invalid_json'', ''request JSON is invalid''), (''invalid_contract'', ''request contract is invalid''),
      (''invalid_input'', ''input bundle is invalid''), (''unsupported_game_mode'', ''only SP7 jobs are supported''),
      (''unsupported_job_type'', ''job type is not supported''), (''payload_too_large'', ''request exceeds the permitted size''),
      (''resource_limit_exceeded'', ''job resource limit exceeded''), (''job_cancelled'', ''job cancelled''),
      (''temporary_unavailable'', ''processor is temporarily unavailable''),
      (''idempotency_conflict'', ''immutable job output conflicts with an existing object''),
      (''table_input_unavailable'', ''owned table catalog input is unavailable'')]"

definition error_payload :: "string \<Rightarrow> string \<Rightarrow> bool \<Rightarrow> row" where
  "error_payload request_id code retryable =
     [(''error'', PDict [(''code'', PStr code),
        (''message'', PStr (case map_of error_messages code of Some m \<Rightarrow> m | None \<Rightarrow> ''request could not be processed'')),
        (''request_id'', PStr request_id), (''retryable'', PBool retryable),
        (''retry_after_seconds'', if retryable then PInt 5 else PNone)])]"

text \<open>The two handlers of \<open>do_POST\<close>: known errors keep their code, everything else is a retryable outage.\<close>

fun error_reply :: "string \<Rightarrow> py_exn \<Rightarrow> reply" where
  "error_reply request_id (ContainerError code retryable status) = \<lparr>rp_status = status, rp_body = error_payload request_id code retryable\<rparr>"
| "error_reply request_id (ManifestError message code) = \<lparr>rp_status = 422, rp_body = error_payload request_id code False\<rparr>"
| "error_reply request_id e = \<lparr>rp_status = 503, rp_body = error_payload request_id ''temporary_unavailable'' True\<rparr>"

subsection \<open>Headers\<close>

record entry_ports =
  ep_frames :: frame_ports
  ep_b64decode :: "string \<Rightarrow> string option"
  ep_b64encode :: "string \<Rightarrow> string"
  ep_inside_root :: "string \<Rightarrow> bool"
  ep_request_id :: string

definition max_header :: nat where "max_header = 64 * 1024"
definition max_play_event_header :: nat where "max_play_event_header = 16 * 1024"

definition job_kinds :: "string list" where
  "job_kinds = [''initial'', ''monthly'', ''play'', ''regenerate'']"

definition ascii_length :: "string \<Rightarrow> nat" where
  "ascii_length s = length (filter (\<lambda>c. (of_char c :: nat) < 128) s)"

definition base64_padded :: "string \<Rightarrow> string" where
  "base64_padded s = s @ replicate ((4 - utf8_length s mod 4) mod 4) (CHR ''='')"

text \<open>\<open>ManifestError\<close> is a \<open>ValueError\<close>, so a failing \<open>parse_json\<close> is translated as well.\<close>

definition decode_json_header :: "entry_ports \<Rightarrow> string \<Rightarrow> (string \<times> pyval) py" where
  "decode_json_header ep v =
     (case ep_b64decode ep (base64_padded v) of
        None \<Rightarrow> Inl (ManifestError ''header is invalid'' ''invalid_json'')
      | Some decoded \<Rightarrow>
          (case parse_json (fp_manifest (ep_frames ep)) decoded of
             Inl e \<Rightarrow> Inl (ManifestError ''header is invalid'' ''invalid_json'') | Inr x \<Rightarrow> Inr (decoded, x)))"

definition decode_manifest_header :: "entry_ports \<Rightarrow> string \<Rightarrow> row py" where
  "decode_manifest_header ep v =
     py_bind (raise_if (max_header < ascii_length v) (ManifestError ''manifest header is too large'' ''payload_too_large'')) (\<lambda>_.
     py_bind (decode_json_header ep v) (\<lambda>(decoded, x).
       case x of PDict d \<Rightarrow> Inr d | _ \<Rightarrow> Inl (invalid ''manifest header must contain an object'')))"

definition is_event_id :: "string \<Rightarrow> bool" where
  "is_event_id s \<longleftrightarrow> length s = 36 \<and> list_all (\<lambda>c. is_hex_lower c \<or> c = CHR ''-'') s"

definition event_row_ok :: "row \<Rightarrow> bool" where
  "event_row_ok r \<longleftrightarrow>
     list_all (\<lambda>k. k \<in> set (map fst r)) [''sha256'', ''mode'', ''date'', ''playcount'', ''clear''] \<and> is_text is_sha256 (get_item r ''sha256'') \<and>
     list_all (\<lambda>k. int_like (get_item r k) \<noteq> None) [''mode'', ''date'', ''playcount'', ''clear'']"

text \<open>\<open>== 1\<close> also holds of \<open>True\<close> and of the float.\<close>

definition play_event_ok :: "row \<Rightarrow> row \<Rightarrow> bool" where
  "play_event_ok m e \<longleftrightarrow>
     get_item e ''contract'' = PStr ''container-play-event'' \<and> get_item e ''schema_version'' \<in> {PInt 1, PBool True, PFloat (Fin 1)} \<and>
     get_item e ''profile_id'' = get_item m ''profile_id'' \<and> is_text is_event_id (get_item e ''event_id'') \<and>
     is_text is_sha256 (get_item e ''payload_digest'') \<and> (case get_item e ''row'' of PDict r \<Rightarrow> event_row_ok r | _ \<Rightarrow> False)"

definition decode_play_event_header :: "entry_ports \<Rightarrow> string \<Rightarrow> row \<Rightarrow> row py" where
  "decode_play_event_header ep v m =
     py_bind (raise_if (2 * max_play_event_header < ascii_length v) (ManifestError ''play event header is too large'' ''payload_too_large'')) (\<lambda>_.
     py_bind (decode_json_header ep v) (\<lambda>(decoded, x).
       case x of
         PDict e \<Rightarrow>
           if max_play_event_header < length decoded then Inl (invalid ''play event header is invalid'')
           else if play_event_ok m e then Inr e else Inl (invalid ''play event contract is invalid'')
       | _ \<Rightarrow> Inl (invalid ''play event header is invalid'')))"

subsection \<open>Requests\<close>

record post_request =
  po_path :: string
  po_headers :: "(string \<times> string) list"
  po_bytes :: string
  po_chops :: "nat list"

datatype job_input = Framed_Files "(string \<times> string) list" | Streamed body | Fixture string

record job_call =
  jc_kind :: string
  jc_manifest :: row
  jc_input :: job_input
  jc_revision :: int
  jc_generated_at :: "string option"
  jc_context :: "row option"
  jc_play_event :: "row option"

text \<open>\<open>headers.get(k) or default\<close>\<close>

definition header_or :: "post_request \<Rightarrow> string \<Rightarrow> string \<Rightarrow> string" where
  "header_or q k d = (case map_of (po_headers q) k of None \<Rightarrow> d | Some v \<Rightarrow> if v = [] then d else v)"

definition play_event_of :: "entry_ports \<Rightarrow> post_request \<Rightarrow> string \<Rightarrow> row \<Rightarrow> row option py" where
  "play_event_of ep q kind m =
     (let v = header_or q ''X-Container-Play-Event'' [] in
      if kind = ''play'' \<and> v = [] then Inl (invalid ''play event is required'')
      else if kind \<noteq> ''play'' \<and> v \<noteq> [] then Inl (invalid ''play event is not allowed'')
      else if v = [] then Inr None
      else py_bind (decode_play_event_header ep v m) (\<lambda>e. Inr (Some e)))"

definition body_of :: "post_request \<Rightarrow> int \<Rightarrow> body" where
  "body_of q n = \<lparr>by_bytes = po_bytes q, by_chops = po_chops q, by_remaining = nat n\<rparr>"

definition framed_call :: "entry_ports \<Rightarrow> post_request \<Rightarrow> int \<Rightarrow> (job_input \<times> row option) py option" where
  "framed_call ep q n =
     (if n < int (length magic1) then Some (Inl (invalid ''content length is invalid''))
      else case materialize_framed_input (ep_frames ep) (body_of q n) of
          None \<Rightarrow> None
        | Some (Inl e, b) \<Rightarrow> Some (Inl e)
        | Some (Inr (ctx, files), b) \<Rightarrow> Some (Inr (Framed_Files files, ctx)))"

definition streamed_call :: "post_request \<Rightarrow> int \<Rightarrow> row \<Rightarrow> (job_input \<times> row option) py" where
  "streamed_call q n m =
     (case (case get_item m ''input_bundle'' of PDict b \<Rightarrow> int_like (get_item b ''size_bytes'') | _ \<Rightarrow> None) of
        None \<Rightarrow> Inl (invalid ''content length does not match manifest'')
      | Some expected \<Rightarrow>
          if n \<noteq> expected then Inl (invalid ''content length does not match manifest'') else Inr (Streamed (body_of q n), None))"

text \<open>A revision that is not a number raises a plain \<open>ValueError\<close>.\<close>

definition header_checks :: "entry_ports \<Rightarrow> post_request \<Rightarrow> string \<Rightarrow> (row \<times> row option \<times> int \<times> int) py" where
  "header_checks ep q v =
     py_bind (decode_manifest_header ep v) (\<lambda>m.
     py_bind (raise_if (header_or q ''X-Container-Job-Kind'' [] \<notin> set job_kinds) (ManifestError ''job kind is invalid'' ''unsupported_job_type'')) (\<lambda>_.
     py_bind (play_event_of ep q (header_or q ''X-Container-Job-Kind'' []) m) (\<lambda>event.
     py_bind (case parse_int (header_or q ''Content-Length'' ''-1'') of None \<Rightarrow> Inl (invalid ''content length is invalid'') | Some n \<Rightarrow> Inr n) (\<lambda>n.
     py_bind (case parse_int (header_or q ''X-Container-Output-Revision'' ''1'') of None \<Rightarrow> Inl (ValueError ''invalid literal'') | Some r \<Rightarrow> Inr r) (\<lambda>r.
       Inr (m, event, n, r))))))"

definition given_input :: "entry_ports \<Rightarrow> post_request \<Rightarrow> int \<Rightarrow> row \<Rightarrow> (job_input \<times> row option) py option" where
  "given_input ep q n m =
     (if header_or q ''X-Container-Transport'' [] \<in> {''five-db-framed-v1'', ''five-db-framed-v2''} then framed_call ep q n
      else Some (streamed_call q n m))"

definition header_call :: "entry_ports \<Rightarrow> post_request \<Rightarrow> string \<Rightarrow> job_call py option" where
  "header_call ep q v =
     (case header_checks ep q v of
        Inl e \<Rightarrow> Some (Inl e)
      | Inr (m, event, n, r) \<Rightarrow>
          map_option (\<lambda>given. py_bind given (\<lambda>(input, ctx).
            Inr \<lparr>jc_kind = header_or q ''X-Container-Job-Kind'' [], jc_manifest = m, jc_input = input, jc_revision = r,
              jc_generated_at = Some (py_str (fp_runtime (ep_frames ep)) (get_item m ''requested_at'')), jc_context = ctx,
              jc_play_event = event\<rparr>)) (given_input ep q n m))"

definition safe_fixture_path :: "entry_ports \<Rightarrow> string \<Rightarrow> string py" where
  "safe_fixture_path ep name =
     py_bind (raise_if (\<not> (case name of [] \<Rightarrow> False | c # cs \<Rightarrow> is_alnum c \<and> length cs \<le> 255 \<and> list_all (\<lambda>d. is_alnum d \<or> d \<in> set ''._-'') cs))
       (invalid ''bundle name is invalid'')) (\<lambda>_.
     py_bind (raise_if (\<not> ep_inside_root ep name) (invalid ''bundle name crosses input partition'')) (\<lambda>_. Inr name))"

definition read_json_request :: "entry_ports \<Rightarrow> post_request \<Rightarrow> row py" where
  "read_json_request ep q =
     py_bind (case parse_int (header_or q ''Content-Length'' ''0'') of
         None \<Rightarrow> Inl (ManifestError ''content length is invalid'' ''invalid_json'') | Some n \<Rightarrow> Inr n) (\<lambda>n.
     py_bind (raise_if (n \<le> 0 \<or> int (4 * max_header) < n) (ManifestError ''JSON request is too large'' ''payload_too_large'')) (\<lambda>_.
     py_bind (parse_json (fp_manifest (ep_frames ep)) (take (nat n) (po_bytes q))) (\<lambda>v.
       case v of PDict d \<Rightarrow> Inr d | _ \<Rightarrow> Inl (invalid ''request must contain an object''))))"

definition json_call :: "entry_ports \<Rightarrow> post_request \<Rightarrow> job_call py" where
  "json_call ep q =
     py_bind (read_json_request ep q) (\<lambda>d.
     py_bind (case get_item d ''manifest'' of PDict m \<Rightarrow> Inr m | _ \<Rightarrow> Inl (invalid ''manifest is required'')) (\<lambda>m.
     py_bind (case get_item d ''bundle_name'' of PStr s \<Rightarrow> Inr s | _ \<Rightarrow> Inl (invalid ''bundle_name is required'')) (\<lambda>name.
     py_bind (case (case map_of d ''job_kind'' of None \<Rightarrow> PStr ''initial'' | Some v \<Rightarrow> v) of
         PStr s \<Rightarrow> if s \<in> set job_kinds then Inr s else Inl (ManifestError ''job kind is invalid'' ''unsupported_job_type'')
       | _ \<Rightarrow> Inl (ManifestError ''job kind is invalid'' ''unsupported_job_type'')) (\<lambda>kind.
     py_bind (safe_fixture_path ep name) (\<lambda>path.
       Inr \<lparr>jc_kind = kind, jc_manifest = m, jc_input = Fixture path, jc_revision = 1, jc_generated_at = None,
         jc_context = (case get_item d ''table_context'' of PDict c \<Rightarrow> Some c | _ \<Rightarrow> None), jc_play_event = None\<rparr>)))))"

subsection \<open>The answer to a job\<close>

definition artifact_reply :: "entry_ports \<Rightarrow> objects \<Rightarrow> artifact \<Rightarrow> pyval py" where
  "artifact_reply ep objects a =
     (case map_of objects (af_key a) of
        None \<Rightarrow> Inl unavailable
      | Some content \<Rightarrow>
          if sha256_hex (fp_runtime (ep_frames ep)) content \<noteq> af_sha256 a then Inl unavailable
          else Inr (PDict (members (as_manifest a) @ [(''data_base64'', PStr (ep_b64encode ep content))])))"

definition job_reply :: "entry_ports \<Rightarrow> job_result \<times> objects \<Rightarrow> row py" where
  "job_reply ep r =
     py_bind (py_mapM (artifact_reply ep (snd r)) (jr_artifacts (fst r))) (\<lambda>artifacts.
       Inr [(''status'', PStr ''succeeded''), (''output_manifest'', PDict (jr_manifest (fst r))),
         (''output_manifest_sha256'', PStr (jr_manifest_sha256 (fst r))), (''artifacts'', PList artifacts)])"

definition reply_of :: "entry_ports \<Rightarrow> row py \<Rightarrow> reply" where
  "reply_of ep r = (case r of Inl e \<Rightarrow> error_reply (ep_request_id ep) e | Inr body \<Rightarrow> \<lparr>rp_status = 200, rp_body = body\<rparr>)"

definition do_job_post :: "entry_ports \<Rightarrow> (job_call \<Rightarrow> (job_result \<times> objects) py) \<Rightarrow> post_request \<Rightarrow> reply option" where
  "do_job_post ep run q =
     (if po_path q \<noteq> ''/v1/jobs'' then Some \<lparr>rp_status = 404, rp_body = [(''error'', PDict [(''code'', PStr ''not_found'')])]\<rparr>
      else
        let v = header_or q ''X-Container-Input-Manifest'' [] in
        (case (if v \<noteq> [] then header_call ep q v else Some (json_call ep q)) of
           None \<Rightarrow> None
         | Some call \<Rightarrow> Some (reply_of ep (py_bind call (\<lambda>c. py_bind (run c) (job_reply ep))))))"


text \<open>The probes of \<open>health.py\<close>; \<open>ready\<close> is what \<open>_readiness_probe\<close> found when the server was started.\<close>

definition do_get :: "string \<Rightarrow> bool \<Rightarrow> string \<Rightarrow> reply" where
  "do_get version ready path =
     (if path \<in> {''/'', ''/healthz''} then
        \<lparr>rp_status = 200, rp_body = [(''status'', PStr ''ok''), (''component'', PStr ''python-processor''), (''version'', PStr version)]\<rparr>
      else if path = ''/readyz'' then
        \<lparr>rp_status = (if ready then 200 else 503),
         rp_body = [(''status'', PStr (if ready then ''ready'' else ''not_ready'')), (''component'', PStr ''python-processor''), (''version'', PStr version)]\<rparr>
      else if path = ''/version'' then
        \<lparr>rp_status = 200, rp_body = [(''service'', PStr ''oraja-training/python-processor''), (''version'', PStr version)]\<rparr>
      else \<lparr>rp_status = 404, rp_body = [(''error'', PDict [(''code'', PStr ''not_found'')])]\<rparr>)"

subsection \<open>Every request is answered\<close>

lemma framed_call_returns: "\<exists>r. framed_call ep q n = Some r"
proof -
  obtain f where "\<forall>b. \<exists>b'. materialize_framed_input (ep_frames ep) b = Some (fst (f (view b)), b') \<and>
      (\<forall>x. fst (f (view b)) = Inr x \<longrightarrow> view b' = snd (f (view b)))"
    using rd_pure_framed[of "ep_frames ep"] unfolding rd_pure_def by (elim exE) blast
  then obtain r b' where "materialize_framed_input (ep_frames ep) (body_of q n) = Some (r, b')" by metis
  then show ?thesis by (simp add: framed_call_def split: sum.split)
qed

lemma header_call_returns: "\<exists>r. header_call ep q v = Some r"
  using framed_call_returns by (auto simp: header_call_def given_input_def split: sum.split)

lemma error_reply_body: "\<exists>code retryable. rp_body (error_reply request_id e) = error_payload request_id code retryable"
proof -
  have "rp_body (error_reply i e) = error_payload i ''temporary_unavailable'' True \<or>
      (\<exists>code retryable. rp_body (error_reply i e) = error_payload i code retryable)" for i
    by (induction i e rule: error_reply.induct) auto
  then show ?thesis by blast
qed

lemma reply_of_cases:
  obtains body where "r = Inr body" and "reply_of ep r = \<lparr>rp_status = 200, rp_body = body\<rparr>"
  | "\<exists>code retryable. rp_body (reply_of ep r) = error_payload (ep_request_id ep) code retryable"
  using error_reply_body[of "ep_request_id ep"] by (cases r) (simp_all add: reply_of_def)


subsection \<open>What reaches the adapter\<close>

lemma framed_call_Inr:
  assumes "framed_call ep q n = Some (Inr (given, ctx))"
  obtains files where "given = Framed_Files files" "mset (map fst files) = mset database_names"
    "\<forall>f\<in>set files. snd f \<noteq> [] \<and> int (length (snd f)) \<le> five_gib"
  using assms framed_files_complete by (fastforce simp: framed_call_def split: if_splits option.splits sum.splits prod.splits)

lemma streamed_call_Inr:
  assumes "streamed_call q n m = Inr (given, ctx)"
  obtains b where "get_item m ''input_bundle'' = PDict b" "int_like (get_item b ''size_bytes'') = Some n" "given = Streamed (body_of q n)"
  using assms by (auto simp: streamed_call_def split: option.splits pyval.splits if_splits)

lemma decode_play_event_Inr: "decode_play_event_header ep v m = Inr e \<Longrightarrow> play_event_ok m e"
proof -
  assume "decode_play_event_header ep v m = Inr e"
  then obtain decoded :: string and x where "(case x of
       PDict e \<Rightarrow>
         if max_play_event_header < length decoded then Inl (invalid ''play event header is invalid'')
         else if play_event_ok m e then Inr e else Inl (invalid ''play event contract is invalid'')
     | _ \<Rightarrow> Inl (invalid ''play event header is invalid'')) = Inr e"
    unfolding decode_play_event_header_def py_bind_Inr_iff split_beta by blast
  then show "play_event_ok m e" by (cases x) (simp_all split: if_splits)
qed

lemma play_event_of_Inr:
  assumes "play_event_of ep q kind m = Inr event"
  shows "(kind = ''play'' \<longleftrightarrow> event \<noteq> None) \<and> (\<forall>e. event = Some e \<longrightarrow> play_event_ok m e)"
  using assms by (auto simp: play_event_of_def Let_def py_bind_Inr_iff dest: decode_play_event_Inr split: if_splits)

lemma accepted_steps:
  assumes "header_call ep q v = Some (Inr c)"
  obtains m event n given ctx where "jc_kind c \<in> set job_kinds" and "play_event_of ep q (jc_kind c) m = Inr event"
    and "framed_call ep q n = Some (Inr (given, ctx)) \<or> streamed_call q n m = Inr (given, ctx)"
    and "jc_kind c = header_or q ''X-Container-Job-Kind'' []" and "jc_manifest c = m" and "jc_input c = given" and "jc_play_event c = event"
proof -
  obtain m event n r where checks: "header_checks ep q v = Inr (m, event, n, r)"
    using assms by (auto simp: header_call_def split: sum.splits)
  then obtain given ctx where given: "given_input ep q n m = Some (Inr (given, ctx))" and c: "jc_kind c = header_or q ''X-Container-Job-Kind'' []"
      "jc_manifest c = m" "jc_input c = given" "jc_play_event c = event"
    using assms by (auto simp: header_call_def py_bind_Inr_iff)
  have "jc_kind c \<in> set job_kinds" "play_event_of ep q (jc_kind c) m = Inr event"
    using checks by (auto simp: header_checks_def py_bind_Inr_iff raise_if_Inr c)
  then show thesis using given c by (intro that[of m event n given ctx]) (simp_all add: given_input_def split: if_splits)
qed

text \<open>A job that reaches the adapter through the headers has a known kind; it has a play event exactly when its kind is \<open>play\<close>, and then the event
  names the manifest's profile and has the columns of a score row; and it has either every database once, none of them empty or too large, or a body
  of exactly the announced size of the manifest's bundle.\<close>

theorem accepted_call_is_checked:
  assumes "header_call ep q v = Some (Inr c)"
  shows "jc_kind c \<in> set job_kinds \<and> (jc_kind c = ''play'' \<longleftrightarrow> jc_play_event c \<noteq> None) \<and>
    (\<forall>e. jc_play_event c = Some e \<longrightarrow>
       get_item e ''profile_id'' = get_item (jc_manifest c) ''profile_id'' \<and> (\<exists>r. get_item e ''row'' = PDict r \<and> event_row_ok r)) \<and>
    (case jc_input c of
       Framed_Files files \<Rightarrow> mset (map fst files) = mset database_names \<and> (\<forall>f\<in>set files. snd f \<noteq> [] \<and> int (length (snd f)) \<le> five_gib)
     | Streamed b \<Rightarrow> (\<exists>d n. get_item (jc_manifest c) ''input_bundle'' = PDict d \<and> int_like (get_item d ''size_bytes'') = Some n \<and> b = body_of q n)
     | Fixture path \<Rightarrow> False)"
proof -
  obtain m event n given ctx where kind: "jc_kind c \<in> set job_kinds" and event: "play_event_of ep q (jc_kind c) m = Inr event"
      and given: "framed_call ep q n = Some (Inr (given, ctx)) \<or> streamed_call q n m = Inr (given, ctx)"
      and c: "jc_manifest c = m" "jc_input c = given" "jc_play_event c = event"
    using accepted_steps[OF assms] by metis
  have "case given of
       Framed_Files files \<Rightarrow> mset (map fst files) = mset database_names \<and> (\<forall>f\<in>set files. snd f \<noteq> [] \<and> int (length (snd f)) \<le> five_gib)
     | Streamed b \<Rightarrow> (\<exists>d n. get_item m ''input_bundle'' = PDict d \<and> int_like (get_item d ''size_bytes'') = Some n \<and> b = body_of q n)
     | Fixture path \<Rightarrow> False"
    using given by (elim disjE) (auto elim!: framed_call_Inr streamed_call_Inr)
  moreover have "get_item e ''profile_id'' = get_item m ''profile_id'' \<and> (\<exists>r. get_item e ''row'' = PDict r \<and> event_row_ok r)" if "event = Some e" for e
    using play_event_of_Inr[OF event] that by (auto simp: play_event_ok_def split: pyval.splits)
  ultimately show ?thesis using kind play_event_of_Inr[OF event] unfolding c by blast
qed

subsection \<open>What a finished job answers\<close>

definition backed :: "runtime \<Rightarrow> objects \<Rightarrow> artifact \<Rightarrow> string \<Rightarrow> bool" where
  "backed rt objects a c \<longleftrightarrow> map_of objects (af_key a) = Some c \<and> af_sha256 a = sha256_hex rt c \<and> af_size a = length c"

definition delivered :: "entry_ports \<Rightarrow> artifact \<Rightarrow> string \<Rightarrow> pyval" where
  "delivered ep a c = PDict (members (as_manifest a) @ [(''data_base64'', PStr (ep_b64encode ep c))])"

lemma artifact_replies:
  "list_all2 (backed (fp_runtime (ep_frames ep)) objects) artifacts contents \<Longrightarrow>
   py_mapM (artifact_reply ep objects) artifacts = Inr (map2 (delivered ep) artifacts contents)"
  by (induction rule: list_all2_induct) (simp_all add: artifact_reply_def backed_def delivered_def)

text \<open>C32: The answer to a job that has succeeded always passes the integrity check: it carries every artifact of the job, each with content of the
  digest and the size its description gives.\<close>

theorem finished_job_is_delivered:
  assumes "run_container rt mp zone_ok bp (memory_put rt ctype) limits pipeline r given generated_at cs s = (Inr result, cs', objects)"
    and "fp_runtime (ep_frames ep) = rt"
  shows "\<exists>contents. list_all2 (backed rt objects) (jr_artifacts result) contents \<and>
    job_reply ep (result, objects) =
      Inr [(''status'', PStr ''succeeded''), (''output_manifest'', PDict (jr_manifest result)),
        (''output_manifest_sha256'', PStr (jr_manifest_sha256 result)),
        (''artifacts'', PList (map2 (delivered ep) (jr_artifacts result) contents))]"
proof -
  obtain m payloads cs1 artifacts counters where
      steps: "publish_artifacts rt (memory_put rt ctype) limits (job_prefix m (jq_revision r)) payloads cs1 s = (Inr artifacts, cs', objects)"
      and out: "output_of_job rt mp m (jq_revision r) generated_at counters artifacts = Inr result"
    using run_steps[OF assms(1)] by metis
  have same: "jr_artifacts result = artifacts" by (rule output_of_job_Inr(2)[OF out])
  have "\<forall>a\<in>set artifacts. \<exists>c. backed rt objects a c"
    using memory.publish_backed[OF TrueI steps] by (simp add: backed_def)
  then have all: "list_all2 (backed rt objects) artifacts (map (\<lambda>a. SOME c. backed rt objects a c) artifacts)"
    by (auto simp: list.rel_map list_all2_same intro: someI_ex)
  then have "py_mapM (artifact_reply ep objects) artifacts = Inr (map2 (delivered ep) artifacts (map (\<lambda>a. SOME c. backed rt objects a c) artifacts))"
    using artifact_replies assms(2) by blast
  then show ?thesis using all unfolding same job_reply_def by (auto simp: same intro!: exI[of _ "map (\<lambda>a. SOME c. backed rt objects a c) artifacts"])
qed

subsection \<open>A header that is not checked\<close>

text \<open>A malformed revision header is the client's error, but is answered as an outage of the processor that the client shall try again: every
  other part of the request is in order, and the same request can never succeed.\<close>

theorem malformed_revision_is_an_outage:
  assumes "po_path q = ''/v1/jobs''" and "decode_manifest_header ep (header_or q ''X-Container-Input-Manifest'' []) = Inr m"
    and "header_or q ''X-Container-Input-Manifest'' [] \<noteq> []" and "header_or q ''X-Container-Job-Kind'' [] \<in> set job_kinds"
    and "play_event_of ep q (header_or q ''X-Container-Job-Kind'' []) m = Inr event"
    and "parse_int (header_or q ''Content-Length'' ''-1'') \<noteq> None" and "parse_int (header_or q ''X-Container-Output-Revision'' ''1'') = None"
  shows "do_job_post ep run q = Some \<lparr>rp_status = 503, rp_body = error_payload (ep_request_id ep) ''temporary_unavailable'' True\<rparr>"
proof -
  have "header_checks ep q (header_or q ''X-Container-Input-Manifest'' []) = Inl (ValueError ''invalid literal'')"
    using assms by (auto simp: header_checks_def raise_if_def)
  then show ?thesis using assms(1,3) by (simp add: do_job_post_def header_call_def reply_of_def Let_def)
qed

subsection \<open>Examples\<close>

definition sample_manifest_row :: row where
  "sample_manifest_row = [(''profile_id'', PStr ''p''), (''input_bundle'', PDict [(''size_bytes'', PInt 3)])]"

definition sample_event :: row where
  "sample_event =
     [(''contract'', PStr ''container-play-event''), (''schema_version'', PInt 1), (''profile_id'', PStr ''p''),
      (''event_id'', PStr (replicate 36 (CHR ''a''))), (''payload_digest'', PStr example_hash),
      (''row'', PDict [(''sha256'', PStr example_hash), (''mode'', PInt 0), (''date'', PInt 1), (''playcount'', PInt 1), (''clear'', PInt 5)])]"

definition sample_entry_ports :: entry_ports where
  "sample_entry_ports = \<lparr>ep_frames = sample_frame_ports\<lparr>fp_manifest := \<lparr>mp_fromiso = (\<lambda>s. Some True),
       mp_loads = (\<lambda>s. Some (PDict (if hd s = CHR ''m'' then sample_manifest_row else sample_event), False))\<rparr>\<rparr>,
     ep_b64decode = Some, ep_b64encode = (\<lambda>s. s), ep_inside_root = (\<lambda>s. True), ep_request_id = ''r''\<rparr>"

definition sample_post :: "string \<Rightarrow> post_request" where
  "sample_post revision =
     \<lparr>po_path = ''/v1/jobs'',
      po_headers = [(''X-Container-Input-Manifest'', ''mmmm''), (''X-Container-Job-Kind'', ''play''), (''X-Container-Play-Event'', ''eeee''),
        (''Content-Length'', ''3''), (''X-Container-Output-Revision'', revision)],
      po_bytes = ''abc'', po_chops = []\<rparr>"

lemma sample_headers:
  "header_or (sample_post v) ''X-Container-Input-Manifest'' [] = ''mmmm''" "header_or (sample_post v) ''X-Container-Job-Kind'' [] = ''play''"
  "header_or (sample_post v) ''Content-Length'' ''-1'' = ''3''" "v \<noteq> [] \<Longrightarrow> header_or (sample_post v) ''X-Container-Output-Revision'' ''1'' = v"
  "header_or (sample_post v) ''X-Container-Transport'' [] = []" "header_or (sample_post v) ''X-Container-Play-Event'' [] = ''eeee''"
  by (simp_all add: header_or_def sample_post_def)

lemma sample_decoded:
  "decode_manifest_header sample_entry_ports ''mmmm'' = Inr sample_manifest_row"
  "decode_play_event_header sample_entry_ports ''eeee'' sample_manifest_row = Inr sample_event"
proof -
  have "decode_json_header sample_entry_ports ''mmmm'' = Inr (''mmmm'', PDict sample_manifest_row)"
    "decode_json_header sample_entry_ports ''eeee'' = Inr (''eeee'', PDict sample_event)" "play_event_ok sample_manifest_row sample_event"
    "ascii_length ''mmmm'' = 4" "ascii_length ''eeee'' = 4"
    by code_simp+
  then show "decode_manifest_header sample_entry_ports ''mmmm'' = Inr sample_manifest_row"
    "decode_play_event_header sample_entry_ports ''eeee'' sample_manifest_row = Inr sample_event"
    by (simp_all add: decode_manifest_header_def decode_play_event_header_def raise_if_def max_header_def max_play_event_header_def)
qed

lemma sample_event_given: "play_event_of sample_entry_ports (sample_post v) ''play'' sample_manifest_row = Inr (Some sample_event)"
  by (simp add: play_event_of_def sample_headers sample_decoded)

lemma sample_numbers: "parse_int ''3'' = Some 3" "parse_int ''one'' = None"
  by code_simp+

theorem accepted_call_is_checked_witness:
  "\<exists>c. header_call sample_entry_ports (sample_post ''3'') ''mmmm'' = Some (Inr c) \<and> jc_kind c \<in> set job_kinds \<and> jc_play_event c \<noteq> None"
proof -
  have "get_item sample_manifest_row ''input_bundle'' = PDict [(''size_bytes'', PInt 3)]" "int_like (get_item [(''size_bytes'', PInt 3)] ''size_bytes'') = Some 3"
    by code_simp+
  then have "streamed_call (sample_post ''3'') 3 sample_manifest_row = Inr (Streamed (body_of (sample_post ''3'') 3), None)"
    by (simp add: streamed_call_def)
  moreover have "header_checks sample_entry_ports (sample_post ''3'') ''mmmm'' = Inr (sample_manifest_row, Some sample_event, 3, 3)"
    by (simp add: header_checks_def sample_headers sample_decoded sample_event_given sample_numbers job_kinds_def raise_if_def)
  ultimately obtain c where c: "header_call sample_entry_ports (sample_post ''3'') ''mmmm'' = Some (Inr c)" "jc_kind c = ''play''"
    by (simp add: header_call_def given_input_def sample_headers)
  then show ?thesis using accepted_call_is_checked[OF c(1)] by auto
qed

theorem malformed_revision_is_an_outage_witness:
  "do_job_post sample_entry_ports (\<lambda>c. Inl unavailable) (sample_post ''one'') =
     Some \<lparr>rp_status = 503, rp_body = error_payload ''r'' ''temporary_unavailable'' True\<rparr>"
proof -
  have "po_path (sample_post ''one'') = ''/v1/jobs''" "ep_request_id sample_entry_ports = ''r''" by (simp_all add: sample_post_def sample_entry_ports_def)
  then show ?thesis
    using malformed_revision_is_an_outage[of "sample_post ''one''" sample_entry_ports sample_manifest_row "Some sample_event" "\<lambda>c. Inl unavailable"]
    by (simp add: sample_headers sample_decoded sample_event_given sample_numbers job_kinds_def)
qed

theorem finished_job_is_delivered_witness:
  "\<exists>contents. list_all2 (backed sample_hash_runtime [(sample_key, ''{}'')]) (jr_artifacts sample_result) contents"
proof -
  let ?ep = "sample_entry_ports\<lparr>ep_frames := sample_frame_ports\<lparr>fp_runtime := sample_hash_runtime\<rparr>\<rparr>"
  have rt: "fp_runtime (ep_frames ?ep) = sample_hash_runtime" by simp
  show ?thesis
    using finished_job_is_delivered[OF sample_run_memory[unfolded sample_run_def] rt] by blast
qed

end
