(* ===== verification/Model_Adapter.thy ===== *)
theory Model_Adapter
  imports Model_Proofs Features Catalog Experiment Menu_Data
begin

text \<open>
  The assistant database of a job, and the two adapters that read features and observations from it: \<open>db/feature_adapter.py\<close> and
  \<open>db/model_adapter.py\<close>. The SQL of the code is written out over lists in row order. JSON encoding is a pair of functions. The stored
  features are reals, so the tests for NULL and for finite values of the code hold of every row.
\<close>

subsection \<open>The database\<close>

record model_row =
  mo_target :: string
  mo_version :: int
  mo_trained_at :: int
  mo_params :: string
  mo_n_train :: int
  mo_logloss :: "real option"
  mo_brier :: "real option"
  mo_baseline_logloss :: "real option"

record menu_session_row =
  ws_id :: int
  ws_created_at :: int
  ws_arm :: string
  ws_slots :: string

record version_row =
  vr_generated_at :: int
  vr_menu_date :: string
  vr_import_id :: int
  vr_model_version :: int
  vr_seed :: string
  vr_readiness :: string
  vr_manifest :: string

text \<open>The charts stand in \<open>jb_store\<close>; the other tables of the catalog in \<open>jb_catalog\<close>.\<close>

record job_db =
  jb_store :: assistant_db
  jb_catalog :: catalog_db
  jb_features :: "(string \<times> chart_features) list"
  jb_models :: "model_row list"
  jb_targets :: "target_row list"
  jb_sessions :: "menu_session_row list"
  jb_versions :: "version_row list"

definition catalog_of :: "job_db \<Rightarrow> catalog_db" where
  "catalog_of db = (jb_catalog db)\<lparr>ca_charts := t_charts (jb_store db)\<rparr>"

record json_ports =
  js_dumps :: "pyval \<Rightarrow> string"
  js_dumps_sorted :: "pyval \<Rightarrow> string"
  js_loads :: "string \<Rightarrow> pyval option"

subsection \<open>Features\<close>

definition iter_songinfo :: "row list \<Rightarrow> row list" where
  "iter_songinfo information =
     map (\<lambda>r. map (\<lambda>k. (k, get_item r k)) [''sha256'', ''distribution'', ''speedchange'', ''lanenotes''])
       (order_by [''sha256''] information)"

definition save_features :: "chart_features list \<Rightarrow> job_db \<Rightarrow> nat \<times> job_db" where
  "save_features features db =
     (length features, db\<lparr>jb_features := fold (\<lambda>f. AList.update (cf_sha256 f) f) features (jb_features db)\<rparr>)"

definition build_all :: "runtime \<Rightarrow> int \<Rightarrow> row list \<Rightarrow> job_db \<Rightarrow> nat py \<times> job_db" where
  "build_all rt version information db =
     (case build_feature_rows rt version (iter_songinfo information) of
        Inl e \<Rightarrow> (Inl e, db)
      | Inr features \<Rightarrow> (case save_features features db of (n, db') \<Rightarrow> (Inr n, db')))"

subsection \<open>Events and states\<close>

type_synonym event = "int \<times> play_record"

definition event_rank :: "string \<Rightarrow> int" where
  "event_rank s = (if s = ''collector'' then 0 else if s = ''official_ir'' then 1 else if s = ''daily_snapshot'' then 2 else 3)"

text \<open>The same play as several collectors recorded it, and which record counts.\<close>

definition event_key :: "event \<Rightarrow> string \<times> int \<times> int \<times> int" where
  "event_key e = (let p = r_play (snd e) in (pl_sha256 p, pl_mode p, pl_played_at p, pl_playcount p))"

definition event_order :: "event \<Rightarrow> int \<times> int \<times> int" where
  "event_order e = (event_rank (pl_source (r_play (snd e))), - pl_ingested_at (r_play (snd e)), - fst e)"

definition event_sources :: "string list" where
  "event_sources = [''collector'', ''official_ir'', ''daily_snapshot'']"

definition semantic_events :: "(event \<Rightarrow> bool) \<Rightarrow> event list \<Rightarrow> event list" where
  "semantic_events keep plays =
     (let events = filter (\<lambda>e. pl_source (r_play (snd e)) \<in> set event_sources \<and> keep e) plays in
      filter (\<lambda>e. list_all (\<lambda>f. event_key f = event_key e \<longrightarrow> event_order e \<le> event_order f) events) events)"

text \<open>The newest state of a chart in one of the given modes.\<close>

definition ranked_state :: "int set \<Rightarrow> assistant_db \<Rightarrow> string \<Rightarrow> (int \<times> score_state_row) option" where
  "ranked_state modes db sha256 =
     (case sort_key (\<lambda>(m, s). (- ss_played_at s, m)) (map (\<lambda>(k, s). (snd k, s)) (filter (\<lambda>(k, s). fst k = sha256 \<and> snd k \<in> modes) (t_score_state db))) of
        [] \<Rightarrow> None | s # _ \<Rightarrow> Some s)"

subsection \<open>Observations\<close>

text \<open>A row of the first query: table, level and clear of a chart that has been played.\<close>

definition lamp_rows :: "job_db \<Rightarrow> (table_entry_row \<times> int) list" where
  "lamp_rows db =
     List.map_filter (\<lambda>te.
         case ranked_state {0, 1} (jb_store db) (tr_sha256 te) of
           None \<Rightarrow> None
         | Some (m, s) \<Rightarrow> if 0 < ss_playcount s \<and> 0 < ss_played_at s then Some (te, ss_clear s) else None)
       (sort_key (\<lambda>te. (tr_table_id te, tr_level te)) (ca_table_entries (jb_catalog db)))"

fun collect_outcomes ::
    "runtime \<Rightarrow> (string \<times> string \<times> string) set \<Rightarrow> (table_entry_row \<times> int) list \<Rightarrow> (string \<times> real \<times> bool) list" where
  "collect_outcomes rt seen [] = []"
| "collect_outcomes rt seen ((te, clear) # rows) =
     (let key = (tr_table_id te, tr_sha256 te, tr_level te) in
      case numeric_level rt (tr_level te) of
        None \<Rightarrow> collect_outcomes rt seen rows
      | Some level \<Rightarrow>
          if key \<in> seen then collect_outcomes rt seen rows
          else (tr_table_id te, level, 4 \<le> clear) # collect_outcomes rt (insert key seen) rows)"

definition outcomes_of :: "(string \<times> real \<times> bool) list \<Rightarrow> string \<Rightarrow> (real \<times> bool) list" where
  "outcomes_of outcomes table = map snd (filter (\<lambda>x. fst x = table) outcomes)"

text \<open>A row of the second query that has a level.\<close>

record parsed_row =
  pw_play_id :: int
  pw_played_at :: int
  pw_completed :: bool
  pw_table_id :: string
  pw_level :: real
  pw_density :: real
  pw_scratch :: real

definition play_rows :: "runtime \<Rightarrow> job_db \<Rightarrow> event \<Rightarrow> parsed_row list" where
  "play_rows rt db e =
     (let p = r_play (snd e) in
      case (pl_completed p, map_of (jb_features db) (pl_sha256 p)) of
        (Some completed, Some f) \<Rightarrow>
          if r_is_course (snd e) \<noteq> 0 then []
          else List.map_filter (\<lambda>te. map_option (\<lambda>level.
                 \<lparr>pw_play_id = fst e, pw_played_at = pl_played_at p, pw_completed = completed \<noteq> 0, pw_table_id = tr_table_id te, pw_level = level,
                  pw_density = cf_density_p99 f, pw_scratch = cf_scratch_rate f\<rparr>) (numeric_level rt (tr_level te)))
               (sort_key (\<lambda>te. (tr_table_id te, tr_level te)) (filter (\<lambda>te. tr_sha256 te = pl_sha256 p) (ca_table_entries (jb_catalog db))))
      | _ \<Rightarrow> [])"

text \<open>The table with the most outcomes speaks for a play; its distance to the frontier of the table is the first feature.\<close>

definition observation_of :: "(string \<times> real \<times> bool) list \<Rightarrow> parsed_row list \<Rightarrow> observation option" where
  "observation_of outcomes rows =
     (case filter (\<lambda>r. pw_table_id r \<in> set (map fst outcomes)) rows of
        [] \<Rightarrow> None
      | supported \<Rightarrow>
          let r = min_by (\<lambda>r. (- int (length (outcomes_of outcomes (pw_table_id r))), pw_table_id r, pw_level r)) supported;
              margin = (fit_difficulty_frontier (outcomes_of outcomes (pw_table_id r)) - pw_level r) / (3 / 2)
          in Some \<lparr>ob_played_at = pw_played_at r, ob_day = pw_played_at r div 86400,
               ob_features = [Fin margin, Fin (pw_density r), Fin (pw_scratch r)], ob_label = Fin (of_bool (pw_completed r))\<rparr>)"

definition iter_observations :: "runtime \<Rightarrow> job_db \<Rightarrow> observation list py" where
  "iter_observations rt db =
     (let outcomes = collect_outcomes rt {} (lamp_rows db);
          events = sort_key (\<lambda>e. (pl_played_at (r_play (snd e)), fst e)) (semantic_events (\<lambda>e. True) (t_plays (jb_store db)))
      in py_bind (py_mapM check_observation (List.map_filter (\<lambda>e. observation_of outcomes (play_rows rt db e)) events)) (\<lambda>obs.
         Inr (sort_key ob_played_at obs)))"

subsection \<open>Stored models\<close>

definition model_target :: string where "model_target = ''observed_completion''"

definition params_of :: "model_snapshot \<Rightarrow> pyval" where
  "params_of m =
     PDict [(''description'', PStr (ms_description m)), (''weights'', PList (map PFloat (ms_weights m))),
       (''means'', PList (map PFloat (ms_means m))), (''scales'', PList (map PFloat (ms_scales m))),
       (''feature_names'', PList (map PStr (ms_feature_names m))),
       (''metrics'', PDict (map (\<lambda>(k, x). (k, PFloat (Fin x))) (ms_metrics m)))]"

definition persist_model :: "json_ports \<Rightarrow> model_snapshot \<Rightarrow> job_db \<Rightarrow> unit py \<times> job_db" where
  "persist_model js m db =
     (if (ms_target m, ms_version m) \<in> set (map (\<lambda>r. (mo_target r, mo_version r)) (jb_models db))
      then (Inl (SqliteError ''UNIQUE constraint failed''), db)
      else (Inr (), db\<lparr>jb_models := jb_models db @
        [\<lparr>mo_target = ms_target m, mo_version = ms_version m, mo_trained_at = ms_trained_at m, mo_params = js_dumps_sorted js (params_of m),
          mo_n_train = ms_n_train m, mo_logloss = map_of (ms_metrics m) ''logloss'', mo_brier = map_of (ms_metrics m) ''brier'',
          mo_baseline_logloss = map_of (ms_metrics m) ''baseline_logloss''\<rparr>]\<rparr>))"

text \<open>\<open>tuple(float(value) for value in ...)\<close> of a JSON list, and of the values of an object; the metrics of a snapshot are reals, so no other number has been stored.\<close>

definition floats_of :: "runtime \<Rightarrow> pyval \<Rightarrow> pyfloat list py" where
  "floats_of rt v = (case v of PList vs \<Rightarrow> py_mapM (py_float rt) vs | _ \<Rightarrow> Inl TypeError)"

definition metric_of :: "runtime \<Rightarrow> string \<times> pyval \<Rightarrow> (string \<times> real) py" where
  "metric_of rt kv =
     py_bind (py_float rt (snd kv)) (\<lambda>f. case finite_real f of None \<Rightarrow> Inl (ValueError ''metric'') | Some x \<Rightarrow> Inr (fst kv, x))"

definition snapshot_from_row :: "runtime \<Rightarrow> json_ports \<Rightarrow> model_row option \<Rightarrow> model_snapshot option py" where
  "snapshot_from_row rt js row =
     (case row of
        None \<Rightarrow> Inr None
      | Some r \<Rightarrow>
          (case js_loads js (mo_params r) of
             Some (PDict params) \<Rightarrow>
               py_bind (case map_of params ''metrics'' of None \<Rightarrow> Inr [] | Some (PDict ms) \<Rightarrow> py_mapM (metric_of rt) ms | Some _ \<Rightarrow> Inl (AttributeError ''items'')) (\<lambda>metrics.
               py_bind (py_bind (item params ''weights'') (floats_of rt)) (\<lambda>weights.
               py_bind (py_bind (item params ''means'') (floats_of rt)) (\<lambda>means.
               py_bind (py_bind (item params ''scales'') (floats_of rt)) (\<lambda>scales.
               py_bind (case map_of params ''feature_names'' of None \<Rightarrow> Inr [''level'', ''density_p99'', ''scratch_rate'']
                   | Some (PList vs) \<Rightarrow> Inr (map (py_str rt) vs) | Some _ \<Rightarrow> Inl TypeError) (\<lambda>names.
               py_bind (check_model_snapshot \<lparr>ms_target = mo_target r, ms_version = mo_version r, ms_trained_at = mo_trained_at r,
                   ms_n_train = mo_n_train r, ms_weights = weights, ms_means = means, ms_scales = scales, ms_feature_names = names,
                   ms_metrics = metrics,
                   ms_description = (case map_of params ''description'' of None \<Rightarrow> [] | Some v \<Rightarrow> py_str rt v)\<rparr>) (\<lambda>m.
                 Inr (Some m)))))))
           | Some _ \<Rightarrow> Inl (AttributeError ''items'')
           | None \<Rightarrow> Inl (ValueError ''Expecting value'')))"

definition newest_model :: "model_row list \<Rightarrow> model_row option" where
  "newest_model rows =
     (case sort_key (\<lambda>r. - mo_version r) (filter (\<lambda>r. mo_target r = model_target) rows) of [] \<Rightarrow> None | r # _ \<Rightarrow> Some r)"

definition latest_model :: "runtime \<Rightarrow> json_ports \<Rightarrow> job_db \<Rightarrow> model_snapshot option py" where
  "latest_model rt js db = snapshot_from_row rt js (newest_model (jb_models db))"

text \<open>The unit of work is the transaction of the connection: a rollback restores the database before the save.\<close>

definition model_ports_of :: "json_ports \<Rightarrow> job_db \<Rightarrow> job_db model_ports" where
  "model_ports_of js before = \<lparr>mp_save = persist_model js, mp_commit = (\<lambda>db. (Inr (), db)), mp_rollback = (\<lambda>db. before)\<rparr>"

definition fit_latest :: "runtime \<Rightarrow> json_ports \<Rightarrow> (nat \<Rightarrow> nat) \<Rightarrow> int \<Rightarrow> job_db \<Rightarrow> fit_result py \<times> job_db" where
  "fit_latest rt js dice trained_at db =
     fit_repository (model_ports_of js db) True
       (py_bind (iter_observations rt db) (\<lambda>obs.
        py_bind (latest_model rt js db) (\<lambda>previous. fit_observations dice previous trained_at obs))) db"

definition predict_latest :: "runtime \<Rightarrow> json_ports \<Rightarrow> job_db \<Rightarrow> real \<Rightarrow> real \<Rightarrow> real \<Rightarrow> real option py" where
  "predict_latest rt js db margin density scratch =
     py_bind (latest_model rt js db) (\<lambda>m. Inr (predict_snapshot m margin density scratch))"

subsection \<open>Stored features\<close>

interpretation features: merge_table "\<lambda>k f db. db\<lparr>jb_features := AList.update k f (jb_features db)\<rparr>" "\<lambda>db. map_of (jb_features db)" "\<lambda>old new. new"
  by unfold_locales (simp add: update_conv')

lemma save_features_all: "snd (save_features fs db) = features.upsert_all (map (\<lambda>f. (cf_sha256 f, f)) fs) db"
proof -
  have "features.upsert_all (map (\<lambda>f. (cf_sha256 f, f)) fs) db = db\<lparr>jb_features := fold (\<lambda>f. AList.update (cf_sha256 f) f) fs (jb_features db)\<rparr>"
    by (induction fs arbitrary: db) (simp_all add: features.upsert_all_def)
  then show ?thesis by (simp add: save_features_def)
qed

text \<open>Building the features stores exactly what was extracted: charts whose information decodes get their new features, the features of every
  other chart stay, and a failing extraction leaves the database alone.\<close>

theorem built_features_are_stored:
  "case build_all rt version information db of
     (Inl e, db') \<Rightarrow> db' = db
   | (Inr n, db') \<Rightarrow>
       \<exists>fs. build_feature_rows rt version (iter_songinfo information) = Inr fs \<and> n = length fs \<and>
         (\<forall>h. h \<notin> cf_sha256 ` set fs \<longrightarrow> map_of (jb_features db') h = map_of (jb_features db) h) \<and>
         (distinct (map cf_sha256 fs) \<longrightarrow> (\<forall>f\<in>set fs. map_of (jb_features db') (cf_sha256 f) = Some f)) \<and>
         db' = db\<lparr>jb_features := jb_features db'\<rparr>"
proof (cases "build_feature_rows rt version (iter_songinfo information)")
  case (Inr fs)
  let ?kvs = "map (\<lambda>f. (cf_sha256 f, f)) fs"
  have all: "save_features fs db = (length fs, features.upsert_all ?kvs db)"
    using save_features_all[of fs db] by (simp add: save_features_def)
  have "map_of (jb_features (features.upsert_all ?kvs db)) h = map_of (jb_features db) h" if "h \<notin> cf_sha256 ` set fs" for h
    using features.lookup_upsert_all_other[of h ?kvs db] that by (simp add: image_image)
  moreover have "map_of (jb_features (features.upsert_all ?kvs db)) (cf_sha256 f) = Some f" if "distinct (map cf_sha256 fs)" "f \<in> set fs" for f
    using features.lookup_upsert_all[of ?kvs "cf_sha256 f" f db] that by (simp add: comp_def)
  moreover have "snd (save_features fs db) = db\<lparr>jb_features := jb_features (snd (save_features fs db))\<rparr>"
    by (simp add: save_features_def)
  moreover have "build_all rt version information db = (Inr (length fs), features.upsert_all ?kvs db)"
    using Inr by (simp add: build_all_def all)
  ultimately show ?thesis using Inr unfolding all by (intro case_prodI2) (auto simp del: fun_upd_apply)
qed (simp add: build_all_def)

subsection \<open>Each play trains once\<close>

lemma semantic_events_subset: "set (semantic_events keep plays) \<subseteq> set plays"
  by (auto simp: semantic_events_def)

lemma semantic_events_best:
  "e \<in> set (semantic_events keep plays) \<Longrightarrow> f \<in> set plays \<Longrightarrow> pl_source (r_play (snd f)) \<in> set event_sources \<Longrightarrow> keep f \<Longrightarrow>
     event_key f = event_key e \<Longrightarrow> event_order e \<le> event_order f"
  by (simp add: semantic_events_def list_all_iff del: split_paired_All)

lemma semantic_events_kept: "e \<in> set (semantic_events keep plays) \<Longrightarrow> pl_source (r_play (snd e)) \<in> set event_sources \<and> keep e"
  by (auto simp: semantic_events_def)

lemma semantic_events_keys:
  assumes "distinct (map fst plays)"
  shows "distinct (map event_key (semantic_events keep plays))"
proof -
  have "inj_on event_key (set (semantic_events keep plays))"
  proof (rule inj_onI)
    fix e f
    assume e: "e \<in> set (semantic_events keep plays)" and f: "f \<in> set (semantic_events keep plays)" and same: "event_key e = event_key f"
    have "event_order e = event_order f"
      using semantic_events_best[OF e, of f] semantic_events_best[OF f, of e] semantic_events_kept[OF e] semantic_events_kept[OF f] e f same
        semantic_events_subset[of keep plays] by (intro order.antisym) auto
    then have "fst e = fst f" by (simp add: event_order_def)
    moreover have "e \<in> set plays" "f \<in> set plays" using semantic_events_subset e f by blast+
    ultimately show "e = f" using assms by (metis distinct_map inj_onD)
  qed
  moreover have "distinct (semantic_events keep plays)"
    using assms by (auto simp: semantic_events_def distinct_map intro: distinct_filter)
  ultimately show ?thesis by (simp add: distinct_map)
qed

lemma semantic_events_duplicate:
  assumes "e \<in> set plays" and "pl_source (r_play (snd e)) \<in> set event_sources" and "keep e" and "event_key d = event_key e"
    and "event_order e < event_order d"
  shows "semantic_events keep (plays @ [d]) = semantic_events keep plays"
proof -
  define evs where "evs = filter (\<lambda>e. pl_source (r_play (snd e)) \<in> set event_sources \<and> keep e) plays"
  define best where "best fs x \<longleftrightarrow> list_all (\<lambda>f. event_key f = event_key x \<longrightarrow> event_order x \<le> event_order f) fs" for fs and x :: event
  have e: "e \<in> set evs" using assms by (simp add: evs_def)
  have "best (evs @ [d]) x \<longleftrightarrow> best evs x" for x
    using e assms(4,5) unfolding best_def list_all_append list.pred_inject by (auto simp: list_all_iff dest: order.strict_implies_order order.trans)
  then have old: "best (evs @ [d]) = best evs" by blast
  have "\<not> best (evs @ [d]) d"
    using e assms(4,5) unfolding best_def list_all_iff by (metis Un_iff leD set_append)
  then have "filter (best (evs @ [d])) (evs @ [d]) = filter (best evs) evs" unfolding old by simp
  moreover have "semantic_events keep plays = filter (best evs) evs"
    by (simp add: semantic_events_def evs_def best_def[abs_def])
  moreover have "semantic_events keep (plays @ [d]) = (if pl_source (r_play (snd d)) \<in> set event_sources \<and> keep d then filter (best (evs @ [d])) (evs @ [d]) else filter (best evs) evs)"
    by (simp add: semantic_events_def evs_def best_def[abs_def])
  ultimately show ?thesis by simp
qed

lemma py_mapM_same: "(\<And>x. x \<in> set xs \<Longrightarrow> f x = Inr x) \<Longrightarrow> py_mapM f xs = Inr xs"
  by (induction xs) simp_all

lemma observation_of_ok: "observation_of outcomes rows = Some ob \<Longrightarrow> check_observation ob = Inr ob"
  by (auto simp: observation_of_def Let_def check_observation_def raise_if_def split: list.splits)

lemma length_map_filter: "length (List.map_filter f xs) \<le> length xs"
  by (induction xs) (auto simp: List.map_filter_simps split: option.split)

text \<open>What the model is trained on can always be read, is in the order of play, and counts a play once however many collectors recorded it:
  there are at most as many observations as there are different plays.\<close>

theorem every_play_trains_once:
  assumes "distinct (map fst (t_plays (jb_store db)))"
  shows "\<exists>obs. iter_observations rt db = Inr obs \<and> sorted (map ob_played_at obs) \<and>
    length obs \<le> card (event_key ` set (t_plays (jb_store db)))"
proof -
  let ?plays = "t_plays (jb_store db)" and ?outcomes = "collect_outcomes rt {} (lamp_rows db)"
  let ?events = "sort_key (\<lambda>e. (pl_played_at (r_play (snd e)), fst e)) (semantic_events (\<lambda>e. True) ?plays)"
  let ?obs = "List.map_filter (\<lambda>e. observation_of ?outcomes (play_rows rt db e)) ?events"
  have "py_mapM check_observation ?obs = Inr ?obs"
    by (rule py_mapM_same) (auto simp: List.map_filter_def dest: observation_of_ok)
  then have "iter_observations rt db = Inr (sort_key ob_played_at ?obs)" by (simp add: iter_observations_def Let_def)
  moreover have "length ?obs \<le> card (event_key ` set ?plays)"
  proof -
    have "length ?obs \<le> length (map event_key (semantic_events (\<lambda>e. True) ?plays))" using length_map_filter[of _ ?events] by simp
    also have "\<dots> = card (event_key ` set (semantic_events (\<lambda>e. True) ?plays))"
      using distinct_card[OF semantic_events_keys[OF assms]] by simp
    also have "\<dots> \<le> card (event_key ` set ?plays)" using semantic_events_subset by (intro card_mono) auto
    finally show ?thesis .
  qed
  ultimately show ?thesis by auto
qed

text \<open>When another collector records a play again, with less authority or later, nothing the model is trained on changes.\<close>

theorem recorded_again_changes_nothing:
  assumes "e \<in> set (t_plays (jb_store db))" and "pl_source (r_play (snd e)) \<in> set event_sources" and "event_key d = event_key e"
    and "event_order e < event_order d"
  shows "iter_observations rt (db\<lparr>jb_store := (jb_store db)\<lparr>t_plays := t_plays (jb_store db) @ [d]\<rparr>\<rparr>) = iter_observations rt db"
proof -
  let ?db = "db\<lparr>jb_store := (jb_store db)\<lparr>t_plays := t_plays (jb_store db) @ [d]\<rparr>\<rparr>"
  have "semantic_events (\<lambda>e. True) (t_plays (jb_store db) @ [d]) = semantic_events (\<lambda>e. True) (t_plays (jb_store db))"
    using semantic_events_duplicate[of e _ "\<lambda>e. True"] assms by blast
  moreover have "jb_features ?db = jb_features db" "jb_catalog ?db = jb_catalog db" "ranked_state m (jb_store ?db) = ranked_state m (jb_store db)" for m
    by (simp_all add: ranked_state_def fun_eq_iff)
  then have "lamp_rows ?db = lamp_rows db" "play_rows rt ?db e = play_rows rt db e" for e
    unfolding lamp_rows_def play_rows_def by presburger+
  ultimately show ?thesis by (simp add: iter_observations_def Let_def)
qed

subsection \<open>Stored models are read back\<close>

text \<open>\<open>json.loads(json.dumps(v, sort_keys=True))\<close>: the members of every object come back sorted.\<close>

fun sort_members :: "pyval \<Rightarrow> pyval" where
  "sort_members (PDict kvs) = PDict (sort_key fst (map (\<lambda>(k, v). (k, sort_members v)) kvs))"
| "sort_members (PList vs) = PList (map sort_members vs)"
| "sort_members v = v"

lemma sorted_params:
  "sort_members (params_of m) =
     PDict [(''description'', PStr (ms_description m)), (''feature_names'', PList (map PStr (ms_feature_names m))),
       (''means'', PList (map PFloat (ms_means m))),
       (''metrics'', PDict (sort_key fst (map (\<lambda>(k, x). (k, PFloat (Fin x))) (ms_metrics m)))),
       (''scales'', PList (map PFloat (ms_scales m))), (''weights'', PList (map PFloat (ms_weights m)))]"
proof -
  have "sort_key fst [(''description'', a), (''weights'', b), (''means'', c), (''scales'', d), (''feature_names'', e), (''metrics'', f)] =
      [(''description'', a), (''feature_names'', e), (''means'', c), (''metrics'', f), (''scales'', d), (''weights'', b)]" for a b c d e f :: pyval
    by code_simp
  moreover have "map sort_members (map PFloat xs) = map PFloat xs" for xs by (induction xs) simp_all
  moreover have "map sort_members (map PStr xs) = map PStr xs" for xs by (induction xs) simp_all
  ultimately show ?thesis by (simp add: params_of_def comp_def split_def)
qed

lemma floats_read: "floats_of rt (PList (map PFloat xs)) = Inr xs"
  by (induction xs) (simp_all add: floats_of_def)

lemma metrics_read: "py_mapM (metric_of rt) (map (\<lambda>(k, x). (k, PFloat (Fin x))) ms) = Inr ms"
  by (induction ms) (auto simp: metric_of_def)

lemma sort_key_map: "sort_key fst (map (\<lambda>(k, x). (k, f x)) xs) = map (\<lambda>(k, x). (k, f x)) (sort_key fst xs)"
proof -
  have insort: "insort_key fst (k, f x) (map (\<lambda>(k, x). (k, f x)) ys) = map (\<lambda>(k, x). (k, f x)) (insort_key fst (k, x) ys)" for k x ys
    by (induction ys) auto
  show ?thesis by (induction xs) (auto simp: insort)
qed

lemma sort_key_smallest: "(\<And>x. x \<in> set xs \<Longrightarrow> f p < (f x :: 'b :: linorder)) \<Longrightarrow> sort_key f (xs @ [p]) = p # sort_key f xs"
proof (induction xs)
  case (Cons x xs)
  have "\<not> f x \<le> f p" using Cons.prems[of x] by simp
  then show ?case using Cons by simp
qed simp

lemma newest_model_newer:
  assumes "mo_target p = model_target" and "\<And>r. r \<in> set rows \<Longrightarrow> mo_target r = model_target \<Longrightarrow> mo_version r < mo_version p"
  shows "newest_model (rows @ [p]) = Some p"
proof -
  let ?own = "filter (\<lambda>r. mo_target r = model_target) rows"
  have "sort_key (\<lambda>r. - mo_version r) (?own @ [p]) = p # sort_key (\<lambda>r. - mo_version r) ?own"
    using assms(2) by (intro sort_key_smallest) simp
  then show ?thesis using assms(1) by (simp add: newest_model_def)
qed

lemma newest_model_max:
  assumes "newest_model rows = Some p"
  shows "p \<in> set rows" and "mo_target p = model_target" and "\<And>r. r \<in> set rows \<Longrightarrow> mo_target r = model_target \<Longrightarrow> mo_version r \<le> mo_version p"
proof -
  let ?own = "filter (\<lambda>r. mo_target r = model_target) rows"
  obtain rest where all: "sort_key (\<lambda>r. - mo_version r) ?own = p # rest"
    using assms by (auto simp: newest_model_def split: list.splits)
  then have same: "set (p # rest) = set ?own" by (metis set_sort)
  then show "p \<in> set rows" "mo_target p = model_target" by auto
  have "sorted (map (\<lambda>r. - mo_version r) (p # rest))" using all by (metis sorted_sort_key)
  then show "mo_version r \<le> mo_version p" if "r \<in> set rows" "mo_target r = model_target" for r
    using that same by (auto dest!: equalityD2 simp: subset_iff)
qed

lemma newest_model_None: "newest_model rows = None \<Longrightarrow> r \<in> set rows \<Longrightarrow> mo_target r \<noteq> model_target"
proof -
  assume "newest_model rows = None" "r \<in> set rows"
  then have "sort_key (\<lambda>r. - mo_version r) (filter (\<lambda>r. mo_target r = model_target) rows) = []"
    by (simp add: newest_model_def split: list.splits)
  then have "set (filter (\<lambda>r. mo_target r = model_target) rows) = {}" by (metis set_empty2 set_sort)
  then show "mo_target r \<noteq> model_target" using \<open>r \<in> set rows\<close> by auto
qed

lemma persist_model_fresh:
  assumes "\<forall>r\<in>set (jb_models db). mo_target r = ms_target m \<longrightarrow> mo_version r < ms_version m"
  shows "\<exists>p. persist_model js m db = (Inr (), db\<lparr>jb_models := jb_models db @ [p]\<rparr>) \<and> mo_target p = ms_target m \<and> mo_version p = ms_version m \<and>
    mo_trained_at p = ms_trained_at m \<and> mo_n_train p = ms_n_train m \<and> mo_params p = js_dumps_sorted js (params_of m)"
proof -
  have "(ms_target m, ms_version m) \<notin> set (map (\<lambda>r. (mo_target r, mo_version r)) (jb_models db))" using assms by auto
  then show ?thesis by (simp add: persist_model_def) (intro exI conjI, rule refl, simp_all)
qed

text \<open>C40: A model that is saved is the one that is read: with a version above those of its target, and a JSON codec that returns the parameters with
  sorted members, the latest model is the saved one, its metrics in the order of their names.\<close>

theorem saved_model_is_read_back:
  assumes "check_model_snapshot m = Inr m" and "ms_target m = model_target"
    and "\<forall>r\<in>set (jb_models db). mo_target r = model_target \<longrightarrow> mo_version r < ms_version m"
    and "js_loads js (js_dumps_sorted js (params_of m)) = Some (sort_members (params_of m))"
  shows "\<exists>db'. persist_model js m db = (Inr (), db') \<and> latest_model rt js db' = Inr (Some (m\<lparr>ms_metrics := sort_key fst (ms_metrics m)\<rparr>))"
proof -
  obtain p where p: "persist_model js m db = (Inr (), db\<lparr>jb_models := jb_models db @ [p]\<rparr>)" "mo_target p = model_target" "mo_version p = ms_version m"
      "mo_trained_at p = ms_trained_at m" "mo_n_train p = ms_n_train m" "mo_params p = js_dumps_sorted js (params_of m)"
    using persist_model_fresh[of db m js] assms(2,3) by auto
  have newest: "newest_model (jb_models db @ [p]) = Some p" using p assms(3) by (intro newest_model_newer) auto
  have check: "check_model_snapshot (m\<lparr>ms_metrics := sort_key fst (ms_metrics m)\<rparr>) = Inr (m\<lparr>ms_metrics := sort_key fst (ms_metrics m)\<rparr>)"
    using assms(1) by (auto simp: check_model_snapshot_def Let_def py_bind_Inr_iff raise_if_Inr)
  have names: "map (py_str rt \<circ> PStr) (ms_feature_names m) = ms_feature_names m" by (simp add: comp_def)
  have same: "\<lparr>ms_target = model_target, ms_version = ms_version m, ms_trained_at = ms_trained_at m, ms_n_train = ms_n_train m, ms_weights = ms_weights m,
      ms_means = ms_means m, ms_scales = ms_scales m, ms_feature_names = ms_feature_names m, ms_metrics = sort_key fst (ms_metrics m),
      ms_description = ms_description m\<rparr> = m\<lparr>ms_metrics := sort_key fst (ms_metrics m)\<rparr>"
    by (cases m) (use assms(2) in simp)
  have "latest_model rt js (db\<lparr>jb_models := jb_models db @ [p]\<rparr>) = Inr (Some (m\<lparr>ms_metrics := sort_key fst (ms_metrics m)\<rparr>))"
    unfolding latest_model_def by (simp add: newest snapshot_from_row_def p assms(4) sorted_params sort_key_map metrics_read item_def floats_read names same check)
  then show ?thesis using p(1) by blast
qed

lemma passed_model:
  assumes "fit_observations dice previous trained_at obs = Inr r" and "fr_status r = Passed"
  shows "\<exists>m. fr_model r = Some m \<and> ms_target m = model_target \<and> ms_version m = (case previous of None \<Rightarrow> 1 | Some p \<Rightarrow> ms_version p + 1)"
proof -
  have checked: "check_model_snapshot x = Inr m \<Longrightarrow> m = x" for x m
    by (auto simp: check_model_snapshot_def Let_def py_bind_Inr_iff)
  have fields: "ms_target (snapshot_of train v t ms) = model_target" "ms_version (snapshot_of train v t ms) = v" for train v t ms
    by (simp_all add: snapshot_of_def model_target_def split_beta)
  show ?thesis
    using assms unfolding fit_observations_def Let_def
    by (auto simp: py_bind_Inr_iff fields dest!: checked split: if_splits option.splits)
qed

lemma snapshot_from_row_checked:
  assumes "snapshot_from_row rt js (Some r) = Inr p"
  shows "\<exists>m. p = Some m \<and> check_model_snapshot m = Inr m \<and> ms_version m = mo_version r"
proof -
  have same: "check_model_snapshot x = Inr m \<Longrightarrow> m = x" for x m
    by (auto simp: check_model_snapshot_def Let_def py_bind_Inr_iff)
  obtain params where params: "js_loads js (mo_params r) = Some (PDict params)"
    using assms by (simp add: snapshot_from_row_def split: option.splits pyval.splits)
  show ?thesis using assms unfolding snapshot_from_row_def option.case params pyval.case py_bind_Inr_iff
    by (elim exE conjE) (use same in force)
qed

lemma latest_version: "latest_model rt js db = Inr previous \<Longrightarrow> map_option ms_version previous = map_option mo_version (newest_model (jb_models db))"
  by (cases "newest_model (jb_models db)")
    (auto simp: latest_model_def snapshot_from_row_def[of _ _ None] dest: snapshot_from_row_checked)

text \<open>A fit stores a model exactly when it passes: then the newest model of the database is the fitted one, one version above the newest before it or the
  first, and nothing else has changed; a fit that does not pass, or fails, leaves the database alone.\<close>

theorem fit_stores_what_passed:
  "case fit_latest rt js dice trained_at db of
     (Inl e, db') \<Rightarrow> db' = db
   | (Inr r, db') \<Rightarrow>
       if fr_status r = Passed then
         \<exists>m p. fr_model r = Some m \<and> db' = db\<lparr>jb_models := jb_models db @ [p]\<rparr> \<and> newest_model (jb_models db') = Some p \<and>
           ms_version m = (case newest_model (jb_models db) of None \<Rightarrow> 1 | Some q \<Rightarrow> mo_version q + 1) \<and>
           (mo_target p, mo_version p, mo_n_train p) = (ms_target m, ms_version m, ms_n_train m) \<and> mo_params p = js_dumps_sorted js (params_of m)
       else db' = db"
proof -
  define fitted where "fitted = py_bind (iter_observations rt db) (\<lambda>obs.
    py_bind (latest_model rt js db) (\<lambda>previous. fit_observations dice previous trained_at obs))"
  have run: "fit_latest rt js dice trained_at db = fit_repository (model_ports_of js db) True fitted db"
    by (simp add: fit_latest_def fitted_def)
  show ?thesis
  proof (cases "\<exists>r m. fitted = Inr r \<and> fr_status r = Passed \<and> fr_model r = Some m")
    case True
    then obtain r m where r: "fitted = Inr r" "fr_status r = Passed" "fr_model r = Some m" by blast
    then obtain obs previous where fit: "latest_model rt js db = Inr previous" "fit_observations dice previous trained_at obs = Inr r"
      unfolding fitted_def py_bind_Inr_iff by blast
    have m: "ms_target m = model_target" "ms_version m = (case previous of None \<Rightarrow> 1 | Some p \<Rightarrow> ms_version p + 1)"
      using passed_model[OF fit(2) r(2)] r(3) by simp_all
    have previous: "map_option ms_version previous = map_option mo_version (newest_model (jb_models db))"
      by (rule latest_version[OF fit(1)])
    then have version: "ms_version m = (case newest_model (jb_models db) of None \<Rightarrow> 1 | Some q \<Rightarrow> mo_version q + 1)"
      using m(2) by (auto split: option.splits)
    have fresh: "mo_version q < ms_version m" if "q \<in> set (jb_models db)" "mo_target q = model_target" for q
      using that version newest_model_max(3)[of "jb_models db" _ q] newest_model_None[of "jb_models db" q] by (fastforce split: option.splits)
    then obtain p where p: "persist_model js m db = (Inr (), db\<lparr>jb_models := jb_models db @ [p]\<rparr>)" "mo_target p = ms_target m" "mo_version p = ms_version m"
        "mo_n_train p = ms_n_train m" "mo_params p = js_dumps_sorted js (params_of m)"
      using persist_model_fresh[of db m js] m(1) by auto
    have "newest_model (jb_models db @ [p]) = Some p" using fresh p m(1) by (intro newest_model_newer) auto
    moreover have "fit_latest rt js dice trained_at db = (Inr r, db\<lparr>jb_models := jb_models db @ [p]\<rparr>)"
      by (simp add: run fit_repository_def r model_ports_of_def p(1))
    ultimately show ?thesis using r(2,3) version p by simp
  next
    case False
    then have "fit_latest rt js dice trained_at db = (fitted, db)"
      by (cases fitted) (auto simp: run fit_repository_def split: fit_status.split option.split)
    moreover have "fr_status r \<noteq> Passed" if "fitted = Inr r" for r
    proof
      assume "fr_status r = Passed"
      then have "\<exists>m. fr_model r = Some m" using that passed_model unfolding fitted_def py_bind_Inr_iff by blast
      then show False using False that \<open>fr_status r = Passed\<close> by blast
    qed
    ultimately show ?thesis by (cases fitted) simp_all
  qed
qed

subsection \<open>Examples\<close>

definition sample_store_db :: "event list \<Rightarrow> job_db" where
  "sample_store_db plays =
     \<lparr>jb_store = empty_db\<lparr>t_plays := plays\<rparr>, jb_catalog = \<lparr>ca_charts = [], ca_class_sources = [], ca_classifications = [], ca_table_entries = [],
        ca_table_sources = []\<rparr>, jb_features = [], jb_models = [], jb_targets = [], jb_sessions = [], jb_versions = []\<rparr>"

definition sample_event_of :: "int \<Rightarrow> string \<Rightarrow> event" where
  "sample_event_of i source = (i, as_record (sample_play sample_runtime ''aa'' 1 source 0 0 40))"

definition sample_json :: json_ports where
  "sample_json = \<lparr>js_dumps = (\<lambda>v. []), js_dumps_sorted = (\<lambda>v. []), js_loads = (\<lambda>s. Some (sort_members (params_of sample_model)))\<rparr>"

theorem every_play_trains_once_witness:
  "\<exists>obs. iter_observations sample_runtime (sample_store_db [sample_event_of 1 ''collector'', sample_event_of 2 ''daily_snapshot'']) = Inr obs \<and> length obs \<le> 1"
proof -
  let ?plays = "[sample_event_of 1 ''collector'', sample_event_of 2 ''daily_snapshot'']"
  have "distinct (map fst (t_plays (jb_store (sample_store_db ?plays))))" by (simp add: sample_store_db_def sample_event_of_def)
  from every_play_trains_once[OF this, of sample_runtime] obtain obs where
    "iter_observations sample_runtime (sample_store_db ?plays) = Inr obs" "length obs \<le> card (event_key ` set ?plays)"
    by (auto simp: sample_store_db_def)
  moreover have "event_key ` set ?plays = {event_key (sample_event_of 1 ''collector'')}"
    by (simp add: sample_event_of_def event_key_def as_record_def sample_play_def Let_def)
  ultimately show ?thesis by auto
qed

theorem recorded_again_changes_nothing_witness:
  "iter_observations sample_runtime (sample_store_db [sample_event_of 1 ''collector'', sample_event_of 2 ''daily_snapshot'']) =
   iter_observations sample_runtime (sample_store_db [sample_event_of 1 ''collector''])"
proof -
  have "event_key (sample_event_of 2 ''daily_snapshot'') = event_key (sample_event_of 1 ''collector'')"
    "event_order (sample_event_of 1 ''collector'') < event_order (sample_event_of 2 ''daily_snapshot'')"
    "pl_source (r_play (snd (sample_event_of 1 ''collector''))) \<in> set event_sources"
    by (simp_all add: sample_event_of_def event_key_def event_order_def event_rank_def as_record_def sample_play_def Let_def event_sources_def)
  from recorded_again_changes_nothing[OF _ this(3,1,2), of "sample_store_db [sample_event_of 1 ''collector'']" sample_runtime]
  show ?thesis by (simp add: sample_store_db_def)
qed

theorem saved_model_is_read_back_witness:
  "\<exists>db'. persist_model sample_json sample_model (sample_store_db []) = (Inr (), db') \<and>
     latest_model sample_runtime sample_json db' = Inr (Some sample_model)"
proof -
  have "\<not> blank ''observed_completion''" by (simp add: blank_def py_strip_def is_space_def)
  then have "check_model_snapshot sample_model = Inr sample_model"
    by (simp add: check_model_snapshot_def sample_model_def feature_names_def)
  moreover have "sample_model\<lparr>ms_metrics := sort_key fst (ms_metrics sample_model)\<rparr> = sample_model" "ms_target sample_model = model_target"
    by (simp_all add: sample_model_def model_target_def)
  ultimately show ?thesis
    using saved_model_is_read_back[of sample_model "sample_store_db []" sample_json sample_runtime]
    by (simp add: sample_json_def sample_store_db_def)
qed

end
