(* ===== verification/Recommendation_Adapter.thy ===== *)
theory Recommendation_Adapter
  imports Model_Adapter Menu_Publish Menu_Properties
begin

text \<open>
  The input and the output of the menu planner in the assistant database (\<open>db/recommendation_adapter.py\<close>): the query of the candidates written
  out over lists, the shift of the warm-up from the results of the last one, and the saving of a planned session. Rows that the query leaves
  unordered keep the order of the table. Dates and zones are two functions; a row of \<open>charts\<close> that the query accepts has an integer
  count of notes, and \<open>NULL\<close> texts stay \<open>None\<close>.
\<close>

subsection \<open>Candidates\<close>

record recent_summary =
  re_successes :: int
  re_failures :: int
  re_played_at :: int
  re_second_played_at :: int
  re_bp_rate :: "real option"

definition recent_events :: "job_db \<Rightarrow> event list" where
  "recent_events db = semantic_events (\<lambda>e. pl_mode (r_play (snd e)) \<in> {0, 1, 2} \<and> r_is_course (snd e) = 0) (t_plays (jb_store db))"

definition recent_three :: "job_db \<Rightarrow> string \<Rightarrow> play list" where
  "recent_three db sha256 =
     map (r_play \<circ> snd) (take 3 (sort_key (\<lambda>e. (- pl_played_at (r_play (snd e)), - fst e))
       (filter (\<lambda>e. pl_sha256 (r_play (snd e)) = sha256) (recent_events db))))"

definition succeeded :: "play \<Rightarrow> bool" where
  "succeeded p \<longleftrightarrow> pl_completed p = Some 1 \<and> 4 \<le> pl_clear p"

definition summary_of :: "play list \<Rightarrow> recent_summary option" where
  "summary_of ps =
     (case ps of
        [] \<Rightarrow> None
      | p # rest \<Rightarrow> Some \<lparr>re_successes = int (length (filter succeeded ps)), re_failures = int (length (filter (\<lambda>p. \<not> succeeded p) ps)),
          re_played_at = pl_played_at p, re_second_played_at = (case rest of [] \<Rightarrow> 0 | q # _ \<Rightarrow> max 0 (pl_played_at q)),
          re_bp_rate = (case List.map_filter pl_bp_rate ps of [] \<Rightarrow> None | x # xs \<Rightarrow> Some (Max (set (x # xs))))\<rparr>)"

definition pending_transfers :: "job_db \<Rightarrow> string list" where
  "pending_transfers db = map (fst \<circ> et_chart) (filter (\<lambda>t. et_kind t = Transfer \<and> et_status t = Pending) (jb_targets db))"

text \<open>\<open>c.song_mode = 7 AND c.notes > 0\<close> of a stored row, and the transfers that wait.\<close>

definition int_value :: "pyval \<Rightarrow> int" where
  "int_value v = (case v of PInt n \<Rightarrow> n | _ \<Rightarrow> 0)"

definition planned_chart :: "job_db \<Rightarrow> string \<times> chart_row \<Rightarrow> bool" where
  "planned_chart db c \<longleftrightarrow> cr_song_mode (snd c) = PInt 7 \<and> 0 < int_value (cr_notes (snd c)) \<and> fst c \<notin> set (pending_transfers db)"

definition feature_column :: "chart_features option \<Rightarrow> string \<Rightarrow> real option" where
  "feature_column f k =
     (case f of
        None \<Rightarrow> None
      | Some c \<Rightarrow> map_of [(''density_p99'', cf_density_p99 c), (''density_p90'', cf_density_p90 c), (''end_density'', cf_end_density c),
          (''burst_max'', cf_burst_max c), (''scratch_rate'', cf_scratch_rate c), (''scratch_p90'', cf_scratch_p90 c),
          (''scratch_combo_rate'', cf_scratch_combo_rate c), (''ln_rate'', cf_ln_rate c), (''soflan_var'', cf_soflan_var c),
          (''soflan_changes'', real (cf_soflan_changes c)), (''stop_count'', real (cf_stop_count c)), (''chart_seconds'', cf_chart_seconds c)] k)"

definition pattern_column :: "pattern_row option \<Rightarrow> string \<Rightarrow> pyval" where
  "pattern_column p k =
     (case p of
        None \<Rightarrow> PNone
      | Some r \<Rightarrow> get_item [(''avg_chord'', pt_avg_chord r), (''chord_ge3'', pt_chord_ge3 r), (''micro_rate'', pt_micro_rate r),
          (''long_jack_rate'', pt_long_jack_rate r), (''practice_low'', pt_practice_low r), (''grid_bpm'', pt_grid_bpm r),
          (''stream_sec'', pt_stream_sec r), (''last_kill'', pt_last_kill r)] k)"

text \<open>A column as the planner reads it, \<open>float(value)\<close> or nothing.\<close>

definition column_number :: "runtime \<Rightarrow> chart_features option \<Rightarrow> pattern_row option \<Rightarrow> string \<Rightarrow> pyfloat option" where
  "column_number rt f p k =
     (case feature_column f k of
        Some x \<Rightarrow> Some (Fin x)
      | None \<Rightarrow> (case py_float rt (pattern_column p k) of Inl e \<Rightarrow> None | Inr x \<Rightarrow> Some x))"

definition real_or_zero :: "real option \<Rightarrow> real" where
  "real_or_zero x = (case x of None \<Rightarrow> 0 | Some v \<Rightarrow> v)"

definition query_row_of :: "runtime \<Rightarrow> job_db \<Rightarrow> string \<times> chart_row \<Rightarrow> table_entry_row \<Rightarrow> candidate_row" where
  "query_row_of rt db c te =
     (let h = fst c; f = map_of (jb_features db) h; p = map_of (t_patterns (jb_store db)) h;
          s = ranked_state {0, 1, 2} (jb_store db) h; r = summary_of (recent_three db h) in
      \<lparr>q_sha256 = h, q_md5 = text_option (cr_md5 (snd c)), q_title = text_option (cr_title (snd c)), q_artist = text_option (cr_artist (snd c)),
       q_notes = int_value (cr_notes (snd c)), q_table_id = tr_table_id te, q_level = tr_level te,
       q_mode = (case s of None \<Rightarrow> 0 | Some (m, x) \<Rightarrow> m), q_clear = (case s of None \<Rightarrow> 0 | Some (m, x) \<Rightarrow> ss_clear x),
       q_playcount = (case s of None \<Rightarrow> 0 | Some (m, x) \<Rightarrow> ss_playcount x), q_last_played = (case s of None \<Rightarrow> 0 | Some (m, x) \<Rightarrow> ss_played_at x),
       q_minbp = (case s of None \<Rightarrow> None | Some (m, x) \<Rightarrow> ss_minbp x),
       q_recent_successes = (case r of None \<Rightarrow> 0 | Some x \<Rightarrow> re_successes x), q_recent_failures = (case r of None \<Rightarrow> 0 | Some x \<Rightarrow> re_failures x),
       q_recent_played_at = (case r of None \<Rightarrow> 0 | Some x \<Rightarrow> re_played_at x),
       q_recent_second_played_at = (case r of None \<Rightarrow> 0 | Some x \<Rightarrow> re_second_played_at x),
       q_recent_bp_rate = (case r of None \<Rightarrow> None | Some x \<Rightarrow> map_option Fin (re_bp_rate x)),
       q_axis = (\<lambda>axis. real_or_zero (feature_column f
         (if axis = ''density'' then ''density_p99'' else if axis = ''scratch'' then ''scratch_p90'' else if axis = ''ln'' then ''ln_rate''
          else ''soflan_changes''))),
       q_model_scratch = real_or_zero (feature_column f ''scratch_rate''), q_feature = column_number rt f p,
       q_chart_seconds = map_option Fin (feature_column f ''chart_seconds''),
       q_practice_low = (case pattern_column p ''practice_low'' of PNone \<Rightarrow> None | v \<Rightarrow> Some (of_bool (truthy v)))\<rparr>)"

definition table_rank :: "string \<Rightarrow> int" where
  "table_rank t =
     (if t = ''genocide'' then 0 else if t = ''overjoy'' then 1 else if t = ''satellite'' then 2 else if t = ''stella'' then 3 else 4)"

definition candidate_rows :: "runtime \<Rightarrow> job_db \<Rightarrow> candidate_row list" where
  "candidate_rows rt db =
     sort_key (\<lambda>r. (q_sha256 r, table_rank (q_table_id r), q_table_id r))
       (concat (map (\<lambda>c. map (query_row_of rt db c) (filter (\<lambda>te. tr_sha256 te = fst c) (ca_table_entries (jb_catalog db))))
         (filter (planned_chart db) (t_charts (jb_store db)))))"

subsection \<open>The shift of the warm-up\<close>

text \<open>The day of a date, and the epoch of 04:00 of a day in a zone.\<close>

record window_ports =
  wp_day :: "string \<Rightarrow> int option"
  wp_four :: "string \<Rightarrow> int \<Rightarrow> int option"

definition warmup_play_window :: "window_ports \<Rightarrow> pyval \<Rightarrow> (int \<times> int) option" where
  "warmup_play_window wp payload =
     (case payload of
        PDict d \<Rightarrow>
          (case (get_item d ''menu_date'', case get_item d ''profile'' of PDict p \<Rightarrow> get_item p ''timezone'' | _ \<Rightarrow> PNone) of
             (PStr menu_date, PStr zone) \<Rightarrow>
               (case wp_day wp menu_date of
                  None \<Rightarrow> None
                | Some day \<Rightarrow>
                    (case (wp_four wp zone day, wp_four wp zone (day + 1)) of (Some start, Some stop) \<Rightarrow> Some (start, stop) | _ \<Rightarrow> None))
           | _ \<Rightarrow> None)
      | _ \<Rightarrow> None)"

text \<open>What became of a warm-up entry: skipped, or the clear, whether it was completed, and the rate of bad notes.\<close>

type_synonym warmup_result = "(int \<times> bool \<times> real option) option"

definition warmup_result_of :: "assistant_db \<Rightarrow> int \<Rightarrow> int \<Rightarrow> string \<Rightarrow> warmup_result" where
  "warmup_result_of db start stop sha256 =
     (case sort_key (\<lambda>e. (pl_played_at (r_play (snd e)), event_rank (pl_source (r_play (snd e))), - pl_ingested_at (r_play (snd e)), - fst e))
         (filter (\<lambda>e. let p = r_play (snd e) in pl_sha256 p = sha256 \<and> start \<le> pl_played_at p \<and> pl_played_at p < stop \<and> r_is_course (snd e) = 0 \<and>
            pl_source p \<in> set event_sources \<and> pl_completed p \<noteq> None) (t_plays db)) of
        [] \<Rightarrow> None
      | e # _ \<Rightarrow> (let p = r_play (snd e) in Some (pl_clear p, the (pl_completed p) \<noteq> 0, pl_bp_rate p)))"

definition poor :: "int \<times> bool \<times> real option \<Rightarrow> bool" where
  "poor o1 = (case o1 of (clear, completed, rate) \<Rightarrow>
     \<not> completed \<or> clear < 4 \<or> (case rate of None \<Rightarrow> False | Some r \<Rightarrow> 10 / 100 \<le> r))"

definition comfortable :: "int \<times> bool \<times> real option \<Rightarrow> bool" where
  "comfortable o1 = (case o1 of (clear, completed, rate) \<Rightarrow>
     completed \<and> 4 \<le> clear \<and> (case rate of None \<Rightarrow> False | Some r \<Rightarrow> r \<le> 5 / 100))"

definition rates_of :: "(int \<times> bool \<times> real option) list \<Rightarrow> real list" where
  "rates_of played = List.map_filter (snd \<circ> snd) played"

definition bp_worsened :: "real list \<Rightarrow> bool" where
  "bp_worsened rates \<longleftrightarrow> 2 \<le> length rates \<and> 6 / 100 \<le> last rates \<and> 3 / 100 \<le> last rates - hd rates"

definition trailing_skips :: "warmup_result list \<Rightarrow> nat" where
  "trailing_skips results = length (takeWhile (\<lambda>r. r = None) (rev results))"

definition warmup_shift :: "warmup_result list \<Rightarrow> int" where
  "warmup_shift results =
     (let played = List.map_filter id results in
      if length played < 2 then 0
      else if 2 \<le> length (filter poor played) \<or> poor (last played) \<or> bp_worsened (rates_of played) \<or> 2 \<le> trailing_skips results then - 1
      else if 3 \<le> length played \<and> list_all comfortable played \<and> trailing_skips results = 0 then 1
      else 0)"

definition warmup_charts :: "pyval \<Rightarrow> string list option" where
  "warmup_charts queue =
     (case queue of
        PList items \<Rightarrow> Some (List.map_filter (\<lambda>v. case v of
            PDict i \<Rightarrow> if get_item i ''category'' = PStr ''01 WARMUP'' then text_option (get_item i ''sha256'') else None
          | _ \<Rightarrow> None) items)
      | _ \<Rightarrow> None)"

definition newest_session :: "menu_session_row list \<Rightarrow> menu_session_row option" where
  "newest_session rows = (case sort_key (\<lambda>r. (- ws_created_at r, - ws_id r)) rows of [] \<Rightarrow> None | r # _ \<Rightarrow> Some r)"

definition warmup_adjustment :: "json_ports \<Rightarrow> window_ports \<Rightarrow> job_db \<Rightarrow> int" where
  "warmup_adjustment js wp db =
     (case newest_session (jb_sessions db) of
        None \<Rightarrow> 0
      | Some s \<Rightarrow>
          (case js_loads js (ws_slots s) of
             None \<Rightarrow> 0
           | Some payload \<Rightarrow>
               (case warmup_play_window wp payload of
                  None \<Rightarrow> 0
                | Some (start, stop) \<Rightarrow>
                    (case warmup_charts (case map_of (members payload) ''queue'' of None \<Rightarrow> PNone | Some q \<Rightarrow> q) of
                       None \<Rightarrow> 0
                     | Some charts \<Rightarrow>
                         warmup_shift (map (warmup_result_of (jb_store db) (max (ws_created_at s) start) stop) charts)))))"

subsection \<open>Input of the planner\<close>

definition classification_row_for :: "classification_entry \<Rightarrow> classification_row" where
  "classification_row_for e =
     \<lparr>cl_sha256 = ck_local_sha256 e, cl_family = ck_family e, cl_scale = ck_scale e, cl_level = show_int (ck_level e), cl_source_id = ck_source_id e\<rparr>"

definition table_source_of :: "string \<times> Table_Refresh.table_source_row \<Rightarrow> Menu_Data.table_source_row" where
  "table_source_of s =
     \<lparr>tb_table_id = fst s, tb_last_error = ts_last_error (snd s), tb_entry_count = map_option int (ts_entry_count (snd s)),
      tb_matched_count = map_option int (ts_matched_count (snd s))\<rparr>"

definition latest_import :: "daily_import_row list \<Rightarrow> daily_import_row option" where
  "latest_import rows = (case sort_key (\<lambda>r. - di_id r) rows of [] \<Rightarrow> None | r # _ \<Rightarrow> Some r)"

definition load_input :: "runtime \<Rightarrow> json_ports \<Rightarrow> window_ports \<Rightarrow> job_db \<Rightarrow> profile_context \<Rightarrow> recommendation_input py" where
  "load_input rt js wp db profile =
     (let sources = map table_source_of (sort_key fst (ca_table_sources (jb_catalog db)));
          classifications = map classification_row_for (load_chart_classifications (catalog_of db) None);
          adjustment = warmup_adjustment js wp db in
      (case latest_import (t_imports (jb_store db)) of
         None \<Rightarrow> check_recommendation_input
           \<lparr>ri_profile = profile, ri_import_id = 0, ri_baseline_judged = 0, ri_candidates = [], ri_model = None, ri_table_sources = sources,
            ri_warmup_adjustment = adjustment, ri_classifications = classifications\<rparr>
       | Some latest \<Rightarrow>
           py_bind (latest_model rt js db) (\<lambda>model. check_recommendation_input
             \<lparr>ri_profile = profile, ri_import_id = di_id latest, ri_baseline_judged = di_baseline_judged latest,
              ri_candidates = candidate_rows rt db, ri_model = model, ri_table_sources = sources, ri_warmup_adjustment = adjustment,
              ri_classifications = classifications\<rparr>)))"

definition build_session_from_repository ::
    "runtime \<Rightarrow> json_ports \<Rightarrow> window_ports \<Rightarrow> calendar \<Rightarrow> 's rng \<Rightarrow> job_db \<Rightarrow> profile_context \<Rightarrow> request \<Rightarrow> int \<Rightarrow> session py" where
  "build_session_from_repository rt js wp cal g db profile q now =
     py_bind (load_input rt js wp db profile) (\<lambda>input. build_session_from_input rt cal g input q now)"

subsection \<open>What the planner is offered\<close>

lemma candidate_row_fields [simp]:
  "q_sha256 (query_row_of rt db c te) = fst c" "q_table_id (query_row_of rt db c te) = tr_table_id te"
  "q_level (query_row_of rt db c te) = tr_level te"
  by (simp_all add: query_row_of_def Let_def)

text \<open>The planner is offered every chart of the library that is a 7-key chart with notes and is listed in a table, once for each listing, and no
  other chart; in particular no chart that waits to be played as a transfer target of the experiment.\<close>

theorem candidates_are_listed_charts:
  "mset (map (\<lambda>r. (q_sha256 r, q_table_id r, q_level r)) (candidate_rows rt db)) =
     mset (concat (map (\<lambda>c. map (\<lambda>te. (fst c, tr_table_id te, tr_level te))
         (filter (\<lambda>te. tr_sha256 te = fst c) (ca_table_entries (jb_catalog db))))
       (filter (planned_chart db) (t_charts (jb_store db))))) \<and>
   q_sha256 ` set (candidate_rows rt db) \<inter> set (pending_transfers db) = {}"
proof
  let ?charts = "filter (planned_chart db) (t_charts (jb_store db))"
  have "mset (map f (candidate_rows rt db)) = mset (map f (concat (map (\<lambda>c. map (query_row_of rt db c)
      (filter (\<lambda>te. tr_sha256 te = fst c) (ca_table_entries (jb_catalog db)))) ?charts)))" for f :: "candidate_row \<Rightarrow> string \<times> string \<times> string"
    by (simp add: candidate_rows_def)
  then show "mset (map (\<lambda>r. (q_sha256 r, q_table_id r, q_level r)) (candidate_rows rt db)) =
     mset (concat (map (\<lambda>c. map (\<lambda>te. (fst c, tr_table_id te, tr_level te)) (filter (\<lambda>te. tr_sha256 te = fst c) (ca_table_entries (jb_catalog db)))) ?charts))"
    by (simp add: map_concat comp_def del: mset_map)
  show "q_sha256 ` set (candidate_rows rt db) \<inter> set (pending_transfers db) = {}"
    by (auto simp: candidate_rows_def planned_chart_def)
qed

lemma load_input_candidates:
  assumes "load_input rt js wp db profile = Inr input"
  shows "set (ri_candidates input) \<subseteq> set (candidate_rows rt db)"
  using assms by (auto simp: load_input_def Let_def check_recommendation_input_def py_bind_Inr_iff split: option.splits)

text \<open>C36: The menu and the experiment do not use the same chart: a chart that waits as a transfer target is in no menu planned from the database.\<close>

theorem waiting_transfer_is_not_planned:
  assumes "rng_ok g" and "build_session_from_repository rt js wp cal g db profile q now = Inr se" and "h \<in> set (pending_transfers db)"
  shows "h \<notin> mi_sha256 ` set (se_queue se)"
proof -
  obtain input where input: "load_input rt js wp db profile = Inr input" "build_session_from_input rt cal g input q now = Inr se"
    using assms(2) by (auto simp: build_session_from_repository_def py_bind_Inr_iff)
  have "mi_sha256 i \<in> q_sha256 ` set (candidate_rows rt db)" if "i \<in> set (se_queue se)" for i
    using session_from_candidates[OF assms(1) input(2) that] load_input_candidates[OF input(1)] by blast
  moreover have "h \<notin> q_sha256 ` set (candidate_rows rt db)" using assms(3) by (auto simp: candidate_rows_def planned_chart_def)
  ultimately show ?thesis by blast
qed

subsection \<open>The shift follows the results\<close>

text \<open>One result is at most as good as another: the chart was played or skipped in both, and the clear, the completion and the rate are no better.\<close>

fun no_better :: "warmup_result \<Rightarrow> warmup_result \<Rightarrow> bool" where
  "no_better (Some (c, d, r)) (Some (c', d', r')) \<longleftrightarrow>
     c \<le> c' \<and> (d \<longrightarrow> d') \<and> (case (r, r') of (None, None) \<Rightarrow> True | (Some x, Some y) \<Rightarrow> y \<le> x | _ \<Rightarrow> False)"
| "no_better None None \<longleftrightarrow> True"
| "no_better a b \<longleftrightarrow> False"

definition worse_play :: "int \<times> bool \<times> real option \<Rightarrow> int \<times> bool \<times> real option \<Rightarrow> bool" where
  "worse_play a b = no_better (Some a) (Some b)"

lemma worse_play_facts:
  assumes "worse_play a b"
  shows "poor b \<Longrightarrow> poor a" and "comfortable a \<Longrightarrow> comfortable b" and "rel_option (\<lambda>x y. y \<le> x) (snd (snd a)) (snd (snd b))"
  using assms by (cases a; cases b; auto simp: worse_play_def poor_def comfortable_def split: option.splits)+

lemma no_better_lists:
  assumes "list_all2 no_better as bs"
  shows "list_all2 worse_play (List.map_filter id as) (List.map_filter id bs)" and "map (\<lambda>r. r = None) as = map (\<lambda>r. r = None) bs"
proof -
  have "list_all2 worse_play (List.map_filter id as) (List.map_filter id bs) \<and> map (\<lambda>r. r = None) as = map (\<lambda>r. r = None) bs"
    using assms
  proof (induction rule: list_all2_induct)
    case (Cons a as b bs)
    then show ?case by (cases a; cases b) (auto simp: map_filter_simps worse_play_def)
  qed (simp add: map_filter_simps)
  then show "list_all2 worse_play (List.map_filter id as) (List.map_filter id bs)" "map (\<lambda>r. r = None) as = map (\<lambda>r. r = None) bs" by blast+
qed

lemma worse_rates:
  "list_all2 worse_play as bs \<Longrightarrow> list_all2 (\<lambda>x y. y \<le> x) (rates_of as) (rates_of bs)"
proof (induction rule: list_all2_induct)
  case (Cons a as b bs)
  then show ?case using worse_play_facts(3)[OF Cons.hyps(1)]
    by (cases "snd (snd a)"; cases "snd (snd b)") (simp_all add: rates_of_def map_filter_simps)
qed (simp add: rates_of_def map_filter_simps)

lemma worse_poor: "list_all2 worse_play as bs \<Longrightarrow> length (filter poor bs) \<le> length (filter poor as)"
  by (induction rule: list_all2_induct) (auto dest: worse_play_facts(1))

lemma same_skips: "map (\<lambda>r. r = None) as = map (\<lambda>r. r = None) bs \<Longrightarrow> trailing_skips as = trailing_skips bs"
proof -
  have "length (takeWhile (\<lambda>r. r = None) xs) = length (takeWhile id (map (\<lambda>r. r = None) xs))" for xs :: "warmup_result list"
    by (induction xs) auto
  then show "map (\<lambda>r. r = None) as = map (\<lambda>r. r = None) bs \<Longrightarrow> trailing_skips as = trailing_skips bs"
    by (metis trailing_skips_def rev_map)
qed

text \<open>C37: The next warm-up is never made harder by a worse result: if the results of a warm-up are no better than others, entry by entry and with the same
  first rate, its shift is at most theirs; and every shift is one step at most.\<close>

theorem worse_results_shift_down:
  assumes "list_all2 no_better as bs" and "hd (rates_of (List.map_filter id as)) = hd (rates_of (List.map_filter id bs))"
  shows "warmup_shift as \<le> warmup_shift bs \<and> warmup_shift as \<in> {- 1, 0, 1}"
proof -
  let ?p = "List.map_filter id as" and ?q = "List.map_filter id bs"
  have worse: "list_all2 worse_play ?p ?q" by (rule no_better_lists(1)[OF assms(1)])
  then have len: "length ?p = length ?q" by (rule list_all2_lengthD)
  have rates: "list_all2 (\<lambda>x y. y \<le> x) (rates_of ?p) (rates_of ?q)" by (rule worse_rates[OF worse])
  have skips: "trailing_skips as = trailing_skips bs" by (rule same_skips[OF no_better_lists(2)[OF assms(1)]])
  have last_poor: "poor (last ?p)" if "?q \<noteq> []" "poor (last ?q)"
    using that worse len worse_play_facts(1) by (metis last_conv_nth length_0_conv length_greater_0_conv list_all2_conv_all_nth diff_less zero_less_one)
  have worsened: "bp_worsened (rates_of ?p)" if "bp_worsened (rates_of ?q)"
  proof -
    have same: "length (rates_of ?p) = length (rates_of ?q)" using rates by (rule list_all2_lengthD)
    moreover have "rates_of ?q \<noteq> []" using that by (auto simp: bp_worsened_def)
    ultimately have "rates_of ?p \<noteq> []" by auto
    then have "last (rates_of ?q) \<le> last (rates_of ?p)"
      using rates \<open>rates_of ?q \<noteq> []\<close> same by (simp add: last_conv_nth list_all2_conv_all_nth)
    then show ?thesis using that same assms(2) by (auto simp: bp_worsened_def)
  qed
  have good: "list_all comfortable ?q" if "list_all comfortable ?p"
    using that worse worse_play_facts(2) unfolding list_all_length list_all2_conv_all_nth by metis
  define bad where "bad rs \<longleftrightarrow> 2 \<le> length (filter poor (List.map_filter id rs)) \<or> poor (last (List.map_filter id rs)) \<or>
    bp_worsened (rates_of (List.map_filter id rs)) \<or> 2 \<le> trailing_skips rs" for rs
  define fine where "fine rs \<longleftrightarrow> 3 \<le> length (List.map_filter id rs) \<and> list_all comfortable (List.map_filter id rs) \<and> trailing_skips rs = 0" for rs
  have shift: "warmup_shift rs = (if length (List.map_filter id rs) < 2 then 0 else if bad rs then - 1 else if fine rs then 1 else 0)" for rs
    unfolding warmup_shift_def Let_def bad_def fine_def ..
  have "bad as" if "bad bs" "\<not> length ?p < 2"
  proof -
    have "?q \<noteq> []" using that(2) len by auto
    then show ?thesis using that(1) last_poor worsened worse_poor[OF worse] skips unfolding bad_def by auto
  qed
  moreover have "fine bs" if "fine as" using that good len skips by (simp add: fine_def)
  ultimately show ?thesis by (auto simp: shift len)
qed

subsection \<open>Saving a planned session\<close>

text \<open>\<open>RecommendationOutput\<close>. The dict of a candidate has more columns than the model keeps of it and is an argument.\<close>

record rec_output =
  ro_profile :: profile_context
  ro_menu_date :: string
  ro_seed :: string
  ro_queue :: "pyval list"
  ro_personal :: "pyval list"
  ro_import_id :: int
  ro_baseline_judged :: int
  ro_model_version :: int
  ro_readiness :: string
  ro_generated_at :: int
  ro_target_judged :: int
  ro_reserve_target :: int
  ro_core_expected_judged :: int
  ro_reserve_expected_judged :: int
  ro_weakness_axes :: "string list"
  ro_model_status :: string
  ro_table_frontiers :: "pyval list"
  ro_table_warnings :: "string list"
  ro_warmup_adjustment :: int

definition check_rec_output :: "rec_output \<Rightarrow> rec_output py" where
  "check_rec_output r =
     py_bind (raise_if (blank (ro_menu_date r) \<or> blank (ro_seed r)) (DomainValidationError ''recommendation output date and seed are required'')) (\<lambda>_.
     py_bind (raise_if (list_ex (\<lambda>n. n < 0) [ro_import_id r, ro_baseline_judged r, ro_model_version r, ro_target_judged r, ro_reserve_target r,
         ro_core_expected_judged r, ro_reserve_expected_judged r])
       (DomainValidationError ''recommendation output counters must not be negative'')) (\<lambda>_.
     py_bind (raise_if (ro_warmup_adjustment r \<notin> {- 1, 0, 1}) (DomainValidationError ''warmup_adjustment must be -1, 0, or 1'')) (\<lambda>_.
       Inr r)))"

definition recommendation_output :: "(menu_candidate \<Rightarrow> pyval) \<Rightarrow> session \<Rightarrow> rec_output py" where
  "recommendation_output asdict se =
     check_rec_output
       \<lparr>ro_profile = se_profile se, ro_menu_date = se_menu_date se, ro_seed = se_seed se, ro_queue = map item_document (se_queue se),
        ro_personal = map asdict (se_personal se), ro_import_id = se_import_id se, ro_baseline_judged = se_baseline_judged se,
        ro_model_version = se_model_version se, ro_readiness = se_readiness se, ro_generated_at = se_generated_at se,
        ro_target_judged = se_target_judged se, ro_reserve_target = se_reserve_target se,
        ro_core_expected_judged = se_core_expected_judged se, ro_reserve_expected_judged = se_reserve_expected_judged se,
        ro_weakness_axes = se_weakness_axes se, ro_model_status = se_model_status se,
        ro_table_frontiers = map frontier_document (se_table_frontiers se), ro_table_warnings = se_table_warnings se,
        ro_warmup_adjustment = se_warmup_adjustment se\<rparr>"

definition settings_document :: "profile_settings \<Rightarrow> pyval" where
  "settings_document s =
     PDict [(''timezone'', PStr (ps_timezone s)), (''target_judged'', PInt (ps_target_judged s)), (''reserve_judged'', PInt (ps_reserve_judged s)),
       (''readiness'', PStr (ps_readiness s))]"

definition profile_document :: "profile_context \<Rightarrow> pyval" where
  "profile_document p =
     PDict [(''profile_id'', PStr (pc_profile_id p)), (''display_name'', PStr (pc_display_name p)), (''timezone'', PStr (pc_timezone p)),
       (''seed_namespace'', text_value (pc_seed_namespace p)), (''target_judged'', PInt (pc_target_judged p)),
       (''reserve_judged'', PInt (pc_reserve_judged p)), (''readiness'', PStr (pc_readiness p)),
       (''settings'', case pc_settings p of None \<Rightarrow> PNone | Some s \<Rightarrow> settings_document s)]"

definition generated_at_of :: "int \<Rightarrow> rec_output \<Rightarrow> int" where
  "generated_at_of now r = (if ro_generated_at r \<noteq> 0 then ro_generated_at r else now)"

definition output_payload :: "int \<Rightarrow> rec_output \<Rightarrow> pyval" where
  "output_payload now r =
     PDict [(''profile'', profile_document (ro_profile r)), (''menu_date'', PStr (ro_menu_date r)), (''seed'', PStr (ro_seed r)),
       (''import_id'', PInt (ro_import_id r)), (''baseline_judged'', PInt (ro_baseline_judged r)), (''model_version'', PInt (ro_model_version r)),
       (''readiness'', PStr (ro_readiness r)), (''generated_at'', PInt (generated_at_of now r)), (''target_judged'', PInt (ro_target_judged r)),
       (''reserve_target'', PInt (ro_reserve_target r)), (''core_expected_judged'', PInt (ro_core_expected_judged r)),
       (''reserve_expected_judged'', PInt (ro_reserve_expected_judged r)), (''weakness_axes'', texts (ro_weakness_axes r)),
       (''model_status'', PStr (ro_model_status r)), (''table_frontiers'', PList (ro_table_frontiers r)),
       (''table_warnings'', texts (ro_table_warnings r)), (''warmup_adjustment'', PInt (ro_warmup_adjustment r)),
       (''queue'', PList (ro_queue r)), (''personal'', PList (ro_personal r))]"

definition next_session_id :: "menu_session_row list \<Rightarrow> int" where
  "next_session_id rows = 1 + Max (insert 0 (ws_id ` set rows))"

definition version_key :: "version_row \<Rightarrow> string \<times> int \<times> int \<times> string" where
  "version_key v = (vr_menu_date v, vr_import_id v, vr_model_version v, vr_readiness v)"

text \<open>One transaction; the version refers to a daily import and replaces the one with its key.\<close>

definition save_output :: "json_ports \<Rightarrow> int \<Rightarrow> rec_output \<Rightarrow> job_db \<Rightarrow> unit py \<times> job_db" where
  "save_output js now r db =
     (let payload = js_dumps js (output_payload now r);
          session = \<lparr>ws_id = next_session_id (jb_sessions db), ws_created_at = generated_at_of now r,
            ws_arm = (if ro_model_version r \<noteq> 0 then ''model'' else ''heuristic''), ws_slots = payload\<rparr>;
          version = \<lparr>vr_generated_at = generated_at_of now r, vr_menu_date = ro_menu_date r, vr_import_id = ro_import_id r,
            vr_model_version = ro_model_version r, vr_seed = ro_seed r, vr_readiness = ro_readiness r, vr_manifest = payload\<rparr>
      in if ro_import_id r \<notin> set (map di_id (t_imports (jb_store db))) then (Inl (SqliteError ''FOREIGN KEY constraint failed''), db)
         else (Inr (), db\<lparr>jb_sessions := jb_sessions db @ [session],
           jb_versions := filter (\<lambda>v. version_key v \<noteq> version_key version) (jb_versions db) @ [version]\<rparr>))"

subsection \<open>The saved session is the one the next shift reads\<close>

lemma warmup_charts_of_queue:
  "warmup_charts (PList (map item_document items)) = Some (map mi_sha256 (filter (\<lambda>i. mi_category i = ''01 WARMUP'') items))"
  by (induction items) (auto simp: warmup_charts_def map_filter_simps item_document_def get_item_def text_option_def)

lemma newest_session_newer:
  assumes "\<forall>r\<in>set rows. ws_created_at r \<le> ws_created_at s" and "ws_id s = next_session_id rows"
  shows "newest_session (rows @ [s]) = Some s"
proof -
  have "(- ws_created_at s, - ws_id s) < (- ws_created_at r, - ws_id r)" if "r \<in> set rows" for r
  proof -
    have "ws_id r \<le> Max (insert 0 (ws_id ` set rows))" using that by (intro Max_ge) auto
    then have "ws_id r < ws_id s" by (simp add: assms(2) next_session_id_def)
    then show ?thesis using assms(1) that by (auto simp: less_prod_def')
  qed
  then have "sort_key (\<lambda>r. (- ws_created_at r, - ws_id r)) (rows @ [s]) = s # sort_key (\<lambda>r. (- ws_created_at r, - ws_id r)) rows"
    by (rule sort_key_smallest)
  then show ?thesis by (simp add: newest_session_def)
qed

text \<open>C38: A planned session that was saved steers the next warm-up: as long as the clock does not run back, the shift of the next input is that of the
  results of the saved session's own warm-up charts, in queue order, played from its generation on and inside its menu day.\<close>

theorem next_shift_reads_saved_menu:
  assumes "recommendation_output asdict se = Inr out" and "save_output js now out db = (Inr (), db')"
    and "\<forall>r\<in>set (jb_sessions db). ws_created_at r \<le> generated_at_of now out"
    and "js_loads js (js_dumps js (output_payload now out)) = Some (output_payload now out)"
    and "wp_day wp (se_menu_date se) = Some day" and "wp_four wp (pc_timezone (se_profile se)) day = Some start"
    and "wp_four wp (pc_timezone (se_profile se)) (day + 1) = Some stop"
  shows "warmup_adjustment js wp db' =
    warmup_shift (map (warmup_result_of (jb_store db') (max (generated_at_of now out) start) stop)
      (map mi_sha256 (filter (\<lambda>i. mi_category i = ''01 WARMUP'') (se_queue se))))"
proof -
  have out: "ro_queue out = map item_document (se_queue se)" "ro_menu_date out = se_menu_date se" "ro_profile out = se_profile se"
    using assms(1) by (auto simp: recommendation_output_def check_rec_output_def py_bind_Inr_iff)
  obtain s where s: "jb_sessions db' = jb_sessions db @ [s]" "ws_id s = next_session_id (jb_sessions db)"
      "ws_created_at s = generated_at_of now out" "ws_slots s = js_dumps js (output_payload now out)"
    using assms(2) by (auto simp: save_output_def Let_def split: if_splits)
  have newest: "newest_session (jb_sessions db') = Some s" unfolding s(1) by (rule newest_session_newer) (use assms(3) s in simp_all)
  have payload: "get_item (members (output_payload now out)) ''menu_date'' = PStr (se_menu_date se)"
      "get_item (members (output_payload now out)) ''profile'' = profile_document (se_profile se)"
      "map_of (members (output_payload now out)) ''queue'' = Some (PList (map item_document (se_queue se)))"
    by (simp_all add: output_payload_def members_def get_item_def out)
  have zone: "get_item (members (profile_document p)) ''timezone'' = PStr (pc_timezone p)" for p
    by (simp add: profile_document_def members_def get_item_def)
  have "warmup_play_window wp (output_payload now out) = Some (start, stop)"
    using payload(1,2) zone[of "se_profile se"] assms(5-7)
    by (simp add: warmup_play_window_def output_payload_def members_def profile_document_def)
  then show ?thesis
    by (simp add: warmup_adjustment_def newest s(3,4) assms(4) payload(3) warmup_charts_of_queue)
qed

subsection \<open>Every planned session can be saved\<close>

text \<open>An entry counts at least one note.\<close>

definition counted :: "menu_item list \<Rightarrow> bool" where
  "counted items \<longleftrightarrow> list_all (\<lambda>i. 1 \<le> mi_expected_judged i) items"

lemma counted_set: "counted items \<longleftrightarrow> (\<forall>i\<in>set items. 1 \<le> mi_expected_judged i)"
  by (simp add: counted_def list_all_iff)

lemma counted_total: "counted items \<Longrightarrow> 0 \<le> expected_total items"
  unfolding counted_def expected_total_def by (induction items) auto

lemma to_item_counted: "1 \<le> mi_expected_judged (to_item c category reason attempt optional exploration rating target band)"
  by (simp add: to_item_def expected_def Let_def)

lemma select_counted: "select g now readiness cs sel w = (items, w') \<Longrightarrow> counted items"
  by (auto simp: select_def chart_items_def counted_set to_item_counted split_beta Let_def)

lemma run_selections_counted: "run_selections g now readiness cs sels w = (items, w') \<Longrightarrow> counted items"
proof (induction sels arbitrary: w items)
  case (Cons sel sels)
  then show ?case using select_counted[of g now readiness cs sel w] by (auto simp: counted_def split: prod.splits)
qed (simp add: counted_def)

lemma select_warmup_counted: "select_warmup g fs now readiness adjustment cs w = (items, w') \<Longrightarrow> counted items"
  by (auto simp: select_warmup_def counted_set to_item_counted split_beta Let_def)

lemma order_groups_subset: "set (order_groups repeats focus fillers) \<subseteq> set focus \<union> set fillers \<union> ran repeats"
proof (induction repeats focus fillers rule: order_groups.induct)
  case (1 repeats focus fillers)
  have "set (List.map_filter (\<lambda>i. repeats (mi_sha256 i)) xs) \<subseteq> ran repeats" for xs :: "menu_item list"
    by (auto simp: List.map_filter_def ran_def)
  then show ?case using "1.IH"
    by (subst order_groups.simps) (auto simp: Let_def dest: in_set_takeD in_set_dropD, (blast dest: in_set_dropD)+)
qed

lemma order_menu_subset: "i \<in> set (order_menu core) \<Longrightarrow> \<exists>c. i \<in> set (core c)"
proof -
  assume i: "i \<in> set (order_menu core)"
  let ?focus = "core ''02 FOCUS-A'' @ core ''04 FOCUS-B''"
  have "ran (map_of (rev (map (\<lambda>i. (mi_sha256 i, i)) (filter (\<lambda>i. mi_attempt i \<noteq> 1) ?focus)))) \<subseteq> set ?focus"
    by (auto simp: ran_def dest!: map_of_SomeD)
  then show ?thesis using i order_groups_subset unfolding order_menu_def Let_def set_append by fastforce
qed

lemma plan_counted: "counted (pn_core (plan_menu g now settings adjustment ld s))" "counted (pn_supplement (plan_menu g now settings adjustment ld s))"
  "counted (pn_reserve (plan_menu g now settings adjustment ld s))"
proof -
  let ?r = "ps_readiness settings" and ?cs = "ld_candidates ld"
  obtain warmup w0 where w: "select_warmup g (ld_frontiers ld) now ?r adjustment ?cs ({}, s) = (warmup, w0)" by (metis prod.collapse)
  obtain items w1 where c: "run_selections g now ?r ?cs (core_selections ?r now (ld_axes ld)) w0 = (items, w1)" by (metis prod.collapse)
  define core where "core = order_menu (of_category (warmup @ items))"
  define missing where "missing = ps_target_judged settings - expected_total core"
  obtain supp w2 where sup: "(if 0 < missing then select g now ?r ?cs (supplement_selection ?r missing) w1 else ([], w1)) = (supp, w2)"
    by (metis prod.collapse)
  obtain res w3 where res: "select g now ?r ?cs (reserve_selection ?r (ps_reserve_judged settings)) w2 = (res, w3)" by (metis prod.collapse)
  have plan: "plan_menu g now settings adjustment ld s = \<lparr>pn_core = core, pn_supplement = supp, pn_reserve = res\<rparr>"
    unfolding plan_menu_def Let_def w c prod.case core_def[symmetric] missing_def[symmetric] sup res by simp
  have "counted (warmup @ items)" using select_warmup_counted[OF w] run_selections_counted[OF c] by (simp add: counted_def)
  then have "counted core" unfolding core_def counted_set using order_menu_subset[of _ "of_category (warmup @ items)"] by fastforce
  moreover have "counted supp" using sup select_counted[of g now ?r ?cs _ w1 supp w2] by (auto simp: counted_def split: if_splits)
  moreover have "counted res" by (rule select_counted[OF res])
  ultimately show "counted (pn_core (plan_menu g now settings adjustment ld s))" "counted (pn_supplement (plan_menu g now settings adjustment ld s))"
    "counted (pn_reserve (plan_menu g now settings adjustment ld s))" by (simp_all add: plan)
qed

lemma effective_settings_ok:
  "effective_settings cal p q = Inr s \<Longrightarrow> 0 \<le> ps_target_judged s \<and> 0 \<le> ps_reserve_judged s"
  by (auto simp: effective_settings_def check_profile_settings_def py_bind_Inr_iff raise_if_Inr)

lemma loaded_version:
  "load_candidates rt rs model cls = Inr ld \<Longrightarrow> ld_model_version ld = (case compatible_model model of Some m \<Rightarrow> ms_version m | None \<Rightarrow> 0)"
  by (auto simp: load_candidates_def split: if_splits)

lemma session_fields:
  assumes "build_session_from_input rt cal g input q now = Inr se"
  shows "se_import_id se = ri_import_id input" and "se_baseline_judged se = ri_baseline_judged input"
    and "se_warmup_adjustment se = ri_warmup_adjustment input" and "\<exists>text. se_seed se = take 16 (sha256_hex rt text)"
    and "cal_valid cal (se_menu_date se)" and "0 \<le> se_target_judged se" and "0 \<le> se_reserve_target se"
    and "0 \<le> se_core_expected_judged se" and "0 \<le> se_reserve_expected_judged se"
    and "se_model_version se = (case compatible_model (ri_model input) of Some m \<Rightarrow> ms_version m | None \<Rightarrow> 0)"
proof -
  obtain settings ld basis s where steps: "effective_settings cal (ri_profile input) q = Inr settings"
      "load_candidates rt (ri_candidates input) (ri_model input) (ri_classifications input) = Inr ld"
      and fields: "se_import_id se = ri_import_id input" "se_baseline_judged se = ri_baseline_judged input"
      "se_warmup_adjustment se = ri_warmup_adjustment input" "se_seed se = take 16 (sha256_hex rt basis)" "cal_valid cal (se_menu_date se)"
      "se_target_judged se = ps_target_judged settings" "se_reserve_target se = ps_reserve_judged settings" "se_model_version se = ld_model_version ld"
      "se_core_expected_judged se = expected_total (pn_core (plan_menu g now settings (ri_warmup_adjustment input) ld s)) +
         expected_total (pn_supplement (plan_menu g now settings (ri_warmup_adjustment input) ld s))"
      "se_reserve_expected_judged se = expected_total (pn_reserve (plan_menu g now settings (ri_warmup_adjustment input) ld s))"
    using assms unfolding build_session_from_input_def py_bind_Inr_iff raise_if_Inr Let_def by auto
  note positive = plan_counted[THEN counted_total]
  show "0 \<le> se_core_expected_judged se" unfolding fields by (rule add_nonneg_nonneg[OF positive(1,2)])
  show "0 \<le> se_reserve_expected_judged se" unfolding fields by (rule positive(3))
  show "0 \<le> se_target_judged se" "0 \<le> se_reserve_target se" using effective_settings_ok[OF steps(1)] fields by simp_all
  show "\<exists>text. se_seed se = take 16 (sha256_hex rt text)" using fields(4) by blast
  show "se_model_version se = (case compatible_model (ri_model input) of Some m \<Rightarrow> ms_version m | None \<Rightarrow> 0)"
    unfolding fields by (rule loaded_version[OF steps(2)])
  show "se_import_id se = ri_import_id input" "se_baseline_judged se = ri_baseline_judged input"
    "se_warmup_adjustment se = ri_warmup_adjustment input" "cal_valid cal (se_menu_date se)" by (rule fields)+
qed

lemma latest_model_checked:
  assumes "latest_model rt js db = Inr (Some m)"
  shows "0 \<le> ms_version m"
proof -
  obtain r where "newest_model (jb_models db) = Some r" using assms by (cases "newest_model (jb_models db)") (auto simp: latest_model_def snapshot_from_row_def)
  then have "check_model_snapshot m = Inr m" using assms by (auto simp: latest_model_def dest: snapshot_from_row_checked)
  then show ?thesis by (simp add: check_model_snapshot_def Let_def py_bind_Inr_iff raise_if_Inr)
qed

lemma latest_import_row: "latest_import rows = Some r \<Longrightarrow> r \<in> set rows"
proof -
  assume "latest_import rows = Some r"
  then obtain rest where "sort_key (\<lambda>r. - di_id r) rows = r # rest" by (auto simp: latest_import_def split: list.splits)
  then have "r \<in> set (sort_key (\<lambda>r. - di_id r) rows)" by simp
  then show ?thesis by simp
qed

lemma planned_output:
  assumes "build_session_from_repository rt js wp cal g db profile q now = Inr se"
    and "\<And>d. cal_valid cal d \<Longrightarrow> \<not> blank d" and "\<And>text. \<not> blank (take 16 (sha256_hex rt text))"
  obtains out where "recommendation_output asdict se = Inr out" and "ro_import_id out \<in> set (map di_id (t_imports (jb_store db)))"
proof -
  obtain input where input: "load_input rt js wp db profile = Inr input" "build_session_from_input rt cal g input q now = Inr se"
    using assms(1) by (auto simp: build_session_from_repository_def py_bind_Inr_iff)
  note fields = session_fields[OF input(2)]
  have "0 < ri_import_id input" using input(2) by (auto simp: build_session_from_input_def py_bind_Inr_iff raise_if_Inr Let_def)
  then obtain row where row: "latest_import (t_imports (jb_store db)) = Some row" "ri_import_id input = di_id row"
      and checked: "0 \<le> ri_baseline_judged input" "ri_warmup_adjustment input \<in> {- 1, 0, 1}" and model: "latest_model rt js db = Inr (ri_model input)"
    using input(1)
    by (auto simp: load_input_def Let_def check_recommendation_input_def py_bind_Inr_iff raise_if_Inr split: option.splits)
  have version: "0 \<le> se_model_version se"
    unfolding fields(10) using latest_model_checked model by (auto simp: compatible_model_def split: option.splits if_splits)
  have "\<not> blank (se_seed se)" using fields(4) assms(3) by auto
  then obtain out where out: "recommendation_output asdict se = Inr out" "ro_import_id out = di_id row"
    using fields(1-3,5-9) version checked \<open>0 < ri_import_id input\<close> assms(2) row(2)
    by (auto simp: recommendation_output_def check_rec_output_def)
  moreover have "di_id row \<in> set (map di_id (t_imports (jb_store db)))" using latest_import_row[OF row(1)] by auto
  ultimately show thesis using that by simp
qed

text \<open>C39: Every session that is planned from the database is a valid output and can be saved: with a date that is not blank and digests that are not, neither the
  checks of the output nor the reference to the daily import refuse it.\<close>

theorem planned_session_can_be_saved:
  assumes "build_session_from_repository rt js wp cal g db profile q now = Inr se"
    and "\<And>d. cal_valid cal d \<Longrightarrow> \<not> blank d" and "\<And>text. \<not> blank (take 16 (sha256_hex rt text))"
  shows "\<exists>out db'. recommendation_output asdict se = Inr out \<and> save_output js saved_at out db = (Inr (), db')"
proof -
  obtain out where "recommendation_output asdict se = Inr out" "ro_import_id out \<in> set (map di_id (t_imports (jb_store db)))"
    by (rule planned_output[OF assms])
  then show ?thesis by (simp add: save_output_def Let_def)
qed

subsection \<open>Examples\<close>

text \<open>Two charts of one table, the first of which waits as a transfer target; and the mirror of the planner's calendar.\<close>

definition sample_transfer :: target_row where
  "sample_transfer = \<lparr>et_id = 1, et_session_id = 1, et_kind = Transfer, et_interval_days = 7, et_chart = (''aa'', 0), et_due_at = 0,
     et_window_closes_at = 100, et_p_pred = 1 / 2, et_status = Pending, et_outcome = None, et_resolved_play_id = None, et_resolved_at = None,
     et_resolution_note = None\<rparr>"

definition sample_import_row :: daily_import_row where
  "sample_import_row = \<lparr>di_id = 1, di_imported_at = 0, di_effective_date = 0, di_score_sha256 = ''s'', di_scoredatalog_sha256 = ''t'',
     di_baseline_judged = 0, di_cumulative_playcount = 0, di_new_play_rows = 0, di_lost_events = 0\<rparr>"

definition sample_planned_chart :: "string \<Rightarrow> string \<times> chart_row" where
  "sample_planned_chart h = (h, \<lparr>cr_md5 = PNone, cr_title = PStr ''song'', cr_artist = PNone, cr_notes = PInt 1200, cr_song_mode = PInt 7,
     cr_path = None, cr_updated_at = 0\<rparr>)"

definition sample_listing :: "string \<Rightarrow> table_entry_row" where
  "sample_listing h = \<lparr>tr_table_id = ''stella'', tr_level = ''1'', tr_sha256 = h, tr_md5 = PNone, tr_title = PNone, tr_fetched_at = 0\<rparr>"

definition sample_library_db :: job_db where
  "sample_library_db = \<lparr>jb_store = empty_db\<lparr>t_charts := map sample_planned_chart [''aa'', ''bb''], t_imports := [sample_import_row]\<rparr>,
     jb_catalog = \<lparr>ca_charts = [], ca_class_sources = [], ca_classifications = [], ca_table_entries = map sample_listing [''aa'', ''bb''],
       ca_table_sources = []\<rparr>, jb_features = [], jb_models = [], jb_targets = [sample_transfer], jb_sessions = [], jb_versions = []\<rparr>"

definition sample_window :: window_ports where
  "sample_window = \<lparr>wp_day = (\<lambda>s. Some 0), wp_four = (\<lambda>zone day. Some (day * 86400))\<rparr>"

definition sample_profile :: profile_context where
  "sample_profile = default_profile_context\<lparr>pc_settings := Some default_profile_settings\<rparr>"

definition sample_menu_calendar :: calendar where
  "sample_menu_calendar = sample_calendar\<lparr>cal_valid := (\<lambda>d. d = ''2026-01-02'')\<rparr>"

lemma sample_planned_session:
  assumes "load_input rt js wp db sample_profile = Inr input" and "0 < ri_import_id input" and "ri_candidates input \<noteq> []"
    and "rq_menu_date q = None" and "effective_settings sample_menu_calendar sample_profile q = Inr settings" and "\<not> blank (ps_timezone settings)"
  shows "\<exists>se. build_session_from_repository rt js wp sample_menu_calendar g db sample_profile q now = Inr se"
proof -
  have profile: "ri_profile input = sample_profile"
    using assms(1) by (auto simp: load_input_def Let_def check_recommendation_input_def py_bind_Inr_iff split: option.splits)
  obtain p where "effective_profile sample_menu_calendar sample_profile settings = Inr p"
    using assms(6)
    by (simp add: effective_profile_def sample_profile_def check_profile_context_def default_profile_context_def not_blank_defaults)
  then show ?thesis using assms
    by (simp add: build_session_from_repository_def build_session_from_input_def load_candidates_def Let_def profile)
      (simp add: sample_menu_calendar_def sample_calendar_def)
qed

lemma sample_settings_ok:
  assumes "rq_target_judged q = None" and "rq_reserve_judged q \<in> {None, Some 0}" and "rq_readiness q \<in> {None, Some ''normal''}"
  shows "\<exists>settings. effective_settings sample_menu_calendar sample_profile q = Inr settings \<and> \<not> blank (ps_timezone settings)"
  using assms
  by (auto simp: effective_settings_def sample_profile_def sample_menu_calendar_def sample_calendar_def check_profile_settings_def
      default_profile_settings_def not_blank_defaults)

lemma sample_pending: "pending_transfers sample_library_db = [''aa'']"
  by (simp add: pending_transfers_def sample_library_db_def sample_transfer_def)

lemma sample_library_session:
  "\<exists>se. build_session_from_repository rt sample_json sample_window sample_menu_calendar g sample_library_db sample_profile sample_request 5000 = Inr se"
proof -
  have none: "latest_model rt sample_json sample_library_db = Inr None"
    by (simp add: latest_model_def newest_model_def snapshot_from_row_def sample_library_db_def)
  have adjust: "warmup_adjustment sample_json sample_window sample_library_db = 0"
    by (simp add: warmup_adjustment_def newest_session_def sample_library_db_def)
  have import1: "latest_import (t_imports (jb_store sample_library_db)) = Some sample_import_row"
    by (simp add: latest_import_def sample_library_db_def)
  obtain input where input: "load_input rt sample_json sample_window sample_library_db sample_profile = Inr input" "ri_import_id input = 1"
      "ri_candidates input = candidate_rows rt sample_library_db"
    by (simp add: load_input_def Let_def none adjust import1 check_recommendation_input_def) (simp add: sample_import_row_def)
  have "filter (planned_chart sample_library_db) (t_charts (jb_store sample_library_db)) = [sample_planned_chart ''bb'']"
    using sample_pending by (simp add: planned_chart_def sample_planned_chart_def sample_library_db_def int_value_def)
  then have "length (candidate_rows rt sample_library_db) = 1"
    by (simp add: candidate_rows_def sample_planned_chart_def) (simp add: sample_library_db_def sample_listing_def)
  then have "ri_candidates input \<noteq> []" using input(3) by auto
  moreover obtain settings where "effective_settings sample_menu_calendar sample_profile sample_request = Inr settings" "\<not> blank (ps_timezone settings)"
    using sample_settings_ok[of sample_request] by (auto simp: sample_request_def)
  ultimately show ?thesis using sample_planned_session[OF input(1), of sample_request settings g 5000] input(2) by (simp add: sample_request_def)
qed

theorem waiting_transfer_is_not_planned_witness:
  "\<exists>se. build_session_from_repository sample_runtime sample_json sample_window sample_menu_calendar sample_rng sample_library_db sample_profile
       sample_request 5000 = Inr se \<and> ''aa'' \<notin> mi_sha256 ` set (se_queue se)"
proof -
  obtain se where run: "build_session_from_repository sample_runtime sample_json sample_window sample_menu_calendar sample_rng sample_library_db
      sample_profile sample_request 5000 = Inr se"
    using sample_library_session by blast
  from waiting_transfer_is_not_planned[OF sample_rng_ok run, of "''aa''"] run sample_pending show ?thesis by simp
qed

theorem planned_session_can_be_saved_witness:
  "\<exists>(se :: session) out db'. recommendation_output (\<lambda>_. PNone) se = Inr out \<and> save_output sample_json 7 out sample_library_db = (Inr (), db')"
proof -
  obtain se where run: "build_session_from_repository sample_digest sample_json sample_window sample_menu_calendar sample_rng sample_library_db
      sample_profile sample_request 5000 = Inr se"
    using sample_library_session by blast
  have "cal_valid sample_menu_calendar d \<Longrightarrow> \<not> blank d" for d
    by (simp add: sample_menu_calendar_def blank_def py_strip_def is_space_def)
  moreover have "\<not> blank (take 16 (sha256_hex sample_digest t))" for t
    by (simp add: sample_digest_def blank_def py_strip_def is_space_def)
  ultimately show ?thesis using planned_session_can_be_saved[OF run] by blast
qed

theorem worse_results_shift_down_witness:
  "warmup_shift [Some (3, False, Some (1 / 5)), None, Some (5, True, Some (1 / 50))]
     \<le> warmup_shift [Some (5, True, Some (1 / 5)), None, Some (5, True, Some (1 / 100))]"
proof -
  have "list_all2 no_better [Some (3, False, Some (1 / 5)), None, Some (5, True, Some (1 / 50))]
      [Some (5, True, Some (1 / 5)), None, Some (5, True, Some (1 / 100))]" by simp
  from worse_results_shift_down[OF this] show ?thesis by (simp add: rates_of_def map_filter_simps)
qed

definition sample_warmup_session :: session where
  "sample_warmup_session = sample_published\<lparr>se_queue := [sample_item ''aa'' ''01 WARMUP'' 1]\<rparr>"

definition sample_output :: rec_output where
  "sample_output =
     \<lparr>ro_profile = default_profile_context, ro_menu_date = ''2024-05-01'', ro_seed = ''seed'',
      ro_queue = [item_document (sample_item ''aa'' ''01 WARMUP'' 1)], ro_personal = [], ro_import_id = 1, ro_baseline_judged = 0,
      ro_model_version = 0, ro_readiness = ''normal'', ro_generated_at = 1, ro_target_judged = 0, ro_reserve_target = 0,
      ro_core_expected_judged = 0, ro_reserve_expected_judged = 0, ro_weakness_axes = [], ro_model_status = ''none'', ro_table_frontiers = [],
      ro_table_warnings = [], ro_warmup_adjustment = 0\<rparr>"

theorem next_shift_reads_saved_menu_witness:
  "\<exists>db'. save_output (sample_json\<lparr>js_loads := (\<lambda>_. Some (output_payload 7 sample_output))\<rparr>) 7 sample_output sample_library_db = (Inr (), db') \<and>
     warmup_adjustment (sample_json\<lparr>js_loads := (\<lambda>_. Some (output_payload 7 sample_output))\<rparr>) sample_window db' =
       warmup_shift [warmup_result_of (jb_store db') 1 86400 ''aa'']"
proof -
  let ?js = "sample_json\<lparr>js_loads := (\<lambda>_. Some (output_payload 7 sample_output))\<rparr>"
  have "\<not> blank ''2024-05-01''" "\<not> blank ''seed''" by (simp_all add: blank_def py_strip_def is_space_def)
  then have out: "recommendation_output (\<lambda>_. PNone) sample_warmup_session = Inr sample_output"
    by (simp add: recommendation_output_def check_rec_output_def sample_warmup_session_def sample_published_def sample_output_def)
  obtain db' where save: "save_output ?js 7 sample_output sample_library_db = (Inr (), db')"
    by (simp add: save_output_def Let_def sample_library_db_def sample_import_row_def sample_output_def)
  have at: "generated_at_of 7 sample_output = 1" by (simp add: generated_at_of_def sample_output_def)
  have "mi_category (sample_item ''aa'' ''01 WARMUP'' k) = ''01 WARMUP''" "mi_sha256 (sample_item ''aa'' ''01 WARMUP'' k) = ''aa''" for k
    by (simp_all add: sample_item_def to_item_def sample_menu_candidate_def)
  then have "map mi_sha256 (filter (\<lambda>i. mi_category i = ''01 WARMUP'') (se_queue sample_warmup_session)) = [''aa'']"
    by (simp add: sample_warmup_session_def)
  moreover have old: "\<forall>r\<in>set (jb_sessions sample_library_db). ws_created_at r \<le> generated_at_of 7 sample_output" by (simp add: sample_library_db_def)
  ultimately show ?thesis using next_shift_reads_saved_menu[OF out save old, of sample_window 0 0 86400] save
    by (simp add: sample_window_def at)
qed

end
