(* ===== verification/Pipeline.thy ===== *)
theory Pipeline
  imports Container_Job Recommendation_Adapter Actions Backfill Snapshot
begin

text \<open>
  The work of a container job between its bundle and its artifacts (\<open>container/adapter.py\<close>): the preflight of the five databases, the
  backfill, the import, the play event, the features, the model, the catalog and the menu, one after the other on the assistant database of the
  job, and the payloads read back from it. Every place that asks the file system, the clock or the deadline has a number, and the environment
  gives its answer. What SQLite finds in a file is a function of its bytes. A commit of the code is a step of the action that leaves the database,
  so a later failure keeps it.
\<close>

subsection \<open>Environment\<close>

record 's job_env =
  je_runtime :: runtime
  je_open :: "string \<Rightarrow> source_db py"
  je_integrity :: "string \<Rightarrow> string py"
  je_resolve :: "string \<Rightarrow> string"
  je_source :: string
  je_assistant :: string
  je_stat :: "nat \<Rightarrow> string \<Rightarrow> stat py"
  je_clock :: "nat \<Rightarrow> int"
  je_elapsed :: "nat \<Rightarrow> real"
  je_dice :: "nat \<Rightarrow> nat"
  je_json :: json_ports
  je_window :: window_ports
  je_calendar :: calendar
  je_rng :: "'s rng"
  je_asdict :: "menu_candidate \<Rightarrow> pyval"

text \<open>The answers the next checks of the token get, and the assistant database.\<close>

type_synonym job_world = "cancels \<times> job_db"

definition job_token :: "(job_world, unit) action" where
  "job_token = (\<lambda>(cs, db). case check_token cs of (r, cs') \<Rightarrow> (r, cs', db))"

definition check_deadline :: "job_limits \<Rightarrow> real \<Rightarrow> (job_world, unit) action" where
  "check_deadline limits elapsed =
     act_bind job_token (\<lambda>_. act_of (raise_if (jl_max_runtime_seconds limits < elapsed) limit_exceeded))"

definition on_store :: "(assistant_db \<Rightarrow> ('a \<times> assistant_db) py) \<Rightarrow> (job_world, 'a) action" where
  "on_store f = (\<lambda>(cs, db). case f (jb_store db) of Inl e \<Rightarrow> (Inl e, cs, db) | Inr (x, st) \<Rightarrow> (Inr x, cs, db\<lparr>jb_store := st\<rparr>))"

definition on_job_db :: "(job_db \<Rightarrow> 'a py \<times> job_db) \<Rightarrow> (job_world, 'a) action" where
  "on_job_db f = (\<lambda>(cs, db). case f db of (r, db') \<Rightarrow> (r, cs, db'))"

definition on_catalog :: "(catalog_db \<Rightarrow> 'a py \<times> catalog_db) \<Rightarrow> (job_world, 'a) action" where
  "on_catalog f = on_job_db (\<lambda>db. case f (catalog_of db) of (r, c) \<Rightarrow> (r, db\<lparr>jb_catalog := c\<rparr>))"

subsection \<open>The databases of the bundle\<close>

definition open_snapshot :: "directory \<Rightarrow> string \<Rightarrow> string py" where
  "open_snapshot d name =
     (case map_of d name of Some (File content) \<Rightarrow> Inr content | _ \<Rightarrow> Inl (SqliteError ''unable to open database file''))"

definition open_database :: "'s job_env \<Rightarrow> directory \<Rightarrow> string \<Rightarrow> source_db py" where
  "open_database ev d name = py_bind (open_snapshot d name) (je_open ev)"

fun os_error :: "py_exn \<Rightarrow> py_exn" where
  "os_error (OSError m) = integrity_error"
| "os_error FileNotFoundError = integrity_error"
| "os_error e = e"

fun as_integrity :: "py_exn \<Rightarrow> py_exn" where
  "as_integrity (SqliteError m) = integrity_error"
| "as_integrity (ReaderSchemaError m) = integrity_error"
| "as_integrity e = os_error e"

definition source_signatures :: "'s job_env \<Rightarrow> nat \<Rightarrow> source_sig list py" where
  "source_signatures ev n =
     map_sum os_error id (py_mapM (\<lambda>name. source_signature (je_stat ev n) (in_dir (je_source ev) name)) database_names)"

text \<open>What the preflight reads of each database.\<close>

definition preflight_readers :: "(string \<times> (source_db \<Rightarrow> row list py) list) list" where
  "preflight_readers =
     [(''score.db'', [read_score, read_player]), (''scoredatalog.db'', [read_scoredatalog]), (''scorelog.db'', [read_scorelog]),
      (''songdata.db'', [\<lambda>db. read_songs db None]), (''songinfo.db'', [\<lambda>db. read_songinfo db None])]"

definition preflight_database ::
    "'s job_env \<Rightarrow> directory \<Rightarrow> string \<times> (source_db \<Rightarrow> row list py) list \<Rightarrow> (job_world, unit) action" where
  "preflight_database ev d p =
     act_bind (act_of (open_snapshot d (fst p))) (\<lambda>content.
     act_bind job_token (\<lambda>_.
     act_bind (act_of (je_integrity ev content)) (\<lambda>answer.
     act_bind (act_of (raise_if (answer \<noteq> ''ok'') integrity_error)) (\<lambda>_.
     act_bind (act_of (je_open ev content)) (\<lambda>db.
       act_of (py_bind (py_mapM (\<lambda>reader. reader db) (snd p)) (\<lambda>_. Inr ())))))))"

definition preflight_sources :: "'s job_env \<Rightarrow> directory \<Rightarrow> (job_world, unit) action" where
  "preflight_sources ev d =
     act_bind (act_of (source_signatures ev 0)) (\<lambda>before.
     act_bind (act_catch (act_for (\<lambda>_. preflight_database ev d) () preflight_readers) (\<lambda>e. act_of (Inl (as_integrity e)))) (\<lambda>_.
     act_bind (act_of (source_signatures ev 1)) (\<lambda>after.
       act_of (raise_if (after \<noteq> before) integrity_error))))"

subsection \<open>Collecting\<close>

definition job_backfill :: "'s job_env \<Rightarrow> directory \<Rightarrow> backfill_env" where
  "job_backfill ev d =
     \<lparr>bf_before = je_stat ev 3, bf_after = je_stat ev 4, bf_songdata = open_database ev d ''songdata.db'',
      bf_scoredatalog = open_database ev d ''scoredatalog.db'', bf_score = open_database ev d ''score.db'', bf_now = je_clock ev 0\<rparr>"

definition file_bytes :: "'s job_env \<Rightarrow> directory \<Rightarrow> string \<Rightarrow> string py" where
  "file_bytes ev d path =
     (case List.find (\<lambda>(name, e). in_dir (je_source ev) name = path) d of Some (name, File content) \<Rightarrow> Inr content | _ \<Rightarrow> Inl FileNotFoundError)"

definition job_snapshot :: "'s job_env \<Rightarrow> directory \<Rightarrow> snapshot_env" where
  "job_snapshot ev d =
     \<lparr>sn_exists = (\<lambda>path. list_ex (\<lambda>(name, e). in_dir (je_source ev) name = path) d), sn_before = je_stat ev 5, sn_after = je_stat ev 6,
      sn_bytes = file_bytes ev d, sn_score = open_database ev d ''score.db'', sn_log = open_database ev d ''scoredatalog.db'',
      sn_now = je_clock ev 1\<rparr>"

definition event_generation :: int where "event_generation = - 3"

definition event_row :: "pyval option \<Rightarrow> row py" where
  "event_row event =
     (case event of
        Some (PDict e) \<Rightarrow> (case get_item e ''row'' of PDict r \<Rightarrow> Inr r | _ \<Rightarrow> Inl contract_error)
      | _ \<Rightarrow> Inl contract_error)"

definition store_event :: "'s job_env \<Rightarrow> pyval option \<Rightarrow> assistant_db \<Rightarrow> (bool \<times> assistant_db) py" where
  "store_event ev event st =
     py_bind (event_row event) (\<lambda>r.
     py_bind (derive_play (je_runtime ev) r ''official_ir'' event_generation None 0 (je_clock ev 2)) (\<lambda>p.
       Inr (insert_play False p st)))"

definition collect_sources :: "'s job_env \<Rightarrow> directory \<Rightarrow> string \<Rightarrow> pyval option \<Rightarrow> (job_world, unit) action" where
  "collect_sources ev d entrypoint event =
     act_bind (act_of (raise_if (entrypoint \<notin> {''five_db_backfill'', ''monthly_audit'', ''single_play_incremental''})
       (ContainerError ''unsupported_job_type'' False 422))) (\<lambda>_.
     act_bind (on_store (backfill_run (je_runtime ev) (je_resolve ev) (job_backfill ev d) (je_source ev) (je_assistant ev))) (\<lambda>_.
     act_bind job_token (\<lambda>_.
     act_bind (on_store (snapshot_run (je_runtime ev) (job_snapshot ev d) (in_dir (je_source ev) ''score.db'')
       (in_dir (je_source ev) ''scoredatalog.db'') (je_assistant ev))) (\<lambda>_.
       if entrypoint = ''single_play_incremental'' then act_bind (on_store (store_event ev event)) (\<lambda>_. act_of (Inr ()))
       else act_of (Inr ())))))"

subsection \<open>Features, model and menu\<close>

definition feature_version :: int where "feature_version = 1"

definition songinfo_columns :: "string list" where
  "songinfo_columns = [''sha256'', ''distribution'', ''speedchange'', ''lanenotes'']"

text \<open>The query of the features fails when a column is missing.\<close>

definition information_rows :: "source_db \<Rightarrow> row list py" where
  "information_rows db =
     (if list_all (\<lambda>c. c \<in> set (tb_columns (table_of db ''information''))) songinfo_columns then Inr (tb_rows (table_of db ''information''))
      else Inl (SqliteError ''no such column''))"

text \<open>Where the menu comes from when the job has no table context: an input, or a repository with its answers.\<close>

record planner_port =
  rr_load :: "profile_context \<Rightarrow> recommendation_input py"
  rr_save :: "rec_output \<Rightarrow> unit py"

datatype menu_source = Given_Input recommendation_input | Repository planner_port | No_Menu

record job_plan =
  jp_entrypoint :: string
  jp_event :: "pyval option"
  jp_context :: "row option"
  jp_menu_source :: menu_source
  jp_menu_date :: "string option"
  jp_readiness :: string

definition request_of :: "job_plan \<Rightarrow> request" where
  "request_of j = \<lparr>rq_menu_date = jp_menu_date j, rq_readiness = Some (jp_readiness j), rq_target_judged = None, rq_reserve_judged = None\<rparr>"

definition plan_given :: "'s job_env \<Rightarrow> job_plan \<Rightarrow> recommendation_input py \<Rightarrow> session py" where
  "plan_given ev j input =
     py_bind input (\<lambda>i. build_session_from_input (je_runtime ev) (je_calendar ev) (je_rng ev) i (request_of j) (je_clock ev 6))"

definition plan_from_tables :: "'s job_env \<Rightarrow> job_plan \<Rightarrow> profile_context \<Rightarrow> job_db \<Rightarrow> session py" where
  "plan_from_tables ev j profile db =
     build_session_from_repository (je_runtime ev) (je_json ev) (je_window ev) (je_calendar ev) (je_rng ev) db profile (request_of j) (je_clock ev 6)"

text \<open>A given input comes first, then the repository of a table context, then the one of the caller.\<close>

definition plan_job :: "'s job_env \<Rightarrow> job_plan \<Rightarrow> profile_context \<Rightarrow> (job_world, session) action" where
  "plan_job ev j profile =
     (let output = recommendation_output (je_asdict ev) in
      case jp_menu_source j of
        Given_Input input \<Rightarrow>
          act_bind (act_of (plan_given ev j (Inr input))) (\<lambda>se. act_bind (act_of (output se)) (\<lambda>_. act_of (Inr se)))
      | source \<Rightarrow>
          if jp_context j \<noteq> None then
            act_bind (on_job_db (\<lambda>db. (plan_from_tables ev j profile db, db))) (\<lambda>se.
            act_bind (act_of (output se)) (\<lambda>out.
            act_bind (on_job_db (save_output (je_json ev) (je_clock ev 7) out)) (\<lambda>_. act_of (Inr se))))
          else
            (case source of
               Repository port \<Rightarrow>
                 act_bind (act_of (plan_given ev j (rr_load port profile))) (\<lambda>se.
                 act_bind (act_of (output se)) (\<lambda>out.
                 act_bind (act_of (rr_save port out)) (\<lambda>_. act_of (Inr se))))
             | _ \<Rightarrow> act_of (Inl tables_unavailable)))"

definition seed_context :: "'s job_env \<Rightarrow> row option \<Rightarrow> (job_world, unit) action" where
  "seed_context ev ctx =
     (case ctx of
        None \<Rightarrow> act_of (Inr ())
      | Some c \<Rightarrow>
          act_bind (on_catalog (seed_table_catalog (je_runtime ev) c (je_clock ev 4))) (\<lambda>_.
            on_catalog (seed_classification_catalog (je_runtime ev) c (je_clock ev 5))))"

fun core_error :: "py_exn \<Rightarrow> py_exn" where
  "core_error (MenuBuildError m) = tables_unavailable"
| "core_error e = as_integrity e"

text \<open>Everything before the menu; a table context is stored last.\<close>

definition prepare_job :: "'s job_env \<Rightarrow> job_limits \<Rightarrow> job_plan \<Rightarrow> directory \<Rightarrow> (job_world, fit_result) action" where
  "prepare_job ev limits j d =
     act_bind (collect_sources ev d (jp_entrypoint j) (jp_event j)) (\<lambda>_.
     act_bind (check_deadline limits (je_elapsed ev 2)) (\<lambda>_.
     act_bind (act_of (open_database ev d ''songinfo.db'')) (\<lambda>songinfo.
     act_bind (act_of (information_rows songinfo)) (\<lambda>rows.
     act_bind (on_job_db (build_all (je_runtime ev) feature_version rows)) (\<lambda>_.
     act_bind job_token (\<lambda>_.
     act_bind (on_job_db (fit_latest (je_runtime ev) (je_json ev) (je_dice ev) (je_clock ev 3))) (\<lambda>fit.
     act_bind (seed_context ev (jp_context j)) (\<lambda>_. act_of (Inr fit)))))))))"

definition core_steps ::
    "'s job_env \<Rightarrow> job_limits \<Rightarrow> job_plan \<Rightarrow> profile_context \<Rightarrow> directory \<Rightarrow> (job_world, fit_result \<times> session) action" where
  "core_steps ev limits j profile d =
     act_bind (prepare_job ev limits j d) (\<lambda>fit. act_bind (plan_job ev j profile) (\<lambda>se. act_of (Inr (fit, se))))"

definition run_core ::
    "'s job_env \<Rightarrow> job_limits \<Rightarrow> job_plan \<Rightarrow> profile_context \<Rightarrow> directory \<Rightarrow> (job_world, fit_result \<times> session) action" where
  "run_core ev limits j profile d = act_catch (core_steps ev limits j profile d) (\<lambda>e. act_of (Inl (core_error e)))"

subsection \<open>Payloads\<close>

definition read_counters :: "assistant_db \<Rightarrow> row" where
  "read_counters st =
     [(''accepted_events'', PInt (int (length (t_plays st)))), (''rejected_events'', PInt 0),
      (''course_events'', PInt (sum_list (map (\<lambda>(i, p). r_is_course p) (t_plays st))))]"

definition nullable :: "('a \<Rightarrow> pyval) \<Rightarrow> 'a option \<Rightarrow> pyval" where
  "nullable f x = (case x of None \<Rightarrow> PNone | Some v \<Rightarrow> f v)"

definition play_document :: "play_record \<Rightarrow> pyval" where
  "play_document r =
     (let p = r_play r in
      PDict [(''sha256'', PStr (pl_sha256 p)), (''mode'', PInt (pl_mode p)), (''played_at'', PInt (pl_played_at p)),
        (''playcount'', PInt (pl_playcount p)), (''source_generation'', PInt (pl_source_generation p)), (''source'', PStr (pl_source p)),
        (''clear'', PInt (pl_clear p)), (''ex'', nullable PInt (pl_ex p)), (''minbp'', nullable PInt (pl_minbp p)),
        (''notes'', nullable PInt (pl_notes p)), (''judged'', nullable PInt (pl_judged p)), (''empty_poor'', nullable PInt (pl_empty_poor p)),
        (''survival'', nullable real_value (pl_survival p)), (''completed'', nullable PInt (pl_completed p)),
        (''bp_rate'', nullable real_value (pl_bp_rate p)), (''credited_gauge_kind'', text_value (pl_credited_gauge_kind p)),
        (''selected_gauge_kind'', text_value (pl_selected_gauge_kind p)), (''is_course'', PInt (r_is_course r)),
        (''lost_events'', PInt (pl_lost_events p)), (''payload_hash'', PStr (pl_payload_hash p))])"

definition play_documents :: "assistant_db \<Rightarrow> pyval list" where
  "play_documents st = map (play_document \<circ> snd) (sort_key (\<lambda>(i, p). (pl_source_generation (r_play p), pl_sha256 (r_play p), pl_mode (r_play p),
     pl_playcount (r_play p))) (t_plays st))"

definition feature_document :: "chart_features \<Rightarrow> pyval" where
  "feature_document f =
     PDict [(''sha256'', PStr (cf_sha256 f)), (''feature_version'', PInt (cf_feature_version f)), (''density_mean'', real_value (cf_density_mean f)),
       (''density_p90'', real_value (cf_density_p90 f)), (''density_p99'', real_value (cf_density_p99 f)),
       (''end_density'', real_value (cf_end_density f)), (''burst_max'', real_value (cf_burst_max f)),
       (''scratch_rate'', real_value (cf_scratch_rate f)), (''scratch_p90'', real_value (cf_scratch_p90 f)),
       (''scratch_combo_rate'', real_value (cf_scratch_combo_rate f)), (''ln_rate'', real_value (cf_ln_rate f)),
       (''soflan_var'', real_value (cf_soflan_var f)), (''soflan_changes'', PInt (int (cf_soflan_changes f))),
       (''stop_count'', PInt (int (cf_stop_count f))), (''chart_seconds'', real_value (cf_chart_seconds f)),
       (''total_notes'', PInt (cf_total_notes f))]"

definition feature_documents :: "job_db \<Rightarrow> pyval list" where
  "feature_documents db = map (feature_document \<circ> snd) (sort_key fst (jb_features db))"

definition metrics_document :: "(string \<times> real) list \<Rightarrow> pyval" where
  "metrics_document ms = PDict (map (\<lambda>(k, x). (k, real_value x)) ms)"

definition model_document :: "model_snapshot \<Rightarrow> pyval" where
  "model_document m =
     PDict [(''target'', PStr (ms_target m)), (''version'', PInt (ms_version m)), (''trained_at'', PInt (ms_trained_at m)),
       (''n_train'', PInt (ms_n_train m)), (''weights'', PList (map PFloat (ms_weights m))), (''means'', PList (map PFloat (ms_means m))),
       (''scales'', PList (map PFloat (ms_scales m))), (''feature_names'', texts (ms_feature_names m)),
       (''metrics'', metrics_document (ms_metrics m)), (''description'', PStr (ms_description m))]"

fun status_name :: "fit_status \<Rightarrow> string" where
  "status_name Collecting = ''collecting''"
| "status_name Rejected = ''rejected''"
| "status_name Unchanged = ''unchanged''"
| "status_name Passed = ''passed''"

definition fit_document :: "fit_result \<Rightarrow> pyval" where
  "fit_document r =
     PDict [(''status'', PStr (status_name (fr_status r))), (''n_results'', PInt (int (fr_n_results r))),
       (''n_sessions'', PInt (int (fr_n_sessions r))), (''n_train'', PInt (int (fr_n_train r))), (''n_holdout'', PInt (int (fr_n_holdout r))),
       (''gate_fraction'', nullable real_value (fr_gate_fraction r)), (''version'', nullable PInt (fr_version r)),
       (''metrics'', nullable metrics_document (fr_metrics r)), (''model'', nullable model_document (fr_model r)),
       (''raw_db_exported'', PBool False)]"

definition artifact_document :: "string \<Rightarrow> row \<Rightarrow> pyval" where
  "artifact_document kind entries =
     PDict ([(''contract'', PStr ''container-artifact''), (''schema_version'', PStr ''1''), (''kind'', PStr kind)] @ entries)"

definition table_kinds :: "(string \<times> string) list" where
  "table_kinds =
     [(''table/recommend/header.json'', ''recommend_header''), (''table/recommend/score.json'', ''recommend_score''),
      (''table/today/header.json'', ''daily_menu_header''), (''table/today/score.json'', ''daily_menu_score'')]"

definition table_record :: "(string \<times> pyval) list \<Rightarrow> string \<times> string \<Rightarrow> artifact_payload py" where
  "table_record rendered t =
     (case map_of rendered (fst t) of None \<Rightarrow> Inl contract_error | Some v \<Rightarrow> Inr (snd t, fst t, v))"

definition artifact_payloads ::
    "job_db \<Rightarrow> fit_result \<Rightarrow> row \<Rightarrow> (string \<times> pyval) list \<Rightarrow> artifact_payload list py" where
  "artifact_payloads db fit counters rendered =
     py_bind (py_mapM (table_record rendered) table_kinds) (\<lambda>tables.
       Inr ([(''normalized_events'', ''normalized_events.json'',
              artifact_document ''normalized_events'' [(''counters'', PDict counters), (''events'', PList (play_documents (jb_store db)))]),
             (''feature_input'', ''feature_input.json'', artifact_document ''feature_input'' [(''features'', PList (feature_documents db))]),
             (''model_input'', ''model_input.json'', artifact_document ''model_input'' [(''model'', fit_document fit)])] @ tables))"

subsection \<open>The whole job\<close>

text \<open>What \<open>run\<close> checks before it starts, up to the signals it compares at the end.\<close>

definition job_checks :: "'s job_env \<Rightarrow> job_limits \<Rightarrow> directory \<Rightarrow> (job_world, source_sig list) action" where
  "job_checks ev limits d =
     act_bind (check_deadline limits (je_elapsed ev 0)) (\<lambda>_.
     act_bind (preflight_sources ev d) (\<lambda>_.
     act_bind (act_of (source_signatures ev 2)) (\<lambda>signals.
     act_bind (check_deadline limits (je_elapsed ev 1)) (\<lambda>_.
     act_bind (act_of (raise_if (je_assistant ev \<in> set (map (in_dir (je_source ev)) database_names)) contract_error)) (\<lambda>_.
       act_of (Inr signals))))))"

definition job_work ::
    "'s job_env \<Rightarrow> job_limits \<Rightarrow> job_plan \<Rightarrow> profile_context \<Rightarrow> directory \<Rightarrow> (job_world, row \<times> artifact_payload list) action" where
  "job_work ev limits j profile d =
     act_bind (job_checks ev limits d) (\<lambda>signals.
     act_bind (run_core ev limits j profile d) (\<lambda>(fit, se).
     act_bind (check_deadline limits (je_elapsed ev 3)) (\<lambda>_.
     act_bind (act_of (source_signatures ev 7)) (\<lambda>signals'.
     act_bind (act_of (raise_if (signals' \<noteq> signals) integrity_error)) (\<lambda>_.
       on_job_db (\<lambda>db. (let counters = read_counters (jb_store db) in
         py_bind (artifact_payloads db fit counters (table_payloads se)) (\<lambda>payloads. Inr (counters, payloads)), db)))))))"

text \<open>The job as the adapter runs it: the pipeline of \<open>run_container\<close>, with the answers of its own checks and the database it starts from.\<close>

definition job_pipeline :: "'s job_env \<Rightarrow> job_limits \<Rightarrow> job_plan \<Rightarrow> cancels \<Rightarrow> job_db \<Rightarrow> pipeline" where
  "job_pipeline ev limits j cs db = (\<lambda>m profile d. fst (job_work ev limits j profile d (cs, db)))"

subsection \<open>What the collectors leave of the library\<close>

lemma upsert_charts_shas: "fst ` set (t_charts (upsert_charts cs st)) = fst ` set cs \<union> fst ` set (t_charts st)"
  by (induction cs arbitrary: st) (simp_all add: upsert_charts_def upsert_chart_def dom_update split_beta)

lemma backfill_charts:
  assumes "backfill_run rt real_path env dir path db = Inr (r, db')"
  shows "\<exists>songdata songs. bf_songdata env = Inr songdata \<and> read_songs songdata None = Inr songs \<and>
    fst ` set (t_charts db') \<subseteq> fst ` set (t_charts db) \<union> {h. \<exists>s\<in>set songs. str_item rt s ''sha256'' = Inr h}"
proof -
  obtain songdata songs patterns latest scores agg signature where songs: "bf_songdata env = Inr songdata" "read_songs songdata None = Inr songs"
      and stored: "backfill_store rt (bf_now env) songs patterns latest scores agg signature db = Inr db'"
    using assms by (auto simp: backfill_run_def Let_def py_bind_Inr_iff)
  obtain charts ps db1 db2 where charts: "py_mapM (chart_of_song rt (bf_now env)) songs = Inr charts"
      and latest: "py_for (import_latest rt agg (bf_now env)) (upsert_chart_pattern_features ps (upsert_charts charts db)) latest = Inr db1"
      and ir: "py_for (import_ir rt (bf_now env)) db1 scores = Inr db2" and db': "t_charts db' = t_charts db2"
    using stored by (auto simp: backfill_store_def py_bind_Inr_iff insert_collector_state_def upsert_collector_state_def)
  have "t_charts db1 = t_charts (upsert_chart_pattern_features ps (upsert_charts charts db))"
    by (rule py_for_invariant[OF latest]) (auto simp: import_latest_def py_bind_Inr_iff put_cursor_def upsert_cursor_def)
  moreover have "t_charts db2 = t_charts db1"
    by (rule py_for_invariant[OF ir]) (auto simp: import_ir_def py_bind_Inr_iff split: if_splits)
  moreover have "fst ` set charts \<subseteq> {h. \<exists>s\<in>set songs. str_item rt s ''sha256'' = Inr h}"
    using charts
  proof (induction songs arbitrary: charts)
    case (Cons s songs)
    then show ?case by (fastforce simp: py_bind_Inr_iff chart_of_song_def)
  qed simp
  ultimately show ?thesis using songs db' by (auto simp: upsert_charts_shas)
qed

lemma snapshot_charts:
  assumes "snapshot_run rt env score_path log_path dest db = Inr (r, db')"
  shows "t_charts db' = t_charts db"
proof -
  have "t_charts d' = t_charts d" if imported: "import_store rt header players scores logs agg d = Inr (res, d')" for header players scores logs agg d res d'
    using imported
  proof (cases rule: import_store_shape)
    case (1 prev db1 lamps db2 n l db3)
    have "but_scores db2 = but_scores db1" using import_score_frame[OF 1(2)] by (simp add: lamp_tracked_def)
    then show ?thesis
      using but_playerD[OF import_player_frame[OF 1(1)]] but_scoresD[of db2 db1] but_playsD[of db3 db2] import_log_frame[OF 1(3)] 1(5) by simp
  qed
  then show ?thesis using assms by (fastforce simp: snapshot_run_def py_bind_Inr_iff Let_def split: option.splits)
qed

lemma store_event_Inr:
  assumes "store_event ev event st = Inr (created, st')"
  obtains r p where "event_row event = Inr r" and "derive_play (je_runtime ev) r ''official_ir'' event_generation None 0 (je_clock ev 2) = Inr p"
    and "st' = snd (insert_play False p st)"
  using assms by (auto simp: store_event_def py_bind_Inr_iff)

lemma on_store_Inr: "on_store f (cs, db) = (Inr x, cs', db') \<longleftrightarrow> (\<exists>st. f (jb_store db) = Inr (x, st) \<and> cs' = cs \<and> db' = db\<lparr>jb_store := st\<rparr>)"
  by (auto simp: on_store_def split: sum.splits)

lemma job_token_keeps: "job_token (cs, db) = (r, cs', db') \<Longrightarrow> db' = db"
  by (auto simp: job_token_def split: prod.splits)

lemma deadline_keeps: "check_deadline limits t (cs, db) = (r, cs', db') \<Longrightarrow> db' = db"
  by (auto simp: check_deadline_def act_bind_def dest: job_token_keeps split: prod.splits sum.splits)

lemma collected_library:
  assumes "collect_sources ev d entrypoint event (cs, db) = (Inr u, cs', db')"
  shows "\<exists>songdata songs. open_database ev d ''songdata.db'' = Inr songdata \<and> read_songs songdata None = Inr songs \<and>
    fst ` set (t_charts (jb_store db')) \<subseteq> fst ` set (t_charts (jb_store db)) \<union> {h. \<exists>s\<in>set songs. str_item (je_runtime ev) s ''sha256'' = Inr h}"
proof -
  obtain r1 st1 r2 st2 where backfill: "backfill_run (je_runtime ev) (je_resolve ev) (job_backfill ev d) (je_source ev) (je_assistant ev) (jb_store db) = Inr (r1, st1)"
      and snapshot: "snapshot_run (je_runtime ev) (job_snapshot ev d) (in_dir (je_source ev) ''score.db'') (in_dir (je_source ev) ''scoredatalog.db'')
        (je_assistant ev) st1 = Inr (r2, st2)"
      and last: "t_charts (jb_store db') = t_charts st2"
    using assms
    by (fastforce simp: collect_sources_def act_bind_Inr on_store_Inr dest!: job_token_keeps elim: store_event_Inr split: if_splits)
  have "bf_songdata (job_backfill ev d) = open_database ev d ''songdata.db''" by (simp add: job_backfill_def)
  then show ?thesis using backfill_charts[OF backfill] snapshot_charts[OF snapshot] last by simp
qed

subsection \<open>What the later steps leave of the store\<close>

lemma build_all_store [simp]: "jb_store (snd (build_all rt version rows db)) = jb_store db"
  by (simp add: build_all_def save_features_def split: sum.split)

lemma fit_latest_store [simp]: "jb_store (snd (fit_latest rt js dice t db)) = jb_store db"
  by (simp add: fit_latest_def fit_repository_def model_ports_of_def persist_model_def split: sum.split fit_status.split option.split prod.split)

lemma save_output_store: "save_output js now out db = (r, db') \<Longrightarrow> jb_store db' = jb_store db \<and> jb_catalog db' = jb_catalog db \<and> jb_targets db' = jb_targets db"
  by (auto simp: save_output_def Let_def split: if_splits)

lemma on_job_db_run: "on_job_db f (cs, db) = (r, cs', db') \<longleftrightarrow> f db = (r, db') \<and> cs' = cs"
  by (auto simp: on_job_db_def split: prod.splits)

lemma insert_entries:
  "py_for insert_table_entry db rows = Inr db' \<Longrightarrow> ca_table_entries db' = ca_table_entries db @ rows"
  by (induction rows arbitrary: db) (auto simp: py_bind_Inr_iff insert_table_entry_Inr)

lemma seeded_rows:
  assumes "seed_table_catalog rt c t db = (Inr u, db')"
  shows "accept_tables rt c t = Inr (ca_table_entries db')"
  using assms by (auto simp: seed_table_catalog_def transaction_def dest!: insert_entries split: sum.splits)

lemma seed_classification_tables:
  assumes "seed_classification_catalog rt c t db = (r, db')"
  shows "ca_table_entries db' = ca_table_entries db"
proof -
  have "ca_table_entries d' = ca_table_entries d" if "py_for insert_classification d rows = Inr d'" for d rows d'
    by (rule py_for_invariant[OF that]) (auto simp: insert_classification_def split: if_splits)
  then show ?thesis using assms
    by (fastforce simp: seed_classification_catalog_def transaction_def store_classifications_def split: sum.splits option.splits prod.splits)
qed

lemma accepted_rows_listed:
  assumes "accept_tables rt c t = Inr rows" and "te \<in> set rows"
  shows "\<exists>v\<in>set (elements (get_item c ''catalog_entries'')). get_item (members v) ''sha256'' = PStr (tr_sha256 te)"
proof -
  have "py_mapM (table_row_of t) (elements (get_item c ''catalog_entries'')) = Inr rows"
    using assms(1) by (auto simp: accept_tables_def Let_def py_bind_Inr_iff)
  then have "\<exists>v\<in>set vs. table_row_of t v = Inr te" if "vs = elements (get_item c ''catalog_entries'')" for vs
    using assms(2) unfolding that[symmetric] by (induction vs arbitrary: rows) (auto simp: py_bind_Inr_iff)
  then obtain v where "v \<in> set (elements (get_item c ''catalog_entries''))" "table_row_of t v = Inr te" by blast
  then show ?thesis
    by (intro bexI[of _ v]) (auto simp: table_row_of_def table_row_ok_def members_def text_in_def is_text_def split: pyval.splits if_splits)
qed

subsection \<open>The steps of a job\<close>

lemma act_keeps_for: "(\<And>s x. act_keeps part (f s x)) \<Longrightarrow> act_keeps part (act_for f s xs)"
  by (induction xs arbitrary: s) auto

lemma act_keeps_catch: "act_keeps part m \<Longrightarrow> (\<And>e. act_keeps part (h e)) \<Longrightarrow> act_keeps part (act_catch m h)"
  by (auto simp: act_keeps_def act_catch_def split: prod.splits sum.splits) (metis snd_conv)+

lemma token_keeps [intro]: "act_keeps snd job_token"
  by (auto simp: act_keeps_def job_token_def split: prod.splits)

lemma preflight_keeps: "act_keeps snd (preflight_sources ev d)"
  unfolding preflight_sources_def preflight_database_def
  by (intro act_keeps_bind act_keeps_catch act_keeps_for act_keeps_of token_keeps)

lemma preflight_leaves: "preflight_sources ev d (cs, db) = (r, cs', db') \<Longrightarrow> db' = db"
  using act_keepsD[OF preflight_keeps] by fastforce

lemma core_steps_Inr:
  assumes "core_steps ev limits j profile d (cs, db) = (Inr (fit, se), cs', db')"
  obtains u cs1 db1 cs2 db2 v cs3 db3 where "collect_sources ev d (jp_entrypoint j) (jp_event j) (cs, db) = (Inr u, cs1, db1)"
    and "jb_store db2 = jb_store db1" and "seed_context ev (jp_context j) (cs2, db2) = (Inr v, cs3, db3)"
    and "plan_job ev j profile (cs3, db3) = (Inr se, cs', db')"
proof -
  obtain u cs1 db1 cs2 n rows dbf cs3 fit' dbm cs4 v csv dbv where
      collected: "collect_sources ev d (jp_entrypoint j) (jp_event j) (cs, db) = (Inr u, cs1, db1)"
      and features: "build_all (je_runtime ev) feature_version rows db1 = (Inr n, dbf)"
      and model: "fit_latest (je_runtime ev) (je_json ev) (je_dice ev) (je_clock ev 3) dbf = (Inr fit', dbm)"
      and seeded: "seed_context ev (jp_context j) (cs4, dbm) = (Inr v, csv, dbv)"
      and planned: "plan_job ev j profile (csv, dbv) = (Inr se, cs', db')"
    using assms unfolding core_steps_def prepare_job_def
    by (fastforce simp: act_bind_Inr on_job_db_run dest!: deadline_keeps job_token_keeps)
  have "jb_store dbm = jb_store db1"
    using build_all_store[of "je_runtime ev" feature_version rows db1] fit_latest_store[of "je_runtime ev" "je_json ev" "je_dice ev" "je_clock ev 3" dbf]
    by (simp add: features model)
  then show thesis using that collected seeded planned by blast
qed

lemma deadline_act_keeps: "act_keeps snd (check_deadline limits t)"
  unfolding check_deadline_def by (intro act_keeps_bind act_keeps_of token_keeps)

lemma checks_keep: "act_keeps snd (job_checks ev limits d)"
  unfolding job_checks_def by (intro act_keeps_bind act_keeps_of deadline_act_keeps preflight_keeps)

lemma job_work_Inr:
  assumes "job_work ev limits j profile d (cs, db) = (Inr (counters, payloads), cs', db')"
  obtains cs1 cs2 fit se where "core_steps ev limits j profile d (cs1, db) = (Inr (fit, se), cs2, db')"
    and "counters = read_counters (jb_store db')" and "artifact_payloads db' fit counters (table_payloads se) = Inr payloads"
  using assms unfolding job_work_def run_core_def
  by (fastforce simp: act_bind_Inr act_catch_Inr on_job_db_run py_bind_Inr_iff Let_def dest!: deadline_keeps act_keepsD[OF checks_keep] split: prod.splits)

subsection \<open>The menu stays in the upload\<close>

lemma seeded_tables:
  assumes "seed_context ev (Some c) (cs, db) = (Inr u, cs', db')"
  shows "jb_store db' = jb_store db \<and> accept_tables (je_runtime ev) c (je_clock ev 4) = Inr (ca_table_entries (jb_catalog db'))"
  using assms
  by (auto simp: seed_context_def on_catalog_def act_bind_Inr on_job_db_run split: prod.splits
      dest!: seeded_rows seed_classification_tables) (simp add: catalog_of_def)

lemma planned_from_tables:
  assumes "plan_job ev j profile (cs, db) = (Inr se, cs', db')" and "jp_context j = Some c" and "jp_menu_source j = No_Menu"
  shows "plan_from_tables ev j profile db = Inr se"
  using assms by (auto simp: plan_job_def Let_def act_bind_Inr on_job_db_run)

lemma planned_charts:
  assumes "rng_ok (je_rng ev)" and "plan_from_tables ev j profile db = Inr se" and "i \<in> set (se_queue se)"
  shows "\<exists>c te. c \<in> set (t_charts (jb_store db)) \<and> te \<in> set (ca_table_entries (jb_catalog db)) \<and> fst c = mi_sha256 i \<and> tr_sha256 te = mi_sha256 i"
proof -
  obtain input where input: "load_input (je_runtime ev) (je_json ev) (je_window ev) db profile = Inr input"
      "build_session_from_input (je_runtime ev) (je_calendar ev) (je_rng ev) input (request_of j) (je_clock ev 6) = Inr se"
    using assms(2) by (auto simp: plan_from_tables_def build_session_from_repository_def py_bind_Inr_iff)
  obtain r where "r \<in> set (candidate_rows (je_runtime ev) db)" "q_sha256 r = mi_sha256 i"
    using session_from_candidates[OF assms(1) input(2) assms(3)] load_input_candidates[OF input(1)] by auto
  then show ?thesis by (fastforce simp: candidate_rows_def)
qed

lemma payloads_Inr:
  assumes "artifact_payloads db fit counters (table_payloads se) = Inr payloads"
  shows "(''daily_menu_score'', ''table/today/score.json'', PList (map today_entry (first_entries {} (se_queue se)))) \<in> set payloads"
    and "(''normalized_events'', ''normalized_events.json'', artifact_document ''normalized_events''
      [(''counters'', PDict counters), (''events'', PList (play_documents (jb_store db)))]) \<in> set payloads"
  using assms by (auto simp: artifact_payloads_def table_kinds_def table_record_def table_payloads_def Let_def)

text \<open>C33: A menu that a job publishes from its table context, working on a fresh database, stays in what the profile uploaded: every chart of it is a
  song of the uploaded library and an entry of the accepted table catalog. Nothing of another profile or an earlier job can enter it.\<close>

theorem menu_stays_in_the_upload:
  assumes "rng_ok (je_rng ev)" and "jp_context j = Some c" and "jp_menu_source j = No_Menu" and "t_charts (jb_store db) = []"
    and "job_work ev limits j profile d (cs, db) = (Inr (counters, payloads), cs', db')"
  shows "\<exists>songdata songs (se :: session). open_database ev d ''songdata.db'' = Inr songdata \<and> read_songs songdata None = Inr songs \<and>
    (''daily_menu_score'', ''table/today/score.json'', PList (map today_entry (first_entries {} (se_queue se)))) \<in> set payloads \<and>
    (\<forall>i\<in>set (se_queue se). (\<exists>s\<in>set songs. str_item (je_runtime ev) s ''sha256'' = Inr (mi_sha256 i)) \<and>
       (\<exists>v\<in>set (elements (get_item c ''catalog_entries'')). get_item (members v) ''sha256'' = PStr (mi_sha256 i)))"
proof -
  obtain cs0 cs1 fit se where core: "core_steps ev limits j profile d (cs0, db) = (Inr (fit, se), cs1, db')"
      and payloads: "artifact_payloads db' fit counters (table_payloads se) = Inr payloads"
    using assms(5) by (rule job_work_Inr)
  obtain u csa dba csb dbb v csc dbc where collected: "collect_sources ev d (jp_entrypoint j) (jp_event j) (cs0, db) = (Inr u, csa, dba)"
      and kept: "jb_store dbb = jb_store dba" and seeded: "seed_context ev (jp_context j) (csb, dbb) = (Inr v, csc, dbc)"
      and planned: "plan_job ev j profile (csc, dbc) = (Inr se, cs1, db')"
    using core by (rule core_steps_Inr)
  obtain songdata songs where songs: "open_database ev d ''songdata.db'' = Inr songdata" "read_songs songdata None = Inr songs"
      "fst ` set (t_charts (jb_store dba)) \<subseteq> {h. \<exists>s\<in>set songs. str_item (je_runtime ev) s ''sha256'' = Inr h}"
    using collected_library[OF collected] assms(4) by auto
  note tables = seeded_tables[OF seeded[unfolded assms(2)]]
  have "(\<exists>s\<in>set songs. str_item (je_runtime ev) s ''sha256'' = Inr (mi_sha256 i)) \<and>
      (\<exists>v\<in>set (elements (get_item c ''catalog_entries'')). get_item (members v) ''sha256'' = PStr (mi_sha256 i))" if queued: "i \<in> set (se_queue se)" for i
  proof -
    obtain ch te where "ch \<in> set (t_charts (jb_store dba))" "te \<in> set (ca_table_entries (jb_catalog dbc))" "fst ch = mi_sha256 i" "tr_sha256 te = mi_sha256 i"
      using planned_charts[OF assms(1) planned_from_tables[OF planned assms(2,3)] queued] tables kept by auto
    then show ?thesis using songs(3) accepted_rows_listed[of "je_runtime ev" c _ _ te] tables by fastforce
  qed
  then have "\<forall>i\<in>set (se_queue se). (\<exists>s\<in>set songs. str_item (je_runtime ev) s ''sha256'' = Inr (mi_sha256 i)) \<and>
      (\<exists>v\<in>set (elements (get_item c ''catalog_entries'')). get_item (members v) ''sha256'' = PStr (mi_sha256 i))" by blast
  with songs(1,2) payloads_Inr(1)[OF payloads] show ?thesis by blast
qed

subsection \<open>The play event is counted\<close>

lemma insert_play_present: "\<exists>(i, q)\<in>set (t_plays (snd (insert_play False p db))). play_key q = play_key p"
proof (cases "find_play (play_key p) (t_plays db) = None")
  case False
  then obtain x where "x \<in> set (t_plays db)" "play_key (snd x) = play_key p" by (auto simp: find_play_None)
  then show ?thesis using False by (auto simp: insert_play_def intro!: bexI[of _ x])
qed (simp add: insert_play_def add_play_def)

lemma plan_keeps_store: "plan_job ev j profile (cs, db) = (r, cs', db') \<Longrightarrow> jb_store db' = jb_store db"
  by (auto simp: plan_job_def Let_def act_bind_def on_job_db_def split: menu_source.splits if_splits prod.splits sum.splits dest!: save_output_store)

lemma seed_keeps_store: "seed_context ev ctx (cs, db) = (r, cs', db') \<Longrightarrow> jb_store db' = jb_store db"
  by (auto simp: seed_context_def on_catalog_def act_bind_def on_job_db_def split: option.splits prod.splits sum.splits)


subsection \<open>Nothing is written before the preflight\<close>

definition readable :: "'s job_env \<Rightarrow> directory \<Rightarrow> string \<times> (source_db \<Rightarrow> row list py) list \<Rightarrow> bool" where
  "readable ev d p \<longleftrightarrow> (\<exists>content tables rows. map_of d (fst p) = Some (File content) \<and> je_integrity ev content = Inr ''ok'' \<and>
     je_open ev content = Inr tables \<and> py_mapM (\<lambda>reader. reader tables) (snd p) = Inr rows)"

lemma preflight_database_Inr: "preflight_database ev d p w = (Inr u, w') \<Longrightarrow> readable ev d p"
  by (auto simp: preflight_database_def act_bind_Inr py_bind_Inr_iff raise_if_Inr open_snapshot_def readable_def
      split: option.splits dir_entry.splits)

lemma act_for_each: "act_for (\<lambda>_. f) s xs w = (Inr t, w') \<Longrightarrow> x \<in> set xs \<Longrightarrow> \<exists>w1 y w2. f x w1 = (Inr y, w2)"
  by (induction xs arbitrary: s w) (auto simp: act_bind_Inr)

lemma preflight_Inr:
  assumes "preflight_sources ev d w = (Inr u, w')"
  shows "list_all (readable ev d) preflight_readers" and "source_signatures ev 0 = source_signatures ev 1"
proof -
  obtain before cs db where run: "source_signatures ev 0 = Inr before" "source_signatures ev 1 = Inr before"
      "act_for (\<lambda>_. preflight_database ev d) () preflight_readers w = (Inr (), cs, db)"
    using assms by (auto simp: preflight_sources_def act_bind_Inr act_catch_Inr raise_if_Inr)
  have "readable ev d p" if "p \<in> set preflight_readers" for p
    using act_for_each[OF run(3) that] preflight_database_Inr by metis
  then show "list_all (readable ev d) preflight_readers" by (simp add: list_all_iff del: split_paired_All)
  show "source_signatures ev 0 = source_signatures ev 1" using run by simp
qed

lemma job_checks_Inr:
  assumes "job_checks ev limits d w = (Inr signals, w')"
  shows "\<exists>w1 w2. preflight_sources ev d w1 = (Inr (), w2)" and "je_assistant ev \<notin> set (map (in_dir (je_source ev)) database_names)"
  using assms by (auto simp: job_checks_def act_bind_Inr raise_if_Inr)

text \<open>C35: A job writes nothing before all five databases have passed: if it has changed the database at all, whatever its result, every uploaded file is intact and
  readable with the columns the collectors need, no file changed while it was checked, and the database of the job is none of the uploaded files.\<close>

theorem preflight_before_writing:
  assumes "job_work ev limits j profile d (cs, db) = (r, cs', db')" and "db' \<noteq> db"
  shows "list_all (readable ev d) preflight_readers \<and> source_signatures ev 0 = source_signatures ev 1 \<and>
    je_assistant ev \<notin> set (map (in_dir (je_source ev)) database_names)"
proof -
  obtain x cs1 db1 where checks: "job_checks ev limits d (cs, db) = (x, cs1, db1)" by (metis prod.exhaust)
  then have "db1 = db" using act_keepsD[OF checks_keep checks] by simp
  then obtain signals where "x = Inr signals" using assms checks by (cases x) (auto simp: job_work_def act_bind_def)
  then obtain w1 w2 where "preflight_sources ev d w1 = (Inr (), w2)" and other: "je_assistant ev \<notin> set (map (in_dir (je_source ev)) database_names)"
    using job_checks_Inr checks by blast
  then show ?thesis using preflight_Inr by blast
qed

end
