(* ===== verification/Pipeline_Examples.thy ===== *)
theory Pipeline_Examples
  imports Pipeline
begin

text \<open>
  A whole job on a small upload, for the properties of \<open>Pipeline\<close>: a library of one song that is listed in the table context, no scores, and
  the event of one play.
\<close>

subsection \<open>The upload\<close>

text \<open>One database with the tables of all five, and one song.\<close>

definition sample_song :: row where
  "sample_song = [(''sha256'', PStr example_hash), (''md5'', PNone), (''title'', PStr ''song''), (''artist'', PNone), (''notes'', PInt 1200),
     (''mode'', PInt 7), (''path'', PNone)]"

definition sample_bundle_db :: source_db where
  "sample_bundle_db =
     [(''score'', \<lparr>tb_columns = score_required, tb_key_positions = [], tb_rows = []\<rparr>),
      (''player'', \<lparr>tb_columns = player_required, tb_key_positions = [], tb_rows = [sample_player_row]\<rparr>),
      (''scoredatalog'', \<lparr>tb_columns = score_required, tb_key_positions = [(1, ''sha256''), (2, ''mode'')], tb_rows = []\<rparr>),
      (''scorelog'', \<lparr>tb_columns = scorelog_required, tb_key_positions = [], tb_rows = []\<rparr>),
      (''song'', \<lparr>tb_columns = song_required, tb_key_positions = [], tb_rows = [sample_song]\<rparr>),
      (''information'', \<lparr>tb_columns = songinfo_columns, tb_key_positions = [], tb_rows = []\<rparr>)]"

lemma sample_bundle_reads:
  "read_score sample_bundle_db = Inr []" "read_player sample_bundle_db = Inr [sample_player_row]" "read_scoredatalog sample_bundle_db = Inr []"
  "read_scorelog sample_bundle_db = Inr []" "read_songs sample_bundle_db None = Inr [sample_song]" "read_songinfo sample_bundle_db None = Inr []"
  "read_chart_patterns sample_bundle_db None = Inr []" "information_rows sample_bundle_db = Inr []"
  by code_simp+

definition sample_upload :: directory where
  "sample_upload = map (\<lambda>name. (name, File ''x'')) database_names"

definition sample_job_env :: "unit job_env" where
  "sample_job_env =
     \<lparr>je_runtime = sample_hash_runtime, je_open = (\<lambda>_. Inr sample_bundle_db), je_integrity = (\<lambda>_. Inr ''ok''), je_resolve = (\<lambda>p. p),
      je_source = ''/work'', je_assistant = ''/work/assistant.db'', je_stat = (\<lambda>_. sample_fs 1), je_clock = (\<lambda>n. 5000), je_elapsed = (\<lambda>_. 0),
      je_dice = id, je_json = sample_json, je_window = sample_window, je_calendar = sample_menu_calendar, je_rng = sample_rng,
      je_asdict = (\<lambda>_. PNone)\<rparr>"

lemma sample_env:
  "je_runtime sample_job_env = sample_hash_runtime" "je_json sample_job_env = sample_json" "je_window sample_job_env = sample_window"
  "je_calendar sample_job_env = sample_menu_calendar" "je_rng sample_job_env = sample_rng" "je_dice sample_job_env = id"
  "je_clock sample_job_env n = 5000"
  by (simp_all add: sample_job_env_def)

definition sample_job_context :: row where
  "sample_job_context =
     [(''catalog_entries'', PList [PDict [(''table_id'', PStr ''stella''), (''level'', PStr ''1''), (''sha256'', PStr example_hash), (''md5'', PNone),
        (''title'', PStr ''song'')]]), (''catalog_manifest_sha256'', PStr example_hash)]"

definition sample_job_plan :: job_plan where
  "sample_job_plan =
     \<lparr>jp_entrypoint = ''single_play_incremental'', jp_event = Some (PDict [(''row'', PDict (sample_row ''aa'' 1))]), jp_context = Some sample_job_context,
      jp_menu_source = No_Menu, jp_menu_date = None, jp_readiness = ''normal''\<rparr>"

lemma sample_plan:
  "jp_entrypoint sample_job_plan = ''single_play_incremental''" "jp_context sample_job_plan = Some sample_job_context"
  "jp_menu_source sample_job_plan = No_Menu"
  by (simp_all add: sample_job_plan_def)

definition sample_job_limits :: job_limits where
  "sample_job_limits = \<lparr>jl_max_input_bytes = 100, jl_max_database_bytes = 100, jl_max_temp_bytes = 100, jl_max_output_bytes = 100, jl_max_runtime_seconds = 1\<rparr>"

abbreviation sample_world :: job_world where
  "sample_world \<equiv> ([], sample_store_db [])"

lemma map_sum_Inr: "map_sum id g a = Inr y \<longleftrightarrow> (\<exists>x. a = Inr x \<and> g x = y)"
  by (cases a) auto

lemma sample_checked: "map_prod (map_sum id (\<lambda>_. ())) fst (job_checks sample_job_env sample_job_limits sample_upload sample_world) = (Inr (), [])"
  by code_simp

definition library_of :: "job_db \<Rightarrow> (string \<times> chart_row) list \<times> int list \<times> int list \<times> table_entry_row list" where
  "library_of db = (t_charts (jb_store db), map di_id (t_imports (jb_store db)), map di_baseline_judged (t_imports (jb_store db)),
     ca_table_entries (jb_catalog db))"

definition sample_library :: "(string \<times> chart_row) list \<times> int list \<times> int list \<times> table_entry_row list" where
  "sample_library =
     ([(example_hash, \<lparr>cr_md5 = PNone, cr_title = PStr ''song'', cr_artist = PNone, cr_notes = PInt 1200, cr_song_mode = PInt 7, cr_path = None, cr_updated_at = 5000\<rparr>)], [1], [7],
       [\<lparr>tr_table_id = ''stella'', tr_level = ''1'', tr_sha256 = example_hash, tr_md5 = PNone, tr_title = PStr ''song'', tr_fetched_at = 5000\<rparr>])"

subsection \<open>The job step by step\<close>

definition sample_collected :: "unit py \<times> job_world" where
  "sample_collected = collect_sources sample_job_env sample_upload ''single_play_incremental'' (jp_event sample_job_plan) sample_world"

lemma sample_collected_facts:
  "(fst sample_collected, fst (snd sample_collected), jb_features (snd (snd sample_collected)), jb_models (snd (snd sample_collected))) = (Inr (), [], [], [])"
  by code_simp

lemma sample_seeded_facts:
  "(case seed_context sample_job_env (jp_context sample_job_plan) (snd sample_collected) of (r, cs, db) \<Rightarrow>
     (r, cs, library_of db, jb_targets db, jb_sessions db, map mo_version (jb_models db))) =
   (Inr (), [], sample_library, [], [], [])"
  by code_simp

lemma fit_without_features:
  assumes "jb_features db = []" and "jb_models db = []"
  shows "\<exists>r. fit_latest rt js dice trained_at db = (Inr r, db)"
proof -
  have "observation_of outcomes (play_rows rt db e) = None" for outcomes e
    by (simp add: play_rows_def assms(1) observation_of_def Let_def split: option.split)
  then have "iter_observations rt db = Inr []" by (simp add: iter_observations_def List.map_filter_def)
  moreover have "latest_model rt js db = Inr None" by (simp add: latest_model_def newest_model_def snapshot_from_row_def assms(2))
  ultimately show ?thesis
    by (simp add: fit_latest_def fit_observations_def Let_def fit_repository_def min_results_def)
qed

lemma sample_prepared:
  obtains fit db where "prepare_job sample_job_env sample_job_limits sample_job_plan sample_upload sample_world = (Inr fit, [], db)"
    and "library_of db = sample_library"
    and "jb_targets db = []" and "jb_sessions db = []" and "jb_models db = []"
proof -
  obtain db1 where db1: "sample_collected = (Inr (), [], db1)" "jb_features db1 = []" "jb_models db1 = []"
    using sample_collected_facts by (metis prod.collapse prod.inject)
  obtain fit where fit: "fit_latest sample_hash_runtime sample_json id 5000 db1 = (Inr fit, db1)" using fit_without_features[OF db1(2,3)] by blast
  obtain db where seeded: "seed_context sample_job_env (jp_context sample_job_plan) ([], db1) = (Inr (), [], db)"
      "library_of db = sample_library" "jb_targets db = []" "jb_sessions db = []" "jb_models db = []"
    using sample_seeded_facts by (cases "seed_context sample_job_env (jp_context sample_job_plan) ([], db1)") (auto simp: db1(1))
  have rows: "information_rows sample_bundle_db = Inr []" by (rule sample_bundle_reads)
  have opened: "open_database sample_job_env sample_upload ''songinfo.db'' = Inr sample_bundle_db" by code_simp
  have features: "build_all sample_hash_runtime feature_version [] db1 = (Inr 0, db1)"
    by (simp add: build_all_def iter_songinfo_def order_by_def save_features_def)
  have "check_deadline sample_job_limits (je_elapsed sample_job_env 2) ([], db1) = (Inr (), [], db1)"
    by (simp add: check_deadline_def act_bind_def job_token_def check_token_def sample_job_env_def sample_job_limits_def raise_if_def)
  then have "prepare_job sample_job_env sample_job_limits sample_job_plan sample_upload sample_world = (Inr fit, [], db)"
    using db1(1)[unfolded sample_collected_def] seeded(1) features fit
    by (simp add: prepare_job_def act_bind_def job_token_def check_token_def opened rows on_job_db_def sample_env sample_plan(1))
  then show thesis using that seeded by blast
qed


lemma sample_planned:
  assumes "library_of db = sample_library" and "jb_targets db = []" and "jb_sessions db = []" and "jb_models db = []"
  shows "\<exists>se db'. plan_job sample_job_env sample_job_plan sample_profile ([], db) = (Inr se, [], db')"
proof -
  have none: "latest_model sample_hash_runtime sample_json db = Inr None" "warmup_adjustment sample_json sample_window db = 0"
    by (simp_all add: latest_model_def newest_model_def snapshot_from_row_def warmup_adjustment_def newest_session_def assms)
  obtain r where r: "t_imports (jb_store db) = [r]" "di_id r = 1" "di_baseline_judged r = 7" using assms(1) by (auto simp: library_of_def sample_library_def)
  then obtain input where input: "load_input sample_hash_runtime sample_json sample_window db sample_profile = Inr input" "ri_import_id input = 1"
      "ri_candidates input = candidate_rows sample_hash_runtime db"
    by (simp add: load_input_def Let_def none latest_import_def check_recommendation_input_def)
  have charts: "length (t_charts (jb_store db)) = 1" "length (ca_table_entries (jb_catalog db)) = 1" using assms(1) by (simp_all add: library_of_def sample_library_def)
  have "length (candidate_rows sample_hash_runtime db) = 1"
    using assms(1,2) by (simp add: candidate_rows_def library_of_def sample_library_def planned_chart_def int_value_def pending_transfers_def)
  then have some: "ri_candidates input \<noteq> []" using input(3) by auto
  obtain settings where settings: "effective_settings sample_menu_calendar sample_profile (request_of sample_job_plan) = Inr settings"
      "\<not> blank (ps_timezone settings)"
    using sample_settings_ok[of "request_of sample_job_plan"] by (auto simp: request_of_def sample_job_plan_def)
  have "rq_menu_date (request_of sample_job_plan) = None" by (simp add: request_of_def sample_job_plan_def)
  then obtain se where se: "plan_from_tables sample_job_env sample_job_plan sample_profile db = Inr se"
    using sample_planned_session[OF input(1) _ some _ settings, of sample_rng 5000] input(2) by (auto simp: plan_from_tables_def sample_env)
  have "\<not> blank d" if "cal_valid sample_menu_calendar d" for d
    using that by (simp add: sample_menu_calendar_def blank_def py_strip_def is_space_def)
  moreover have "\<not> blank (take 16 (sha256_hex sample_hash_runtime t))" for t
  proof -
    have "\<not> blank (take 16 example_hash)" by code_simp
    then show ?thesis by (simp add: sample_hash_runtime_def)
  qed
  ultimately obtain out where out: "recommendation_output (je_asdict sample_job_env) se = Inr out" "ro_import_id out \<in> set (map di_id (t_imports (jb_store db)))"
    using planned_output[OF se[unfolded plan_from_tables_def sample_env]] by metis
  obtain db' where "save_output sample_json 5000 out db = (Inr (), db')" using out(2) by (simp add: save_output_def Let_def)
  then show ?thesis using se out(1)
    by (simp add: plan_job_def Let_def sample_env sample_plan on_job_db_def act_bind_def)
qed


lemma payloads_total: "\<exists>payloads. artifact_payloads db fit counters (table_payloads se) = Inr payloads"
  by (simp add: artifact_payloads_def table_kinds_def table_record_def table_payloads_def Let_def)

lemma sample_job:
  "\<exists>counters payloads db'. job_work sample_job_env sample_job_limits sample_job_plan sample_profile sample_upload sample_world =
     (Inr (counters, payloads), [], db') \<and> jb_store db' \<noteq> empty_db"
proof -
  obtain signals db0 where checks: "job_checks sample_job_env sample_job_limits sample_upload sample_world = (Inr signals, [], db0)"
    using sample_checked by (auto simp: map_prod_def map_sum_Inr split: prod.splits)
  have "db0 = sample_store_db []" using act_keepsD[OF checks_keep checks] by simp
  have signals: "source_signatures sample_job_env 7 = Inr signals"
    using checks by (auto simp: job_checks_def act_bind_Inr source_signatures_def sample_job_env_def)
  obtain fit db where prepared: "prepare_job sample_job_env sample_job_limits sample_job_plan sample_upload sample_world = (Inr fit, [], db)"
      and db: "library_of db = sample_library"
        "jb_targets db = []" "jb_sessions db = []" "jb_models db = []"
    by (rule sample_prepared)
  obtain se db' where planned: "plan_job sample_job_env sample_job_plan sample_profile ([], db) = (Inr se, [], db')"
    using sample_planned[OF db] by blast
  have core: "run_core sample_job_env sample_job_limits sample_job_plan sample_profile sample_upload ([], db0) = (Inr (fit, se), [], db')"
    using prepared planned by (simp add: run_core_def act_catch_def core_steps_def act_bind_def \<open>db0 = sample_store_db []\<close>)
  have late: "check_deadline sample_job_limits (je_elapsed sample_job_env 3) ([], db') = (Inr (), [], db')"
    by (simp add: check_deadline_def act_bind_def job_token_def check_token_def sample_job_env_def sample_job_limits_def raise_if_def)
  obtain payloads where payloads: "artifact_payloads db' fit (read_counters (jb_store db')) (table_payloads se) = Inr payloads"
    using payloads_total by blast
  have "job_work sample_job_env sample_job_limits sample_job_plan sample_profile sample_upload sample_world =
      (Inr (read_counters (jb_store db'), payloads), [], db')"
    by (simp add: job_work_def act_bind_def checks core late signals raise_if_def on_job_db_def Let_def payloads)
  moreover have "jb_store db' \<noteq> empty_db" using db(1) plan_keeps_store[OF planned] by (auto simp: library_of_def sample_library_def empty_db_def)
  ultimately show ?thesis by blast
qed

subsection \<open>The properties\<close>

theorem menu_stays_in_the_upload_witness:
  "\<exists>payloads (se :: session). (''daily_menu_score'', ''table/today/score.json'', PList (map today_entry (first_entries {} (se_queue se)))) \<in> set payloads \<and>
     mi_sha256 ` set (se_queue se) \<subseteq> {example_hash}"
proof -
  obtain counters payloads db' where job: "job_work sample_job_env sample_job_limits sample_job_plan sample_profile sample_upload sample_world =
      (Inr (counters, payloads), [], db')" using sample_job by blast
  have start: "t_charts (jb_store (sample_store_db [])) = []" "rng_ok (je_rng sample_job_env)"
    by (simp_all add: sample_store_db_def empty_db_def sample_env sample_rng_ok)
  have listed: "elements (get_item sample_job_context ''catalog_entries'') =
      [PDict [(''table_id'', PStr ''stella''), (''level'', PStr ''1''), (''sha256'', PStr example_hash), (''md5'', PNone), (''title'', PStr ''song'')]]"
    by (simp add: sample_job_context_def get_item_def elements_def)
  from menu_stays_in_the_upload[OF start(2) sample_plan(2,3) start(1) job] show ?thesis
    unfolding listed by (fastforce simp: members_def get_item_def)
qed


theorem preflight_before_writing_witness:
  "list_all (readable sample_job_env sample_upload) preflight_readers"
proof -
  obtain counters payloads db' where job: "job_work sample_job_env sample_job_limits sample_job_plan sample_profile sample_upload sample_world =
      (Inr (counters, payloads), [], db')" "jb_store db' \<noteq> empty_db" using sample_job by blast
  have "db' \<noteq> sample_store_db []" using job(2) by (auto simp: sample_store_db_def empty_db_def)
  from preflight_before_writing[OF job(1) this] show ?thesis by blast
qed

end
