(* ===== verification/Spec2Isabelle.thy ===== *)
theory Spec2Isabelle
  imports Poller_Properties Backfill Snapshot Experiment_Menu Model_Proofs Progress_Properties Features Table_Refresh Entrypoint Pipeline_Examples
begin

text \<open>
  A verification library for oraja-training, the assistant that reads the SQLite databases of the rhythm game beatoraja,
  keeps its own database of plays, and plans a daily practice menu. Paths below are relative to
  \<open>src/src/oraja_training\<close>.

  \<^bold>\<open>The program.\<close> Collectors copy what beatoraja recorded into the assistant database: \<open>collect/poller.py\<close> watches the live
  databases, \<open>collect/backfill.py\<close> seeds the history once, \<open>collect/snapshot.py\<close> imports one static pair of
  files a day, and \<open>collect/replay.py\<close> decodes replay files to correct the gauge of a play. All write through
  \<open>db/store.py\<close>. From the charts, tables and scores a model of completion is fitted (\<open>model/core.py\<close>), a menu is planned and
  published (\<open>plan/menu.py\<close>), a self-experiment draws charts from it (\<open>plan/experiment.py\<close>), and a
  small server shows menu and progress, fed by a sender on the gaming machine (\<open>serve/\<close>). Chart features come from
  \<open>features/\<close>; difficulty and pattern tables are downloaded, matched with the library and stored (\<open>tables/\<close>, \<open>cli.py\<close>,
  \<open>db/classification_adapter.py\<close>). A container runs the same pipeline for uploaded databases (\<open>container/\<close>).

  \<^bold>\<open>Theories.\<close>
  \<^item> \<open>Oraja_Prelude\<close>, \<open>Py_Values\<close>, \<open>Dates\<close>, \<open>Histories\<close>: exceptions as the left of a sum, loops and comprehensions that may raise,
    dynamic values with the conversions of Python, dates as text, and the two contracts (\<open>preserved\<close>, \<open>history\<close>) of a state
    under a sequence of operations.
  \<^item> \<open>Domain\<close>, \<open>Canonical\<close>, \<open>Normalize\<close>, \<open>Filesystem\<close>: the checked values of \<open>domain/types.py\<close>; the canonical payload and the
    derived fields of a play (\<open>collect/normalize.py\<close>); the signed 64-bit file identity (\<open>filesystem.py\<close>) and change signals
    (\<open>collect/source.py\<close>).
  \<^item> \<open>Tables\<close>, \<open>Store\<close>: the tables as records and association lists with the contracts \<open>merge_table\<close> and \<open>event_log\<close>, the
    migrations and every write helper of \<open>db/store.py\<close> the collectors call, each an interpretation of its contract.
  \<^item> \<open>Replay\<close>, \<open>Replay_Ingest\<close>: \<open>collect/replay.py\<close>, and \<open>ingest_replay_metadata\<close> of \<open>db/store.py\<close>.
  \<^item> \<open>Readers\<close>: the row selection of \<open>db/readers.py\<close>.
  \<^item> \<open>Poller\<close>, \<open>Poller_Proofs\<close>, \<open>Poller_Runs\<close>, \<open>Poller_Properties\<close>: the collector, one tick and the daemon.
  \<^item> \<open>Backfill\<close>, \<open>Snapshot\<close>: the two other collectors with their transactions.
  \<^item> \<open>Experiment\<close>, \<open>Experiment_Proofs\<close>, \<open>Experiment_Menu\<close>: assignment, resolution, report, schedule and the proposal of
    candidate sets of \<open>plan/experiment.py\<close>.
  \<^item> \<open>Model_Core\<close>, \<open>Model_Proofs\<close>: \<open>model/core.py\<close> over exact reals.
  \<^item> \<open>Menu_Data\<close>, \<open>Menu_Load\<close>, \<open>Menu_Select\<close>, \<open>Menu_Session\<close>, \<open>Menu_Proofs\<close>, \<open>Menu_Properties\<close>, \<open>Menu_Publish\<close>: \<open>plan/menu.py\<close> in the
    order of the file: values, loading of candidates, selection and order, the session, its proofs, and publication.
  \<^item> \<open>Progress\<close>, \<open>Serve\<close>, \<open>Monitor\<close>, \<open>Progress_Proofs\<close>, \<open>Progress_Properties\<close>: \<open>serve/progress_counts.py\<close>,
    \<open>serve/progress_sender.py\<close>, the receiver, status and routes of \<open>serve/app.py\<close>, and the worker and controller of
    \<open>serve/progress_monitor.py\<close>.
  \<^item> \<open>Features\<close>: the decoders of \<open>features/songinfo.py\<close> and the features of \<open>features/build.py\<close>.
  \<^item> \<open>Actions\<close>, \<open>Table_Fetch\<close>, \<open>Table_Match\<close>, \<open>Classification\<close>, \<open>Table_Refresh\<close>: sequences of effects that may raise; \<open>tables/fetch.py\<close>
    with its cache, \<open>tables/match.py\<close>, \<open>tables/classification.py\<close>, and the two refresh commands of \<open>cli.py\<close> with
    \<open>db/classification_adapter.py\<close>, both instances of the contract \<open>source_refresh\<close>.
  \<^item> \<open>Formats\<close>, \<open>Manifest\<close>: the text formats and the canonical JSON, and the three manifests of \<open>container/manifest.py\<close>.

  \<^bold>\<open>State and operations.\<close> Every state is a record and every operation a function from a state to a result and a state.
  A transaction returns the new database only if it returns at all. Files of the operating system are observations:
  an attempt to read sees a sequence of signals, so that a file that changes during a read is a case of the model. The
  worker, the receiver and the network between them compose as functions; the threads of the controller are an
  inductive step relation, as is the daemon of the collector.

  \<^bold>\<open>What the properties show.\<close>
  Collector: plays, lost events and cursors account for the source's counts over any run of the daemon; one tick mirrors the source, reports what it
  did, is idempotent, and leaves the database alone when it fails; an accepted snapshot was stable. Backfill and
  daily import: the collector continues where the backfill ended; the import is idempotent, leaves the
  collector's history alone, and its deltas add up. Replay: a decoded replay is within the stated bounds, a scan
  reports every file, ingestion keeps every play's gauge equal to that of its newest replay. Experiment: no play settles two
  targets, assignment is idempotent, the schedule uses fresh charts, a set proposed from a menu can always be assigned, and the
  report claims no more than its samples allow. Model: the fitted frontier is the best point of its grid, a fit ends in one of four outcomes with the
  stated snapshot, and a checked snapshot predicts a probability. Menu: a session uses each chart once, repeats come
  four entries later, a published revision is immutable and the newest one is what the view and the server show. Progress: the receiver only moves forward, a
  retransmission is harmless, the monitor never believes more than the server holds, a due poll brings the server up to date, the
  cockpit shows what was stored, and at most one sender is alive. Features: a distribution survives its encoding and every
  feature is within its bounds. Tables: a failed download leaves the cache alone and a cached table is served again during an
  outage; a match is the unique owner of its key whatever the order of the library; a composite level survives its text; a
  source that fails to refresh keeps its old rows, and a refreshed one has exactly the rows of its batch. Manifests: profiles
  share no object, an upload has each database once, what is built is valid, and what is refused is refused as such.

  \<^bold>\<open>Bounds and fuel.\<close> The consistent read of the collector tries at most the configured number of attempts. The Newton fit runs
  at most 100 steps and the frontier grid has 241 points, as in the code. The selection loop takes as fuel the number of
  eligible charts: each turn removes one, so it ends before the fuel does.

  \<^bold>\<open>Parameters.\<close> SHA-256, BLAKE2b, \<open>repr\<close>, \<open>float\<close> of a text and JSON rendering and parsing are fields of records; so are the
  random generator (with the law that a draw lies below its bound), the time zones, the clocks, the paths of the
  operating system and the network. Where a property needs a law of one of them it is a named hypothesis, and its
  witness instantiates it. Floating point numbers are exact reals or one of the three non-finite values: rounding is
  not modelled.

  \<^bold>\<open>Not modelled.\<close> The rest of the command line (\<open>cli.py\<close>, \<open>config.py\<close>), the container adapter (\<open>container/adapter.py\<close>), the other SQL adapters
  (\<open>db/*_adapter.py\<close>), sockets, response headers and the HTML page of the server, the Tk window and the settings file of the monitor, and
  the Cloudflare files: they are input and output around the parts above, or remain for a later extension.
\<close>

end
